(* ===== verification/Prelude.thy ===== *)
theory Prelude
  imports Main "HOL-Library.Word" "HOL-Library.Sublist"
begin

text \<open>
  Shared vocabulary of the development: the types that stand for Go's basic types, the
  parts of Go's \<open>strings\<close>, \<open>encoding/hex\<close>, \<open>encoding/binary\<close> and \<open>fmt\<close> packages that the
  modelled code calls, and the lemmas on them that several components use.

  A Go \<open>string\<close> or \<open>[]byte\<close> is a list: \<open>string\<close> (a list of 8-bit characters) for text and
  \<open>byte list\<close> for binary data. A Go result \<open>(T, error)\<close> is a sum \<open>'e + 'a\<close> whose left side is
  the error. A Go pointer that may be \<open>nil\<close> is an \<open>option\<close>.
\<close>

unbundle bit_operations_syntax

type_synonym byte = "8 word"
type_synonym u16 = "16 word"
type_synonym u32 = "32 word"
type_synonym u64 = "64 word"

text \<open>\<open>wire\<close> collects the equations that evaluate byte-level encoders and decoders,
  \<open>gostr\<close> the ones that evaluate string helpers.\<close>

named_theorems wire "byte-level encoders and decoders"
named_theorems gostr "string helpers of the Go standard library"

section \<open>Results\<close>

abbreviation Err :: "'e \<Rightarrow> 'e + 'a" where
  "Err \<equiv> Inl"

abbreviation Ok :: "'a \<Rightarrow> 'e + 'a" where
  "Ok \<equiv> Inr"

lemma sum_case_Ok_iff [simp]:
  "(case r of Inl e \<Rightarrow> Inl (f e) | Inr x \<Rightarrow> g x) = Inr y \<longleftrightarrow> (\<exists>x. r = Inr x \<and> g x = Inr y)"
  by (cases r) auto

section \<open>Strings\<close>

text \<open>\<open>strings.HasPrefix\<close>, \<open>strings.TrimPrefix\<close>, \<open>strings.Contains\<close> and \<open>strings.Split\<close> on a
  one-character separator.\<close>

definition HasPrefix :: "string \<Rightarrow> string \<Rightarrow> bool" where
  [gostr]: "HasPrefix s p \<longleftrightarrow> take (length p) s = p"

definition TrimPrefix :: "string \<Rightarrow> string \<Rightarrow> string" where
  [gostr]: "TrimPrefix s p = (if HasPrefix s p then drop (length p) s else s)"

fun Split :: "char \<Rightarrow> string \<Rightarrow> string list" where
  "Split c [] = [[]]"
| "Split c (x # xs) =
     (if x = c then [] # Split c xs
      else (case Split c xs of [] \<Rightarrow> [[x]] | y # ys \<Rightarrow> (x # y) # ys))"

text \<open>\<open>strings.Cut\<close>: the text before and after the first occurrence of the separator.\<close>

fun Cut :: "string \<Rightarrow> string \<Rightarrow> (string \<times> string) option" where
  "Cut [] sep = (if sep = [] then Some ([], []) else None)"
| "Cut (c # cs) sep =
     (if HasPrefix (c # cs) sep then Some ([], drop (length sep) (c # cs))
      else map_option (\<lambda>(before, after). (c # before, after)) (Cut cs sep))"

lemma HasPrefix_append [simp]: "HasPrefix (p @ s) p"
  by (simp add: HasPrefix_def)

lemma Cut_prefix: "Cut (sep @ s) sep = Some ([], s)"
proof (cases "sep @ s")
  case (Cons c cs)
  then show ?thesis
    using HasPrefix_append [of sep s] by (metis Cut.simps(2) append_eq_conv_conj)
qed simp

lemma TrimPrefix_append [simp]: "TrimPrefix (p @ s) p = s"
  by (simp add: TrimPrefix_def)

lemma HasPrefix_iff: "HasPrefix s p \<longleftrightarrow> (\<exists>t. s = p @ t)"
  by (metis HasPrefix_append HasPrefix_def append_take_drop_id)

lemma Split_not_Nil [simp]: "Split c s \<noteq> []"
  by (cases s) (auto split: list.splits)

lemma Split_no_sep: "c \<notin> set s \<Longrightarrow> Split c s = [s]"
  by (induction s) auto

lemma Split_hd: "c \<notin> set s \<Longrightarrow> hd (Split c (s @ c # t)) = s"
  by (induction s) (auto split: list.splits)

lemma Split_append_sep: "c \<notin> set s \<Longrightarrow> Split c (s @ c # t) = s # Split c t"
  by (induction s) auto

text \<open>\<open>strings.ToLower\<close> and \<open>strings.EqualFold\<close> on ASCII letters.\<close>

definition lower_char :: "char \<Rightarrow> char" where
  [gostr]: "lower_char c =
     (if 65 \<le> (of_char c :: nat) \<and> (of_char c :: nat) \<le> 90 then char_of (of_char c + 32 :: nat) else c)"

definition ToLower :: "string \<Rightarrow> string" where
  [gostr]: "ToLower s = map lower_char s"

definition EqualFold :: "string \<Rightarrow> string \<Rightarrow> bool" where
  [gostr]: "EqualFold s t \<longleftrightarrow> ToLower s = ToLower t"

lemma EqualFold_refl [simp]: "EqualFold s s"
  by (simp add: EqualFold_def)

section \<open>Numbers as text\<close>

text \<open>\<open>hex.EncodeToString\<close> and the decimal verb \<open>%d\<close> of \<open>fmt\<close>.\<close>

definition hexdigit :: "nat \<Rightarrow> char" where
  [gostr]: "hexdigit n = (if n < 10 then char_of (48 + n) else char_of (87 + n))"

definition hex_byte :: "byte \<Rightarrow> string" where
  [gostr]: "hex_byte b = [hexdigit (unat b div 16), hexdigit (unat b mod 16)]"

definition hex_EncodeToString :: "byte list \<Rightarrow> string" where
  [gostr]: "hex_EncodeToString bs = concat (map hex_byte bs)"

fun dec_nat :: "nat \<Rightarrow> string" where
  "dec_nat n = (if n < 10 then [char_of (48 + n)] else dec_nat (n div 10) @ [char_of (48 + n mod 10)])"

declare dec_nat.simps [simp del]

definition dec_int :: "int \<Rightarrow> string" where
  [gostr]: "dec_int i = (if i < 0 then CHR ''-'' # dec_nat (nat (- i)) else dec_nat (nat i))"

lemma hexdigit_inject: "m < 16 \<Longrightarrow> n < 16 \<Longrightarrow> hexdigit m = hexdigit n \<longleftrightarrow> m = n"
proof -
  assume mn: "m < 16" "n < 16"
  have "of_char (hexdigit k) = (if k < 10 then 48 + k else 87 + k)" if "k < 16" for k :: nat
    using that by (simp add: hexdigit_def)
  with mn have "of_char (hexdigit m) = (of_char (hexdigit n) :: nat) \<longleftrightarrow> m = n"
    by (auto split: if_splits)
  then show ?thesis
    by (metis)
qed

lemma unat_byte_less: "unat (b :: byte) < 256"
  using unsigned_less [of b] by simp

lemma hex_byte_inject [simp]: "hex_byte a = hex_byte b \<longleftrightarrow> a = b"
proof
  assume h: "hex_byte a = hex_byte b"
  have "unat a div 16 < 16" "unat b div 16 < 16"
    using unat_byte_less [of a] unat_byte_less [of b] by auto
  with h have "unat a div 16 = unat b div 16" "unat a mod 16 = unat b mod 16"
    by (auto simp: hex_byte_def hexdigit_inject)
  then have "unat a = unat b"
    by (metis div_mult_mod_eq)
  then show "a = b"
    by (simp add: word_unat_eq_iff)
qed simp

lemma length_hex_byte [simp]: "length (hex_byte b) = 2"
  by (simp add: hex_byte_def)

lemma length_hex_EncodeToString [simp]: "length (hex_EncodeToString bs) = 2 * length bs"
  by (induction bs) (auto simp: hex_EncodeToString_def)

lemma hex_EncodeToString_Cons: "hex_EncodeToString (b # bs) = hex_byte b @ hex_EncodeToString bs"
  by (simp add: hex_EncodeToString_def)

lemma hex_EncodeToString_inject [simp]:
  "hex_EncodeToString as = hex_EncodeToString bs \<longleftrightarrow> as = bs"
proof (induction as arbitrary: bs)
  case Nil
  then show ?case
    by (cases bs) (auto simp: hex_EncodeToString_def hex_byte_def)
next
  case (Cons a as)
  show ?case
  proof (cases bs)
    case Nil
    then show ?thesis by (simp add: hex_EncodeToString_def hex_byte_def)
  next
    case (Cons b bs')
    then show ?thesis
      by (simp add: hex_EncodeToString_Cons Cons.IH)
  qed
qed

lemma dec_nat_not_Nil [simp]: "dec_nat n \<noteq> []"
  by (subst dec_nat.simps) simp

lemma set_dec_nat: "set (dec_nat n) \<subseteq> char_of ` {48..57 :: nat}"
proof (induction n rule: dec_nat.induct)
  case (1 n)
  have "48 + n mod 10 \<in> {48..57 :: nat}"
    by simp
  with 1 show ?case
    by (subst dec_nat.simps) (cases "n < 10", auto)
qed

section \<open>strconv.ParseUint, base ten\<close>

definition digit_val :: "char \<Rightarrow> nat option" where
  "digit_val c = (let n = of_char c in if 48 \<le> n \<and> n \<le> 57 then Some (n - 48) else None)"

fun parse_digits :: "nat \<Rightarrow> string \<Rightarrow> nat option" where
  "parse_digits acc [] = Some acc"
| "parse_digits acc (c # cs) =
     (case digit_val c of None \<Rightarrow> None | Some d \<Rightarrow> parse_digits (10 * acc + d) cs)"

definition ParseUint :: "nat \<Rightarrow> string \<Rightarrow> nat option" where
  "ParseUint bits s =
     (if s = [] then None
      else case parse_digits 0 s of None \<Rightarrow> None | Some n \<Rightarrow> if n < 2 ^ bits then Some n else None)"

lemma digit_val_char_of: "d < 10 \<Longrightarrow> digit_val (char_of (48 + d)) = Some d"
  by (simp add: digit_val_def)

lemma parse_digits_append:
  "parse_digits acc (xs @ ys) = (case parse_digits acc xs of None \<Rightarrow> None | Some n \<Rightarrow> parse_digits n ys)"
  by (induction xs arbitrary: acc) (auto split: option.splits)

lemma parse_digits_dec_nat: "parse_digits 0 (dec_nat n) = Some n"
proof (induction n rule: dec_nat.induct)
  case (1 n)
  show ?case
  proof (cases "n < 10")
    case True
    then show ?thesis by (subst dec_nat.simps) (simp add: digit_val_char_of)
  next
    case False
    with 1 show ?thesis
      by (subst dec_nat.simps) (simp add: parse_digits_append digit_val_char_of)
  qed
qed

lemma ParseUint_dec_nat: "n < 2 ^ bits \<Longrightarrow> ParseUint bits (dec_nat n) = Some n"
  by (simp add: ParseUint_def parse_digits_dec_nat)

end
