(* ===== verification/Registry.thy ===== *)
theory Registry
  imports Prelude
begin

text \<open>
  The contract of a keyed registry: a mutex-protected Go map with one way to write a key, one way
  to drop it and one way to look it up. The relay's two session tables, the agent's peer table, the
  WireGuard configurator's peer table and the table of probes are registries of this kind. What a client may rely on is proved once here: after any history of
  writes and drops, a lookup sees the last operation on its key and nothing else.
\<close>

datatype ('k, 'v) reg_op = Put 'k 'v | Del 'k

fun reg_key :: "('k, 'v) reg_op \<Rightarrow> 'k" where
  "reg_key (Put k v) = k"
| "reg_key (Del k) = k"

fun reg_val :: "('k, 'v) reg_op \<Rightarrow> 'v option" where
  "reg_val (Put k v) = Some v"
| "reg_val (Del k) = None"

fun reg_step ::
  "('s \<Rightarrow> 'k \<Rightarrow> 'v \<Rightarrow> 's) \<Rightarrow> ('s \<Rightarrow> 'k \<Rightarrow> 's) \<Rightarrow> 's \<Rightarrow> ('k, 'v) reg_op \<Rightarrow> 's" where
  "reg_step put del s (Put k v) = put s k v"
| "reg_step put del s (Del k) = del s k"

definition reg_run ::
  "('s \<Rightarrow> 'k \<Rightarrow> 'v \<Rightarrow> 's) \<Rightarrow> ('s \<Rightarrow> 'k \<Rightarrow> 's) \<Rightarrow> 's \<Rightarrow> ('k, 'v) reg_op list \<Rightarrow> 's" where
  "reg_run put del = foldl (reg_step put del)"

lemma reg_run_Nil [simp]: "reg_run put del s [] = s"
  by (simp add: reg_run_def)

lemma reg_run_snoc [simp]: "reg_run put del s (ops @ [op]) = reg_step put del (reg_run put del s ops) op"
  by (simp add: reg_run_def)

locale registry =
  fixes get :: "'s \<Rightarrow> 'k \<Rightarrow> 'v option"
    and put :: "'s \<Rightarrow> 'k \<Rightarrow> 'v \<Rightarrow> 's"
    and del :: "'s \<Rightarrow> 'k \<Rightarrow> 's"
  assumes get_put: "get (put s k v) j = (if j = k then Some v else get s j)"
    and get_del: "get (del s k) j = (if j = k then None else get s j)"
begin

lemma get_step:
  "get (reg_step put del s op) k = (if k = reg_key op then reg_val op else get s k)"
  by (cases op) (simp_all add: get_put get_del)

text \<open>A history acts on the table as it acts on a plain map.\<close>

lemma get_run:
  "get (reg_run put del s ops) = foldl (\<lambda>m op. m(reg_key op := reg_val op)) (get s) ops"
proof (induction ops rule: rev_induct)
  case Nil
  then show ?case by simp
next
  case (snoc op ops)
  then show ?case by (auto simp: get_step)
qed

text \<open>The last operation on a key decides; operations on other keys do not interfere.\<close>

lemma get_run_last:
  "get (reg_run put del s ops) k =
     (case find (\<lambda>op. reg_key op = k) (rev ops) of Some op \<Rightarrow> reg_val op | None \<Rightarrow> get s k)"
  by (induction ops rule: rev_induct) (auto simp: get_step)

lemma get_run_frame: "k \<notin> reg_key ` set ops \<Longrightarrow> get (reg_run put del s ops) k = get s k"
  by (induction ops rule: rev_induct) (auto simp: get_step)

lemma get_put_same [simp]: "get (put s k v) k = Some v"
  by (simp add: get_put)

lemma get_del_same [simp]: "get (del s k) k = None"
  by (simp add: get_del)

end

end
