(* ===== verification/Wire.thy ===== *)
theory Wire
  imports Prelude
begin

text \<open>
  Fixed-width integers on the wire (\<open>encoding/binary\<close>, little and big endian) and the contract
  that every fixed-size encoder of the program keeps with its decoder. The relay frame header,
  the peer identifier and the IPv4 address are three encoders of this kind; each interprets
  \<open>codec\<close> in its own theory.
\<close>

section \<open>encoding/binary\<close>

definition le_PutUint16 :: "u16 \<Rightarrow> byte list" where
  [wire]: "le_PutUint16 v = [ucast v, ucast (drop_bit 8 v)]"

definition le_PutUint32 :: "u32 \<Rightarrow> byte list" where
  [wire]: "le_PutUint32 v = [ucast v, ucast (drop_bit 8 v), ucast (drop_bit 16 v), ucast (drop_bit 24 v)]"

definition be_PutUint32 :: "u32 \<Rightarrow> byte list" where
  [wire]: "be_PutUint32 v = [ucast (drop_bit 24 v), ucast (drop_bit 16 v), ucast (drop_bit 8 v), ucast v]"

definition be_PutUint64 :: "u64 \<Rightarrow> byte list" where
  [wire]: "be_PutUint64 v =
     [ucast (drop_bit 56 v), ucast (drop_bit 48 v), ucast (drop_bit 40 v), ucast (drop_bit 32 v),
      ucast (drop_bit 24 v), ucast (drop_bit 16 v), ucast (drop_bit 8 v), ucast v]"

text \<open>The readers index the slice; a slice that is too short panics in Go, and every caller
  checks or fixes the length first. The model returns \<open>None\<close> there.\<close>

fun le_Uint16 :: "byte list \<Rightarrow> u16 option" where
  "le_Uint16 (a # b # _) = Some (ucast a OR push_bit 8 (ucast b))"
| "le_Uint16 _ = None"

fun le_Uint32 :: "byte list \<Rightarrow> u32 option" where
  "le_Uint32 (a # b # c # d # _) =
     Some (ucast a OR push_bit 8 (ucast b) OR push_bit 16 (ucast c) OR push_bit 24 (ucast d))"
| "le_Uint32 _ = None"

fun be_Uint32 :: "byte list \<Rightarrow> u32 option" where
  "be_Uint32 (a # b # c # d # _) =
     Some (push_bit 24 (ucast a) OR push_bit 16 (ucast b) OR push_bit 8 (ucast c) OR ucast d)"
| "be_Uint32 _ = None"

fun be_Uint64 :: "byte list \<Rightarrow> u64 option" where
  "be_Uint64 (a # b # c # d # e # f # g # h # _) =
     Some (push_bit 56 (ucast a) OR push_bit 48 (ucast b) OR push_bit 40 (ucast c) OR
           push_bit 32 (ucast d) OR push_bit 24 (ucast e) OR push_bit 16 (ucast f) OR
           push_bit 8 (ucast g) OR ucast h)"
| "be_Uint64 _ = None"

text \<open>The byte at offset \<open>k\<close> of a word, put back at its offset, is the word restricted to those
  eight bits.\<close>

lemma bit_byte_field:
  "bit (push_bit k (ucast (ucast (drop_bit k (v :: 'a word)) :: byte)) :: 'a :: len word) n \<longleftrightarrow> k \<le> n \<and> n < k + 8 \<and> bit v n"
  by (auto simp: bit_simps dest: bit_imp_le_length)

lemma bit_byte_low: "bit (ucast (ucast v :: byte) :: 'a :: len word) n \<longleftrightarrow> n < 8 \<and> bit (v :: 'a word) n"
  by (auto simp: bit_simps dest: bit_imp_le_length)

lemma byte_cases32:
  "(n :: nat) < 32 \<Longrightarrow> n < 8 \<or> 8 \<le> n \<and> n < 16 \<or> 16 \<le> n \<and> n < 24 \<or> 24 \<le> n \<and> n < 32"
  by linarith

lemma byte_cases64:
  "(n :: nat) < 64 \<Longrightarrow> n < 8 \<or> 8 \<le> n \<and> n < 16 \<or> 16 \<le> n \<and> n < 24 \<or> 24 \<le> n \<and> n < 32 \<or>
     32 \<le> n \<and> n < 40 \<or> 40 \<le> n \<and> n < 48 \<or> 48 \<le> n \<and> n < 56 \<or> 56 \<le> n \<and> n < 64"
  by linarith

lemma le16_join: "ucast (ucast v :: byte) OR push_bit 8 (ucast (ucast (drop_bit 8 v) :: byte)) = (v :: u16)"
  by (rule bit_word_eqI) (simp add: bit_or_iff bit_byte_field bit_byte_low, linarith)

lemma le32_join:
  "ucast (ucast v :: byte) OR push_bit 8 (ucast (ucast (drop_bit 8 v) :: byte)) OR
   push_bit 16 (ucast (ucast (drop_bit 16 v) :: byte)) OR
   push_bit 24 (ucast (ucast (drop_bit 24 v) :: byte)) = (v :: u32)"
  by (rule bit_word_eqI) (simp add: bit_or_iff bit_byte_field bit_byte_low, use byte_cases32 in blast)

lemma be32_join:
  "push_bit 24 (ucast (ucast (drop_bit 24 v) :: byte)) OR
   push_bit 16 (ucast (ucast (drop_bit 16 v) :: byte)) OR
   push_bit 8 (ucast (ucast (drop_bit 8 v) :: byte)) OR ucast (ucast v :: byte) = (v :: u32)"
  by (rule bit_word_eqI) (simp add: bit_or_iff bit_byte_field bit_byte_low, use byte_cases32 in blast)

lemma be64_join:
  "push_bit 56 (ucast (ucast (drop_bit 56 v) :: byte)) OR
   push_bit 48 (ucast (ucast (drop_bit 48 v) :: byte)) OR
   push_bit 40 (ucast (ucast (drop_bit 40 v) :: byte)) OR
   push_bit 32 (ucast (ucast (drop_bit 32 v) :: byte)) OR
   push_bit 24 (ucast (ucast (drop_bit 24 v) :: byte)) OR
   push_bit 16 (ucast (ucast (drop_bit 16 v) :: byte)) OR
   push_bit 8 (ucast (ucast (drop_bit 8 v) :: byte)) OR ucast (ucast v :: byte) = (v :: u64)"
  by (rule bit_word_eqI) (simp add: bit_or_iff bit_byte_field bit_byte_low, use byte_cases64 in blast)

lemma le_Uint16_Put [simp]: "le_Uint16 (le_PutUint16 v @ r) = Some v"
  by (simp add: le_PutUint16_def le16_join)

lemma le_Uint32_Put [simp]: "le_Uint32 (le_PutUint32 v @ r) = Some v"
  by (simp add: le_PutUint32_def le32_join)

lemma be_Uint32_Put [simp]: "be_Uint32 (be_PutUint32 v @ r) = Some v"
  by (simp add: be_PutUint32_def be32_join)

lemma be_Uint64_Put [simp]: "be_Uint64 (be_PutUint64 v @ r) = Some v"
  by (simp add: be_PutUint64_def be64_join)

text \<open>The other direction: writing back what was read restores the bytes.\<close>

lemma byte_high_bit:
  "\<not> bit (b :: byte) (8 + n)" "\<not> bit (b :: byte) (16 + n)" "\<not> bit (b :: byte) (24 + n)"
  "\<not> bit (b :: byte) (32 + n)" "\<not> bit (b :: byte) (40 + n)" "\<not> bit (b :: byte) (48 + n)"
  "\<not> bit (b :: byte) (56 + n)"
  by (auto dest!: bit_imp_le_length)

lemma le_Put_Uint16: "le_Uint16 (a # b # r) = Some v \<Longrightarrow> le_PutUint16 v = [a, b]"
  by (simp add: le_PutUint16_def, safe intro!: bit_word_eqI; simp add: bit_simps byte_high_bit)

lemma le_Put_Uint32: "le_Uint32 (a # b # c # d # r) = Some v \<Longrightarrow> le_PutUint32 v = [a, b, c, d]"
  by (simp add: le_PutUint32_def, safe intro!: bit_word_eqI; simp add: bit_simps byte_high_bit)

lemma be_Put_Uint32: "be_Uint32 (a # b # c # d # r) = Some v \<Longrightarrow> be_PutUint32 v = [a, b, c, d]"
  by (simp add: be_PutUint32_def, safe intro!: bit_word_eqI; simp add: bit_simps byte_high_bit)

lemma be_Put_Uint64:
  "be_Uint64 (a # b # c # d # e # f # g # h # r) = Some v \<Longrightarrow> be_PutUint64 v = [a, b, c, d, e, f, g, h]"
  by (simp add: be_PutUint64_def, safe intro!: bit_word_eqI; simp add: bit_simps byte_high_bit)

lemma length_Put [simp]:
  "length (le_PutUint16 v) = 2" "length (le_PutUint32 w) = 4"
  "length (be_PutUint32 w) = 4" "length (be_PutUint64 x) = 8"
  by (simp_all add: wire)

section \<open>The contract of a fixed-size codec\<close>

locale codec =
  fixes enc :: "'a \<Rightarrow> byte list"
    and dec :: "byte list \<Rightarrow> 'a option"
    and width :: nat
  assumes length_enc: "length (enc x) = width"
    and dec_enc: "dec (enc x @ rest) = Some x"
    and dec_short: "length bs < width \<Longrightarrow> dec bs = None"
    and enc_dec: "dec bs = Some x \<Longrightarrow> enc x = take width bs"
begin

lemma dec_enc_exact: "dec (enc x) = Some x"
  using dec_enc [of x "[]"] by simp

lemma enc_inject: "enc x = enc y \<longleftrightarrow> x = y"
  using dec_enc_exact by (metis option.inject)

text \<open>A stream of encodings can be cut in one way only.\<close>

lemma enc_append_inject: "enc x @ r = enc y @ s \<longleftrightarrow> x = y \<and> r = s"
  by (auto simp: length_enc enc_inject)

lemma dec_long: "dec bs = Some x \<Longrightarrow> width \<le> length bs"
  using dec_short by (metis linorder_not_less option.distinct(1))

text \<open>Decoding depends on the first \<open>width\<close> bytes only.\<close>

lemma dec_append: "dec bs = Some x \<Longrightarrow> dec (bs @ r) = Some x"
  by (metis append_assoc append_take_drop_id dec_enc enc_dec)

end

end
