(* ===== verification/Lrp_Protocol.thy ===== *)
theory Lrp_Protocol
  imports Wire
begin

text \<open>
  The relay frame header (\<open>internal/relay/lrp_protocol.go\<close>): twelve bytes, little endian, in front
  of every payload that a relay client and a relay server exchange. \<open>Marshal\<close> and \<open>Unmarshal\<close> are
  a \<open>codec\<close>; frames of the shape that \<open>makeFrame\<close> builds can therefore be cut back out of a
  byte stream in exactly one way.
\<close>

section \<open>Data\<close>

definition HeaderSize :: nat where
  [simp]: "HeaderSize = 12"

definition cmd_Register :: byte where "cmd_Register = 1"
definition cmd_Forward :: byte where "cmd_Forward = 2"
definition cmd_KeepAlive :: byte where "cmd_KeepAlive = 3"
definition cmd_Probe :: byte where "cmd_Probe = 4"

lemmas cmd_defs = cmd_Register_def cmd_Forward_def cmd_KeepAlive_def cmd_Probe_def

record Header =
  Seq :: u16
  PayloadLen :: u32
  Cmd :: byte
  ToID :: u32
  Reserved :: byte

datatype lrp_error = HeaderTooShort

section \<open>Operations\<close>

definition Marshal :: "Header \<Rightarrow> byte list" where
  "Marshal h = le_PutUint16 (Seq h) @ le_PutUint32 (PayloadLen h) @ [Cmd h]
     @ le_PutUint32 (ToID h) @ [Reserved h]"

text \<open>\<open>MarshalInto\<close> overwrites the first twelve bytes of a caller's buffer; slicing a shorter
  buffer panics.\<close>

definition MarshalInto :: "Header \<Rightarrow> byte list \<Rightarrow> byte list option" where
  "MarshalInto h buf =
     (if length buf < HeaderSize then None
      else Some (le_PutUint16 (Seq h) @ le_PutUint32 (PayloadLen h) @ [Cmd h]
             @ le_PutUint32 (ToID h) @ [Reserved h] @ drop HeaderSize buf))"

definition Unmarshal :: "byte list \<Rightarrow> lrp_error + Header" where
  "Unmarshal data =
     (if length data < HeaderSize then Err HeaderTooShort
      else Ok \<lparr> Seq = the (le_Uint16 data),
                PayloadLen = the (le_Uint32 (drop 2 data)),
                Cmd = data ! 6,
                ToID = the (le_Uint32 (drop 7 data)),
                Reserved = data ! 11 \<rparr>)"

section \<open>The header is a codec\<close>

definition header_of :: "byte list \<Rightarrow> Header option" where
  "header_of bs = (case Unmarshal bs of Inl _ \<Rightarrow> None | Inr h \<Rightarrow> Some h)"

lemma length_Marshal [simp]: "length (Marshal h) = 12"
  by (simp add: Marshal_def)

lemma Unmarshal_Marshal: "Unmarshal (Marshal h @ rest) = Ok h"
  by (cases h) (simp add: Unmarshal_def Marshal_def wire le16_join le32_join nth_append)

lemma twelve_bytes:
  assumes "12 \<le> length bs"
  obtains a b c d e f g h i j k l r where "bs = a # b # c # d # e # f # g # h # i # j # k # l # r"
proof -
  have "length (take 12 bs) = Suc (Suc (Suc (Suc (Suc (Suc (Suc (Suc (Suc (Suc (Suc (Suc 0)))))))))))"
    using assms by simp
  then obtain a b c d e f g h i j k l where "take 12 bs = [a, b, c, d, e, f, g, h, i, j, k, l]"
    unfolding length_Suc_conv by auto
  then have "bs = [a, b, c, d, e, f, g, h, i, j, k, l] @ drop 12 bs"
    by (metis append_take_drop_id)
  then show thesis
    using that by simp
qed

lemma Marshal_Unmarshal: "Unmarshal bs = Ok h \<Longrightarrow> Marshal h = take 12 bs"
proof -
  assume u: "Unmarshal bs = Ok h"
  then have "12 \<le> length bs"
    by (simp add: Unmarshal_def split: if_splits)
  then obtain a b c d e f g i j k l m r
    where bs: "bs = a # b # c # d # e # f # g # i # j # k # l # m # r"
    by (rule twelve_bytes)
  have "le_PutUint16 (Seq h) = [a, b]"
    using u by (intro le_Put_Uint16 [where r = r]) (auto simp: Unmarshal_def bs)
  moreover have "le_PutUint32 (PayloadLen h) = [c, d, e, f]"
    using u by (intro le_Put_Uint32 [where r = r]) (auto simp: Unmarshal_def bs)
  moreover have "le_PutUint32 (ToID h) = [i, j, k, l]"
    using u by (intro le_Put_Uint32 [where r = r]) (auto simp: Unmarshal_def bs)
  moreover have "Cmd h = g" "Reserved h = m"
    using u by (auto simp: Unmarshal_def bs)
  ultimately show ?thesis
    by (simp add: Marshal_def bs)
qed

interpretation header: codec Marshal header_of HeaderSize
proof
  fix h :: Header and bs rest :: "byte list"
  show "length (Marshal h) = HeaderSize" by simp
  show "header_of (Marshal h @ rest) = Some h" by (simp add: header_of_def Unmarshal_Marshal)
  show "header_of bs = None" if "length bs < HeaderSize"
    using that by (simp add: header_of_def Unmarshal_def)
  show "Marshal h = take HeaderSize bs" if "header_of bs = Some h"
    using that by (auto simp: header_of_def intro: Marshal_Unmarshal split: sum.splits)
qed

lemma Unmarshal_exact [simp]: "Unmarshal (Marshal h) = Ok h"
  using Unmarshal_Marshal [of h "[]"] by simp

lemma Unmarshal_total: "length bs = HeaderSize \<Longrightarrow> \<exists>h. Unmarshal bs = Ok h"
  by (simp add: Unmarshal_def)

section \<open>Properties\<close>

text \<open>The frame header round-trips. Decoding an encoded header, whatever follows it in the
  buffer, gives the header back; encoding what was decoded gives back the first twelve bytes;
  a buffer shorter than the header is refused; and writing into a caller's buffer writes the same
  bytes and leaves the rest of the buffer alone.\<close>

theorem lrp_header_roundtrip:
  "Unmarshal (Marshal h @ rest) = Ok h \<and>
   (Unmarshal bs = Ok h \<longleftrightarrow> 12 \<le> length bs \<and> take 12 bs = Marshal h) \<and>
   (Unmarshal bs = Err HeaderTooShort \<longleftrightarrow> length bs < 12) \<and>
   MarshalInto h buf = (if length buf < 12 then None else Some (Marshal h @ drop 12 buf))"
proof (intro conjI)
  show "Unmarshal (Marshal h @ rest) = Ok h"
    by (rule Unmarshal_Marshal)
  show "Unmarshal bs = Ok h \<longleftrightarrow> 12 \<le> length bs \<and> take 12 bs = Marshal h"
  proof
    assume "Unmarshal bs = Ok h"
    then show "12 \<le> length bs \<and> take 12 bs = Marshal h"
      using Marshal_Unmarshal by (auto simp: Unmarshal_def split: if_splits)
  next
    assume "12 \<le> length bs \<and> take 12 bs = Marshal h"
    then have "bs = Marshal h @ drop 12 bs"
      by (metis append_take_drop_id)
    then show "Unmarshal bs = Ok h"
      using Unmarshal_Marshal by metis
  qed
  show "Unmarshal bs = Err HeaderTooShort \<longleftrightarrow> length bs < 12"
    by (simp add: Unmarshal_def)
  show "MarshalInto h buf = (if length buf < 12 then None else Some (Marshal h @ drop 12 buf))"
    by (simp add: MarshalInto_def Marshal_def)
qed

end
