(* ===== verification/Relay_Sessions.thy ===== *)
theory Relay_Sessions
  imports Registry Lrp_Protocol
begin

text \<open>
  The relay's session table (\<open>internal/relay/session_manager.go\<close>): which connection a peer
  identifier is reached over. Streams and QUIC connections are handles; what a write or a datagram
  send returns is decided by the network and is the parameter \<open>net\<close> (\<open>None\<close> for success, the error
  text otherwise). \<open>Relay\<close> returns the send it attempted together with its result.
\<close>

section \<open>Data\<close>

record Session =
  sess_ID :: u64
  sess_Stream :: nat
  sess_Type :: string

record SessionManager =
  sessions :: "u64 \<rightharpoonup> Session"
  quicConns :: "u64 \<rightharpoonup> nat"

datatype delivery = SendDatagram nat "byte list" | StreamWrite nat "byte list"

datatype relay_error = RelayTargetNotFound | RelaySendFailed string

section \<open>Operations\<close>

definition NewSessionManager :: SessionManager where
  "NewSessionManager = \<lparr> sessions = (\<lambda>_. None), quicConns = (\<lambda>_. None) \<rparr>"

definition RegisterSession :: "SessionManager \<Rightarrow> u64 \<Rightarrow> Session \<Rightarrow> SessionManager" where
  "RegisterSession m pid s = m\<lparr> sessions := (sessions m)(pid \<mapsto> s) \<rparr>"

definition Unregister :: "SessionManager \<Rightarrow> u64 \<Rightarrow> SessionManager" where
  "Unregister m pid = m\<lparr> sessions := (sessions m)(pid := None), quicConns := (quicConns m)(pid := None) \<rparr>"

definition RegisterQUIC :: "SessionManager \<Rightarrow> u64 \<Rightarrow> nat \<Rightarrow> nat \<Rightarrow> SessionManager" where
  "RegisterQUIC m pid ctrl conn =
     m\<lparr> sessions := (sessions m)(pid \<mapsto> \<lparr> sess_ID = pid, sess_Stream = ctrl, sess_Type = ''QUIC'' \<rparr>),
        quicConns := (quicConns m)(pid \<mapsto> conn) \<rparr>"

definition GetSession :: "SessionManager \<Rightarrow> u64 \<Rightarrow> Session option" where
  "GetSession m pid = sessions m pid"

definition Relay ::
  "(delivery \<Rightarrow> string option) \<Rightarrow> SessionManager \<Rightarrow> u64 \<Rightarrow> byte list \<Rightarrow> delivery option \<times> relay_error option" where
  "Relay net m toID frame =
     (case quicConns m toID of
        Some qconn \<Rightarrow>
          (let d = SendDatagram qconn frame in (Some d, map_option RelaySendFailed (net d)))
      | None \<Rightarrow>
          (case sessions m toID of
             Some session \<Rightarrow>
               (let d = StreamWrite (sess_Stream session) frame in (Some d, map_option RelaySendFailed (net d)))
           | None \<Rightarrow> (None, Some RelayTargetNotFound)))"

definition ConnectedPeers :: "SessionManager \<Rightarrow> nat" where
  "ConnectedPeers m = card (dom (sessions m))"

lemmas session_defs = RegisterSession_def Unregister_def RegisterQUIC_def GetSession_def NewSessionManager_def

section \<open>The table is a registry, over both transports\<close>

interpretation tcp_sessions: registry GetSession RegisterSession Unregister
  by unfold_locales (simp_all add: session_defs)

definition quic_entry :: "SessionManager \<Rightarrow> u64 \<Rightarrow> (nat \<times> nat) option" where
  "quic_entry m pid =
     (case (GetSession m pid, quicConns m pid) of
        (Some s, Some conn) \<Rightarrow> Some (sess_Stream s, conn)
      | _ \<Rightarrow> None)"

interpretation quic_conns: registry quic_entry "\<lambda>m pid (ctrl, conn). RegisterQUIC m pid ctrl conn" Unregister
  by unfold_locales (auto simp: quic_entry_def session_defs split: prod.splits option.splits)

section \<open>Histories of the table\<close>

datatype sess_op =
    OpRegister u64 Session
  | OpUnregister u64
  | OpRegisterQUIC u64 nat nat

fun sess_apply :: "SessionManager \<Rightarrow> sess_op \<Rightarrow> SessionManager" where
  "sess_apply m (OpRegister pid s) = RegisterSession m pid s"
| "sess_apply m (OpUnregister pid) = Unregister m pid"
| "sess_apply m (OpRegisterQUIC pid ctrl conn) = RegisterQUIC m pid ctrl conn"

definition sess_run :: "sess_op list \<Rightarrow> SessionManager" where
  "sess_run = foldl sess_apply NewSessionManager"

text \<open>The operations since the identifier was last unregistered, latest first.\<close>

definition since_unregister :: "u64 \<Rightarrow> sess_op list \<Rightarrow> sess_op list" where
  "since_unregister pid ops = takeWhile (\<lambda>op. op \<noteq> OpUnregister pid) (rev ops)"

fun quic_route :: "u64 \<Rightarrow> sess_op list \<Rightarrow> nat option" where
  "quic_route pid [] = None"
| "quic_route pid (OpRegisterQUIC j ctrl conn # ops) = (if j = pid then Some conn else quic_route pid ops)"
| "quic_route pid (_ # ops) = quic_route pid ops"

fun stream_route :: "u64 \<Rightarrow> sess_op list \<Rightarrow> nat option" where
  "stream_route pid [] = None"
| "stream_route pid (OpRegisterQUIC j ctrl conn # ops) = (if j = pid then Some ctrl else stream_route pid ops)"
| "stream_route pid (OpRegister j s # ops) = (if j = pid then Some (sess_Stream s) else stream_route pid ops)"
| "stream_route pid (OpUnregister j # ops) = stream_route pid ops"

lemma sess_run_snoc: "sess_run (ops @ [op]) = sess_apply (sess_run ops) op"
  by (simp add: sess_run_def)

lemma since_unregister_snoc:
  "since_unregister pid (ops @ [op]) = (if op = OpUnregister pid then [] else op # since_unregister pid ops)"
  by (simp add: since_unregister_def)

lemma quicConns_run: "quicConns (sess_run ops) pid = quic_route pid (since_unregister pid ops)"
proof (induction ops rule: rev_induct)
  case Nil
  then show ?case by (simp add: sess_run_def session_defs since_unregister_def)
next
  case (snoc op ops)
  then show ?case
    by (cases op) (auto simp: sess_run_snoc since_unregister_snoc session_defs)
qed

lemma sessions_run:
  "map_option sess_Stream (sessions (sess_run ops) pid) = stream_route pid (since_unregister pid ops)"
proof (induction ops rule: rev_induct)
  case Nil
  then show ?case by (simp add: sess_run_def session_defs since_unregister_def)
next
  case (snoc op ops)
  then show ?case
    by (cases op) (auto simp: sess_run_snoc since_unregister_snoc session_defs)
qed

lemma finite_sessions_run: "finite (dom (sessions (sess_run ops)))"
  by (induction ops rule: rev_induct)
     (auto simp: sess_run_snoc sess_run_def session_defs elim!: sess_apply.elims)

lemma Relay_route:
  "fst (Relay net m pid frame) =
     (case quicConns m pid of Some c \<Rightarrow> Some (SendDatagram c frame)
      | None \<Rightarrow> map_option (\<lambda>c. StreamWrite c frame) (map_option sess_Stream (sessions m pid)))"
  by (simp add: Relay_def Let_def split: option.splits)

lemma Relay_not_found:
  "Relay net m pid frame = (None, Some RelayTargetNotFound) \<longleftrightarrow> quicConns m pid = None \<and> sessions m pid = None"
  by (auto simp: Relay_def Let_def split: option.splits)

section \<open>Properties\<close>

text \<open>What a relay attempt does after any history of registrations. A frame for an identifier
  goes out as a datagram on the QUIC connection registered last since the identifier was last
  unregistered; failing that, on the stream registered last since then; and if there was no
  registration since then nothing is sent and the caller gets the not-found error.\<close>

theorem relay_route_of_history:
  "fst (Relay net (sess_run ops) pid frame) =
     (case quic_route pid (since_unregister pid ops) of
        Some c \<Rightarrow> Some (SendDatagram c frame)
      | None \<Rightarrow> map_option (\<lambda>c. StreamWrite c frame) (stream_route pid (since_unregister pid ops))) \<and>
   (snd (Relay net (sess_run ops) pid frame) = Some RelayTargetNotFound \<longleftrightarrow>
      quic_route pid (since_unregister pid ops) = None \<and> stream_route pid (since_unregister pid ops) = None) \<and>
   (\<forall>d. fst (Relay net (sess_run ops) pid frame) = Some d \<longrightarrow>
      snd (Relay net (sess_run ops) pid frame) = map_option RelaySendFailed (net d))"
proof (intro conjI allI impI)
  show "fst (Relay net (sess_run ops) pid frame) =
     (case quic_route pid (since_unregister pid ops) of
        Some c \<Rightarrow> Some (SendDatagram c frame)
      | None \<Rightarrow> map_option (\<lambda>c. StreamWrite c frame) (stream_route pid (since_unregister pid ops)))"
    by (simp only: Relay_route quicConns_run sessions_run)
  show "snd (Relay net (sess_run ops) pid frame) = Some RelayTargetNotFound \<longleftrightarrow>
      quic_route pid (since_unregister pid ops) = None \<and> stream_route pid (since_unregister pid ops) = None"
    by (auto simp: Relay_def Let_def simp flip: quicConns_run sessions_run split: option.splits)
  fix d
  assume "fst (Relay net (sess_run ops) pid frame) = Some d"
  then show "snd (Relay net (sess_run ops) pid frame) = map_option RelaySendFailed (net d)"
    by (auto simp: Relay_def Let_def split: option.splits)
qed

theorem relay_route_of_history_witness:
  "fst (Relay (\<lambda>_. None) (sess_run [OpRegisterQUIC 7 1 2, OpUnregister 7, OpRegister 7 \<lparr> sess_ID = 7, sess_Stream = 3, sess_Type = ''TCP'' \<rparr>]) 7 [])
     = Some (StreamWrite 3 []) \<and>
   snd (Relay (\<lambda>_. None) (sess_run [OpRegisterQUIC 7 1 2, OpUnregister 7, OpRegister 7 \<lparr> sess_ID = 7, sess_Stream = 3, sess_Type = ''TCP'' \<rparr>]) 7 [])
     = None"
  using relay_route_of_history [of "\<lambda>_. None"
      "[OpRegisterQUIC 7 1 2, OpUnregister 7, OpRegister 7 \<lparr> sess_ID = 7, sess_Stream = 3, sess_Type = ''TCP'' \<rparr>]" 7 "[]"]
  by (simp add: since_unregister_def)

text \<open>A peer that was connected over QUIC and registers again over TCP is not reachable on its
  new stream. As long as the identifier has not been unregistered, \<open>Register\<close> replaces the session
  but leaves the QUIC connection in place, and \<open>Relay\<close> prefers that connection.\<close>

theorem tcp_reregistration_shadowed:
  assumes "quic_route pid (since_unregister pid ops) = Some c"
  shows "fst (Relay net (sess_run (ops @ [OpRegister pid s])) pid frame) = Some (SendDatagram c frame)
    \<and> GetSession (sess_run (ops @ [OpRegister pid s])) pid = Some s"
  using assms
  by (simp add: Relay_route sess_run_snoc session_defs quicConns_run)

theorem tcp_reregistration_shadowed_witness:
  "fst (Relay (\<lambda>_. None)
      (sess_run ([OpRegisterQUIC 7 1 2] @ [OpRegister 7 \<lparr> sess_ID = 7, sess_Stream = 3, sess_Type = ''TCP'' \<rparr>])) 7 [9])
     = Some (SendDatagram 2 [9])"
  using tcp_reregistration_shadowed [of 7 "[OpRegisterQUIC 7 1 2]" 2]
  by (simp add: since_unregister_def)

end
