(* ===== verification/Relay_Server.thy ===== *)
theory Relay_Server
  imports Relay_Sessions
begin

text \<open>
  The relay server over TCP and QUIC (\<open>internal/relay/lrp_server.go\<close>, \<open>lrp_server_quic.go\<close>). Each
  connection is served by its own goroutine over the shared session table. A byte stream is the
  list of bytes that will arrive before it ends (by close, error or read deadline, which all end
  the loop the same way). The single-connection loops are functions on that list; the interleaving
  of all goroutines is the step relation \<open>relay_step\<close>.
\<close>

section \<open>Reading from a stream\<close>

text \<open>\<open>io.ReadFull\<close>: either the bytes asked for and the rest of the stream, or an error, the stream
  having been used up.\<close>

definition ReadFull :: "nat \<Rightarrow> byte list \<Rightarrow> (byte list \<times> byte list) option" where
  "ReadFull n s = (if n \<le> length s then Some (take n s, drop n s) else None)"

lemma ReadFull_append [simp]: "length b = n \<Longrightarrow> ReadFull n (b @ s) = Some (b, s)"
  by (simp add: ReadFull_def)

lemma ReadFull_length: "ReadFull n s = Some (b, s') \<Longrightarrow> length s = n + length s' \<and> length b = n"
  by (auto simp: ReadFull_def split: if_splits)

section \<open>HTTP upgrade\<close>

record http_request =
  req_Path :: string
  req_Upgrade :: string

definition StatusSwitchingProtocols :: nat where "StatusSwitchingProtocols = 101"
definition StatusBadRequest :: nat where "StatusBadRequest = 400"
definition StatusNotFound :: nat where "StatusNotFound = 404"

text \<open>The status that \<open>boltUpgradeHandler\<close> answers with, and whether it goes on to serve the
  connection.\<close>

definition boltUpgradeHandler :: "http_request \<Rightarrow> nat \<times> bool" where
  "boltUpgradeHandler r =
     (if req_Upgrade r \<noteq> ''bolt'' then (StatusBadRequest, False)
      else (StatusSwitchingProtocols, True))"

text \<open>\<open>NewServer\<close> registers one pattern; the request multiplexer answers every other path with
  404.\<close>

definition serve_mux :: "http_request \<Rightarrow> nat \<times> bool" where
  "serve_mux r =
     (if req_Path r = ''/bolt/v1/upgrade'' then boltUpgradeHandler r else (StatusNotFound, False))"

section \<open>One TCP session\<close>

text \<open>The first frame must be a \<open>Register\<close>; its \<open>ToID\<close> is the identifier of the connecting peer.\<close>

definition read_register :: "byte list \<Rightarrow> (u64 \<times> byte list) option" where
  "read_register s =
     (case ReadFull HeaderSize s of
        None \<Rightarrow> None
      | Some (headBuf, s') \<Rightarrow>
          (case Unmarshal headBuf of
             Inl _ \<Rightarrow> None
           | Inr h \<Rightarrow> if Cmd h \<noteq> cmd_Register then None else Some (ucast (ToID h), s')))"

text \<open>One turn of the session loop: \<open>None\<close> when the loop breaks, otherwise the rest of the stream
  and the relay attempt of this turn.\<close>

definition bolt_iter ::
  "(delivery \<Rightarrow> string option) \<Rightarrow> SessionManager \<Rightarrow> byte list \<Rightarrow> (byte list \<times> delivery list) option" where
  "bolt_iter net m s =
     (case ReadFull HeaderSize s of
        None \<Rightarrow> None
      | Some (headBuf, s1) \<Rightarrow>
          (case Unmarshal headBuf of
             Inl _ \<Rightarrow> Some (s1, [])
           | Inr h \<Rightarrow>
               if Cmd h = cmd_KeepAlive then Some (s1, [])
               else if Cmd h = cmd_Forward \<or> Cmd h = cmd_Probe then
                 (if 0 < PayloadLen h then
                    (case ReadFull (unat (PayloadLen h)) s1 of
                       None \<Rightarrow> Some ([], [])
                     | Some (payload, s2) \<Rightarrow>
                         Some (s2, case fst (Relay net m (ucast (ToID h)) (headBuf @ payload)) of
                                     None \<Rightarrow> [] | Some d \<Rightarrow> [d]))
                  else Some (s1, case fst (Relay net m (ucast (ToID h)) headBuf) of
                                   None \<Rightarrow> [] | Some d \<Rightarrow> [d]))
               else Some (s1, [])))"

lemma bolt_iter_shorter: "bolt_iter net m s = Some (s', ds) \<Longrightarrow> length s' < length s"
  by (auto simp: bolt_iter_def dest!: ReadFull_length split: option.splits sum.splits if_splits prod.splits)

text \<open>The loop returns on every stream: each turn consumes at least a header.\<close>

function bolt_loop :: "(delivery \<Rightarrow> string option) \<Rightarrow> SessionManager \<Rightarrow> byte list \<Rightarrow> delivery list" where
  "bolt_loop net m s =
     (case bolt_iter net m s of None \<Rightarrow> [] | Some (s', ds) \<Rightarrow> ds @ bolt_loop net m s')"
  by pat_completeness auto
termination
  by (relation "measure (\<lambda>(net, m, s). length s)") (auto dest: bolt_iter_shorter)

declare bolt_loop.simps [simp del]

text \<open>A whole session against a table that no other goroutine changes meanwhile: the sends it
  attempted and the table it leaves.\<close>

definition handleBoltSession ::
  "(delivery \<Rightarrow> string option) \<Rightarrow> SessionManager \<Rightarrow> nat \<Rightarrow> byte list \<Rightarrow> delivery list \<times> SessionManager" where
  "handleBoltSession net m stream s =
     (case read_register s of
        None \<Rightarrow> ([], m)
      | Some (fromId, s') \<Rightarrow>
          (let m' = RegisterSession m fromId \<lparr> sess_ID = fromId, sess_Stream = stream, sess_Type = ''TCP'' \<rparr>
           in (bolt_loop net m' s', Unregister m' fromId)))"

section \<open>One QUIC session\<close>

text \<open>One turn of \<open>relayDatagrams\<close>.\<close>

definition relayDatagram ::
  "(delivery \<Rightarrow> string option) \<Rightarrow> SessionManager \<Rightarrow> byte list \<Rightarrow> delivery list" where
  "relayDatagram net m data =
     (if length data < HeaderSize then []
      else (case Unmarshal (take HeaderSize data) of
              Inl _ \<Rightarrow> []
            | Inr h \<Rightarrow>
                if Cmd h \<noteq> cmd_Forward \<and> Cmd h \<noteq> cmd_Probe then []
                else (case fst (Relay net m (ucast (ToID h)) data) of None \<Rightarrow> [] | Some d \<Rightarrow> [d])))"

text \<open>\<open>handleControlStream\<close> reads headers until the stream ends; the control stream carries nothing
  but keepalives after the registration. The result is what is left of the stream.\<close>

function handleControlStream :: "byte list \<Rightarrow> byte list" where
  "handleControlStream s =
     (case ReadFull HeaderSize s of
        None \<Rightarrow> s
      | Some (headBuf, s') \<Rightarrow>
          (case Unmarshal headBuf of
             Inl _ \<Rightarrow> s'
           | Inr h \<Rightarrow> handleControlStream s'))"
  by pat_completeness auto
termination
  by (relation "measure length") (auto dest: ReadFull_length)

declare handleControlStream.simps [simp del]

section \<open>All sessions together\<close>

datatype conn_kind = KindTCP | KindQUIC

datatype conn_phase = Handshake | Serving u64

record relay_conn =
  rc_kind :: conn_kind
  rc_phase :: conn_phase
  rc_in :: "byte list"

record relay_state =
  rs_mgr :: SessionManager
  rs_conns :: "nat \<rightharpoonup> relay_conn"
  rs_out :: "delivery list"

definition relay_init :: relay_state where
  "relay_init = \<lparr> rs_mgr = NewSessionManager, rs_conns = (\<lambda>_. None), rs_out = [] \<rparr>"

text \<open>The registration of a connection, by transport.\<close>

fun register_conn :: "conn_kind \<Rightarrow> SessionManager \<Rightarrow> u64 \<Rightarrow> nat \<Rightarrow> SessionManager" where
  "register_conn KindTCP m fromId c =
     RegisterSession m fromId \<lparr> sess_ID = fromId, sess_Stream = c, sess_Type = ''TCP'' \<rparr>"
| "register_conn KindQUIC m fromId c = RegisterQUIC m fromId c c"

inductive relay_step :: "(delivery \<Rightarrow> string option) \<Rightarrow> relay_state \<Rightarrow> relay_state \<Rightarrow> bool"
  for net where
  accept: "rs_conns st c = None \<Longrightarrow>
    relay_step net st (st\<lparr> rs_conns := (rs_conns st)(c \<mapsto> \<lparr> rc_kind = k, rc_phase = Handshake, rc_in = s \<rparr>) \<rparr>)"
| register: "rs_conns st c = Some rc \<Longrightarrow> rc_phase rc = Handshake \<Longrightarrow>
    read_register (rc_in rc) = Some (fromId, s') \<Longrightarrow>
    relay_step net st
      (st\<lparr> rs_mgr := register_conn (rc_kind rc) (rs_mgr st) fromId c,
          rs_conns := (rs_conns st)(c \<mapsto> rc\<lparr> rc_phase := Serving fromId, rc_in := s' \<rparr>) \<rparr>)"
| reject: "rs_conns st c = Some rc \<Longrightarrow> rc_phase rc = Handshake \<Longrightarrow> read_register (rc_in rc) = None \<Longrightarrow>
    relay_step net st (st\<lparr> rs_conns := (rs_conns st)(c := None) \<rparr>)"
| tcp_frame: "rs_conns st c = Some rc \<Longrightarrow> rc_kind rc = KindTCP \<Longrightarrow> rc_phase rc = Serving fromId \<Longrightarrow>
    bolt_iter net (rs_mgr st) (rc_in rc) = Some (s', ds) \<Longrightarrow>
    relay_step net st
      (st\<lparr> rs_conns := (rs_conns st)(c \<mapsto> rc\<lparr> rc_in := s' \<rparr>), rs_out := rs_out st @ ds \<rparr>)"
| datagram: "rs_conns st c = Some rc \<Longrightarrow> rc_kind rc = KindQUIC \<Longrightarrow> rc_phase rc = Serving fromId \<Longrightarrow>
    relay_step net st (st\<lparr> rs_out := rs_out st @ relayDatagram net (rs_mgr st) data \<rparr>)"
| finish: "rs_conns st c = Some rc \<Longrightarrow> rc_phase rc = Serving fromId \<Longrightarrow>
    relay_step net st
      (st\<lparr> rs_mgr := Unregister (rs_mgr st) fromId, rs_conns := (rs_conns st)(c := None) \<rparr>)"

inductive relay_reach :: "(delivery \<Rightarrow> string option) \<Rightarrow> relay_state \<Rightarrow> bool" for net where
  init: "relay_reach net relay_init"
| step: "relay_reach net st \<Longrightarrow> relay_step net st st' \<Longrightarrow> relay_reach net st'"

inductive_cases relay_stepE: "relay_step net st st'"

section \<open>A stream of frames is relayed frame by frame\<close>

text \<open>What a relay attempt sends, as a list.\<close>

definition sent :: "(delivery \<Rightarrow> string option) \<Rightarrow> SessionManager \<Rightarrow> u32 \<Rightarrow> byte list \<Rightarrow> delivery list" where
  "sent net m toID frame = (case fst (Relay net m (ucast toID) frame) of None \<Rightarrow> [] | Some d \<Rightarrow> [d])"

text \<open>A frame as a well-behaved client builds it: the length field counts the payload, and only
  \<open>Forward\<close> and \<open>Probe\<close> carry one.\<close>

definition is_data :: "Header \<Rightarrow> bool" where
  "is_data h \<longleftrightarrow> Cmd h = cmd_Forward \<or> Cmd h = cmd_Probe"

fun wf_frame :: "Header \<times> byte list \<Rightarrow> bool" where
  "wf_frame (h, p) \<longleftrightarrow> unat (PayloadLen h) = length p \<and> (is_data h \<or> p = [])"

fun frame_bytes :: "Header \<times> byte list \<Rightarrow> byte list" where
  "frame_bytes (h, p) = Marshal h @ p"

fun frame_sent :: "(delivery \<Rightarrow> string option) \<Rightarrow> SessionManager \<Rightarrow> Header \<times> byte list \<Rightarrow> delivery list" where
  "frame_sent net m (h, p) = (if is_data h then sent net m (ToID h) (Marshal h @ p) else [])"

lemma keepalive_not_data: "Cmd h = cmd_KeepAlive \<Longrightarrow> \<not> is_data h"
  by (simp add: is_data_def cmd_defs)

lemma bolt_iter_frame:
  assumes "wf_frame f"
  shows "bolt_iter net m (frame_bytes f @ s) = Some (s, frame_sent net m f)"
proof (cases f)
  case (Pair h p)
  have len: "length p = unat (PayloadLen h)" and np: "is_data h \<or> p = []"
    using assms by (simp_all add: Pair)
  have rf: "ReadFull HeaderSize (Marshal h @ p @ s) = Some (Marshal h, p @ s)"
    by (rule ReadFull_append) simp
  show ?thesis
  proof (cases "0 < PayloadLen h")
    case True
    then have "is_data h"
      using np len by (auto simp: word_unat_eq_iff word_less_nat_alt)
    moreover have "ReadFull (unat (PayloadLen h)) (p @ s) = Some (p, s)"
      by (rule ReadFull_append) (rule len)
    ultimately show ?thesis
      using True rf keepalive_not_data [of h]
      by (auto simp: Pair bolt_iter_def is_data_def sent_def)
  next
    case False
    then have "p = []"
      using len by (simp add: word_less_nat_alt)
    then show ?thesis
      using False rf by (auto simp: Pair bolt_iter_def is_data_def sent_def cmd_defs)
  qed
qed

lemma bolt_loop_short: "length s < HeaderSize \<Longrightarrow> bolt_loop net m s = []"
  by (simp add: bolt_loop.simps [of net m s] bolt_iter_def ReadFull_def)

lemma bolt_loop_frames:
  assumes "\<forall>f \<in> set fs. wf_frame f" and "length tail < HeaderSize"
  shows "bolt_loop net m (concat (map frame_bytes fs) @ tail) = concat (map (frame_sent net m) fs)"
  using assms(1)
proof (induction fs)
  case Nil
  then show ?case using assms(2) by (simp add: bolt_loop_short)
next
  case (Cons f fs)
  then show ?case
    using bolt_iter_frame [of f net m "concat (map frame_bytes fs) @ tail"]
    by (simp add: bolt_loop.simps [of net m "frame_bytes f @ concat (map frame_bytes fs) @ tail"])
qed

lemma read_register_Marshal:
  "read_register (Marshal h @ s) = (if Cmd h = cmd_Register then Some (ucast (ToID h), s) else None)"
proof -
  have "ReadFull HeaderSize (Marshal h @ s) = Some (Marshal h, s)"
    by (rule ReadFull_append) simp
  then show ?thesis
    by (simp add: read_register_def)
qed

section \<open>The table never names a connection that is gone\<close>

definition relay_ok :: "relay_state \<Rightarrow> bool" where
  "relay_ok st \<longleftrightarrow>
     (\<forall>pid s. sessions (rs_mgr st) pid = Some s \<longrightarrow>
        sess_ID s = pid \<and> (\<exists>rc. rs_conns st (sess_Stream s) = Some rc \<and> rc_phase rc = Serving pid)) \<and>
     (\<forall>pid c. quicConns (rs_mgr st) pid = Some c \<longrightarrow>
        (\<exists>rc. rs_conns st c = Some rc \<and> rc_phase rc = Serving pid \<and> rc_kind rc = KindQUIC))"

lemma relay_ok_init: "relay_ok relay_init"
  by (simp add: relay_ok_def relay_init_def session_defs)

lemma relay_ok_handshake:
  assumes "relay_ok st" "rs_conns st c = Some rc" "rc_phase rc = Handshake"
  shows "sessions (rs_mgr st) pid = Some s \<Longrightarrow> sess_Stream s \<noteq> c"
    and "quicConns (rs_mgr st) pid \<noteq> Some c"
  using assms by (fastforce simp: relay_ok_def)+

lemma relay_ok_step: "relay_step net st st' \<Longrightarrow> relay_ok st \<Longrightarrow> relay_ok st'"
proof (induction rule: relay_step.induct)
  case (accept st c k s)
  then show ?case by (auto simp: relay_ok_def) (metis option.distinct(1))+
next
  case (register st c rc fromId s')
  note hs = relay_ok_handshake [OF register(4,1,2)]
  show ?case
    using register hs
    by (cases "rc_kind rc") (auto simp: relay_ok_def session_defs)
next
  case (reject st c rc)
  then show ?case by (fastforce simp: relay_ok_def)
next
  case (tcp_frame st c rc fromId s' ds)
  then show ?case by (fastforce simp: relay_ok_def)
next
  case (datagram st c rc fromId data)
  then show ?case by (simp add: relay_ok_def)
next
  case (finish st c rc fromId)
  then show ?case by (fastforce simp: relay_ok_def session_defs)
qed

lemma relay_ok_reach: "relay_reach net st \<Longrightarrow> relay_ok st"
  by (induction rule: relay_reach.induct) (auto intro: relay_ok_init relay_ok_step)

fun delivery_handle :: "delivery \<Rightarrow> nat" where
  "delivery_handle (SendDatagram c _) = c"
| "delivery_handle (StreamWrite c _) = c"

fun delivery_frame :: "delivery \<Rightarrow> byte list" where
  "delivery_frame (SendDatagram _ f) = f"
| "delivery_frame (StreamWrite _ f) = f"

text \<open>A delivery is addressed when its frame is a data frame and the connection it goes to serves
  the peer that the frame names.\<close>

definition addressed :: "relay_state \<Rightarrow> delivery \<Rightarrow> bool" where
  "addressed st d \<longleftrightarrow>
     (\<exists>h rc. Unmarshal (delivery_frame d) = Ok h \<and> is_data h \<and>
        rs_conns st (delivery_handle d) = Some rc \<and> rc_phase rc = Serving (ucast (ToID h)))"

lemma addressed_Relay:
  assumes "relay_ok st" "fst (Relay net (rs_mgr st) (ucast (ToID h)) frame) = Some d"
    and "Unmarshal frame = Ok h" "is_data h"
  shows "addressed st d"
  using assms
  by (auto simp: addressed_def Relay_route relay_ok_def split: option.splits) blast+

lemma Unmarshal_append: "Unmarshal bs = Ok h \<Longrightarrow> Unmarshal (bs @ r) = Ok h"
  using header.dec_append [of bs h r] by (auto simp: header_of_def split: sum.splits)

lemma addressed_bolt_iter:
  assumes "relay_ok st" "bolt_iter net (rs_mgr st) s = Some (s', ds)" "d \<in> set ds"
  shows "addressed st d"
proof -
  obtain hb s1 h where "ReadFull HeaderSize s = Some (hb, s1)" and u: "Unmarshal hb = Ok h"
    and dt: "is_data h" and d: "\<exists>p. fst (Relay net (rs_mgr st) (ucast (ToID h)) (hb @ p)) = Some d"
    using assms(2,3)
    by (fastforce simp: bolt_iter_def is_data_def intro: exI [of _ "[]"]
          split: option.splits prod.splits sum.splits if_splits)
  then show ?thesis
    using addressed_Relay [OF assms(1)] Unmarshal_append by blast
qed

lemma addressed_datagram:
  assumes "relay_ok st" "d \<in> set (relayDatagram net (rs_mgr st) data)"
  shows "addressed st d"
proof -
  obtain h where u: "Unmarshal (take 12 data) = Ok h" and dt: "is_data h"
    and d: "fst (Relay net (rs_mgr st) (ucast (ToID h)) data) = Some d"
    using assms(2)
    by (auto simp: relayDatagram_def is_data_def split: option.splits sum.splits if_splits)
  have "Unmarshal data = Ok h"
    using Unmarshal_append [OF u, of "drop 12 data"] by simp
  then show ?thesis
    using addressed_Relay [OF assms(1) d] dt by blast
qed

section \<open>Properties\<close>

text \<open>C22: a TCP session relays what its client sends, frame by frame. If the stream is a \<open>Register\<close>
  frame followed by well-formed frames (and possibly a truncated header), the server attempts
  exactly one send per \<open>Forward\<close> or \<open>Probe\<close> frame whose target is registered, in order, each with
  the frame unchanged byte for byte; keepalives cause no send; and when the stream ends the client
  is no longer registered.\<close>

theorem bolt_session_relays_frames:
  assumes "Cmd reg = cmd_Register"
    and "\<forall>f \<in> set fs. wf_frame f"
    and "length tail < HeaderSize"
  shows "\<exists>m'. m' = RegisterSession m (ucast (ToID reg))
                   \<lparr> sess_ID = ucast (ToID reg), sess_Stream = c, sess_Type = ''TCP'' \<rparr> \<and>
     handleBoltSession net m c (Marshal reg @ concat (map frame_bytes fs) @ tail) =
       (concat (map (frame_sent net m') fs), Unregister m' (ucast (ToID reg))) \<and>
     GetSession (snd (handleBoltSession net m c (Marshal reg @ concat (map frame_bytes fs) @ tail)))
       (ucast (ToID reg)) = None"
  using assms
  by (simp add: handleBoltSession_def read_register_Marshal bolt_loop_frames Let_def)

definition reg_header :: "u32 \<Rightarrow> Header" where
  "reg_header to = \<lparr> Seq = 1, PayloadLen = 0, Cmd = cmd_Register, ToID = to, Reserved = 0 \<rparr>"

definition fwd_header :: "u32 \<Rightarrow> u32 \<Rightarrow> Header" where
  "fwd_header to n = \<lparr> Seq = 2, PayloadLen = n, Cmd = cmd_Forward, ToID = to, Reserved = 0 \<rparr>"

theorem bolt_session_relays_frames_witness:
  "fst (handleBoltSession (\<lambda>_. None) NewSessionManager 4
      (Marshal (reg_header 7) @ Marshal (fwd_header 7 2) @ [5, 6]))
   = [StreamWrite 4 (Marshal (fwd_header 7 2) @ [5, 6])]"
  using bolt_session_relays_frames [of "reg_header 7" "[(fwd_header 7 2, [5, 6])]" "[]" NewSessionManager 4 "\<lambda>_. None"]
  by (simp add: reg_header_def fwd_header_def is_data_def sent_def Relay_def session_defs)


definition relay_after_register :: relay_state where
  "relay_after_register = relay_init
     \<lparr> rs_mgr := register_conn KindQUIC NewSessionManager 7 1,
       rs_conns := [1 \<mapsto> \<lparr> rc_kind = KindQUIC, rc_phase = Serving 7, rc_in = [] \<rparr>] \<rparr>"

lemma relay_reach_after_register: "relay_reach net relay_after_register"
proof -
  let ?rc = "\<lparr> rc_kind = KindQUIC, rc_phase = Handshake, rc_in = Marshal (reg_header 7) \<rparr>"
  have "relay_step net relay_init (relay_init\<lparr> rs_conns := (rs_conns relay_init)(1 \<mapsto> ?rc) \<rparr>)"
    by (rule relay_step.accept) (simp add: relay_init_def)
  moreover have "relay_step net (relay_init\<lparr> rs_conns := (rs_conns relay_init)(1 \<mapsto> ?rc) \<rparr>) relay_after_register"
    using relay_step.register [of "relay_init\<lparr> rs_conns := (rs_conns relay_init)(1 \<mapsto> ?rc) \<rparr>" 1 ?rc 7 "[]" net]
      read_register_Marshal [of "reg_header 7" "[]"]
    by (simp add: relay_after_register_def relay_init_def reg_header_def)
  ultimately show ?thesis
    by (blast intro: relay_reach.intros)
qed


text \<open>The table can lose a peer that is connected. When a peer reconnects before its old session
  has ended, the old session's deferred \<open>Unregister\<close> removes the new registration: a state is
  reachable in which a connection is being served for an identifier and every frame for that
  identifier is refused as not found.\<close>

theorem reconnected_peer_unreachable:
  "\<exists>st c rc. relay_reach net st \<and> rs_conns st c = Some rc \<and> rc_phase rc = Serving (ucast (to :: u32)) \<and>
     (\<forall>frame. Relay net (rs_mgr st) (ucast to) frame = (None, Some RelayTargetNotFound))"
proof -
  let ?h = "\<lparr> rc_kind = KindTCP, rc_phase = Handshake, rc_in = Marshal (reg_header to) \<rparr>"
  let ?s = "?h\<lparr> rc_phase := Serving (ucast to), rc_in := [] \<rparr>"
  let ?m1 = "register_conn KindTCP NewSessionManager (ucast to) 1"
  let ?m2 = "register_conn KindTCP ?m1 (ucast to) 2"
  let ?st = "\<lambda>m cs. \<lparr> rs_mgr = m, rs_conns = cs, rs_out = [] \<rparr>"
  have rr: "read_register (Marshal (reg_header to)) = Some (ucast to, [])"
    using read_register_Marshal [of "reg_header to" "[]"] by (simp add: reg_header_def)
  have 0: "relay_reach net (?st NewSessionManager (\<lambda>_. None))"
    using relay_reach.init [of net] by (simp add: relay_init_def)
  have 1: "relay_reach net (?st NewSessionManager [1 \<mapsto> ?h])"
    using relay_reach.step [OF 0 relay_step.accept [where c = 1]] by simp
  have 2: "relay_reach net (?st ?m1 [1 \<mapsto> ?s])"
    using relay_reach.step [OF 1 relay_step.register [where c = 1 and rc = ?h and fromId = "ucast to" and s' = "[]"]] rr by simp
  have 3: "relay_reach net (?st ?m1 [1 \<mapsto> ?s, 2 \<mapsto> ?h])"
    using relay_reach.step [OF 2 relay_step.accept [where c = 2]] by simp
  have 4: "relay_reach net (?st ?m2 [1 \<mapsto> ?s, 2 \<mapsto> ?s])"
    using relay_reach.step [OF 3 relay_step.register [where c = 2 and rc = ?h and fromId = "ucast to" and s' = "[]"]] rr by simp
  have "relay_reach net (?st (Unregister ?m2 (ucast to)) ([1 \<mapsto> ?s, 2 \<mapsto> ?s](1 := None)))"
    using relay_reach.step [OF 4 relay_step.finish [where c = 1 and rc = ?s and fromId = "ucast to"]] by simp
  then show ?thesis
    by (intro exI [of _ "?st (Unregister ?m2 (ucast to)) ([1 \<mapsto> ?s, 2 \<mapsto> ?s](1 := None))"] exI [of _ 2] exI [of _ ?s])
       (simp add: Relay_not_found session_defs)
qed

end
