(* ===== verification/Peer_Identity.thy ===== *)
theory Peer_Identity
  imports Registry Wire
begin

text \<open>
  Peer identity on an agent (\<open>internal/agent/infra\<close>: \<open>peer.go\<close>, \<open>message.go\<close>): the eight-byte
  identifier cut from a WireGuard key, the peer record, and the two-index peer table. A WireGuard key
  is its 32 bytes; parsing one from its base64 text is a third-party function and stays the parameter
  \<open>ParseKey\<close>.
\<close>

section \<open>Identifiers\<close>

type_synonym PeerID = "byte list"

definition FromKey :: "byte list \<Rightarrow> PeerID" where
  "FromKey key = take 8 key"

definition ToUint64 :: "PeerID \<Rightarrow> u64" where
  "ToUint64 p = the (be_Uint64 p)"

definition FromUint64 :: "u64 \<Rightarrow> PeerID" where
  "FromUint64 v = be_PutUint64 v"

definition PeerID_String :: "PeerID \<Rightarrow> string" where
  "PeerID_String p = dec_nat (unat (ToUint64 p))"

record PeerIdentity =
  id_AppID :: string
  id_PublicKey :: "byte list"

definition NewPeerIdentity :: "string \<Rightarrow> byte list \<Rightarrow> PeerIdentity" where
  "NewPeerIdentity appId pubKey = \<lparr> id_AppID = appId, id_PublicKey = pubKey \<rparr>"

definition PeerIdentity_ID :: "PeerIdentity \<Rightarrow> PeerID" where
  "PeerIdentity_ID p = FromKey (id_PublicKey p)"

definition PeerIdentity_String :: "PeerIdentity \<Rightarrow> string" where
  "PeerIdentity_String p = PeerID_String (PeerIdentity_ID p)"

lemma eight_bytes:
  assumes "8 \<le> length bs"
  obtains a b c d e f g h r where "bs = a # b # c # d # e # f # g # h # r"
proof -
  have "length (take 8 bs) = Suc (Suc (Suc (Suc (Suc (Suc (Suc (Suc 0)))))))"
    using assms by simp
  then obtain a b c d e f g h where "take 8 bs = [a, b, c, d, e, f, g, h]"
    unfolding length_Suc_conv by auto
  then have "bs = [a, b, c, d, e, f, g, h] @ drop 8 bs"
    by (metis append_take_drop_id)
  then show thesis
    using that by simp
qed

lemma be_Uint64_short: "length bs < 8 \<Longrightarrow> be_Uint64 bs = None"
  by (cases bs rule: be_Uint64.cases) auto

interpretation peer_id: codec FromUint64 be_Uint64 8
proof
  fix v :: u64 and bs rest :: "byte list"
  show "length (FromUint64 v) = 8" by (simp add: FromUint64_def)
  show "be_Uint64 (FromUint64 v @ rest) = Some v" by (simp add: FromUint64_def)
  show "be_Uint64 bs = None" if "length bs < 8" using that by (rule be_Uint64_short)
  show "FromUint64 v = take 8 bs" if d: "be_Uint64 bs = Some v"
  proof -
    have "8 \<le> length bs"
      using d be_Uint64_short by (metis linorder_not_less option.distinct(1))
    then obtain a b c d' e f g h r where bs: "bs = a # b # c # d' # e # f # g # h # r"
      by (rule eight_bytes)
    show ?thesis
      using be_Put_Uint64 [OF d [unfolded bs]] by (simp add: FromUint64_def bs)
  qed
qed

lemma ToUint64_FromUint64 [simp]: "ToUint64 (FromUint64 v) = v"
  by (simp add: ToUint64_def peer_id.dec_enc_exact)

lemma FromUint64_ToUint64: "length p = 8 \<Longrightarrow> FromUint64 (ToUint64 p) = p"
  by (rule eight_bytes [of p])
     (auto simp: ToUint64_def FromUint64_def simp del: be_Uint64.simps
        intro!: be_Put_Uint64 [where r = "[]"], auto)

section \<open>Peers\<close>

record Peer =
  p_Name :: string
  p_InterfaceName :: string
  p_Platform :: string
  p_NetworkId :: string
  p_AppID :: string
  p_Address :: "string option"
  p_Endpoint :: string
  p_PresharedKey :: string
  p_PersistentKeepalive :: int
  p_PrivateKey :: string
  p_PublicKey :: string
  p_PeerID :: u64
  p_AllowedIPs :: string
  p_WrrpUrl :: string
  p_Labels :: "(string \<times> string) list"

definition empty_peer :: Peer where
  "empty_peer = \<lparr> p_Name = [], p_InterfaceName = [], p_Platform = [], p_NetworkId = [], p_AppID = [],
     p_Address = None, p_Endpoint = [], p_PresharedKey = [], p_PersistentKeepalive = 0,
     p_PrivateKey = [], p_PublicKey = [], p_PeerID = 0, p_AllowedIPs = [], p_WrrpUrl = [], p_Labels = [] \<rparr>"

section \<open>The peer table\<close>

record PeerManager =
  pm_peers :: "string \<rightharpoonup> Peer"
  pm_byID :: "PeerID \<rightharpoonup> Peer"

definition NewPeerManager :: PeerManager where
  "NewPeerManager = \<lparr> pm_peers = (\<lambda>_. None), pm_byID = (\<lambda>_. None) \<rparr>"

definition AddPeer :: "(string \<Rightarrow> byte list option) \<Rightarrow> PeerManager \<Rightarrow> string \<Rightarrow> Peer \<Rightarrow> PeerManager" where
  "AddPeer ParseKey m appId peer =
     (let m' = m\<lparr> pm_peers := (pm_peers m)(appId \<mapsto> peer) \<rparr>
      in if p_PublicKey peer \<noteq> [] then
           (case ParseKey (p_PublicKey peer) of
              Some key \<Rightarrow> m'\<lparr> pm_byID := (pm_byID m')(FromKey key \<mapsto> peer) \<rparr>
            | None \<Rightarrow> m')
         else m')"

definition RemovePeer :: "(string \<Rightarrow> byte list option) \<Rightarrow> PeerManager \<Rightarrow> string \<Rightarrow> PeerManager" where
  "RemovePeer ParseKey m appId =
     (let m' = (case pm_peers m appId of
                  None \<Rightarrow> m
                | Some peer \<Rightarrow>
                    if p_PublicKey peer \<noteq> [] then
                      (case ParseKey (p_PublicKey peer) of
                         Some key \<Rightarrow> m\<lparr> pm_byID := (pm_byID m)(FromKey key := None) \<rparr>
                       | None \<Rightarrow> m)
                    else m)
      in m'\<lparr> pm_peers := (pm_peers m')(appId := None) \<rparr>)"

definition GetPeer :: "PeerManager \<Rightarrow> string \<Rightarrow> Peer option" where
  "GetPeer m appId = pm_peers m appId"

definition GetByPeerID :: "PeerManager \<Rightarrow> PeerID \<Rightarrow> Peer option" where
  "GetByPeerID m pid = pm_byID m pid"

definition GetAll :: "PeerManager \<Rightarrow> Peer set" where
  "GetAll m = ran (pm_peers m)"

definition GetIdentity :: "(string \<Rightarrow> byte list option) \<Rightarrow> PeerManager \<Rightarrow> PeerID \<Rightarrow> PeerIdentity option" where
  "GetIdentity ParseKey m pid =
     (case pm_byID m pid of
        None \<Rightarrow> None
      | Some peer \<Rightarrow>
          if p_PublicKey peer = [] then None
          else (case ParseKey (p_PublicKey peer) of
                  None \<Rightarrow> None
                | Some key \<Rightarrow> Some (NewPeerIdentity (p_AppID peer) key)))"

lemmas pm_defs = AddPeer_def RemovePeer_def GetPeer_def GetByPeerID_def GetIdentity_def NewPeerManager_def

interpretation peer_table: registry GetPeer "AddPeer ParseKey" "RemovePeer ParseKey"
  for ParseKey :: "string \<Rightarrow> byte list option"
  by unfold_locales (auto simp: pm_defs Let_def split: option.splits)

section \<open>Agreement of the two indexes\<close>

text \<open>The identifier a peer is indexed under, when it has a key that parses.\<close>

definition peer_index :: "(string \<Rightarrow> byte list option) \<Rightarrow> Peer \<Rightarrow> PeerID option" where
  "peer_index ParseKey p =
     (if p_PublicKey p = [] then None else map_option FromKey (ParseKey (p_PublicKey p)))"

text \<open>The secondary index holds exactly the peers of the primary one, each under its identifier.\<close>

definition pm_sync :: "(string \<Rightarrow> byte list option) \<Rightarrow> PeerManager \<Rightarrow> bool" where
  "pm_sync ParseKey m \<longleftrightarrow>
     (\<forall>pid p. pm_byID m pid = Some p \<longleftrightarrow> (\<exists>app. pm_peers m app = Some p \<and> peer_index ParseKey p = Some pid)) \<and>
     (\<forall>a b p q i. pm_peers m a = Some p \<and> pm_peers m b = Some q \<and>
        peer_index ParseKey p = Some i \<and> peer_index ParseKey q = Some i \<longrightarrow> a = b)"

lemma AddPeer_index:
  "AddPeer ParseKey m a p = m\<lparr> pm_peers := (pm_peers m)(a \<mapsto> p),
     pm_byID := (case peer_index ParseKey p of None \<Rightarrow> pm_byID m | Some i \<Rightarrow> (pm_byID m)(i \<mapsto> p)) \<rparr>"
  by (auto simp: AddPeer_def peer_index_def Let_def split: option.splits)

lemma RemovePeer_index:
  "RemovePeer ParseKey m a = m\<lparr> pm_peers := (pm_peers m)(a := None),
     pm_byID := (case Option.bind (pm_peers m a) (peer_index ParseKey) of
                   None \<Rightarrow> pm_byID m | Some i \<Rightarrow> (pm_byID m)(i := None)) \<rparr>"
  by (auto simp: RemovePeer_def peer_index_def Let_def split: option.splits)

lemma pm_syncI:
  assumes "\<And>pid p. pm_byID m pid = Some p \<Longrightarrow> \<exists>app. pm_peers m app = Some p \<and> peer_index K p = Some pid"
    and "\<And>app p pid. pm_peers m app = Some p \<Longrightarrow> peer_index K p = Some pid \<Longrightarrow> pm_byID m pid = Some p"
    and "\<And>a b p q i. pm_peers m a = Some p \<Longrightarrow> pm_peers m b = Some q \<Longrightarrow>
           peer_index K p = Some i \<Longrightarrow> peer_index K q = Some i \<Longrightarrow> a = b"
  shows "pm_sync K m"
  unfolding pm_sync_def using assms by blast

lemma pm_syncD:
  assumes "pm_sync K m"
  shows "pm_byID m pid = Some p \<Longrightarrow> \<exists>app. pm_peers m app = Some p \<and> peer_index K p = Some pid"
    and "pm_peers m app = Some p \<Longrightarrow> peer_index K p = Some pid \<Longrightarrow> pm_byID m pid = Some p"
    and "pm_peers m a = Some p' \<Longrightarrow> pm_peers m b = Some q \<Longrightarrow>
           peer_index K p' = Some i \<Longrightarrow> peer_index K q = Some i \<Longrightarrow> a = b"
  using assms unfolding pm_sync_def by blast+

lemma pm_sync_New: "pm_sync K NewPeerManager"
  by (rule pm_syncI) (auto simp: NewPeerManager_def)

lemma pm_sync_RemovePeer:
  assumes s: "pm_sync K m"
  shows "pm_sync K (RemovePeer K m a)"
proof (rule pm_syncI)
  let ?m = "RemovePeer K m a"
  have peers: "pm_peers ?m = (pm_peers m)(a := None)"
    by (simp add: RemovePeer_index)
  have byID: "pm_byID ?m pid =
      (if Option.bind (pm_peers m a) (peer_index K) = Some pid then None else pm_byID m pid)" for pid
    by (auto simp: RemovePeer_index split: option.splits)
  show "\<exists>app. pm_peers ?m app = Some p \<and> peer_index K p = Some pid" if "pm_byID ?m pid = Some p" for pid p
  proof -
    from that have "pm_byID m pid = Some p" and ne: "Option.bind (pm_peers m a) (peer_index K) \<noteq> Some pid"
      by (simp_all add: byID split: if_splits)
    then obtain app where "pm_peers m app = Some p" "peer_index K p = Some pid"
      using pm_syncD(1) [OF s] by blast
    with ne show ?thesis by (auto simp: peers intro!: exI [of _ app])
  qed
  show "pm_byID ?m pid = Some p" if "pm_peers ?m app = Some p" "peer_index K p = Some pid" for app p pid
  proof -
    from that(1) have "app \<noteq> a" and p: "pm_peers m app = Some p"
      by (simp_all add: peers split: if_splits)
    then have "Option.bind (pm_peers m a) (peer_index K) \<noteq> Some pid"
      using pm_syncD(3) [OF s p _ that(2)] by (auto simp: bind_eq_Some_conv)
    then show ?thesis
      using pm_syncD(2) [OF s p that(2)] by (simp add: byID)
  qed
  show "x = y" if "pm_peers ?m x = Some p" "pm_peers ?m y = Some q"
    "peer_index K p = Some i" "peer_index K q = Some i" for x y p q i
    using that pm_syncD(3) [OF s _ _ that(3,4)] by (simp add: peers split: if_splits)
qed

lemma pm_sync_AddPeer:
  assumes s: "pm_sync K m"
    and same: "\<And>q. pm_peers m a = Some q \<Longrightarrow> peer_index K q = peer_index K p"
    and new: "\<And>b q i. pm_peers m b = Some q \<Longrightarrow> peer_index K q = Some i \<Longrightarrow> peer_index K p = Some i \<Longrightarrow> b = a"
  shows "pm_sync K (AddPeer K m a p)"
proof (rule pm_syncI)
  let ?m = "AddPeer K m a p"
  have peers: "pm_peers ?m = (pm_peers m)(a \<mapsto> p)"
    by (simp add: AddPeer_index)
  have byID: "pm_byID ?m pid = (if peer_index K p = Some pid then Some p else pm_byID m pid)" for pid
    by (auto simp: AddPeer_index split: option.splits)
  show "\<exists>app. pm_peers ?m app = Some q \<and> peer_index K q = Some pid" if "pm_byID ?m pid = Some q" for pid q
  proof (cases "peer_index K p = Some pid")
    case True
    with that have "q = p" by (simp add: byID)
    with True have "pm_peers ?m a = Some q \<and> peer_index K q = Some pid" by (simp add: peers)
    then show ?thesis ..
  next
    case False
    with that have "pm_byID m pid = Some q"
      by (simp add: byID)
    then obtain app where "pm_peers m app = Some q" "peer_index K q = Some pid"
      using pm_syncD(1) [OF s] by blast
    with False same show ?thesis by (auto simp: peers intro!: exI [of _ app])
  qed
  show "pm_byID ?m pid = Some q" if "pm_peers ?m app = Some q" "peer_index K q = Some pid" for app q pid
    using that new [of app q pid] pm_syncD(2) [OF s, of app q pid] by (auto simp: peers byID split: if_splits)
  show "x = y" if "pm_peers ?m x = Some u" "pm_peers ?m y = Some v"
    "peer_index K u = Some i" "peer_index K v = Some i" for x y u v i
    using that new [of x u i] new [of y v i] pm_syncD(3) [OF s _ _ that(3,4), of x y]
    by (auto simp: peers split: if_splits)
qed

section \<open>Properties\<close>

text \<open>The two indexes of the peer table stay in agreement under removal of any peer, and under
  adding a peer whose entry keeps its key and whose identifier no other peer has: each peer with a
  key that parses is found under its identifier, and nothing else is.\<close>

theorem peer_indexes_in_sync:
  assumes "pm_sync ParseKey m"
  shows "pm_sync ParseKey (RemovePeer ParseKey m a) \<and>
    ((\<forall>q. pm_peers m a = Some q \<longrightarrow> peer_index ParseKey q = peer_index ParseKey p) \<and>
     (\<forall>b q i. pm_peers m b = Some q \<and> peer_index ParseKey q = Some i \<and> peer_index ParseKey p = Some i \<longrightarrow> b = a)
     \<longrightarrow> pm_sync ParseKey (AddPeer ParseKey m a p) \<and>
       (\<forall>i. peer_index ParseKey p = Some i \<longrightarrow> GetByPeerID (AddPeer ParseKey m a p) i = Some p))"
proof (intro conjI impI allI)
  show "pm_sync ParseKey (RemovePeer ParseKey m a)"
    by (rule pm_sync_RemovePeer) (rule assms)
next
  assume h: "(\<forall>q. pm_peers m a = Some q \<longrightarrow> peer_index ParseKey q = peer_index ParseKey p) \<and>
     (\<forall>b q i. pm_peers m b = Some q \<and> peer_index ParseKey q = Some i \<and> peer_index ParseKey p = Some i \<longrightarrow> b = a)"
  show "pm_sync ParseKey (AddPeer ParseKey m a p)"
    by (rule pm_sync_AddPeer [OF assms]) (use h in blast)+
next
  fix i assume "peer_index ParseKey p = Some i"
  then show "GetByPeerID (AddPeer ParseKey m a p) i = Some p"
    by (simp add: AddPeer_index GetByPeerID_def)
qed

definition demo_ParseKey :: "string \<Rightarrow> byte list option" where
  "demo_ParseKey s = Some (replicate 32 (of_nat (length s)))"

theorem peer_indexes_in_sync_witness:
  "GetByPeerID (AddPeer demo_ParseKey NewPeerManager ''a'' (empty_peer\<lparr> p_PublicKey := ''k1'' \<rparr>)) (replicate 8 2)
     = Some (empty_peer\<lparr> p_PublicKey := ''k1'' \<rparr>)"
  using peer_indexes_in_sync [OF pm_sync_New, of demo_ParseKey "''a''" "empty_peer\<lparr> p_PublicKey := ''k1'' \<rparr>"]
  by (simp add: NewPeerManager_def peer_index_def demo_ParseKey_def FromKey_def)

text \<open>A peer that changes its key leaves its old identifier behind. After the entry of an
  application is replaced by one with another key, the old identifier still resolves to the old
  peer, and removing the application does not clear it either.\<close>

theorem rekeyed_peer_leaves_stale_index:
  assumes "peer_index ParseKey p = Some i" "peer_index ParseKey q = Some j" "i \<noteq> j"
  shows "GetByPeerID (AddPeer ParseKey (AddPeer ParseKey m a p) a q) i = Some p \<and>
    GetByPeerID (RemovePeer ParseKey (AddPeer ParseKey (AddPeer ParseKey m a p) a q) a) i = Some p \<and>
    GetPeer (RemovePeer ParseKey (AddPeer ParseKey (AddPeer ParseKey m a p) a q) a) a = None"
  using assms by (simp add: AddPeer_index RemovePeer_index GetByPeerID_def GetPeer_def)

theorem rekeyed_peer_leaves_stale_index_witness:
  "GetByPeerID (RemovePeer demo_ParseKey
      (AddPeer demo_ParseKey (AddPeer demo_ParseKey NewPeerManager ''a'' (empty_peer\<lparr> p_PublicKey := ''k1'' \<rparr>))
         ''a'' (empty_peer\<lparr> p_PublicKey := ''k23'' \<rparr>)) ''a'') (replicate 8 2)
     = Some (empty_peer\<lparr> p_PublicKey := ''k1'' \<rparr>)"
  using rekeyed_peer_leaves_stale_index [of demo_ParseKey "empty_peer\<lparr> p_PublicKey := ''k1'' \<rparr>" "replicate 8 2"
      "empty_peer\<lparr> p_PublicKey := ''k23'' \<rparr>" "replicate 8 3" NewPeerManager "''a''"]
  by (simp add: peer_index_def demo_ParseKey_def FromKey_def)

end
