(* ===== verification/Wrrp_Endpoint.thy ===== *)
theory Wrrp_Endpoint
  imports Peer_Identity
begin

text \<open>
  Endpoints as the WireGuard device sees them (\<open>internal/agent/infra/wrrp.go\<close>, \<open>conn.go\<close>): a relay
  peer is shown to WireGuard as a fake IPv6 address that carries its 64-bit identifier, and the bind
  decides from the endpoint which way a packet leaves. Parsing the text of an address and port is
  the parameter \<open>ParseAddrPort\<close>.
\<close>

section \<open>Addresses\<close>

text \<open>\<open>netip.Addr\<close>: the zero value, an IPv4 address (four bytes) or an IPv6 address (sixteen
  bytes, no zone).\<close>

datatype netip_Addr = AddrInvalid | Addr4 "byte list" | Addr6 "byte list"

fun Is6 :: "netip_Addr \<Rightarrow> bool" where
  "Is6 (Addr6 _) = True"
| "Is6 _ = False"

fun As16 :: "netip_Addr \<Rightarrow> byte list" where
  "As16 (Addr6 b) = b"
| "As16 (Addr4 b) = replicate 10 0 @ [0xff, 0xff] @ b"
| "As16 AddrInvalid = replicate 16 0"

record netip_AddrPort =
  ap_Addr :: netip_Addr
  ap_Port :: u16

definition wrrpFakePrefix :: "byte list" where
  "wrrpFakePrefix = [0xfd, 0x77, 0x72, 0x72, 0x70, 0x00, 0x00, 0x00]"

definition WrrpFakePort :: u16 where
  "WrrpFakePort = 51820"

definition WrrpFakeAddrPort :: "u64 \<Rightarrow> netip_AddrPort" where
  "WrrpFakeAddrPort remoteId =
     \<lparr> ap_Addr = Addr6 (wrrpFakePrefix @ be_PutUint64 remoteId), ap_Port = WrrpFakePort \<rparr>"

definition IsWrrpFakeAddr :: "netip_Addr \<Rightarrow> bool" where
  "IsWrrpFakeAddr addr \<longleftrightarrow> Is6 addr \<and> take 6 (As16 addr) = take 6 wrrpFakePrefix"

definition RemoteIdFromWrrpFakeAddr :: "netip_Addr \<Rightarrow> u64" where
  "RemoteIdFromWrrpFakeAddr addr = the (be_Uint64 (drop 8 (As16 addr)))"

section \<open>Endpoints\<close>

datatype TransportType = TransportICE | TransportWRRP

record WRRPEndpoint =
  ep_Addr :: netip_AddrPort
  ep_RemoteId :: u64
  ep_TransportType :: TransportType

text \<open>\<open>netip.AddrPort.MarshalBinary\<close>: the address bytes and the port, little endian.\<close>

fun addr_bytes :: "netip_Addr \<Rightarrow> byte list" where
  "addr_bytes AddrInvalid = []"
| "addr_bytes (Addr4 b) = b"
| "addr_bytes (Addr6 b) = b"

definition DstToBytes :: "WRRPEndpoint \<Rightarrow> byte list" where
  "DstToBytes e =
     (if ep_TransportType e = TransportWRRP then be_PutUint64 (ep_RemoteId e)
      else addr_bytes (ap_Addr (ep_Addr e)) @ le_PutUint16 (ap_Port (ep_Addr e)))"

definition DstIP :: "WRRPEndpoint \<Rightarrow> netip_Addr" where
  "DstIP e = (if ep_TransportType e = TransportWRRP then Addr4 [0, 0, 0, 0] else ap_Addr (ep_Addr e))"

text \<open>\<open>DstToString\<close>; \<open>show_ap\<close> prints an address and port.\<close>

definition DstToString :: "(netip_AddrPort \<Rightarrow> string) \<Rightarrow> WRRPEndpoint \<Rightarrow> string" where
  "DstToString show_ap e =
     (if ap_Addr (ep_Addr e) \<noteq> AddrInvalid then show_ap (ep_Addr e)
      else ''wrrp://'' @ dec_nat (unat (ep_RemoteId e)))"

definition zero_AddrPort :: netip_AddrPort where
  "zero_AddrPort = \<lparr> ap_Addr = AddrInvalid, ap_Port = 0 \<rparr>"

datatype endpoint_error = InvalidWrrpEndpoint | InvalidRemoteId | InvalidAddrPort

text \<open>\<open>ParseEndpoint\<close>; \<open>relayAddr\<close> is what the connected relay client reports as its remote address,
  if there is one.\<close>

definition ParseEndpoint ::
  "(string \<Rightarrow> netip_AddrPort option) \<Rightarrow> string option \<Rightarrow> string \<Rightarrow> endpoint_error + WRRPEndpoint" where
  "ParseEndpoint ParseAddrPort relayAddr s =
     (if HasPrefix s ''wrrp:'' then
        (case Cut s ''wrrp://'' of
           None \<Rightarrow> Err InvalidWrrpEndpoint
         | Some (_, after) \<Rightarrow>
           (case ParseUint 64 after of
              None \<Rightarrow> Err InvalidRemoteId
            | Some n \<Rightarrow>
                Ok \<lparr> ep_Addr = (case relayAddr of None \<Rightarrow> zero_AddrPort
                                 | Some ra \<Rightarrow> (case ParseAddrPort ra of None \<Rightarrow> zero_AddrPort | Some a \<Rightarrow> a)),
                     ep_RemoteId = of_nat n, ep_TransportType = TransportWRRP \<rparr>))
      else
        (case ParseAddrPort s of
           None \<Rightarrow> Err InvalidAddrPort
         | Some e \<Rightarrow>
             if IsWrrpFakeAddr (ap_Addr e) then
               Ok \<lparr> ep_Addr = e, ep_RemoteId = RemoteIdFromWrrpFakeAddr (ap_Addr e),
                    ep_TransportType = TransportWRRP \<rparr>
             else Ok \<lparr> ep_Addr = e, ep_RemoteId = 0, ep_TransportType = TransportICE \<rparr>))"

section \<open>The bind\<close>

record DefaultBind =
  b_v4conn :: bool
  b_v6conn :: bool
  b_ipv4 :: bool
  b_ipv6 :: bool
  b_blackhole4 :: bool
  b_blackhole6 :: bool

datatype recv_fn = ReceiveIPv4 | ReceiveIPv6 | ReceiveWrrp

datatype bind_error = ErrBindAlreadyOpen | EAFNOSUPPORT | WrrpSendError string | BindPanic

text \<open>\<open>Open\<close>: the receive functions handed to WireGuard. The booleans of the record say which sockets
  exist (\<open>v4conn\<close>, \<open>v6conn\<close>) and which are in use (\<open>ipv4\<close>, \<open>ipv6\<close>).\<close>

definition bind_Open :: "bool \<Rightarrow> DefaultBind \<Rightarrow> u16 \<Rightarrow> (bind_error + recv_fn list \<times> u16) \<times> DefaultBind" where
  "bind_Open enableWrrp b uport =
     (if b_ipv4 b \<or> b_ipv6 b then (Err ErrBindAlreadyOpen, b)
      else
        let fns = (if b_v4conn b then [ReceiveIPv4] else []) @ (if b_v6conn b then [ReceiveIPv6] else []);
            b' = b\<lparr> b_ipv4 := b_v4conn b, b_ipv6 := b_v6conn b \<rparr>
        in if fns = [] then (Err EAFNOSUPPORT, b')
           else (Ok (fns @ (if enableWrrp then [ReceiveWrrp] else []), uport), b'))"

definition bind_Close :: "DefaultBind \<Rightarrow> DefaultBind" where
  "bind_Close b = b\<lparr> b_ipv4 := False, b_ipv6 := False, b_blackhole4 := False, b_blackhole6 := False \<rparr>"

text \<open>A \<open>net.UDPAddr\<close> out of the pool: the pool is shared between \<open>send4\<close> and \<open>send6\<close> and its entries
  keep what the previous user left. \<open>copy\<close> writes into the existing slice and never beyond its
  length.\<close>

record UDPAddr =
  ua_IP :: "byte list"
  ua_Port :: nat

definition fresh_UDPAddr :: UDPAddr where
  "fresh_UDPAddr = \<lparr> ua_IP = replicate 16 0, ua_Port = 0 \<rparr>"

definition go_copy :: "byte list \<Rightarrow> byte list \<Rightarrow> byte list" where
  "go_copy dst src = take (length dst) src @ drop (length src) dst"

fun As4 :: "netip_Addr \<Rightarrow> byte list option" where
  "As4 (Addr4 b) = Some b"
| "As4 (Addr6 b) = (if take 12 b = replicate 10 0 @ [0xff, 0xff] then Some (drop 12 b) else None)"
| "As4 AddrInvalid = None"

text \<open>The destination that \<open>send4\<close> and \<open>send6\<close> write every buffer to; it goes back into the pool
  afterwards.\<close>

definition send4_dest :: "UDPAddr \<Rightarrow> WRRPEndpoint \<Rightarrow> UDPAddr option" where
  "send4_dest ua ep =
     (case As4 (DstIP ep) of
        None \<Rightarrow> None
      | Some as4 \<Rightarrow> Some \<lparr> ua_IP = take 4 (go_copy (ua_IP ua) as4), ua_Port = unat (ap_Port (ep_Addr ep)) \<rparr>)"

definition send6_dest :: "UDPAddr \<Rightarrow> WRRPEndpoint \<Rightarrow> UDPAddr" where
  "send6_dest ua ep = ua\<lparr> ua_IP := go_copy (ua_IP ua) (As16 (DstIP ep)) \<rparr>"

datatype packet_out = ToRelay u64 byte "byte list" | ToUDP UDPAddr "byte list"

text \<open>The relay branch of \<open>Send\<close> stops at the first error; \<open>wsend\<close> is the relay client's answer.\<close>

fun wrrp_send_all ::
  "(u64 \<Rightarrow> byte list \<Rightarrow> string option) \<Rightarrow> u64 \<Rightarrow> byte list list \<Rightarrow> packet_out list \<times> bind_error option" where
  "wrrp_send_all wsend rid [] = ([], None)"
| "wrrp_send_all wsend rid (buf # bufs) =
     (case wsend rid buf of
        Some e \<Rightarrow> ([ToRelay rid 2 buf], Some (WrrpSendError e))
      | None \<Rightarrow> (let (out, err) = wrrp_send_all wsend rid bufs in (ToRelay rid 2 buf # out, err)))"

text \<open>\<open>Send\<close>, with a pooled address \<open>ua\<close>: the packets handed to the network and the error. Both
  UDP branches write all buffers to one destination.\<close>

definition bind_Send ::
  "(u64 \<Rightarrow> byte list \<Rightarrow> string option) \<Rightarrow> DefaultBind \<Rightarrow> UDPAddr \<Rightarrow> byte list list \<Rightarrow> WRRPEndpoint \<Rightarrow>
     packet_out list \<times> bind_error option" where
  "bind_Send wsend b ua bufs e =
     (if ep_TransportType e = TransportWRRP then wrrp_send_all wsend (ep_RemoteId e) bufs
      else if Is6 (DstIP e) then
        (if b_blackhole6 b then ([], None)
         else if \<not> b_ipv6 b then ([], Some EAFNOSUPPORT)
         else (map (ToUDP (send6_dest ua e)) bufs, None))
      else
        (if b_blackhole4 b then ([], None)
         else if \<not> b_ipv4 b then ([], Some EAFNOSUPPORT)
         else (case send4_dest ua e of
                 None \<Rightarrow> ([], Some BindPanic)
               | Some d \<Rightarrow> (map (ToUDP d) bufs, None))))"

section \<open>Lemmas\<close>

lemma As16_fake [simp]: "As16 (ap_Addr (WrrpFakeAddrPort v)) = wrrpFakePrefix @ be_PutUint64 v"
  by (simp add: WrrpFakeAddrPort_def)

lemma IsWrrpFakeAddr_fake: "IsWrrpFakeAddr (ap_Addr (WrrpFakeAddrPort v))"
  by (simp add: IsWrrpFakeAddr_def) (simp add: WrrpFakeAddrPort_def wrrpFakePrefix_def)

lemma RemoteId_fake: "RemoteIdFromWrrpFakeAddr (ap_Addr (WrrpFakeAddrPort v)) = v"
  using be_Uint64_Put [of v "[]"]
  by (simp add: RemoteIdFromWrrpFakeAddr_def wrrpFakePrefix_def del: be_Uint64_Put)

lemma wrrp_scheme: "HasPrefix (''wrrp://'' @ s) ''wrrp:''"
  by (simp add: HasPrefix_def)

lemma ParseEndpoint_wrrp:
  "ParseEndpoint pa ra (''wrrp://'' @ dec_nat (unat v)) =
     Ok \<lparr> ep_Addr = (case ra of None \<Rightarrow> zero_AddrPort
                      | Some r \<Rightarrow> (case pa r of None \<Rightarrow> zero_AddrPort | Some a \<Rightarrow> a)),
          ep_RemoteId = v, ep_TransportType = TransportWRRP \<rparr>"
proof -
  have "ParseUint 64 (dec_nat (unat v)) = Some (unat v)"
    using unsigned_less [of v] by (intro ParseUint_dec_nat) simp
  then show ?thesis
    using Cut_prefix [of "''wrrp://''" "dec_nat (unat v)"] wrrp_scheme [of "dec_nat (unat v)"]
    by (simp add: ParseEndpoint_def)
qed

lemma wrrp_send_all_ToRelay: "x \<in> set (fst (wrrp_send_all wsend rid bufs)) \<Longrightarrow> \<exists>buf \<in> set bufs. x = ToRelay rid 2 buf"
  by (induction bufs) (auto split: option.splits prod.splits)

lemma length_go_copy [simp]: "length (go_copy dst src) = length dst"
  by (simp add: go_copy_def)

section \<open>Properties\<close>

text \<open>A relay identifier survives every textual and binary form of its endpoint. The fake address
  is recognised and yields the identifier; parsing the text of a fake address gives a relay
  endpoint for it; the \<open>wrrp://\<close> form that \<open>DstToString\<close> prints when no address is known parses back to
  it; and two relay endpoints have the same destination bytes exactly when their identifiers
  agree.\<close>

theorem wrrp_endpoint_roundtrip:
  assumes "ParseAddrPort txt = Some (WrrpFakeAddrPort v)" "\<not> HasPrefix txt ''wrrp:''"
  shows "IsWrrpFakeAddr (ap_Addr (WrrpFakeAddrPort v)) \<and>
    RemoteIdFromWrrpFakeAddr (ap_Addr (WrrpFakeAddrPort v)) = v \<and>
    ParseEndpoint ParseAddrPort ra txt =
      Ok \<lparr> ep_Addr = WrrpFakeAddrPort v, ep_RemoteId = v, ep_TransportType = TransportWRRP \<rparr> \<and>
    ParseEndpoint ParseAddrPort None
        (DstToString show_ap \<lparr> ep_Addr = zero_AddrPort, ep_RemoteId = v, ep_TransportType = TransportWRRP \<rparr>) =
      Ok \<lparr> ep_Addr = zero_AddrPort, ep_RemoteId = v, ep_TransportType = TransportWRRP \<rparr> \<and>
    (DstToBytes \<lparr> ep_Addr = a, ep_RemoteId = v, ep_TransportType = TransportWRRP \<rparr> =
     DstToBytes \<lparr> ep_Addr = b, ep_RemoteId = w, ep_TransportType = TransportWRRP \<rparr> \<longleftrightarrow> v = w)"
proof (intro conjI)
  show "ParseEndpoint ParseAddrPort ra txt =
      Ok \<lparr> ep_Addr = WrrpFakeAddrPort v, ep_RemoteId = v, ep_TransportType = TransportWRRP \<rparr>"
    using assms by (simp add: ParseEndpoint_def IsWrrpFakeAddr_fake RemoteId_fake)
  show "ParseEndpoint ParseAddrPort None
        (DstToString show_ap \<lparr> ep_Addr = zero_AddrPort, ep_RemoteId = v, ep_TransportType = TransportWRRP \<rparr>) =
      Ok \<lparr> ep_Addr = zero_AddrPort, ep_RemoteId = v, ep_TransportType = TransportWRRP \<rparr>"
    using ParseEndpoint_wrrp [of ParseAddrPort None v] by (simp add: DstToString_def zero_AddrPort_def)
  show "DstToBytes \<lparr> ep_Addr = a, ep_RemoteId = v, ep_TransportType = TransportWRRP \<rparr> =
     DstToBytes \<lparr> ep_Addr = b, ep_RemoteId = w, ep_TransportType = TransportWRRP \<rparr> \<longleftrightarrow> v = w"
    using peer_id.enc_inject [of v w] by (simp add: DstToBytes_def FromUint64_def)
qed (rule IsWrrpFakeAddr_fake, rule RemoteId_fake)

theorem wrrp_endpoint_roundtrip_witness:
  "ParseEndpoint (\<lambda>_. Some (WrrpFakeAddrPort 5)) None ''[fd77:7272:7000::5]:51820'' =
     Ok \<lparr> ep_Addr = WrrpFakeAddrPort 5, ep_RemoteId = 5, ep_TransportType = TransportWRRP \<rparr>"
  using wrrp_endpoint_roundtrip [of "\<lambda>_. Some (WrrpFakeAddrPort 5)" "''[fd77:7272:7000::5]:51820''" 5 None]
  by (simp add: HasPrefix_def)

text \<open>Where \<open>Send\<close> puts a packet. A relay endpoint only ever uses the relay client, every packet
  under the endpoint's identifier; a direct IPv4 endpoint only ever uses UDP, to exactly its address
  and port, whatever the pooled address was used for before.\<close>

theorem bind_send_destination:
  assumes "out = fst (bind_Send wsend b ua bufs e)" "x \<in> set out"
  shows "(ep_TransportType e = TransportWRRP \<longrightarrow> (\<exists>buf \<in> set bufs. x = ToRelay (ep_RemoteId e) 2 buf)) \<and>
    (ep_TransportType e = TransportICE \<and> ap_Addr (ep_Addr e) = Addr4 ip \<and> length ip = 4 \<and> 4 \<le> length (ua_IP ua) \<longrightarrow>
       (\<exists>buf \<in> set bufs. x = ToUDP \<lparr> ua_IP = ip, ua_Port = unat (ap_Port (ep_Addr e)) \<rparr> buf))"
  using assms
  by (auto simp: bind_Send_def send4_dest_def DstIP_def go_copy_def dest: wrrp_send_all_ToRelay split: if_splits)

theorem bind_send_destination_witness:
  "fst (bind_Send (\<lambda>_ _. None) \<lparr> b_v4conn = True, b_v6conn = False, b_ipv4 = True, b_ipv6 = False,
       b_blackhole4 = False, b_blackhole6 = False \<rparr> fresh_UDPAddr [[1]]
       \<lparr> ep_Addr = \<lparr> ap_Addr = Addr4 [10, 0, 0, 1], ap_Port = 7 \<rparr>, ep_RemoteId = 0, ep_TransportType = TransportICE \<rparr>)
     = [ToUDP \<lparr> ua_IP = [10, 0, 0, 1], ua_Port = 7 \<rparr> [1]]"
  using bind_send_destination [OF refl, of _ "\<lambda>_ _. None" "\<lparr> b_v4conn = True, b_v6conn = False, b_ipv4 = True, b_ipv6 = False,
       b_blackhole4 = False, b_blackhole6 = False \<rparr>" fresh_UDPAddr "[[1]]"
       "\<lparr> ep_Addr = \<lparr> ap_Addr = Addr4 [10, 0, 0, 1], ap_Port = 7 \<rparr>, ep_RemoteId = 0, ep_TransportType = TransportICE \<rparr>" "[10, 0, 0, 1]"]
  by (simp add: bind_Send_def send4_dest_def DstIP_def fresh_UDPAddr_def go_copy_def)

text \<open>Direct IPv6 packets never go to the peer's port. \<open>send6\<close> leaves the port of the pooled address
  as it found it, so every packet goes to port 0 with a fresh pool entry and to the port of an
  earlier IPv4 peer with a reused one; a reused entry also keeps its four-byte length, so the
  address is the first four bytes of the IPv6 address.\<close>

theorem send6_ignores_port:
  assumes "ep_TransportType e = TransportICE" "ap_Addr (ep_Addr e) = Addr6 ip" "length ip = 16"
    and "b_ipv6 b" "\<not> b_blackhole6 b"
  shows "bind_Send wsend b fresh_UDPAddr bufs e = (map (ToUDP \<lparr> ua_IP = ip, ua_Port = 0 \<rparr>) bufs, None) \<and>
    (send4_dest fresh_UDPAddr e4 = Some ua \<and> ap_Addr (ep_Addr e4) = Addr4 ip4 \<and> length ip4 = 4 \<and> ep_TransportType e4 = TransportICE
      \<longrightarrow> bind_Send wsend b ua bufs e =
          (map (ToUDP \<lparr> ua_IP = take 4 ip, ua_Port = unat (ap_Port (ep_Addr e4)) \<rparr>) bufs, None))"
  using assms
  by (auto simp: bind_Send_def DstIP_def send6_dest_def send4_dest_def go_copy_def fresh_UDPAddr_def)

theorem send6_ignores_port_witness:
  "bind_Send (\<lambda>_ _. None) \<lparr> b_v4conn = True, b_v6conn = True, b_ipv4 = True, b_ipv6 = True,
       b_blackhole4 = False, b_blackhole6 = False \<rparr> fresh_UDPAddr [[1]]
       \<lparr> ep_Addr = \<lparr> ap_Addr = Addr6 (replicate 16 1), ap_Port = 51820 \<rparr>, ep_RemoteId = 0, ep_TransportType = TransportICE \<rparr>
   = ([ToUDP \<lparr> ua_IP = replicate 16 1, ua_Port = 0 \<rparr> [1]], None)"
  using send6_ignores_port [of "\<lparr> ep_Addr = \<lparr> ap_Addr = Addr6 (replicate 16 1), ap_Port = 51820 \<rparr>, ep_RemoteId = 0, ep_TransportType = TransportICE \<rparr>"
      "replicate 16 1" "\<lparr> b_v4conn = True, b_v6conn = True, b_ipv4 = True, b_ipv6 = True, b_blackhole4 = False, b_blackhole6 = False \<rparr>"
      "\<lambda>_ _. None" "[[1]]"]
  by simp

end
