(* ===== verification/Lrp_Client.thy ===== *)
theory Lrp_Client
  imports Relay_Server Wrrp_Endpoint
begin

text \<open>
  The relay client (\<open>internal/relay/lrp_client.go\<close>, \<open>lrp_client_tcp.go\<close>, \<open>lrp_client_quic.go\<close>): sequence
  numbers and frames, the HTTP upgrade, the bounded send queue and its single writer, and the two
  receive functions that hand packets to WireGuard.
\<close>

section \<open>The part shared by both transports\<close>

definition sendChanDepth :: nat where "sendChanDepth = 256"
definition probeChanSize :: nat where "probeChanSize = 1024"
definition MaxProbePayload :: u32 where "MaxProbePayload = 2048"

record Task =
  task_SessionID :: u64
  task_Data :: "byte list"

record lrpClient =
  c_localId :: PeerID
  c_probeCh :: "Task list"
  c_seq :: u32

definition nextSeq :: "lrpClient \<Rightarrow> u16 \<times> lrpClient" where
  "nextSeq c = (let s = c_seq c + 1 in (ucast (s AND 0xFFFF), c\<lparr> c_seq := s \<rparr>))"

text \<open>\<open>register\<close>: the bytes it writes.\<close>

definition register_frame :: "lrpClient \<Rightarrow> byte list \<times> lrpClient" where
  "register_frame c =
     (let (sq, c') = nextSeq c
      in (Marshal \<lparr> Seq = sq, PayloadLen = 0, Cmd = cmd_Register,
                    ToID = ucast (ToUint64 (c_localId c)), Reserved = 0 \<rparr>, c'))"

definition makeFrame :: "lrpClient \<Rightarrow> u64 \<Rightarrow> byte \<Rightarrow> byte list \<Rightarrow> byte list \<times> lrpClient" where
  "makeFrame c toID cmd data =
     (let (sq, c') = nextSeq c
      in (Marshal \<lparr> Seq = sq, PayloadLen = of_nat (length data), Cmd = cmd,
                    ToID = ucast toID, Reserved = 0 \<rparr> @ data, c'))"

text \<open>The two channel sends that drop instead of blocking.\<close>

definition try_probe :: "lrpClient \<Rightarrow> Task \<Rightarrow> lrpClient" where
  "try_probe c t =
     (if length (c_probeCh c) < probeChanSize then c\<lparr> c_probeCh := c_probeCh c @ [t] \<rparr> else c)"

text \<open>One turn of \<open>probeWorker\<close>: \<open>decode\<close> unmarshals the signalling packet and gives its sender; the
  result is the call of the message handler, if any.\<close>

definition probeWorker_turn ::
  "(byte list \<Rightarrow> (u64 \<times> 'p) option) \<Rightarrow> lrpClient \<Rightarrow> ((PeerID \<times> 'p) option \<times> lrpClient) option" where
  "probeWorker_turn decode c =
     (case c_probeCh c of
        [] \<Rightarrow> None
      | task # rest \<Rightarrow>
          Some (map_option (\<lambda>(sender, packet). (FromUint64 sender, packet)) (decode (task_Data task)),
                c\<lparr> c_probeCh := rest \<rparr>))"

section \<open>The TCP client\<close>

record TCPClient =
  t_base :: lrpClient
  t_conn :: bool
  t_reader :: "byte list"
  t_sendCh :: "byte list list"
  t_written :: "byte list"

datatype client_error =
    DialFailed | UpgradeFailed | RegisterFailed | NotConnected | SendChannelFull
  | ReadTimeout | ReadEOF | BadHeader

definition upgrade_request :: http_request where
  "upgrade_request = \<lparr> req_Path = ''/lrp/v1/upgrade'', req_Upgrade = ''lrp'' \<rparr>"

text \<open>\<open>Connect\<close>: \<open>dial\<close> says whether the TCP connection came up, \<open>server\<close> is the status the server
  answers the upgrade request with, \<open>wrote\<close> whether the registration could be written.\<close>

definition tcp_Connect ::
  "bool \<Rightarrow> (http_request \<Rightarrow> nat) \<Rightarrow> bool \<Rightarrow> TCPClient \<Rightarrow> client_error option \<times> TCPClient" where
  "tcp_Connect dial server wrote c =
     (if \<not> dial then (Some DialFailed, c)
      else if server upgrade_request \<noteq> StatusSwitchingProtocols then (Some UpgradeFailed, c)
      else
        let (frame, base) = register_frame (t_base c);
            c' = c\<lparr> t_base := base, t_conn := True, t_reader := [] \<rparr>
        in if wrote then (None, c'\<lparr> t_written := frame \<rparr>) else (Some RegisterFailed, c'))"

definition tcp_Send :: "TCPClient \<Rightarrow> u64 \<Rightarrow> byte \<Rightarrow> byte list \<Rightarrow> client_error option \<times> TCPClient" where
  "tcp_Send c targetId lrpType data =
     (let (frame, base) = makeFrame (t_base c) targetId lrpType data;
          c' = c\<lparr> t_base := base \<rparr>
      in if length (t_sendCh c') < sendChanDepth
         then (None, c'\<lparr> t_sendCh := t_sendCh c' @ [frame] \<rparr>)
         else (Some SendChannelFull, c'))"

text \<open>One tick of \<open>keepaliveLoop\<close>.\<close>

definition keepalive_tick :: "TCPClient \<Rightarrow> TCPClient" where
  "keepalive_tick c = snd (tcp_Send c 0 cmd_KeepAlive [])"

text \<open>One turn of \<open>writerLoop\<close> that meets no write error: the first frame, then the frames that are
  queued by then, then a flush. \<open>None\<close> when there is nothing to write or no connection.\<close>

definition writerLoop_turn :: "TCPClient \<Rightarrow> TCPClient option" where
  "writerLoop_turn c =
     (case t_sendCh c of
        [] \<Rightarrow> None
      | frame # batch \<Rightarrow>
          if \<not> t_conn c then None
          else Some (c\<lparr> t_sendCh := [], t_written := t_written c @ frame @ concat batch \<rparr>))"

text \<open>What a receive function leaves in WireGuard's buffers: nothing, or one packet and its
  endpoint.\<close>

datatype received = NoPacket | Packet "byte list" WRRPEndpoint

definition relay_endpoint :: "Header \<Rightarrow> WRRPEndpoint" where
  "relay_endpoint h =
     \<lparr> ep_Addr = WrrpFakeAddrPort (ucast (ToID h)), ep_RemoteId = ucast (ToID h),
       ep_TransportType = TransportWRRP \<rparr>"

text \<open>One call of the TCP receive function. \<open>timeout\<close> says whether a read that cannot be completed ends
  by the 30 second deadline rather than by the end of the stream; either way the bytes read so far
  are gone. \<open>buflen\<close> is the size of WireGuard's first buffer.\<close>

definition tcp_ReceiveFunc :: "bool \<Rightarrow> nat \<Rightarrow> TCPClient \<Rightarrow> (client_error + received) \<times> TCPClient" where
  "tcp_ReceiveFunc timeout buflen c =
     (if \<not> t_conn c then (Err NotConnected, c)
      else
        case ReadFull HeaderSize (t_reader c) of
          None \<Rightarrow> (if timeout then Ok NoPacket else Err ReadEOF, c\<lparr> t_reader := [] \<rparr>)
        | Some (headBuf, r1) \<Rightarrow>
            (case Unmarshal headBuf of
               Inl _ \<Rightarrow> (Err BadHeader, c\<lparr> t_reader := r1 \<rparr>)
             | Inr h \<Rightarrow>
                 if Cmd h = cmd_Probe then
                   (if MaxProbePayload < PayloadLen h then (Ok NoPacket, c\<lparr> t_reader := r1 \<rparr>)
                    else case ReadFull (unat (PayloadLen h)) r1 of
                           None \<Rightarrow> (Err (if timeout then ReadTimeout else ReadEOF), c\<lparr> t_reader := [] \<rparr>)
                         | Some (buf, r2) \<Rightarrow>
                             (Ok NoPacket,
                              c\<lparr> t_reader := r2,
                                 t_base := try_probe (t_base c) \<lparr> task_SessionID = ucast (ToID h), task_Data = buf \<rparr> \<rparr>))
                 else if Cmd h = cmd_Forward then
                   (if buflen < unat (PayloadLen h) then (Ok NoPacket, c\<lparr> t_reader := r1 \<rparr>)
                    else case ReadFull (unat (PayloadLen h)) r1 of
                           None \<Rightarrow> (Err (if timeout then ReadTimeout else ReadEOF), c\<lparr> t_reader := [] \<rparr>)
                         | Some (buf, r2) \<Rightarrow> (Ok (Packet buf (relay_endpoint h)), c\<lparr> t_reader := r2 \<rparr>))
                 else (Ok NoPacket, c\<lparr> t_reader := drop (unat (PayloadLen h)) r1 \<rparr>)))"

section \<open>The QUIC client\<close>

text \<open>\<open>Send\<close> hands one datagram to the connection, \<open>net\<close> its answer.\<close>

definition quic_Send ::
  "(byte list \<Rightarrow> string option) \<Rightarrow> lrpClient \<Rightarrow> u64 \<Rightarrow> byte \<Rightarrow> byte list \<Rightarrow> string option \<times> byte list \<times> lrpClient" where
  "quic_Send net c targetId lrpType data =
     (let (frame, c') = makeFrame c targetId lrpType data in (net frame, frame, c'))"

text \<open>The receive loop over the datagrams that arrive, in order: it returns at the first \<open>Forward\<close>
  that fits, with the datagrams not yet looked at; probes are queued on the way. \<open>None\<close> when the
  datagrams run out and the loop is left waiting.\<close>

fun quic_ReceiveFunc ::
  "nat \<Rightarrow> lrpClient \<Rightarrow> byte list list \<Rightarrow> (byte list \<times> WRRPEndpoint \<times> byte list list) option \<times> lrpClient" where
  "quic_ReceiveFunc buflen c [] = (None, c)"
| "quic_ReceiveFunc buflen c (data # ds) =
     (if length data < HeaderSize then quic_ReceiveFunc buflen c ds
      else case Unmarshal (take HeaderSize data) of
             Inl _ \<Rightarrow> quic_ReceiveFunc buflen c ds
           | Inr h \<Rightarrow>
               let payload = drop HeaderSize data in
               if Cmd h = cmd_Forward then
                 (if buflen < length payload then quic_ReceiveFunc buflen c ds
                  else (Some (payload, relay_endpoint h, ds), c))
               else if Cmd h = cmd_Probe then
                 quic_ReceiveFunc buflen
                   (try_probe c \<lparr> task_SessionID = ucast (ToID h), task_Data = payload \<rparr>) ds
               else quic_ReceiveFunc buflen c ds)"

section \<open>Histories of a TCP client\<close>

datatype client_op = DoSend u64 byte "byte list" | DoKeepalive | DoWrite

text \<open>The client after a history, and the sends that were accepted into the queue.\<close>

fun client_step :: "TCPClient \<Rightarrow> client_op \<Rightarrow> TCPClient \<times> (u64 \<times> byte \<times> byte list) list" where
  "client_step c (DoSend t cmd d) =
     (case tcp_Send c t cmd d of (err, c') \<Rightarrow> (c', if err = None then [(t, cmd, d)] else []))"
| "client_step c DoKeepalive = (keepalive_tick c, [])"
| "client_step c DoWrite = (case writerLoop_turn c of None \<Rightarrow> (c, []) | Some c' \<Rightarrow> (c', []))"

fun client_run :: "TCPClient \<Rightarrow> client_op list \<Rightarrow> TCPClient \<times> (u64 \<times> byte \<times> byte list) list" where
  "client_run c [] = (c, [])"
| "client_run c (op # ops) =
     (let (c1, a1) = client_step c op; (c2, a2) = client_run c1 ops in (c2, a1 @ a2))"

fun op_ok :: "client_op \<Rightarrow> bool" where
  "op_ok (DoSend t cmd d) \<longleftrightarrow> (cmd = cmd_Forward \<or> cmd = cmd_Probe) \<and> length d < 2 ^ 32"
| "op_ok _ = True"

section \<open>Lemmas\<close>

lemma tcp_Send_accepted:
  "length (t_sendCh c) < 256 \<Longrightarrow> tcp_Send c t cmd d =
     (None, c\<lparr> t_base := snd (makeFrame (t_base c) t cmd d),
               t_sendCh := t_sendCh c @ [fst (makeFrame (t_base c) t cmd d)] \<rparr>)"
  by (simp add: tcp_Send_def Let_def case_prod_beta sendChanDepth_def)

lemma makeFrame_wf:
  assumes "length data < 2 ^ 32" "cmd = cmd_Forward \<or> cmd = cmd_Probe \<or> data = []"
  obtains h where "fst (makeFrame c toID cmd data) = frame_bytes (h, data)" "wf_frame (h, data)"
    "ToID h = ucast toID" "Cmd h = cmd"
proof
  let ?h = "\<lparr> Seq = fst (nextSeq c), PayloadLen = of_nat (length data), Cmd = cmd, ToID = ucast toID, Reserved = 0 \<rparr>"
  show "fst (makeFrame c toID cmd data) = frame_bytes (?h, data)"
    by (simp add: makeFrame_def split: prod.splits)
  show "wf_frame (?h, data)"
    using assms by (auto simp: is_data_def unsigned_of_nat take_bit_eq_mod)
qed simp_all

text \<open>What the wire has seen and what is still queued is always the registration followed by whole
  frames, the accepted sends among them in order.\<close>

definition data_sends :: "(Header \<times> byte list) list \<Rightarrow> (u32 \<times> byte \<times> byte list) list" where
  "data_sends fs = map (\<lambda>(h, p). (ToID h, Cmd h, p)) (filter (\<lambda>(h, p). is_data h) fs)"

definition stream_ok :: "byte list \<Rightarrow> (u64 \<times> byte \<times> byte list) list \<Rightarrow> TCPClient \<Rightarrow> bool" where
  "stream_ok reg acc c \<longleftrightarrow>
     (\<exists>fs. (\<forall>f \<in> set fs. wf_frame f) \<and>
        t_written c @ concat (t_sendCh c) = reg @ concat (map frame_bytes fs) \<and>
        data_sends fs = map (\<lambda>(t, cmd, d). (ucast t, cmd, d)) acc) \<and>
     length (t_sendCh c) \<le> sendChanDepth"

lemma data_sends_snoc:
  "data_sends (fs @ [(h, p)]) = data_sends fs @ (if is_data h then [(ToID h, Cmd h, p)] else [])"
  by (simp add: data_sends_def)

lemma stream_ok_send:
  assumes "stream_ok reg acc c" "length d < 2 ^ 32"
    and cmd: "cmd = cmd_Forward \<or> cmd = cmd_Probe \<or> cmd = cmd_KeepAlive \<and> d = []"
  shows "stream_ok reg (acc @ (if fst (tcp_Send c t cmd d) = None \<and> cmd \<noteq> cmd_KeepAlive then [(t, cmd, d)] else []))
    (snd (tcp_Send c t cmd d))"
proof -
  have "cmd = cmd_Forward \<or> cmd = cmd_Probe \<or> d = []"
    using cmd by blast
  from makeFrame_wf [OF assms(2) this, of "t_base c" t]
  obtain h where h: "fst (makeFrame (t_base c) t cmd d) = frame_bytes (h, d)" "wf_frame (h, d)"
    "ToID h = ucast t" "Cmd h = cmd" by blast
  obtain fs where fs: "\<forall>f \<in> set fs. wf_frame f"
    "t_written c @ concat (t_sendCh c) = reg @ concat (map frame_bytes fs)"
    "data_sends fs = map (\<lambda>(t, cmd, d). (ucast t, cmd, d)) acc" "length (t_sendCh c) \<le> sendChanDepth"
    using assms(1) unfolding stream_ok_def by blast
  have dh: "is_data h \<longleftrightarrow> cmd \<noteq> cmd_KeepAlive"
    using cmd h(4) by (auto simp: is_data_def cmd_defs)
  show ?thesis
  proof (cases "length (t_sendCh c) < sendChanDepth")
    case True
    then have r: "fst (tcp_Send c t cmd d) = None"
      "t_written (snd (tcp_Send c t cmd d)) = t_written c"
      "t_sendCh (snd (tcp_Send c t cmd d)) = t_sendCh c @ [frame_bytes (h, d)]"
      using h(1) by (simp_all add: tcp_Send_def Let_def case_prod_beta)
    show ?thesis
      unfolding stream_ok_def
      by (rule conjI, rule exI [of _ "fs @ [(h, d)]"])
         (use fs h r dh True in \<open>simp_all add: data_sends_snoc flip: append_assoc\<close>)
  next
    case False
    then have r: "fst (tcp_Send c t cmd d) \<noteq> None"
      "t_written (snd (tcp_Send c t cmd d)) = t_written c"
      "t_sendCh (snd (tcp_Send c t cmd d)) = t_sendCh c"
      by (simp_all add: tcp_Send_def Let_def case_prod_beta)
    then show ?thesis
      using fs unfolding stream_ok_def by auto
  qed
qed

lemma stream_ok_step:
  assumes "stream_ok reg acc c" "op_ok op"
  shows "stream_ok reg (acc @ snd (client_step c op)) (fst (client_step c op))"
proof (cases op)
  case (DoSend t cmd d)
  then show ?thesis
    using stream_ok_send [OF assms(1), of d cmd t] assms(2)
    by (auto simp: cmd_defs split: prod.splits if_splits)
next
  case DoKeepalive
  then show ?thesis
    using stream_ok_send [OF assms(1), of "[]" cmd_KeepAlive 0] by (simp add: keepalive_tick_def)
next
  case DoWrite
  then show ?thesis
    using assms(1) by (auto simp: writerLoop_turn_def stream_ok_def split: list.splits option.splits if_splits)
qed

lemma stream_ok_run:
  assumes "stream_ok reg acc c" "\<forall>op \<in> set ops. op_ok op"
  shows "stream_ok reg (acc @ snd (client_run c ops)) (fst (client_run c ops))"
  using assms
proof (induction ops arbitrary: c acc)
  case (Cons op ops)
  then show ?case
    using Cons.IH [OF stream_ok_step [of reg acc c op]] by (simp add: Let_def case_prod_beta)
qed simp

text \<open>Receiving one frame.\<close>

lemma tcp_receive_frame:
  assumes "t_conn c" "t_reader c = Marshal h @ data @ rest" "unat (PayloadLen h) = length data"
    and "Cmd h = cmd_Forward" "length data \<le> buflen"
  shows "tcp_ReceiveFunc timeout buflen c = (Ok (Packet data (relay_endpoint h)), c\<lparr> t_reader := rest \<rparr>)"
proof -
  have "ReadFull HeaderSize (t_reader c) = Some (Marshal h, data @ rest)"
    unfolding assms(2) by (rule ReadFull_append) simp
  moreover have "ReadFull (unat (PayloadLen h)) (data @ rest) = Some (data, rest)"
    by (rule ReadFull_append) (simp add: assms(3))
  ultimately show ?thesis
    using assms by (simp add: tcp_ReceiveFunc_def cmd_defs)
qed

lemma tcp_receive_oversized_probe:
  assumes "t_conn c" "t_reader c = Marshal h @ r" "Cmd h = cmd_Probe" "MaxProbePayload < PayloadLen h"
  shows "tcp_ReceiveFunc timeout buflen c = (Ok NoPacket, c\<lparr> t_reader := r \<rparr>)"
proof -
  have "ReadFull HeaderSize (t_reader c) = Some (Marshal h, r)"
    unfolding assms(2) by (rule ReadFull_append) simp
  then show ?thesis
    using assms by (simp add: tcp_ReceiveFunc_def)
qed

section \<open>Properties\<close>


definition demo_base :: lrpClient where
  "demo_base = \<lparr> c_localId = FromUint64 7, c_probeCh = [], c_seq = 0 \<rparr>"

definition demo_client :: TCPClient where
  "demo_client = \<lparr> t_base = snd (register_frame demo_base), t_conn = True, t_reader = [], t_sendCh = [],
     t_written = fst (register_frame demo_base) \<rparr>"


text \<open>A relayed packet reaches WireGuard with its payload intact but with the receiver's own
  identity as its source. The frame carries no sender; the receive function of either transport
  builds the endpoint from \<open>ToID\<close>, so a packet addressed to a client is attributed to the
  identifier that this client registered itself under, whoever sent it.\<close>

theorem relayed_packet_attributed_to_receiver:
  assumes "length data < 2 ^ 32" "length data \<le> buflen"
    and "frame = fst (makeFrame sender (ToUint64 (c_localId (t_base c))) cmd_Forward data)"
    and "t_conn c" "t_reader c = frame @ rest"
    and "Unmarshal (fst (register_frame (t_base c))) = Ok reg"
  shows "\<exists>e. tcp_ReceiveFunc timeout buflen c = (Ok (Packet data e), c\<lparr> t_reader := rest \<rparr>) \<and>
    quic_ReceiveFunc buflen b (frame # ds) = (Some (data, e, ds), b) \<and>
    ep_RemoteId e = ucast (ToID reg) \<and> ep_TransportType e = TransportWRRP"
proof -
  obtain h where h: "frame = Marshal h @ data" "unat (PayloadLen h) = length data"
    "ToID h = ucast (ToUint64 (c_localId (t_base c)))" "Cmd h = cmd_Forward"
    using makeFrame_wf [OF assms(1), of cmd_Forward sender "ToUint64 (c_localId (t_base c))"] assms(3)
    by (metis frame_bytes.simps wf_frame.simps)
  have "ToID reg = ucast (ToUint64 (c_localId (t_base c)))"
    using assms(6) by (auto simp: register_frame_def case_prod_beta)
  moreover have "tcp_ReceiveFunc timeout buflen c = (Ok (Packet data (relay_endpoint h)), c\<lparr> t_reader := rest \<rparr>)"
    using assms h by (intro tcp_receive_frame) simp_all
  moreover have "quic_ReceiveFunc buflen b (frame # ds) = (Some (data, relay_endpoint h, ds), b)"
    using assms(2) h by simp
  ultimately show ?thesis
    using h by (auto simp: relay_endpoint_def)
qed

definition demo_receiver :: TCPClient where
  "demo_receiver = demo_client\<lparr> t_reader := fst (makeFrame demo_base 7 cmd_Forward [1, 2]) \<rparr>"

theorem relayed_packet_attributed_to_receiver_witness:
  "\<exists>e. tcp_ReceiveFunc False 1500 demo_receiver = (Ok (Packet [1, 2] e), demo_receiver\<lparr> t_reader := [] \<rparr>) \<and>
     ep_RemoteId e = 7"
proof -
  obtain reg where reg: "Unmarshal (fst (register_frame (t_base demo_receiver))) = Ok reg" "ToID reg = 7"
    by (simp add: register_frame_def case_prod_beta demo_receiver_def demo_client_def demo_base_def nextSeq_def Let_def)
  have "ToUint64 (c_localId (t_base demo_receiver)) = 7"
    by (simp add: demo_receiver_def demo_client_def demo_base_def register_frame_def nextSeq_def Let_def)
  then show ?thesis
    using relayed_packet_attributed_to_receiver
      [of "[1, 2]" 1500 "fst (makeFrame demo_base 7 cmd_Forward [1, 2])" demo_base demo_receiver "[]" reg False] reg
    by (auto simp: demo_receiver_def demo_client_def)
qed

text \<open>The TCP client cannot connect to the relay server of this repository. It asks for a path the
  server does not serve, with an \<open>Upgrade\<close> token the handler would refuse as well; the server's
  handler does accept the request it was written for.\<close>

theorem tcp_client_upgrade_refused:
  "fst (tcp_Connect dial (\<lambda>r. fst (serve_mux r)) wrote c) \<noteq> None \<and>
   fst (tcp_Connect dial (\<lambda>r. fst (boltUpgradeHandler r)) wrote c) \<noteq> None \<and>
   t_conn (snd (tcp_Connect dial (\<lambda>r. fst (serve_mux r)) wrote c)) = t_conn c \<and>
   serve_mux \<lparr> req_Path = ''/bolt/v1/upgrade'', req_Upgrade = ''bolt'' \<rparr> = (StatusSwitchingProtocols, True)"
  by (simp add: tcp_Connect_def upgrade_request_def serve_mux_def boltUpgradeHandler_def
      StatusSwitchingProtocols_def StatusBadRequest_def StatusNotFound_def)

text \<open>A probe larger than the limit is not skipped but read as frames. The receive function
  returns with the payload still in the stream, so the next call takes the payload for a header: a
  \<open>Forward\<close> frame hidden at the start of an oversized probe is handed to WireGuard.\<close>

theorem oversized_probe_is_reinterpreted:
  assumes "t_conn c" "Cmd h = cmd_Probe" "MaxProbePayload < PayloadLen h"
    and "t_reader c = Marshal h @ (Marshal g @ data @ pad) @ rest"
    and "unat (PayloadLen h) = length (Marshal g @ data @ pad)"
    and "Cmd g = cmd_Forward" "unat (PayloadLen g) = length data" "length data \<le> buflen"
  shows "tcp_ReceiveFunc timeout buflen c = (Ok NoPacket, c\<lparr> t_reader := (Marshal g @ data @ pad) @ rest \<rparr>) \<and>
    fst (tcp_ReceiveFunc timeout buflen (snd (tcp_ReceiveFunc timeout buflen c))) = Ok (Packet data (relay_endpoint g))"
proof -
  have "tcp_ReceiveFunc timeout buflen c = (Ok NoPacket, c\<lparr> t_reader := (Marshal g @ data @ pad) @ rest \<rparr>)"
    using assms by (intro tcp_receive_oversized_probe) simp_all
  moreover have "tcp_ReceiveFunc timeout buflen (c\<lparr> t_reader := (Marshal g @ data @ pad) @ rest \<rparr>) =
      (Ok (Packet data (relay_endpoint g)), c\<lparr> t_reader := (Marshal g @ data @ pad) @ rest \<rparr>\<lparr> t_reader := pad @ rest \<rparr>)"
    using assms by (intro tcp_receive_frame) simp_all
  ultimately show ?thesis by simp
qed

theorem oversized_probe_is_reinterpreted_witness:
  "fst (tcp_ReceiveFunc True 1500 (snd (tcp_ReceiveFunc True 1500
      (demo_client\<lparr> t_reader := Marshal \<lparr> Seq = 1, PayloadLen = 3014, Cmd = cmd_Probe, ToID = 7, Reserved = 0 \<rparr> @
         (Marshal (fwd_header 9 2) @ [1, 2] @ replicate 3000 0) @ [] \<rparr>)))) =
   Ok (Packet [1, 2] (relay_endpoint (fwd_header 9 2)))"
  by (rule conjunct2 [OF oversized_probe_is_reinterpreted
        [where h = "\<lparr> Seq = 1, PayloadLen = 3014, Cmd = cmd_Probe, ToID = 7, Reserved = 0 \<rparr>" and pad = "replicate 3000 0" and rest = "[]"]])
     (simp_all add: demo_client_def fwd_header_def MaxProbePayload_def)

end
