(* ===== verification/Guarded_Machine.thy ===== *)
theory Guarded_Machine
  imports Prelude
begin

text \<open>
  The contract of a guarded status: a record with a status field and one operation that requests a
  change of status. A request that the table of allowed changes admits moves the status there; any
  other request is refused and leaves the status alone. The probe's connection state is of this
  kind. Clients get the two facts they rely on: every status ever
  reached lies on a path of allowed changes, and a status with no way out is never left.
\<close>

locale guarded_machine =
  fixes status :: "'m \<Rightarrow> 's"
    and allowed :: "'s \<Rightarrow> 's \<Rightarrow> bool"
    and request :: "'m \<Rightarrow> 's \<Rightarrow> bool \<times> 'm"
  assumes request_allowed: "allowed (status m) t \<Longrightarrow> fst (request m t) \<and> status (snd (request m t)) = t"
    and request_refused: "\<not> allowed (status m) t \<Longrightarrow> \<not> fst (request m t) \<and> status (snd (request m t)) = status m"
begin

lemma request_step: "status (snd (request m t)) = status m \<or> allowed (status m) (status (snd (request m t)))"
  using request_allowed [of m t] request_refused [of m t] by (cases "allowed (status m) t") auto

text \<open>Any sequence of requests, accepted or not.\<close>

lemma requests_along_path:
  "allowed\<^sup>*\<^sup>* (status m) (status (foldl (\<lambda>m t. snd (request m t)) m ts))"
proof (induction ts arbitrary: m)
  case (Cons t ts)
  have "allowed\<^sup>*\<^sup>* (status m) (status (snd (request m t)))"
    using request_step [of m t] by auto
  then show ?case
    using Cons.IH [of "snd (request m t)"] by (simp add: rtranclp_trans)
qed simp

lemma terminal_absorbing:
  assumes "\<And>t. \<not> allowed (status m) t"
  shows "status (foldl (\<lambda>m t. snd (request m t)) m ts) = status m"
  using assms
proof (induction ts arbitrary: m)
  case (Cons t ts)
  then have "status (snd (request m t)) = status m"
    using request_refused [of m t] by blast
  then show ?case
    using Cons.IH [of "snd (request m t)"] Cons.prems by simp
qed simp

lemma request_changes_iff: "status (snd (request m t)) \<noteq> status m \<Longrightarrow> fst (request m t) \<and> allowed (status m) t"
  using request_allowed request_refused by blast

end

end
