(* ===== verification/Peer_State.thy ===== *)
theory Peer_State
  imports Guarded_Machine Registry Wrrp_Endpoint
begin

text \<open>
  The lifecycle of a connection to one remote peer: the state machine
  (\<open>internal/server/transport/state_machine.go\<close>), who initiates (\<open>role.go\<close>), and the WireGuard
  configurator with its adapter to the provisioner (\<open>configurator.go\<close>, \<open>probe_factory.go\<close>). The
  provisioner itself is outside this repository's pure code; its calls are the log \<open>wg_op\<close> and their
  success is the parameter \<open>ok\<close>.
\<close>

section \<open>State machine\<close>

datatype PeerState = StateCreated | StateProbing | StateICEReady | StateWRRPReady | StateFailed | StateClosed

fun allowedTransitions :: "PeerState \<Rightarrow> PeerState list" where
  "allowedTransitions StateCreated = [StateProbing]"
| "allowedTransitions StateProbing = [StateICEReady, StateWRRPReady, StateFailed]"
| "allowedTransitions StateWRRPReady = [StateICEReady, StateFailed, StateClosed]"
| "allowedTransitions StateICEReady = [StateFailed, StateClosed]"
| "allowedTransitions StateFailed = [StateProbing, StateClosed]"
| "allowedTransitions StateClosed = []"

text \<open>A state machine with the world its callbacks act on. \<open>sm_callbacks\<close> are run in order with the old
  and the new state.\<close>

record 'w StateMachine =
  sm_current :: PeerState
  sm_callbacks :: "(PeerState \<Rightarrow> PeerState \<Rightarrow> 'w \<Rightarrow> 'w) list"
  sm_world :: 'w

definition NewStateMachine :: "PeerState \<Rightarrow> 'w \<Rightarrow> 'w StateMachine" where
  "NewStateMachine initial w = \<lparr> sm_current = initial, sm_callbacks = [], sm_world = w \<rparr>"

definition Transition :: "'w StateMachine \<Rightarrow> PeerState \<Rightarrow> bool \<times> 'w StateMachine" where
  "Transition sm target =
     (if target \<in> set (allowedTransitions (sm_current sm))
      then (True, sm\<lparr> sm_current := target,
                      sm_world := fold (\<lambda>cb. cb (sm_current sm) target) (sm_callbacks sm) (sm_world sm) \<rparr>)
      else (False, sm))"

definition OnTransition :: "'w StateMachine \<Rightarrow> (PeerState \<Rightarrow> PeerState \<Rightarrow> 'w \<Rightarrow> 'w) \<Rightarrow> 'w StateMachine" where
  "OnTransition sm cb = sm\<lparr> sm_callbacks := sm_callbacks sm @ [cb] \<rparr>"

interpretation peer_sm: guarded_machine sm_current "\<lambda>s t. t \<in> set (allowedTransitions s)" Transition
  by unfold_locales (simp_all add: Transition_def)

lemma Transition_refused: "t \<notin> set (allowedTransitions (sm_current sm)) \<Longrightarrow> Transition sm t = (False, sm)"
  by (simp add: Transition_def)

section \<open>Roles\<close>

definition isInitiator :: "PeerIdentity \<Rightarrow> PeerIdentity \<Rightarrow> bool" where
  "isInitiator local remote \<longleftrightarrow> ToUint64 (PeerIdentity_ID remote) < ToUint64 (PeerIdentity_ID local)"

section \<open>Configurator\<close>

datatype wg_op =
    WgAddPeer string string
  | WgSetPeer string string int string
  | WgRemovePeer string
  | WgRoute string string string
  | WgNAT string

text \<open>\<open>peers\<close> is the configurator's set of registered keys, \<open>calls\<close> the provisioner calls so far.\<close>

record wg_state =
  wg_peers :: "string \<Rightarrow> bool"
  wg_calls :: "wg_op list"

definition NewWGConfigurator :: wg_state where
  "NewWGConfigurator = \<lparr> wg_peers = (\<lambda>_. False), wg_calls = [] \<rparr>"

text \<open>A call to the provisioner, through \<open>wgConfigAdapter\<close>: without a provisioner it is a silent
  success.\<close>

definition wg_call :: "bool \<Rightarrow> (wg_op \<Rightarrow> bool) \<Rightarrow> wg_op \<Rightarrow> wg_state \<Rightarrow> bool \<times> wg_state" where
  "wg_call present ok op s = (if present then (ok op, s\<lparr> wg_calls := wg_calls s @ [op] \<rparr>) else (True, s))"

definition wg_RegisterPeer :: "bool \<Rightarrow> (wg_op \<Rightarrow> bool) \<Rightarrow> string \<Rightarrow> string \<Rightarrow> wg_state \<Rightarrow> bool \<times> wg_state" where
  "wg_RegisterPeer present ok key allowedIPs s =
     (if wg_peers s key then (True, s)
      else wg_call present ok (WgAddPeer key allowedIPs) (s\<lparr> wg_peers := (wg_peers s)(key := True) \<rparr>))"

text \<open>The adapter's \<open>SetEndpoint\<close> re-sends the allowed addresses of the remote peer, by default its
  address as a /32.\<close>

definition endpoint_allowed_ips :: "Peer option \<Rightarrow> string" where
  "endpoint_allowed_ips rp =
     (case rp of
        None \<Rightarrow> []
      | Some p \<Rightarrow>
          if p_AllowedIPs p = [] then (case p_Address p of None \<Rightarrow> [] | Some a \<Rightarrow> a @ ''/32'') else p_AllowedIPs p)"

definition wg_SetEndpoint ::
  "bool \<Rightarrow> (wg_op \<Rightarrow> bool) \<Rightarrow> Peer option \<Rightarrow> string \<Rightarrow> string \<Rightarrow> int \<Rightarrow> wg_state \<Rightarrow> bool \<times> wg_state" where
  "wg_SetEndpoint present ok rp key endpoint ka s =
     wg_call present ok (WgSetPeer key endpoint ka (endpoint_allowed_ips rp)) s"

definition wg_RemovePeer :: "bool \<Rightarrow> (wg_op \<Rightarrow> bool) \<Rightarrow> string \<Rightarrow> wg_state \<Rightarrow> bool \<times> wg_state" where
  "wg_RemovePeer present ok key s =
     wg_call present ok (WgRemovePeer key) (s\<lparr> wg_peers := (wg_peers s)(key := False) \<rparr>)"

definition wg_ApplyRoute :: "bool \<Rightarrow> (wg_op \<Rightarrow> bool) \<Rightarrow> string \<Rightarrow> string \<Rightarrow> wg_state \<Rightarrow> bool \<times> wg_state" where
  "wg_ApplyRoute present ok address iface s = wg_call present ok (WgRoute ''add'' address iface) s"

definition wg_SetupNAT :: "bool \<Rightarrow> (wg_op \<Rightarrow> bool) \<Rightarrow> string \<Rightarrow> wg_state \<Rightarrow> bool \<times> wg_state" where
  "wg_SetupNAT present ok iface s = wg_call present ok (WgNAT iface) s"

lemmas wg_defs = wg_call_def wg_RegisterPeer_def wg_SetEndpoint_def wg_RemovePeer_def wg_ApplyRoute_def wg_SetupNAT_def

interpretation wg_keys: registry
    "\<lambda>s key. if wg_peers s key then Some () else None"
    "\<lambda>s key (_ :: unit). snd (wg_RegisterPeer present ok key ips s)"
    "\<lambda>s key. snd (wg_RemovePeer present ok key s)"
  for present :: bool and ok :: "wg_op \<Rightarrow> bool" and ips :: string
  by unfold_locales (auto simp: wg_defs)

section \<open>Properties\<close>

text \<open>The connection state only ever follows the table of allowed transitions. Whatever
  transitions are requested, in any order, the state reached lies on a path of allowed ones; a refused
  request runs no callback and changes nothing; \<open>closed\<close> is final; and no request reaches \<open>closed\<close>
  directly from \<open>probing\<close>.\<close>

theorem peer_state_follows_table:
  "(\<lambda>s t. t \<in> set (allowedTransitions s))\<^sup>*\<^sup>* (sm_current sm) (sm_current (foldl (\<lambda>m t. snd (Transition m t)) sm ts)) \<and>
   (sm_current sm = StateClosed \<longrightarrow> foldl (\<lambda>m t. snd (Transition m t)) sm ts = sm) \<and>
   (fst (Transition sm t) \<longleftrightarrow> t \<in> set (allowedTransitions (sm_current sm))) \<and>
   (\<not> fst (Transition sm t) \<longrightarrow> snd (Transition sm t) = sm) \<and>
   (sm_current sm = StateProbing \<longrightarrow> \<not> fst (Transition sm StateClosed))"
proof (intro conjI impI)
  show "(\<lambda>s t. t \<in> set (allowedTransitions s))\<^sup>*\<^sup>* (sm_current sm) (sm_current (foldl (\<lambda>m t. snd (Transition m t)) sm ts))"
    by (rule peer_sm.requests_along_path)
  show "foldl (\<lambda>m t. snd (Transition m t)) sm ts = sm" if "sm_current sm = StateClosed"
    by (induction ts) (simp_all add: Transition_def that)
qed (auto simp: Transition_def)

theorem peer_state_follows_table_witness:
  "\<not> fst (Transition (NewStateMachine StateProbing ()) StateClosed) \<and>
   foldl (\<lambda>m t. snd (Transition m t)) (NewStateMachine StateClosed ()) [StateProbing, StateFailed] = NewStateMachine StateClosed ()"
proof -
  have "sm_current (NewStateMachine StateClosed ()) = StateClosed" "sm_current (NewStateMachine StateProbing ()) = StateProbing"
    by (simp_all add: NewStateMachine_def)
  then show ?thesis
    using peer_state_follows_table [of "NewStateMachine StateProbing ()" "[]" StateClosed]
      peer_state_follows_table [of "NewStateMachine StateClosed ()" "[StateProbing, StateFailed]" StateProbing]
    by blast
qed

text \<open>The two ends of a connection agree on who initiates. For peers whose keys differ in their
  first eight bytes exactly one of the two is the initiator; for peers whose keys agree there, neither
  is.\<close>

theorem exactly_one_initiator:
  assumes "length (id_PublicKey a) = 32" "length (id_PublicKey b) = 32"
  shows "(isInitiator a b \<noteq> isInitiator b a \<longleftrightarrow> take 8 (id_PublicKey a) \<noteq> take 8 (id_PublicKey b)) \<and>
    (take 8 (id_PublicKey a) = take 8 (id_PublicKey b) \<longrightarrow> \<not> isInitiator a b \<and> \<not> isInitiator b a)"
proof -
  let ?x = "take 8 (id_PublicKey a)" and ?y = "take 8 (id_PublicKey b)"
  have "length ?x = 8" "length ?y = 8"
    using assms by simp_all
  then have "ToUint64 ?x = ToUint64 ?y \<longleftrightarrow> ?x = ?y"
    using FromUint64_ToUint64 [of ?x] FromUint64_ToUint64 [of ?y] by metis
  then show ?thesis
    by (auto simp: isInitiator_def PeerIdentity_ID_def FromKey_def)
qed

theorem exactly_one_initiator_witness:
  "isInitiator \<lparr> id_AppID = ''a'', id_PublicKey = replicate 32 2 \<rparr> \<lparr> id_AppID = ''b'', id_PublicKey = replicate 32 1 \<rparr> \<noteq>
   isInitiator \<lparr> id_AppID = ''b'', id_PublicKey = replicate 32 1 \<rparr> \<lparr> id_AppID = ''a'', id_PublicKey = replicate 32 2 \<rparr>"
  using exactly_one_initiator [of "\<lparr> id_AppID = ''a'', id_PublicKey = replicate 32 2 \<rparr>"
      "\<lparr> id_AppID = ''b'', id_PublicKey = replicate 32 1 \<rparr>"]
  by simp

text \<open>A peer whose first registration fails is never added. \<open>RegisterPeer\<close> marks the key before it
  calls the provisioner and does not take the mark back, so a retry reports success without adding
  the peer, until the peer is removed.\<close>

theorem failed_registration_is_not_retried:
  assumes "\<not> wg_peers s key" "\<not> ok1 (WgAddPeer key ips)"
  shows "fst (wg_RegisterPeer True ok1 key ips s) = False \<and>
    (let s1 = snd (wg_RegisterPeer True ok1 key ips s)
     in wg_RegisterPeer True ok2 key ips' s1 = (True, s1) \<and> wg_calls s1 = wg_calls s @ [WgAddPeer key ips])"
  using assms by (simp add: wg_defs Let_def)

theorem failed_registration_is_not_retried_witness:
  "wg_calls (snd (wg_RegisterPeer True (\<lambda>_. True) ''k'' ''10.0.0.2/32''
     (snd (wg_RegisterPeer True (\<lambda>_. False) ''k'' ''10.0.0.2/32'' NewWGConfigurator))))
   = [WgAddPeer ''k'' ''10.0.0.2/32'']"
  using failed_registration_is_not_retried [of NewWGConfigurator "''k''" "\<lambda>_. False" "''10.0.0.2/32''" "\<lambda>_. True" "''10.0.0.2/32''"]
  by (simp add: NewWGConfigurator_def Let_def)

end
