(* ===== verification/Probe.thy ===== *)
theory Probe
  imports Peer_State
begin

text \<open>
  The probe that keeps one remote peer connected (\<open>internal/server/transport/probe.go\<close>) together with
  the callbacks that \<open>NewProbe\<close> of \<open>probe_factory.go\<close> installs. A probe is a state machine whose world
  holds the rest of the probe's fields, the configurator, and what is pending: the discoveries that
  were started and have not reported back, by the epoch they belong to, and the restarts that a
  timer will run. The two dialers are rebuilt together, so they are named by their generation; the
  world also lists the dialers and the transports that have been told to close. The events are what other goroutines do to the probe; each runs to completion.
  Epochs are natural numbers: they count restarts and do not get near 64 bits. Times are in seconds.
\<close>

section \<open>Data\<close>

record transport =
  tr_Type :: TransportType
  tr_RemoteAddr :: string

record probe_cfg =
  pc_local :: PeerIdentity
  pc_remote :: PeerIdentity
  pc_pubKey :: string
  pc_present :: bool
  pc_iface :: string
  pc_ok :: "wg_op \<Rightarrow> bool"
  pc_show :: "netip_AddrPort \<Rightarrow> string"
  pc_ParseKey :: "string \<Rightarrow> byte list option"

definition PersistentKeepalive :: int where
  "PersistentKeepalive = 25"

definition persistentKA :: "probe_cfg \<Rightarrow> int" where
  "persistentKA cfg = (if isInitiator (pc_local cfg) (pc_remote cfg) then PersistentKeepalive else 0)"

record probe_world =
  pw_transport :: "transport option"
  pw_remotePeer :: "Peer option"
  pw_peerManager :: PeerManager
  pw_known :: bool
  pw_wg :: wg_state
  pw_open :: bool
  pw_dialers :: "nat option"
  pw_dialersClosed :: "nat list"
  pw_closing :: "transport list"
  pw_epoch :: nat
  pw_running :: bool
  pw_firstFailure :: "int option"
  pw_pending :: "nat list"
  pw_timers :: nat

type_synonym probe = "probe_world StateMachine"

abbreviation upd_world :: "(probe_world \<Rightarrow> probe_world) \<Rightarrow> probe \<Rightarrow> probe" where
  "upd_world f p \<equiv> p\<lparr> sm_world := f (sm_world p) \<rparr>"

section \<open>What the factory wires in\<close>

definition iface_name :: "probe_cfg \<Rightarrow> string" where
  "iface_name cfg = (if pc_present cfg then pc_iface cfg else [])"

text \<open>\<open>onPeerKnown\<close>: register the peer and its route once, as soon as its address is known.\<close>

definition onPeerKnown :: "probe_cfg \<Rightarrow> Peer \<Rightarrow> probe_world \<Rightarrow> probe_world" where
  "onPeerKnown cfg peer w =
     (if pw_known w then w
      else case p_Address peer of
             None \<Rightarrow> w
           | Some addr \<Rightarrow>
               let allowedIPs = (if p_AllowedIPs peer = [] then addr @ ''/32'' else p_AllowedIPs peer);
                   (ok, wg) = wg_RegisterPeer (pc_present cfg) (pc_ok cfg) (pc_pubKey cfg) allowedIPs (pw_wg w)
               in if \<not> ok then w\<lparr> pw_wg := wg, pw_known := False \<rparr>
                  else w\<lparr> pw_known := True,
                         pw_wg := snd (wg_ApplyRoute (pc_present cfg) (pc_ok cfg) addr (iface_name cfg) wg) \<rparr>)"

definition onPeerReceived :: "probe_cfg \<Rightarrow> Peer \<Rightarrow> probe_world \<Rightarrow> probe_world" where
  "onPeerReceived cfg peer w = 
     onPeerKnown cfg peer
       (w\<lparr> pw_peerManager := AddPeer (pc_ParseKey cfg) (pw_peerManager w) (p_AppID peer) peer,
          pw_remotePeer := Some peer \<rparr>)"

text \<open>The endpoint for a transport: relay peers get the fake address of their identifier.\<close>

definition endpoint_of :: "probe_cfg \<Rightarrow> transport \<Rightarrow> string" where
  "endpoint_of cfg t =
     (if tr_Type t = TransportWRRP
      then pc_show cfg (WrrpFakeAddrPort (ToUint64 (PeerIdentity_ID (pc_remote cfg))))
      else tr_RemoteAddr t)"

text \<open>The transition callback.\<close>

definition on_first_ready :: "probe_cfg \<Rightarrow> probe_world \<Rightarrow> probe_world" where
  "on_first_ready cfg w =
     (case pw_remotePeer w of
        None \<Rightarrow> w
      | Some rp \<Rightarrow>
          (case p_Address rp of
             None \<Rightarrow> w
           | Some addr \<Rightarrow>
               (case pw_transport w of
                  None \<Rightarrow> w
                | Some t \<Rightarrow>
                    let (ok, wg1) = wg_SetEndpoint (pc_present cfg) (pc_ok cfg) (pw_remotePeer w)
                                      (pc_pubKey cfg) (endpoint_of cfg t) (persistentKA cfg) (pw_wg w)
                    in if \<not> ok then w\<lparr> pw_wg := wg1 \<rparr>
                       else let wg2 = snd (wg_ApplyRoute (pc_present cfg) (pc_ok cfg) addr (iface_name cfg) wg1);
                                wg3 = snd (wg_SetupNAT (pc_present cfg) (pc_ok cfg) (iface_name cfg) wg2)
                            in w\<lparr> pw_wg := wg3 \<rparr>)))"

definition on_upgrade :: "probe_cfg \<Rightarrow> probe_world \<Rightarrow> probe_world" where
  "on_upgrade cfg w =
     (case pw_transport w of
        None \<Rightarrow> w
      | Some t \<Rightarrow>
          w\<lparr> pw_wg := snd (wg_SetEndpoint (pc_present cfg) (pc_ok cfg) (pw_remotePeer w) (pc_pubKey cfg)
                             (tr_RemoteAddr t) (persistentKA cfg) (pw_wg w)) \<rparr>)"

definition on_transition :: "probe_cfg \<Rightarrow> PeerState \<Rightarrow> PeerState \<Rightarrow> probe_world \<Rightarrow> probe_world" where
  "on_transition cfg src dst w =
     (if src = StateProbing \<and> (dst = StateICEReady \<or> dst = StateWRRPReady) then on_first_ready cfg w
      else if src = StateWRRPReady \<and> dst = StateICEReady then on_upgrade cfg w
      else if dst = StateFailed \<or> dst = StateClosed
      then w\<lparr> pw_wg := snd (wg_RemovePeer (pc_present cfg) (pc_ok cfg) (pc_pubKey cfg) (pw_wg w)) \<rparr>
      else w)"

definition NewProbe :: "probe_cfg \<Rightarrow> probe" where
  "NewProbe cfg =
     OnTransition (NewStateMachine StateCreated
       \<lparr> pw_transport = None, pw_remotePeer = None, pw_peerManager = NewPeerManager, pw_known = False, pw_wg = NewWGConfigurator,
         pw_open = True, pw_dialers = Some 0, pw_dialersClosed = [], pw_closing = [], pw_epoch = 0, pw_running = False, pw_firstFailure = None,
         pw_pending = [], pw_timers = 0 \<rparr>) (on_transition cfg)"

section \<open>The probe's operations\<close>

definition probe_Start :: "probe \<Rightarrow> probe" where
  "probe_Start p =
     (if pw_running (sm_world p) then p
      else
        let myEpoch = pw_epoch (sm_world p);
            p1 = upd_world (\<lambda>w. w\<lparr> pw_running := True \<rparr>) p;
            p2 = snd (Transition p1 StateProbing)
        in upd_world (\<lambda>w. w\<lparr> pw_pending := pw_pending w @ [myEpoch] \<rparr>) p2)"

definition probe_restart :: "probe \<Rightarrow> probe" where
  "probe_restart p =
     (if \<not> pw_open (sm_world p) then p
      else probe_Start (upd_world (\<lambda>w. w\<lparr> pw_known := False, pw_dialers := Some (pw_epoch w + 1),
                                                pw_epoch := pw_epoch w + 1, pw_running := False \<rparr>) p))"

definition probe_Close :: "probe \<Rightarrow> probe" where
  "probe_Close p =
     upd_world (\<lambda>w. w\<lparr> pw_open := False, pw_dialers := None,
       pw_dialersClosed := pw_dialersClosed w @ (case pw_dialers w of None \<Rightarrow> [] | Some g \<Rightarrow> [g]) \<rparr>) p"

datatype dial_error = ErrDialerClosed | ErrDial string

definition probe_onSuccess :: "transport \<Rightarrow> probe \<Rightarrow> probe" where
  "probe_onSuccess t p =
     (let p1 = upd_world (\<lambda>w. w\<lparr> pw_transport := Some t \<rparr>) p
      in if tr_Type t = TransportICE then snd (Transition p1 StateICEReady)
         else snd (Transition p1 StateWRRPReady))"

definition probe_onFailure :: "dial_error \<Rightarrow> int \<Rightarrow> probe \<Rightarrow> probe" where
  "probe_onFailure err now p =
     (if err = ErrDialerClosed then
        let p1 = upd_world (\<lambda>w. w\<lparr> pw_firstFailure := None \<rparr>) p
        in probe_restart (snd (Transition p1 StateFailed))
      else
        let first = (case pw_firstFailure (sm_world p) of None \<Rightarrow> now | Some t \<Rightarrow> t);
            p1 = upd_world (\<lambda>w. w\<lparr> pw_firstFailure := Some first \<rparr>) p
        in if 60 \<le> now - first then snd (Transition p1 StateClosed)
           else upd_world (\<lambda>w. w\<lparr> pw_timers := pw_timers w + 1 \<rparr>) (snd (Transition p1 StateFailed)))"

text \<open>The end of the goroutine that \<open>Start\<close> spawned for an epoch.\<close>

definition probe_finish :: "nat \<Rightarrow> dial_error + transport \<Rightarrow> int \<Rightarrow> probe \<Rightarrow> probe" where
  "probe_finish e result now p =
     (let p1 = upd_world (\<lambda>w. w\<lparr> pw_pending := remove1 e (pw_pending w) \<rparr>) p
      in if pw_epoch (sm_world p1) \<noteq> e then
           (case result of Inl _ \<Rightarrow> p1
            | Inr t \<Rightarrow> upd_world (\<lambda>w. w\<lparr> pw_closing := pw_closing w @ [t] \<rparr>) p1)
         else
           let p2 = upd_world (\<lambda>w. w\<lparr> pw_running := False \<rparr>) p1
           in (case result of Inl err \<Rightarrow> probe_onFailure err now p2 | Inr t \<Rightarrow> probe_onSuccess t p2))"

definition handleUpgradeTransport :: "transport \<Rightarrow> probe \<Rightarrow> probe" where
  "handleUpgradeTransport t p =
     snd (Transition
       (upd_world (\<lambda>w. w\<lparr> pw_transport := Some t,
          pw_closing := pw_closing w @ (case pw_transport w of None \<Rightarrow> [] | Some old \<Rightarrow> [old]) \<rparr>) p)
       StateICEReady)"

section \<open>Histories\<close>

datatype probe_event =
    EvStart
  | EvFinish nat "dial_error + transport" int
  | EvTimer
  | EvRestart
  | EvUpgrade transport
  | EvPeer Peer
  | EvClose

fun probe_step :: "probe_cfg \<Rightarrow> probe_event \<Rightarrow> probe \<Rightarrow> probe" where
  "probe_step cfg EvStart p = probe_Start p"
| "probe_step cfg (EvFinish e r now) p = (if e \<in> set (pw_pending (sm_world p)) then probe_finish e r now p else p)"
| "probe_step cfg EvTimer p =
     (if 0 < pw_timers (sm_world p) then probe_restart (upd_world (\<lambda>w. w\<lparr> pw_timers := pw_timers w - 1 \<rparr>) p) else p)"
| "probe_step cfg EvRestart p = probe_restart p"
| "probe_step cfg (EvUpgrade t) p = handleUpgradeTransport t p"
| "probe_step cfg (EvPeer q) p = upd_world (onPeerReceived cfg q) p"
| "probe_step cfg EvClose p = probe_Close p"

definition probe_run :: "probe_cfg \<Rightarrow> probe_event list \<Rightarrow> probe" where
  "probe_run cfg evs = fold (probe_step cfg) evs (NewProbe cfg)"

section \<open>What the callbacks leave alone\<close>

definition wired :: "probe_cfg \<Rightarrow> probe \<Rightarrow> bool" where
  "wired cfg p \<longleftrightarrow> sm_callbacks p = [on_transition cfg]"

text \<open>The part of the world that coordinates goroutines.\<close>

definition coord :: "probe_world \<Rightarrow> nat \<times> bool \<times> nat list" where
  "coord w = (pw_epoch w, pw_running w, pw_pending w)"

lemma coord_on_transition [simp]: "coord (on_transition cfg s t w) = coord w"
  by (auto simp: on_transition_def on_first_ready_def on_upgrade_def coord_def Let_def
      split: option.splits prod.splits)

lemma coord_onPeerReceived [simp]: "coord (onPeerReceived cfg q w) = coord w"
  by (auto simp: onPeerReceived_def onPeerKnown_def coord_def Let_def split: option.splits prod.splits)

lemma world_Transition:
  "wired cfg p \<Longrightarrow> sm_world (snd (Transition p t)) =
     (if t \<in> set (allowedTransitions (sm_current p)) then on_transition cfg (sm_current p) t (sm_world p) else sm_world p)"
  by (simp add: Transition_def wired_def)

lemma coord_Transition [simp]: "wired cfg p \<Longrightarrow> coord (sm_world (snd (Transition p t))) = coord (sm_world p)"
  by (simp add: world_Transition)

lemma wired_Transition [simp]: "wired cfg (snd (Transition p t)) = wired cfg p"
  by (simp add: wired_def Transition_def)

lemma wired_upd [simp]: "wired cfg (p\<lparr> sm_world := w \<rparr>) = wired cfg p"
  by (simp add: wired_def)

lemma wired_ops [simp]:
  "wired cfg (probe_Start p) = wired cfg p"
  "wired cfg (probe_restart p) = wired cfg p"
  "wired cfg (probe_onSuccess t p) = wired cfg p"
  "wired cfg (probe_onFailure e now p) = wired cfg p"
  "wired cfg (probe_finish n r now p) = wired cfg p"
  "wired cfg (handleUpgradeTransport t p) = wired cfg p"
  "wired cfg (probe_Close p) = wired cfg p"
  by (simp_all add: probe_Start_def probe_restart_def probe_onSuccess_def probe_onFailure_def probe_finish_def
      handleUpgradeTransport_def probe_Close_def Let_def split: sum.splits)

lemma wired_step [simp]: "wired cfg (probe_step cfg ev p) = wired cfg p"
  by (cases ev) simp_all

lemma wired_NewProbe [simp]: "wired cfg (NewProbe cfg)"
  by (simp add: wired_def NewProbe_def OnTransition_def NewStateMachine_def)

section \<open>At most one live discovery\<close>

text \<open>A discovery is live when it belongs to the current epoch.\<close>

definition live_ok :: "nat \<times> bool \<times> nat list \<Rightarrow> bool" where
  "live_ok c = (case c of (epoch, running, pending) \<Rightarrow>
     count_list pending epoch \<le> (if running then 1 else 0) \<and> (\<forall>e \<in> set pending. e \<le> epoch))"

lemma count_list_remove1 [simp]: "count_list (remove1 e xs) x = count_list xs x - (if x = e then 1 else 0)"
  by (induction xs) (auto simp: count_list_0_iff)

lemma live_ok_Start: "wired cfg p \<Longrightarrow> live_ok (coord (sm_world p)) \<Longrightarrow> live_ok (coord (sm_world (probe_Start p)))"
proof -
  assume w: "wired cfg p" and l: "live_ok (coord (sm_world p))"
  let ?p = "snd (Transition (upd_world (\<lambda>w. w\<lparr> pw_running := True \<rparr>) p) StateProbing)"
  have "coord (sm_world ?p) = (pw_epoch (sm_world p), True, pw_pending (sm_world p))"
    using w coord_Transition [of cfg "upd_world (\<lambda>w. w\<lparr> pw_running := True \<rparr>) p" StateProbing] by (simp add: coord_def)
  then show ?thesis
    using l by (auto simp: probe_Start_def Let_def live_ok_def coord_def split: if_splits)
qed

lemma live_ok_restart: "wired cfg p \<Longrightarrow> live_ok (coord (sm_world p)) \<Longrightarrow> live_ok (coord (sm_world (probe_restart p)))"
proof -
  assume w: "wired cfg p" and l: "live_ok (coord (sm_world p))"
  let ?p = "upd_world (\<lambda>w. w\<lparr> pw_known := False, pw_dialers := Some (pw_epoch w + 1),
              pw_epoch := pw_epoch w + 1, pw_running := False \<rparr>) p"
  have "pw_epoch (sm_world p) + 1 \<notin> set (pw_pending (sm_world p))"
    using l by (auto simp: live_ok_def coord_def)
  then have "live_ok (coord (sm_world ?p))"
    using l by (auto simp: live_ok_def coord_def count_list_0_iff le_Suc_eq)
  then show ?thesis
    using live_ok_Start [of cfg ?p] w l by (simp add: probe_restart_def)
qed

lemma live_ok_finish:
  assumes "wired cfg p" "live_ok (coord (sm_world p))" "e \<in> set (pw_pending (sm_world p))"
  shows "live_ok (coord (sm_world (probe_finish e r now p)))"
proof -
  let ?p1 = "upd_world (\<lambda>w. w\<lparr> pw_pending := remove1 e (pw_pending w) \<rparr>) p"
  let ?p2 = "upd_world (\<lambda>w. w\<lparr> pw_running := False \<rparr>) ?p1"
  have 1: "live_ok (coord (sm_world ?p1))"
    using assms(2) by (auto simp: live_ok_def coord_def dest: notin_set_remove1 split: if_splits)
  show ?thesis
  proof (cases "pw_epoch (sm_world p) = e")
    case False
    have "coord (w\<lparr> pw_closing := ts \<rparr>) = coord w" for w ts by (simp add: coord_def)
    then show ?thesis using 1 False by (simp add: probe_finish_def Let_def split: sum.splits)
  next
    case True
    have "count_list (pw_pending (sm_world p)) e \<le> 1"
      using assms(2) True by (auto simp: live_ok_def coord_def split: if_splits)
    then have 2: "live_ok (coord (sm_world ?p2))"
      using 1 True by (auto simp: live_ok_def coord_def)
    have c: "coord (w\<lparr> pw_firstFailure := x \<rparr>) = coord w" "coord (w\<lparr> pw_timers := n \<rparr>) = coord w"
      "coord (w\<lparr> pw_transport := t \<rparr>) = coord w" for w x n t
      by (simp_all add: coord_def)
    have "live_ok (coord (sm_world (probe_onFailure err now ?p2)))" for err
      using 2 assms(1) by (auto simp: probe_onFailure_def Let_def c intro!: live_ok_restart)
    moreover have "live_ok (coord (sm_world (probe_onSuccess t ?p2)))" for t
      using 2 assms(1) by (simp add: probe_onSuccess_def Let_def c)
    ultimately show ?thesis
      using True by (simp add: probe_finish_def Let_def split: sum.splits)
  qed
qed

lemma live_ok_step:
  assumes "wired cfg p" "live_ok (coord (sm_world p))"
  shows "live_ok (coord (sm_world (probe_step cfg ev p)))"
proof -
  have c: "coord (w\<lparr> pw_timers := n \<rparr>) = coord w" "coord (w\<lparr> pw_transport := t \<rparr>) = coord w"
    "coord (w\<lparr> pw_open := b \<rparr>) = coord w"
    "coord (w\<lparr> pw_dialers := g \<rparr>) = coord w" "coord (w\<lparr> pw_dialersClosed := gs \<rparr>) = coord w"
    "coord (w\<lparr> pw_closing := ts \<rparr>) = coord w" for w n t b g gs ts
    by (simp_all add: coord_def)
  show ?thesis
    using assms
    by (cases ev)
       (auto simp: c handleUpgradeTransport_def probe_Close_def intro!: live_ok_Start live_ok_restart live_ok_finish)
qed

lemma live_ok_fold:
  "wired cfg p \<Longrightarrow> live_ok (coord (sm_world p)) \<Longrightarrow>
   wired cfg (fold (probe_step cfg) evs p) \<and> live_ok (coord (sm_world (fold (probe_step cfg) evs p)))"
  by (induction evs arbitrary: p) (simp_all add: live_ok_step)

lemma live_ok_run: "wired cfg (probe_run cfg evs)" "live_ok (coord (sm_world (probe_run cfg evs)))"
proof -
  have "live_ok (coord (sm_world (NewProbe cfg)))"
    by (simp add: NewProbe_def OnTransition_def NewStateMachine_def live_ok_def coord_def)
  then show "wired cfg (probe_run cfg evs)" "live_ok (coord (sm_world (probe_run cfg evs)))"
    using live_ok_fold [of cfg "NewProbe cfg" evs] by (simp_all add: probe_run_def)
qed

lemma finish_stale:
  "pw_epoch (sm_world p) \<noteq> e \<Longrightarrow>
   probe_finish e r now p =
     upd_world (\<lambda>w. w\<lparr> pw_pending := remove1 e (pw_pending w),
       pw_closing := pw_closing w @ (case r of Inl _ \<Rightarrow> [] | Inr t \<Rightarrow> [t]) \<rparr>) p"
  by (cases r) (simp_all add: probe_finish_def Let_def)

section \<open>Properties\<close>


definition demo_cfg :: probe_cfg where
  "demo_cfg = \<lparr> pc_local = \<lparr> id_AppID = ''a'', id_PublicKey = replicate 32 2 \<rparr>,
     pc_remote = \<lparr> id_AppID = ''b'', id_PublicKey = replicate 32 1 \<rparr>, pc_pubKey = ''K'', pc_present = True,
     pc_iface = ''wf0'', pc_ok = (\<lambda>_. True), pc_show = (\<lambda>_. ''fake''), pc_ParseKey = (\<lambda>_. None) \<rparr>"

definition demo_relay :: transport where
  "demo_relay = \<lparr> tr_Type = TransportWRRP, tr_RemoteAddr = [] \<rparr>"

lemmas probe_eval = NewProbe_def OnTransition_def NewStateMachine_def Transition_def on_transition_def
  on_first_ready_def on_upgrade_def probe_Start_def probe_restart_def probe_onSuccess_def probe_onFailure_def
  probe_finish_def handleUpgradeTransport_def onPeerReceived_def onPeerKnown_def probe_run_def wg_defs
  endpoint_of_def persistentKA_def iface_name_def Let_def


text \<open>What WireGuard is told on each transition. The first transport sets the endpoint, the route
  and NAT, in that order, with the fake address for a relayed peer; an upgrade from relay to direct
  sets the endpoint and nothing else; failure and closing remove the peer and forget its
  registration; every other transition tells it nothing.\<close>

theorem wireguard_calls_on_transition:
  assumes "wired cfg p" "pc_present cfg" "\<forall>op. pc_ok cfg op"
    and "pw_remotePeer (sm_world p) = Some rp" "p_Address rp = Some addr" "pw_transport (sm_world p) = Some t"
    and "dst \<in> set (allowedTransitions (sm_current p))"
  shows "wg_calls (pw_wg (sm_world (snd (Transition p dst)))) = wg_calls (pw_wg (sm_world p)) @
      (if sm_current p = StateProbing \<and> dst \<noteq> StateFailed then
         [WgSetPeer (pc_pubKey cfg) (endpoint_of cfg t) (persistentKA cfg) (endpoint_allowed_ips (Some rp)),
          WgRoute ''add'' addr (pc_iface cfg), WgNAT (pc_iface cfg)]
       else if sm_current p = StateWRRPReady \<and> dst = StateICEReady then
         [WgSetPeer (pc_pubKey cfg) (tr_RemoteAddr t) (persistentKA cfg) (endpoint_allowed_ips (Some rp))]
       else if dst = StateFailed \<or> dst = StateClosed then [WgRemovePeer (pc_pubKey cfg)]
       else []) \<and>
    (dst = StateFailed \<or> dst = StateClosed \<longrightarrow> \<not> wg_peers (pw_wg (sm_world (snd (Transition p dst)))) (pc_pubKey cfg))"
  using assms
  by (cases "sm_current p") (auto simp: world_Transition on_transition_def on_first_ready_def on_upgrade_def wg_defs iface_name_def Let_def)

definition demo_peer :: Peer where
  "demo_peer = empty_peer\<lparr> p_AppID := ''b'', p_Address := Some ''10.0.0.2'' \<rparr>"

definition demo_probe :: probe where
  "demo_probe = upd_world (\<lambda>w. w\<lparr> pw_transport := Some demo_relay \<rparr>) (probe_run demo_cfg [EvStart, EvPeer demo_peer])"

theorem wireguard_calls_on_transition_witness:
  "wg_calls (pw_wg (sm_world (snd (Transition demo_probe StateWRRPReady)))) =
     wg_calls (pw_wg (sm_world demo_probe)) @
     [WgSetPeer ''K'' ''fake'' (persistentKA demo_cfg) ''10.0.0.2/32'', WgRoute ''add'' ''10.0.0.2'' ''wf0'', WgNAT ''wf0'']"
proof -
  have d: "wired demo_cfg demo_probe"
    by (simp add: demo_probe_def live_ok_run(1))
  have w: "pw_remotePeer (sm_world demo_probe) = Some demo_peer" "pw_transport (sm_world demo_probe) = Some demo_relay"
    "sm_current demo_probe = StateProbing"
    by (simp_all add: demo_probe_def probe_eval demo_peer_def demo_cfg_def)
  have c: "pc_present demo_cfg" "\<forall>op. pc_ok demo_cfg op" "p_Address demo_peer = Some ''10.0.0.2''"
    by (simp_all add: demo_cfg_def demo_peer_def)
  show ?thesis
    using wireguard_calls_on_transition [OF d c(1,2) w(1) c(3) w(2), of StateWRRPReady] w(3)
    by (simp add: endpoint_of_def demo_cfg_def endpoint_allowed_ips_def demo_peer_def empty_peer_def demo_relay_def)
qed

text \<open>A peer that stays unreachable is neither closed nor retried. When discovery has been failing
  for sixty seconds the probe asks for \<open>closed\<close>, which is not reachable from \<open>probing\<close>: the request is
  refused, the state stays \<open>probing\<close>, the WireGuard peer is not removed, and no restart is pending.\<close>

theorem unreachable_peer_is_stuck:
  assumes "wired cfg p" "sm_current p = StateProbing" "pw_pending (sm_world p) = [e]" "pw_epoch (sm_world p) = e"
    and "pw_firstFailure (sm_world p) = Some t0" "60 \<le> now - t0" "pw_timers (sm_world p) = 0"
  shows "let p' = probe_step cfg (EvFinish e (Inl (ErrDial msg)) now) p in
    sm_current p' = StateProbing \<and> pw_wg (sm_world p') = pw_wg (sm_world p) \<and>
    pw_pending (sm_world p') = [] \<and> pw_timers (sm_world p') = 0 \<and> \<not> pw_running (sm_world p') \<and>
    probe_step cfg EvTimer p' = p'"
  using assms by (simp add: probe_finish_def probe_onFailure_def Let_def Transition_def)

definition stuck_history :: "probe_event list" where
  "stuck_history = [EvStart, EvFinish 0 (Inl (ErrDial ''timeout'')) 0, EvTimer]"

theorem unreachable_peer_is_stuck_witness:
  "sm_current (probe_step demo_cfg (EvFinish 1 (Inl (ErrDial ''timeout'')) 75) (probe_run demo_cfg stuck_history)) = StateProbing"
proof -
  have "sm_current (probe_run demo_cfg stuck_history) = StateProbing"
    "pw_pending (sm_world (probe_run demo_cfg stuck_history)) = [1]" "pw_epoch (sm_world (probe_run demo_cfg stuck_history)) = 1"
    "pw_firstFailure (sm_world (probe_run demo_cfg stuck_history)) = Some 0" "pw_timers (sm_world (probe_run demo_cfg stuck_history)) = 0"
    by (simp_all add: stuck_history_def probe_eval)
  from unreachable_peer_is_stuck [OF live_ok_run(1) this(1-4) _ this(5), of 75 "''timeout''"]
  show ?thesis by (simp add: Let_def)
qed

text \<open>Success does not end a streak of failures. The time of the first failure survives a
  successful connection, so for a peer that failed once, later connected, and whose relay session is
  then restarted, a single failed discovery sixty seconds or more after the first one closes the
  connection for good instead of being retried.\<close>

theorem old_failure_counts_after_success:
  assumes "wired cfg p" "sm_current p = StateWRRPReady" "pw_open (sm_world p)" "pw_pending (sm_world p) = []"
    and "pw_firstFailure (sm_world p) = Some t0" "60 \<le> now - t0" "pw_timers (sm_world p) = 0"
  shows "pw_firstFailure (sm_world (probe_onSuccess t p)) = Some t0 \<and>
    (let p' = fold (probe_step cfg) [EvRestart, EvFinish (pw_epoch (sm_world p) + 1) (Inl (ErrDial msg)) now] p in
     sm_current p' = StateClosed \<and> pw_timers (sm_world p') = 0 \<and> pw_pending (sm_world p') = [] \<and>
     (\<forall>evs. sm_current (fold (probe_step cfg) evs p') = StateClosed))"
proof -
  have closed: "sm_current q = StateClosed \<Longrightarrow> sm_current (probe_step cfg ev q) = StateClosed" for ev q
    by (cases ev) (auto simp: probe_Start_def probe_restart_def probe_finish_def probe_onFailure_def probe_onSuccess_def
        handleUpgradeTransport_def probe_Close_def Let_def Transition_def split: sum.splits)
  have closed': "sm_current q = StateClosed \<Longrightarrow> sm_current (fold (probe_step cfg) evs q) = StateClosed" for evs q
    by (induction evs arbitrary: q) (simp_all add: closed)
  let ?p' = "fold (probe_step cfg) [EvRestart, EvFinish (pw_epoch (sm_world p) + 1) (Inl (ErrDial msg)) now] p"
  have "sm_current ?p' = StateClosed" "pw_timers (sm_world ?p') = 0" "pw_pending (sm_world ?p') = []"
    using assms
    by (simp_all add: probe_Start_def probe_restart_def probe_finish_def probe_onFailure_def Let_def Transition_def
        wired_def on_transition_def)
  moreover have "pw_firstFailure (sm_world (probe_onSuccess t p)) = Some t0"
    using assms(1,2,5)
    by (auto simp: probe_onSuccess_def Let_def Transition_def wired_def on_transition_def on_upgrade_def split: option.splits)
  ultimately show ?thesis
    using closed' [of ?p'] by (simp add: Let_def del: fold_simps)
qed

definition reconnect_history :: "probe_event list" where
  "reconnect_history = stuck_history @ [EvFinish 1 (Inr demo_relay) 12]"

theorem old_failure_counts_after_success_witness:
  "sm_current (fold (probe_step demo_cfg) [EvRestart, EvFinish 2 (Inl (ErrDial ''timeout'')) 7200] (probe_run demo_cfg reconnect_history)) = StateClosed"
proof -
  have "sm_current (probe_run demo_cfg reconnect_history) = StateWRRPReady" "pw_open (sm_world (probe_run demo_cfg reconnect_history))"
    "pw_pending (sm_world (probe_run demo_cfg reconnect_history)) = []"
    "pw_firstFailure (sm_world (probe_run demo_cfg reconnect_history)) = Some 0" "pw_timers (sm_world (probe_run demo_cfg reconnect_history)) = 0"
    and e: "pw_epoch (sm_world (probe_run demo_cfg reconnect_history)) = 1"
    by (simp_all add: reconnect_history_def stuck_history_def demo_relay_def probe_eval)
  from old_failure_counts_after_success [OF live_ok_run(1) this(1-4) _ this(5), of 7200 demo_relay "''timeout''"]
  show ?thesis unfolding e one_add_one Let_def by simp
qed

end
