(* ===== verification/Discover.thy ===== *)
theory Discover
  imports Probe
begin

text \<open>
  The race between the direct and the relayed dialer (\<open>discover\<close> in
  \<open>internal/server/transport/probe.go\<close>). Two dialer goroutines and the selecting goroutine share two
  buffered channels and the flag \<open>wrrpWon\<close>; the step relation interleaves them at the points where
  they touch these. The outcome of each dialer is recorded when it is known.
\<close>

section \<open>Goroutines and channels\<close>

datatype dialer_phase = Dialing | Delivered | Finished

datatype main_phase =
    Selecting
  | Grace transport
  | GraceOver transport
  | Returned "dial_error + transport"
  | Cancelled

record discovery =
  d_ice :: dialer_phase
  d_wrrp :: dialer_phase
  d_iceOut :: "(dial_error + transport) option"
  d_wrrpOut :: "(dial_error + transport) option"
  d_result :: "transport list"
  d_errs :: "dial_error list"
  d_failed :: nat
  d_wrrpWon :: bool
  d_main :: main_phase
  d_upgraded :: "transport option"
  d_closed :: "transport list"

definition dialerCount :: "bool \<Rightarrow> nat" where
  "dialerCount enableWrrp = (if enableWrrp then 2 else 1)"

definition discover_init :: "bool \<Rightarrow> discovery" where
  "discover_init enableWrrp =
     \<lparr> d_ice = Dialing, d_wrrp = (if enableWrrp then Dialing else Finished), d_iceOut = None, d_wrrpOut = None,
       d_result = [], d_errs = [], d_failed = 0, d_wrrpWon = False, d_main = Selecting,
       d_upgraded = None, d_closed = [] \<rparr>"

inductive discover_step :: "bool \<Rightarrow> discovery \<Rightarrow> discovery \<Rightarrow> bool" for enableWrrp where
  ice_fail: "d_ice d = Dialing \<Longrightarrow>
    discover_step enableWrrp d (d\<lparr> d_ice := Finished, d_iceOut := Some (Inl e), d_errs := d_errs d @ [e] \<rparr>)"
| ice_ok: "d_ice d = Dialing \<Longrightarrow> tr_Type t = TransportICE \<Longrightarrow>
    discover_step enableWrrp d (d\<lparr> d_ice := Delivered, d_iceOut := Some (Inr t), d_result := d_result d @ [t] \<rparr>)"
| ice_check: "d_ice d = Delivered \<Longrightarrow> d_iceOut d = Some (Inr t) \<Longrightarrow>
    discover_step enableWrrp d
      (d\<lparr> d_ice := Finished, d_upgraded := (if d_wrrpWon d then Some t else d_upgraded d) \<rparr>)"
| wrrp_fail: "d_wrrp d = Dialing \<Longrightarrow>
    discover_step enableWrrp d (d\<lparr> d_wrrp := Finished, d_wrrpOut := Some (Inl e), d_errs := d_errs d @ [e] \<rparr>)"
| wrrp_ok: "d_wrrp d = Dialing \<Longrightarrow> tr_Type t = TransportWRRP \<Longrightarrow>
    discover_step enableWrrp d (d\<lparr> d_wrrp := Finished, d_wrrpOut := Some (Inr t), d_result := d_result d @ [t] \<rparr>)"
| main_result: "d_main d = Selecting \<Longrightarrow> d_result d = t # rs \<Longrightarrow>
    discover_step enableWrrp d
      (d\<lparr> d_result := rs, d_main := (if tr_Type t = TransportWRRP \<and> enableWrrp then Grace t else Returned (Inr t)) \<rparr>)"
| main_err: "d_main d = Selecting \<Longrightarrow> d_errs d = e # es \<Longrightarrow>
    discover_step enableWrrp d
      (d\<lparr> d_errs := es, d_failed := d_failed d + 1,
          d_main := (if d_failed d + 1 = dialerCount enableWrrp then Returned (Inl e) else Selecting) \<rparr>)"
| main_ctx: "d_main d = Selecting \<Longrightarrow> discover_step enableWrrp d (d\<lparr> d_main := Cancelled \<rparr>)"
| grace_ice: "d_main d = Grace t \<Longrightarrow> d_result d = i # rs \<Longrightarrow>
    discover_step enableWrrp d
      (d\<lparr> d_result := rs, d_closed := d_closed d @ [t], d_main := Returned (Inr i) \<rparr>)"
| grace_timeout: "d_main d = Grace t \<Longrightarrow> discover_step enableWrrp d (d\<lparr> d_main := GraceOver t \<rparr>)"
| grace_store: "d_main d = GraceOver t \<Longrightarrow>
    discover_step enableWrrp d (d\<lparr> d_wrrpWon := True, d_main := Returned (Inr t) \<rparr>)"

inductive discover_reach :: "bool \<Rightarrow> discovery \<Rightarrow> bool" for enableWrrp where
  start: "discover_reach enableWrrp (discover_init enableWrrp)"
| step: "discover_reach enableWrrp d \<Longrightarrow> discover_step enableWrrp d d' \<Longrightarrow> discover_reach enableWrrp d'"

inductive_cases discover_stepE: "discover_step enableWrrp d d'"

section \<open>Invariant\<close>

definition failures :: "discovery \<Rightarrow> nat" where
  "failures d = (case d_iceOut d of Some (Inl _) \<Rightarrow> 1 | _ \<Rightarrow> 0) + (case d_wrrpOut d of Some (Inl _) \<Rightarrow> 1 | _ \<Rightarrow> 0)"

definition outcome :: "discovery \<Rightarrow> transport \<Rightarrow> bool" where
  "outcome d t \<longleftrightarrow> d_iceOut d = Some (Inr t) \<or> d_wrrpOut d = Some (Inr t)"

text \<open>The dialers and the result channel; the count of failures; the selecting goroutine.\<close>

definition dialers_ok :: "bool \<Rightarrow> discovery \<Rightarrow> bool" where
  "dialers_ok enableWrrp d \<longleftrightarrow>
     (d_ice d = Dialing \<longleftrightarrow> d_iceOut d = None) \<and>
     (d_wrrp d = Dialing \<longrightarrow> d_wrrpOut d = None) \<and>
     (\<not> enableWrrp \<longrightarrow> d_wrrp d \<noteq> Dialing \<and> d_wrrpOut d = None) \<and>
     (\<forall>t. d_iceOut d = Some (Inr t) \<longrightarrow> tr_Type t = TransportICE) \<and>
     (\<forall>t. d_wrrpOut d = Some (Inr t) \<longrightarrow> tr_Type t = TransportWRRP) \<and>
     (\<forall>t \<in> set (d_result d). outcome d t)"

definition counts_ok :: "discovery \<Rightarrow> bool" where
  "counts_ok d \<longleftrightarrow>
     (d_ice d = Dialing \<longrightarrow> d_iceOut d = None) \<and> (d_wrrp d = Dialing \<longrightarrow> d_wrrpOut d = None) \<and>
     d_failed d + length (d_errs d) = failures d"

fun main_ok :: "bool \<Rightarrow> discovery \<Rightarrow> main_phase \<Rightarrow> bool" where
  "main_ok enableWrrp d Selecting \<longleftrightarrow> \<not> d_wrrpWon d"
| "main_ok enableWrrp d (Grace t) \<longleftrightarrow> enableWrrp \<and> d_wrrpOut d = Some (Inr t) \<and> \<not> d_wrrpWon d"
| "main_ok enableWrrp d (GraceOver t) \<longleftrightarrow> enableWrrp \<and> d_wrrpOut d = Some (Inr t) \<and> \<not> d_wrrpWon d"
| "main_ok enableWrrp d (Returned (Inl e)) \<longleftrightarrow> d_failed d = dialerCount enableWrrp \<and> \<not> d_wrrpWon d"
| "main_ok enableWrrp d (Returned (Inr t)) \<longleftrightarrow> outcome d t \<and> (d_wrrpWon d \<longrightarrow> d_wrrpOut d = Some (Inr t))"
| "main_ok enableWrrp d Cancelled \<longleftrightarrow> \<not> d_wrrpWon d"

definition upgraded_ok :: "discovery \<Rightarrow> bool" where
  "upgraded_ok d \<longleftrightarrow>
     (case d_upgraded d of None \<Rightarrow> True | Some t \<Rightarrow> d_wrrpWon d \<and> d_iceOut d = Some (Inr t))"

definition discover_ok :: "bool \<Rightarrow> discovery \<Rightarrow> bool" where
  "discover_ok enableWrrp d \<longleftrightarrow>
     dialers_ok enableWrrp d \<and> counts_ok d \<and> main_ok enableWrrp d (d_main d) \<and> upgraded_ok d"

lemma discover_ok_init: "discover_ok enableWrrp (discover_init enableWrrp)"
  by (simp add: discover_ok_def dialers_ok_def counts_ok_def upgraded_ok_def discover_init_def failures_def)

lemma dialers_ok_step: "discover_step enableWrrp d d' \<Longrightarrow> dialers_ok enableWrrp d \<Longrightarrow> dialers_ok enableWrrp d'"
  by (induction rule: discover_step.induct) (auto simp: dialers_ok_def outcome_def)

lemma counts_ok_step: "discover_step enableWrrp d d' \<Longrightarrow> counts_ok d \<Longrightarrow> counts_ok d'"
  by (induction rule: discover_step.induct) (auto simp: counts_ok_def failures_def)

lemma main_ok_dialer:
  assumes "main_ok enableWrrp d m" "dialers_ok enableWrrp d"
  shows "d_ice d = Dialing \<Longrightarrow> main_ok enableWrrp (d\<lparr> d_ice := a, d_iceOut := x, d_errs := es, d_result := rs \<rparr>) m"
    and "d_wrrp d = Dialing \<Longrightarrow> main_ok enableWrrp (d\<lparr> d_wrrp := a, d_wrrpOut := x, d_errs := es, d_result := rs \<rparr>) m"
  using assms
  by (cases "(enableWrrp, d, m)" rule: main_ok.cases; auto simp: dialers_ok_def outcome_def)+

lemma main_ok_step:
  assumes "discover_step enableWrrp d d'" "main_ok enableWrrp d (d_main d)" "dialers_ok enableWrrp d"
  shows "main_ok enableWrrp d' (d_main d')"
  using assms
proof (induction rule: discover_step.induct)
  case (ice_fail d e)
  then show ?case using main_ok_dialer(1) [where d = d and m = "d_main d" and a = Finished and x = "Some (Inl e)" and es = "d_errs d @ [e]" and rs = "d_result d"] by simp
next
  case (ice_ok d t)
  then show ?case using main_ok_dialer(1) [where d = d and m = "d_main d" and a = Delivered and x = "Some (Inr t)" and es = "d_errs d" and rs = "d_result d @ [t]"] by simp
next
  case (ice_check d t)
  then show ?case by (cases "(enableWrrp, d, d_main d)" rule: main_ok.cases) (auto simp: outcome_def)
next
  case (wrrp_fail d e)
  then show ?case using main_ok_dialer(2) [where d = d and m = "d_main d" and a = Finished and x = "Some (Inl e)" and es = "d_errs d @ [e]" and rs = "d_result d"] by simp
next
  case (wrrp_ok d t)
  then show ?case using main_ok_dialer(2) [where d = d and m = "d_main d" and a = Finished and x = "Some (Inr t)" and es = "d_errs d" and rs = "d_result d @ [t]"] by simp
next
  case (main_result d t rs)
  then show ?case by (auto simp: dialers_ok_def outcome_def)
qed (auto simp: dialers_ok_def outcome_def)

lemma upgraded_step:
  assumes "discover_step enableWrrp d d'" "dialers_ok enableWrrp d" "upgraded_ok d"
  shows "upgraded_ok d'"
proof -
  have none: "d_ice d = Dialing \<Longrightarrow> d_upgraded d = None"
    using assms(2,3) by (cases "d_upgraded d") (simp_all add: dialers_ok_def upgraded_ok_def)
  show ?thesis
    using assms(1) none assms(3)
    by (cases rule: discover_step.cases) (auto simp: upgraded_ok_def split: option.splits)
qed

lemma discover_ok_reach: "discover_reach enableWrrp d \<Longrightarrow> discover_ok enableWrrp d"
proof (induction rule: discover_reach.induct)
  case (step d d')
  then show ?case
    unfolding discover_ok_def
    using dialers_ok_step counts_ok_step main_ok_step upgraded_step by blast
qed (rule discover_ok_init)

section \<open>Properties\<close>


definition demo_direct :: transport where
  "demo_direct = \<lparr> tr_Type = TransportICE, tr_RemoteAddr = ''192.0.2.1:51820'' \<rparr>"

definition demo_d1 :: discovery where
  "demo_d1 = (discover_init False)\<lparr> d_ice := Delivered, d_iceOut := Some (Inr demo_direct), d_result := [demo_direct] \<rparr>"

definition demo_d2 :: discovery where
  "demo_d2 = demo_d1\<lparr> d_result := [], d_main := Returned (Inr demo_direct) \<rparr>"

lemma demo_d2_reach: "discover_reach False demo_d2"
proof -
  have 1: "discover_step False (discover_init False) demo_d1"
    using discover_step.ice_ok [of "discover_init False" demo_direct False]
    by (simp add: demo_d1_def discover_init_def demo_direct_def)
  have 2: "discover_step False demo_d1 demo_d2"
    using discover_step.main_result [of demo_d1 demo_direct "[]" False]
    by (simp add: demo_d2_def demo_d1_def discover_init_def demo_direct_def)
  show ?thesis
    using discover_reach.step [OF discover_reach.step [OF discover_reach.start 1] 2] .
qed


text \<open>The upgrade to a direct path can be lost. If the direct dialer delivers its transport after
  the grace period has been decided against it but before the flag is set, it finds the flag unset
  and does not upgrade, while its transport stays unread in the channel: all goroutines end, the
  relayed transport is returned, and the direct transport that was found is used by no one.\<close>

theorem lost_upgrade:
  assumes "tr_Type i = TransportICE" "tr_Type w = TransportWRRP"
  shows "\<exists>d. discover_reach True d \<and> d_ice d = Finished \<and> d_wrrp d = Finished \<and>
    d_main d = Returned (Inr w) \<and> d_iceOut d = Some (Inr i) \<and> d_upgraded d = None \<and> d_result d = [i]"
proof -
  let ?d0 = "discover_init True"
  let ?d1 = "?d0\<lparr> d_wrrp := Finished, d_wrrpOut := Some (Inr w), d_result := [w] \<rparr>"
  let ?d2 = "?d1\<lparr> d_result := [], d_main := Grace w \<rparr>"
  let ?d3 = "?d2\<lparr> d_main := GraceOver w \<rparr>"
  let ?d4 = "?d3\<lparr> d_ice := Delivered, d_iceOut := Some (Inr i), d_result := [i] \<rparr>"
  let ?d5 = "?d4\<lparr> d_ice := Finished, d_upgraded := None \<rparr>"
  let ?d6 = "?d5\<lparr> d_wrrpWon := True, d_main := Returned (Inr w) \<rparr>"
  have s1: "discover_step True ?d0 ?d1"
    using discover_step.wrrp_ok [of ?d0 w True] assms by (simp add: discover_init_def)
  have s2: "discover_step True ?d1 ?d2"
    using discover_step.main_result [of ?d1 w "[]" True] assms by (simp add: discover_init_def)
  have s3: "discover_step True ?d2 ?d3"
    using discover_step.grace_timeout [of ?d2 w True] by simp
  have s4: "discover_step True ?d3 ?d4"
    using discover_step.ice_ok [of ?d3 i True] assms by (simp add: discover_init_def)
  have s5: "discover_step True ?d4 ?d5"
    using discover_step.ice_check [of ?d4 i True] by (simp add: discover_init_def)
  have s6: "discover_step True ?d5 ?d6"
    using discover_step.grace_store [of ?d5 w True] by simp
  have "discover_reach True ?d6"
    by (intro discover_reach.step [OF _ s6] discover_reach.step [OF _ s5] discover_reach.step [OF _ s4]
        discover_reach.step [OF _ s3] discover_reach.step [OF _ s2] discover_reach.step [OF _ s1] discover_reach.start)
  then show ?thesis
    by (intro exI [of _ ?d6]) (simp add: discover_init_def)
qed

theorem lost_upgrade_witness:
  "\<exists>d. discover_reach True d \<and> d_main d = Returned (Inr demo_relay) \<and> d_iceOut d = Some (Inr demo_direct) \<and> d_upgraded d = None"
  using lost_upgrade [of demo_direct demo_relay] by (auto simp: demo_direct_def demo_relay_def)

end
