(* ===== verification/Signal.thy ===== *)
theory Signal
  imports Peer_State
begin

text \<open>
  The signalling packets that peers exchange (\<open>internal/proto/signal.proto\<close>) and what the two dialers
  have in common. Peer information travels as JSON; the model keeps what the text means to
  \<open>json.Unmarshal\<close> into a \<open>Peer\<close>: nothing at all, the literal \<open>null\<close>, a peer, or a text that is refused.
\<close>

section \<open>Packets\<close>

datatype PacketType = UNKNOWN | HANDSHAKE_SYN | HANDSHAKE_ACK | OFFER | ANSWER | MESSAGE

datatype DialerType = DialerICE | DialerWRRP

datatype json_peer = JEmpty | JNull | JPeer Peer | JBad

fun json_Unmarshal :: "json_peer \<Rightarrow> Peer option" where
  "json_Unmarshal JEmpty = None"
| "json_Unmarshal JNull = Some empty_peer"
| "json_Unmarshal (JPeer p) = Some p"
| "json_Unmarshal JBad = None"

definition json_Marshal :: "Peer option \<Rightarrow> json_peer" where
  "json_Marshal lp = (case lp of None \<Rightarrow> JNull | Some p \<Rightarrow> JPeer p)"

record Handshake =
  hs_Timestamp :: int
  hs_PeerInfo :: json_peer

record Offer =
  of_Ufrag :: string
  of_Pwd :: string
  of_Candidate :: string
  of_Current :: json_peer
  of_PublicKey :: string

datatype Payload = NoPayload | PHandshake Handshake | POffer Offer | PAnswer Offer | PMessage string

record SignalPacket =
  sp_Type :: PacketType
  sp_Dialer :: DialerType
  sp_SenderId :: u64
  sp_Payload :: Payload

fun GetHandshake_payload :: "Payload \<Rightarrow> Handshake option" where
  "GetHandshake_payload (PHandshake h) = Some h"
| "GetHandshake_payload _ = None"

definition GetHandshake :: "SignalPacket \<Rightarrow> Handshake option" where
  "GetHandshake p = GetHandshake_payload (sp_Payload p)"

fun GetOffer_payload :: "Payload \<Rightarrow> Offer option" where
  "GetOffer_payload (POffer off) = Some off"
| "GetOffer_payload _ = None"

definition GetOffer :: "SignalPacket \<Rightarrow> Offer option" where
  "GetOffer p = GetOffer_payload (sp_Payload p)"

text \<open>The handshake payload of a SYN or an ACK: the local peer, when there is one.\<close>

definition handshake_of :: "int \<Rightarrow> Peer option \<Rightarrow> Handshake" where
  "handshake_of now lp =
     \<lparr> hs_Timestamp = now, hs_PeerInfo = (case lp of None \<Rightarrow> JEmpty | Some p \<Rightarrow> JPeer p) \<rparr>"

text \<open>The peer that a SYN or an ACK announces, if any; \<open>len(hs.PeerInfo) > 0\<close> excludes the empty text.\<close>

definition handshake_info :: "SignalPacket \<Rightarrow> json_peer option" where
  "handshake_info p =
     (case GetHandshake p of None \<Rightarrow> None
      | Some hs \<Rightarrow> if hs_PeerInfo hs = JEmpty then None else Some (hs_PeerInfo hs))"

definition announced :: "SignalPacket \<Rightarrow> Peer option" where
  "announced p = Option.bind (handshake_info p) json_Unmarshal"

section \<open>What a dialer does to its surroundings\<close>

datatype dialer_eff =
    Signal u64 SignalPacket
  | RelayProbe u64 SignalPacket
  | PeerReceived Peer
  | GatherCandidates nat
  | AddRemoteCandidate nat string
  | CloseAgent nat
  | RestartProbe

text \<open>How a handler ends. \<open>HNilAgent\<close> and \<open>HNilOffer\<close> are the points where the code calls a method of a
  nil agent or reads a field of a missing offer.\<close>

datatype h_result = HOk | HErr | HNilAgent | HNilOffer

definition peers_received :: "dialer_eff list \<Rightarrow> Peer list" where
  "peers_received es = concat (map (\<lambda>e. case e of PeerReceived p \<Rightarrow> [p] | _ \<Rightarrow> []) es)"

lemma peers_received_simps [simp]:
  "peers_received [] = []"
  "peers_received (es @ fs) = peers_received es @ peers_received fs"
  "peers_received (PeerReceived p # es) = p # peers_received es"
  "peers_received (Signal t q # es) = peers_received es"
  "peers_received (RelayProbe t q # es) = peers_received es"
  "peers_received (GatherCandidates a # es) = peers_received es"
  "peers_received (AddRemoteCandidate a c # es) = peers_received es"
  "peers_received (CloseAgent a # es) = peers_received es"
  "peers_received (RestartProbe # es) = peers_received es"
  by (simp_all add: peers_received_def)

definition signals_sent :: "dialer_eff list \<Rightarrow> SignalPacket list" where
  "signals_sent es = concat (map (\<lambda>e. case e of Signal _ p \<Rightarrow> [p] | RelayProbe _ p \<Rightarrow> [p] | _ \<Rightarrow> []) es)"

lemma signals_sent_simps [simp]:
  "signals_sent [] = []"
  "signals_sent (es @ fs) = signals_sent es @ signals_sent fs"
  "signals_sent (Signal t q # es) = q # signals_sent es"
  "signals_sent (RelayProbe t q # es) = q # signals_sent es"
  "signals_sent (PeerReceived p # es) = signals_sent es"
  "signals_sent (GatherCandidates a # es) = signals_sent es"
  "signals_sent (AddRemoteCandidate a c # es) = signals_sent es"
  "signals_sent (CloseAgent a # es) = signals_sent es"
  "signals_sent (RestartProbe # es) = signals_sent es"
  by (simp_all add: signals_sent_def)

lemma announced_handshake [simp]:
  "sp_Payload p = PHandshake (handshake_of now lp) \<Longrightarrow> announced p = lp"
  by (cases lp) (simp_all add: announced_def handshake_info_def GetHandshake_def handshake_of_def)

end
