(* ===== verification/Ice_Dialer.thy ===== *)
theory Ice_Dialer
  imports Signal
begin

text \<open>
  The direct dialer (\<open>internal/server/transport/ice_dialer.go\<close>). The ICE agent belongs to a library:
  agents are numbered in the order they are made, and what the library answers (whether an agent can
  be made, whether it gathers, accepts a candidate, connects, and the credentials it has) is the
  record \<open>ice_lib\<close>. Each handler runs to completion. The goroutine of \<open>Prepare\<close> that repeats the SYN is
  the flag \<open>ic_synTicker\<close>; its ticks are events.
\<close>

section \<open>Data\<close>

record ice_lib =
  il_newAgent :: bool
  il_gather :: bool
  il_credentials :: "(string \<times> string) option"
  il_candidate :: "string \<Rightarrow> bool"
  il_add :: "string \<Rightarrow> bool"
  il_connect :: "bool \<Rightarrow> string \<Rightarrow> string \<Rightarrow> string option"

record ice_cfg =
  icc_localId :: PeerIdentity
  icc_remoteId :: PeerIdentity
  icc_localPeer :: "Peer option"
  icc_pubKey :: string
  icc_send :: "u64 \<Rightarrow> SignalPacket \<Rightarrow> bool"
  icc_now :: int

record iceDialer =
  ic_agent :: "nat option"
  ic_agents :: nat
  ic_credentialsInited :: bool
  ic_rUfrag :: string
  ic_rPwd :: string
  ic_closed :: bool
  ic_offerReady :: bool
  ic_synTicker :: bool

definition NewIceDialer :: iceDialer where
  "NewIceDialer =
     \<lparr> ic_agent = None, ic_agents = 0, ic_credentialsInited = False, ic_rUfrag = [], ic_rPwd = [],
       ic_closed = False, ic_offerReady = False, ic_synTicker = False \<rparr>"

section \<open>Operations\<close>

definition ice_sendPacket ::
  "ice_cfg \<Rightarrow> ice_lib \<Rightarrow> iceDialer \<Rightarrow> PeerIdentity \<Rightarrow> PacketType \<Rightarrow> string option \<Rightarrow> dialer_eff list \<times> h_result" where
  "ice_sendPacket cfg lib d remote ty candidate =
     (if ic_closed d then ([], HOk)
      else
        let dst = ToUint64 (PeerIdentity_ID remote);
            p = \<lparr> sp_Type = ty, sp_Dialer = DialerICE,
                  sp_SenderId = ToUint64 (PeerIdentity_ID (icc_localId cfg)), sp_Payload = NoPayload \<rparr>;
            send = (\<lambda>q. ([Signal dst q], if icc_send cfg dst q then HOk else HErr))
        in if ty = HANDSHAKE_SYN \<or> ty = HANDSHAKE_ACK
           then send (p\<lparr> sp_Payload := PHandshake (handshake_of (icc_now cfg) (icc_localPeer cfg)) \<rparr>)
           else if ty = OFFER then
             (case ic_agent d of
                None \<Rightarrow> ([], HNilAgent)
              | Some a \<Rightarrow>
                  (case il_credentials lib of
                     None \<Rightarrow> ([], HErr)
                   | Some (ufrag, pwd) \<Rightarrow>
                       (case candidate of
                          None \<Rightarrow> ([], HErr)
                        | Some c \<Rightarrow>
                            send (p\<lparr> sp_Payload := POffer \<lparr> of_Ufrag = ufrag, of_Pwd = pwd, of_Candidate = c,
                              of_Current = json_Marshal (icc_localPeer cfg), of_PublicKey = icc_pubKey cfg \<rparr> \<rparr>))))
           else send p)"

definition ice_Close :: "iceDialer \<Rightarrow> iceDialer \<times> dialer_eff list" where
  "ice_Close d =
     (if ic_closed d then (d, [])
      else (d\<lparr> ic_closed := True, ic_agent := None \<rparr>,
            (case ic_agent d of None \<Rightarrow> [] | Some a \<Rightarrow> [CloseAgent a])))"

text \<open>Peer information from a SYN or an ACK is taken once; a text that is refused counts as taken.\<close>

definition take_info :: "iceDialer \<Rightarrow> SignalPacket \<Rightarrow> iceDialer \<times> dialer_eff list" where
  "take_info d packet =
     (case handshake_info packet of
        None \<Rightarrow> (d, [])
      | Some info \<Rightarrow>
          if ic_credentialsInited d then (d, [])
          else (d\<lparr> ic_credentialsInited := True \<rparr>,
                (case json_Unmarshal info of None \<Rightarrow> [] | Some p \<Rightarrow> [PeerReceived p])))"

definition getAgent :: "ice_lib \<Rightarrow> iceDialer \<Rightarrow> (nat \<times> iceDialer) option" where
  "getAgent lib d = (if il_newAgent lib then Some (ic_agents d, d\<lparr> ic_agents := ic_agents d + 1 \<rparr>) else None)"

definition handle_ack :: "ice_lib \<Rightarrow> iceDialer \<Rightarrow> SignalPacket \<Rightarrow> iceDialer \<times> dialer_eff list \<times> h_result" where
  "handle_ack lib d packet =
     (if ic_closed d then (d, [], HOk)
      else case ic_agent d of
             None \<Rightarrow> (d, [], HOk)
           | Some a \<Rightarrow>
               let (d1, es) = take_info d packet
               in (d1\<lparr> ic_synTicker := False \<rparr>, es @ [GatherCandidates a], if il_gather lib then HOk else HErr))"

definition handle_syn ::
  "ice_cfg \<Rightarrow> ice_lib \<Rightarrow> PeerIdentity \<Rightarrow> iceDialer \<Rightarrow> SignalPacket \<Rightarrow> iceDialer \<times> dialer_eff list \<times> h_result" where
  "handle_syn cfg lib remote d packet =
     (if ic_closed d then (d, [], HOk)
      else
        let (d1, es1) = take_info d packet
        in case ic_agent d1 of
             Some a \<Rightarrow> (let (d2, es2) = ice_Close d1 in (d2, es1 @ es2, HOk))
           | None \<Rightarrow>
               let (es2, r) = ice_sendPacket cfg lib d1 (icc_remoteId cfg) HANDSHAKE_ACK None
               in if r \<noteq> HOk then (d1, es1 @ es2, r)
                  else case getAgent lib d1 of
                         None \<Rightarrow> (d1, es1 @ es2, HErr)
                       | Some (a, d2) \<Rightarrow>
                           (d2\<lparr> ic_agent := Some a \<rparr>, es1 @ es2 @ [GatherCandidates a],
                            if il_gather lib then HOk else HErr))"

definition offer_credentials :: "iceDialer \<Rightarrow> Offer \<Rightarrow> iceDialer" where
  "offer_credentials d off =
     (if ic_rUfrag d = [] then d\<lparr> ic_rUfrag := of_Ufrag off, ic_rPwd := of_Pwd off \<rparr> else d)"

definition offer_info :: "iceDialer \<Rightarrow> Offer \<Rightarrow> iceDialer \<times> dialer_eff list" where
  "offer_info d off =
     (if ic_credentialsInited d then (d, [])
      else (d\<lparr> ic_credentialsInited := True \<rparr>,
            if of_Current off = JEmpty then []
            else case json_Unmarshal (of_Current off) of None \<Rightarrow> [] | Some p \<Rightarrow> [PeerReceived p]))"

definition handle_offer :: "ice_lib \<Rightarrow> iceDialer \<Rightarrow> SignalPacket \<Rightarrow> iceDialer \<times> dialer_eff list \<times> h_result" where
  "handle_offer lib d packet =
     (case GetOffer packet of
        None \<Rightarrow> (d, [], HNilOffer)
      | Some off \<Rightarrow>
          let (d2, es) = offer_info (offer_credentials d off) off
          in if \<not> il_candidate lib (of_Candidate off) then (d2, es, HErr)
             else case ic_agent d2 of
                    None \<Rightarrow> (d2, es, HNilAgent)
                  | Some a \<Rightarrow>
                      if il_add lib (of_Candidate off)
                      then (d2\<lparr> ic_offerReady := True \<rparr>, es @ [AddRemoteCandidate a (of_Candidate off)], HOk)
                      else (d2, es @ [AddRemoteCandidate a (of_Candidate off)], HErr))"

definition ice_Handle ::
  "ice_cfg \<Rightarrow> ice_lib \<Rightarrow> PeerIdentity \<Rightarrow> iceDialer \<Rightarrow> SignalPacket \<Rightarrow> iceDialer \<times> dialer_eff list \<times> h_result" where
  "ice_Handle cfg lib remote d packet =
     (if sp_Dialer packet \<noteq> DialerICE then (d, [], HOk)
      else case sp_Type packet of
             HANDSHAKE_ACK \<Rightarrow> handle_ack lib d packet
           | HANDSHAKE_SYN \<Rightarrow> handle_syn cfg lib remote d packet
           | OFFER \<Rightarrow> handle_offer lib d packet
           | ANSWER \<Rightarrow> handle_offer lib d packet
           | _ \<Rightarrow> (d, [], HOk))"

text \<open>\<open>Prepare\<close> with the start of its goroutine, and a tick of it.\<close>

definition ice_Prepare :: "ice_cfg \<Rightarrow> ice_lib \<Rightarrow> PeerIdentity \<Rightarrow> iceDialer \<Rightarrow> iceDialer \<times> dialer_eff list \<times> h_result" where
  "ice_Prepare cfg lib remote d =
     (if \<not> isInitiator (icc_localId cfg) remote then (d, [], HOk)
      else
        let made = (case ic_agent d of Some a \<Rightarrow> Some d
                    | None \<Rightarrow> map_option (\<lambda>(a, d1). d1\<lparr> ic_agent := Some a \<rparr>) (getAgent lib d))
        in case made of
             None \<Rightarrow> (d, [], HErr)
           | Some d1 \<Rightarrow>
               (d1\<lparr> ic_synTicker := True \<rparr>, fst (ice_sendPacket cfg lib d1 remote HANDSHAKE_SYN None), HOk))"

definition syn_tick :: "ice_cfg \<Rightarrow> ice_lib \<Rightarrow> iceDialer \<Rightarrow> dialer_eff list" where
  "syn_tick cfg lib d =
     (if ic_synTicker d then fst (ice_sendPacket cfg lib d (icc_remoteId cfg) HANDSHAKE_SYN None) else [])"

text \<open>The agent's callbacks: a gathered candidate is offered, a failed connection closes the dialer.\<close>

definition on_candidate :: "ice_cfg \<Rightarrow> ice_lib \<Rightarrow> iceDialer \<Rightarrow> string option \<Rightarrow> dialer_eff list" where
  "on_candidate cfg lib d c =
     (if c = None then [] else fst (ice_sendPacket cfg lib d (icc_remoteId cfg) OFFER c))"

definition on_state :: "bool \<Rightarrow> iceDialer \<Rightarrow> iceDialer \<times> dialer_eff list" where
  "on_state failed d = (if failed then ice_Close d else (d, []))"

text \<open>The branches of the \<open>select\<close> in \<open>Dial\<close>; a branch that is not ready gives \<open>None\<close>.\<close>

datatype dial_branch = DialDeadline | DialCloseChan | DialOfferReady

datatype dial_result = DialTimedOut | DialClosed | DialFailed | DialNilAgent | DialConnected string

definition ice_Dial :: "ice_cfg \<Rightarrow> ice_lib \<Rightarrow> iceDialer \<Rightarrow> dial_branch \<Rightarrow> dial_result option" where
  "ice_Dial cfg lib d b =
     (case b of
        DialDeadline \<Rightarrow> Some DialTimedOut
      | DialCloseChan \<Rightarrow> if ic_closed d then Some DialClosed else None
      | DialOfferReady \<Rightarrow>
          if \<not> ic_offerReady d then None
          else case ic_agent d of
                 None \<Rightarrow> Some DialNilAgent
               | Some a \<Rightarrow>
                   (case il_connect lib (isInitiator (icc_localId cfg) (icc_remoteId cfg)) (ic_rUfrag d) (ic_rPwd d) of
                      None \<Rightarrow> Some DialFailed
                    | Some addr \<Rightarrow> Some (DialConnected addr)))"

section \<open>Histories\<close>

datatype ice_event =
    IcePrepare
  | IceTick
  | IceSynDone
  | IcePacket SignalPacket
  | IceCandidate "string option"
  | IceState bool
  | IceClose

fun ice_step :: "ice_cfg \<Rightarrow> ice_lib \<Rightarrow> ice_event \<Rightarrow> iceDialer \<Rightarrow> iceDialer \<times> dialer_eff list" where
  "ice_step cfg lib IcePrepare d = (let (d', es, r) = ice_Prepare cfg lib (icc_remoteId cfg) d in (d', es))"
| "ice_step cfg lib IceTick d = (d, syn_tick cfg lib d)"
| "ice_step cfg lib IceSynDone d = (d\<lparr> ic_synTicker := False \<rparr>, [])"
| "ice_step cfg lib (IcePacket p) d = (let (d', es, r) = ice_Handle cfg lib (icc_remoteId cfg) d p in (d', es))"
| "ice_step cfg lib (IceCandidate c) d = (d, on_candidate cfg lib d c)"
| "ice_step cfg lib (IceState failed) d = on_state failed d"
| "ice_step cfg lib IceClose d = ice_Close d"

fun ice_run :: "ice_cfg \<Rightarrow> ice_lib \<Rightarrow> ice_event list \<Rightarrow> iceDialer \<Rightarrow> iceDialer \<times> dialer_eff list" where
  "ice_run cfg lib [] d = (d, [])"
| "ice_run cfg lib (ev # evs) d =
     (let (d1, es1) = ice_step cfg lib ev d; (d2, es2) = ice_run cfg lib evs d1 in (d2, es1 @ es2))"

lemma ice_run_append:
  "ice_run cfg lib (xs @ ys) d =
     (let (d1, es1) = ice_run cfg lib xs d; (d2, es2) = ice_run cfg lib ys d1 in (d2, es1 @ es2))"
  by (induction xs arbitrary: d) (simp_all add: case_prod_beta Let_def)

section \<open>Facts on the operations\<close>

lemmas ice_handlers = handle_ack_def handle_syn_def handle_offer_def take_info_def offer_info_def
  offer_credentials_def getAgent_def ice_Close_def

lemma sendPacket_closed [simp]: "ic_closed d \<Longrightarrow> ice_sendPacket cfg lib d remote ty c = ([], HOk)"
  by (simp add: ice_sendPacket_def)

lemma sendPacket_peers [simp]: "peers_received (fst (ice_sendPacket cfg lib d remote ty c)) = []"
  by (simp add: ice_sendPacket_def Let_def split: option.splits prod.splits)

lemma sendPacket_handshake:
  "ty = HANDSHAKE_SYN \<or> ty = HANDSHAKE_ACK \<Longrightarrow> snd (ice_sendPacket cfg lib d remote ty c) \<in> {HOk, HErr}"
  by (auto simp: ice_sendPacket_def Let_def)

lemma closed_step:
  assumes "ic_closed d"
  shows "ic_closed (fst (ice_step cfg lib ev d)) \<and> signals_sent (snd (ice_step cfg lib ev d)) = []"
  using assms
  by (cases ev)
     (auto simp: ice_Prepare_def syn_tick_def on_candidate_def on_state_def ice_Handle_def ice_handlers
       Let_def case_prod_beta split: option.splits PacketType.splits)

lemma closed_run:
  "ic_closed d \<Longrightarrow> ic_closed (fst (ice_run cfg lib evs d)) \<and> signals_sent (snd (ice_run cfg lib evs d)) = []"
  using closed_step by (induction evs arbitrary: d) (simp_all add: case_prod_beta Let_def)

text \<open>A peer is passed on only by the step that sets the flag.\<close>

definition info_budget :: "iceDialer \<Rightarrow> nat" where
  "info_budget d = (if ic_credentialsInited d then 0 else 1)"

lemma step_budget:
  "length (peers_received (snd (ice_step cfg lib ev d))) + info_budget (fst (ice_step cfg lib ev d)) \<le> info_budget d"
proof (cases ev)
  case (IcePacket p)
  have "length (peers_received (fst (snd (handle_ack lib d p)))) + info_budget (fst (handle_ack lib d p)) \<le> info_budget d"
    by (auto simp: handle_ack_def take_info_def info_budget_def split: option.splits)
  moreover have "length (peers_received (fst (snd (handle_offer lib d p)))) + info_budget (fst (handle_offer lib d p)) \<le> info_budget d"
    by (auto simp: handle_offer_def offer_info_def offer_credentials_def info_budget_def Let_def split: option.splits)
  moreover have "length (peers_received (fst (snd (handle_syn cfg lib (icc_remoteId cfg) d p)))) +
      info_budget (fst (handle_syn cfg lib (icc_remoteId cfg) d p)) \<le> info_budget d"
    by (auto simp: handle_syn_def take_info_def ice_Close_def getAgent_def info_budget_def Let_def case_prod_beta
        split: option.splits)
  ultimately show ?thesis
    using IcePacket by (simp add: ice_Handle_def case_prod_beta Let_def split: PacketType.splits)
qed (auto simp: ice_Prepare_def syn_tick_def on_candidate_def on_state_def ice_Close_def getAgent_def info_budget_def
       Let_def case_prod_beta split: option.splits)

lemma run_budget:
  "length (peers_received (snd (ice_run cfg lib evs d))) + info_budget (fst (ice_run cfg lib evs d)) \<le> info_budget d"
proof (induction evs arbitrary: d)
  case (Cons ev evs)
  show ?case
    using step_budget [of cfg lib ev d] Cons [of "fst (ice_step cfg lib ev d)"] by (simp add: case_prod_beta Let_def)
qed simp

section \<open>Properties\<close>

text \<open>A dialer over its whole life, whatever the packets, ticks, candidates and agent states it sees:
  it passes on the remote peer's configuration at most once, and once it is closed it stays closed
  and sends nothing more.\<close>

theorem ice_dialer_history:
  "length (peers_received (snd (ice_run cfg lib evs NewIceDialer))) \<le> 1 \<and>
   (ic_closed (fst (ice_run cfg lib evs NewIceDialer)) \<longrightarrow>
      ic_closed (fst (ice_run cfg lib (evs @ later) NewIceDialer)) \<and>
      signals_sent (snd (ice_run cfg lib (evs @ later) NewIceDialer)) = signals_sent (snd (ice_run cfg lib evs NewIceDialer)))"
  using run_budget [of cfg lib evs NewIceDialer] closed_run [of "fst (ice_run cfg lib evs NewIceDialer)" cfg lib later]
  by (auto simp: info_budget_def NewIceDialer_def ice_run_append case_prod_beta Let_def)

definition ice_demo_cfg :: ice_cfg where
  "ice_demo_cfg = \<lparr> icc_localId = \<lparr> id_AppID = ''a'', id_PublicKey = replicate 32 2 \<rparr>,
     icc_remoteId = \<lparr> id_AppID = ''b'', id_PublicKey = replicate 32 1 \<rparr>, icc_localPeer = Some empty_peer,
     icc_pubKey = ''K'', icc_send = (\<lambda>_ _. True), icc_now = 0 \<rparr>"

definition ice_demo_lib :: ice_lib where
  "ice_demo_lib = \<lparr> il_newAgent = True, il_gather = True, il_credentials = Some (''u'', ''p''),
     il_candidate = (\<lambda>_. True), il_add = (\<lambda>_. True), il_connect = (\<lambda>_ _ _. Some ''192.0.2.1:51820'') \<rparr>"

definition demo_syn :: SignalPacket where
  "demo_syn = \<lparr> sp_Type = HANDSHAKE_SYN, sp_Dialer = DialerICE, sp_SenderId = 1,
     sp_Payload = PHandshake (handshake_of 0 (Some empty_peer)) \<rparr>"

lemmas ice_eval = ice_demo_cfg_def ice_demo_lib_def NewIceDialer_def ice_Handle_def ice_handlers
  ice_Prepare_def syn_tick_def ice_sendPacket_def demo_syn_def handshake_of_def handshake_info_def
  GetHandshake_def

theorem ice_dialer_history_witness:
  "ic_closed (fst (ice_run ice_demo_cfg ice_demo_lib [IcePacket demo_syn, IcePacket demo_syn] NewIceDialer)) \<and>
   ic_closed (fst (ice_run ice_demo_cfg ice_demo_lib ([IcePacket demo_syn, IcePacket demo_syn] @ [IcePrepare, IceTick]) NewIceDialer)) \<and>
   signals_sent (snd (ice_run ice_demo_cfg ice_demo_lib ([IcePacket demo_syn, IcePacket demo_syn] @ [IcePrepare, IceTick]) NewIceDialer)) =
     signals_sent (snd (ice_run ice_demo_cfg ice_demo_lib [IcePacket demo_syn, IcePacket demo_syn] NewIceDialer))"
proof -
  have c: "ic_closed (fst (ice_run ice_demo_cfg ice_demo_lib [IcePacket demo_syn, IcePacket demo_syn] NewIceDialer))"
    by (simp add: ice_eval)
  show ?thesis
    using c conjunct2 [OF ice_dialer_history [of ice_demo_cfg ice_demo_lib "[IcePacket demo_syn, IcePacket demo_syn]"
        "[IcePrepare, IceTick]"]] by blast
qed

text \<open>Exactly which packets make the handler use a nil pointer. A packet typed as an offer or an answer
  without an offer payload is dereferenced; an offer with a readable candidate that arrives while the
  dialer has no agent, before the handshake or after the dialer is closed, is handed to the nil agent.
  Nothing else does.\<close>

theorem ice_handler_nil_uses:
  "(snd (snd (ice_Handle cfg lib remote d p)) = HNilOffer \<longleftrightarrow>
      sp_Dialer p = DialerICE \<and> sp_Type p \<in> {OFFER, ANSWER} \<and> GetOffer p = None) \<and>
   (snd (snd (ice_Handle cfg lib remote d p)) = HNilAgent \<longleftrightarrow>
      sp_Dialer p = DialerICE \<and> sp_Type p \<in> {OFFER, ANSWER} \<and> ic_agent d = None \<and>
      (\<exists>off. GetOffer p = Some off \<and> il_candidate lib (of_Candidate off)))"
proof -
  have ack: "snd (snd (handle_ack lib d p)) \<in> {HOk, HErr}"
    by (auto simp: handle_ack_def case_prod_beta Let_def split: option.splits)
  have syn: "snd (snd (handle_syn cfg lib remote d p)) \<in> {HOk, HErr}"
    using sendPacket_handshake [of HANDSHAKE_ACK cfg lib "fst (take_info d p)" "icc_remoteId cfg" None]
    by (auto simp: handle_syn_def case_prod_beta Let_def split: option.splits)
  have agent: "ic_agent (fst (offer_info (offer_credentials d off) off)) = ic_agent d" for off
    by (simp add: offer_info_def offer_credentials_def)
  have "snd (snd (handle_offer lib d p)) = HNilOffer \<longleftrightarrow> GetOffer p = None"
    "snd (snd (handle_offer lib d p)) = HNilAgent \<longleftrightarrow>
       ic_agent d = None \<and> (\<exists>off. GetOffer p = Some off \<and> il_candidate lib (of_Candidate off))"
    by (auto simp: handle_offer_def case_prod_beta Let_def agent split: option.splits)
  then show ?thesis
    using ack syn by (cases "sp_Type p") (auto simp: ice_Handle_def)
qed


section \<open>Two ends\<close>

text \<open>The two ends of a direct connection, with an ICE library that does not fail.\<close>

definition ice_facing :: "ice_cfg \<Rightarrow> ice_cfg \<Rightarrow> bool" where
  "ice_facing a b \<longleftrightarrow>
     icc_remoteId a = icc_localId b \<and> icc_remoteId b = icc_localId a \<and>
     isInitiator (icc_localId a) (icc_localId b) \<and>
     icc_send a = (\<lambda>_ _. True) \<and> icc_send b = (\<lambda>_ _. True)"

definition willing :: "ice_lib \<Rightarrow> bool" where
  "willing lib \<longleftrightarrow> il_newAgent lib \<and> il_gather lib"

definition handshake_packet :: "ice_cfg \<Rightarrow> PacketType \<Rightarrow> SignalPacket" where
  "handshake_packet cfg ty =
     \<lparr> sp_Type = ty, sp_Dialer = DialerICE, sp_SenderId = ToUint64 (PeerIdentity_ID (icc_localId cfg)),
       sp_Payload = PHandshake (handshake_of (icc_now cfg) (icc_localPeer cfg)) \<rparr>"

definition prepared :: iceDialer where
  "prepared = NewIceDialer\<lparr> ic_agent := Some 0, ic_agents := 1, ic_synTicker := True \<rparr>"

definition greeted :: "Peer option \<Rightarrow> iceDialer" where
  "greeted info = NewIceDialer\<lparr> ic_agent := Some 0, ic_agents := 1, ic_credentialsInited := (info \<noteq> None) \<rparr>"

definition told :: "Peer option \<Rightarrow> dialer_eff list" where
  "told info = (case info of None \<Rightarrow> [] | Some p \<Rightarrow> [PeerReceived p])"

lemma handshake_packet_info:
  "handshake_info (handshake_packet cfg ty) = map_option JPeer (icc_localPeer cfg)"
  by (simp add: handshake_info_def handshake_packet_def GetHandshake_def handshake_of_def split: option.splits)

lemma prepare_initiator:
  assumes "ice_facing a b" "willing la"
  shows "ice_Prepare a la (icc_remoteId a) NewIceDialer =
    (prepared, [Signal (ToUint64 (PeerIdentity_ID (icc_localId b))) (handshake_packet a HANDSHAKE_SYN)], HOk)"
  using assms
  by (simp add: ice_facing_def willing_def ice_Prepare_def NewIceDialer_def getAgent_def ice_sendPacket_def
      prepared_def handshake_packet_def Let_def)

lemma responder_syn:
  assumes "ice_facing a b" "willing lb"
  shows "ice_Handle b lb (icc_remoteId b) NewIceDialer (handshake_packet a HANDSHAKE_SYN) =
    (greeted (icc_localPeer a),
     told (icc_localPeer a) @ [Signal (ToUint64 (PeerIdentity_ID (icc_localId a))) (handshake_packet b HANDSHAKE_ACK), GatherCandidates 0], HOk)"
proof -
  have "sp_Type (handshake_packet a HANDSHAKE_SYN) = HANDSHAKE_SYN" "sp_Dialer (handshake_packet a HANDSHAKE_SYN) = DialerICE"
    by (simp_all add: handshake_packet_def)
  then show ?thesis
    using assms
    by (cases "icc_localPeer a")
       (simp_all add: ice_facing_def willing_def ice_Handle_def handle_syn_def take_info_def handshake_packet_info
         NewIceDialer_def getAgent_def ice_sendPacket_def greeted_def told_def handshake_packet_def [of b] Let_def)
qed

lemma initiator_ack:
  assumes "willing la"
  shows "ice_Handle a la (icc_remoteId a) prepared (handshake_packet b HANDSHAKE_ACK) =
    (greeted (icc_localPeer b), told (icc_localPeer b) @ [GatherCandidates 0], HOk)"
proof -
  have "sp_Type (handshake_packet b HANDSHAKE_ACK) = HANDSHAKE_ACK" "sp_Dialer (handshake_packet b HANDSHAKE_ACK) = DialerICE"
    by (simp_all add: handshake_packet_def)
  then show ?thesis
    using assms
    by (cases "icc_localPeer b")
       (simp_all add: willing_def ice_Handle_def handle_ack_def take_info_def handshake_packet_info prepared_def
         NewIceDialer_def greeted_def told_def)
qed

text \<open>A candidate of one end, handled by the other.\<close>

lemma candidate_exchange:
  assumes "ice_facing a b \<or> ice_facing b a" "il_credentials la = Some (u, w)" "il_candidate lb c" "il_add lb c"
  shows "\<exists>off d es. on_candidate a la (greeted x) (Some c) = [Signal (ToUint64 (PeerIdentity_ID (icc_localId b))) off] \<and>
    ice_Handle b lb (icc_remoteId b) (greeted y) off = (d, es, HOk) \<and>
    ic_offerReady d \<and> ic_agent d = Some 0 \<and> ic_rUfrag d = u \<and> ic_rPwd d = w"
proof -
  let ?off = "\<lparr> sp_Type = OFFER, sp_Dialer = DialerICE, sp_SenderId = ToUint64 (PeerIdentity_ID (icc_localId a)),
      sp_Payload = POffer \<lparr> of_Ufrag = u, of_Pwd = w, of_Candidate = c,
        of_Current = json_Marshal (icc_localPeer a), of_PublicKey = icc_pubKey a \<rparr> \<rparr>"
  have "on_candidate a la (greeted x) (Some c) = [Signal (ToUint64 (PeerIdentity_ID (icc_localId b))) ?off]"
    using assms(1,2) by (auto simp: ice_facing_def on_candidate_def ice_sendPacket_def greeted_def NewIceDialer_def Let_def)
  moreover have "\<exists>d es. ice_Handle b lb (icc_remoteId b) (greeted y) ?off = (d, es, HOk) \<and>
      ic_offerReady d \<and> ic_agent d = Some 0 \<and> ic_rUfrag d = u \<and> ic_rPwd d = w"
    using assms(3,4)
    by (simp add: ice_Handle_def handle_offer_def GetOffer_def offer_info_def offer_credentials_def greeted_def
        NewIceDialer_def case_prod_beta Let_def)
  ultimately show ?thesis by blast
qed

lemma dial_ready:
  "ic_offerReady d \<Longrightarrow> ic_agent d = Some n \<Longrightarrow>
   ice_Dial cfg lib d DialOfferReady =
     Some (case il_connect lib (isInitiator (icc_localId cfg) (icc_remoteId cfg)) (ic_rUfrag d) (ic_rPwd d) of
             None \<Rightarrow> DialFailed | Some addr \<Rightarrow> DialConnected addr)"
  by (simp add: ice_Dial_def split: option.splits)

text \<open>C31: the direct handshake. The initiator's SYN makes the responder learn the initiator's configuration,
  acknowledge and gather; the acknowledgement makes the initiator learn the responder's
  configuration, stop its SYNs and gather; and then one candidate each way makes both ends ready to
  connect, the initiator as the controlling side, each with the credentials of the other's agent.\<close>

theorem ice_handshake_connects:
  assumes "ice_facing a b" "willing la" "willing lb"
    and "il_credentials la = Some (ua, pa)" "il_credentials lb = Some (ub, pb)"
    and "il_candidate la cb" "il_add la cb" "il_candidate lb ca" "il_add lb ca"
  shows "ice_Prepare a la (icc_remoteId a) NewIceDialer =
      (prepared, [Signal (ToUint64 (PeerIdentity_ID (icc_localId b))) (handshake_packet a HANDSHAKE_SYN)], HOk) \<and>
    ice_Handle b lb (icc_remoteId b) NewIceDialer (handshake_packet a HANDSHAKE_SYN) =
      (greeted (icc_localPeer a), told (icc_localPeer a) @
         [Signal (ToUint64 (PeerIdentity_ID (icc_localId a))) (handshake_packet b HANDSHAKE_ACK), GatherCandidates 0], HOk) \<and>
    ice_Handle a la (icc_remoteId a) prepared (handshake_packet b HANDSHAKE_ACK) =
      (greeted (icc_localPeer b), told (icc_localPeer b) @ [GatherCandidates 0], HOk) \<and>
    (\<exists>off d es. on_candidate a la (greeted (icc_localPeer b)) (Some ca) = [Signal (ToUint64 (PeerIdentity_ID (icc_localId b))) off] \<and>
       ice_Handle b lb (icc_remoteId b) (greeted (icc_localPeer a)) off = (d, es, HOk) \<and>
       ice_Dial b lb d DialOfferReady =
         Some (case il_connect lb False ua pa of None \<Rightarrow> DialFailed | Some addr \<Rightarrow> DialConnected addr)) \<and>
    (\<exists>off d es. on_candidate b lb (greeted (icc_localPeer a)) (Some cb) = [Signal (ToUint64 (PeerIdentity_ID (icc_localId a))) off] \<and>
       ice_Handle a la (icc_remoteId a) (greeted (icc_localPeer b)) off = (d, es, HOk) \<and>
       ice_Dial a la d DialOfferReady =
         Some (case il_connect la True ub pb of None \<Rightarrow> DialFailed | Some addr \<Rightarrow> DialConnected addr))"
proof (intro conjI)
  have roles: "isInitiator (icc_localId a) (icc_remoteId a)" "\<not> isInitiator (icc_localId b) (icc_remoteId b)"
    using assms(1) by (auto simp: ice_facing_def isInitiator_def)
  show "\<exists>off d es. on_candidate a la (greeted (icc_localPeer b)) (Some ca) = [Signal (ToUint64 (PeerIdentity_ID (icc_localId b))) off] \<and>
       ice_Handle b lb (icc_remoteId b) (greeted (icc_localPeer a)) off = (d, es, HOk) \<and>
       ice_Dial b lb d DialOfferReady =
         Some (case il_connect lb False ua pa of None \<Rightarrow> DialFailed | Some addr \<Rightarrow> DialConnected addr)"
    using candidate_exchange [OF disjI1 [OF assms(1)] assms(4,8,9)] dial_ready roles(2) by metis
  show "\<exists>off d es. on_candidate b lb (greeted (icc_localPeer a)) (Some cb) = [Signal (ToUint64 (PeerIdentity_ID (icc_localId a))) off] \<and>
       ice_Handle a la (icc_remoteId a) (greeted (icc_localPeer b)) off = (d, es, HOk) \<and>
       ice_Dial a la d DialOfferReady =
         Some (case il_connect la True ub pb of None \<Rightarrow> DialFailed | Some addr \<Rightarrow> DialConnected addr)"
    using candidate_exchange [OF disjI2 [OF assms(1)] assms(5,6,7)] dial_ready roles(1) by metis
qed (rule prepare_initiator [OF assms(1,2)] responder_syn [OF assms(1,3)] initiator_ack [OF assms(2)])+

definition ice_demo_peer :: ice_cfg where
  "ice_demo_peer = \<lparr> icc_localId = icc_remoteId ice_demo_cfg, icc_remoteId = icc_localId ice_demo_cfg,
     icc_localPeer = None, icc_pubKey = ''L'', icc_send = (\<lambda>_ _. True), icc_now = 0 \<rparr>"

lemma ice_demo_facing: "ice_facing ice_demo_cfg ice_demo_peer"
  by (simp add: ice_facing_def ice_demo_peer_def ice_demo_cfg_def isInitiator_def) code_simp

lemma ice_demo_willing: "willing ice_demo_lib"
  by (simp add: willing_def ice_demo_lib_def)

theorem ice_handshake_connects_witness:
  "\<exists>off d es. ice_Handle ice_demo_peer ice_demo_lib (icc_remoteId ice_demo_peer) (greeted (Some empty_peer)) off = (d, es, HOk) \<and>
     ice_Dial ice_demo_peer ice_demo_lib d DialOfferReady = Some (DialConnected ''192.0.2.1:51820'')"
proof -
  have "icc_localPeer ice_demo_cfg = Some empty_peer" "il_connect ice_demo_lib False ''u'' ''p'' = Some ''192.0.2.1:51820''"
    by (simp_all add: ice_demo_cfg_def ice_demo_lib_def)
  then show ?thesis
    using ice_handshake_connects [OF ice_demo_facing ice_demo_willing ice_demo_willing, of "''u''" "''p''" "''u''" "''p''" "''c''" "''c''"]
    by (auto simp: ice_demo_lib_def)
qed

end
