(* ===== verification/Wrrp_Dialer.thy ===== *)
theory Wrrp_Dialer
  imports Signal "HOL-Library.Multiset"
begin

text \<open>
  The relayed dialer (\<open>internal/server/transport/wrrp_dialer.go\<close>), and two of them facing each other.
  SYN and ACK travel over the signalling service, OFFER and ANSWER over the relay; between the two
  there is no order, and packets may be lost, so the packets on their way to an end are a multiset.
  The goroutine of \<open>Prepare\<close> is the flag \<open>wd_synTicker\<close>; \<open>wd_cancel\<close> says whether the dialer still holds
  the function that stops it.
\<close>

section \<open>Data\<close>

record wrrp_cfg =
  wc_localId :: PeerIdentity
  wc_remoteId :: PeerIdentity
  wc_localPeer :: "Peer option"
  wc_pubKey :: string
  wc_send :: "u64 \<Rightarrow> SignalPacket \<Rightarrow> bool"
  wc_relay :: "u64 \<Rightarrow> SignalPacket \<Rightarrow> bool"
  wc_remoteAddr :: "string option"
  wc_onRestart :: bool
  wc_now :: int

record wrrpDialer =
  wd_ready :: bool
  wd_active :: bool
  wd_cancel :: bool
  wd_synTicker :: bool
  wd_stopped :: bool

definition NewWrrpDialer :: wrrpDialer where
  "NewWrrpDialer =
     \<lparr> wd_ready = False, wd_active = False, wd_cancel = False, wd_synTicker = False, wd_stopped = False \<rparr>"

section \<open>Operations\<close>

abbreviation local_u64 :: "wrrp_cfg \<Rightarrow> u64" where
  "local_u64 cfg \<equiv> ToUint64 (PeerIdentity_ID (wc_localId cfg))"

abbreviation remote_u64 :: "wrrp_cfg \<Rightarrow> u64" where
  "remote_u64 cfg \<equiv> ToUint64 (PeerIdentity_ID (wc_remoteId cfg))"

definition wrrp_packet :: "wrrp_cfg \<Rightarrow> PacketType \<Rightarrow> SignalPacket" where
  "wrrp_packet cfg ty =
     \<lparr> sp_Type = ty, sp_Dialer = DialerWRRP, sp_SenderId = local_u64 cfg,
       sp_Payload = (if ty = HANDSHAKE_SYN \<or> ty = HANDSHAKE_ACK
                     then PHandshake (handshake_of (wc_now cfg) (wc_localPeer cfg)) else NoPayload) \<rparr>"

definition wrrp_sendPacket :: "wrrp_cfg \<Rightarrow> PeerIdentity \<Rightarrow> PacketType \<Rightarrow> dialer_eff list \<times> h_result" where
  "wrrp_sendPacket cfg remote ty =
     (let dst = ToUint64 (PeerIdentity_ID remote); p = wrrp_packet cfg ty
      in ([Signal dst p], if wc_send cfg dst p then HOk else HErr))"

definition wrrp_offer :: "wrrp_cfg \<Rightarrow> PacketType \<Rightarrow> SignalPacket" where
  "wrrp_offer cfg ty =
     \<lparr> sp_Type = ty, sp_Dialer = DialerWRRP, sp_SenderId = local_u64 cfg,
       sp_Payload = POffer \<lparr> of_Ufrag = [], of_Pwd = [], of_Candidate = [],
                             of_Current = json_Marshal (wc_localPeer cfg), of_PublicKey = wc_pubKey cfg \<rparr> \<rparr>"

definition sendOfferFromWrrp :: "wrrp_cfg \<Rightarrow> PacketType \<Rightarrow> dialer_eff list \<times> h_result" where
  "sendOfferFromWrrp cfg ty =
     (let p = wrrp_offer cfg ty
      in ([RelayProbe (remote_u64 cfg) p], if wc_relay cfg (remote_u64 cfg) p then HOk else HErr))"

text \<open>\<open>Prepare\<close> with the start of its goroutine, and a tick of it.\<close>

definition wrrp_Prepare :: "wrrp_cfg \<Rightarrow> PeerIdentity \<Rightarrow> wrrpDialer \<Rightarrow> wrrpDialer \<times> dialer_eff list" where
  "wrrp_Prepare cfg remote d =
     (d\<lparr> wd_cancel := True, wd_synTicker := \<not> wd_stopped d \<rparr>, fst (wrrp_sendPacket cfg remote HANDSHAKE_SYN))"

definition wrrp_tick :: "wrrp_cfg \<Rightarrow> wrrpDialer \<Rightarrow> dialer_eff list" where
  "wrrp_tick cfg d =
     (if wd_synTicker d then fst (wrrp_sendPacket cfg (wc_remoteId cfg) HANDSHAKE_SYN) else [])"

definition announce :: "SignalPacket \<Rightarrow> dialer_eff list" where
  "announce packet = (case announced packet of None \<Rightarrow> [] | Some p \<Rightarrow> [PeerReceived p])"

text \<open>An OFFER or an ANSWER makes the session active, stops the SYNs and unblocks \<open>Dial\<close>.\<close>

definition wrrp_establish :: "wrrpDialer \<Rightarrow> wrrpDialer" where
  "wrrp_establish d =
     d\<lparr> wd_active := True, wd_cancel := False,
        wd_synTicker := (if wd_cancel d then False else wd_synTicker d), wd_ready := True \<rparr>"

definition wrrp_Handle ::
  "wrrp_cfg \<Rightarrow> PeerIdentity \<Rightarrow> wrrpDialer \<Rightarrow> SignalPacket \<Rightarrow> wrrpDialer \<times> dialer_eff list \<times> h_result" where
  "wrrp_Handle cfg remote d packet =
     (if sp_Dialer packet \<noteq> DialerWRRP then (d, [], HOk)
      else case sp_Type packet of
        HANDSHAKE_SYN \<Rightarrow>
          if wd_active d
          then (d\<lparr> wd_active := False \<rparr>, announce packet @ (if wc_onRestart cfg then [RestartProbe] else []), HOk)
          else (let (es, r) = wrrp_sendPacket cfg remote HANDSHAKE_ACK in (d, announce packet @ es, r))
      | HANDSHAKE_ACK \<Rightarrow>
          let d1 = (if wd_cancel d then d\<lparr> wd_synTicker := False \<rparr> else d)
          in if isInitiator (wc_localId cfg) (wc_remoteId cfg)
             then (let (es, r) = sendOfferFromWrrp cfg OFFER in (d1, announce packet @ es, r))
             else (d1, announce packet, HOk)
      | OFFER \<Rightarrow>
          (case GetOffer packet of
             None \<Rightarrow> (d, [], HNilOffer)
           | Some off \<Rightarrow>
               (case json_Unmarshal (of_Current off) of
                  None \<Rightarrow> (d, [], HErr)
                | Some p \<Rightarrow> (wrrp_establish d, PeerReceived p # fst (sendOfferFromWrrp cfg ANSWER), HOk)))
      | ANSWER \<Rightarrow>
          (case GetOffer packet of
             None \<Rightarrow> (d, [], HNilOffer)
           | Some off \<Rightarrow>
               (case json_Unmarshal (of_Current off) of
                  None \<Rightarrow> (d, [], HErr)
                | Some p \<Rightarrow> (wrrp_establish d, [PeerReceived p], HOk)))
      | _ \<Rightarrow> (d, [], HOk))"

text \<open>The branches of the \<open>select\<close> in \<open>Dial\<close>.\<close>

definition wrrp_Dial :: "wrrp_cfg \<Rightarrow> wrrpDialer \<Rightarrow> bool \<Rightarrow> string option option" where
  "wrrp_Dial cfg d deadline =
     (if deadline then Some None
      else if wd_ready d then Some (Some (case wc_remoteAddr cfg of None \<Rightarrow> [] | Some a \<Rightarrow> a))
      else None)"

definition wrrp_Close :: "wrrpDialer \<Rightarrow> wrrpDialer" where
  "wrrp_Close d = d\<lparr> wd_stopped := True, wd_synTicker := False \<rparr>"

section \<open>Two ends\<close>

datatype side = Ini | Rsp

fun other :: "side \<Rightarrow> side" where
  "other Ini = Rsp"
| "other Rsp = Ini"

record wnet =
  wn_dialer :: "side \<Rightarrow> wrrpDialer"
  wn_in :: "side \<Rightarrow> SignalPacket multiset"
  wn_got :: "side \<Rightarrow> Peer list"
  wn_restarts :: "side \<Rightarrow> nat"

definition wnet_init :: wnet where
  "wnet_init = \<lparr> wn_dialer = (\<lambda>_. NewWrrpDialer), wn_in = (\<lambda>_. {#}), wn_got = (\<lambda>_. []), wn_restarts = (\<lambda>_. 0) \<rparr>"

text \<open>The effects of one end on the whole: packets are on their way to the other end, and a restart of
  the probe replaces the dialer by a fresh one.\<close>

definition emit :: "side \<Rightarrow> wrrpDialer \<Rightarrow> dialer_eff list \<Rightarrow> wnet \<Rightarrow> wnet" where
  "emit s d es n =
     n\<lparr> wn_dialer := (wn_dialer n)(s := if RestartProbe \<in> set es then NewWrrpDialer else d),
        wn_in := (wn_in n)(other s := wn_in n (other s) + mset (signals_sent es)),
        wn_got := (wn_got n)(s := wn_got n s @ peers_received es),
        wn_restarts := (wn_restarts n)(s := wn_restarts n s + (if RestartProbe \<in> set es then 1 else 0)) \<rparr>"

inductive wnet_step :: "(side \<Rightarrow> wrrp_cfg) \<Rightarrow> wnet \<Rightarrow> wnet \<Rightarrow> bool" for cfg where
  prepare: "wrrp_Prepare (cfg s) (wc_remoteId (cfg s)) (wn_dialer n s) = (d, es) \<Longrightarrow> wnet_step cfg n (emit s d es n)"
| tick: "wnet_step cfg n (emit s (wn_dialer n s) (wrrp_tick (cfg s) (wn_dialer n s)) n)"
| syn_done: "wnet_step cfg n (emit s ((wn_dialer n s)\<lparr> wd_synTicker := False \<rparr>) [] n)"
| stop: "wnet_step cfg n (emit s (wrrp_Close (wn_dialer n s)) [] n)"
| deliver: "p \<in># wn_in n s \<Longrightarrow>
    wrrp_Handle (cfg s) (wc_remoteId (cfg s)) (wn_dialer n s) p = (d, es, r) \<Longrightarrow>
    wnet_step cfg n (emit s d es (n\<lparr> wn_in := (wn_in n)(s := wn_in n s - {#p#}) \<rparr>))"
| lose: "p \<in># wn_in n s \<Longrightarrow> wnet_step cfg n (n\<lparr> wn_in := (wn_in n)(s := wn_in n s - {#p#}) \<rparr>)"

inductive wnet_reach :: "(side \<Rightarrow> wrrp_cfg) \<Rightarrow> wnet \<Rightarrow> bool" for cfg where
  start: "wnet_reach cfg wnet_init"
| step: "wnet_reach cfg n \<Longrightarrow> wnet_step cfg n n' \<Longrightarrow> wnet_reach cfg n'"

section \<open>What is on its way\<close>

definition facing :: "(side \<Rightarrow> wrrp_cfg) \<Rightarrow> bool" where
  "facing cfg \<longleftrightarrow>
     wc_remoteId (cfg Ini) = wc_localId (cfg Rsp) \<and> wc_remoteId (cfg Rsp) = wc_localId (cfg Ini) \<and>
     isInitiator (wc_localId (cfg Ini)) (wc_localId (cfg Rsp))"

text \<open>The packets an end ever sends: only the initiator offers, only the other end answers.\<close>

definition sent_by :: "(side \<Rightarrow> wrrp_cfg) \<Rightarrow> side \<Rightarrow> SignalPacket set" where
  "sent_by cfg s =
     {wrrp_packet (cfg s) HANDSHAKE_SYN, wrrp_packet (cfg s) HANDSHAKE_ACK,
      wrrp_offer (cfg s) (if s = Ini then OFFER else ANSWER)}"

definition own_peer :: "wrrp_cfg \<Rightarrow> Peer" where
  "own_peer cfg = (case wc_localPeer cfg of None \<Rightarrow> empty_peer | Some p \<Rightarrow> p)"

lemma json_own_peer [simp]: "json_Unmarshal (json_Marshal (wc_localPeer cfg)) = Some (own_peer cfg)"
  by (simp add: json_Marshal_def own_peer_def split: option.splits)

lemma GetOffer_wrrp [simp]:
  "GetOffer (wrrp_offer cfg ty) =
     Some \<lparr> of_Ufrag = [], of_Pwd = [], of_Candidate = [], of_Current = json_Marshal (wc_localPeer cfg), of_PublicKey = wc_pubKey cfg \<rparr>"
  by (simp add: GetOffer_def wrrp_offer_def)

lemma packet_fields [simp]:
  "sp_Type (wrrp_packet cfg ty) = ty" "sp_Dialer (wrrp_packet cfg ty) = DialerWRRP"
  "sp_Type (wrrp_offer cfg ty) = ty" "sp_Dialer (wrrp_offer cfg ty) = DialerWRRP"
  by (simp_all add: wrrp_packet_def wrrp_offer_def)

lemma packet_not_offer [simp]:
  "wrrp_offer c ty \<noteq> wrrp_packet c' ty'" "wrrp_packet c' ty' \<noteq> wrrp_offer c ty"
  by (auto simp: wrrp_packet_def wrrp_offer_def)

lemma announced_packet [simp]:
  "ty = HANDSHAKE_SYN \<or> ty = HANDSHAKE_ACK \<Longrightarrow> announced (wrrp_packet cfg ty) = wc_localPeer cfg"
  by (rule announced_handshake) (simp add: wrrp_packet_def)

lemma announce_peers: "ty = HANDSHAKE_SYN \<or> ty = HANDSHAKE_ACK \<Longrightarrow>
   set (peers_received (announce (wrrp_packet cfg ty))) \<subseteq> {own_peer cfg}"
  by (auto simp: announce_def own_peer_def split: option.splits)

lemma announce_effects [simp]:
  "signals_sent (announce p) = []" "RestartProbe \<notin> set (announce p)"
  by (simp_all add: announce_def split: option.splits)

lemma facing_roles:
  "facing cfg \<Longrightarrow> isInitiator (wc_localId (cfg s)) (wc_remoteId (cfg s)) \<longleftrightarrow> s = Ini"
  by (cases s) (auto simp: facing_def isInitiator_def)

section \<open>The handler on packets of the other end\<close>

text \<open>What one end's handling of a packet of the other end amounts to, over the three kinds.\<close>

lemma handle_syn_packet:
  "wrrp_Handle c r d (wrrp_packet q HANDSHAKE_SYN) =
     (if wd_active d
      then (d\<lparr> wd_active := False \<rparr>, announce (wrrp_packet q HANDSHAKE_SYN) @ (if wc_onRestart c then [RestartProbe] else []), HOk)
      else (d, announce (wrrp_packet q HANDSHAKE_SYN) @ fst (wrrp_sendPacket c r HANDSHAKE_ACK),
            snd (wrrp_sendPacket c r HANDSHAKE_ACK)))"
  by (simp add: wrrp_Handle_def case_prod_beta)

lemma handle_ack_packet:
  "wrrp_Handle c r d (wrrp_packet q HANDSHAKE_ACK) =
     (let d1 = (if wd_cancel d then d\<lparr> wd_synTicker := False \<rparr> else d)
      in if isInitiator (wc_localId c) (wc_remoteId c)
         then (d1, announce (wrrp_packet q HANDSHAKE_ACK) @ fst (sendOfferFromWrrp c OFFER), snd (sendOfferFromWrrp c OFFER))
         else (d1, announce (wrrp_packet q HANDSHAKE_ACK), HOk))"
  by (simp add: wrrp_Handle_def case_prod_beta Let_def)

lemma handle_offer_packet:
  "wrrp_Handle c r d (wrrp_offer q OFFER) =
     (wrrp_establish d, PeerReceived (own_peer q) # fst (sendOfferFromWrrp c ANSWER), HOk)"
  "wrrp_Handle c r d (wrrp_offer q ANSWER) = (wrrp_establish d, [PeerReceived (own_peer q)], HOk)"
  by (simp_all add: wrrp_Handle_def)

lemmas handle_packet = handle_syn_packet handle_ack_packet handle_offer_packet

section \<open>Invariant of the two ends\<close>

text \<open>Packets are genuine; what was received is what the other end is; an answer is on its way, or has
  been received, only if the responder is ready or has restarted since.\<close>

definition settled :: "wnet \<Rightarrow> bool" where
  "settled n \<longleftrightarrow> wd_ready (wn_dialer n Rsp) \<or> 0 < wn_restarts n Rsp"

definition wnet_ok :: "(side \<Rightarrow> wrrp_cfg) \<Rightarrow> wnet \<Rightarrow> bool" where
  "wnet_ok cfg n \<longleftrightarrow>
     (\<forall>s. set_mset (wn_in n s) \<subseteq> sent_by cfg (other s)) \<and>
     (\<forall>s. set (wn_got n s) \<subseteq> {own_peer (cfg (other s))}) \<and>
     (\<forall>s. wd_ready (wn_dialer n s) \<longrightarrow> wn_got n s \<noteq> []) \<and>
     (wrrp_offer (cfg Rsp) ANSWER \<in># wn_in n Ini \<longrightarrow> settled n) \<and>
     (wd_ready (wn_dialer n Ini) \<longrightarrow> settled n)"

lemma wnet_ok_init: "wnet_ok cfg wnet_init"
  by (simp add: wnet_ok_def wnet_init_def NewWrrpDialer_def)

text \<open>An end may emit effects that are genuine, tell it nothing false, and answer only when it is ready.\<close>

definition fair_effects :: "(side \<Rightarrow> wrrp_cfg) \<Rightarrow> side \<Rightarrow> wnet \<Rightarrow> wrrpDialer \<Rightarrow> dialer_eff list \<Rightarrow> bool" where
  "fair_effects cfg s n d es \<longleftrightarrow>
     set (signals_sent es) \<subseteq> sent_by cfg s \<and>
     set (peers_received es) \<subseteq> {own_peer (cfg (other s))} \<and>
     (wd_ready d \<longrightarrow> wd_ready (wn_dialer n s) \<or> peers_received es \<noteq> []) \<and>
     (wd_ready (wn_dialer n s) \<longrightarrow> wd_ready d) \<and>
     (wrrp_offer (cfg Rsp) ANSWER \<in> set (signals_sent es) \<longrightarrow> s = Rsp \<longrightarrow> wd_ready d) \<and>
     (wd_ready d \<longrightarrow> s = Ini \<longrightarrow> settled n)"


lemma settled_emit: "settled n \<Longrightarrow> fair_effects cfg s n d es \<Longrightarrow> settled (emit s d es n)"
  by (cases s) (auto simp: settled_def emit_def fair_effects_def)

lemma emit_fields:
  "wn_dialer (emit s d es n) t = (if t = s then (if RestartProbe \<in> set es then NewWrrpDialer else d) else wn_dialer n t)"
  "wn_in (emit s d es n) t = (if t = other s then wn_in n t + mset (signals_sent es) else wn_in n t)"
  "wn_got (emit s d es n) t = (if t = s then wn_got n t @ peers_received es else wn_got n t)"
  by (simp_all add: emit_def)

lemma other_other [simp]: "other (other s) = s" "other s \<noteq> s"
  by (cases s; simp)+

lemma wnet_ok_emit:
  assumes "wnet_ok cfg n" "fair_effects cfg s n d es"
  shows "wnet_ok cfg (emit s d es n)"
proof -
  have pre: "settled n \<Longrightarrow> settled (emit s d es n)" using settled_emit assms(2) by blast
  have n: "set_mset (wn_in n t) \<subseteq> sent_by cfg (other t)" "set (wn_got n t) \<subseteq> {own_peer (cfg (other t))}"
    "wd_ready (wn_dialer n t) \<Longrightarrow> wn_got n t \<noteq> []" for t
    using assms(1) by (simp_all add: wnet_ok_def)
  have e: "set (signals_sent es) \<subseteq> sent_by cfg s" "set (peers_received es) \<subseteq> {own_peer (cfg (other s))}"
    "wd_ready d \<Longrightarrow> wd_ready (wn_dialer n s) \<or> peers_received es \<noteq> []"
    using assms(2) by (simp_all add: fair_effects_def)
  have "set_mset (wn_in (emit s d es n) t) \<subseteq> sent_by cfg (other t)" for t
    using n(1) [of t] e(1) by (cases "t = other s") (simp_all add: emit_fields)
  moreover have "set (wn_got (emit s d es n) t) \<subseteq> {own_peer (cfg (other t))}" for t
    using n(2) [of t] e(2) by (cases "t = s") (simp_all add: emit_fields)
  moreover have "wd_ready (wn_dialer (emit s d es n) t) \<longrightarrow> wn_got (emit s d es n) t \<noteq> []" for t
    using n(3) [of t] e(3) by (cases "t = s") (auto simp: emit_fields NewWrrpDialer_def)
  moreover have "wrrp_offer (cfg Rsp) ANSWER \<in># wn_in (emit s d es n) Ini \<longrightarrow> settled (emit s d es n)"
  proof
    assume *: "wrrp_offer (cfg Rsp) ANSWER \<in># wn_in (emit s d es n) Ini"
    show "settled (emit s d es n)"
    proof (cases "wrrp_offer (cfg Rsp) ANSWER \<in># wn_in n Ini")
      case True
      then show ?thesis using assms(1) pre by (simp add: wnet_ok_def)
    next
      case False
      then have "s = Rsp" "wrrp_offer (cfg Rsp) ANSWER \<in> set (signals_sent es)"
        using * by (cases s; auto simp: emit_fields)+
      then show ?thesis using assms(2) by (auto simp: fair_effects_def settled_def emit_def)
    qed
  qed
  moreover have "wd_ready (wn_dialer (emit s d es n) Ini) \<longrightarrow> settled (emit s d es n)"
  proof -
    have "wd_ready (wn_dialer n Ini) \<longrightarrow> settled n" "s = Ini \<longrightarrow> wd_ready d \<longrightarrow> settled n"
      using assms by (simp_all add: wnet_ok_def fair_effects_def)
    then show ?thesis using pre by (cases s) (simp_all add: emit_fields NewWrrpDialer_def)
  qed
  ultimately show ?thesis by (simp add: wnet_ok_def)
qed

text \<open>A packet less on its way changes nothing.\<close>

lemma wnet_ok_take: "wnet_ok cfg n \<Longrightarrow> wnet_ok cfg (n\<lparr> wn_in := (wn_in n)(s := wn_in n s - {#p#}) \<rparr>)"
proof -
  assume ok: "wnet_ok cfg n"
  let ?n = "n\<lparr> wn_in := (wn_in n)(s := wn_in n s - {#p#}) \<rparr>"
  have sub: "set_mset (wn_in ?n t) \<subseteq> set_mset (wn_in n t)" for t
    by (auto dest: in_diffD)
  have same: "wn_dialer ?n = wn_dialer n" "wn_got ?n = wn_got n" "settled ?n = settled n"
    by (simp_all add: settled_def)
  show ?thesis
    using ok sub unfolding wnet_ok_def same by blast
qed

lemma fair_silent: "wd_ready d = wd_ready (wn_dialer n s) \<Longrightarrow> wnet_ok cfg n \<Longrightarrow> fair_effects cfg s n d []"
  by (auto simp: fair_effects_def wnet_ok_def)

lemma fair_syn:
  "wd_ready d = wd_ready (wn_dialer n s) \<Longrightarrow> wnet_ok cfg n \<Longrightarrow>
   fair_effects cfg s n d (fst (wrrp_sendPacket (cfg s) r HANDSHAKE_SYN))"
  by (auto simp: fair_effects_def wnet_ok_def wrrp_sendPacket_def sent_by_def Let_def wrrp_packet_def wrrp_offer_def)

lemma fair_handle:
  assumes "facing cfg" "wnet_ok cfg n" "p \<in># wn_in n s"
    and h: "wrrp_Handle (cfg s) (wc_remoteId (cfg s)) (wn_dialer n s) p = (d, es, r)"
  shows "fair_effects cfg s n d es"
proof -
  have role: "isInitiator (wc_localId (cfg s)) (wc_remoteId (cfg s)) \<longleftrightarrow> s = Ini" using facing_roles assms(1) by blast
  have ok: "wd_ready (wn_dialer n Ini) \<longrightarrow> settled n" using assms(2) by (simp add: wnet_ok_def)
  have "p \<in> sent_by cfg (other s)" using assms(2,3) by (auto simp: wnet_ok_def)
  then consider (syn) "p = wrrp_packet (cfg (other s)) HANDSHAKE_SYN" | (ack) "p = wrrp_packet (cfg (other s)) HANDSHAKE_ACK"
    | (offer) "s = Rsp" "p = wrrp_offer (cfg Ini) OFFER" | (answer) "s = Ini" "p = wrrp_offer (cfg Rsp) ANSWER"
    by (cases s) (auto simp: sent_by_def)
  then show ?thesis
  proof cases
    case syn
    then show ?thesis
      using h ok announce_peers [of HANDSHAKE_SYN "cfg (other s)"]
      by (auto simp: handle_packet fair_effects_def wrrp_sendPacket_def sent_by_def Let_def split: if_splits)
  next
    case ack
    then show ?thesis
      using h ok role announce_peers [of HANDSHAKE_ACK "cfg (other s)"]
      by (auto simp: handle_packet fair_effects_def sendOfferFromWrrp_def sent_by_def Let_def split: if_splits)
  next
    case offer
    then show ?thesis
      using h by (auto simp: handle_packet fair_effects_def sendOfferFromWrrp_def sent_by_def Let_def wrrp_establish_def)
  next
    case answer
    then show ?thesis
      using h assms(2,3) by (auto simp: handle_packet fair_effects_def wnet_ok_def wrrp_establish_def)
  qed
qed

lemma wnet_ok_step: "wnet_step cfg n n' \<Longrightarrow> facing cfg \<Longrightarrow> wnet_ok cfg n \<Longrightarrow> wnet_ok cfg n'"
proof (induction rule: wnet_step.induct)
  case (prepare s n d es)
  then show ?case using fair_syn by (auto simp: wrrp_Prepare_def intro!: wnet_ok_emit)
next
  case (tick n s)
  then show ?case using fair_syn fair_silent by (simp add: wrrp_tick_def wnet_ok_emit)
next
  case (syn_done n s)
  then show ?case by (intro wnet_ok_emit fair_silent) simp_all
next
  case (stop n s)
  then show ?case by (intro wnet_ok_emit fair_silent) (simp_all add: wrrp_Close_def)
next
  case (deliver p n s d es r)
  have "fair_effects cfg s n d es" using fair_handle deliver by blast
  then have "fair_effects cfg s (n\<lparr> wn_in := (wn_in n)(s := wn_in n s - {#p#}) \<rparr>) d es"
    by (simp add: fair_effects_def settled_def)
  then show ?case using wnet_ok_emit wnet_ok_take deliver.prems by blast
next
  case (lose p n s)
  then show ?case by (simp add: wnet_ok_take)
qed

lemma wnet_ok_reach: "wnet_reach cfg n \<Longrightarrow> facing cfg \<Longrightarrow> wnet_ok cfg n"
  by (induction rule: wnet_reach.induct) (auto intro: wnet_ok_init wnet_ok_step)


section \<open>Schedules\<close>

text \<open>The prepare and deliver steps as functions, to compute with schedules.\<close>

definition run_prepare :: "(side \<Rightarrow> wrrp_cfg) \<Rightarrow> side \<Rightarrow> wnet \<Rightarrow> wnet" where
  "run_prepare cfg s n = (let (d, es) = wrrp_Prepare (cfg s) (wc_remoteId (cfg s)) (wn_dialer n s) in emit s d es n)"

definition run_deliver :: "(side \<Rightarrow> wrrp_cfg) \<Rightarrow> side \<Rightarrow> SignalPacket \<Rightarrow> wnet \<Rightarrow> wnet" where
  "run_deliver cfg s p n =
     (let (d, es, r) = wrrp_Handle (cfg s) (wc_remoteId (cfg s)) (wn_dialer n s) p
      in emit s d es (n\<lparr> wn_in := (wn_in n)(s := wn_in n s - {#p#}) \<rparr>))"

lemma run_prepare_step: "wnet_step cfg n (run_prepare cfg s n)"
  unfolding run_prepare_def by (simp add: case_prod_beta) (rule wnet_step.prepare, simp)

lemma run_deliver_step: "p \<in># wn_in n s \<Longrightarrow> wnet_step cfg n (run_deliver cfg s p n)"
  unfolding run_deliver_def case_prod_beta Let_def by (rule wnet_step.deliver [where r = "snd (snd (wrrp_Handle (cfg s) (wc_remoteId (cfg s)) (wn_dialer n s) p))"]) simp_all

lemma run_prepare_fields:
  "wn_dialer (run_prepare cfg s n) t =
     (if t = s then (wn_dialer n s)\<lparr> wd_cancel := True, wd_synTicker := \<not> wd_stopped (wn_dialer n s) \<rparr> else wn_dialer n t)"
  "wn_in (run_prepare cfg s n) t =
     (if t = other s then add_mset (wrrp_packet (cfg s) HANDSHAKE_SYN) (wn_in n t) else wn_in n t)"
  "wn_got (run_prepare cfg s n) t = wn_got n t"
  "wn_restarts (run_prepare cfg s n) t = wn_restarts n t"
  by (simp_all add: run_prepare_def wrrp_Prepare_def wrrp_sendPacket_def emit_fields emit_def Let_def)

text \<open>Delivering the packets of a handshake, one kind at a time.\<close>

lemma run_syn_active:
  assumes "wd_active (wn_dialer n s)"
  shows "wd_active (wn_dialer (run_deliver cfg s (wrrp_packet q HANDSHAKE_SYN) n) s) = False"
    "t \<noteq> s \<Longrightarrow> wn_dialer (run_deliver cfg s (wrrp_packet q HANDSHAKE_SYN) n) t = wn_dialer n t"
    "wn_in (run_deliver cfg s (wrrp_packet q HANDSHAKE_SYN) n) =
       (wn_in n)(s := wn_in n s - {#wrrp_packet q HANDSHAKE_SYN#})"
    "wn_restarts (run_deliver cfg s (wrrp_packet q HANDSHAKE_SYN) n) =
       (wn_restarts n)(s := wn_restarts n s + (if wc_onRestart (cfg s) then 1 else 0))"
  using assms by (cases s; simp add: run_deliver_def handle_packet emit_def NewWrrpDialer_def fun_eq_iff)+

lemma run_syn_idle:
  assumes "\<not> wd_active (wn_dialer n s)"
  shows "wn_dialer (run_deliver cfg s (wrrp_packet q HANDSHAKE_SYN) n) = wn_dialer n"
    "wn_in (run_deliver cfg s (wrrp_packet q HANDSHAKE_SYN) n) =
       (wn_in n)(s := wn_in n s - {#wrrp_packet q HANDSHAKE_SYN#},
                 other s := add_mset (wrrp_packet (cfg s) HANDSHAKE_ACK) (wn_in n (other s)))"
    "wn_restarts (run_deliver cfg s (wrrp_packet q HANDSHAKE_SYN) n) = wn_restarts n"
  using assms by (cases s; simp add: run_deliver_def handle_packet emit_def wrrp_sendPacket_def Let_def fun_eq_iff)+

lemma run_ack_ini:
  assumes "facing cfg"
  shows "wn_dialer (run_deliver cfg Ini (wrrp_packet q HANDSHAKE_ACK) n) =
       (wn_dialer n)(Ini := if wd_cancel (wn_dialer n Ini) then (wn_dialer n Ini)\<lparr> wd_synTicker := False \<rparr> else wn_dialer n Ini)"
    "wn_in (run_deliver cfg Ini (wrrp_packet q HANDSHAKE_ACK) n) =
       (wn_in n)(Ini := wn_in n Ini - {#wrrp_packet q HANDSHAKE_ACK#}, Rsp := add_mset (wrrp_offer (cfg Ini) OFFER) (wn_in n Rsp))"
    "wn_restarts (run_deliver cfg Ini (wrrp_packet q HANDSHAKE_ACK) n) = wn_restarts n"
  using facing_roles [OF assms, of Ini]
  by (simp_all add: run_deliver_def handle_packet emit_def sendOfferFromWrrp_def Let_def fun_eq_iff)

lemma run_offer:
  "wn_dialer (run_deliver cfg Rsp (wrrp_offer q OFFER) n) = (wn_dialer n)(Rsp := wrrp_establish (wn_dialer n Rsp))"
  "wn_in (run_deliver cfg Rsp (wrrp_offer q OFFER) n) =
     (wn_in n)(Rsp := wn_in n Rsp - {#wrrp_offer q OFFER#}, Ini := add_mset (wrrp_offer (cfg Rsp) ANSWER) (wn_in n Ini))"
  "wn_got (run_deliver cfg Rsp (wrrp_offer q OFFER) n) = (wn_got n)(Rsp := wn_got n Rsp @ [own_peer q])"
  "wn_restarts (run_deliver cfg Rsp (wrrp_offer q OFFER) n) = wn_restarts n"
  by (simp_all add: run_deliver_def handle_packet emit_def sendOfferFromWrrp_def Let_def fun_eq_iff)

lemma run_answer:
  "wn_dialer (run_deliver cfg Ini (wrrp_offer q ANSWER) n) = (wn_dialer n)(Ini := wrrp_establish (wn_dialer n Ini))"
  "wn_in (run_deliver cfg Ini (wrrp_offer q ANSWER) n) = (wn_in n)(Ini := wn_in n Ini - {#wrrp_offer q ANSWER#})"
  "wn_got (run_deliver cfg Ini (wrrp_offer q ANSWER) n) = (wn_got n)(Ini := wn_got n Ini @ [own_peer q])"
  "wn_restarts (run_deliver cfg Ini (wrrp_offer q ANSWER) n) = wn_restarts n"
  by (simp_all add: run_deliver_def handle_packet emit_def Let_def fun_eq_iff)

abbreviation wnet_steps :: "(side \<Rightarrow> wrrp_cfg) \<Rightarrow> wnet \<Rightarrow> wnet \<Rightarrow> bool" where
  "wnet_steps cfg \<equiv> (wnet_step cfg)\<^sup>*\<^sup>*"

lemma drain: "\<exists>n'. wnet_steps cfg n n' \<and> wn_in n' = (\<lambda>_. {#})"
proof (induction "size (wn_in n Ini) + size (wn_in n Rsp)" arbitrary: n rule: less_induct)
  case less
  show ?case
  proof (cases "\<exists>s p. p \<in># wn_in n s")
    case True
    then obtain s p where p: "p \<in># wn_in n s" by blast
    let ?n = "n\<lparr> wn_in := (wn_in n)(s := wn_in n s - {#p#}) \<rparr>"
    have "size (wn_in ?n Ini) + size (wn_in ?n Rsp) < size (wn_in n Ini) + size (wn_in n Rsp)"
      using p size_Diff1_less by (cases s) fastforce+
    then obtain n' where "wnet_steps cfg ?n n'" "wn_in n' = (\<lambda>_. {#})" using less by blast
    then show ?thesis using wnet_step.lose [OF p, of cfg] by (blast intro: converse_rtranclp_into_rtranclp)
  next
    case False
    then have "wn_in n = (\<lambda>_. {#})" by (auto simp: fun_eq_iff)
    then show ?thesis by blast
  qed
qed


lemma quiet:
  assumes "wn_in n = (\<lambda>_. {#})"
  shows "\<exists>n'. wnet_steps cfg n n' \<and> wn_in n' = (\<lambda>_. {#}) \<and> \<not> wd_active (wn_dialer n' s) \<and>
    wd_active (wn_dialer n' (other s)) = wd_active (wn_dialer n (other s))"
proof (cases "wd_active (wn_dialer n s)")
  case True
  let ?syn = "wrrp_packet (cfg (other s)) HANDSHAKE_SYN"
  let ?n1 = "run_prepare cfg (other s) n"
  let ?n2 = "run_deliver cfg s ?syn ?n1"
  have a: "wd_active (wn_dialer ?n1 s)" and i: "?syn \<in># wn_in ?n1 s"
    using True by (simp_all add: run_prepare_fields)
  have "wnet_steps cfg n ?n2"
    using run_prepare_step run_deliver_step [OF i] by (meson converse_rtranclp_into_rtranclp rtranclp.rtrancl_refl)
  moreover have "wn_in ?n2 = (\<lambda>_. {#})"
    using assms unfolding run_syn_active(3) [OF a] by (auto simp: run_prepare_fields fun_eq_iff)
  moreover have "wd_active (wn_dialer ?n2 (other s)) = wd_active (wn_dialer n (other s))"
    using run_syn_active(2) [OF a, of "other s"] by (simp add: run_prepare_fields)
  ultimately show ?thesis using run_syn_active(1) [OF a] by blast
next
  case False
  then show ?thesis using assms by blast
qed

definition connected :: "(side \<Rightarrow> wrrp_cfg) \<Rightarrow> wnet \<Rightarrow> bool" where
  "connected cfg n \<longleftrightarrow>
     (\<forall>s. wd_ready (wn_dialer n s) \<and> wd_active (wn_dialer n s) \<and> wn_in n s = {#} \<and>
          own_peer (cfg (other s)) \<in> set (wn_got n s))"

lemma handshake_from_quiet:
  assumes "facing cfg" "wn_in n = (\<lambda>_. {#})" "\<not> wd_active (wn_dialer n Ini)" "\<not> wd_active (wn_dialer n Rsp)"
  shows "\<exists>n'. wnet_steps cfg n n' \<and> connected cfg n'"
proof -
  define n1 where "n1 = run_prepare cfg Ini n"
  define n2 where "n2 = run_deliver cfg Rsp (wrrp_packet (cfg Ini) HANDSHAKE_SYN) n1"
  define n3 where "n3 = run_deliver cfg Ini (wrrp_packet (cfg Rsp) HANDSHAKE_ACK) n2"
  define n4 where "n4 = run_deliver cfg Rsp (wrrp_offer (cfg Ini) OFFER) n3"
  define n5 where "n5 = run_deliver cfg Ini (wrrp_offer (cfg Rsp) ANSWER) n4"
  have i1: "wn_in n1 Rsp = {#wrrp_packet (cfg Ini) HANDSHAKE_SYN#}" "wn_in n1 Ini = {#}"
    and a1: "\<not> wd_active (wn_dialer n1 Rsp)"
    using assms by (simp_all add: n1_def run_prepare_fields)
  have i2: "wn_in n2 Rsp = {#}" "wn_in n2 Ini = {#wrrp_packet (cfg Rsp) HANDSHAKE_ACK#}"
    using i1 by (simp_all add: n2_def run_syn_idle [OF a1])
  have i3: "wn_in n3 Rsp = {#wrrp_offer (cfg Ini) OFFER#}" "wn_in n3 Ini = {#}"
    using i2 by (simp_all add: n3_def run_ack_ini [OF assms(1)])
  have i4: "wn_in n4 Rsp = {#}" "wn_in n4 Ini = {#wrrp_offer (cfg Rsp) ANSWER#}"
    using i3 by (simp_all add: n4_def run_offer)
  have "wnet_step cfg n n1" "wnet_step cfg n1 n2" "wnet_step cfg n2 n3" "wnet_step cfg n3 n4" "wnet_step cfg n4 n5"
    unfolding n1_def n2_def n3_def n4_def n5_def
    by (rule run_prepare_step | rule run_deliver_step; simp add: i1 i2 i3 i4 flip: n1_def n2_def n3_def n4_def)+
  then have "wnet_steps cfg n n5"
    by (meson converse_rtranclp_into_rtranclp rtranclp.rtrancl_refl)
  moreover have "connected cfg n5"
    unfolding connected_def
  proof
    fix s
    show "wd_ready (wn_dialer n5 s) \<and> wd_active (wn_dialer n5 s) \<and> wn_in n5 s = {#} \<and> own_peer (cfg (other s)) \<in> set (wn_got n5 s)"
      using i4 by (cases s) (simp_all add: n5_def n4_def run_answer run_offer wrrp_establish_def)
  qed
  ultimately show ?thesis by blast
qed

section \<open>Properties\<close>

text \<open>C29: agreement of the two ends of a relayed connection. Whatever is delayed, lost or reordered, and
  however often either end starts over: an end learns nothing but the configuration the other end
  has; an end that is ready has learned it; and when the initiator is ready, so is the responder,
  unless the responder has restarted.\<close>

theorem relay_handshake_agreement:
  assumes "facing cfg" "wnet_reach cfg n"
  shows "(\<forall>s. set (wn_got n s) \<subseteq> {own_peer (cfg (other s))}) \<and>
    (\<forall>s. wd_ready (wn_dialer n s) \<longrightarrow> wn_got n s \<noteq> []) \<and>
    (wd_ready (wn_dialer n Ini) \<longrightarrow> wd_ready (wn_dialer n Rsp) \<or> 0 < wn_restarts n Rsp)"
  using wnet_ok_reach [OF assms(2,1)] by (simp add: wnet_ok_def settled_def)

definition wrrp_demo_cfg :: "side \<Rightarrow> wrrp_cfg" where
  "wrrp_demo_cfg s =
     \<lparr> wc_localId = \<lparr> id_AppID = ''x'', id_PublicKey = replicate 32 (if s = Ini then 2 else 1) \<rparr>,
       wc_remoteId = \<lparr> id_AppID = ''x'', id_PublicKey = replicate 32 (if s = Ini then 1 else 2) \<rparr>,
       wc_localPeer = Some (empty_peer\<lparr> p_AppID := (if s = Ini then ''i'' else ''r'') \<rparr>), wc_pubKey = ''K'',
       wc_send = (\<lambda>_ _. True), wc_relay = (\<lambda>_ _. True), wc_remoteAddr = None, wc_onRestart = True, wc_now = 0 \<rparr>"

lemma wrrp_demo_facing: "facing wrrp_demo_cfg"
  by (simp add: facing_def wrrp_demo_cfg_def isInitiator_def) code_simp

lemma reach_steps: "wnet_steps cfg n n' \<Longrightarrow> wnet_reach cfg n \<Longrightarrow> wnet_reach cfg n'"
  by (induction rule: rtranclp_induct) (auto intro: wnet_reach.step)

theorem relay_handshake_agreement_witness:
  "\<exists>n. wnet_reach wrrp_demo_cfg n \<and> wd_ready (wn_dialer n Ini) \<and> wn_got n Ini \<noteq> [] \<and>
       set (wn_got n Ini) \<subseteq> {own_peer (wrrp_demo_cfg Rsp)} \<and> (wd_ready (wn_dialer n Rsp) \<or> 0 < wn_restarts n Rsp)"
proof -
  obtain n where n: "wnet_steps wrrp_demo_cfg wnet_init n" "connected wrrp_demo_cfg n"
    using handshake_from_quiet [OF wrrp_demo_facing, of wnet_init] by (auto simp: wnet_init_def NewWrrpDialer_def)
  have r: "wnet_reach wrrp_demo_cfg n" using reach_steps [OF n(1) wnet_reach.start] .
  have "wd_ready (wn_dialer n Ini)" using n(2) by (simp add: connected_def)
  then show ?thesis using relay_handshake_agreement [OF wrrp_demo_facing r] r by fastforce
qed




text \<open>A late SYN tears down a good session. SYNs go over the signalling service and offers over the
  relay, so a SYN the responder sent before the offer reached it can arrive after the answer. The
  initiator takes it for a restart of the responder, which did not restart: it throws its dialer
  away while the responder's session stays active and sends no further SYN.\<close>

theorem late_syn_restarts:
  assumes "facing cfg" "wc_onRestart (cfg Ini)"
  shows "\<exists>n. wnet_reach cfg n \<and> wn_restarts n Ini = 1 \<and> wn_restarts n Rsp = 0 \<and>
    wn_dialer n Ini = NewWrrpDialer \<and> wd_active (wn_dialer n Rsp) \<and> \<not> wd_synTicker (wn_dialer n Rsp)"
proof -
  define n1 where "n1 = run_prepare cfg Ini wnet_init"
  define n2 where "n2 = run_deliver cfg Rsp (wrrp_packet (cfg Ini) HANDSHAKE_SYN) n1"
  define n3 where "n3 = run_prepare cfg Rsp n2"
  define n4 where "n4 = run_deliver cfg Ini (wrrp_packet (cfg Rsp) HANDSHAKE_ACK) n3"
  define n5 where "n5 = run_deliver cfg Rsp (wrrp_offer (cfg Ini) OFFER) n4"
  define n6 where "n6 = run_deliver cfg Ini (wrrp_offer (cfg Rsp) ANSWER) n5"
  define n7 where "n7 = run_deliver cfg Ini (wrrp_packet (cfg Rsp) HANDSHAKE_SYN) n6"
  have a1: "\<not> wd_active (wn_dialer n1 Rsp)" and i1: "wn_in n1 Rsp = {#wrrp_packet (cfg Ini) HANDSHAKE_SYN#}" "wn_in n1 Ini = {#}"
    by (simp_all add: n1_def run_prepare_fields wnet_init_def NewWrrpDialer_def)
  have i2: "wn_in n2 Rsp = {#}" "wn_in n2 Ini = {#wrrp_packet (cfg Rsp) HANDSHAKE_ACK#}"
    using i1 by (simp_all add: n2_def run_syn_idle [OF a1])
  have i3: "wn_in n3 Rsp = {#}" "wn_in n3 Ini = {#wrrp_packet (cfg Rsp) HANDSHAKE_SYN, wrrp_packet (cfg Rsp) HANDSHAKE_ACK#}"
    using i2 by (simp_all add: n3_def run_prepare_fields)
  have ne: "wrrp_packet (cfg Rsp) HANDSHAKE_SYN \<noteq> wrrp_packet (cfg Rsp) HANDSHAKE_ACK"
    by (simp add: wrrp_packet_def)
  have i4: "wn_in n4 Rsp = {#wrrp_offer (cfg Ini) OFFER#}" "wn_in n4 Ini = {#wrrp_packet (cfg Rsp) HANDSHAKE_SYN#}"
    using i3 ne by (simp_all add: n4_def run_ack_ini [OF assms(1)])
  have i5: "wn_in n5 Ini = {#wrrp_offer (cfg Rsp) ANSWER, wrrp_packet (cfg Rsp) HANDSHAKE_SYN#}"
    using i4 by (simp add: n5_def run_offer)
  have i6: "wn_in n6 Ini = {#wrrp_packet (cfg Rsp) HANDSHAKE_SYN#}" and a6: "wd_active (wn_dialer n6 Ini)"
    using i5 by (simp_all add: n6_def run_answer wrrp_establish_def)
  have "wnet_step cfg wnet_init n1" "wnet_step cfg n1 n2" "wnet_step cfg n2 n3" "wnet_step cfg n3 n4"
    "wnet_step cfg n4 n5" "wnet_step cfg n5 n6" "wnet_step cfg n6 n7"
    unfolding n1_def n2_def n3_def n4_def n5_def n6_def n7_def
    by (rule run_prepare_step | rule run_deliver_step;
        simp add: i1 i2 i3 i4 i5 i6 flip: n1_def n2_def n3_def n4_def n5_def n6_def)+
  then have "wnet_reach cfg n7" by (meson wnet_reach.start wnet_reach.step)
  moreover have "wn_restarts n7 = (\<lambda>_. 0)(Ini := 1)"
  proof -
    have "wn_restarts n2 = (\<lambda>_. 0)"
      unfolding n2_def run_syn_idle(3) [OF a1] by (simp add: n1_def run_prepare_fields wnet_init_def fun_eq_iff)
    then have "wn_restarts n6 = (\<lambda>_. 0)"
      by (simp add: n6_def n5_def n4_def n3_def run_answer run_offer run_ack_ini [OF assms(1)] run_prepare_fields fun_eq_iff)
    then show ?thesis unfolding n7_def run_syn_active(4) [OF a6] by (simp add: assms(2))
  qed
  moreover have "wn_dialer n7 Ini = NewWrrpDialer"
    using a6 assms(2) by (simp add: n7_def run_deliver_def handle_packet emit_def)
  moreover have "wn_dialer n7 Rsp = wrrp_establish (wn_dialer n4 Rsp)" "wd_cancel (wn_dialer n4 Rsp)"
    unfolding n7_def run_syn_active(2) [OF a6, of Rsp, simplified]
    by (simp_all add: n6_def n5_def run_answer run_offer n4_def run_ack_ini [OF assms(1)] n3_def run_prepare_fields)
  ultimately show ?thesis by (auto simp: wrrp_establish_def)
qed

theorem late_syn_restarts_witness:
  "\<exists>n. wnet_reach wrrp_demo_cfg n \<and> wn_restarts n Ini = 1 \<and> wn_restarts n Rsp = 0 \<and>
    wn_dialer n Ini = NewWrrpDialer \<and> wd_active (wn_dialer n Rsp) \<and> \<not> wd_synTicker (wn_dialer n Rsp)"
  by (rule late_syn_restarts [OF wrrp_demo_facing]) (simp add: wrrp_demo_cfg_def)

end
