(* ===== verification/Probe_Factory.thy ===== *)
theory Probe_Factory
  imports Discover Ice_Dialer Wrrp_Dialer
begin

text \<open>
  The table of probes and the entry point for signalling packets
  (\<open>internal/server/transport/probe_factory.go\<close>, and \<open>Handle\<close> of \<open>probe.go\<close>). The peer table is shared by
  the factory and all probes. The management server's messages go to the handler the agent has
  installed, if any; a message is kept as the outcome of reading its JSON content.
\<close>

section \<open>Data\<close>

record ProbeFactory =
  pf_probes :: "string \<rightharpoonup> probe"
  pf_peerManager :: PeerManager

record factory_env =
  fe_localId :: PeerIdentity
  fe_keyText :: "byte list \<Rightarrow> string"
  fe_ParseKey :: "string \<Rightarrow> byte list option"
  fe_present :: bool
  fe_iface :: string
  fe_ok :: "wg_op \<Rightarrow> bool"
  fe_show :: "netip_AddrPort \<Rightarrow> string"
  fe_message :: "string \<Rightarrow> bool"
  fe_onMessage :: "(string \<Rightarrow> bool) option"

definition NewProbeFactory :: "PeerManager \<Rightarrow> ProbeFactory" where
  "NewProbeFactory pm = \<lparr> pf_probes = Map.empty, pf_peerManager = pm \<rparr>"

section \<open>The table of probes\<close>

definition Register_probe :: "ProbeFactory \<Rightarrow> string \<Rightarrow> probe \<Rightarrow> ProbeFactory" where
  "Register_probe f appId p = f\<lparr> pf_probes := (pf_probes f)(appId \<mapsto> p) \<rparr>"

definition probe_cfg_for :: "factory_env \<Rightarrow> PeerIdentity \<Rightarrow> probe_cfg" where
  "probe_cfg_for env remote =
     \<lparr> pc_local = fe_localId env, pc_remote = remote, pc_pubKey = fe_keyText env (id_PublicKey remote),
       pc_present = fe_present env, pc_iface = fe_iface env, pc_ok = fe_ok env, pc_show = fe_show env,
       pc_ParseKey = fe_ParseKey env \<rparr>"

definition Get_probe :: "factory_env \<Rightarrow> ProbeFactory \<Rightarrow> PeerIdentity \<Rightarrow> probe \<times> ProbeFactory" where
  "Get_probe env f remote =
     (case pf_probes f (id_AppID remote) of
        Some p \<Rightarrow> (p, f)
      | None \<Rightarrow> (let p = NewProbe (probe_cfg_for env remote) in (p, Register_probe f (id_AppID remote) p)))"

text \<open>\<open>Remove\<close> also returns the probe it has closed.\<close>

definition Remove_probe :: "ProbeFactory \<Rightarrow> string \<Rightarrow> probe option \<times> ProbeFactory" where
  "Remove_probe f appId =
     (map_option probe_Close (pf_probes f appId), f\<lparr> pf_probes := (pf_probes f)(appId := None) \<rparr>)"

interpretation probe_table: registry "\<lambda>f. pf_probes f" Register_probe "\<lambda>f appId. snd (Remove_probe f appId)"
  by unfold_locales (simp_all add: Register_probe_def Remove_probe_def)

text \<open>The configuration a node announces: a node with an address and no allowed addresses announces its
  own address.\<close>

definition getLocalPeer :: "factory_env \<Rightarrow> ProbeFactory \<Rightarrow> Peer option" where
  "getLocalPeer env f =
     (case GetPeer (pf_peerManager f) (id_AppID (fe_localId env)) of
        None \<Rightarrow> None
      | Some lp \<Rightarrow>
          (case p_Address lp of
             None \<Rightarrow> Some lp
           | Some addr \<Rightarrow> Some (if p_AllowedIPs lp = [] then lp\<lparr> p_AllowedIPs := addr @ ''/32'' \<rparr> else lp)))"

section \<open>Packets\<close>

text \<open>Where a packet goes. \<open>ToNilDialer\<close> is the call of a method of a dialer that \<open>Close\<close> has set to nil.\<close>

datatype dispatch =
    ToMessageHandler bool
  | NoMessageHandler
  | BadMessage
  | UnknownPeer
  | ToDialer string DialerType nat
  | ToNilDialer

definition probe_Handle :: "string \<Rightarrow> probe \<Rightarrow> SignalPacket \<Rightarrow> dispatch" where
  "probe_Handle appId p packet =
     (case pw_dialers (sm_world p) of
        None \<Rightarrow> ToNilDialer
      | Some g \<Rightarrow> ToDialer appId (sp_Dialer packet) g)"

fun message_content :: "Payload \<Rightarrow> string" where
  "message_content (PMessage c) = c"
| "message_content _ = []"

definition factory_Handle :: "factory_env \<Rightarrow> ProbeFactory \<Rightarrow> PeerID \<Rightarrow> SignalPacket \<Rightarrow> dispatch \<times> ProbeFactory" where
  "factory_Handle env f remoteId packet =
     (if sp_Type packet = MESSAGE then
        (case fe_onMessage env of
           None \<Rightarrow> (NoMessageHandler, f)
         | Some h \<Rightarrow>
             if \<not> fe_message env (message_content (sp_Payload packet)) then (BadMessage, f)
             else (ToMessageHandler (h (message_content (sp_Payload packet))), f))
      else
        case GetIdentity (fe_ParseKey env) (pf_peerManager f) remoteId of
          None \<Rightarrow> (UnknownPeer, f)
        | Some remote \<Rightarrow>
            let (p, f') = Get_probe env f remote
            in (probe_Handle (id_AppID remote) p packet, f'))"

section \<open>Lemmas\<close>

lemma Get_probe_registered: "pf_probes (snd (Get_probe env f remote)) (id_AppID remote) = Some (fst (Get_probe env f remote))"
  by (simp add: Get_probe_def Register_probe_def Let_def split: option.splits)

lemma Get_probe_frame: "k \<noteq> id_AppID remote \<Longrightarrow> pf_probes (snd (Get_probe env f remote)) k = pf_probes f k"
  by (simp add: Get_probe_def Register_probe_def Let_def split: option.splits)

lemma NewProbe_dialers [simp]: "pw_dialers (sm_world (NewProbe cfg)) = Some 0"
  by (simp add: NewProbe_def OnTransition_def NewStateMachine_def)

text \<open>No probe in the table has been closed.\<close>

definition factory_ok :: "ProbeFactory \<Rightarrow> bool" where
  "factory_ok f \<longleftrightarrow> (\<forall>k p. pf_probes f k = Some p \<longrightarrow> pw_open (sm_world p) \<and> pw_dialers (sm_world p) \<noteq> None)"

lemma factory_ok_Get: "factory_ok f \<Longrightarrow> factory_ok (snd (Get_probe env f remote))"
  by (auto simp: factory_ok_def Get_probe_def Register_probe_def NewProbe_def OnTransition_def NewStateMachine_def
      Let_def split: option.splits)

lemma factory_ok_Remove: "factory_ok f \<Longrightarrow> factory_ok (snd (Remove_probe f appId))"
  by (auto simp: factory_ok_def Remove_probe_def)

lemma factory_ok_Handle: "factory_ok f \<Longrightarrow> factory_ok (snd (factory_Handle env f remoteId packet))"
  by (auto simp: factory_Handle_def case_prod_beta Let_def factory_ok_Get split: option.splits)

section \<open>Properties\<close>

text \<open>Where a signalling packet goes. A packet from an identifier that the peer table does not know is
  dropped and creates no probe; a packet from a known peer reaches the dialer it names, of the one
  probe that is registered for that peer, which is created if there was none; no other probe is
  touched; and as long as the table holds only open probes the packet never meets a nil dialer, and
  the table keeps this.\<close>

theorem signal_dispatch:
  assumes "factory_ok f" "sp_Type packet \<noteq> MESSAGE"
  shows "(GetIdentity (fe_ParseKey env) (pf_peerManager f) remoteId = None \<longrightarrow>
      factory_Handle env f remoteId packet = (UnknownPeer, f)) \<and>
    (\<forall>remote. GetIdentity (fe_ParseKey env) (pf_peerManager f) remoteId = Some remote \<longrightarrow>
      (\<exists>p g. pf_probes (snd (factory_Handle env f remoteId packet)) (id_AppID remote) = Some p \<and>
         pw_dialers (sm_world p) = Some g \<and>
         fst (factory_Handle env f remoteId packet) = ToDialer (id_AppID remote) (sp_Dialer packet) g \<and>
         (pf_probes f (id_AppID remote) = Some p \<or>
            pf_probes f (id_AppID remote) = None \<and> p = NewProbe (probe_cfg_for env remote)) \<and>
         (\<forall>k. k \<noteq> id_AppID remote \<longrightarrow> pf_probes (snd (factory_Handle env f remoteId packet)) k = pf_probes f k))) \<and>
    factory_ok (snd (factory_Handle env f remoteId packet))"
proof (intro conjI impI allI)
  fix remote
  assume k: "GetIdentity (fe_ParseKey env) (pf_peerManager f) remoteId = Some remote"
  let ?g = "Get_probe env f remote"
  have reg: "pf_probes (snd ?g) (id_AppID remote) = Some (fst ?g)" by (rule Get_probe_registered)
  obtain g where g: "pw_dialers (sm_world (fst ?g)) = Some g"
    using factory_ok_Get [OF assms(1), of env remote] reg by (fastforce simp: factory_ok_def)
  have new: "pf_probes f (id_AppID remote) = Some (fst ?g) \<or>
      pf_probes f (id_AppID remote) = None \<and> fst ?g = NewProbe (probe_cfg_for env remote)"
    by (simp add: Get_probe_def Let_def split: option.splits)
  have h: "factory_Handle env f remoteId packet = (ToDialer (id_AppID remote) (sp_Dialer packet) g, snd ?g)"
    using assms(2) k g by (simp add: factory_Handle_def probe_Handle_def case_prod_beta Let_def)
  show "\<exists>p g. pf_probes (snd (factory_Handle env f remoteId packet)) (id_AppID remote) = Some p \<and>
         pw_dialers (sm_world p) = Some g \<and>
         fst (factory_Handle env f remoteId packet) = ToDialer (id_AppID remote) (sp_Dialer packet) g \<and>
         (pf_probes f (id_AppID remote) = Some p \<or>
            pf_probes f (id_AppID remote) = None \<and> p = NewProbe (probe_cfg_for env remote)) \<and>
         (\<forall>k. k \<noteq> id_AppID remote \<longrightarrow> pf_probes (snd (factory_Handle env f remoteId packet)) k = pf_probes f k)"
    using reg g new Get_probe_frame unfolding h by auto
next
  assume "GetIdentity (fe_ParseKey env) (pf_peerManager f) remoteId = None"
  then show "factory_Handle env f remoteId packet = (UnknownPeer, f)"
    using assms(2) by (simp add: factory_Handle_def)
next
  show "factory_ok (snd (factory_Handle env f remoteId packet))"
    by (rule factory_ok_Handle [OF assms(1)])
qed

definition demo_env :: factory_env where
  "demo_env = \<lparr> fe_localId = pc_local demo_cfg, fe_keyText = (\<lambda>_. ''K''), fe_ParseKey = (\<lambda>_. Some (replicate 32 1)),
     fe_present = True, fe_iface = ''wf0'', fe_ok = (\<lambda>_. True), fe_show = (\<lambda>_. ''fake''),
     fe_message = (\<lambda>_. True), fe_onMessage = None \<rparr>"

definition demo_factory :: ProbeFactory where
  "demo_factory = NewProbeFactory
     (NewPeerManager\<lparr> pm_byID := [FromUint64 1 \<mapsto> empty_peer\<lparr> p_AppID := ''b'', p_PublicKey := ''K'' \<rparr>] \<rparr>)"

theorem signal_dispatch_witness:
  "fst (factory_Handle demo_env demo_factory (FromUint64 1) demo_syn) = ToDialer ''b'' DialerICE 0 \<and>
   fst (factory_Handle demo_env demo_factory (FromUint64 1) demo_syn) \<noteq> ToNilDialer"
proof -
  have ok: "factory_ok demo_factory" "sp_Type demo_syn \<noteq> MESSAGE"
    by (simp_all add: factory_ok_def demo_factory_def NewProbeFactory_def demo_syn_def)
  have id: "GetIdentity (fe_ParseKey demo_env) (pf_peerManager demo_factory) (FromUint64 1) =
      Some \<lparr> id_AppID = ''b'', id_PublicKey = replicate 32 1 \<rparr>"
    by (simp add: GetIdentity_def demo_env_def demo_factory_def NewProbeFactory_def NewPeerIdentity_def)
  have "pf_probes demo_factory ''b'' = None" by (simp add: demo_factory_def NewProbeFactory_def)
  then show ?thesis
    using signal_dispatch [OF ok, of demo_env "FromUint64 1"] id by (auto simp: demo_syn_def)
qed

text \<open>After a direct connection is up, the peer's restart goes unheard. Success rebuilds no dialer, so
  the probe keeps the dialer that connected, which closes itself; and a closed dialer drops every
  SYN and ACK without an answer, without passing the peer's new configuration on and without
  restarting the probe. A restarted peer that sends SYNs for a direct connection is never answered.\<close>

theorem connected_peer_restart_unheard:
  assumes "tr_Type t = TransportICE" "wired cfg p" "sp_Type syn = HANDSHAKE_SYN \<or> sp_Type syn = HANDSHAKE_ACK"
  shows "pw_dialers (sm_world (probe_onSuccess t p)) = pw_dialers (sm_world p) \<and>
    pw_epoch (sm_world (probe_onSuccess t p)) = pw_epoch (sm_world p) \<and>
    ice_Handle icfg lib remote (fst (ice_Close d)) syn = (fst (ice_Close d), [], HOk)"
proof -
  have d: "pw_dialers (on_transition cfg a b w) = pw_dialers w" "pw_epoch (on_transition cfg a b w) = pw_epoch w" for a b w
    by (auto simp: on_transition_def on_first_ready_def on_upgrade_def Let_def split: option.splits prod.splits)
  have c: "ic_closed (fst (ice_Close d))" by (simp add: ice_Close_def)
  show ?thesis
    using assms by (auto simp: probe_onSuccess_def Let_def world_Transition [of cfg] d ice_Handle_def handle_syn_def handle_ack_def c)
qed

theorem connected_peer_restart_unheard_witness:
  "pw_dialers (sm_world (probe_onSuccess demo_direct (NewProbe demo_cfg))) = Some 0 \<and>
   ice_Handle ice_demo_cfg ice_demo_lib (icc_remoteId ice_demo_cfg) (fst (ice_Close prepared)) demo_syn =
     (fst (ice_Close prepared), [], HOk)"
  using connected_peer_restart_unheard [of demo_direct demo_cfg "NewProbe demo_cfg" demo_syn ice_demo_cfg ice_demo_lib
      "icc_remoteId ice_demo_cfg" prepared]
  by (simp add: demo_direct_def demo_syn_def)

end
