(* ===== verification/Policy.thy ===== *)
theory Policy
  imports Peer_Identity "HOL-Library.AList" "HOL-Library.Multiset"
begin

text \<open>
  From policies to firewall rules: the policy evaluator
  (\<open>internal/agent/controller/policy_evaluator.go\<close>) and the messages it works on
  (\<open>internal/agent/infra/message.go\<close>). The decision table is a Go map; it is kept as an association list
  with distinct keys. A \<open>range\<close> over a Go map visits the keys in an order the language does not fix:
  the order is the parameter \<open>visit\<close>, of which only \<open>visit_ok\<close> is assumed, that it is a permutation.
\<close>

section \<open>Messages\<close>

record Rule =
  r_PeerNames :: "string list"
  r_CIDRs :: "string list"
  r_Protocol :: string
  r_Port :: int
  r_Action :: string

record Policy =
  po_PolicyName :: string
  po_Action :: string
  po_Ingress :: "Rule option list"
  po_Egress :: "Rule option list"

record TrafficRule =
  tf_ChainName :: string
  tf_Peers :: "string list"
  tf_Protocol :: string
  tf_Port :: int
  tf_Action :: string

record FirewallRule =
  fw_Platform :: string
  fw_Ingress :: "TrafficRule list"
  fw_Egress :: "TrafficRule list"

record Network =
  nw_NetworkId :: string
  nw_NetworkName :: string
  nw_Peers :: "Peer list"

section \<open>The evaluator\<close>

definition cleanIP :: "string option \<Rightarrow> string" where
  "cleanIP ip = (case ip of None \<Rightarrow> [] | Some s \<Rightarrow> if CHR ''/'' \<in> set s then hd (Split (CHR ''/'') s) else s)"

definition is_space :: "char \<Rightarrow> bool" where
  "is_space c \<longleftrightarrow> of_char c \<in> {9, 10, 11, 12, 13, 32 :: nat}"

definition TrimSpace :: "string \<Rightarrow> string" where
  "TrimSpace s = rev (dropWhile is_space (rev (dropWhile is_space s)))"

record ruleDecisionKey =
  rk_peer :: string
  rk_port :: int
  rk_protocol :: string

type_synonym decisions = "(ruleDecisionKey \<times> string) list"

text \<open>Name to address of the network's peers that have one; a later peer of the same name wins.\<close>

definition peerIPByName :: "Network \<Rightarrow> string \<Rightarrow> string" where
  "peerIPByName network name =
     (case map_of (rev (map (\<lambda>p. (p_Name p, cleanIP (p_Address p))) (filter (\<lambda>p. p_Address p \<noteq> None) (nw_Peers network)))) name of
        None \<Rightarrow> [] | Some ip \<Rightarrow> ip)"

definition resolveRulePeers :: "Rule \<Rightarrow> (string \<Rightarrow> string) \<Rightarrow> string \<Rightarrow> string list" where
  "resolveRulePeers rule ipByName self =
     filter (\<lambda>ip. ip \<noteq> []) (map ipByName (filter (\<lambda>n. n \<noteq> self) (r_PeerNames rule))) @
     filter (\<lambda>c. TrimSpace c \<noteq> []) (r_CIDRs rule)"

definition decide :: "decisions \<Rightarrow> ruleDecisionKey \<Rightarrow> string \<Rightarrow> decisions" where
  "decide ds k action = (if map_of ds k \<noteq> Some ''ALLOW'' then AList.update k action ds else ds)"

definition applyDecision :: "(string \<Rightarrow> string) \<Rightarrow> string \<Rightarrow> Rule \<Rightarrow> decisions \<Rightarrow> decisions" where
  "applyDecision ipByName self rule ds =
     foldl (\<lambda>ds peer. decide ds \<lparr> rk_peer = peer, rk_port = r_Port rule, rk_protocol = r_Protocol rule \<rparr> (r_Action rule))
       ds (resolveRulePeers rule ipByName self)"

definition applyRules :: "(string \<Rightarrow> string) \<Rightarrow> string \<Rightarrow> Rule option list \<Rightarrow> decisions \<Rightarrow> decisions" where
  "applyRules ipByName self rules ds =
     foldl (\<lambda>ds rule. case rule of None \<Rightarrow> ds | Some r \<Rightarrow> applyDecision ipByName self r ds) ds rules"

definition applyPolicies ::
  "(string \<Rightarrow> string) \<Rightarrow> string \<Rightarrow> Policy option list \<Rightarrow> decisions \<times> decisions" where
  "applyPolicies ipByName self policies =
     foldl (\<lambda>(ing, eg) policy. case policy of None \<Rightarrow> (ing, eg)
              | Some p \<Rightarrow> (applyRules ipByName self (po_Ingress p) ing, applyRules ipByName self (po_Egress p) eg))
       ([], []) policies"

definition toIPTAction :: "string \<Rightarrow> string" where
  "toIPTAction action = (if EqualFold action ''ALLOW'' then ''ACCEPT'' else ''DROP'')"

definition emit_rule :: "string \<Rightarrow> ruleDecisionKey \<times> string \<Rightarrow> TrafficRule" where
  "emit_rule chain = (\<lambda>(k, action).
     \<lparr> tf_ChainName = chain, tf_Peers = [rk_peer k], tf_Protocol = rk_protocol k, tf_Port = rk_port k,
       tf_Action = toIPTAction action \<rparr>)"

definition tail_rule :: "string \<Rightarrow> TrafficRule" where
  "tail_rule chain = \<lparr> tf_ChainName = chain, tf_Peers = [], tf_Protocol = [], tf_Port = 0, tf_Action = ''DROP'' \<rparr>"

datatype eval_error = NilPeerOrNetwork

definition Evaluate ::
  "(decisions \<Rightarrow> decisions) \<Rightarrow> Peer option \<Rightarrow> Network option \<Rightarrow> Policy option list \<Rightarrow> eval_error + FirewallRule" where
  "Evaluate visit currentPeer network policies =
     (case (currentPeer, network) of
        (Some current, Some nw) \<Rightarrow>
          let (ing, eg) = applyPolicies (peerIPByName nw) (p_Name current) policies
          in Ok \<lparr> fw_Platform = p_Platform current,
                  fw_Ingress = map (emit_rule ''LATTICE-INGRESS'') (visit ing) @ [tail_rule ''LATTICE-INGRESS''],
                  fw_Egress = map (emit_rule ''LATTICE-EGRESS'') (visit eg) @ [tail_rule ''LATTICE-EGRESS''] \<rparr>
      | _ \<Rightarrow> Err NilPeerOrNetwork)"

definition visit_ok :: "('a list \<Rightarrow> 'a list) \<Rightarrow> bool" where
  "visit_ok visit \<longleftrightarrow> (\<forall>xs. mset (visit xs) = mset xs)"

section \<open>The decision table\<close>

text \<open>What the rules ask for, in order: a key and an action per resolved peer of a rule.\<close>

definition rule_asks :: "(string \<Rightarrow> string) \<Rightarrow> string \<Rightarrow> Rule \<Rightarrow> (ruleDecisionKey \<times> string) list" where
  "rule_asks ipByName self rule =
     map (\<lambda>peer. (\<lparr> rk_peer = peer, rk_port = r_Port rule, rk_protocol = r_Protocol rule \<rparr>, r_Action rule))
       (resolveRulePeers rule ipByName self)"

definition asks :: "(string \<Rightarrow> string) \<Rightarrow> string \<Rightarrow> Rule option list \<Rightarrow> (ruleDecisionKey \<times> string) list" where
  "asks ipByName self rules = concat (map (\<lambda>r. case r of None \<Rightarrow> [] | Some r \<Rightarrow> rule_asks ipByName self r) rules)"

abbreviation decide_all :: "decisions \<Rightarrow> (ruleDecisionKey \<times> string) list \<Rightarrow> decisions" where
  "decide_all \<equiv> foldl (\<lambda>ds (k, a). decide ds k a)"

lemma applyDecision_asks: "applyDecision ipByName self rule ds = decide_all ds (rule_asks ipByName self rule)"
  by (simp add: applyDecision_def rule_asks_def foldl_map)

lemma applyRules_asks: "applyRules ipByName self rules ds = decide_all ds (asks ipByName self rules)"
proof (induction rules arbitrary: ds)
  case (Cons r rules)
  then show ?case by (cases r) (simp_all add: applyRules_def asks_def applyDecision_asks)
qed (simp add: applyRules_def asks_def)

lemma applyPolicies_asks:
  "applyPolicies ipByName self policies =
     (decide_all [] (asks ipByName self (concat (map po_Ingress (List.map_filter id policies)))),
      decide_all [] (asks ipByName self (concat (map po_Egress (List.map_filter id policies)))))"
proof -
  have "foldl (\<lambda>(ing, eg) policy. case policy of None \<Rightarrow> (ing, eg)
              | Some p \<Rightarrow> (applyRules ipByName self (po_Ingress p) ing, applyRules ipByName self (po_Egress p) eg))
       (a, b) policies =
     (decide_all a (asks ipByName self (concat (map po_Ingress (List.map_filter id policies)))),
      decide_all b (asks ipByName self (concat (map po_Egress (List.map_filter id policies)))))" for a b
    by (induction policies arbitrary: a b)
       (auto simp: applyRules_asks asks_def map_filter_simps split: option.splits)
  then show ?thesis by (simp add: applyPolicies_def)
qed

lemma distinct_decide: "distinct (map fst ds) \<Longrightarrow> distinct (map fst (decide ds k a))"
  by (simp add: decide_def distinct_update)

lemma distinct_decide_all: "distinct (map fst ds) \<Longrightarrow> distinct (map fst (decide_all ds xs))"
  by (induction xs arbitrary: ds) (auto simp: distinct_decide)

text \<open>An exact ALLOW wins; otherwise the last word counts.\<close>

lemma decide_all_lookup:
  "map_of (decide_all [] xs) k = (if (k, ''ALLOW'') \<in> set xs then Some ''ALLOW'' else map_of (rev xs) k)"
proof (induction xs rule: rev_induct)
  case (snoc x xs)
  obtain j a where x: "x = (j, a)" by (cases x)
  show ?case
  proof (cases "j = k")
    case True
    then show ?thesis
      using snoc x by (auto simp: decide_def update_conv' dest: map_of_SomeD split: if_splits)
  next
    case False
    then have "map_of (decide ds j a) k = map_of ds k" for ds by (simp add: decide_def update_conv')
    then show ?thesis using snoc x False by simp
  qed
qed simp

end
