(* ===== verification/Kube_Objects.thy ===== *)
theory Kube_Objects
  imports Policy
begin

text \<open>
  The custom resources the controllers work on (\<open>api/v1alpha1\<close>) and the helpers of
  \<open>internal/agent/controller/utils.go\<close>. Labels and annotations are Go maps, kept as association lists
  with distinct keys. A label selector is data of the Kubernetes API; how it matches labels is a
  parameter where it is used. SHA-256 is the parameter \<open>sha\<close>, of which only the length of a digest
  matters.
\<close>

section \<open>Objects\<close>

type_synonym labels = "(string \<times> string) list"

record LabelSelector =
  ls_MatchLabels :: labels
  ls_MatchExpressions :: "(string \<times> string \<times> string list) list"

record Condition =
  cd_Type :: string
  cd_Status :: bool
  cd_Reason :: string
  cd_Message :: string
  cd_LastTransitionTime :: int

datatype LatticePeerPhase = PhaseNone | PhasePending | PhaseProvisioning | PhaseFailed | PhaseReady

record LatticePeer =
  lp_Name :: string
  lp_Namespace :: string
  lp_UID :: string
  lp_Labels :: labels
  lp_Annotations :: labels
  lp_Finalizers :: "string list"
  lp_Deleting :: bool
  lp_AppId :: string
  lp_InterfaceName :: string
  lp_Platform :: string
  lp_PrivateKey :: string
  lp_PublicKey :: string
  lp_PeerId :: string
  lp_Network :: "string option"
  lp_Phase :: LatticePeerPhase
  lp_Conditions :: "Condition list"
  lp_ActiveNetwork :: "string option"
  lp_AllocatedAddress :: "string option"
  lp_CurrentHash :: string

datatype LatticeNetworkPhase = NetPhaseNone | NetPhaseCreating | NetPhaseReady | NetPhaseFailed

record LatticeNetwork =
  ln_Name :: string
  ln_Namespace :: string
  ln_SpecName :: string
  ln_Phase :: LatticeNetworkPhase
  ln_ActiveCIDR :: string
  ln_AllocatedCount :: int

record PeerSelection =
  ps_PeerSelector :: "LabelSelector option"
  ps_IPBlock :: "string option"

record NetworkPolicyPort =
  pp_Port :: int
  pp_Protocol :: string

text \<open>Ingress and egress rules have the same shape: selections and ports.\<close>

record PolicyRule =
  pr_Peers :: "PeerSelection list"
  pr_Ports :: "NetworkPolicyPort list"

record LatticePolicy =
  lc_Name :: string
  lc_Namespace :: string
  lc_Labels :: labels
  lc_Network :: string
  lc_PeerSelector :: LabelSelector
  lc_Ingress :: "PolicyRule list"
  lc_Egress :: "PolicyRule list"
  lc_Action :: string
  lc_TargetNodes :: int
  lc_RuleCount :: int

section \<open>Conditions\<close>

fun setCondition :: "Condition list \<Rightarrow> Condition \<Rightarrow> Condition list" where
  "setCondition [] c = [c]"
| "setCondition (e # es) c =
     (if cd_Type e = cd_Type c
      then (if cd_Status e = cd_Status c \<and> cd_Reason e = cd_Reason c
            then c\<lparr> cd_LastTransitionTime := cd_LastTransitionTime e \<rparr> else c) # es
      else e # setCondition es c)"

lemma setCondition_types:
  "map cd_Type (setCondition cs c) =
     (if cd_Type c \<in> set (map cd_Type cs) then map cd_Type cs else map cd_Type cs @ [cd_Type c])"
  by (induction cs) auto

lemma setCondition_distinct: "distinct (map cd_Type cs) \<Longrightarrow> distinct (map cd_Type (setCondition cs c))"
  unfolding setCondition_types by auto

text \<open>Setting a condition again with the same status and reason keeps the time of its last transition.\<close>

lemma setCondition_idem:
  assumes "cd_Type d = cd_Type c" "cd_Status d = cd_Status c" "cd_Reason d = cd_Reason c" "cd_Message d = cd_Message c"
  shows "setCondition (setCondition cs c) d = setCondition cs c"
  using assms by (induction cs) auto

section \<open>Keys and values of labels\<close>

definition LabelGateway :: string where "LabelGateway = ''alattice.io/gateway''"
definition LabelShadow :: string where "LabelShadow = ''alattice.io/shadow''"
definition AnnotationShadowAllowedIPs :: string where "AnnotationShadowAllowedIPs = ''alattice.io/shadow-allowed-ips''"
definition AnnotationPeeringRoutePrefix :: string where "AnnotationPeeringRoutePrefix = ''alattice.io/peering-route-''"

definition name_hash :: "(string \<Rightarrow> byte list) \<Rightarrow> string \<Rightarrow> string" where
  "name_hash sha name = hex_EncodeToString (take 4 (sha name))"

definition safeKeyName :: "(string \<Rightarrow> byte list) \<Rightarrow> string \<Rightarrow> string \<Rightarrow> string" where
  "safeKeyName sha pfx name =
     (let full = pfx @ name
      in if length full \<le> 63 then full
         else
           let keep = int 63 - int (length pfx) - 9;
               keep1 = (if keep < 0 then 0 else keep);
               keep2 = (if keep1 > int (length name) then int (length name) else keep1)
           in pfx @ take (nat keep2) name @ ''-'' @ name_hash sha name)"

definition networkLabelKey :: "(string \<Rightarrow> byte list) \<Rightarrow> string \<Rightarrow> string" where
  "networkLabelKey sha networkName = ''alattice.io/'' @ safeKeyName sha ''network-'' networkName"

definition peeringRouteAnnotationKey :: "(string \<Rightarrow> byte list) \<Rightarrow> string \<Rightarrow> string" where
  "peeringRouteAnnotationKey sha peeringName = ''alattice.io/'' @ safeKeyName sha ''peering-route-'' peeringName"

definition safeLabelValue :: "(string \<Rightarrow> byte list) \<Rightarrow> string \<Rightarrow> string" where
  "safeLabelValue sha name =
     (if length name \<le> 63 then name else take (63 - 9) name @ ''-'' @ name_hash sha name)"

definition sha_ok :: "(string \<Rightarrow> byte list) \<Rightarrow> bool" where
  "sha_ok sha \<longleftrightarrow> (\<forall>s. length (sha s) = 32)"

lemma length_name_hash [simp]: "sha_ok sha \<Longrightarrow> length (name_hash sha name) = 8"
  by (simp add: name_hash_def sha_ok_def)

lemma safeKeyName_short: "length pfx + length name \<le> 63 \<Longrightarrow> safeKeyName sha pfx name = pfx @ name"
  by (simp add: safeKeyName_def Let_def)

lemma safeKeyName_long:
  assumes "63 < length pfx + length name" "length pfx \<le> 54"
  shows "safeKeyName sha pfx name = pfx @ take (54 - length pfx) name @ ''-'' @ name_hash sha name"
proof -
  have "nat (int 63 - int (length pfx) - 9) = 54 - length pfx" using assms by linarith
  then show ?thesis using assms by (simp add: safeKeyName_def Let_def)
qed

lemma length_safeKeyName:
  assumes "sha_ok sha" "length pfx \<le> 54"
  shows "length (safeKeyName sha pfx name) \<le> 63"
    "63 < length pfx + length name \<Longrightarrow> length (safeKeyName sha pfx name) = 63"
proof -
  show long: "length (safeKeyName sha pfx name) = 63" if "63 < length pfx + length name"
    using that assms by (simp add: safeKeyName_long)
  show "length (safeKeyName sha pfx name) \<le> 63"
    using long by (cases "length pfx + length name \<le> 63") (simp_all add: safeKeyName_short)
qed

lemma safeKeyName_prefix: "HasPrefix (safeKeyName sha pfx name) pfx"
  by (simp add: safeKeyName_def Let_def)

section \<open>Properties\<close>


definition demo_sha :: "string \<Rightarrow> byte list" where
  "demo_sha s = replicate 32 (of_nat (length s))"


end
