(* ===== verification/Firewall.thy ===== *)
theory Firewall
  imports Policy
begin

text \<open>
  Enforcement of the evaluated rules with iptables (\<open>ruleProvisioner\<close> in
  \<open>internal/agent/provision/provision_linux.go\<close>). Each call of the \<open>iptables\<close> program is a command; which
  commands succeed is the parameter \<open>ok\<close>, and a command that succeeds does to the kernel's tables what
  the program's documentation says. How a rule's address or network is compared with a packet's
  address is the parameter \<open>covers\<close>.
\<close>

section \<open>Tables and commands\<close>

datatype ipt_rule =
    IptEstablished string
  | IptMatch string string "(string \<times> int) option" string
  | IptAll string

datatype ipt_cmd =
    NewChain string
  | InsertJump string string string string
  | Flush string
  | Append string ipt_rule

record ipt_tables =
  it_chains :: "string \<Rightarrow> ipt_rule list"
  it_jumps :: "(string \<times> string \<times> string \<times> string) list"

definition apply_cmd :: "ipt_cmd \<Rightarrow> ipt_tables \<Rightarrow> ipt_tables" where
  "apply_cmd c t =
     (case c of
        NewChain ch \<Rightarrow> t\<lparr> it_chains := (it_chains t)(ch := []) \<rparr>
      | InsertJump parent flag iface ch \<Rightarrow> t\<lparr> it_jumps := (parent, flag, iface, ch) # it_jumps t \<rparr>
      | Flush ch \<Rightarrow> t\<lparr> it_chains := (it_chains t)(ch := []) \<rparr>
      | Append ch r \<Rightarrow> t\<lparr> it_chains := (it_chains t)(ch := it_chains t ch @ [r]) \<rparr>)"

text \<open>A sequence of commands that the code leaves at the first failure.\<close>

fun run_cmds :: "(ipt_cmd \<Rightarrow> bool) \<Rightarrow> ipt_cmd list \<Rightarrow> ipt_tables \<Rightarrow> bool \<times> ipt_tables" where
  "run_cmds ok [] t = (True, t)"
| "run_cmds ok (c # cs) t = (if ok c then run_cmds ok cs (apply_cmd c t) else (False, t))"

section \<open>The provisioner\<close>

text \<open>\<open>exists\<close> says that creating the chain failed because it is there already.\<close>

definition initChain ::
  "(ipt_cmd \<Rightarrow> bool) \<Rightarrow> (string \<Rightarrow> bool) \<Rightarrow> string \<Rightarrow> string \<Rightarrow> string \<Rightarrow> string \<Rightarrow> ipt_tables \<Rightarrow> ipt_tables" where
  "initChain ok present iface ch parent flag t =
     (if \<not> ok (NewChain ch) \<and> \<not> present ch then t
      else
        let t1 = (if ok (NewChain ch) then apply_cmd (NewChain ch) t else t)
        in if (parent, flag, iface, ch) \<in> set (it_jumps t1) then t1
           else if ok (InsertJump parent flag iface ch) then apply_cmd (InsertJump parent flag iface ch) t1 else t1)"

definition addRule :: "string \<Rightarrow> string \<Rightarrow> string \<Rightarrow> TrafficRule \<Rightarrow> ipt_cmd" where
  "addRule ch dir ip tr =
     (let target = (if tf_Action tr = [] then ''ACCEPT'' else tf_Action tr)
      in Append ch (if tf_Protocol tr \<noteq> [] \<and> tf_Port tr \<noteq> 0
                    then IptMatch dir ip (Some (ToLower (tf_Protocol tr), tf_Port tr)) target
                    else IptMatch dir ip None target))"

definition chain_cmds :: "string \<Rightarrow> string \<Rightarrow> TrafficRule list \<Rightarrow> ipt_cmd list" where
  "chain_cmds ch dir trs = concat (map (\<lambda>tr. map (\<lambda>ip. addRule ch dir ip tr) (tf_Peers tr)) trs)"

abbreviation inChain :: string where "inChain \<equiv> ''LATTICE-INGRESS''"
abbreviation outChain :: string where "outChain \<equiv> ''LATTICE-EGRESS''"

definition provision_cmds :: "FirewallRule \<Rightarrow> ipt_cmd list" where
  "provision_cmds rule =
     [Flush inChain, Flush outChain, Append inChain (IptEstablished ''ACCEPT''), Append outChain (IptEstablished ''ACCEPT'')] @
     chain_cmds inChain ''-s'' (fw_Ingress rule) @ chain_cmds outChain ''-d'' (fw_Egress rule) @
     [Append inChain (IptAll ''DROP''), Append outChain (IptAll ''DROP'')]"

definition Provision ::
  "(ipt_cmd \<Rightarrow> bool) \<Rightarrow> (string \<Rightarrow> bool) \<Rightarrow> string \<Rightarrow> FirewallRule \<Rightarrow> ipt_tables \<Rightarrow> bool \<times> ipt_tables" where
  "Provision ok present iface rule t =
     (let t1 = initChain ok present iface inChain ''INPUT'' ''-i'' t;
          t2 = initChain ok present iface outChain ''OUTPUT'' ''-o'' t1
      in run_cmds ok (provision_cmds rule) t2)"

section \<open>What the kernel does with a packet\<close>

record packet =
  pk_established :: bool
  pk_addr :: string
  pk_proto :: string
  pk_dport :: int

fun ipt_matches :: "(string \<Rightarrow> string \<Rightarrow> bool) \<Rightarrow> packet \<Rightarrow> ipt_rule \<Rightarrow> bool" where
  "ipt_matches covers p (IptEstablished _) = pk_established p"
| "ipt_matches covers p (IptMatch dir ip svc _) =
     (covers ip (pk_addr p) \<and> (case svc of None \<Rightarrow> True | Some (proto, port) \<Rightarrow> proto = pk_proto p \<and> port = pk_dport p))"
| "ipt_matches covers p (IptAll _) = True"

fun ipt_target :: "ipt_rule \<Rightarrow> string" where
  "ipt_target (IptEstablished t) = t"
| "ipt_target (IptMatch _ _ _ t) = t"
| "ipt_target (IptAll t) = t"

definition verdict :: "(string \<Rightarrow> string \<Rightarrow> bool) \<Rightarrow> ipt_rule list \<Rightarrow> packet \<Rightarrow> string option" where
  "verdict covers rules p = map_option ipt_target (find (ipt_matches covers p) rules)"

section \<open>Lemmas\<close>

lemma run_cmds_ok: "(\<And>c. ok c) \<Longrightarrow> run_cmds ok cs t = (True, foldl (\<lambda>t c. apply_cmd c t) t cs)"
  by (induction cs arbitrary: t) simp_all

text \<open>What a successful run leaves in one chain.\<close>

fun chain_effect :: "string \<Rightarrow> ipt_cmd \<Rightarrow> ipt_rule list \<Rightarrow> ipt_rule list" where
  "chain_effect ch (NewChain c) rs = (if c = ch then [] else rs)"
| "chain_effect ch (InsertJump _ _ _ _) rs = rs"
| "chain_effect ch (Flush c) rs = (if c = ch then [] else rs)"
| "chain_effect ch (Append c r) rs = (if c = ch then rs @ [r] else rs)"

lemma apply_cmd_chain: "it_chains (apply_cmd c t) ch = chain_effect ch c (it_chains t ch)"
  by (cases c) (simp_all add: apply_cmd_def)

lemma run_chain:
  "it_chains (foldl (\<lambda>t c. apply_cmd c t) t cs) ch = foldl (\<lambda>rs c. chain_effect ch c rs) (it_chains t ch) cs"
  by (induction cs arbitrary: t) (simp_all add: apply_cmd_chain)

text \<open>The rules that a list of traffic rules becomes.\<close>

definition chain_rules :: "string \<Rightarrow> TrafficRule list \<Rightarrow> ipt_rule list" where
  "chain_rules dir trs = concat (map (\<lambda>tr. map (\<lambda>ip. case addRule [] dir ip tr of Append _ r \<Rightarrow> r | _ \<Rightarrow> IptAll []) (tf_Peers tr)) trs)"

lemma chain_cmds_Cons:
  "chain_cmds ch dir (tr # trs) = map (\<lambda>ip. addRule ch dir ip tr) (tf_Peers tr) @ chain_cmds ch dir trs"
  "chain_cmds ch dir [] = []"
  by (simp_all add: chain_cmds_def)

lemma foldl_addRules:
  "foldl (\<lambda>rs c. chain_effect ch c rs) rs (map (\<lambda>ip. addRule c dir ip tr) ips) =
     (if c = ch then rs @ map (\<lambda>ip. case addRule [] dir ip tr of Append _ r \<Rightarrow> r | _ \<Rightarrow> IptAll []) ips else rs)"
  by (induction ips arbitrary: rs) (auto simp: addRule_def Let_def)

lemma foldl_chain_cmds:
  "foldl (\<lambda>rs c. chain_effect ch c rs) rs (chain_cmds c dir trs) = (if c = ch then rs @ chain_rules dir trs else rs)"
  by (induction trs arbitrary: rs) (auto simp: chain_cmds_Cons foldl_addRules chain_rules_def)

lemma provision_chains:
  assumes "\<And>c. ok c"
  shows "fst (Provision ok present iface rule t)"
    and "it_chains (snd (Provision ok present iface rule t)) inChain =
      IptEstablished ''ACCEPT'' # chain_rules ''-s'' (fw_Ingress rule) @ [IptAll ''DROP'']"
    and "it_chains (snd (Provision ok present iface rule t)) outChain =
      IptEstablished ''ACCEPT'' # chain_rules ''-d'' (fw_Egress rule) @ [IptAll ''DROP'']"
  using assms
  by (simp_all add: Provision_def provision_cmds_def run_cmds_ok Let_def run_chain foldl_chain_cmds apply_cmd_chain)

section \<open>Evaluated rules in a chain\<close>

definition key_covers :: "(string \<Rightarrow> string \<Rightarrow> bool) \<Rightarrow> packet \<Rightarrow> ruleDecisionKey \<Rightarrow> bool" where
  "key_covers covers p k \<longleftrightarrow>
     covers (rk_peer k) (pk_addr p) \<and>
     (rk_protocol k \<noteq> [] \<and> rk_port k \<noteq> 0 \<longrightarrow> ToLower (rk_protocol k) = pk_proto p \<and> rk_port k = pk_dport p)"

definition ipt_of :: "string \<Rightarrow> ruleDecisionKey \<times> string \<Rightarrow> ipt_rule" where
  "ipt_of dir = (\<lambda>(k, a). IptMatch dir (rk_peer k)
     (if rk_protocol k \<noteq> [] \<and> rk_port k \<noteq> 0 then Some (ToLower (rk_protocol k), rk_port k) else None) (toIPTAction a))"

lemma toIPTAction_not_Nil [simp]: "toIPTAction a \<noteq> []"
  by (simp add: toIPTAction_def)

lemma chain_rules_emitted:
  "chain_rules dir (map (emit_rule ch) ds @ [tail_rule ch]) = map (ipt_of dir) ds"
  by (induction ds) (auto simp: chain_rules_def emit_rule_def tail_rule_def addRule_def ipt_of_def Let_def)

lemma ipt_of_matches [simp]: "ipt_matches covers p (ipt_of dir (k, a)) = key_covers covers p k"
  by (auto simp: ipt_of_def key_covers_def)

lemma ipt_of_target [simp]: "ipt_target (ipt_of dir (k, a)) = toIPTAction a"
  by (simp add: ipt_of_def)

text \<open>The verdict of a chain on a new packet, from the decisions that cover it.\<close>

lemma verdict_chain:
  assumes "\<not> pk_established p"
  shows "verdict covers (IptEstablished ''ACCEPT'' # map (ipt_of dir) ds @ [IptAll ''DROP'']) p =
    Some (case find (\<lambda>(k, a). key_covers covers p k) ds of None \<Rightarrow> ''DROP'' | Some (k, a) \<Rightarrow> toIPTAction a)"
  using assms by (induction ds) (auto simp: verdict_def)

lemma find_set: "find P xs = Some x \<Longrightarrow> x \<in> set xs \<and> P x"
  by (induction xs) (auto split: if_splits)

text \<open>What the asked-for actions say about a key: an exact ALLOW anywhere, or else the last word.\<close>

definition allowed :: "(ruleDecisionKey \<times> string) list \<Rightarrow> ruleDecisionKey \<Rightarrow> bool" where
  "allowed xs k \<longleftrightarrow> (k, ''ALLOW'') \<in> set xs \<or> (\<exists>a. map_of (rev xs) k = Some a \<and> EqualFold a ''ALLOW'')"

lemma decided_action:
  assumes "(k, a) \<in> set (decide_all [] xs)"
  shows "k \<in> fst ` set xs" "toIPTAction a = (if allowed xs k then ''ACCEPT'' else ''DROP'')"
proof -
  have d: "distinct (map fst (decide_all [] xs))" by (rule distinct_decide_all) simp
  then have m: "map_of (decide_all [] xs) k = Some a" using assms by simp
  show "k \<in> fst ` set xs"
    using m decide_all_lookup [of xs k] by (force split: if_splits dest: map_of_SomeD)
  show "toIPTAction a = (if allowed xs k then ''ACCEPT'' else ''DROP'')"
    using m decide_all_lookup [of xs k] by (auto simp: allowed_def toIPTAction_def split: if_splits)
qed

lemma asked_is_decided: "k \<in> fst ` set xs \<Longrightarrow> k \<in> fst ` set (decide_all [] xs)"
proof -
  assume "k \<in> fst ` set xs"
  then have "map_of (rev xs) k \<noteq> None" by (simp add: map_of_eq_None_iff)
  then have "map_of (decide_all [] xs) k \<noteq> None" using decide_all_lookup [of xs k] by simp
  then show ?thesis by (simp add: map_of_eq_None_iff)
qed

lemma visit_set: "visit_ok visit \<Longrightarrow> set (visit xs) = set xs"
  unfolding visit_ok_def by (metis set_mset_mset)

lemma verdict_decisions:
  fixes xs :: "(ruleDecisionKey \<times> string) list" and covers :: "string \<Rightarrow> string \<Rightarrow> bool" and dir :: string
  assumes "visit_ok visit" "\<not> pk_established p"
  defines "v \<equiv> verdict covers (IptEstablished ''ACCEPT'' # map (ipt_of dir) (visit (decide_all [] xs)) @ [IptAll ''DROP'']) p"
  shows "(\<forall>k \<in> fst ` set xs. \<not> key_covers covers p k) \<Longrightarrow> v = Some ''DROP''"
    and "(\<forall>k \<in> fst ` set xs. key_covers covers p k \<longrightarrow> \<not> allowed xs k) \<Longrightarrow> v = Some ''DROP''"
    and "(\<forall>k \<in> fst ` set xs. key_covers covers p k \<longrightarrow> allowed xs k) \<Longrightarrow>
      (\<exists>k \<in> fst ` set xs. key_covers covers p k) \<Longrightarrow> v = Some ''ACCEPT''"
proof -
  let ?f = "find (\<lambda>(k, a). key_covers covers p k) (visit (decide_all [] xs))"
  have v: "v = Some (case ?f of None \<Rightarrow> ''DROP'' | Some (k, a) \<Rightarrow> toIPTAction a)"
    unfolding v_def by (rule verdict_chain [OF assms(2)])
  have some: "k \<in> fst ` set xs \<and> key_covers covers p k \<and> toIPTAction a = (if allowed xs k then ''ACCEPT'' else ''DROP'')"
    if "?f = Some (k, a)" for k a
    using find_set [OF that] decided_action [of k a xs] visit_set [OF assms(1)] by auto
  have none: "\<not> key_covers covers p k" if "?f = None" "k \<in> fst ` set xs" for k
    using that asked_is_decided [of k xs] visit_set [OF assms(1), of "decide_all [] xs"] by (fastforce simp: find_None_iff)
  {
    assume "\<forall>k \<in> fst ` set xs. key_covers covers p k \<longrightarrow> \<not> allowed xs k"
    then have "\<not> allowed xs k" if "?f = Some (k, a)" for k a using some [OF that] by blast
    then have "toIPTAction a = ''DROP''" if "?f = Some (k, a)" for k a using some [OF that] that by simp
    then show "v = Some ''DROP''" using v by (cases ?f) auto
  }
  then show "(\<forall>k \<in> fst ` set xs. \<not> key_covers covers p k) \<Longrightarrow> v = Some ''DROP''" by blast
  assume all: "\<forall>k \<in> fst ` set xs. key_covers covers p k \<longrightarrow> allowed xs k" and ex: "\<exists>k \<in> fst ` set xs. key_covers covers p k"
  have "?f \<noteq> None" using none ex by blast
  then obtain k a where f: "?f = Some (k, a)" by auto
  have "allowed xs k" using some [OF f] all by blast
  then show "v = Some ''ACCEPT''" using some [OF f] f v by simp
qed

definition policy_asks ::
  "(Policy \<Rightarrow> Rule option list) \<Rightarrow> Network \<Rightarrow> Peer \<Rightarrow> Policy option list \<Rightarrow> (ruleDecisionKey \<times> string) list" where
  "policy_asks sel nw current policies =
     asks (peerIPByName nw) (p_Name current) (concat (map sel (List.map_filter id policies)))"

lemma Evaluate_Ok:
  assumes "Evaluate visit (Some current) (Some nw) policies = Ok fw"
  shows "fw_Ingress fw = map (emit_rule inChain) (visit (decide_all [] (policy_asks po_Ingress nw current policies))) @ [tail_rule inChain]"
    and "fw_Egress fw = map (emit_rule outChain) (visit (decide_all [] (policy_asks po_Egress nw current policies))) @ [tail_rule outChain]"
  using assms by (auto simp: Evaluate_def applyPolicies_asks policy_asks_def)


lemma chain_cmds_rules:
  "cmd \<in> set (chain_cmds ch dir trs) \<Longrightarrow> \<exists>r \<in> set (chain_rules dir trs). cmd = Append ch r"
  by (fastforce simp: chain_cmds_def chain_rules_def addRule_def Let_def)

text \<open>A run of appends that stops: what it added came before the failing command.\<close>

lemma run_cmds_stopped:
  assumes "c \<in> set pre" "\<not> ok c" "\<And>cmd. cmd \<in> set pre \<Longrightarrow> \<exists>ch r. cmd = Append ch r \<and> \<not> ipt_matches covers p r"
  shows "\<not> fst (run_cmds ok (pre @ post) t) \<and>
    (\<forall>ch. \<forall>r \<in> set (it_chains (snd (run_cmds ok (pre @ post) t)) ch) - set (it_chains t ch). \<not> ipt_matches covers p r)"
  using assms
proof (induction pre arbitrary: t)
  case (Cons cmd pre)
  show ?case
  proof (cases "ok cmd")
    case True
    obtain ch r where cmd: "cmd = Append ch r" "\<not> ipt_matches covers p r" using Cons.prems(3) [of cmd] by auto
    have "c \<in> set pre" using Cons.prems True by auto
    then have "\<not> fst (run_cmds ok (pre @ post) (apply_cmd cmd t)) \<and>
        (\<forall>ch. \<forall>r \<in> set (it_chains (snd (run_cmds ok (pre @ post) (apply_cmd cmd t))) ch) - set (it_chains (apply_cmd cmd t) ch).
           \<not> ipt_matches covers p r)"
      using Cons.IH Cons.prems by simp
    moreover have "set (it_chains (apply_cmd cmd t) ch') \<subseteq> insert r (set (it_chains t ch'))" for ch'
      using cmd by (auto simp: apply_cmd_def)
    ultimately show ?thesis using True cmd(2) by simp blast
  qed simp
qed simp

section \<open>Properties\<close>


definition fw_cidr :: "string \<Rightarrow> string \<Rightarrow> int \<Rightarrow> string \<Rightarrow> Rule" where
  "fw_cidr cidr proto port action =
     \<lparr> r_PeerNames = [], r_CIDRs = [cidr], r_Protocol = proto, r_Port = port, r_Action = action \<rparr>"

definition fw_allow :: "string \<Rightarrow> Policy" where
  "fw_allow cidr = \<lparr> po_PolicyName = ''web'', po_Action = ''ALLOW'',
     po_Ingress = [Some (fw_cidr cidr ''TCP'' 443 ''ALLOW'')], po_Egress = [] \<rparr>"

definition fw_deny :: "string \<Rightarrow> Policy" where
  "fw_deny cidr = \<lparr> po_PolicyName = ''deny'', po_Action = ''DENY'',
     po_Ingress = [Some (fw_cidr cidr [] 0 ''DENY'')], po_Egress = [] \<rparr>"

definition fw_network :: Network where
  "fw_network = \<lparr> nw_NetworkId = ''n'', nw_NetworkName = ''n'', nw_Peers = [] \<rparr>"

lemmas fw_eval = fw_allow_def fw_deny_def fw_cidr_def fw_network_def Evaluate_def applyPolicies_def applyRules_def
  applyDecision_def resolveRulePeers_def decide_def asks_def rule_asks_def map_filter_simps

lemma fw_trim: "TrimSpace ''10.0.0.0/8'' \<noteq> []" "ToLower ''TCP'' = ''tcp''"
  by code_simp+


text \<open>The verdict can depend on the order of a Go map. One policy allows a service from a network, another
  denies the network as a whole: the evaluator keeps both, since their keys differ, and the first in
  the chain wins. Both orders are possible, and one accepts the packet that the other drops.\<close>

theorem verdict_depends_on_map_order:
  assumes "TrimSpace c \<noteq> []" "covers c a"
    and "p = \<lparr> pk_established = False, pk_addr = a, pk_proto = ''tcp'', pk_dport = 443 \<rparr>"
    and "policies = [Some (fw_allow c), Some (fw_deny c)]"
  shows "\<exists>fw fw'. Evaluate (\<lambda>ds. ds) (Some current) (Some nw) policies = Ok fw \<and>
    Evaluate rev (Some current) (Some nw) policies = Ok fw' \<and>
    verdict covers (it_chains (snd (Provision (\<lambda>_. True) present iface fw t)) inChain) p = Some ''ACCEPT'' \<and>
    verdict covers (it_chains (snd (Provision (\<lambda>_. True) present iface fw' t)) inChain) p = Some ''DROP''"
proof -
  let ?ks = "[(\<lparr> rk_peer = c, rk_port = 443, rk_protocol = ''TCP'' \<rparr>, ''ALLOW''), (\<lparr> rk_peer = c, rk_port = 0, rk_protocol = [] \<rparr>, ''DENY'')]"
  have asks: "decide_all [] (policy_asks po_Ingress nw current policies) = ?ks"
    using assms(1) by (simp add: assms(4) policy_asks_def fw_eval)
  obtain fw fw' where e: "Evaluate (\<lambda>ds. ds) (Some current) (Some nw) policies = Ok fw"
      "Evaluate rev (Some current) (Some nw) policies = Ok fw'"
    by (simp add: Evaluate_def case_prod_beta)
  have chain: "it_chains (snd (Provision (\<lambda>_. True) present iface f t)) inChain =
      IptEstablished ''ACCEPT'' # map (ipt_of ''-s'') (visit ?ks) @ [IptAll ''DROP'']"
    if "Evaluate visit (Some current) (Some nw) policies = Ok f" for visit f
    using provision_chains(2) [of "\<lambda>_. True" present iface f t] Evaluate_Ok(1) [OF that] by (simp only: chain_rules_emitted asks)
  have k: "key_covers covers p \<lparr> rk_peer = c, rk_port = 443, rk_protocol = ''TCP'' \<rparr>"
    "key_covers covers p \<lparr> rk_peer = c, rk_port = 0, rk_protocol = [] \<rparr>"
    using assms(2) by (simp_all add: assms(3) key_covers_def fw_trim)
  have "toIPTAction ''ALLOW'' = ''ACCEPT''" "toIPTAction ''DENY'' = ''DROP''" by (simp add: toIPTAction_def) code_simp
  then show ?thesis
    using e chain [OF e(1)] chain [OF e(2)] k by (simp add: verdict_def assms(3))
qed

theorem verdict_depends_on_map_order_witness:
  "\<exists>fw fw'. verdict (=) (it_chains (snd (Provision (\<lambda>_. True) (\<lambda>_. True) ''wf0'' fw \<lparr> it_chains = (\<lambda>_. []), it_jumps = [] \<rparr>)) inChain)
       \<lparr> pk_established = False, pk_addr = ''10.0.0.0/8'', pk_proto = ''tcp'', pk_dport = 443 \<rparr> = Some ''ACCEPT'' \<and>
     verdict (=) (it_chains (snd (Provision (\<lambda>_. True) (\<lambda>_. True) ''wf0'' fw' \<lparr> it_chains = (\<lambda>_. []), it_jumps = [] \<rparr>)) inChain)
       \<lparr> pk_established = False, pk_addr = ''10.0.0.0/8'', pk_proto = ''tcp'', pk_dport = 443 \<rparr> = Some ''DROP''"
  using verdict_depends_on_map_order [OF fw_trim(1) _ refl refl, where covers = "(=)" and a = "''10.0.0.0/8''" and current = empty_peer
      and nw = fw_network and present = "\<lambda>_. True" and iface = "''wf0''" and t = "\<lparr> it_chains = (\<lambda>_. []), it_jumps = [] \<rparr>"]
  by blast

text \<open>A failing rule opens the firewall. The chains are emptied first and sealed last, so when adding
  any rule fails, for instance because the text of a policy's network is not an address, the code
  returns with no sealing DROP in either chain, and a new packet that no rule before the failing one
  matches falls through to whatever follows the chain.\<close>

theorem failed_provision_opens:
  assumes "\<forall>ch. ok (Flush ch)" "c \<in> set (chain_cmds inChain ''-s'' (fw_Ingress fw) @ chain_cmds outChain ''-d'' (fw_Egress fw))" "\<not> ok c"
    and "\<not> pk_established p"
    and "\<forall>r \<in> set (chain_rules ''-s'' (fw_Ingress fw) @ chain_rules ''-d'' (fw_Egress fw)). \<not> ipt_matches covers p r"
  shows "\<not> fst (Provision ok present iface fw t) \<and>
    verdict covers (it_chains (snd (Provision ok present iface fw t)) inChain) p = None \<and>
    verdict covers (it_chains (snd (Provision ok present iface fw t)) outChain) p = None"
proof -
  let ?pre = "[Append inChain (IptEstablished ''ACCEPT''), Append outChain (IptEstablished ''ACCEPT'')] @
     chain_cmds inChain ''-s'' (fw_Ingress fw) @ chain_cmds outChain ''-d'' (fw_Egress fw)"
  let ?post = "[Append inChain (IptAll ''DROP''), Append outChain (IptAll ''DROP'')]"
  obtain t' where t': "Provision ok present iface fw t = run_cmds ok (?pre @ ?post) t'" "it_chains t' inChain = []" "it_chains t' outChain = []"
    using assms(1) by (simp add: Provision_def provision_cmds_def Let_def apply_cmd_chain)
  define res where "res = run_cmds ok (?pre @ ?post) t'"
  have bad: "c \<in> set ?pre" using assms(2) by simp
  have pre: "\<exists>ch r. cmd = Append ch r \<and> \<not> ipt_matches covers p r" if cmd: "cmd \<in> set ?pre" for cmd
  proof -
    consider "\<exists>ch. cmd = Append ch (IptEstablished ''ACCEPT'')" | "cmd \<in> set (chain_cmds inChain ''-s'' (fw_Ingress fw))"
      | "cmd \<in> set (chain_cmds outChain ''-d'' (fw_Egress fw))" using cmd by auto
    then show ?thesis
    proof cases
      case 1
      then show ?thesis using assms(4) by auto
    next
      case 2
      then show ?thesis using chain_cmds_rules [OF 2] assms(5) by auto
    next
      case 3
      then show ?thesis using chain_cmds_rules [OF 3] assms(5) by auto
    qed
  qed
  have stop: "\<not> fst res \<and> (\<forall>ch. \<forall>r \<in> set (it_chains (snd res) ch) - set (it_chains t' ch). \<not> ipt_matches covers p r)"
    unfolding res_def by (rule run_cmds_stopped [where c = c and covers = covers and p = p]) (fact bad, fact assms(3), fact pre)
  have "\<not> ipt_matches covers p r" if "r \<in> set (it_chains (snd res) ch)" "it_chains t' ch = []" for r ch
    using spec [OF conjunct2 [OF stop], of ch] that by simp
  then show ?thesis
    unfolding t'(1) res_def [symmetric] verdict_def using t'(2,3) stop by (simp add: find_None_iff)
qed

definition fw_bad :: FirewallRule where
  "fw_bad = \<lparr> fw_Platform = ''linux'', fw_Ingress = [\<lparr> tf_ChainName = inChain, tf_Peers = [''not-an-address''],
     tf_Protocol = [], tf_Port = 0, tf_Action = ''DROP'' \<rparr>], fw_Egress = [] \<rparr>"

definition only_addresses :: "ipt_cmd \<Rightarrow> bool" where
  "only_addresses c = (case c of Append _ (IptMatch _ ip _ _) \<Rightarrow> ip \<noteq> ''not-an-address'' | _ \<Rightarrow> True)"

theorem failed_provision_opens_witness:
  "verdict (=) (it_chains (snd (Provision only_addresses (\<lambda>_. True) ''wf0'' fw_bad \<lparr> it_chains = (\<lambda>_. []), it_jumps = [] \<rparr>)) inChain)
     \<lparr> pk_established = False, pk_addr = ''192.0.2.7'', pk_proto = ''tcp'', pk_dport = 22 \<rparr> = None"
  using failed_provision_opens [where ok = only_addresses and fw = fw_bad and covers = "(=)"
      and c = "Append inChain (IptMatch ''-s'' ''not-an-address'' None ''DROP'')"
      and p = "\<lparr> pk_established = False, pk_addr = ''192.0.2.7'', pk_proto = ''tcp'', pk_dport = 22 \<rparr>"
      and present = "\<lambda>_. True" and iface = "''wf0''" and t = "\<lparr> it_chains = (\<lambda>_. []), it_jumps = [] \<rparr>"]
  by (simp add: only_addresses_def fw_bad_def chain_cmds_def chain_rules_def addRule_def)

end
