(* ===== verification/Net_IP.thy ===== *)
theory Net_IP
  imports Wire
begin

text \<open>
  The parts of Go's \<open>net\<close> package that address management uses: \<open>IP\<close>, \<open>IPMask\<close> and \<open>IPNet\<close> as byte
  slices, \<open>To4\<close>, \<open>Mask\<close>, \<open>Contains\<close>, \<open>CIDRMask\<close>, and the text forms. IPv4 text is modelled in full;
  reading and printing IPv6 text is left to the functions of \<open>ip6_text\<close>.
\<close>

type_synonym IP = "byte list"

record IPNet =
  net_IP :: IP
  net_Mask :: "byte list"

record ip6_text =
  parse6_addr :: "string \<Rightarrow> IP option"
  parse6 :: "string \<Rightarrow> (IP \<times> IPNet) option"
  show6 :: "IP \<Rightarrow> string"

section \<open>Addresses as bytes\<close>

definition v4InV6Prefix :: "byte list" where
  "v4InV6Prefix = replicate 10 0 @ [0xff, 0xff]"

definition To4 :: "IP \<Rightarrow> IP option" where
  "To4 ip =
     (if length ip = 4 then Some ip
      else if length ip = 16 \<and> take 12 ip = v4InV6Prefix then Some (drop 12 ip)
      else None)"

text \<open>\<open>IP.Mask\<close>; the empty list is Go's \<open>nil\<close>.\<close>

definition IP_Mask :: "IP \<Rightarrow> byte list \<Rightarrow> IP" where
  "IP_Mask ip m =
     (let m' = (if length m = 16 \<and> length ip = 4 \<and> take 12 m = replicate 12 0xff then drop 12 m else m);
          ip' = (if length m' = 4 \<and> length ip = 16 \<and> take 12 ip = v4InV6Prefix then drop 12 ip else ip)
      in if length ip' \<noteq> length m' then [] else map2 (AND) ip' m')"

definition Contains :: "IPNet \<Rightarrow> IP \<Rightarrow> bool" where
  "Contains n ip =
     (let nn = (case To4 (net_IP n) of Some x \<Rightarrow> x | None \<Rightarrow> net_IP n);
          m = (if length (net_Mask n) = 16 \<and> length nn = 4 then drop 12 (net_Mask n) else net_Mask n);
          x = (case To4 ip of Some x \<Rightarrow> x | None \<Rightarrow> ip)
      in length x = length nn \<and> length m = length nn \<and> map2 (AND) nn m = map2 (AND) x m)"

fun mask_bytes :: "nat \<Rightarrow> nat \<Rightarrow> byte list" where
  "mask_bytes 0 n = []"
| "mask_bytes (Suc l) n =
     (if 8 \<le> n then 0xff # mask_bytes l (n - 8) else NOT (drop_bit n 0xff) # mask_bytes l 0)"

definition CIDRMask :: "nat \<Rightarrow> nat \<Rightarrow> byte list" where
  "CIDRMask ones bits = mask_bytes (bits div 8) ones"

text \<open>\<open>IPMask.Size\<close> on a mask that is a run of ones.\<close>

fun count_ones :: "byte list \<Rightarrow> nat" where
  "count_ones [] = 0"
| "count_ones (b # bs) =
     (if b = 0xff then 8 + count_ones bs else length (takeWhile (\<lambda>i. bit b i) [7, 6, 5, 4, 3, 2, 1, 0]))"

definition Mask_Size :: "byte list \<Rightarrow> nat \<times> nat" where
  "Mask_Size m = (count_ones m, 8 * length m)"

section \<open>Text\<close>

fun dotted :: "IP \<Rightarrow> string" where
  "dotted [a, b, c, d] =
     dec_nat (unat a) @ CHR ''.'' # dec_nat (unat b) @ CHR ''.'' # dec_nat (unat c) @ CHR ''.'' # dec_nat (unat d)"
| "dotted _ = []"

definition IP_String :: "ip6_text \<Rightarrow> IP \<Rightarrow> string" where
  "IP_String t ip = (case To4 ip of Some b \<Rightarrow> dotted b | None \<Rightarrow> show6 t ip)"

definition parse_octet :: "string \<Rightarrow> byte option" where
  "parse_octet f =
     (if f = [] \<or> (1 < length f \<and> hd f = CHR ''0'') then None
      else case parse_digits 0 f of None \<Rightarrow> None | Some n \<Rightarrow> if n \<le> 255 then Some (of_nat n) else None)"

definition ParseIPv4 :: "string \<Rightarrow> IP option" where
  "ParseIPv4 s =
     (case Split CHR ''.'' s of
        [a, b, c, d] \<Rightarrow>
          (case (parse_octet a, parse_octet b, parse_octet c, parse_octet d) of
             (Some w, Some x, Some y, Some z) \<Rightarrow> Some [w, x, y, z]
           | _ \<Rightarrow> None)
      | _ \<Rightarrow> None)"

text \<open>\<open>net.ParseIP\<close> gives the sixteen-byte form, also for IPv4.\<close>

definition ParseIP :: "ip6_text \<Rightarrow> string \<Rightarrow> IP option" where
  "ParseIP t s =
     (if CHR '':'' \<in> set s then parse6_addr t s
      else map_option (\<lambda>b. v4InV6Prefix @ b) (ParseIPv4 s))"

definition ParseCIDR :: "ip6_text \<Rightarrow> string \<Rightarrow> (IP \<times> IPNet) option" where
  "ParseCIDR t s =
     (case Cut s ''/'' of
        None \<Rightarrow> None
      | Some (addr, len) \<Rightarrow>
          if CHR '':'' \<in> set addr then parse6 t s
          else (case (ParseIPv4 addr, if len = [] then None else parse_digits 0 len) of
                  (Some b, Some n) \<Rightarrow>
                    if n \<le> 32 then
                      Some (v4InV6Prefix @ b,
                            \<lparr> net_IP = IP_Mask (v4InV6Prefix @ b) (CIDRMask n 32), net_Mask = CIDRMask n 32 \<rparr>)
                    else None
                | _ \<Rightarrow> None))"

section \<open>IPv4 addresses as 32-bit integers\<close>

text \<open>The mask of a prefix length, as a word.\<close>

definition mask32 :: "nat \<Rightarrow> u32" where
  "mask32 n = push_bit (32 - n) (- 1)"

lemma length_mask_bytes [simp]: "length (mask_bytes l n) = l"
  by (induction l arbitrary: n) auto

lemma bit_shifted_byte:
  "k + 8 \<le> 32 \<Longrightarrow> bit (push_bit k (ucast (b :: byte)) :: u32) n \<longleftrightarrow> k \<le> n \<and> n < k + 8 \<and> bit b (n - k)"
  by (auto simp: bit_simps dest: bit_imp_le_length)

lemma bit_low_byte: "bit (ucast (b :: byte) :: u32) n \<longleftrightarrow> n < 8 \<and> bit b n"
  by (auto simp: bit_simps dest: bit_imp_le_length)

lemma be_Uint32_and:
  "be_Uint32 [a, b, c, d] = Some v \<Longrightarrow> be_Uint32 [e, f, g, h] = Some w \<Longrightarrow>
   be_Uint32 [a AND e, b AND f, c AND g, d AND h] = Some (v AND w)"
proof (simp, rule bit_word_eqI)
  fix n :: nat
  let ?l = "push_bit 24 (ucast (a AND e)) OR push_bit 16 (ucast (b AND f)) OR push_bit 8 (ucast (c AND g)) OR ucast (d AND h) :: u32"
  assume v: "push_bit 24 (ucast a) OR push_bit 16 (ucast b) OR push_bit 8 (ucast c) OR ucast d = v"
    and w: "push_bit 24 (ucast e) OR push_bit 16 (ucast f) OR push_bit 8 (ucast g) OR ucast h = w"
  consider "n < 8" | "8 \<le> n" "n < 16" | "16 \<le> n" "n < 24" | "24 \<le> n" by linarith
  then show "bit ?l n = bit (v AND w) n"
    by cases (auto simp: v [symmetric] w [symmetric] bit_or_iff bit_and_iff bit_shifted_byte bit_low_byte)
qed

lemma be_Uint32_mask_all: "list_all (\<lambda>n. be_Uint32 (mask_bytes 4 n) = Some (mask32 n)) [0..<33]"
  by code_simp

lemma count_ones_mask_all: "list_all (\<lambda>n. count_ones (mask_bytes 4 n) = n) [0..<33]"
  by code_simp

lemma be_Uint32_mask: "n \<le> 32 \<Longrightarrow> be_Uint32 (mask_bytes 4 n) = Some (mask32 n)"
  using be_Uint32_mask_all by (simp only: list_all_iff set_upt atLeastLessThan_iff) auto

lemma count_ones_mask: "n \<le> 32 \<Longrightarrow> count_ones (mask_bytes 4 n) = n"
  using count_ones_mask_all by (simp only: list_all_iff set_upt atLeastLessThan_iff) auto

lemma and_mask32: "a AND mask32 n = push_bit (32 - n) (drop_bit (32 - n) a)"
  by (rule bit_word_eqI) (auto simp: mask32_def bit_simps)

lemma unat_u32_less: "unat (a :: u32) < 2 ^ 32"
  using unsigned_less [of a] by simp

lemma unat_of_nat_u32: "n < 2 ^ 32 \<Longrightarrow> unat (of_nat n :: u32) = n"
  by (simp add: unsigned_of_nat take_bit_eq_mod)

lemma unat_and_mask32: "unat (a AND mask32 n) = unat a div 2 ^ (32 - n) * 2 ^ (32 - n)"
proof -
  have "unat a div 2 ^ (32 - n) * 2 ^ (32 - n) \<le> unat a"
    by (simp add: div_times_less_eq_dividend)
  also note unat_u32_less
  finally show ?thesis
    unfolding and_mask32 unsigned_push_bit_eq unsigned_drop_bit_eq
    using unat_u32_less [of a] by (simp add: push_bit_eq_mult drop_bit_eq_div take_bit_eq_mod)
qed

lemma and_mask32_eq_iff:
  "a AND mask32 n = b AND mask32 n \<longleftrightarrow> unat a div 2 ^ (32 - n) = unat b div 2 ^ (32 - n)"
  by (simp add: word_unat_eq_iff unat_and_mask32)

lemma four_bytes:
  assumes "length bs = 4"
  obtains a b c d where "bs = [a, b, c, d]"
proof -
  have "length bs = Suc (Suc (Suc (Suc 0)))"
    using assms by simp
  then show thesis
    unfolding length_Suc_conv using that by auto
qed

lemma be_Uint32_inject:
  assumes "length x = 4" "length y = 4" "be_Uint32 x = be_Uint32 y"
  shows "x = y"
proof -
  obtain a b c d e f g h where "x = [a, b, c, d]" "y = [e, f, g, h]"
    using assms four_bytes by metis
  with assms(3) show ?thesis
    using be_Put_Uint32 [of a b c d "[]"] be_Put_Uint32 [of e f g h "[]"] by (metis be_Uint32.simps(1))
qed

definition v4 :: "IP \<Rightarrow> u32" where
  "v4 x = the (be_Uint32 x)"

lemma be_Uint32_v4: "length x = 4 \<Longrightarrow> be_Uint32 x = Some (v4 x)"
  by (rule four_bytes [of x]) (simp_all add: v4_def)

lemma v4_inject: "length x = 4 \<Longrightarrow> length y = 4 \<Longrightarrow> v4 x = v4 y \<longleftrightarrow> x = y"
  using be_Uint32_inject be_Uint32_v4 by metis

lemma v4_Put [simp]: "v4 (be_PutUint32 w) = w"
  using be_Uint32_Put [of w "[]"] by (simp add: v4_def del: be_Uint32_Put)

lemma Put_v4: "length x = 4 \<Longrightarrow> be_PutUint32 (v4 x) = x"
  by (simp add: v4_inject [symmetric])

lemma v4_map2_and: "length x = 4 \<Longrightarrow> length m = 4 \<Longrightarrow> v4 (map2 (AND) x m) = v4 x AND v4 m"
  using be_Uint32_and by (elim four_bytes) (simp add: v4_def)

lemma v4_mask: "n \<le> 32 \<Longrightarrow> v4 (CIDRMask n 32) = mask32 n"
  by (simp add: v4_def CIDRMask_def be_Uint32_mask)

lemma length_CIDRMask [simp]: "length (CIDRMask n 32) = 4"
  by (simp add: CIDRMask_def)

section \<open>Networks\<close>

text \<open>The network that \<open>ParseCIDR\<close> gives for a base address and a prefix length.\<close>

definition v4_net :: "IP \<Rightarrow> nat \<Rightarrow> IPNet" where
  "v4_net b n = \<lparr> net_IP = IP_Mask (v4InV6Prefix @ b) (CIDRMask n 32), net_Mask = CIDRMask n 32 \<rparr>"

lemma length_v4InV6Prefix [simp]: "length v4InV6Prefix = 12"
  by (simp add: v4InV6Prefix_def)

lemma To4_v4 [simp]: "length b = 4 \<Longrightarrow> To4 b = Some b"
  by (simp add: To4_def)

lemma To4_mapped [simp]: "length b = 4 \<Longrightarrow> To4 (v4InV6Prefix @ b) = Some b"
  by (simp add: To4_def)

lemma IP_Mask_mapped:
  "length b = 4 \<Longrightarrow> IP_Mask (v4InV6Prefix @ b) (CIDRMask n 32) = map2 (AND) b (CIDRMask n 32)"
  by (simp add: IP_Mask_def Let_def)

lemma length_IP_Mask_mapped [simp]: "length b = 4 \<Longrightarrow> length (IP_Mask (v4InV6Prefix @ b) (CIDRMask n 32)) = 4"
  by (simp add: IP_Mask_mapped)

lemma v4_IP_Mask: "length b = 4 \<Longrightarrow> n \<le> 32 \<Longrightarrow> v4 (IP_Mask (v4InV6Prefix @ b) (CIDRMask n 32)) = v4 b AND mask32 n"
  by (simp add: IP_Mask_mapped v4_map2_and v4_mask)

lemma Contains_v4_net:
  assumes "length b = 4" "n \<le> 32" "length x = 4"
  shows "Contains (v4_net b n) x \<longleftrightarrow> unat (v4 x) div 2 ^ (32 - n) = unat (v4 b) div 2 ^ (32 - n)"
proof -
  let ?m = "CIDRMask n 32" let ?nn = "IP_Mask (v4InV6Prefix @ b) (CIDRMask n 32)"
  have "Contains (v4_net b n) x \<longleftrightarrow> map2 (AND) ?nn ?m = map2 (AND) x ?m"
    using assms by (simp add: Contains_def v4_net_def Let_def)
  also have "\<dots> \<longleftrightarrow> v4 ?nn AND mask32 n = v4 x AND mask32 n"
    using assms by (simp add: v4_inject [symmetric] v4_map2_and v4_mask)
  also have "\<dots> \<longleftrightarrow> v4 b AND mask32 n = v4 x AND mask32 n"
    using assms by (simp add: v4_IP_Mask and.assoc)
  finally show ?thesis
    by (auto simp: and_mask32_eq_iff)
qed

section \<open>IPv4 text round trip\<close>

lemma digit_not_dot: "c \<in> char_of ` {48..57 :: nat} \<Longrightarrow> c \<noteq> CHR ''.'' \<and> c \<noteq> CHR '':'' \<and> c \<noteq> CHR ''/''"
  by (auto simp: char_of_eq_iff take_bit_eq_mod)

lemma dec_nat_no_sep: "CHR ''.'' \<notin> set (dec_nat n)" "CHR '':'' \<notin> set (dec_nat n)" "CHR ''/'' \<notin> set (dec_nat n)"
  using set_dec_nat digit_not_dot by blast+

lemma hd_dec_nat: "0 < n \<Longrightarrow> hd (dec_nat n) \<noteq> CHR ''0''"
proof (induction n rule: dec_nat.induct)
  case (1 n)
  show ?case
  proof (cases "n < 10")
    case True
    then show ?thesis
      using 1(2) by (subst dec_nat.simps) (simp add: char_of_eq_iff take_bit_eq_mod)
  next
    case False
    then have "0 < n div 10" by (simp add: div_greater_zero_iff)
    with 1(1) False show ?thesis by (subst dec_nat.simps) simp
  qed
qed

lemma parse_octet_dec: "parse_octet (dec_nat (unat (b :: byte))) = Some b"
proof -
  have "1 < length (dec_nat (unat b)) \<Longrightarrow> hd (dec_nat (unat b)) \<noteq> CHR ''0''"
    by (cases "unat b = 0") (auto simp: hd_dec_nat, simp add: dec_nat.simps)
  then show ?thesis
    using unat_byte_less [of b] by (auto simp: parse_octet_def parse_digits_dec_nat)
qed

lemma Split_dotted:
  "Split CHR ''.'' (dotted [a, b, c, d]) =
     [dec_nat (unat a), dec_nat (unat b), dec_nat (unat c), dec_nat (unat d)]"
  by (simp add: Split_append_sep Split_no_sep dec_nat_no_sep)

lemma ParseIPv4_dotted: "length b = 4 \<Longrightarrow> ParseIPv4 (dotted b) = Some b"
  by (rule four_bytes [of b]) (simp_all add: ParseIPv4_def Split_dotted parse_octet_dec del: dotted.simps)

lemma dotted_no_colon: "length b = 4 \<Longrightarrow> CHR '':'' \<notin> set (dotted b)"
  by (rule four_bytes [of b]) (simp_all add: dec_nat_no_sep)

lemma dotted_not_Nil: "length b = 4 \<Longrightarrow> dotted b \<noteq> []"
  by (rule four_bytes [of b]) simp_all

lemma ParseIP_dotted: "length b = 4 \<Longrightarrow> ParseIP t (dotted b) = Some (v4InV6Prefix @ b)"
  by (simp add: ParseIP_def dotted_no_colon ParseIPv4_dotted)

end
