(* ===== verification/Go_Loop.thy ===== *)
theory Go_Loop
  imports Main
begin

text \<open>
  Go's \<open>for\<close> loop whose body may return from the enclosing function. The state of the loop is \<open>'s\<close>,
  the value of an early return is \<open>'r\<close>; \<open>Some (Inl r)\<close> is an early return, \<open>Some (Inr s)\<close> the state when
  the condition failed, and \<open>None\<close> a loop that never ends. Three rules carry the proofs: an
  invariant rule for what holds when the loop ends, a variant rule that shows it does end, and a
  divergence rule that shows it does not.
\<close>

partial_function (option) for_loop :: "('s \<Rightarrow> bool) \<Rightarrow> ('s \<Rightarrow> 'r + 's) \<Rightarrow> 's \<Rightarrow> ('r + 's) option" where
  "for_loop c b s =
     (if c s then (case b s of Inl r \<Rightarrow> Some (Inl r) | Inr s' \<Rightarrow> for_loop c b s') else Some (Inr s))"

lemma for_loop_stop: "\<not> c s \<Longrightarrow> for_loop c b s = Some (Inr s)"
  by (simp add: for_loop.simps)

lemma for_loop_return: "c s \<Longrightarrow> b s = Inl r \<Longrightarrow> for_loop c b s = Some (Inl r)"
  by (simp add: for_loop.simps)

lemma for_loop_next: "c s \<Longrightarrow> b s = Inr s' \<Longrightarrow> for_loop c b s = for_loop c b s'"
  by (subst for_loop.simps) simp

lemma for_loop_rule:
  assumes "for_loop c b s = Some y" "P s"
    and "\<And>s s'. P s \<Longrightarrow> c s \<Longrightarrow> b s = Inr s' \<Longrightarrow> P s'"
    and "\<And>s r. P s \<Longrightarrow> c s \<Longrightarrow> b s = Inl r \<Longrightarrow> Q (Inl r)"
    and "\<And>s. P s \<Longrightarrow> \<not> c s \<Longrightarrow> Q (Inr s)"
  shows "Q y"
proof -
  have "c = c \<longrightarrow> b = b \<longrightarrow> P s \<longrightarrow> Q y"
  proof (rule for_loop.raw_induct [where P = "\<lambda>c' b' s y. c' = c \<longrightarrow> b' = b \<longrightarrow> P s \<longrightarrow> Q y", OF _ assms(1)], intro impI)
    fix loop c' b' s y
    assume IH: "\<And>c' b' s y. loop c' b' s = Some y \<Longrightarrow> c' = c \<longrightarrow> b' = b \<longrightarrow> P s \<longrightarrow> Q y"
      and body: "(if c' s then case b' s of Inl r \<Rightarrow> Some (Inl r) | Inr s' \<Rightarrow> loop c' b' s' else Some (Inr s)) = Some y"
      and eqs: "c' = c" "b' = b" and p: "P s"
    show "Q y"
    proof (cases "c s")
      case True
      then show ?thesis
        using body p assms(3,4) IH [of c b] by (cases "b s") (auto simp: eqs)
    next
      case False
      then show ?thesis
        using body p assms(5) by (auto simp: eqs)
    qed
  qed
  with assms(2) show ?thesis by blast
qed

lemma for_loop_terminates:
  assumes "P s"
    and "\<And>s s'. P s \<Longrightarrow> c s \<Longrightarrow> b s = Inr s' \<Longrightarrow> P s' \<and> (m s' :: nat) < m s"
  shows "\<exists>y. for_loop c b s = Some y"
  using assms(1)
proof (induction "m s" arbitrary: s rule: less_induct)
  case less
  show ?case
  proof (cases "c s")
    case True
    show ?thesis
    proof (cases "b s")
      case (Inl r)
      with True show ?thesis by (simp add: for_loop_return)
    next
      case (Inr s')
      with True less assms(2) [OF less(2) True Inr] show ?thesis
        by (simp add: for_loop_next)
    qed
  qed (simp add: for_loop_stop)
qed

lemma for_loop_diverges:
  assumes "P s" and "\<And>s. P s \<Longrightarrow> c s \<and> (\<exists>s'. b s = Inr s' \<and> P s')"
  shows "for_loop c b s = None"
proof (rule ccontr)
  assume "for_loop c b s \<noteq> None"
  then obtain y where y: "for_loop c b s = Some y" by blast
  have False
    by (rule for_loop_rule [OF y, of P "\<lambda>_. False"]) (use assms in \<open>fastforce+\<close>)
  then show False .
qed

text \<open>A loop whose body goes on at \<open>k\<close> successive states is at the last of them.\<close>

lemma for_loop_skip:
  assumes "\<And>j. j < k \<Longrightarrow> c (f j) \<and> b (f j) = Inr (f (Suc j))"
  shows "for_loop c b (f 0) = for_loop c b (f k)"
  using assms
proof (induction k)
  case (Suc k)
  then show ?case
    using for_loop_next [of c "f k" b "f (Suc k)"] by simp
qed simp

end
