(* ===== verification/Ipam.thy ===== *)
theory Ipam
  imports Net_IP Go_Loop
begin

text \<open>
  Address management (\<open>internal/agent/ipam/ipam.go\<close>): a subnet per network out of a global pool, an
  address per peer out of its network. Allocation state lives in the Kubernetes API server and is
  reached only through its client, so the client's calls are the operations of \<open>ipam_api\<close> over an
  abstract cluster state \<open>'w\<close>. What the code relies on is stated as \<open>endpoint_api_ok\<close>: \<open>Create\<close> succeeds
  only for a name that is not taken and then adds that object alone, and a failed call changes
  nothing. Nothing is assumed of \<open>List\<close>, which reads a cache that may lag behind.

  Addresses are kept at 32 bits with the wrap-around of the code, and the two scans are Go loops
  that may fail to end.
\<close>

section \<open>Objects\<close>

record LatticeGlobalIPPool =
  pool_CIDR :: string
  pool_SubnetMask :: int

record LatticeSubnetAllocation =
  sa_Name :: string
  sa_NetworkName :: string
  sa_CIDR :: string

record LatticeEndpoint =
  le_Name :: string
  le_Namespace :: string
  le_Address :: string
  le_PeerRef :: string

datatype kube_error = KAlreadyExists | KNotFound | KConflict | KOther string

datatype ipam_error =
    InvalidPoolCIDR | InvalidNetworkCIDR | NoAvailableSubnet | NoAvailableIP string | IpamApi kube_error

record 'w ipam_api =
  api_ListSubnets :: "'w \<Rightarrow> kube_error + LatticeSubnetAllocation list"
  api_CreateSubnet :: "'w \<Rightarrow> LatticeSubnetAllocation \<Rightarrow> kube_error option \<times> 'w"
  api_ListEndpoints :: "'w \<Rightarrow> string \<Rightarrow> kube_error + LatticeEndpoint list"
  api_CreateEndpoint :: "'w \<Rightarrow> LatticeEndpoint \<Rightarrow> kube_error option \<times> 'w"
  api_DeleteEndpoint :: "'w \<Rightarrow> string \<Rightarrow> string \<Rightarrow> kube_error option \<times> 'w"
  api_SetOwner :: "kube_error option"

section \<open>Helpers\<close>

definition ipToHex :: "IP \<Rightarrow> string" where
  "ipToHex ip = (case To4 ip of None \<Rightarrow> [] | Some b \<Rightarrow> hex_EncodeToString b)"

definition ipToUint32 :: "IP \<Rightarrow> u32" where
  "ipToUint32 ip = (case To4 ip of None \<Rightarrow> 0 | Some b \<Rightarrow> the (be_Uint32 b))"

definition uint32ToIP :: "u32 \<Rightarrow> IP" where
  "uint32ToIP nn = be_PutUint32 nn"

definition nextSubnet :: "IP \<Rightarrow> int \<Rightarrow> IP" where
  "nextSubnet ip maskBits = uint32ToIP (ipToUint32 ip + push_bit (unat (32 - (of_int maskBits :: u32))) 1)"

section \<open>Subnets\<close>

definition FindFirstFree ::
  "'w ipam_api \<Rightarrow> ip6_text \<Rightarrow> LatticeGlobalIPPool \<Rightarrow> 'w \<Rightarrow> (ipam_error + IP) option" where
  "FindFirstFree api t pool w =
     (case ParseCIDR t (pool_CIDR pool) of
        None \<Rightarrow> Some (Err InvalidPoolCIDR)
      | Some (ip, ipnet) \<Rightarrow>
          let startIP = IP_Mask ip (net_Mask ipnet) in
          (case api_ListSubnets api w of
             Inl e \<Rightarrow> Some (Err (IpamApi e))
           | Inr allAllocations \<Rightarrow>
               let used = set (map (\<lambda>a. TrimPrefix (sa_Name a) ''subnet-'') allAllocations) in
               (case for_loop (Contains ipnet)
                       (\<lambda>cur. if ipToHex cur \<notin> used then Inl cur
                               else Inr (nextSubnet cur (pool_SubnetMask pool))) startIP of
                  None \<Rightarrow> None
                | Some (Inl cur) \<Rightarrow> Some (Ok cur)
                | Some (Inr _) \<Rightarrow> Some (Err NoAvailableSubnet))))"

definition maxRetries :: nat where
  "maxRetries = 10"

fun subnet_attempts ::
  "'w ipam_api \<Rightarrow> ip6_text \<Rightarrow> string \<Rightarrow> LatticeGlobalIPPool \<Rightarrow> nat \<Rightarrow> 'w \<Rightarrow> ((ipam_error + string) \<times> 'w) option" where
  "subnet_attempts api t networkName pool 0 w = Some (Err NoAvailableSubnet, w)"
| "subnet_attempts api t networkName pool (Suc k) w =
     (case FindFirstFree api t pool w of
        None \<Rightarrow> None
      | Some (Inl e) \<Rightarrow> Some (Err e, w)
      | Some (Inr ip) \<Rightarrow>
          let subnetCIDR = IP_String t ip @ ''/'' @ dec_int (pool_SubnetMask pool);
              alloc = \<lparr> sa_Name = ''subnet-'' @ ipToHex ip, sa_NetworkName = networkName, sa_CIDR = subnetCIDR \<rparr>
          in (case api_SetOwner api of
                Some e \<Rightarrow> Some (Err (IpamApi e), w)
              | None \<Rightarrow>
                  (case api_CreateSubnet api w alloc of
                     (None, w') \<Rightarrow> Some (Ok subnetCIDR, w')
                   | (Some KAlreadyExists, w') \<Rightarrow> subnet_attempts api t networkName pool k w'
                   | (Some e, w') \<Rightarrow> Some (Err (IpamApi e), w'))))"

definition AllocateSubnet ::
  "'w ipam_api \<Rightarrow> ip6_text \<Rightarrow> string \<Rightarrow> LatticeGlobalIPPool \<Rightarrow> 'w \<Rightarrow> ((ipam_error + string) \<times> 'w) option" where
  "AllocateSubnet api t networkName pool w = subnet_attempts api t networkName pool maxRetries w"

section \<open>Addresses\<close>

text \<open>One turn of the scan in \<open>AllocateIP\<close>, over the pair of the counter and the cluster state.\<close>

definition alloc_body ::
  "'w ipam_api \<Rightarrow> ip6_text \<Rightarrow> string set \<Rightarrow> string \<Rightarrow> string \<Rightarrow> u32 \<times> 'w \<Rightarrow> ((ipam_error + string) \<times> 'w) + (u32 \<times> 'w)" where
  "alloc_body api t used ns peer = (\<lambda>(i, w).
     let currentIP = uint32ToIP i;
         hexName = ''ip-'' @ ipToHex currentIP
     in if hexName \<in> used then Inr (i + 1, w)
        else
          let endpoint = \<lparr> le_Name = hexName, le_Namespace = ns, le_Address = IP_String t currentIP, le_PeerRef = peer \<rparr>
          in (case api_SetOwner api of
                Some e \<Rightarrow> Inl (Err (IpamApi e), w)
              | None \<Rightarrow>
                  (case api_CreateEndpoint api w endpoint of
                     (Some KAlreadyExists, w') \<Rightarrow> Inr (i + 1, w')
                   | (Some e, w') \<Rightarrow> Inl (Err (IpamApi e), w')
                   | (None, w') \<Rightarrow> Inl (Ok (IP_String t currentIP), w'))))"

text \<open>\<open>AllocateIP\<close> for a peer of namespace \<open>ns\<close> in a network with the given name and active CIDR.\<close>

definition AllocateIP ::
  "'w ipam_api \<Rightarrow> ip6_text \<Rightarrow> string \<Rightarrow> string \<Rightarrow> string \<Rightarrow> string \<Rightarrow> 'w \<Rightarrow> ((ipam_error + string) \<times> 'w) option" where
  "AllocateIP api t networkName activeCIDR ns peer w =
     (case ParseCIDR t activeCIDR of
        None \<Rightarrow> Some (Err InvalidNetworkCIDR, w)
      | Some (ip, ipnet) \<Rightarrow>
          (case api_ListEndpoints api w ns of
             Inl e \<Rightarrow> Some (Err (IpamApi e), w)
           | Inr existing \<Rightarrow>
               (case find (\<lambda>a. le_PeerRef a = peer) existing of
                  Some a \<Rightarrow> Some (Ok (le_Address a), w)
                | None \<Rightarrow>
                    let used = set (map le_Name existing);
                        base = ipToUint32 (IP_Mask ip (net_Mask ipnet));
                        startInt = base + 2;
                        (ones, bits) = Mask_Size (net_Mask ipnet);
                        totalIPs = push_bit (bits - ones) 1;
                        endInt = base + totalIPs - 2
                    in (case for_loop (\<lambda>(i, _). i \<le> endInt) (alloc_body api t used ns peer) (startInt, w) of
                          None \<Rightarrow> None
                        | Some (Inl r) \<Rightarrow> Some r
                        | Some (Inr (_, w')) \<Rightarrow> Some (Err (NoAvailableIP networkName), w')))))"

definition ReleaseIP ::
  "'w ipam_api \<Rightarrow> ip6_text \<Rightarrow> string \<Rightarrow> string \<Rightarrow> 'w \<Rightarrow> kube_error option \<times> 'w" where
  "ReleaseIP api t ns allocatedAddress w =
     (if allocatedAddress = [] then (None, w)
      else case ParseIP t allocatedAddress of
             None \<Rightarrow> (None, w)
           | Some ip \<Rightarrow>
               (case api_DeleteEndpoint api w ns (''ip-'' @ ipToHex ip) of
                  (Some KNotFound, w') \<Rightarrow> (None, w')
                | (r, w') \<Rightarrow> (r, w')))"

section \<open>Addresses and their integers\<close>

interpretation ipv4: codec uint32ToIP be_Uint32 4
proof
  fix v :: u32 and bs rest :: "byte list"
  show "length (uint32ToIP v) = 4" by (simp add: uint32ToIP_def)
  show "be_Uint32 (uint32ToIP v @ rest) = Some v" by (simp add: uint32ToIP_def)
  show "be_Uint32 bs = None" if "length bs < 4"
    using that by (cases bs rule: be_Uint32.cases) auto
  show "uint32ToIP v = take 4 bs" if "be_Uint32 bs = Some v"
    using that be_Put_Uint32 by (cases bs rule: be_Uint32.cases) (auto simp: uint32ToIP_def simp del: be_Uint32.simps(1))
qed

lemma ipToUint32_v4 [simp]: "length b = 4 \<Longrightarrow> ipToUint32 b = v4 b"
  by (simp add: ipToUint32_def v4_def)

lemma ipToHex_v4 [simp]: "length b = 4 \<Longrightarrow> ipToHex b = hex_EncodeToString b"
  by (simp add: ipToHex_def)

lemma length_uint32ToIP [simp]: "length (uint32ToIP v) = 4"
  by (rule ipv4.length_enc)

lemma v4_uint32ToIP [simp]: "v4 (uint32ToIP v) = v"
  by (simp add: uint32ToIP_def)

lemma uint32ToIP_v4: "length b = 4 \<Longrightarrow> uint32ToIP (v4 b) = b"
  by (simp add: uint32ToIP_def Put_v4)

text \<open>The names of the objects determine the addresses.\<close>

definition ip_name :: "u32 \<Rightarrow> string" where
  "ip_name i = ''ip-'' @ ipToHex (uint32ToIP i)"

lemma ip_name_inject [simp]: "ip_name i = ip_name j \<longleftrightarrow> i = j"
  by (simp add: ip_name_def ipv4.enc_inject)

lemma nextSubnet_step:
  assumes "m \<le> 32" "length b = 4"
  shows "nextSubnet b (int m) = uint32ToIP (v4 b + of_nat (2 ^ (32 - m)))"
proof -
  have "unat (32 - (of_int (int m) :: u32)) = 32 - m"
  proof -
    have "(32 :: u32) - of_int (int m) = of_nat (32 - m)"
      using assms(1) by (simp add: of_nat_diff)
    then show ?thesis
      by (simp add: unsigned_of_nat take_bit_eq_mod)
  qed
  then show ?thesis
    using assms(2) by (simp add: nextSubnet_def push_bit_eq_mult)
qed

lemma zero_step:
  assumes "m = 0 \<or> 33 \<le> m \<and> m < 2 ^ 32" "length b = 4"
  shows "nextSubnet b m = b"
proof -
  have "32 \<le> unat (32 - (of_int m :: u32))"
  proof (cases "m = 0")
    case False
    then have m: "33 \<le> m" "m < 2 ^ 32"
      using assms(1) by auto
    have "(32 :: u32) - of_int m = of_int (2 ^ 32 + 32 - m)"
      by simp
    also have "\<dots> = of_nat (nat (2 ^ 32 + 32 - m))"
      using m by (simp add: of_nat_nat)
    finally have e: "(32 :: u32) - of_int m = of_nat (nat (2 ^ 32 + 32 - m))" .
    have "nat (2 ^ 32 + 32 - m) < 2 ^ 32"
      using m by (simp add: nat_less_iff)
    then have "unat ((32 :: u32) - of_int m) = nat (2 ^ 32 + 32 - m)"
      unfolding e by (rule unat_of_nat_u32)
    then show ?thesis
      using m by simp
  qed simp
  then have z: "push_bit (unat (32 - (of_int m :: u32))) (1 :: u32) = 0"
    by (intro bit_word_eqI) (simp add: bit_simps)
  show ?thesis
    unfolding nextSubnet_def z using assms(2) by (simp add: uint32ToIP_v4)
qed

section \<open>The subnets of a pool\<close>

text \<open>The base address of the network with prefix length \<open>n\<close>, and the \<open>k\<close>th subnet of length \<open>m\<close>.\<close>

definition pool_base :: "IP \<Rightarrow> nat \<Rightarrow> nat" where
  "pool_base b n = unat (v4 b) div 2 ^ (32 - n) * 2 ^ (32 - n)"

definition subnet_at :: "IP \<Rightarrow> nat \<Rightarrow> nat \<Rightarrow> nat \<Rightarrow> IP" where
  "subnet_at b n m k = uint32ToIP (of_nat (pool_base b n + k * 2 ^ (32 - m)))"

lemma length_subnet_at [simp]: "length (subnet_at b n m k) = 4"
  by (simp add: subnet_at_def)

lemma pool_base_bound:
  assumes "n \<le> 32"
  shows "pool_base b n + 2 ^ (32 - n) \<le> 2 ^ 32"
proof -
  have "unat (v4 b) < 2 ^ n * 2 ^ (32 - n)"
    using unat_u32_less [of "v4 b"] assms by (simp flip: power_add)
  then have "unat (v4 b) div 2 ^ (32 - n) < 2 ^ n"
    by (simp add: less_mult_imp_div_less)
  then have "(unat (v4 b) div 2 ^ (32 - n) + 1) * 2 ^ (32 - n) \<le> 2 ^ n * 2 ^ (32 - n)"
    by (intro mult_le_mono1) simp
  then show ?thesis
    using assms by (simp add: pool_base_def flip: power_add)
qed

lemma subnet_span:
  assumes "n \<le> m" "m \<le> 32" "k < 2 ^ (m - n)"
  shows "k * 2 ^ (32 - m) + 2 ^ (32 - m) \<le> (2 :: nat) ^ (32 - n)"
proof -
  have "(k + 1) * 2 ^ (32 - m) \<le> 2 ^ (m - n) * (2 :: nat) ^ (32 - m)"
    using assms(3) by (intro mult_le_mono1) simp
  then show ?thesis
    using assms(1,2) by (simp flip: power_add)
qed

lemma unat_subnet_at:
  assumes "n \<le> m" "m \<le> 32" "k < 2 ^ (m - n)"
  shows "unat (v4 (subnet_at b n m k)) = pool_base b n + k * 2 ^ (32 - m)"
proof -
  have "0 < (2 :: nat) ^ (32 - m)" by simp
  then have "pool_base b n + k * 2 ^ (32 - m) < 2 ^ 32"
    using pool_base_bound [of n b] subnet_span [OF assms] assms by linarith
  then show ?thesis
    by (simp only: subnet_at_def v4_uint32ToIP unat_of_nat_u32)
qed

lemma subnet_at_in_pool:
  assumes "length b = 4" "n \<le> m" "m \<le> 32" "k < 2 ^ (m - n)"
  shows "Contains (v4_net b n) (subnet_at b n m k)"
proof -
  have "0 < (2 :: nat) ^ (32 - m)" by simp
  then have "k * 2 ^ (32 - m) < (2 :: nat) ^ (32 - n)"
    using subnet_span [OF assms(2-4)] by linarith
  then have "(pool_base b n + k * 2 ^ (32 - m)) div 2 ^ (32 - n) = unat (v4 b) div 2 ^ (32 - n)"
    by (simp add: pool_base_def)
  moreover have "length (subnet_at b n m k) = 4"
    by (simp add: subnet_at_def)
  ultimately show ?thesis
    using assms by (simp add: Contains_v4_net unat_subnet_at)
qed

lemma subnet_at_0: "length b = 4 \<Longrightarrow> n \<le> 32 \<Longrightarrow> IP_Mask (v4InV6Prefix @ b) (CIDRMask n 32) = subnet_at b n m 0"
proof -
  assume b: "length b = 4" "n \<le> 32"
  have "(of_nat (pool_base b n) :: u32) = v4 b AND mask32 n"
    by (metis pool_base_def unat_and_mask32 unat_u32_less unat_of_nat_u32 word_unat_eq_iff)
  then show ?thesis
    using b by (simp add: subnet_at_def v4_inject [symmetric] v4_IP_Mask)
qed

lemma nextSubnet_at:
  "m \<le> 32 \<Longrightarrow> nextSubnet (subnet_at b n m k) (int m) = subnet_at b n m (Suc k)"
  by (simp add: nextSubnet_step subnet_at_def algebra_simps)

lemma subnet_at_end:
  assumes "length b = 4" "1 \<le> n" "n \<le> m" "m \<le> 32"
  shows "\<not> Contains (v4_net b n) (subnet_at b n m (2 ^ (m - n)))"
proof -
  let ?q = "unat (v4 b) div 2 ^ (32 - n)"
  have e: "pool_base b n + 2 ^ (m - n) * 2 ^ (32 - m) = (?q + 1) * 2 ^ (32 - n)"
    using assms by (simp add: pool_base_def flip: power_add)
  have "unat (v4 (subnet_at b n m (2 ^ (m - n)))) div 2 ^ (32 - n) \<noteq> ?q"
  proof (cases "(?q + 1) * 2 ^ (32 - n) < 2 ^ 32")
    case True
    then have "unat (v4 (subnet_at b n m (2 ^ (m - n)))) = (?q + 1) * 2 ^ (32 - n)"
      by (simp only: subnet_at_def v4_uint32ToIP e unat_of_nat_u32)
    then show ?thesis by simp
  next
    case False
    then have eq: "(?q + 1) * 2 ^ (32 - n) = 2 ^ 32"
      using pool_base_bound [of n b] assms by (simp add: pool_base_def)
    then have "v4 (subnet_at b n m (2 ^ (m - n))) = 0"
      by (simp only: subnet_at_def v4_uint32ToIP e) (simp only: eq, simp)
    moreover have "?q \<noteq> 0"
    proof
      assume "?q = 0"
      with eq have "(2 :: nat) ^ (32 - n) = 2 ^ 32" by simp
      moreover have "(2 :: nat) ^ (32 - n) < 2 ^ 32"
        using assms(2) by (intro power_strict_increasing) auto
      ultimately show False by simp
    qed
    ultimately show ?thesis by simp
  qed
  then show ?thesis
    using assms by (simp add: Contains_v4_net subnet_at_def)
qed

lemma subnets_disjoint:
  assumes "n \<le> m" "m \<le> 32" "j < 2 ^ (m - n)" "k < 2 ^ (m - n)" "j \<noteq> k"
  shows "\<not> Contains (v4_net (subnet_at b n m j) m) (subnet_at b n m k)"
proof -
  let ?s = "(2 :: nat) ^ (32 - m)"
  have "?s dvd 2 ^ (32 - n)"
    using assms by (simp add: le_imp_power_dvd)
  then obtain c where c: "pool_base b n = c * ?s"
    unfolding pool_base_def by (metis dvd_def dvd_mult mult.commute)
  then have "(pool_base b n + i * ?s) div ?s = c + i" for i
    by (simp flip: distrib_right)
  then show ?thesis
    using assms by (simp add: Contains_v4_net unat_subnet_at)
qed

text \<open>The scan of \<open>FindFirstFree\<close>, in closed form.\<close>

lemma first_free_scan:
  assumes b: "length b = 4" and nm: "1 \<le> n" "n \<le> m" "m \<le> 32"
  shows "for_loop (Contains (v4_net b n))
      (\<lambda>cur. if ipToHex cur \<notin> used then Inl cur else Inr (nextSubnet cur (int m))) (subnet_at b n m 0) =
    Some (case find (\<lambda>k. ipToHex (subnet_at b n m k) \<notin> used) [0..<2 ^ (m - n)] of
            Some k \<Rightarrow> Inl (subnet_at b n m k) | None \<Rightarrow> Inr (subnet_at b n m (2 ^ (m - n))))"
    (is "for_loop ?c ?b _ = _")
proof -
  let ?f = "subnet_at b n m"
  have skip: "for_loop ?c ?b (?f 0) = for_loop ?c ?b (?f k)"
    if "k \<le> 2 ^ (m - n)" "\<And>j. j < k \<Longrightarrow> ipToHex (?f j) \<in> used" for k
    by (rule for_loop_skip) (use that b nm in \<open>simp add: subnet_at_in_pool nextSubnet_at\<close>)
  show ?thesis
  proof (cases "find (\<lambda>k. ipToHex (?f k) \<notin> used) [0..<2 ^ (m - n)]")
    case None
    then have "for_loop ?c ?b (?f 0) = for_loop ?c ?b (?f (2 ^ (m - n)))"
      by (intro skip) (auto simp: find_None_iff)
    then show ?thesis
      using None b nm by (simp add: for_loop_stop subnet_at_end)
  next
    case (Some k)
    then obtain i where i: "i < 2 ^ (m - n)" "k = i" "ipToHex (?f i) \<notin> used" "\<forall>j < i. ipToHex (?f j) \<in> used"
      by (auto simp: find_Some_iff)
    then have "for_loop ?c ?b (?f 0) = for_loop ?c ?b (?f i)"
      by (intro skip) auto
    then show ?thesis
      using Some i b nm by (simp add: for_loop_return subnet_at_in_pool)
  qed
qed

lemma FindFirstFree_eq:
  assumes "ParseCIDR t (pool_CIDR pool) = Some (v4InV6Prefix @ b, v4_net b n)" "length b = 4"
    and "1 \<le> n" "n \<le> m" "m \<le> 32" "pool_SubnetMask pool = int m"
    and "api_ListSubnets api w = Ok allocs"
  shows "FindFirstFree api t pool w =
    Some (case find (\<lambda>k. ipToHex (subnet_at b n m k) \<notin> (\<lambda>a. TrimPrefix (sa_Name a) ''subnet-'') ` set allocs)
                 [0..<2 ^ (m - n)] of
            Some k \<Rightarrow> Ok (subnet_at b n m k) | None \<Rightarrow> Err NoAvailableSubnet)"
proof -
  have start: "IP_Mask (v4InV6Prefix @ b) (net_Mask (v4_net b n)) = subnet_at b n m 0"
    using assms by (simp add: v4_net_def subnet_at_0)
  show ?thesis
    using first_free_scan [OF assms(2-5), of "(\<lambda>a. TrimPrefix (sa_Name a) ''subnet-'') ` set allocs", folded assms(6)] assms(1,7)
    by (simp add: FindFirstFree_def start Let_def split: option.splits)
qed

section \<open>The addresses of a network\<close>

definition endpoint_api_ok :: "'w ipam_api \<Rightarrow> ('w \<Rightarrow> string \<Rightarrow> string \<Rightarrow> LatticeEndpoint option) \<Rightarrow> bool" where
  "endpoint_api_ok api lookup \<longleftrightarrow>
     (\<forall>w e w'. api_CreateEndpoint api w e = (None, w') \<longrightarrow>
        lookup w (le_Namespace e) (le_Name e) = None \<and>
        (\<forall>ns n. lookup w' ns n = (if ns = le_Namespace e \<and> n = le_Name e then Some e else lookup w ns n))) \<and>
     (\<forall>w e r w'. api_CreateEndpoint api w e = (Some r, w') \<longrightarrow> lookup w' = lookup w) \<and>
     (\<forall>w ns n w'. api_DeleteEndpoint api w ns n = (None, w') \<longrightarrow>
        (\<forall>ns' n'. lookup w' ns' n' = (if ns' = ns \<and> n' = n then None else lookup w ns' n'))) \<and>
     (\<forall>w ns n r w'. api_DeleteEndpoint api w ns n = (Some r, w') \<longrightarrow> lookup w' = lookup w)"

text \<open>Create answers exactly by whether the name is taken: no other failure.\<close>

definition endpoint_api_honest :: "'w ipam_api \<Rightarrow> ('w \<Rightarrow> string \<Rightarrow> string \<Rightarrow> LatticeEndpoint option) \<Rightarrow> bool" where
  "endpoint_api_honest api lookup \<longleftrightarrow>
     api_SetOwner api = None \<and>
     (\<forall>w e. fst (api_CreateEndpoint api w e) =
        (if lookup w (le_Namespace e) (le_Name e) = None then None else Some KAlreadyExists))"

definition peer_endpoint :: "string \<Rightarrow> string \<Rightarrow> u32 \<Rightarrow> LatticeEndpoint" where
  "peer_endpoint ns peer i =
     \<lparr> le_Name = ip_name i, le_Namespace = ns, le_Address = dotted (uint32ToIP i), le_PeerRef = peer \<rparr>"

lemma IP_String_v4 [simp]: "IP_String t (uint32ToIP i) = dotted (uint32ToIP i)"
  by (simp add: IP_String_def)

lemma alloc_body_eq:
  "alloc_body api t used ns peer (i, w) =
     (if ip_name i \<in> used then Inr (i + 1, w)
      else case api_SetOwner api of
             Some e \<Rightarrow> Inl (Err (IpamApi e), w)
           | None \<Rightarrow>
               (case api_CreateEndpoint api w (peer_endpoint ns peer i) of
                  (Some KAlreadyExists, w') \<Rightarrow> Inr (i + 1, w')
                | (Some e, w') \<Rightarrow> Inl (Err (IpamApi e), w')
                | (None, w') \<Rightarrow> Inl (Ok (dotted (uint32ToIP i)), w')))"
  unfolding alloc_body_def Let_def ip_name_def peer_endpoint_def IP_String_v4 prod.case by (rule refl)

text \<open>The bounds of the scan. For a prefix length of at most 30 nothing wraps.\<close>

lemma scan_bounds:
  assumes "length b = 4" "n \<le> 30"
  defines "base \<equiv> ipToUint32 (IP_Mask (v4InV6Prefix @ b) (net_Mask (v4_net b n)))"
  shows "unat (base + 2) = pool_base b n + 2"
    and "unat (base + push_bit (snd (Mask_Size (net_Mask (v4_net b n))) - fst (Mask_Size (net_Mask (v4_net b n)))) 1 - 2)
           = pool_base b n + 2 ^ (32 - n) - 2"
    and "4 \<le> (2 :: nat) ^ (32 - n)"
proof -
  show four: "4 \<le> (2 :: nat) ^ (32 - n)"
    using assms(2) power_increasing [of 2 "32 - n" "2 :: nat"] by simp
  have base: "base = of_nat (pool_base b n)"
    using assms by (simp add: base_def v4_net_def subnet_at_0 [where m = 32] subnet_at_def)
  note bound = pool_base_bound [of n b]
  have "base + 2 = of_nat (pool_base b n + 2)"
    by (simp add: base)
  moreover have "pool_base b n + 2 < 2 ^ 32"
    using bound four assms(2) by linarith
  ultimately show "unat (base + 2) = pool_base b n + 2"
    by (simp only: unat_of_nat_u32)
  have size: "Mask_Size (net_Mask (v4_net b n)) = (n, 32)"
    using assms(2) by (simp add: Mask_Size_def v4_net_def CIDRMask_def count_ones_mask)
  have "base + push_bit (32 - n) 1 - 2 = of_nat (pool_base b n + 2 ^ (32 - n) - 2)"
    using four by (simp add: base push_bit_eq_mult of_nat_diff)
  moreover have "pool_base b n + 2 ^ (32 - n) - 2 < 2 ^ 32"
    using bound four assms(2) by linarith
  ultimately show "unat (base + push_bit (snd (Mask_Size (net_Mask (v4_net b n))) - fst (Mask_Size (net_Mask (v4_net b n)))) 1 - 2)
           = pool_base b n + 2 ^ (32 - n) - 2"
    by (simp only: size fst_conv snd_conv unat_of_nat_u32)
qed

lemma AllocateIP_scan:
  assumes "ParseCIDR t cidr = Some (v4InV6Prefix @ b, v4_net b n)"
    and "api_ListEndpoints api w ns = Ok existing" "find (\<lambda>a. le_PeerRef a = peer) existing = None"
  defines "base \<equiv> ipToUint32 (IP_Mask (v4InV6Prefix @ b) (net_Mask (v4_net b n)))"
  shows "AllocateIP api t netw cidr ns peer w =
    (case for_loop (\<lambda>(i, _). i \<le> base + push_bit (snd (Mask_Size (net_Mask (v4_net b n))) - fst (Mask_Size (net_Mask (v4_net b n)))) 1 - 2)
       (alloc_body api t (le_Name ` set existing) ns peer) (base + 2, w) of
       None \<Rightarrow> None | Some (Inl r) \<Rightarrow> Some r | Some (Inr (_, w')) \<Rightarrow> Some (Err (NoAvailableIP netw), w'))"
  using assms by (simp add: AllocateIP_def Let_def case_prod_beta)

lemma unat_succ: "unat (i :: u32) < 2 ^ 32 - 1 \<Longrightarrow> unat (i + 1) = unat i + 1"
proof -
  assume "unat i < 2 ^ 32 - 1"
  then have "unat i + 1 < 2 ^ 32" by linarith
  then show ?thesis
    using unat_of_nat_u32 [of "unat i + 1"] by (simp add: add.commute)
qed

lemma alloc_body_next: "alloc_body api t used ns peer (i, w) = Inr s' \<Longrightarrow> fst s' = i + 1"
  by (auto simp: alloc_body_eq split: if_splits option.splits prod.splits kube_error.splits)

lemma alloc_body_steps:
  assumes ok: "endpoint_api_ok api lookup"
  shows "alloc_body api t used ns peer (i, w) = Inr (i', w') \<Longrightarrow> i' = i + 1 \<and> lookup w' = lookup w"
    and "alloc_body api t used ns peer (i, w) = Inl (Err e, w') \<Longrightarrow> lookup w' = lookup w"
    and "alloc_body api t used ns peer (i, w) = Inl (Ok a, w') \<Longrightarrow>
           a = dotted (uint32ToIP i) \<and> ip_name i \<notin> used \<and> lookup w ns (ip_name i) = None \<and>
           (\<forall>ns' n. lookup w' ns' n = (if ns' = ns \<and> n = ip_name i then Some (peer_endpoint ns peer i) else lookup w ns' n))"
  using ok unfolding endpoint_api_ok_def
  by (auto simp: alloc_body_eq split: if_splits option.splits prod.splits kube_error.splits; fastforce simp: peer_endpoint_def)+

text \<open>Every address handed out by the scan lies strictly between the gateway and the broadcast
  address, and its endpoint is new.\<close>

definition granted ::
  "('w \<Rightarrow> string \<Rightarrow> string \<Rightarrow> LatticeEndpoint option) \<Rightarrow> IP \<Rightarrow> nat \<Rightarrow> string \<Rightarrow> string \<Rightarrow> 'w \<Rightarrow> string \<Rightarrow> 'w \<Rightarrow> nat \<Rightarrow> bool" where
  "granted lookup b n ns peer w a w' i \<longleftrightarrow>
     pool_base b n + 2 \<le> i \<and> i \<le> pool_base b n + 2 ^ (32 - n) - 2 \<and>
     a = dotted (uint32ToIP (of_nat i)) \<and> lookup w ns (ip_name (of_nat i)) = None \<and>
     (\<forall>ns' nm. lookup w' ns' nm =
        (if ns' = ns \<and> nm = ip_name (of_nat i) then Some (peer_endpoint ns peer (of_nat i)) else lookup w ns' nm))"

lemma granted_unat:
  "granted lookup b n ns peer w a w' (unat (i :: u32)) \<longleftrightarrow>
     pool_base b n + 2 \<le> unat i \<and> unat i \<le> pool_base b n + 2 ^ (32 - n) - 2 \<and>
     a = dotted (uint32ToIP i) \<and> lookup w ns (ip_name i) = None \<and>
     (\<forall>ns' nm. lookup w' ns' nm =
        (if ns' = ns \<and> nm = ip_name i then Some (peer_endpoint ns peer i) else lookup w ns' nm))"
proof -
  have "of_nat (unat i) = i" by simp
  then show ?thesis unfolding granted_def by presburger
qed

text \<open>The scan ends when its bound is not the largest integer.\<close>

lemma alloc_loop_ends:
  assumes bound: "unat endInt < 2 ^ 32 - 1"
  shows "\<exists>y. for_loop (\<lambda>(i, w). i \<le> endInt) (alloc_body api t used ns peer) (i0, w0) = Some y"
proof (rule for_loop_terminates [where P = "\<lambda>_. True" and m = "\<lambda>(i, w). 2 ^ 32 - unat i"], simp)
  fix s s' :: "u32 \<times> 'a"
  assume c: "case s of (i, w) \<Rightarrow> i \<le> endInt" and b: "alloc_body api t used ns peer s = Inr s'"
  obtain i w where s: "s = (i, w)" by (cases s)
  have "unat i < 2 ^ 32 - 1"
    using c bound by (simp add: s word_le_nat_alt)
  moreover have "fst s' = i + 1"
    using b alloc_body_next by (simp add: s)
  ultimately show "True \<and> (case s' of (i, w) \<Rightarrow> 2 ^ 32 - unat i) < (case s of (i, w) \<Rightarrow> 2 ^ 32 - unat i)"
    by (cases s') (simp add: s unat_succ)
qed

text \<open>What the scan has established when it ends. \<open>seen\<close> is a property of the numbers already passed.\<close>

lemma alloc_loop_result:
  assumes bound: "unat endInt < 2 ^ 32 - 1"
    and ok: "endpoint_api_ok api lookup"
    and y: "for_loop (\<lambda>(i, w). i \<le> endInt) (alloc_body api t used ns peer) (i0, w0) = Some y"
    and seen: "\<forall>i w w'. lookup w = lookup w0 \<and> alloc_body api t used ns peer (i, w) = Inr (i + 1, w') \<longrightarrow> seen (unat i)"
    and bad: "\<forall>i w e w'. lookup w = lookup w0 \<and> alloc_body api t used ns peer (i, w) = Inl (Err e, w') \<longrightarrow> B e"
  shows "case y of
      Inl (Inr a, w') \<Rightarrow>
        (\<exists>i. i0 \<le> i \<and> i \<le> endInt \<and> a = dotted (uint32ToIP i) \<and> lookup w0 ns (ip_name i) = None \<and>
           (\<forall>j. unat i0 \<le> j \<and> j < unat i \<longrightarrow> seen j) \<and>
           (\<forall>ns' nm. lookup w' ns' nm =
              (if ns' = ns \<and> nm = ip_name i then Some (peer_endpoint ns peer i) else lookup w0 ns' nm)))
    | Inl (Inl e, w') \<Rightarrow> lookup w' = lookup w0 \<and> B e
    | Inr (_, w') \<Rightarrow> lookup w' = lookup w0 \<and> (\<forall>j. unat i0 \<le> j \<and> j \<le> unat endInt \<longrightarrow> seen j)"
    (is "?Q y")
proof (rule for_loop_rule [OF y, where P = "\<lambda>(i, v). i0 \<le> i \<and> lookup v = lookup w0 \<and>
      (\<forall>j. unat i0 \<le> j \<and> j < unat i \<longrightarrow> seen j)"], force)
  fix s s' :: "u32 \<times> 'a"
  assume p: "case s of (i, v) \<Rightarrow> i0 \<le> i \<and> lookup v = lookup w0 \<and> (\<forall>j. unat i0 \<le> j \<and> j < unat i \<longrightarrow> seen j)"
    and c: "case s of (i, w) \<Rightarrow> i \<le> endInt" and b: "alloc_body api t used ns peer s = Inr s'"
  obtain i v i' v' where s: "s = (i, v)" "s' = (i', v')" by (cases s, cases s')
  have nx: "i' = i + 1" "lookup v' = lookup v"
    using alloc_body_steps(1) [OF ok b [unfolded s]] by auto
  have "unat i < 2 ^ 32 - 1"
    using c bound by (simp add: s word_le_nat_alt)
  moreover have "seen (unat i)"
    using seen b p nx by (auto simp: s)
  ultimately show "case s' of (i, v) \<Rightarrow> i0 \<le> i \<and> lookup v = lookup w0 \<and> (\<forall>j. unat i0 \<le> j \<and> j < unat i \<longrightarrow> seen j)"
    using nx p by (auto simp: s unat_succ word_le_nat_alt less_Suc_eq)
next
  fix s r
  assume p: "case s of (i, v) \<Rightarrow> i0 \<le> i \<and> lookup v = lookup w0 \<and> (\<forall>j. unat i0 \<le> j \<and> j < unat i \<longrightarrow> seen j)"
    and c: "case s of (i, w) \<Rightarrow> i \<le> endInt" and b: "alloc_body api t used ns peer s = Inl r"
  obtain i v x v' where s: "s = (i, v)" "r = (x, v')" by (cases s, cases r)
  show "?Q (Inl r)"
  proof (cases x)
    case (Inl e)
    then show ?thesis
      using alloc_body_steps(2) [OF ok, of t used ns peer i v e v'] bad b p by (auto simp: s)
  next
    case (Inr a)
    then show ?thesis
      using alloc_body_steps(3) [OF ok, of t used ns peer i v a v'] b p c by (auto simp: s)
  qed
next
  fix s :: "u32 \<times> 'a"
  assume "case s of (i, v) \<Rightarrow> i0 \<le> i \<and> lookup v = lookup w0 \<and> (\<forall>j. unat i0 \<le> j \<and> j < unat i \<longrightarrow> seen j)"
    and "\<not> (case s of (i, w) \<Rightarrow> i \<le> endInt)"
  then show "?Q (Inr s)" by (cases s) (auto simp: word_le_nat_alt)
qed

lemma alloc_scan:
  assumes cidr: "ParseCIDR t cidr = Some (v4InV6Prefix @ b, v4_net b n)" "length b = 4" "n \<le> 30"
    and lst: "api_ListEndpoints api w ns = Ok existing" "find (\<lambda>a. le_PeerRef a = peer) existing = None"
    and ok: "endpoint_api_ok api lookup"
    and seen: "\<forall>i v w'. lookup v = lookup w \<and>
          alloc_body api t (le_Name ` set existing) ns peer (i, v) = Inr (i + 1, w') \<longrightarrow> seen (unat i)"
    and bad: "\<forall>i v e w'. lookup v = lookup w \<and>
          alloc_body api t (le_Name ` set existing) ns peer (i, v) = Inl (Err e, w') \<longrightarrow> B e"
  shows "\<exists>r w'. AllocateIP api t netw cidr ns peer w = Some (r, w') \<and>
    (case r of
       Inr a \<Rightarrow> (\<exists>i. granted lookup b n ns peer w a w' i \<and> (\<forall>j. pool_base b n + 2 \<le> j \<and> j < i \<longrightarrow> seen j))
     | Inl e \<Rightarrow> lookup w' = lookup w \<and>
         (B e \<or> e = NoAvailableIP netw \<and>
            (\<forall>j. pool_base b n + 2 \<le> j \<and> j \<le> pool_base b n + 2 ^ (32 - n) - 2 \<longrightarrow> seen j)))"
proof -
  define base where "base = ipToUint32 (IP_Mask (v4InV6Prefix @ b) (net_Mask (v4_net b n)))"
  define endInt where "endInt = base + push_bit (snd (Mask_Size (net_Mask (v4_net b n))) - fst (Mask_Size (net_Mask (v4_net b n)))) 1 - 2"
  note bounds = scan_bounds [OF cidr(2,3), folded base_def, folded endInt_def]
  have bound: "unat endInt < 2 ^ 32 - 1"
    using bounds pool_base_bound [of n b] cidr(3) by linarith
  obtain y where y: "for_loop (\<lambda>(i, w). i \<le> endInt) (alloc_body api t (le_Name ` set existing) ns peer) (base + 2, w) = Some y"
    using alloc_loop_ends [OF bound, of api t "le_Name ` set existing" ns peer "base + 2" w] by blast
  note res = alloc_loop_result [OF bound ok y seen bad]
  note scan = AllocateIP_scan [OF cidr(1) lst, of netw, folded base_def, folded endInt_def]
  show ?thesis
  proof (cases y)
    case (Inl r)
    obtain x w' where r: "r = (x, w')" by (cases r)
    show ?thesis
    proof (cases x)
      case (Inl e)
      then show ?thesis
        using res scan y \<open>y = Inl r\<close> r by auto
    next
      case (Inr a)
      then obtain i :: u32 where "granted lookup b n ns peer w a w' (unat i)"
        "\<forall>j. pool_base b n + 2 \<le> j \<and> j < unat i \<longrightarrow> seen j"
        using res y \<open>y = Inl r\<close> r bounds by (auto simp: granted_unat word_le_nat_alt)
      then show ?thesis
        using scan y \<open>y = Inl r\<close> r Inr by auto
    qed
  next
    case (Inr s)
    then show ?thesis
      using res scan y bounds by (cases s) auto
  qed
qed

lemma honest_steps:
  assumes "endpoint_api_honest api lookup" "\<forall>nm \<in> used. lookup v ns nm \<noteq> None"
  shows "alloc_body api t used ns peer (i, v) = Inr (i + 1, w') \<Longrightarrow> lookup v ns (ip_name i) \<noteq> None"
    and "alloc_body api t used ns peer (i, v) \<noteq> Inl (Err e, w')"
proof -
  obtain r v' where r: "api_CreateEndpoint api v (peer_endpoint ns peer i) = (r, v')"
    by fastforce
  have "r = (if lookup v ns (ip_name i) = None then None else Some KAlreadyExists)"
    using assms(1) r unfolding endpoint_api_honest_def
    by (metis LatticeEndpoint.select_convs(1,2) fst_conv peer_endpoint_def)
  then show "alloc_body api t used ns peer (i, v) = Inr (i + 1, w') \<Longrightarrow> lookup v ns (ip_name i) \<noteq> None"
    and "alloc_body api t used ns peer (i, v) \<noteq> Inl (Err e, w')"
    using assms r by (auto simp: alloc_body_eq endpoint_api_honest_def split: if_splits)
qed

section \<open>Consistency of the endpoint objects\<close>

text \<open>Every endpoint object is named after its address.\<close>

definition endpoints_ok :: "(string \<Rightarrow> string \<Rightarrow> LatticeEndpoint option) \<Rightarrow> bool" where
  "endpoints_ok L \<longleftrightarrow>
     (\<forall>ns nm e. L ns nm = Some e \<longrightarrow>
        le_Namespace e = ns \<and> (\<exists>i. nm = ip_name i \<and> le_Name e = nm \<and> le_Address e = dotted (uint32ToIP i)))"

lemma dotted_inject: "dotted (uint32ToIP i) = dotted (uint32ToIP j) \<longleftrightarrow> i = j"
  by (metis ParseIPv4_dotted length_uint32ToIP option.inject v4_uint32ToIP)

lemma endpoints_ok_unique:
  "endpoints_ok L \<Longrightarrow> L ns nm = Some e \<Longrightarrow> L ns nm' = Some e' \<Longrightarrow> le_Address e = le_Address e' \<Longrightarrow> nm = nm'"
proof -
  assume a: "endpoints_ok L" "L ns nm = Some e" "L ns nm' = Some e'" "le_Address e = le_Address e'"
  obtain i j where "nm = ip_name i" "le_Address e = dotted (uint32ToIP i)"
    "nm' = ip_name j" "le_Address e' = dotted (uint32ToIP j)"
    using a(1-3) unfolding endpoints_ok_def by blast
  with a(4) show ?thesis by (simp add: dotted_inject)
qed

lemma endpoints_ok_granted:
  "granted lookup b n ns peer w a w' i \<Longrightarrow> endpoints_ok (lookup w) \<Longrightarrow> endpoints_ok (lookup w')"
  by (auto simp: granted_def endpoints_ok_def peer_endpoint_def split: if_splits)

lemma endpoints_ok_Release:
  assumes "endpoint_api_ok api lookup" "endpoints_ok (lookup w)"
  shows "endpoints_ok (lookup (snd (ReleaseIP api t ns a w)))"
proof -
  have d: "endpoints_ok (lookup w')" if "api_DeleteEndpoint api w ns nm = (r, w')" for r w' nm
    using assms that unfolding endpoint_api_ok_def endpoints_ok_def by (cases r) (auto split: if_splits)
  then show ?thesis
    using assms(2) by (auto simp: ReleaseIP_def split: option.splits prod.splits kube_error.splits)
qed

section \<open>Properties\<close>

text \<open>The subnet scan is first-fit, complete and returns. For a pool of prefix length \<open>n\<close> cut into
  subnets of length \<open>m\<close> with \<open>1 \<le> n \<le> m \<le> 32\<close>, \<open>FindFirstFree\<close> returns the first of the \<open>2 ^ (m - n)\<close> subnets
  of the pool whose name is not among the existing allocations, and the exhaustion error exactly
  when there is none. The candidates lie in the pool and no two of them overlap.\<close>

theorem find_first_free_first_fit:
  assumes "ParseCIDR t (pool_CIDR pool) = Some (v4InV6Prefix @ b, v4_net b n)" "length b = 4"
    and "1 \<le> n" "n \<le> m" "m \<le> 32" "pool_SubnetMask pool = int m"
    and "api_ListSubnets api w = Ok allocs"
  shows "FindFirstFree api t pool w =
      Some (case find (\<lambda>k. ipToHex (subnet_at b n m k) \<notin> (\<lambda>a. TrimPrefix (sa_Name a) ''subnet-'') ` set allocs)
                   [0..<2 ^ (m - n)] of
              Some k \<Rightarrow> Ok (subnet_at b n m k) | None \<Rightarrow> Err NoAvailableSubnet) \<and>
    (\<forall>j < 2 ^ (m - n). Contains (v4_net b n) (subnet_at b n m j) \<and>
       (\<forall>k < 2 ^ (m - n). j \<noteq> k \<longrightarrow> \<not> Contains (v4_net (subnet_at b n m j) m) (subnet_at b n m k)))"
  using FindFirstFree_eq [OF assms] assms by (simp add: subnet_at_in_pool subnets_disjoint)

definition no_v6 :: ip6_text where
  "no_v6 = \<lparr> parse6_addr = (\<lambda>_. None), parse6 = (\<lambda>_. None), show6 = (\<lambda>_. []) \<rparr>"

text \<open>An in-memory cluster: endpoints by namespace and name, one allocated subnet.\<close>

definition demo_ipam :: "(string \<Rightarrow> string \<Rightarrow> LatticeEndpoint option) ipam_api" where
  "demo_ipam = \<lparr>
     api_ListSubnets = (\<lambda>w. Ok [\<lparr> sa_Name = ''subnet-0a000000'', sa_NetworkName = ''n'', sa_CIDR = ''10.0.0.0/24'' \<rparr>]),
     api_CreateSubnet = (\<lambda>w a. (None, w)),
     api_ListEndpoints = (\<lambda>w ns. Ok []),
     api_CreateEndpoint = (\<lambda>w e. if w (le_Namespace e) (le_Name e) = None
        then (None, w(le_Namespace e := (w (le_Namespace e))(le_Name e \<mapsto> e))) else (Some KAlreadyExists, w)),
     api_DeleteEndpoint = (\<lambda>w ns nm. (None, w(ns := (w ns)(nm := None)))),
     api_SetOwner = None \<rparr>"

lemma demo_ipam_ok: "endpoint_api_ok demo_ipam (\<lambda>w. w)"
  by (auto simp: endpoint_api_ok_def demo_ipam_def split: if_splits)

lemma demo_list: "api_ListEndpoints demo_ipam w ns = Ok []"
  by (simp add: demo_ipam_def)

lemma demo_ipam_honest: "endpoint_api_honest demo_ipam (\<lambda>w. w)"
  by (simp add: endpoint_api_honest_def demo_ipam_def)

lemma ParseIPv4_10: "ParseIPv4 ''10.0.0.0'' = Some [10, 0, 0, 0]"
  by (simp add: ParseIPv4_def parse_octet_def digit_val_def)

lemma demo_cidr:
  "ParseCIDR no_v6 ''10.0.0.0/16'' = Some (v4InV6Prefix @ [10, 0, 0, 0], v4_net [10, 0, 0, 0] 16)"
  "ParseCIDR no_v6 ''10.0.0.0/24'' = Some (v4InV6Prefix @ [10, 0, 0, 0], v4_net [10, 0, 0, 0] 24)"
  by (simp_all add: ParseCIDR_def HasPrefix_def ParseIPv4_10 digit_val_def v4_net_def)

theorem find_first_free_first_fit_witness:
  "\<exists>r. FindFirstFree demo_ipam no_v6 \<lparr> pool_CIDR = ''10.0.0.0/16'', pool_SubnetMask = 24 \<rparr> (\<lambda>_ _. None) = Some r"
  using find_first_free_first_fit [of no_v6 "\<lparr> pool_CIDR = ''10.0.0.0/16'', pool_SubnetMask = 24 \<rparr>" "[10, 0, 0, 0]" 16 24 demo_ipam "\<lambda>_ _. None"]
  by (simp add: demo_cidr demo_ipam_def)

text \<open>C40: a pool whose subnet mask is 0 or above 32 hangs the allocator. The step to the next subnet
  is then zero, so as soon as the first subnet is taken the scan visits it forever and
  \<open>AllocateSubnet\<close> never returns; nothing validates the mask before it is used.\<close>

theorem bad_mask_never_returns:
  assumes "ParseCIDR t (pool_CIDR pool) = Some (v4InV6Prefix @ b, v4_net b n)" "length b = 4" "n \<le> 32"
    and "pool_SubnetMask pool = 0 \<or> 33 \<le> pool_SubnetMask pool \<and> pool_SubnetMask pool < 2 ^ 32"
    and "api_ListSubnets api w = Ok allocs"
    and "ipToHex (subnet_at b n 32 0) \<in> (\<lambda>a. TrimPrefix (sa_Name a) ''subnet-'') ` set allocs"
  shows "FindFirstFree api t pool w = None \<and> AllocateSubnet api t netw pool w = None"
proof -
  let ?x = "subnet_at b n 32 0"
  have start: "IP_Mask (v4InV6Prefix @ b) (net_Mask (v4_net b n)) = ?x"
    using assms by (simp add: v4_net_def subnet_at_0)
  have step: "nextSubnet ?x (pool_SubnetMask pool) = ?x"
    using assms(4) by (intro zero_step) simp_all
  have "Contains (v4_net b n) ?x"
    using assms by (intro subnet_at_in_pool) simp_all
  then have "for_loop (Contains (v4_net b n))
      (\<lambda>cur. if ipToHex cur \<notin> (\<lambda>a. TrimPrefix (sa_Name a) ''subnet-'') ` set allocs then Inl cur
             else Inr (nextSubnet cur (pool_SubnetMask pool))) ?x = None"
    by (intro for_loop_diverges [where P = "\<lambda>s. s = ?x"]) (use assms(6) step in auto)
  then have "FindFirstFree api t pool w = None"
    using assms(1,5) by (simp add: FindFirstFree_def start)
  then show ?thesis
    by (simp add: AllocateSubnet_def maxRetries_def numeral_eq_Suc)
qed

lemma demo_hex: "ipToHex (subnet_at [10, 0, 0, 0] 16 32 0) = ''0a000000''"
  by (simp add: subnet_at_def pool_base_def v4_def uint32ToIP_def be_PutUint32_def ipToHex_def To4_def
      hex_EncodeToString_def hex_byte_def hexdigit_def drop_bit_eq_div char_of_eq_iff take_bit_eq_mod)

theorem bad_mask_never_returns_witness:
  "AllocateSubnet demo_ipam no_v6 ''n2'' \<lparr> pool_CIDR = ''10.0.0.0/16'', pool_SubnetMask = 0 \<rparr> (\<lambda>_ _. None) = None"
  by (rule conjunct2 [OF bad_mask_never_returns [where b = "[10, 0, 0, 0]" and n = 16
        and allocs = "[\<lparr> sa_Name = ''subnet-0a000000'', sa_NetworkName = ''n'', sa_CIDR = ''10.0.0.0/24'' \<rparr>]"]])
     (simp_all add: demo_hex demo_cidr demo_ipam_def TrimPrefix_def HasPrefix_def del: ipToHex_v4)

text \<open>C26: an allocated address is usable, new and recorded. For an IPv4 network of prefix length at
  most 30, \<open>AllocateIP\<close> returns; when it hands out a new address that address lies strictly between
  the gateway (base + 1) and the broadcast address, no endpoint held it before, exactly one endpoint,
  naming the peer, is added, and every failure leaves the endpoints unchanged. The naming of
  endpoints after their addresses is preserved, so no two endpoints of a namespace ever share an
  address. Nothing is assumed of the listing, which may be stale.\<close>

theorem allocate_ip_safe:
  assumes "ParseCIDR t cidr = Some (v4InV6Prefix @ b, v4_net b n)" "length b = 4" "n \<le> 30"
    and "api_ListEndpoints api w ns = Ok existing" "find (\<lambda>a. le_PeerRef a = peer) existing = None"
    and "endpoint_api_ok api lookup" "endpoints_ok (lookup w)"
  shows "\<exists>r w'. AllocateIP api t netw cidr ns peer w = Some (r, w') \<and> endpoints_ok (lookup w') \<and>
    (case r of Inr a \<Rightarrow> \<exists>i. granted lookup b n ns peer w a w' i | Inl e \<Rightarrow> lookup w' = lookup w) \<and>
    (\<forall>nm nm' e e'. lookup w' ns nm = Some e \<and> lookup w' ns nm' = Some e' \<and> le_Address e = le_Address e' \<longrightarrow> nm = nm')"
proof -
  obtain r w' where 1: "AllocateIP api t netw cidr ns peer w = Some (r, w')" and
    2: "case r of Inr a \<Rightarrow> (\<exists>i. granted lookup b n ns peer w a w' i \<and> (\<forall>j. pool_base b n + 2 \<le> j \<and> j < i \<longrightarrow> True))
      | Inl e \<Rightarrow> lookup w' = lookup w \<and> (True \<or> e = NoAvailableIP netw \<and>
            (\<forall>j. pool_base b n + 2 \<le> j \<and> j \<le> pool_base b n + 2 ^ (32 - n) - 2 \<longrightarrow> True))"
    using alloc_scan [OF assms(1-6), where seen = "\<lambda>_. True" and B = "\<lambda>_. True" and netw = netw] by blast
  have r: "AllocateIP api t netw cidr ns peer w = Some (r, w')"
    "case r of Inr a \<Rightarrow> (\<exists>i. granted lookup b n ns peer w a w' i) | Inl e \<Rightarrow> lookup w' = lookup w"
    using 1 2 by (cases r; auto)+
  moreover have ok: "endpoints_ok (lookup w')"
    using r(2) assms(7) by (auto intro: endpoints_ok_granted split: sum.splits)
  moreover have "\<forall>nm nm' e e'. lookup w' ns nm = Some e \<and> lookup w' ns nm' = Some e' \<and> le_Address e = le_Address e' \<longrightarrow> nm = nm'"
    using endpoints_ok_unique [OF ok] by blast
  ultimately show ?thesis by blast
qed

theorem allocate_ip_safe_witness:
  "\<exists>r w'. AllocateIP demo_ipam no_v6 ''net'' ''10.0.0.0/24'' ''ns'' ''p'' (\<lambda>_ _. None) = Some (r, w')"
  using allocate_ip_safe [OF demo_cidr(2), of demo_ipam "\<lambda>_ _. None" "''ns''" "[]" "''p''" "\<lambda>w. w" "''net''"]
    demo_ipam_ok demo_list by (auto simp: endpoints_ok_def)

text \<open>C27: address allocation is first-fit and complete. When the API server refuses a name only because
  it is taken, and the listing names only endpoints that exist, the peer gets the lowest free address
  of the network, and the exhaustion error is returned only when every address between gateway and
  broadcast is taken.\<close>

theorem allocate_ip_first_fit:
  assumes "ParseCIDR t cidr = Some (v4InV6Prefix @ b, v4_net b n)" "length b = 4" "n \<le> 30"
    and "api_ListEndpoints api w ns = Ok existing" "find (\<lambda>a. le_PeerRef a = peer) existing = None"
    and "endpoint_api_ok api lookup" "endpoint_api_honest api lookup"
    and "\<forall>e \<in> set existing. lookup w ns (le_Name e) \<noteq> None"
  shows "\<exists>r w'. AllocateIP api t netw cidr ns peer w = Some (r, w') \<and>
    (case r of
       Inr a \<Rightarrow> (\<exists>i. granted lookup b n ns peer w a w' i \<and>
                  (\<forall>j. pool_base b n + 2 \<le> j \<and> j < i \<longrightarrow> lookup w ns (ip_name (of_nat j)) \<noteq> None))
     | Inl e \<Rightarrow> e = NoAvailableIP netw \<and> lookup w' = lookup w \<and>
         (\<forall>j. pool_base b n + 2 \<le> j \<and> j \<le> pool_base b n + 2 ^ (32 - n) - 2 \<longrightarrow> lookup w ns (ip_name (of_nat j)) \<noteq> None))"
proof -
  let ?used = "le_Name ` set existing"
  have seen: "\<forall>i v w'. lookup v = lookup w \<and> alloc_body api t ?used ns peer (i, v) = Inr (i + 1, w') \<longrightarrow>
      lookup w ns (ip_name (of_nat (unat i))) \<noteq> None"
  proof (intro allI impI, elim conjE)
    fix i v w'
    assume v: "lookup v = lookup w" and b: "alloc_body api t ?used ns peer (i, v) = Inr (i + 1, w')"
    have "\<forall>nm \<in> ?used. lookup v ns nm \<noteq> None"
      using assms(8) by (simp add: v)
    from honest_steps(1) [OF assms(7) this b] show "lookup w ns (ip_name (of_nat (unat i))) \<noteq> None"
      by (simp add: v)
  qed
  have bad: "\<forall>i v e w'. lookup v = lookup w \<and> alloc_body api t ?used ns peer (i, v) = Inl (Err e, w') \<longrightarrow> False"
  proof (intro allI impI, elim conjE)
    fix i v e w'
    assume v: "lookup v = lookup w" and b: "alloc_body api t ?used ns peer (i, v) = Inl (Err e, w')"
    have "\<forall>nm \<in> ?used. lookup v ns nm \<noteq> None"
      using assms(8) by (simp add: v)
    from honest_steps(2) [OF assms(7) this] b show False by blast
  qed
  from alloc_scan [OF assms(1-6) seen bad, of netw]
  show ?thesis
  proof (elim exE conjE, intro exI conjI)
    fix r w'
    assume "case r of
       Inr a \<Rightarrow> (\<exists>i. granted lookup b n ns peer w a w' i \<and>
                  (\<forall>j. pool_base b n + 2 \<le> j \<and> j < i \<longrightarrow> lookup w ns (ip_name (of_nat j)) \<noteq> None))
     | Inl e \<Rightarrow> lookup w' = lookup w \<and> (False \<or> e = NoAvailableIP netw \<and>
         (\<forall>j. pool_base b n + 2 \<le> j \<and> j \<le> pool_base b n + 2 ^ (32 - n) - 2 \<longrightarrow> lookup w ns (ip_name (of_nat j)) \<noteq> None))"
    then show "case r of
       Inr a \<Rightarrow> (\<exists>i. granted lookup b n ns peer w a w' i \<and>
                  (\<forall>j. pool_base b n + 2 \<le> j \<and> j < i \<longrightarrow> lookup w ns (ip_name (of_nat j)) \<noteq> None))
     | Inl e \<Rightarrow> e = NoAvailableIP netw \<and> lookup w' = lookup w \<and>
         (\<forall>j. pool_base b n + 2 \<le> j \<and> j \<le> pool_base b n + 2 ^ (32 - n) - 2 \<longrightarrow> lookup w ns (ip_name (of_nat j)) \<noteq> None)"
      by (cases r) simp_all
  qed
qed

lemma demo_base_addr: "pool_base [10, 0, 0, 0] 24 = 167772160"
  by (simp add: pool_base_def v4_def)

theorem allocate_ip_first_fit_witness:
  "\<exists>a w'. AllocateIP demo_ipam no_v6 ''net'' ''10.0.0.0/24'' ''ns'' ''p'' (\<lambda>_ _. None) = Some (Ok a, w')"
proof -
  obtain r w' where r: "AllocateIP demo_ipam no_v6 ''net'' ''10.0.0.0/24'' ''ns'' ''p'' (\<lambda>_ _. None) = Some (r, w')"
    "case r of
       Inr a \<Rightarrow> (\<exists>i. granted (\<lambda>w. w) [10, 0, 0, 0] 24 ''ns'' ''p'' (\<lambda>_ _. None) a w' i \<and>
                  (\<forall>j. pool_base [10, 0, 0, 0] 24 + 2 \<le> j \<and> j < i \<longrightarrow> (None :: LatticeEndpoint option) \<noteq> None))
     | Inl e \<Rightarrow> e = NoAvailableIP ''net'' \<and> w' = (\<lambda>_ _. None) \<and>
         (\<forall>j. pool_base [10, 0, 0, 0] 24 + 2 \<le> j \<and> j \<le> pool_base [10, 0, 0, 0] 24 + 2 ^ (32 - 24) - 2 \<longrightarrow>
            (None :: LatticeEndpoint option) \<noteq> None)"
    using allocate_ip_first_fit [OF demo_cidr(2) _ _ demo_list, of "''p''" "\<lambda>w. w" "\<lambda>_ _. None" "''ns''" "''net''",
        OF _ _ _ demo_ipam_ok demo_ipam_honest]
    by auto
  then show ?thesis
    by (cases r) (auto simp: demo_base_addr)
qed



text \<open>The upper end of the address space wraps around. In the last /31 network,
  255.255.255.254/31, the scan starts at base + 2, which is 0, below its end; the first peer is given
  0.0.0.0, outside the network.\<close>

theorem last_network_wraps:
  assumes "ParseCIDR t cidr = Some (v4InV6Prefix @ b, v4_net b 31)" "length b = 4" "v4 b = 0xFFFFFFFE"
    and "api_ListEndpoints api w ns = Ok existing" "find (\<lambda>a. le_PeerRef a = peer) existing = None"
    and "ip_name 0 \<notin> le_Name ` set existing"
    and "api_SetOwner api = None" "api_CreateEndpoint api w (peer_endpoint ns peer 0) = (None, w')"
  shows "AllocateIP api t netw cidr ns peer w = Some (Ok (dotted (uint32ToIP 0)), w') \<and>
    \<not> Contains (v4_net b 31) (uint32ToIP 0)"
proof -
  have base: "ipToUint32 (IP_Mask (v4InV6Prefix @ b) (net_Mask (v4_net b 31))) = 0xFFFFFFFE"
    using assms(2,3) by (simp add: v4_net_def v4_IP_Mask and_mask32 push_bit_eq_mult drop_bit_eq_div)
  have size: "Mask_Size (net_Mask (v4_net b 31)) = (31, 32)"
    by (simp add: Mask_Size_def v4_net_def CIDRMask_def count_ones_mask)
  have body: "alloc_body api t (le_Name ` set existing) ns peer (0, w) = Inl (Ok (dotted (uint32ToIP 0)), w')"
    using assms(6-8) by (simp add: alloc_body_eq)
  have "for_loop (\<lambda>(i, w). i \<le> (0xFFFFFFFE :: u32)) (alloc_body api t (le_Name ` set existing) ns peer) (0, w)
      = Some (Inl (Ok (dotted (uint32ToIP 0)), w'))"
    by (rule for_loop_return) (simp_all add: body)
  moreover have "(0xFFFFFFFE + 2 :: u32) = 0" "0xFFFFFFFE + push_bit (32 - 31) 1 - 2 = (0xFFFFFFFE :: u32)"
    by simp_all
  ultimately have "AllocateIP api t netw cidr ns peer w = Some (Ok (dotted (uint32ToIP 0)), w')"
    unfolding AllocateIP_scan [OF assms(1,4,5), of netw] base size fst_conv snd_conv by (simp only: option.case sum.case)
  moreover have "\<not> Contains (v4_net b 31) (uint32ToIP 0)"
    using assms(2,3) by (simp add: Contains_v4_net)
  ultimately show ?thesis ..
qed

lemma last_cidr:
  "ParseCIDR no_v6 ''255.255.255.254/31'' =
     Some (v4InV6Prefix @ [255, 255, 255, 254], v4_net [255, 255, 255, 254] 31)"
  by (simp add: ParseCIDR_def HasPrefix_def ParseIPv4_def parse_octet_def digit_val_def v4_net_def)

theorem last_network_wraps_witness:
  "fst (the (AllocateIP demo_ipam no_v6 ''net'' ''255.255.255.254/31'' ''ns'' ''p'' (\<lambda>_ _. None))) = Ok (dotted (uint32ToIP 0))"
proof -
  have v: "v4 [255, 255, 255, 254] = 0xFFFFFFFE"
    by (simp add: v4_def)
  have c: "api_CreateEndpoint demo_ipam (\<lambda>_ _. None) (peer_endpoint ''ns'' ''p'' 0) =
      (None, (\<lambda>_ _. None)(''ns'' := (\<lambda>_. None)(ip_name 0 \<mapsto> peer_endpoint ''ns'' ''p'' 0)))"
    by (simp add: demo_ipam_def peer_endpoint_def)
  show ?thesis
    using last_network_wraps [OF last_cidr _ v demo_list _ _ _ c, of "''net''"] by (simp add: demo_ipam_def)
qed

end
