(* ===== verification/Generator.thy ===== *)
theory Generator
  imports Kube_Objects Firewall Ipam "HOL-Library.List_Lexorder" "HOL-Library.Char_ord"
begin

text \<open>
  From the cluster's objects to the configuration of one peer: \<open>transferToPeer\<close> of \<open>utils.go\<close>, the peer
  resolver (\<open>peer_resolver.go\<close>) and the generator (\<open>detector.go\<close>), all in \<open>internal/agent/controller\<close>.

  Label selectors belong to the Kubernetes library: \<open>valid\<close> says which of them it accepts and \<open>sel\<close> how
  an accepted one matches labels. Where the code ignores the error for an invalid selector, it goes
  on with a nil selector and panics, which is \<open>None\<close> here. Listing peers is the parameter \<open>list\<close>.
\<close>

section \<open>Peers\<close>

fun parse_u64 :: "nat \<Rightarrow> string \<Rightarrow> nat" where
  "parse_u64 acc [] = acc"
| "parse_u64 acc (c # cs) =
     (case digit_val c of
        None \<Rightarrow> 0
      | Some d \<Rightarrow> if acc * 10 + d \<ge> 2 ^ 64 then 2 ^ 64 - 1 else parse_u64 (acc * 10 + d) cs)"

definition label_get :: "labels \<Rightarrow> string \<Rightarrow> string" where
  "label_get ls k = (case map_of ls k of None \<Rightarrow> [] | Some v \<Rightarrow> v)"

definition Join :: "string list \<Rightarrow> string" where
  "Join xs = concat (case xs of [] \<Rightarrow> [] | y # ys \<Rightarrow> y # map (\<lambda>z. '','' @ z) ys)"

definition add_ips :: "string \<Rightarrow> string \<Rightarrow> string" where
  "add_ips ips more_ips = (if ips \<noteq> [] then ips @ '','' @ more_ips else more_ips)"

definition transferToPeer :: "(labels \<Rightarrow> labels) \<Rightarrow> LatticePeer \<Rightarrow> Peer" where
  "transferToPeer visit peer =
     (let ips0 = (case lp_AllocatedAddress peer of None \<Rightarrow> [] | Some a \<Rightarrow> a @ ''/32'');
          shadowCIDR = label_get (lp_Annotations peer) AnnotationShadowAllowedIPs;
          ips1 = (if shadowCIDR \<noteq> [] then add_ips ips0 shadowCIDR else ips0);
          extraRoutes = map snd (filter (\<lambda>(k, v). HasPrefix k AnnotationPeeringRoutePrefix \<and> v \<noteq> []) (visit (lp_Annotations peer)));
          ips2 = (if extraRoutes \<noteq> [] then add_ips ips1 (Join extraRoutes) else ips1)
      in empty_peer\<lparr> p_PeerID := of_nat (if lp_PeerId peer = [] then 0 else parse_u64 0 (lp_PeerId peer)),
           p_Name := lp_Name peer, p_AppID := lp_AppId peer, p_Platform := lp_Platform peer,
           p_InterfaceName := lp_InterfaceName peer, p_Address := lp_AllocatedAddress peer,
           p_PublicKey := lp_PublicKey peer, p_Labels := lp_Labels peer, p_AllowedIPs := ips2 \<rparr>)"

lemma transferToPeer_fields [simp]:
  "p_Name (transferToPeer visit q) = lp_Name q"
  "p_Address (transferToPeer visit q) = lp_AllocatedAddress q"
  "p_Labels (transferToPeer visit q) = lp_Labels q"
  by (simp_all add: transferToPeer_def Let_def empty_peer_def)

section \<open>The peer resolver\<close>

definition resolveSelectionToPeers ::
  "(LabelSelector \<Rightarrow> bool) \<Rightarrow> (LabelSelector \<Rightarrow> labels \<Rightarrow> bool) \<Rightarrow> PeerSelection \<Rightarrow> Peer list \<Rightarrow> Peer list option" where
  "resolveSelectionToPeers valid sel selection allPeers =
     (case ps_PeerSelector selection of
        None \<Rightarrow> Some []
      | Some s \<Rightarrow>
          if allPeers = [] then Some []
          else if \<not> valid s then None
          else Some (filter (\<lambda>p. sel s (p_Labels p)) allPeers))"

definition resolve_all ::
  "(LabelSelector \<Rightarrow> bool) \<Rightarrow> (LabelSelector \<Rightarrow> labels \<Rightarrow> bool) \<Rightarrow> PolicyRule list \<Rightarrow> Peer list \<Rightarrow> Peer list option" where
  "resolve_all valid sel rules allPeers =
     map_option concat (those (map (\<lambda>s. resolveSelectionToPeers valid sel s allPeers) (concat (map pr_Peers rules))))"

definition add_peers :: "string \<Rightarrow> Peer list \<Rightarrow> (string \<times> Peer) list \<Rightarrow> (string \<times> Peer) list" where
  "add_peers self ps m = foldl (\<lambda>m p. if p_Name p \<noteq> self then AList.update (p_Name p) p m else m) m ps"

fun computed_map ::
  "(LabelSelector \<Rightarrow> bool) \<Rightarrow> (LabelSelector \<Rightarrow> labels \<Rightarrow> bool) \<Rightarrow> Peer \<Rightarrow> Peer list \<Rightarrow> LatticePolicy list \<Rightarrow>
   (string \<times> Peer) list \<Rightarrow> (string \<times> Peer) list option" where
  "computed_map valid sel current allPeers [] m = Some m"
| "computed_map valid sel current allPeers (policy # ps) m =
     (if \<not> valid (lc_PeerSelector policy) then None
      else if \<not> sel (lc_PeerSelector policy) (p_Labels current) then computed_map valid sel current allPeers ps m
      else
        (case (resolve_all valid sel (lc_Egress policy) allPeers, resolve_all valid sel (lc_Ingress policy) allPeers) of
           (Some eg, Some ing) \<Rightarrow>
             computed_map valid sel current allPeers ps (add_peers (p_Name current) ing (add_peers (p_Name current) eg m))
         | _ \<Rightarrow> None))"

definition GetComputedPeers ::
  "(LabelSelector \<Rightarrow> bool) \<Rightarrow> (LabelSelector \<Rightarrow> labels \<Rightarrow> bool) \<Rightarrow> ((string \<times> Peer) list \<Rightarrow> (string \<times> Peer) list) \<Rightarrow>
   Peer \<Rightarrow> Network \<Rightarrow> LatticePolicy list \<Rightarrow> Peer list option" where
  "GetComputedPeers valid sel visit current network policies =
     map_option (\<lambda>m. sort_key p_Name (map snd (visit m))) (computed_map valid sel current (nw_Peers network) policies [])"

section \<open>The generator\<close>

definition extractCIDRs :: "PeerSelection list \<Rightarrow> string list" where
  "extractCIDRs rules = filter (\<lambda>c. c \<noteq> []) (List.map_filter ps_IPBlock rules)"

type_synonym peer_lister = "string \<Rightarrow> LabelSelector \<Rightarrow> string option \<Rightarrow> kube_error + LatticePeer list"

fun find_nodes ::
  "(LabelSelector \<Rightarrow> bool) \<Rightarrow> peer_lister \<Rightarrow> string \<Rightarrow> string option \<Rightarrow> PeerSelection list \<Rightarrow>
   (string \<times> string) list \<Rightarrow> kube_error + (string \<times> string) list" where
  "find_nodes valid list ns netLabel [] found = Ok found"
| "find_nodes valid list ns netLabel (r # rs) found =
     (case ps_PeerSelector r of
        None \<Rightarrow> find_nodes valid list ns netLabel rs found
      | Some s \<Rightarrow>
          if \<not> valid s then Err (KOther ''invalid selector'')
          else (case list ns s netLabel of
                  Inl e \<Rightarrow> Err e
                | Inr nodes \<Rightarrow>
                    find_nodes valid list ns netLabel rs
                      (foldl (\<lambda>m q. AList.update (lp_UID q) (lp_Name q) m) found nodes)))"

definition getPeerNamesByLabels ::
  "(LabelSelector \<Rightarrow> bool) \<Rightarrow> (string \<Rightarrow> byte list) \<Rightarrow> peer_lister \<Rightarrow> string \<Rightarrow> string \<Rightarrow> PeerSelection list \<Rightarrow>
   kube_error + string list" where
  "getPeerNamesByLabels valid sha list ns networkName rules =
     (case find_nodes valid list ns (if networkName = [] then None else Some (networkLabelKey sha networkName)) rules [] of
        Inl e \<Rightarrow> Err e
      | Inr found \<Rightarrow> Ok (sort (map snd found)))"

definition build_rules ::
  "(LabelSelector \<Rightarrow> bool) \<Rightarrow> (string \<Rightarrow> byte list) \<Rightarrow> peer_lister \<Rightarrow> string \<Rightarrow> string \<Rightarrow> string \<Rightarrow> PolicyRule list \<Rightarrow> Rule list" where
  "build_rules valid sha list ns networkName action rules =
     concat (map (\<lambda>r.
       case getPeerNamesByLabels valid sha list ns networkName (pr_Peers r) of
         Inl e \<Rightarrow> []
       | Inr names \<Rightarrow>
           let cidrs = extractCIDRs (pr_Peers r)
           in if pr_Ports r = []
              then [\<lparr> r_PeerNames = names, r_CIDRs = cidrs, r_Protocol = [], r_Port = 0, r_Action = action \<rparr>]
              else map (\<lambda>port. \<lparr> r_PeerNames = names, r_CIDRs = cidrs, r_Protocol = pp_Protocol port,
                                 r_Port = pp_Port port, r_Action = action \<rparr>) (pr_Ports r)) rules)"

definition buildPolicy ::
  "(LabelSelector \<Rightarrow> bool) \<Rightarrow> (string \<Rightarrow> byte list) \<Rightarrow> peer_lister \<Rightarrow> LatticePolicy \<Rightarrow> Policy" where
  "buildPolicy valid sha list src =
     (let action = (if lc_Action src = [] then ''ALLOW'' else lc_Action src)
      in \<lparr> po_PolicyName = lc_Name src, po_Action = action,
           po_Ingress = map Some (build_rules valid sha list (lc_Namespace src) (lc_Network src) action (lc_Ingress src)),
           po_Egress = map Some (build_rules valid sha list (lc_Namespace src) (lc_Network src) action (lc_Egress src)) \<rparr>)"

record PeerStateSnapshot =
  ss_Peer :: LatticePeer
  ss_Network :: "LatticeNetwork option"
  ss_Policies :: "LatticePolicy list"
  ss_Peers :: "LatticePeer list"
  ss_Labels :: labels

datatype EventType =
    EventTypeJoinNetwork | EventTypeLeaveNetwork | EventTypeNodeUpdate | EventTypeNodeAdd | EventTypeNodeRemove
  | EventTypeIPChange | EventTypeKeyChanged | EventTypeNetworkChanged | EventTypePolicyChanged | EventTypeNone

definition EventType_String :: "EventType \<Rightarrow> string" where
  "EventType_String e =
     (case e of
        EventTypeJoinNetwork \<Rightarrow> ''joinNetwork''
      | EventTypeLeaveNetwork \<Rightarrow> ''leaveNetwork''
      | EventTypeNodeUpdate \<Rightarrow> ''nodeUpdate''
      | EventTypeNodeAdd \<Rightarrow> ''nodeAdd''
      | EventTypeIPChange \<Rightarrow> ''ipChange''
      | _ \<Rightarrow> ''unknown'')"

text \<open>The configuration message; the fields the generator never sets are left out.\<close>

record Message =
  msg_EventType :: EventType
  msg_ConfigVersion :: string
  msg_Timestamp :: int
  msg_Current :: Peer
  msg_Network :: Network
  msg_Policies :: "Policy list"
  msg_ComputedPeers :: "Peer list"
  msg_ComputedRules :: FirewallRule

record gen_env =
  ge_valid :: "LabelSelector \<Rightarrow> bool"
  ge_sel :: "LabelSelector \<Rightarrow> labels \<Rightarrow> bool"
  ge_sha :: "string \<Rightarrow> byte list"
  ge_list :: peer_lister
  ge_visit_ann :: "labels \<Rightarrow> labels"
  ge_visit_peers :: "(string \<times> Peer) list \<Rightarrow> (string \<times> Peer) list"
  ge_visit_rules :: "decisions \<Rightarrow> decisions"
  ge_now :: int

definition snapshot_network :: "gen_env \<Rightarrow> PeerStateSnapshot \<Rightarrow> Network" where
  "snapshot_network env snapshot =
     (case ss_Network snapshot of
        None \<Rightarrow> \<lparr> nw_NetworkId = [], nw_NetworkName = [], nw_Peers = [] \<rparr>
      | Some n \<Rightarrow>
          \<lparr> nw_NetworkId = ln_Name n, nw_NetworkName = ln_SpecName n,
            nw_Peers = sort_key p_Name (map (transferToPeer (ge_visit_ann env))
              (filter (\<lambda>q. lp_AllocatedAddress q \<noteq> None) (ss_Peers snapshot))) \<rparr>)"

text \<open>\<open>None\<close> is the panic of the resolver; the evaluator's error cannot occur, since both pointers are set.\<close>

definition generate :: "gen_env \<Rightarrow> LatticePeer \<Rightarrow> PeerStateSnapshot \<Rightarrow> string \<Rightarrow> (eval_error + Message) option" where
  "generate env current snapshot version =
     (let cur = (transferToPeer (ge_visit_ann env) current)\<lparr> p_Labels := ss_Labels snapshot \<rparr>;
          network = snapshot_network env snapshot
      in case GetComputedPeers (ge_valid env) (ge_sel env) (ge_visit_peers env) cur network (ss_Policies snapshot) of
           None \<Rightarrow> None
         | Some computed \<Rightarrow>
             let policies = map (buildPolicy (ge_valid env) (ge_sha env) (ge_list env)) (ss_Policies snapshot)
             in (case Evaluate (ge_visit_rules env) (Some cur) (Some network) (map Some policies) of
                   Inl e \<Rightarrow> Some (Err e)
                 | Inr rules \<Rightarrow>
                     Some (Ok \<lparr> msg_EventType = EventTypeNodeUpdate, msg_ConfigVersion = version, msg_Timestamp = ge_now env, msg_Current = cur,
                                msg_Network = network, msg_Policies = policies, msg_ComputedPeers = computed,
                                msg_ComputedRules = rules \<rparr>)))"

definition message_Equal :: "Message \<Rightarrow> Message \<Rightarrow> bool" where
  "message_Equal m b \<longleftrightarrow>
     msg_EventType m = msg_EventType b \<and> msg_Network m = msg_Network b \<and> msg_Policies m = msg_Policies b \<and>
     msg_ComputedPeers m = msg_ComputedPeers b \<and> msg_ComputedRules m = msg_ComputedRules b \<and>
     p_Name (msg_Current m) = p_Name (msg_Current b)"

definition generateConfigVersion :: "int \<Rightarrow> string \<times> int" where
  "generateConfigVersion counter = (''v'' @ dec_int (counter + 1), counter + 1)"

section \<open>The resolver against its reference\<close>

text \<open>A policy that applies to the current peer names \<open>q\<close> in one of its rules.\<close>

definition rule_selects :: "(LabelSelector \<Rightarrow> labels \<Rightarrow> bool) \<Rightarrow> PolicyRule \<Rightarrow> labels \<Rightarrow> bool" where
  "rule_selects sel r ls = list_ex (\<lambda>s. case ps_PeerSelector s of None \<Rightarrow> False | Some l \<Rightarrow> sel l ls) (pr_Peers r)"

definition connects :: "(LabelSelector \<Rightarrow> labels \<Rightarrow> bool) \<Rightarrow> Peer \<Rightarrow> LatticePolicy list \<Rightarrow> Peer \<Rightarrow> bool" where
  "connects sel current policies q \<longleftrightarrow>
     p_Name q \<noteq> p_Name current \<and>
     list_ex (\<lambda>pol. sel (lc_PeerSelector pol) (p_Labels current) \<and>
                    list_ex (\<lambda>r. rule_selects sel r (p_Labels q)) (lc_Egress pol @ lc_Ingress pol)) policies"

definition bad_rule :: "(LabelSelector \<Rightarrow> bool) \<Rightarrow> PolicyRule \<Rightarrow> bool" where
  "bad_rule valid r = list_ex (\<lambda>s. case ps_PeerSelector s of None \<Rightarrow> False | Some l \<Rightarrow> \<not> valid l) (pr_Peers r)"

definition bad_selector ::
  "(LabelSelector \<Rightarrow> bool) \<Rightarrow> (LabelSelector \<Rightarrow> labels \<Rightarrow> bool) \<Rightarrow> Peer \<Rightarrow> Peer list \<Rightarrow> LatticePolicy list \<Rightarrow> bool" where
  "bad_selector valid sel current allPeers policies \<longleftrightarrow>
     list_ex (\<lambda>pol. \<not> valid (lc_PeerSelector pol) \<or>
                    sel (lc_PeerSelector pol) (p_Labels current) \<and> allPeers \<noteq> [] \<and>
                    list_ex (bad_rule valid) (lc_Egress pol @ lc_Ingress pol)) policies"

definition selected :: "(LabelSelector \<Rightarrow> labels \<Rightarrow> bool) \<Rightarrow> PolicyRule list \<Rightarrow> Peer list \<Rightarrow> Peer list" where
  "selected sel rules allPeers =
     concat (map (\<lambda>s. case ps_PeerSelector s of None \<Rightarrow> [] | Some l \<Rightarrow> filter (\<lambda>p. sel l (p_Labels p)) allPeers)
       (concat (map pr_Peers rules)))"

lemma those_map_if: "those (map (\<lambda>x. if B x then None else Some (f x)) xs) = (if list_ex B xs then None else Some (map f xs))"
  by (induction xs) auto

lemma resolve_all_eq:
  "resolve_all valid sel rules allPeers =
     (if allPeers \<noteq> [] \<and> list_ex (bad_rule valid) rules then None else Some (selected sel rules allPeers))"
proof -
  have one: "resolveSelectionToPeers valid sel s allPeers =
      (if (case ps_PeerSelector s of None \<Rightarrow> False | Some l \<Rightarrow> allPeers \<noteq> [] \<and> \<not> valid l) then None
       else Some (case ps_PeerSelector s of None \<Rightarrow> [] | Some l \<Rightarrow> filter (\<lambda>p. sel l (p_Labels p)) allPeers))" for s
    by (auto simp: resolveSelectionToPeers_def split: option.splits)
  show ?thesis
    unfolding resolve_all_def one those_map_if
    by (auto simp: selected_def bad_rule_def list_ex_iff split: option.splits)
qed

lemma add_peers_append: "add_peers self (xs @ ys) m = add_peers self ys (add_peers self xs m)"
  by (simp add: add_peers_def)

lemma computed_map_eq:
  "computed_map valid sel current allPeers policies m =
     (if bad_selector valid sel current allPeers policies then None
      else Some (add_peers (p_Name current)
        (concat (map (\<lambda>pol. selected sel (lc_Egress pol @ lc_Ingress pol) allPeers)
           (filter (\<lambda>pol. sel (lc_PeerSelector pol) (p_Labels current)) policies))) m))"
proof (induction policies arbitrary: m)
  case (Cons pol ps)
  have "selected sel (lc_Egress pol @ lc_Ingress pol) allPeers = selected sel (lc_Egress pol) allPeers @ selected sel (lc_Ingress pol) allPeers"
    by (simp add: selected_def)
  then show ?case
    using Cons by (auto simp: bad_selector_def resolve_all_eq add_peers_append)
qed (simp add: bad_selector_def add_peers_def)

lemma add_peers_distinct: "distinct (map fst m) \<Longrightarrow> distinct (map fst (add_peers self ps m))"
proof (induction ps arbitrary: m)
  case (Cons p ps)
  then show ?case by (simp add: add_peers_def distinct_update)
qed (simp add: add_peers_def)

lemma add_peers_lookup:
  assumes "inj_on p_Name (set ps)"
  shows "map_of (add_peers self ps []) n = Some p \<longleftrightarrow> p \<in> set ps \<and> p_Name p = n \<and> n \<noteq> self"
  using assms
proof (induction ps rule: rev_induct)
  case (snoc x xs)
  then have "inj_on p_Name (set xs)" by simp
  note IH = snoc.IH [OF this]
  have inj: "p \<in> set xs \<Longrightarrow> p_Name p = p_Name x \<Longrightarrow> p = x" for p
    using snoc.prems by (auto simp: inj_on_def)
  show ?case
    using IH inj by (auto simp: add_peers_append add_peers_def [of _ "[x]"] update_conv')
qed (simp add: add_peers_def)

lemma add_peers_values:
  assumes "inj_on p_Name (set ps)"
  shows "set (map snd (add_peers self ps [])) = {p \<in> set ps. p_Name p \<noteq> self}"
    and "distinct (map snd (add_peers self ps []))"
proof -
  let ?m = "add_peers self ps []"
  have d: "distinct (map fst ?m)" by (rule add_peers_distinct) simp
  then have mem: "(n, p) \<in> set ?m \<longleftrightarrow> p \<in> set ps \<and> p_Name p = n \<and> n \<noteq> self" for n p
    using add_peers_lookup [OF assms] by (metis map_of_eq_Some_iff)
  then show "set (map snd ?m) = {p \<in> set ps. p_Name p \<noteq> self}"
    by (auto simp: image_iff) force
  have "map fst ?m = map p_Name (map snd ?m)"
    using mem by auto
  then show "distinct (map snd ?m)"
    using d by (metis distinct_map)
qed

lemma selected_set: "set (selected sel rules allPeers) = {q \<in> set allPeers. list_ex (\<lambda>r. rule_selects sel r (p_Labels q)) rules}"
proof -
  define g where "g s = (case ps_PeerSelector s of None \<Rightarrow> [] | Some l \<Rightarrow> filter (\<lambda>p. sel l (p_Labels p)) allPeers)" for s :: PeerSelection
  have "selected sel rules allPeers = concat (map g (concat (map pr_Peers rules)))"
    unfolding selected_def g_def by (rule refl)
  moreover have "q \<in> set (g s) \<longleftrightarrow> q \<in> set allPeers \<and> (case ps_PeerSelector s of None \<Rightarrow> False | Some l \<Rightarrow> sel l (p_Labels q))" for q s
    unfolding g_def by (cases "ps_PeerSelector s") auto
  ultimately show ?thesis
    by (auto simp: rule_selects_def list_ex_iff)
qed

lemma connects_set:
  "{q \<in> set (concat (map (\<lambda>pol. selected sel (lc_Egress pol @ lc_Ingress pol) allPeers)
        (filter (\<lambda>pol. sel (lc_PeerSelector pol) (p_Labels current)) policies))). p_Name q \<noteq> p_Name current} =
   {q \<in> set allPeers. connects sel current policies q}"
  by (auto simp: connects_def selected_set list_ex_iff)

lemma sort_key_mset:
  assumes "mset xs = mset ys" "inj_on f (set ys)"
  shows "sort_key f xs = sort_key f ys"
  using assms by (metis mset_sort set_mset_mset sort_key_inj_key_eq sorted_sort_key)

lemma computed_peers_lemma:
  assumes "visit_ok visit" "distinct (map p_Name (nw_Peers network))"
  shows "GetComputedPeers valid sel visit current network policies =
     (if bad_selector valid sel current (nw_Peers network) policies then None
      else Some (sort_key p_Name (filter (connects sel current policies) (nw_Peers network))))"
proof (cases "bad_selector valid sel current (nw_Peers network) policies")
  case True
  then show ?thesis by (simp add: GetComputedPeers_def computed_map_eq)
next
  case False
  define ps where "ps = concat (map (\<lambda>pol. selected sel (lc_Egress pol @ lc_Ingress pol) (nw_Peers network))
     (filter (\<lambda>pol. sel (lc_PeerSelector pol) (p_Labels current)) policies))"
  define m where "m = add_peers (p_Name current) ps []"
  have all: "inj_on p_Name (set (nw_Peers network))" and dp: "distinct (nw_Peers network)"
    using assms(2) by (auto simp: distinct_map)
  moreover have "set ps \<subseteq> set (nw_Peers network)" by (auto simp: ps_def selected_set)
  ultimately have inj: "inj_on p_Name (set ps)" by (blast intro: inj_on_subset)
  have "set (map snd m) = {q \<in> set ps. p_Name q \<noteq> p_Name current}"
    unfolding m_def by (rule add_peers_values(1) [OF inj])
  then have "set (map snd m) = set (filter (connects sel current policies) (nw_Peers network))"
    unfolding ps_def connects_set by simp
  moreover have "distinct (map snd m)" unfolding m_def by (rule add_peers_values(2) [OF inj])
  ultimately have "mset (map snd m) = mset (filter (connects sel current policies) (nw_Peers network))"
    using dp by (metis distinct_filter set_eq_iff_mset_eq_distinct)
  moreover have "mset (visit m) = mset m" using assms(1) by (simp add: visit_ok_def)
  ultimately have "mset (map snd (visit m)) = mset (filter (connects sel current policies) (nw_Peers network))"
    by (metis mset_map)
  then have "sort_key p_Name (map snd (visit m)) = sort_key p_Name (filter (connects sel current policies) (nw_Peers network))"
    by (rule sort_key_mset) (use all in \<open>auto simp: inj_on_def\<close>)
  then show ?thesis
    using False by (simp add: GetComputedPeers_def computed_map_eq flip: ps_def m_def)
qed

text \<open>C6: the peers a node connects to. Whatever order the map of results is walked in, the resolver
  returns the peers of the network other than the node itself that a rule of an applying policy
  selects, in the order of their names. It panics exactly when it evaluates an invalid selector:
  one that says to which nodes a policy applies, or, for an applying policy and a network with
  peers, one in a rule.\<close>

theorem computed_peers_reference:
  assumes "visit_ok visit" "distinct (map p_Name (nw_Peers network))"
  shows "GetComputedPeers valid sel visit current network policies =
     (if bad_selector valid sel current (nw_Peers network) policies then None
      else Some (sort_key p_Name (filter (connects sel current policies) (nw_Peers network))))"
  using assms by (rule computed_peers_lemma)

section \<open>Connections and firewall rules agree\<close>

text \<open>
  Documented behaviour of the API's list call: the objects of the namespace that the selector matches
  and that carry the label. What the controller's snapshot holds for a peer: its network, the
  peers of the namespace with the network's label, and the policies of the namespace that name the
  network and select the peer.
\<close>

definition has_label :: "string \<Rightarrow> LatticePeer \<Rightarrow> bool" where
  "has_label k q \<longleftrightarrow> map_of (lp_Labels q) k = Some ''true''"

definition lists_cluster :: "(LabelSelector \<Rightarrow> labels \<Rightarrow> bool) \<Rightarrow> peer_lister \<Rightarrow> LatticePeer list \<Rightarrow> bool" where
  "lists_cluster sel list cluster \<longleftrightarrow>
     (\<forall>ns s l. list ns s l = Ok (filter (\<lambda>q. lp_Namespace q = ns \<and> sel s (lp_Labels q) \<and>
                (case l of None \<Rightarrow> True | Some k \<Rightarrow> has_label k q)) cluster))"

definition snapshot_of ::
  "(LabelSelector \<Rightarrow> labels \<Rightarrow> bool) \<Rightarrow> (string \<Rightarrow> byte list) \<Rightarrow> LatticePeer list \<Rightarrow> LatticePeer \<Rightarrow> PeerStateSnapshot \<Rightarrow> bool" where
  "snapshot_of sel sha cluster current ss \<longleftrightarrow>
     (case ss_Network ss of
        None \<Rightarrow> False
      | Some n \<Rightarrow>
          ln_Name n \<noteq> [] \<and>
          ss_Peers ss = filter (\<lambda>q. lp_Namespace q = lp_Namespace current \<and> has_label (networkLabelKey sha (ln_Name n)) q) cluster \<and>
          list_all (\<lambda>pol. lc_Namespace pol = lp_Namespace current \<and> lc_Network pol = ln_Name n \<and>
                          sel (lc_PeerSelector pol) (ss_Labels ss)) (ss_Policies ss))"

text \<open>Names are unique in a namespace, UIDs in the cluster, and addresses among the peers of a network;
  an IP block is written with its prefix length.\<close>

definition cluster_ok :: "LatticePeer list \<Rightarrow> string \<Rightarrow> bool" where
  "cluster_ok cluster ns \<longleftrightarrow>
     distinct (map lp_UID cluster) \<and>
     distinct (map lp_Name (filter (\<lambda>q. lp_Namespace q = ns) cluster))"

definition addresses_ok :: "LatticePeer list \<Rightarrow> bool" where
  "addresses_ok ps \<longleftrightarrow>
     distinct (map (\<lambda>q. cleanIP (lp_AllocatedAddress q)) (filter (\<lambda>q. lp_AllocatedAddress q \<noteq> None) ps)) \<and>
     list_all (\<lambda>q. lp_AllocatedAddress q \<noteq> None \<longrightarrow> cleanIP (lp_AllocatedAddress q) \<noteq> []) ps"

definition blocks_ok :: "LatticePolicy list \<Rightarrow> bool" where
  "blocks_ok policies \<longleftrightarrow>
     list_all (\<lambda>pol. list_all (\<lambda>r. list_all (\<lambda>c. CHR ''/'' \<in> set c) (extractCIDRs (pr_Peers r))) (lc_Ingress pol @ lc_Egress pol)) policies"

lemma Split_hd_no_sep: "c \<notin> set (hd (Split c s))"
  by (induction s) (auto split: list.splits)

lemma cleanIP_no_slash: "CHR ''/'' \<notin> set (cleanIP a)"
  by (cases a) (auto simp: cleanIP_def Split_hd_no_sep)

lemma find_nodes_update:
  assumes "distinct (map lp_UID cluster)" "set nodes \<subseteq> set cluster" "set m \<subseteq> (\<lambda>q. (lp_UID q, lp_Name q)) ` set cluster"
  shows "set (foldl (\<lambda>m q. AList.update (lp_UID q) (lp_Name q) m) m nodes) = set m \<union> (\<lambda>q. (lp_UID q, lp_Name q)) ` set nodes"
  using assms(2,3)
proof (induction nodes arbitrary: m)
  case (Cons q nodes)
  have inj: "inj_on lp_UID (set cluster)" using assms(1) by (simp add: distinct_map)
  have "(lp_UID q, v) \<in> set m \<Longrightarrow> v = lp_Name q" for v
    using Cons.prems inj by (auto simp: inj_on_def)
  then have "set (AList.update (lp_UID q) (lp_Name q) m) = insert (lp_UID q, lp_Name q) (set m)"
    by (induction m) auto
  then show ?case using Cons by auto
qed simp

lemma find_nodes_set:
  assumes cluster: "lists_cluster sel list cluster" "distinct (map lp_UID cluster)"
    and valid: "\<forall>s\<in>set rules. case ps_PeerSelector s of None \<Rightarrow> True | Some l \<Rightarrow> valid l"
    and m: "set m \<subseteq> (\<lambda>q. (lp_UID q, lp_Name q)) ` set cluster"
  shows "\<exists>found. find_nodes valid list ns (Some k) rules m = Ok found \<and>
    set found = set m \<union> (\<lambda>q. (lp_UID q, lp_Name q)) `
      {q \<in> set cluster. lp_Namespace q = ns \<and> has_label k q \<and>
         list_ex (\<lambda>s. case ps_PeerSelector s of None \<Rightarrow> False | Some l \<Rightarrow> sel l (lp_Labels q)) rules}"
  using valid m
proof (induction rules arbitrary: m)
  case (Cons s rules)
  show ?case
  proof (cases "ps_PeerSelector s")
    case None
    then show ?thesis using Cons.IH [of m] Cons.prems by simp
  next
    case (Some l)
    define nodes where "nodes = filter (\<lambda>q. lp_Namespace q = ns \<and> sel l (lp_Labels q) \<and> has_label k q) cluster"
    define m' where "m' = foldl (\<lambda>m q. AList.update (lp_UID q) (lp_Name q) m) m nodes"
    have "list ns l (Some k) = Ok nodes"
      using cluster(1) by (simp add: lists_cluster_def nodes_def)
    then have step: "find_nodes valid list ns (Some k) (s # rules) m = find_nodes valid list ns (Some k) rules m'"
      using Some Cons.prems(1) by (simp add: m'_def)
    have m': "set m' = set m \<union> (\<lambda>q. (lp_UID q, lp_Name q)) ` set nodes"
      unfolding m'_def by (rule find_nodes_update [OF cluster(2) _ Cons.prems(2)]) (auto simp: nodes_def)
    then have "set m' \<subseteq> (\<lambda>q. (lp_UID q, lp_Name q)) ` set cluster"
      using Cons.prems(2) by (auto simp: nodes_def)
    from Cons.IH [of m', OF _ this] obtain found where found: "find_nodes valid list ns (Some k) rules m' = Ok found"
      "set found = set m' \<union> (\<lambda>q. (lp_UID q, lp_Name q)) `
        {q \<in> set cluster. lp_Namespace q = ns \<and> has_label k q \<and>
           list_ex (\<lambda>s. case ps_PeerSelector s of None \<Rightarrow> False | Some l \<Rightarrow> sel l (lp_Labels q)) rules}"
      using Cons.prems(1) by auto
    then show ?thesis
      unfolding step using Some by (auto simp: m' nodes_def)
  qed
qed simp

lemma getPeerNames_set:
  assumes "lists_cluster sel list cluster" "distinct (map lp_UID cluster)" "networkName \<noteq> []" "\<not> bad_rule valid r"
  shows "\<exists>names. getPeerNamesByLabels valid sha list ns networkName (pr_Peers r) = Ok names \<and>
    set names = lp_Name ` {q \<in> set cluster. lp_Namespace q = ns \<and> has_label (networkLabelKey sha networkName) q \<and> rule_selects sel r (lp_Labels q)}"
proof -
  have valid: "\<forall>s\<in>set (pr_Peers r). case ps_PeerSelector s of None \<Rightarrow> True | Some l \<Rightarrow> valid l"
    using assms(4) by (auto simp: bad_rule_def list_ex_iff split: option.splits)
  have m: "set [] \<subseteq> (\<lambda>q. (lp_UID q, lp_Name q)) ` set cluster" by simp
  from find_nodes_set [OF assms(1,2) valid m, of ns "networkLabelKey sha networkName"]
  show ?thesis
    using assms(3) by (auto simp: getPeerNamesByLabels_def rule_selects_def image_image)
qed

lemma build_rules_names:
  assumes "lists_cluster sel list cluster" "distinct (map lp_UID cluster)" "networkName \<noteq> []"
    and "\<not> list_ex (bad_rule valid) rules"
  shows "(\<exists>x\<in>set (build_rules valid sha list ns networkName action rules). n \<in> set (r_PeerNames x)) \<longleftrightarrow>
    (\<exists>q\<in>set cluster. lp_Name q = n \<and> lp_Namespace q = ns \<and> has_label (networkLabelKey sha networkName) q \<and>
       list_ex (\<lambda>r. rule_selects sel r (lp_Labels q)) rules)"
  using assms(4)
proof (induction rules)
  case (Cons r rules)
  from getPeerNames_set [OF assms(1,2,3), of valid r sha ns] Cons.prems obtain names where
    names: "getPeerNamesByLabels valid sha list ns networkName (pr_Peers r) = Ok names"
      "set names = lp_Name ` {q \<in> set cluster. lp_Namespace q = ns \<and> has_label (networkLabelKey sha networkName) q \<and> rule_selects sel r (lp_Labels q)}"
    by auto
  have "build_rules valid sha list ns networkName action (r # rules) =
      build_rules valid sha list ns networkName action [r] @ build_rules valid sha list ns networkName action rules"
    by (simp add: build_rules_def)
  moreover have "(\<exists>x\<in>set (build_rules valid sha list ns networkName action [r]). n \<in> set (r_PeerNames x)) \<longleftrightarrow> n \<in> set names"
    using names(1) by (cases "pr_Ports r") (auto simp: build_rules_def Let_def)
  ultimately show ?case
    using Cons by (auto simp: names(2))
qed (simp add: build_rules_def)

lemma build_rules_cidrs:
  "x \<in> set (build_rules valid sha list ns networkName action rules) \<Longrightarrow> \<exists>r\<in>set rules. r_CIDRs x = extractCIDRs (pr_Peers r)"
  by (fastforce simp: build_rules_def Let_def split: sum.splits if_splits)


lemma emitted_peers:
  assumes "visit_ok visit" "Evaluate visit (Some current) (Some nw) (map Some policies) = Ok fw"
  shows "(\<exists>t\<in>set (fw_Ingress fw) \<union> set (fw_Egress fw). tf_Peers t = [ip]) \<longleftrightarrow>
    (\<exists>pol\<in>set policies. \<exists>x. Some x \<in> set (po_Ingress pol) \<union> set (po_Egress pol) \<and>
       ip \<in> set (resolveRulePeers x (peerIPByName nw) (p_Name current)))"
proof -
  have chain: "(\<exists>t\<in>set (map (emit_rule c) (visit (decide_all [] xs)) @ [tail_rule c]). tf_Peers t = [ip]) \<longleftrightarrow>
      (\<exists>k\<in>fst ` set xs. rk_peer k = ip)" for c and xs :: "(ruleDecisionKey \<times> string) list"
  proof -
    have "fst ` set (decide_all [] xs) \<subseteq> fst ` set xs" using decided_action(1) [of _ _ xs] by auto
    moreover have "fst ` set xs \<subseteq> fst ` set (decide_all [] xs)" by (rule subsetI) (rule asked_is_decided)
    ultimately have "fst ` set (decide_all [] xs) = fst ` set xs" by (rule subset_antisym)
    then have "(\<exists>k\<in>fst ` set xs. rk_peer k = ip) \<longleftrightarrow> (\<exists>k\<in>fst ` set (visit (decide_all [] xs)). rk_peer k = ip)"
      by (simp only: visit_set [OF assms(1)])
    moreover have "(\<exists>t\<in>set (map (emit_rule c) ys @ [tail_rule c]). tf_Peers t = [ip]) \<longleftrightarrow> (\<exists>k\<in>fst ` set ys. rk_peer k = ip)" for ys
      by (induction ys) (auto simp: emit_rule_def tail_rule_def)
    ultimately show ?thesis by blast
  qed
  have asked: "(\<exists>k\<in>fst ` set (policy_asks sel nw current (map Some policies)). rk_peer k = ip) \<longleftrightarrow>
      (\<exists>pol\<in>set policies. \<exists>x. Some x \<in> set (sel pol) \<and> ip \<in> set (resolveRulePeers x (peerIPByName nw) (p_Name current)))" for sel
  proof -
    have "List.map_filter id (map Some policies) = policies"
      by (induction policies) (simp_all add: map_filter_simps)
    then show ?thesis
      by (fastforce simp: policy_asks_def asks_def rule_asks_def split: option.splits)
  qed
  show ?thesis
    unfolding bex_Un Evaluate_Ok [OF assms(2)] chain asked by blast
qed

lemma peerIPByName_unique:
  assumes "distinct (map p_Name ps)" "distinct (map (\<lambda>p. cleanIP (p_Address p)) ps)"
    and "\<And>p. p \<in> set ps \<Longrightarrow> p_Address p \<noteq> None \<and> cleanIP (p_Address p) \<noteq> []" "q \<in> set ps" "nw_Peers nw = ps"
  shows "peerIPByName nw n = cleanIP (p_Address q) \<longleftrightarrow> n = p_Name q"
proof -
  have f: "filter (\<lambda>p. p_Address p \<noteq> None) ps = ps" using assms(3) by (simp add: filter_id_conv)
  let ?m = "map (\<lambda>p. (p_Name p, cleanIP (p_Address p))) ps"
  have lookup: "map_of (rev ?m) n = Some ip \<longleftrightarrow> (\<exists>p\<in>set ps. p_Name p = n \<and> cleanIP (p_Address p) = ip)" for n ip
  proof -
    have "distinct (map fst (rev ?m))" using assms(1) by (simp add: comp_def rev_map [symmetric])
    then have "map_of (rev ?m) n = Some ip \<longleftrightarrow> (n, ip) \<in> set (rev ?m)" by (rule map_of_eq_Some_iff)
    then show ?thesis by auto
  qed
  have inj: "p = q" if "p \<in> set ps" "cleanIP (p_Address p) = cleanIP (p_Address q)" for p
    using that assms(2,4) by (auto simp: distinct_map inj_on_def)
  have "peerIPByName nw n = cleanIP (p_Address q) \<longleftrightarrow> map_of (rev ?m) n = Some (cleanIP (p_Address q))"
    using assms(3) [OF assms(4)] unfolding peerIPByName_def assms(5) f by (auto split: option.splits)
  also have "\<dots> \<longleftrightarrow> n = p_Name q" unfolding lookup using inj assms(4) by auto
  finally show ?thesis .
qed

lemma generate_Ok:
  assumes "generate env current ss version = Some (Ok msg)"
  shows "GetComputedPeers (ge_valid env) (ge_sel env) (ge_visit_peers env) (msg_Current msg) (msg_Network msg) (ss_Policies ss) =
      Some (msg_ComputedPeers msg)"
    and "Evaluate (ge_visit_rules env) (Some (msg_Current msg)) (Some (msg_Network msg))
      (map Some (map (buildPolicy (ge_valid env) (ge_sha env) (ge_list env)) (ss_Policies ss))) = Ok (msg_ComputedRules msg)"
    and "msg_Network msg = snapshot_network env ss" "p_Labels (msg_Current msg) = ss_Labels ss" "p_Name (msg_Current msg) = lp_Name current"
  using assms by (auto simp: generate_def Let_def split: option.splits sum.splits)


lemma snapshot_peers:
  assumes "cluster_ok cluster ns" "addresses_ok sp" "sp = filter (\<lambda>q. lp_Namespace q = ns \<and> P q) cluster"
    and "ss_Network ss = Some n" "ss_Peers ss = sp"
  shows "distinct (map p_Name (nw_Peers (snapshot_network env ss)))"
    and "distinct (map (\<lambda>p. cleanIP (p_Address p)) (nw_Peers (snapshot_network env ss)))"
    and "p \<in> set (nw_Peers (snapshot_network env ss)) \<Longrightarrow> p_Address p \<noteq> None \<and> cleanIP (p_Address p) \<noteq> []"
    and "set (nw_Peers (snapshot_network env ss)) = transferToPeer (ge_visit_ann env) ` {q \<in> set sp. lp_AllocatedAddress q \<noteq> None}"
proof -
  let ?t = "transferToPeer (ge_visit_ann env)" and ?fp = "filter (\<lambda>q. lp_AllocatedAddress q \<noteq> None) sp"
  have nw: "nw_Peers (snapshot_network env ss) = sort_key p_Name (map ?t ?fp)"
    using assms(4,5) by (simp add: snapshot_network_def)
  have ms: "mset (map f (sort_key p_Name (map ?t ?fp))) = mset (map (f \<circ> ?t) ?fp)" for f :: "Peer \<Rightarrow> string"
    by (simp only: mset_map mset_sort multiset.map_comp)
  have dist: "distinct (map f (sort_key p_Name (map ?t ?fp))) = distinct (map (f \<circ> ?t) ?fp)" for f :: "Peer \<Rightarrow> string"
    using ms [of f] by (metis mset_eq_imp_distinct_iff)
  have fp: "?fp = filter (\<lambda>q. P q \<and> lp_AllocatedAddress q \<noteq> None) (filter (\<lambda>q. lp_Namespace q = ns) cluster)"
    by (simp add: assms(3) conj_commute conj_left_commute)
  have "distinct (map lp_Name (filter (\<lambda>q. lp_Namespace q = ns) cluster))"
    using assms(1) unfolding cluster_ok_def by (rule conjunct2)
  then have "distinct (map lp_Name ?fp)"
    unfolding fp by (rule distinct_map_filter)
  then show "distinct (map p_Name (nw_Peers (snapshot_network env ss)))"
    unfolding nw dist by (simp add: comp_def)
  have "distinct (map (\<lambda>q. cleanIP (lp_AllocatedAddress q)) ?fp)"
    using assms(2) by (simp only: addresses_ok_def)
  then show "distinct (map (\<lambda>p. cleanIP (p_Address p)) (nw_Peers (snapshot_network env ss)))"
    unfolding nw dist by (simp only: comp_def transferToPeer_fields)
  show set: "set (nw_Peers (snapshot_network env ss)) = ?t ` {q \<in> set sp. lp_AllocatedAddress q \<noteq> None}"
    unfolding nw by simp
  show "p_Address p \<noteq> None \<and> cleanIP (p_Address p) \<noteq> []" if "p \<in> set (nw_Peers (snapshot_network env ss))"
    using that assms(2) unfolding set addresses_ok_def list_all_iff by auto
qed

lemma resolved_address:
  assumes "CHR ''/'' \<notin> set ip" "ip \<noteq> []" "\<And>c. c \<in> set (r_CIDRs x) \<Longrightarrow> CHR ''/'' \<in> set c"
    and "\<And>n. ipByName n = ip \<longleftrightarrow> n = q"
  shows "ip \<in> set (resolveRulePeers x ipByName self) \<longleftrightarrow> q \<in> set (r_PeerNames x) \<and> q \<noteq> self"
proof -
  have "ip \<notin> set (r_CIDRs x)" using assms(1,3) by blast
  moreover have "ip \<in> ipByName ` A \<longleftrightarrow> q \<in> A" for A
  proof -
    have "ip \<in> ipByName ` A \<longleftrightarrow> (\<exists>n\<in>A. ipByName n = ip)" by auto
    also have "\<dots> \<longleftrightarrow> q \<in> A" unfolding assms(4) by simp
    finally show ?thesis .
  qed
  ultimately show ?thesis using assms(2) by (simp add: resolveRulePeers_def)
qed

lemma built_cidrs:
  assumes "blocks_ok policies" "pol \<in> set policies" "c \<in> set (r_CIDRs x)"
    and "Some x \<in> set (po_Ingress (buildPolicy valid sha list pol)) \<union> set (po_Egress (buildPolicy valid sha list pol))"
  shows "CHR ''/'' \<in> set c"
proof -
  have "\<exists>r\<in>set (lc_Ingress pol @ lc_Egress pol). r_CIDRs x = extractCIDRs (pr_Peers r)"
    using assms(4) by (auto simp: buildPolicy_def Let_def dest!: build_rules_cidrs)
  then show ?thesis
    using assms(1-3) unfolding blocks_ok_def list_all_iff by metis
qed

lemma built_rules_name:
  assumes cluster: "lists_cluster sel list cluster" "cluster_ok cluster ns"
    and pol: "lc_Namespace pol = ns" "lc_Network pol = nn" "nn \<noteq> []" "\<not> list_ex (bad_rule valid) (lc_Egress pol @ lc_Ingress pol)"
    and q: "q \<in> set cluster" "lp_Namespace q = ns" "has_label (networkLabelKey sha nn) q"
  shows "(\<exists>x. Some x \<in> set (po_Ingress (buildPolicy valid sha list pol)) \<union> set (po_Egress (buildPolicy valid sha list pol)) \<and>
      lp_Name q \<in> set (r_PeerNames x)) \<longleftrightarrow> list_ex (\<lambda>r. rule_selects sel r (lp_Labels q)) (lc_Egress pol @ lc_Ingress pol)"
proof -
  have uid: "distinct (map lp_UID cluster)" using cluster(2) by (simp add: cluster_ok_def)
  have inj: "q' = q" if "q' \<in> set cluster" "lp_Namespace q' = ns" "lp_Name q' = lp_Name q" for q'
    using that q cluster(2) by (auto simp: cluster_ok_def distinct_map inj_on_def)
  have names: "(\<exists>x\<in>set (build_rules valid sha list ns nn a rules). lp_Name q \<in> set (r_PeerNames x)) \<longleftrightarrow>
      list_ex (\<lambda>r. rule_selects sel r (lp_Labels q)) rules" if "\<not> list_ex (bad_rule valid) rules" for a rules
    unfolding build_rules_names [OF cluster(1) uid pol(3) that] using inj q by blast
  have bad: "\<not> list_ex (bad_rule valid) (lc_Ingress pol)" "\<not> list_ex (bad_rule valid) (lc_Egress pol)"
    using pol(4) by auto
  define a where "a = (if lc_Action pol = [] then ''ALLOW'' else lc_Action pol)"
  have rules: "po_Ingress (buildPolicy valid sha list pol) = map Some (build_rules valid sha list ns nn a (lc_Ingress pol))"
    "po_Egress (buildPolicy valid sha list pol) = map Some (build_rules valid sha list ns nn a (lc_Egress pol))"
    by (simp_all add: buildPolicy_def Let_def pol(1,2) a_def)
  have "(\<exists>x. Some x \<in> set (map Some xs) \<union> set (map Some ys) \<and> P x) \<longleftrightarrow> (\<exists>x\<in>set xs. P x) \<or> (\<exists>x\<in>set ys. P x)"
    for P :: "Rule \<Rightarrow> bool" and xs ys
    by auto
  from this [of "build_rules valid sha list ns nn a (lc_Ingress pol)" "build_rules valid sha list ns nn a (lc_Egress pol)" "\<lambda>x. lp_Name q \<in> set (r_PeerNames x)"]
  show ?thesis
    unfolding rules names [OF bad(1), of a] names [OF bad(2), of a] list_ex_append by (simp only: disj_commute)
qed

lemma ruled_by_name:
  assumes "visit_ok visit" "blocks_ok policies"
    and "Evaluate visit (Some current) (Some nw) (map Some (map (buildPolicy valid sha list) policies)) = Ok fw"
    and "distinct (map p_Name (nw_Peers nw))" "distinct (map (\<lambda>p. cleanIP (p_Address p)) (nw_Peers nw))"
    and "\<And>p. p \<in> set (nw_Peers nw) \<Longrightarrow> p_Address p \<noteq> None \<and> cleanIP (p_Address p) \<noteq> []"
    and "q \<in> set (nw_Peers nw)" "p_Name q \<noteq> p_Name current"
  shows "(\<exists>pol\<in>set policies. \<exists>x. Some x \<in> set (po_Ingress (buildPolicy valid sha list pol)) \<union> set (po_Egress (buildPolicy valid sha list pol)) \<and>
      p_Name q \<in> set (r_PeerNames x)) \<longleftrightarrow> (\<exists>t\<in>set (fw_Ingress fw) \<union> set (fw_Egress fw). tf_Peers t = [cleanIP (p_Address q)])"
proof -
  have "cleanIP (p_Address q) \<in> set (resolveRulePeers x (peerIPByName nw) (p_Name current)) \<longleftrightarrow> p_Name q \<in> set (r_PeerNames x)"
    if "pol \<in> set policies" "Some x \<in> set (po_Ingress (buildPolicy valid sha list pol)) \<union> set (po_Egress (buildPolicy valid sha list pol))" for pol x
  proof -
    have "peerIPByName nw n = cleanIP (p_Address q) \<longleftrightarrow> n = p_Name q" for n
      by (rule peerIPByName_unique [OF assms(4-7) refl])
    from resolved_address [OF cleanIP_no_slash conjunct2 [OF assms(6) [OF assms(7)]] built_cidrs [OF assms(2) that(1) _ that(2)] this]
    show ?thesis using assms(8) by blast
  qed
  then show ?thesis
    unfolding emitted_peers [OF assms(1,3)] by (simp only: set_map bex_simps image_iff) blast
qed

text \<open>C2: connections and firewall agree. For a configuration generated from a consistent view of the
  cluster, a peer of the network other than the node itself is one the node connects to exactly if
  the firewall has a rule for its address. So no tunnel is set up that every rule ignores, and no
  rule names a peer the node has no tunnel to.\<close>

theorem connected_iff_ruled:
  assumes "generate env current ss version = Some (Ok msg)"
    and "lists_cluster (ge_sel env) (ge_list env) cluster" "cluster_ok cluster (lp_Namespace current)"
    and "snapshot_of (ge_sel env) (ge_sha env) cluster current ss" "addresses_ok (ss_Peers ss)" "blocks_ok (ss_Policies ss)"
    and "visit_ok (ge_visit_peers env)" "visit_ok (ge_visit_rules env)"
    and "q \<in> set (nw_Peers (msg_Network msg))" "p_Name q \<noteq> lp_Name current"
  shows "q \<in> set (msg_ComputedPeers msg) \<longleftrightarrow>
    (\<exists>t\<in>set (fw_Ingress (msg_ComputedRules msg)) \<union> set (fw_Egress (msg_ComputedRules msg)). tf_Peers t = [cleanIP (p_Address q)])"
proof -
  define ns where "ns = lp_Namespace current"
  note gen = generate_Ok [OF assms(1)]
  from assms(4) obtain n where n: "ss_Network ss = Some n" "ln_Name n \<noteq> []"
    and sp: "ss_Peers ss = filter (\<lambda>q. lp_Namespace q = ns \<and> has_label (networkLabelKey (ge_sha env) (ln_Name n)) q) cluster"
    and pols: "\<And>pol. pol \<in> set (ss_Policies ss) \<Longrightarrow> lc_Namespace pol = ns \<and> lc_Network pol = ln_Name n \<and> ge_sel env (lc_PeerSelector pol) (ss_Labels ss)"
    by (auto simp: snapshot_of_def ns_def list_all_iff split: option.splits)
  note peers = snapshot_peers [OF assms(3,5) sp [unfolded ns_def] n(1) refl, where env = env]
  have q: "q \<in> set (nw_Peers (snapshot_network env ss))" using assms(9) by (simp add: gen)
  then obtain l where l: "q = transferToPeer (ge_visit_ann env) l" "l \<in> set cluster" "lp_Namespace l = ns"
      "has_label (networkLabelKey (ge_sha env) (ln_Name n)) l"
    using peers(4) sp by auto
  have computed: "GetComputedPeers (ge_valid env) (ge_sel env) (ge_visit_peers env) (msg_Current msg) (msg_Network msg) (ss_Policies ss) =
      (if bad_selector (ge_valid env) (ge_sel env) (msg_Current msg) (nw_Peers (msg_Network msg)) (ss_Policies ss) then None
       else Some (sort_key p_Name (filter (connects (ge_sel env) (msg_Current msg) (ss_Policies ss)) (nw_Peers (msg_Network msg)))))"
    by (rule computed_peers_lemma [OF assms(7)]) (simp add: gen peers(1))
  have good: "\<not> list_ex (bad_rule (ge_valid env)) (lc_Egress pol @ lc_Ingress pol)" if "pol \<in> set (ss_Policies ss)" for pol
    using computed gen(1,4) q pols [OF that] that
    by (auto simp: bad_selector_def list_ex_iff gen(3) split: if_splits)
  have "q \<in> set (msg_ComputedPeers msg) \<longleftrightarrow> connects (ge_sel env) (msg_Current msg) (ss_Policies ss) q"
    using computed gen(1) assms(9) by (auto split: if_splits)
  also have "\<dots> \<longleftrightarrow> (\<exists>pol\<in>set (ss_Policies ss). list_ex (\<lambda>r. rule_selects (ge_sel env) r (lp_Labels l)) (lc_Egress pol @ lc_Ingress pol))"
    using assms(10) pols by (auto simp: connects_def list_ex_iff gen l(1))
  also have "\<dots> \<longleftrightarrow> (\<exists>pol\<in>set (ss_Policies ss). \<exists>x. Some x \<in> set (po_Ingress (buildPolicy (ge_valid env) (ge_sha env) (ge_list env) pol)) \<union>
        set (po_Egress (buildPolicy (ge_valid env) (ge_sha env) (ge_list env) pol)) \<and> p_Name q \<in> set (r_PeerNames x))"
    using built_rules_name [OF assms(2,3), folded ns_def, OF _ _ n(2) good l(2,3,4)] pols by (simp add: l(1))
  also have "\<dots> \<longleftrightarrow> (\<exists>t\<in>set (fw_Ingress (msg_ComputedRules msg)) \<union> set (fw_Egress (msg_ComputedRules msg)). tf_Peers t = [cleanIP (p_Address q)])"
    by (rule ruled_by_name [OF assms(8,6) gen(2) [unfolded gen(3)] peers(1,2,3) q assms(10) [folded gen(5)]])
  finally show ?thesis .
qed


text \<open>A cluster with two peers of one network and a policy that lets every peer talk to the web server.\<close>

definition demo_match :: "LabelSelector \<Rightarrow> labels \<Rightarrow> bool" where
  "demo_match s ls = list_all (\<lambda>kv. kv \<in> set ls) (ls_MatchLabels s)"

definition demo_peer :: "string \<Rightarrow> string \<Rightarrow> LatticePeer" where
  "demo_peer name addr =
     \<lparr> lp_Name = name, lp_Namespace = ''prod'', lp_UID = name, lp_Labels = [(''app'', name), (''alattice.io/network-net'', ''true'')],
       lp_Annotations = [], lp_Finalizers = [], lp_Deleting = False, lp_AppId = name, lp_InterfaceName = ''wf0'', lp_Platform = ''linux'',
       lp_PrivateKey = ''k'', lp_PublicKey = ''p'', lp_PeerId = ''7'', lp_Network = Some ''net'', lp_Phase = PhaseReady, lp_Conditions = [],
       lp_ActiveNetwork = Some ''net'', lp_AllocatedAddress = Some addr, lp_CurrentHash = [] \<rparr>"

abbreviation demo_cluster :: "LatticePeer list" where
  "demo_cluster \<equiv> [demo_peer ''db'' ''10.0.0.2'', demo_peer ''web'' ''10.0.0.3'']"

definition demo_policy :: LatticePolicy where
  "demo_policy =
     \<lparr> lc_Name = ''p'', lc_Namespace = ''prod'', lc_Labels = [], lc_Network = ''net'',
       lc_PeerSelector = \<lparr> ls_MatchLabels = [], ls_MatchExpressions = [] \<rparr>, lc_Ingress = [],
       lc_Egress = [\<lparr> pr_Peers = [\<lparr> ps_PeerSelector = Some \<lparr> ls_MatchLabels = [(''app'', ''web'')], ls_MatchExpressions = [] \<rparr>,
                                      ps_IPBlock = None \<rparr>], pr_Ports = [] \<rparr>],
       lc_Action = [], lc_TargetNodes = 0, lc_RuleCount = 0 \<rparr>"

definition demo_snapshot :: PeerStateSnapshot where
  "demo_snapshot =
     \<lparr> ss_Peer = demo_peer ''db'' ''10.0.0.2'',
       ss_Network = Some \<lparr> ln_Name = ''net'', ln_Namespace = ''prod'', ln_SpecName = ''net'', ln_Phase = NetPhaseReady,
                            ln_ActiveCIDR = ''10.0.0.0/24'', ln_AllocatedCount = 2 \<rparr>,
       ss_Policies = [demo_policy], ss_Peers = demo_cluster, ss_Labels = lp_Labels (demo_peer ''db'' ''10.0.0.2'') \<rparr>"

definition demo_list :: peer_lister where
  "demo_list ns s l = Ok (filter (\<lambda>q. lp_Namespace q = ns \<and> demo_match s (lp_Labels q) \<and>
     (case l of None \<Rightarrow> True | Some k \<Rightarrow> has_label k q)) demo_cluster)"

definition demo_env :: gen_env where
  "demo_env = \<lparr> ge_valid = (\<lambda>_. True), ge_sel = demo_match, ge_sha = (\<lambda>_. replicate 32 0), ge_list = demo_list,
     ge_visit_ann = rev, ge_visit_peers = rev, ge_visit_rules = rev, ge_now = 0 \<rparr>"

lemmas demo_gen = demo_peer_def demo_policy_def demo_snapshot_def demo_env_def

lemma demo_net_key: "networkLabelKey sha ''net'' = ''alattice.io/network-net''"
  by (simp add: networkLabelKey_def safeKeyName_def Let_def)

lemma demo_peers:
  "nw_Peers (snapshot_network demo_env demo_snapshot) =
     sort_key p_Name (map (transferToPeer rev) demo_cluster)"
  by (simp add: snapshot_network_def demo_gen)

lemma generate_total:
  assumes "visit_ok (ge_visit_peers env)" "distinct (map p_Name (nw_Peers (snapshot_network env ss)))"
    and "\<not> bad_selector (ge_valid env) (ge_sel env) ((transferToPeer (ge_visit_ann env) current)\<lparr> p_Labels := ss_Labels ss \<rparr>)
           (nw_Peers (snapshot_network env ss)) (ss_Policies ss)"
  shows "\<exists>msg. generate env current ss version = Some (Ok msg)"
  using assms(3) by (simp add: generate_def Let_def computed_peers_lemma [OF assms(1,2)] Evaluate_def split: prod.splits)

theorem computed_peers_reference_witness:
  "GetComputedPeers (\<lambda>_. True) demo_match rev (transferToPeer rev (demo_peer ''db'' ''10.0.0.2''))
     \<lparr> nw_NetworkId = ''net'', nw_NetworkName = ''net'', nw_Peers = map (transferToPeer rev) demo_cluster \<rparr> [demo_policy] =
   Some [transferToPeer rev (demo_peer ''web'' ''10.0.0.3'')]"
  using computed_peers_reference [of rev "\<lparr> nw_NetworkId = ''net'', nw_NetworkName = ''net'', nw_Peers = map (transferToPeer rev) demo_cluster \<rparr>"
      "\<lambda>_. True" demo_match "transferToPeer rev (demo_peer ''db'' ''10.0.0.2'')" "[demo_policy]"]
  by (simp add: visit_ok_def bad_selector_def bad_rule_def connects_def rule_selects_def demo_match_def demo_peer_def demo_policy_def)

theorem connected_iff_ruled_witness:
  "\<exists>msg. generate demo_env (demo_peer ''db'' ''10.0.0.2'') demo_snapshot ''v1'' = Some (Ok msg) \<and>
     (transferToPeer rev (demo_peer ''web'' ''10.0.0.3'') \<in> set (msg_ComputedPeers msg) \<longleftrightarrow>
       (\<exists>t\<in>set (fw_Ingress (msg_ComputedRules msg)) \<union> set (fw_Egress (msg_ComputedRules msg)). tf_Peers t = [''10.0.0.3'']))"
proof -
  have vis: "visit_ok (ge_visit_peers demo_env)" "visit_ok (ge_visit_rules demo_env)"
    by (simp_all add: visit_ok_def demo_env_def)
  have "distinct (map p_Name (nw_Peers (snapshot_network demo_env demo_snapshot)))"
    unfolding demo_peers by (simp add: demo_peer_def)
  from generate_total [OF vis(1) this, of "demo_peer ''db'' ''10.0.0.2''" "''v1''"]
  obtain msg where msg: "generate demo_env (demo_peer ''db'' ''10.0.0.2'') demo_snapshot ''v1'' = Some (Ok msg)"
    by (auto simp: bad_selector_def bad_rule_def demo_env_def demo_snapshot_def demo_policy_def)
  have "lists_cluster (ge_sel demo_env) (ge_list demo_env) demo_cluster"
    by (simp add: lists_cluster_def demo_env_def demo_list_def)
  moreover have "cluster_ok demo_cluster (lp_Namespace (demo_peer ''db'' ''10.0.0.2''))"
    by (simp add: cluster_ok_def demo_peer_def)
  moreover have "snapshot_of (ge_sel demo_env) (ge_sha demo_env) demo_cluster (demo_peer ''db'' ''10.0.0.2'') demo_snapshot"
    by (simp add: snapshot_of_def demo_gen demo_net_key has_label_def demo_match_def)
  moreover have "addresses_ok (ss_Peers demo_snapshot)" "blocks_ok (ss_Policies demo_snapshot)"
    by (simp_all add: addresses_ok_def blocks_ok_def demo_gen cleanIP_def extractCIDRs_def map_filter_simps)
  moreover have "transferToPeer rev (demo_peer ''web'' ''10.0.0.3'') \<in> set (nw_Peers (msg_Network msg))"
    unfolding generate_Ok(3) [OF msg] demo_peers by simp
  ultimately show ?thesis
    using connected_iff_ruled [OF msg, of demo_cluster "transferToPeer rev (demo_peer ''web'' ''10.0.0.3'')"] vis msg
    by (simp add: demo_peer_def cleanIP_def)
qed

end
