(* ===== verification/Peer_Controller.thy ===== *)
theory Peer_Controller
  imports Generator
begin

text \<open>
  The peer controller (\<open>internal/agent/controller/peer_controller.go\<close>): the life cycle of a
  \<open>LatticePeer\<close> from its creation to a published configuration.

  The Kubernetes client is the record \<open>peer_api\<close> over an abstract cluster state. A patch returns the
  object as the server has it afterwards, which the code copies back into its own pointer; resource
  versions are part of the cluster state. A handler takes the reconciler's pointer and state and
  returns the result, the pointer and the state: \<open>Ok d\<close> asks for another reconcile after \<open>d\<close> nanoseconds,
  zero for none. \<open>None\<close> stands for an address scan that does not end (see \<open>AllocateIP\<close>). All calls to
  \<open>metav1.Now\<close> in one reconcile read the same clock.
\<close>

section \<open>Environment\<close>

record ConfigMap =
  cm_Name :: string
  cm_Namespace :: string
  cm_Labels :: labels
  cm_Annotations :: labels
  cm_Data :: labels

record 'w peer_api =
  pa_GetPeer :: "'w \<Rightarrow> string \<Rightarrow> string \<Rightarrow> kube_error + LatticePeer"
  pa_UpdatePeer :: "'w \<Rightarrow> LatticePeer \<Rightarrow> kube_error option \<times> 'w"
  pa_PatchPeer :: "'w \<Rightarrow> LatticePeer \<Rightarrow> LatticePeer \<Rightarrow> (kube_error + LatticePeer) \<times> 'w"
  pa_PatchStatus :: "'w \<Rightarrow> LatticePeer \<Rightarrow> LatticePeer \<Rightarrow> (kube_error + LatticePeer) \<times> 'w"
  pa_GetNetwork :: "'w \<Rightarrow> string \<Rightarrow> string \<Rightarrow> kube_error + LatticeNetwork"
  pa_ListPeers :: "'w \<Rightarrow> string \<Rightarrow> LabelSelector option \<Rightarrow> string option \<Rightarrow> kube_error + LatticePeer list"
  pa_ListPolicies :: "'w \<Rightarrow> string \<Rightarrow> kube_error + LatticePolicy list"
  pa_GetConfigMap :: "'w \<Rightarrow> string \<Rightarrow> string \<Rightarrow> kube_error + ConfigMap"
  pa_ApplyConfigMap :: "'w \<Rightarrow> ConfigMap \<Rightarrow> kube_error option \<times> 'w"
  pa_SetController :: "kube_error option"
  pa_GenerateKey :: "'w \<Rightarrow> kube_error + byte list \<times> byte list"
  pa_ipam :: "'w ipam_api"

datatype rec_error = RApi kube_error | RIpam ipam_error | RGen eval_error | RPanic

record peer_env =
  pe_gen :: gen_env
  pe_ip6 :: ip6_text
  pe_key_String :: "byte list \<Rightarrow> string"
  pe_json :: "Message \<Rightarrow> string"
  pe_json_hashed :: "Message \<Rightarrow> string"
  pe_Error :: "rec_error \<Rightarrow> string"

record 'w rstate =
  rs_versionCounter :: int
  rs_Events :: "(string \<times> string) list"
  rs_world :: 'w

type_synonym 'w outcome = "(rec_error + int) \<times> LatticePeer \<times> 'w rstate"

definition finalizerName :: string where "finalizerName = ''alattice.io/node''"
definition network_label_prefix :: string where "network_label_prefix = ''alattice.io/network-''"

definition cond :: "peer_env \<Rightarrow> string \<Rightarrow> bool \<Rightarrow> string \<Rightarrow> string \<Rightarrow> Condition" where
  "cond env ty st reason msg =
     \<lparr> cd_Type = ty, cd_Status = st, cd_Reason = reason, cd_Message = msg, cd_LastTransitionTime = ge_now (pe_gen env) \<rparr>"

definition add_cond :: "Condition \<Rightarrow> LatticePeer \<Rightarrow> LatticePeer" where
  "add_cond c p = p\<lparr> lp_Conditions := setCondition (lp_Conditions p) c \<rparr>"

text \<open>The verb \<open>%q\<close> on the name of an object, which has no character to escape.\<close>

definition quoted :: "string \<Rightarrow> string" where "quoted s = CHR 0x22 # s @ [CHR 0x22]"

section \<open>Writing a peer back\<close>

definition status_eq :: "LatticePeer \<Rightarrow> LatticePeer \<Rightarrow> bool" where
  "status_eq p q \<longleftrightarrow>
     lp_Phase p = lp_Phase q \<and> lp_Conditions p = lp_Conditions q \<and> lp_ActiveNetwork p = lp_ActiveNetwork q \<and>
     lp_AllocatedAddress p = lp_AllocatedAddress q \<and> lp_CurrentHash p = lp_CurrentHash q"

text \<open>Labels and annotations are maps: two lists with distinct keys are equal maps if they are equal sets.\<close>

definition spec_eq :: "LatticePeer \<Rightarrow> LatticePeer \<Rightarrow> bool" where
  "spec_eq p q \<longleftrightarrow>
     lp_AppId p = lp_AppId q \<and> lp_InterfaceName p = lp_InterfaceName q \<and> lp_Platform p = lp_Platform q \<and>
     lp_PrivateKey p = lp_PrivateKey q \<and> lp_PublicKey p = lp_PublicKey q \<and> lp_PeerId p = lp_PeerId q \<and>
     lp_Network p = lp_Network q \<and> set (lp_Labels p) = set (lp_Labels q) \<and> set (lp_Annotations p) = set (lp_Annotations q)"

definition with_status :: "LatticePeer \<Rightarrow> LatticePeer \<Rightarrow> LatticePeer" where
  "with_status src p =
     p\<lparr> lp_Phase := lp_Phase src, lp_Conditions := lp_Conditions src, lp_ActiveNetwork := lp_ActiveNetwork src,
        lp_AllocatedAddress := lp_AllocatedAddress src, lp_CurrentHash := lp_CurrentHash src \<rparr>"

definition with_spec :: "LatticePeer \<Rightarrow> LatticePeer \<Rightarrow> LatticePeer" where
  "with_spec src p =
     p\<lparr> lp_AppId := lp_AppId src, lp_InterfaceName := lp_InterfaceName src, lp_Platform := lp_Platform src,
        lp_PrivateKey := lp_PrivateKey src, lp_PublicKey := lp_PublicKey src, lp_PeerId := lp_PeerId src,
        lp_Network := lp_Network src, lp_Labels := lp_Labels src, lp_Annotations := lp_Annotations src \<rparr>"

definition updateSpec ::
  "'w peer_api \<Rightarrow> LatticePeer \<Rightarrow> (LatticePeer \<Rightarrow> kube_error + LatticePeer) \<Rightarrow> 'w rstate \<Rightarrow>
   (kube_error + bool) \<times> LatticePeer \<times> 'w rstate" where
  "updateSpec api node updateFunc s =
     (case updateFunc node of
        Inl e \<Rightarrow> (Err e, node, s)
      | Inr nodeCopy \<Rightarrow>
          if spec_eq nodeCopy node then (Ok False, node, s)
          else
            (case pa_PatchPeer api (rs_world s) node nodeCopy of
               (Inl KConflict, w) \<Rightarrow> (Ok False, node, s\<lparr> rs_world := w \<rparr>)
             | (Inl e, w) \<Rightarrow> (Err e, node, s\<lparr> rs_world := w \<rparr>)
             | (Inr obj, w) \<Rightarrow> (Ok True, with_spec obj node, s\<lparr> rs_world := w \<rparr>)))"

definition updateStatus ::
  "'w peer_api \<Rightarrow> LatticePeer \<Rightarrow> (LatticePeer \<Rightarrow> LatticePeer) \<Rightarrow> 'w rstate \<Rightarrow>
   (kube_error + bool) \<times> LatticePeer \<times> 'w rstate" where
  "updateStatus api node updateFunc s =
     (let nodeCopy = updateFunc node
      in if status_eq nodeCopy node then (Ok False, node, s)
         else
           (case pa_PatchStatus api (rs_world s) node nodeCopy of
              (Inl KConflict, w) \<Rightarrow> (Ok False, node, s\<lparr> rs_world := w \<rparr>)
            | (Inl e, w) \<Rightarrow> (Err e, node, s\<lparr> rs_world := w \<rparr>)
            | (Inr obj, w) \<Rightarrow> (Ok True, with_status obj node, s\<lparr> rs_world := w \<rparr>)))"

section \<open>The snapshot and the configuration map\<close>

definition filterPoliciesForNode :: "'w peer_api \<Rightarrow> peer_env \<Rightarrow> LatticePeer \<Rightarrow> 'w \<Rightarrow> kube_error + LatticePolicy list" where
  "filterPoliciesForNode api env peer w =
     (case pa_ListPolicies api w (lp_Namespace peer) of
        Inl e \<Rightarrow> Err e
      | Inr policies \<Rightarrow>
          let peerNetwork = (case lp_Network peer of None \<Rightarrow> [] | Some n \<Rightarrow> n);
              same = filter (\<lambda>p. lc_Network p = peerNetwork) policies
          in if list_ex (\<lambda>p. \<not> ge_valid (pe_gen env) (lc_PeerSelector p)) same then Err (KOther ''invalid nodeSelector'')
             else Ok (filter (\<lambda>p. ge_sel (pe_gen env) (lc_PeerSelector p) (lp_Labels peer)) same))"

definition findPeersByNetwork :: "'w peer_api \<Rightarrow> peer_env \<Rightarrow> LatticeNetwork \<Rightarrow> 'w \<Rightarrow> kube_error + LatticePeer list" where
  "findPeersByNetwork api env network w =
     pa_ListPeers api w (ln_Namespace network) None (Some (networkLabelKey (ge_sha (pe_gen env)) (ln_Name network)))"

definition getPeerStateSnapshot :: "'w peer_api \<Rightarrow> peer_env \<Rightarrow> LatticePeer \<Rightarrow> string \<Rightarrow> 'w \<Rightarrow> PeerStateSnapshot" where
  "getPeerStateSnapshot api env current ns w =
     (let snapshot = \<lparr> ss_Peer = current, ss_Network = None, ss_Policies = [], ss_Peers = [], ss_Labels = lp_Labels current \<rparr>;
          withPolicies = (\<lambda>s. case filterPoliciesForNode api env current w of Inl e \<Rightarrow> s | Inr ps \<Rightarrow> s\<lparr> ss_Policies := ps \<rparr>)
      in case lp_Network current of
           None \<Rightarrow> withPolicies snapshot
         | Some networkName \<Rightarrow>
             (case pa_GetNetwork api w ns networkName of
                Inl e \<Rightarrow> snapshot
              | Inr network \<Rightarrow>
                  (case findPeersByNetwork api env network w of
                     Inl e \<Rightarrow> snapshot\<lparr> ss_Network := Some network \<rparr>
                   | Inr peers \<Rightarrow> withPolicies (snapshot\<lparr> ss_Network := Some network, ss_Peers := peers \<rparr>))))"

definition newConfigmap :: "string \<Rightarrow> string \<Rightarrow> string \<Rightarrow> string \<Rightarrow> ConfigMap" where
  "newConfigmap ns name message hash =
     \<lparr> cm_Name = name, cm_Namespace = ns, cm_Labels = [(''app.kubernetes.io/managed-by'', ''lattice-controller'')],
       cm_Annotations = [(''alattice.io/config-hash'', hash)], cm_Data = [(''config.json'', message)] \<rparr>"

text \<open>The version and the time are shadowed, so that they do not reach the serialisation that is hashed.\<close>

definition computeMessageHash :: "peer_env \<Rightarrow> Message \<Rightarrow> string" where
  "computeMessageHash env msg =
     hex_EncodeToString (ge_sha (pe_gen env) (pe_json_hashed env (msg\<lparr> msg_ConfigVersion := [], msg_Timestamp := 0 \<rparr>)))"

definition config_set :: "peer_env \<Rightarrow> string \<Rightarrow> LatticePeer \<Rightarrow> LatticePeer" where
  "config_set env hash p = add_cond (cond env ''NetworkConfigured'' True ''Ready'' []) (p\<lparr> lp_CurrentHash := hash \<rparr>)"

definition event :: "string \<Rightarrow> string \<Rightarrow> 'w rstate \<Rightarrow> 'w rstate" where
  "event reason msg s = s\<lparr> rs_Events := rs_Events s @ [(reason, msg)] \<rparr>"

definition config_failed :: "'w peer_api \<Rightarrow> peer_env \<Rightarrow> string \<Rightarrow> kube_error \<Rightarrow> LatticePeer \<Rightarrow> 'w rstate \<Rightarrow> 'w outcome" where
  "config_failed api env what e peer s =
     (case updateStatus api peer (add_cond (cond env ''NetworkConfigured'' False ''ConfigurationFailed'' (what @ pe_Error env (RApi e)))) s of
        (_, peer', s') \<Rightarrow> (Err (RApi e), peer', s'))"

definition publish_new :: "'w peer_api \<Rightarrow> peer_env \<Rightarrow> string \<Rightarrow> ConfigMap \<Rightarrow> string \<Rightarrow> LatticePeer \<Rightarrow> 'w rstate \<Rightarrow> 'w outcome" where
  "publish_new api env newHash desired version peer s =
     (case pa_ApplyConfigMap api (rs_world s) desired of
        (Some e, w) \<Rightarrow> config_failed api env ''Failed to create config: '' e peer (s\<lparr> rs_world := w \<rparr>)
      | (None, w) \<Rightarrow>
          (case updateStatus api peer (config_set env newHash) (s\<lparr> rs_world := w \<rparr>) of
             (Inl e, peer', s') \<Rightarrow> (Err (RApi e), peer', s')
           | (Inr _, peer', s') \<Rightarrow>
               (Ok 0, peer', event ''ConfigMapCreated'' (''configmap='' @ cm_Name desired @ '' hash='' @ newHash @ '' version='' @ version) s')))"

definition publish_changed :: "'w peer_api \<Rightarrow> peer_env \<Rightarrow> string \<Rightarrow> ConfigMap \<Rightarrow> string \<Rightarrow> LatticePeer \<Rightarrow> 'w rstate \<Rightarrow> 'w outcome" where
  "publish_changed api env newHash desired version peer s =
     (case pa_ApplyConfigMap api (rs_world s) desired of
        (Some e, w) \<Rightarrow> config_failed api env ''Failed to update config: '' e peer (s\<lparr> rs_world := w \<rparr>)
      | (None, w) \<Rightarrow>
          (case updateStatus api peer (config_set env newHash) (s\<lparr> rs_world := w \<rparr>) of
             (Inl e, peer', s') \<Rightarrow> (Err (RApi e), peer', s')
           | (Inr True, peer', s') \<Rightarrow> (Ok 0, peer', s')
           | (Inr False, peer', s') \<Rightarrow>
               (Ok 0, peer', event ''ConfigMapUpdated''
                  (''configmap='' @ cm_Name desired @ '' oldHash='' @ lp_CurrentHash peer @ '' newHash='' @ newHash @ '' version='' @ version) s')))"

definition gen_with :: "'w peer_api \<Rightarrow> peer_env \<Rightarrow> 'w \<Rightarrow> gen_env" where
  "gen_with api env w = (pe_gen env)\<lparr> ge_list := (\<lambda>ns sel l. pa_ListPeers api w ns (Some sel) l) \<rparr>"

definition lastReconcile :: "'w peer_api \<Rightarrow> peer_env \<Rightarrow> string \<Rightarrow> LatticePeer \<Rightarrow> 'w rstate \<Rightarrow> 'w outcome" where
  "lastReconcile api env ns peer s =
     (let configMapName = lp_Name peer @ ''-config'';
          snapshot = getPeerStateSnapshot api env peer ns (rs_world s);
          (version, counter) = generateConfigVersion (rs_versionCounter s);
          s1 = s\<lparr> rs_versionCounter := counter \<rparr>
      in case generate (gen_with api env (rs_world s)) peer snapshot version of
           None \<Rightarrow> (Err RPanic, peer, s1)
         | Some (Inl e) \<Rightarrow> (Err (RGen e), peer, s1)
         | Some (Inr message) \<Rightarrow>
             let newHash = computeMessageHash env message;
                 desired = newConfigmap (lp_Namespace peer) configMapName (pe_json env message) newHash
             in (case pa_SetController api of
                   Some e \<Rightarrow> (Err (RApi e), peer, s1)
                 | None \<Rightarrow>
                     (case pa_GetConfigMap api (rs_world s1) (lp_Namespace peer) configMapName of
                        Inl KNotFound \<Rightarrow> publish_new api env newHash desired version peer s1
                      | Inl e \<Rightarrow> (Err (RApi e), peer, s1)
                      | Inr found \<Rightarrow>
                          if lp_CurrentHash peer = newHash then (Ok 0, peer, s1)
                          else publish_changed api env newHash desired version peer s1)))"

section \<open>Handlers\<close>

definition ensureKeys :: "'w peer_api \<Rightarrow> peer_env \<Rightarrow> LatticePeer \<Rightarrow> 'w rstate \<Rightarrow> (kube_error + bool) \<times> LatticePeer \<times> 'w rstate" where
  "ensureKeys api env peer s =
     (if lp_PrivateKey peer \<noteq> [] then (Ok False, peer, s)
      else updateSpec api peer (\<lambda>node.
             case pa_GenerateKey api (rs_world s) of
               Inl e \<Rightarrow> Err e
             | Inr (priv, pub) \<Rightarrow>
                 Ok (node\<lparr> lp_PrivateKey := pe_key_String env priv, lp_PublicKey := pe_key_String env pub,
                           lp_PeerId := dec_nat (unat (ToUint64 (FromKey pub))) \<rparr>)) s)"

definition drop_network_labels :: "labels \<Rightarrow> labels" where
  "drop_network_labels ls = filter (\<lambda>(k, v). \<not> HasPrefix k network_label_prefix) ls"

definition ensurePeerSpec :: "'w peer_api \<Rightarrow> peer_env \<Rightarrow> LatticePeer \<Rightarrow> 'w rstate \<Rightarrow> (kube_error + bool) \<times> LatticePeer \<times> 'w rstate" where
  "ensurePeerSpec api env peer s =
     updateSpec api peer (\<lambda>node.
       case pa_GetNetwork api (rs_world s) (lp_Namespace node) (the (lp_Network node)) of
         Inl e \<Rightarrow> Err e
       | Inr network \<Rightarrow>
           Ok (node\<lparr> lp_Labels := AList.update (networkLabelKey (ge_sha (pe_gen env)) (ln_Name network)) ''true''
                                      (drop_network_labels (lp_Labels node)) \<rparr>)) s"

definition handleInitialization :: "'w peer_api \<Rightarrow> peer_env \<Rightarrow> LatticePeer \<Rightarrow> 'w rstate \<Rightarrow> 'w outcome" where
  "handleInitialization api env peer s =
     (case ensureKeys api env peer s of
        (Inl e, peer', s') \<Rightarrow> (Err (RApi e), peer', s')
      | (Inr True, peer', s') \<Rightarrow> (Ok 0, peer', s')
      | (Inr False, peer', s') \<Rightarrow>
          (case updateStatus api peer' (\<lambda>p. add_cond (cond env ''Initialized'' True ''Ready'' []) (p\<lparr> lp_Phase := PhasePending \<rparr>)) s' of
             (Inl e, peer'', s'') \<Rightarrow> (Err (RApi e), peer'', s'')
           | (Inr _, peer'', s'') \<Rightarrow> (Ok 100000000, peer'', s'')))"

definition fail_with :: "'w peer_api \<Rightarrow> Condition \<Rightarrow> rec_error \<Rightarrow> LatticePeer \<Rightarrow> 'w rstate \<Rightarrow> 'w outcome" where
  "fail_with api c e peer s =
     (case updateStatus api peer (\<lambda>p. add_cond c (p\<lparr> lp_Phase := PhaseFailed \<rparr>)) s of
        (_, peer', s') \<Rightarrow> (Err e, peer', s'))"

definition joined :: "peer_env \<Rightarrow> string \<Rightarrow> LatticePeer \<Rightarrow> LatticePeer" where
  "joined env address p =
     add_cond (cond env ''IPAllocated'' True ''Ready'' [])
       (add_cond (cond env ''JoiningNetwork'' True ''Ready'' [])
         (p\<lparr> lp_Phase := PhaseReady, lp_AllocatedAddress := Some address, lp_ActiveNetwork := lp_Network p \<rparr>))"

definition allocate_and_join ::
  "'w peer_api \<Rightarrow> peer_env \<Rightarrow> string \<Rightarrow> LatticeNetwork \<Rightarrow> LatticePeer \<Rightarrow> 'w rstate \<Rightarrow> 'w outcome option" where
  "allocate_and_join api env ns network peer s =
     (case AllocateIP (pa_ipam api) (pe_ip6 env) (ln_Name network) (ln_ActiveCIDR network) (lp_Namespace peer) (lp_Name peer) (rs_world s) of
        None \<Rightarrow> None
      | Some (Inl e, w) \<Rightarrow>
          Some (fail_with api (cond env ''IPAllocated'' False ''AllocationFailed'' (pe_Error env (RIpam e))) (RIpam e) peer (s\<lparr> rs_world := w \<rparr>))
      | Some (Inr address, w) \<Rightarrow>
          Some (case updateStatus api peer (joined env address) (s\<lparr> rs_world := w \<rparr>) of
                  (Inl e, peer', s') \<Rightarrow> (Err (RApi e), peer', s')
                | (Inr _, peer', s') \<Rightarrow> lastReconcile api env ns peer' s'))"

definition joinNetwork :: "'w peer_api \<Rightarrow> peer_env \<Rightarrow> string \<Rightarrow> LatticePeer \<Rightarrow> 'w rstate \<Rightarrow> 'w outcome option" where
  "joinNetwork api env ns peer s =
     (if lp_ActiveNetwork peer \<noteq> None \<and> lp_ActiveNetwork peer = lp_Network peer then Some (Ok 0, peer, s)
      else
        (case pa_GetNetwork api (rs_world s) (lp_Namespace peer) (the (lp_Network peer)) of
           Inl e \<Rightarrow>
             Some (fail_with api (cond env ''JoiningNetwork'' False ''NotReady''
               (''Network '' @ quoted (the (lp_Network peer)) @ '' not found: '' @ pe_Error env (RApi e))) (RApi e) peer s)
         | Inr network \<Rightarrow>
             if ln_ActiveCIDR network = [] then
               (case updateStatus api peer (add_cond (cond env ''JoiningNetwork'' False ''Configuring''
                       (''Waiting for network '' @ quoted (ln_Name network) @ '' to assign an ActiveCIDR''))) s of
                  (_, peer', s') \<Rightarrow> Some (Ok 3000000000, peer', s'))
             else
               (case ensurePeerSpec api env peer s of
                  (Inl e, peer', s') \<Rightarrow>
                    Some (fail_with api (cond env ''JoiningNetwork'' False ''NotReady''
                      (''Failed to apply network labels: '' @ pe_Error env (RApi e))) (RApi e) peer' s')
                | (Inr True, peer', s') \<Rightarrow> Some (Ok 100000000, peer', s')
                | (Inr False, peer', s') \<Rightarrow> allocate_and_join api env ns network peer' s')))"

definition left :: "peer_env \<Rightarrow> LatticePeer \<Rightarrow> LatticePeer" where
  "left env p =
     add_cond (cond env ''JoiningNetwork'' False ''Leaving'' [])
       (p\<lparr> lp_ActiveNetwork := None, lp_AllocatedAddress := None, lp_Phase := PhaseReady \<rparr>)"

definition release :: "'w peer_api \<Rightarrow> peer_env \<Rightarrow> LatticePeer \<Rightarrow> 'w \<Rightarrow> kube_error option \<times> 'w" where
  "release api env peer w =
     (case lp_AllocatedAddress peer of
        None \<Rightarrow> (None, w)
      | Some a \<Rightarrow> ReleaseIP (pa_ipam api) (pe_ip6 env) (lp_Namespace peer) a w)"

definition leaveNetwork :: "'w peer_api \<Rightarrow> peer_env \<Rightarrow> string \<Rightarrow> LatticePeer \<Rightarrow> 'w rstate \<Rightarrow> 'w outcome" where
  "leaveNetwork api env ns peer s =
     (case release api env peer (rs_world s) of
        (Some e, w) \<Rightarrow> (Err (RApi e), peer, s\<lparr> rs_world := w \<rparr>)
      | (None, w) \<Rightarrow>
          (case updateSpec api peer (\<lambda>p. Ok (p\<lparr> lp_Labels := drop_network_labels (lp_Labels p) \<rparr>)) (s\<lparr> rs_world := w \<rparr>) of
             (Inl e, peer', s') \<Rightarrow>
               fail_with api (cond env ''Provisioned'' False ''NotReady'' (''Failed to remove network labels: '' @ pe_Error env (RApi e))) (RApi e) peer' s'
           | (Inr _, peer', s') \<Rightarrow>
               (case updateStatus api peer' (left env) s' of
                  (Inl e, peer'', s'') \<Rightarrow> (Err (RApi e), peer'', s'')
                | (Inr _, peer'', s'') \<Rightarrow>
                    if lp_Network peer'' \<noteq> None then (Ok 100000000, peer'', s'')
                    else lastReconcile api env ns peer'' s'')))"

definition handlePending :: "'w peer_api \<Rightarrow> peer_env \<Rightarrow> string \<Rightarrow> LatticePeer \<Rightarrow> 'w rstate \<Rightarrow> 'w outcome option" where
  "handlePending api env ns peer s =
     (case (lp_Network peer, lp_ActiveNetwork peer) of
        (None, None) \<Rightarrow>
          Some (case updateStatus api peer (\<lambda>p. p\<lparr> lp_Phase := PhaseReady \<rparr>) s of
                  (Inl e, peer', s') \<Rightarrow> (Err (RApi e), peer', s')
                | (Inr _, peer', s') \<Rightarrow> lastReconcile api env ns peer' s')
      | (None, Some _) \<Rightarrow> Some (leaveNetwork api env ns peer s)
      | (Some specNet, activeNet) \<Rightarrow>
          if activeNet \<noteq> None \<and> activeNet \<noteq> Some specNet then Some (leaveNetwork api env ns peer s)
          else joinNetwork api env ns peer s)"

definition to_pending :: "'w peer_api \<Rightarrow> int \<Rightarrow> LatticePeer \<Rightarrow> 'w rstate \<Rightarrow> 'w outcome" where
  "to_pending api delay peer s =
     (case updateStatus api peer (\<lambda>p. p\<lparr> lp_Phase := PhasePending \<rparr>) s of
        (Inl e, peer', s') \<Rightarrow> (Err (RApi e), peer', s')
      | (Inr _, peer', s') \<Rightarrow> (Ok delay, peer', s'))"

definition handleReady :: "'w peer_api \<Rightarrow> peer_env \<Rightarrow> string \<Rightarrow> LatticePeer \<Rightarrow> 'w rstate \<Rightarrow> 'w outcome" where
  "handleReady api env ns peer s =
     (let specNet = lp_Network peer; activeNet = lp_ActiveNetwork peer;
          needTransition = (specNet = None \<and> activeNet \<noteq> None) \<or>
            (specNet \<noteq> None \<and> (activeNet = None \<or> specNet \<noteq> activeNet))
      in if needTransition then to_pending api 100000000 peer s
         else lastReconcile api env ns peer s)"

definition handleFailed :: "'w peer_api \<Rightarrow> LatticePeer \<Rightarrow> 'w rstate \<Rightarrow> 'w outcome" where
  "handleFailed api peer s = to_pending api 30000000000 peer s"

text \<open>The cleanup before the finalizer is removed does nothing and cannot fail.\<close>

definition handleDelete :: "'w peer_api \<Rightarrow> LatticePeer \<Rightarrow> 'w rstate \<Rightarrow> 'w outcome" where
  "handleDelete api node s =
     (if finalizerName \<notin> set (lp_Finalizers node) then (Ok 0, node, s)
      else
        let node' = node\<lparr> lp_Finalizers := filter (\<lambda>f. f \<noteq> finalizerName) (lp_Finalizers node) \<rparr>
        in (case pa_UpdatePeer api (rs_world s) node' of
              (Some e, w) \<Rightarrow> (Err (RApi e), node', s\<lparr> rs_world := w \<rparr>)
            | (None, w) \<Rightarrow> (Ok 0, node', s\<lparr> rs_world := w \<rparr>)))"

definition add_finalizer :: "'w peer_api \<Rightarrow> LatticePeer \<Rightarrow> 'w rstate \<Rightarrow> 'w outcome" where
  "add_finalizer api peer s =
     (let peer' = peer\<lparr> lp_Finalizers := lp_Finalizers peer @ [finalizerName] \<rparr>
      in case pa_UpdatePeer api (rs_world s) peer' of
           (Some e, w) \<Rightarrow> (Err (RApi e), peer', s\<lparr> rs_world := w \<rparr>)
         | (None, w) \<Rightarrow> (Ok 100, peer', s\<lparr> rs_world := w \<rparr>))"

definition is_shadow :: "LatticePeer \<Rightarrow> bool" where
  "is_shadow p \<longleftrightarrow> label_get (lp_Labels p) LabelShadow = ''true''"

definition dispatch :: "'w peer_api \<Rightarrow> peer_env \<Rightarrow> string \<Rightarrow> LatticePeer \<Rightarrow> 'w rstate \<Rightarrow> 'w outcome option" where
  "dispatch api env ns peer s =
     (case lp_Phase peer of
        PhaseNone \<Rightarrow> Some (handleInitialization api env peer s)
      | PhasePending \<Rightarrow> handlePending api env ns peer s
      | PhaseReady \<Rightarrow> Some (handleReady api env ns peer s)
      | PhaseFailed \<Rightarrow> Some (handleFailed api peer s)
      | _ \<Rightarrow> Some (handleInitialization api env peer s))"

definition reconcile_peer :: "'w peer_api \<Rightarrow> peer_env \<Rightarrow> string \<Rightarrow> LatticePeer \<Rightarrow> 'w rstate \<Rightarrow> 'w outcome option" where
  "reconcile_peer api env ns peer s =
     (if lp_Deleting peer then Some (if finalizerName \<in> set (lp_Finalizers peer) then handleDelete api peer s else (Ok 0, peer, s))
      else if finalizerName \<notin> set (lp_Finalizers peer) then Some (add_finalizer api peer s)
      else if is_shadow peer then Some (Ok 0, peer, s)
      else dispatch api env ns peer s)"

definition Reconcile :: "'w peer_api \<Rightarrow> peer_env \<Rightarrow> string \<Rightarrow> string \<Rightarrow> 'w rstate \<Rightarrow> ((rec_error + int) \<times> 'w rstate) option" where
  "Reconcile api env ns name s =
     (case pa_GetPeer api (rs_world s) ns name of
        Inl KNotFound \<Rightarrow> Some (Ok 0, s)
      | Inl e \<Rightarrow> Some (Err (RApi e), s)
      | Inr peer \<Rightarrow> map_option (\<lambda>(r, _, s'). (r, s')) (reconcile_peer api env ns peer s))"

section \<open>Which objects trigger a reconcile\<close>

definition requests_of :: "LatticePeer list \<Rightarrow> (string \<times> string) list" where
  "requests_of ps = map (\<lambda>p. (lp_Namespace p, lp_Name p)) ps"

definition mapNetworkForNodes :: "'w peer_api \<Rightarrow> peer_env \<Rightarrow> LatticeNetwork \<Rightarrow> 'w \<Rightarrow> (string \<times> string) list" where
  "mapNetworkForNodes api env network w =
     (case pa_ListPeers api w (ln_Namespace network) None (Some (networkLabelKey (ge_sha (pe_gen env)) (ln_Name network))) of
        Inl e \<Rightarrow> [] | Inr ps \<Rightarrow> requests_of ps)"

definition TrimSuffix :: "string \<Rightarrow> string \<Rightarrow> string" where
  "TrimSuffix s sfx = (if HasPrefix (rev s) (rev sfx) then take (length s - length sfx) s else s)"

definition mapConfigMapForNodes :: "'w peer_api \<Rightarrow> ConfigMap \<Rightarrow> 'w \<Rightarrow> (string \<times> string) list" where
  "mapConfigMapForNodes api cm w =
     (case pa_GetPeer api w (cm_Namespace cm) (TrimSuffix (cm_Name cm) ''-config'') of
        Inl e \<Rightarrow> [] | Inr node \<Rightarrow> requests_of [node])"

definition mapEndpointForNodes :: "'w peer_api \<Rightarrow> LatticeEndpoint \<Rightarrow> 'w \<Rightarrow> (string \<times> string) list" where
  "mapEndpointForNodes api endpoint w =
     (case pa_ListPeers api w (le_Namespace endpoint) None None of Inl e \<Rightarrow> [] | Inr ps \<Rightarrow> requests_of ps)"

definition mapPolicyForNodes :: "'w peer_api \<Rightarrow> peer_env \<Rightarrow> LatticePolicy \<Rightarrow> 'w \<Rightarrow> (string \<times> string) list" where
  "mapPolicyForNodes api env policy w =
     (if \<not> ge_valid (pe_gen env) (lc_PeerSelector policy) then []
      else case pa_ListPeers api w (lc_Namespace policy) (Some (lc_PeerSelector policy))
                  (if lc_Network policy = [] then None else Some (networkLabelKey (ge_sha (pe_gen env)) (lc_Network policy))) of
             Inl e \<Rightarrow> [] | Inr ps \<Rightarrow> requests_of ps)"

definition configMapPredicate_Update :: "ConfigMap \<Rightarrow> ConfigMap \<Rightarrow> bool" where
  "configMapPredicate_Update oldCm newCm \<longleftrightarrow> set (cm_Data oldCm) \<noteq> set (cm_Data newCm)"

definition ownedCMPredicate :: "ConfigMap \<Rightarrow> bool" where
  "ownedCMPredicate cm \<longleftrightarrow> label_get (cm_Labels cm) ''app.kubernetes.io/managed-by'' = ''lattice-controller''"


section \<open>A cluster that serves its requests\<close>

text \<open>
  Documented behaviour of the API server for one peer, in the states \<open>good\<close> describes: an update stores
  the object, a patch changes the parts it names and returns the stored object, a status patch
  changes the status alone; configuration maps and addresses live apart from the peer. The network
  is there and has its range, addresses can be had and given back, and every selector is valid.
\<close>

definition peer_calls_ok :: "'w peer_api \<Rightarrow> ('w \<Rightarrow> bool) \<Rightarrow> string \<Rightarrow> string \<Rightarrow> bool" where
  "peer_calls_ok api good ns nm \<longleftrightarrow>
     (\<forall>w p q. good w \<longrightarrow> pa_GetPeer api w ns nm = Ok p \<longrightarrow>
        lp_Name p = nm \<and> lp_Namespace p = ns \<and>
        (lp_Name q = nm \<and> lp_Namespace q = ns \<longrightarrow>
          (case pa_UpdatePeer api w q of (r, w') \<Rightarrow> r = None \<and> good w' \<and> pa_GetPeer api w' ns nm = Ok q) \<and>
          (case pa_PatchPeer api w p q of (r, w') \<Rightarrow> r = Ok (with_status p q) \<and> good w' \<and> pa_GetPeer api w' ns nm = Ok (with_status p q)) \<and>
          (case pa_PatchStatus api w p q of (r, w') \<Rightarrow> r = Ok (with_status q p) \<and> good w' \<and> pa_GetPeer api w' ns nm = Ok (with_status q p))))"

definition other_calls_ok :: "'w peer_api \<Rightarrow> peer_env \<Rightarrow> ('w \<Rightarrow> bool) \<Rightarrow> string \<Rightarrow> string \<Rightarrow> LatticeNetwork \<Rightarrow> bool" where
  "other_calls_ok api env good ns nm net \<longleftrightarrow>
     ln_ActiveCIDR net \<noteq> [] \<and> pa_SetController api = None \<and> (\<forall>s. ge_valid (pe_gen env) s) \<and>
     (\<forall>w. good w \<longrightarrow>
        pa_GetNetwork api w ns (ln_Name net) = Ok net \<and>
        (case pa_GenerateKey api w of Inl e \<Rightarrow> False | Inr (priv, pub) \<Rightarrow> pe_key_String env priv \<noteq> []) \<and>
        (case pa_GetConfigMap api w ns (nm @ ''-config'') of Inl e \<Rightarrow> e = KNotFound | Inr _ \<Rightarrow> True) \<and>
        (\<forall>cm. case pa_ApplyConfigMap api w cm of (r, w') \<Rightarrow> r = None \<and> good w' \<and> pa_GetPeer api w' ns nm = pa_GetPeer api w ns nm) \<and>
        (\<forall>a. case ReleaseIP (pa_ipam api) (pe_ip6 env) ns a w of (r, w') \<Rightarrow> r = None \<and> good w' \<and> pa_GetPeer api w' ns nm = pa_GetPeer api w ns nm) \<and>
        (case AllocateIP (pa_ipam api) (pe_ip6 env) (ln_Name net) (ln_ActiveCIDR net) ns nm w of
           None \<Rightarrow> False
         | Some (r, w') \<Rightarrow> \<not> isl r \<and> good w' \<and> pa_GetPeer api w' ns nm = pa_GetPeer api w ns nm))"

abbreviation serves :: "'w peer_api \<Rightarrow> ('w \<Rightarrow> bool) \<Rightarrow> string \<Rightarrow> string \<Rightarrow> 'w rstate \<Rightarrow> LatticePeer \<Rightarrow> bool" where
  "serves api good ns nm s p \<equiv> good (rs_world s) \<and> pa_GetPeer api (rs_world s) ns nm = Ok p"

definition same_object :: "LatticePeer \<Rightarrow> LatticePeer \<Rightarrow> bool" where
  "same_object p q \<longleftrightarrow> lp_Name p = lp_Name q \<and> lp_Namespace p = lp_Namespace q \<and> lp_UID p = lp_UID q \<and>
     lp_Finalizers p = lp_Finalizers q \<and> lp_Deleting p = lp_Deleting q"

lemma with_spec_synced: "same_object q p \<Longrightarrow> with_spec (with_status p q) p = with_status p q"
  by (cases p, cases q) (simp add: with_spec_def with_status_def same_object_def)

lemma with_status_synced: "with_status (with_status q p) p = with_status q p"
  by (simp add: with_status_def)

lemma with_status_self: "status_eq q p \<Longrightarrow> with_status q p = p"
  by (cases p) (simp add: with_status_def status_eq_def)

lemma peer_calls:
  assumes "peer_calls_ok api good ns nm" "serves api good ns nm s p"
  shows "lp_Name p = nm" "lp_Namespace p = ns"
    and "lp_Name q = nm \<Longrightarrow> lp_Namespace q = ns \<Longrightarrow>
      (case pa_UpdatePeer api (rs_world s) q of (r, w') \<Rightarrow> r = None \<and> good w' \<and> pa_GetPeer api w' ns nm = Ok q) \<and>
      (case pa_PatchPeer api (rs_world s) p q of (r, w') \<Rightarrow> r = Ok (with_status p q) \<and> good w' \<and> pa_GetPeer api w' ns nm = Ok (with_status p q)) \<and>
      (case pa_PatchStatus api (rs_world s) p q of (r, w') \<Rightarrow> r = Ok (with_status q p) \<and> good w' \<and> pa_GetPeer api w' ns nm = Ok (with_status q p))"
  using spec [OF spec [OF spec [OF assms(1) [unfolded peer_calls_ok_def]]], of "rs_world s" p q] assms(2) by simp_all

lemma updateStatus_serves:
  assumes "peer_calls_ok api good ns nm" "serves api good ns nm s p" "same_object (f p) p"
  shows "\<exists>b s'. updateStatus api p f s = (Ok b, with_status (f p) p, s') \<and> serves api good ns nm s' (with_status (f p) p)"
proof (cases "status_eq (f p) p")
  case True
  then show ?thesis using assms(2) by (simp add: updateStatus_def with_status_self ex_bool_eq)
next
  case False
  have "lp_Name (f p) = nm \<and> lp_Namespace (f p) = ns"
    using peer_calls [OF assms(1,2)] assms(3) by (simp add: same_object_def)
  then have "case pa_PatchStatus api (rs_world s) p (f p) of (r, w') \<Rightarrow>
      r = Ok (with_status (f p) p) \<and> good w' \<and> pa_GetPeer api w' ns nm = Ok (with_status (f p) p)"
    using peer_calls(3) [OF assms(1,2), of "f p"] by simp
  then show ?thesis using False by (auto simp: updateStatus_def with_status_synced)
qed

lemma updateSpec_serves:
  assumes "peer_calls_ok api good ns nm" "serves api good ns nm s p" "f p = Ok q" "same_object q p" "status_eq q p"
  shows "\<exists>s'. updateSpec api p f s = (Ok (\<not> spec_eq q p), (if spec_eq q p then p else q), s') \<and>
    serves api good ns nm s' (if spec_eq q p then p else q)"
proof (cases "spec_eq q p")
  case True
  then show ?thesis using assms(2,3) by (simp add: updateSpec_def)
next
  case False
  have q: "with_status p q = q" using assms(5) by (simp add: with_status_self status_eq_def)
  have "lp_Name q = nm \<and> lp_Namespace q = ns"
    using peer_calls [OF assms(1,2)] assms(4) by (simp add: same_object_def)
  then have "case pa_PatchPeer api (rs_world s) p q of (r, w') \<Rightarrow> r = Ok (with_status p q) \<and> good w' \<and> pa_GetPeer api w' ns nm = Ok (with_status p q)"
    using peer_calls(3) [OF assms(1,2), of q] by simp
  moreover have "with_spec q p = q" using with_spec_synced [OF assms(4)] by (simp add: q)
  ultimately show ?thesis using False assms(3) by (auto simp: updateSpec_def q)
qed

lemma same_object_simps [simp]:
  "same_object p p"
  "same_object (add_cond c p) q = same_object p q"
  "same_object (with_status r p) q = same_object p q"
  "same_object (p\<lparr> lp_Phase := ph \<rparr>) q = same_object p q"
  "same_object (p\<lparr> lp_CurrentHash := h \<rparr>) q = same_object p q"
  "same_object (p\<lparr> lp_Labels := ls \<rparr>) q = same_object p q"
  "same_object (p\<lparr> lp_ActiveNetwork := a \<rparr>) q = same_object p q"
  "same_object (p\<lparr> lp_AllocatedAddress := a' \<rparr>) q = same_object p q"
  "same_object (p\<lparr> lp_PrivateKey := k \<rparr>) q = same_object p q"
  "same_object (p\<lparr> lp_PublicKey := k \<rparr>) q = same_object p q"
  "same_object (p\<lparr> lp_PeerId := k \<rparr>) q = same_object p q"
  by (simp_all add: same_object_def add_cond_def with_status_def)

lemma generate_no_error:
  assumes "\<And>s. ge_valid env s"
  shows "\<exists>msg. generate env p ss v = Some (Ok msg)"
  using assms by (auto simp: generate_def Let_def GetComputedPeers_def computed_map_eq bad_selector_def bad_rule_def list_ex_iff
      Evaluate_def split: option.splits prod.splits)


definition only_config :: "LatticePeer \<Rightarrow> LatticePeer \<Rightarrow> bool" where
  "only_config p' p \<longleftrightarrow> (\<exists>h cs. p' = p\<lparr> lp_Conditions := cs, lp_CurrentHash := h \<rparr>)"

lemma only_config_self: "only_config p p"
  by (cases p) (simp add: only_config_def)

lemma only_config_set: "only_config (with_status (config_set env h p) p) p"
  by (cases p) (auto simp: only_config_def config_set_def add_cond_def with_status_def)

lemma config_set_same [simp]: "same_object (config_set env h p) p"
  by (simp add: config_set_def)

lemma event_world [simp]: "rs_world (event r m s) = rs_world s"
  by (simp add: event_def)

lemma other_calls:
  assumes "other_calls_ok api env good ns nm net" "serves api good ns nm s p"
  shows "ln_ActiveCIDR net \<noteq> []" "pa_SetController api = None" "ge_valid (pe_gen env) x"
    and "pa_GetNetwork api (rs_world s) ns (ln_Name net) = Ok net"
    and "case pa_GenerateKey api (rs_world s) of Inl e \<Rightarrow> False | Inr (priv, pub) \<Rightarrow> pe_key_String env priv \<noteq> []"
    and "case pa_GetConfigMap api (rs_world s) ns (nm @ ''-config'') of Inl e \<Rightarrow> e = KNotFound | Inr _ \<Rightarrow> True"
    and "\<exists>w. pa_ApplyConfigMap api (rs_world s) cm = (None, w) \<and> serves api good ns nm (s\<lparr> rs_world := w \<rparr>) p"
    and "\<exists>w. ReleaseIP (pa_ipam api) (pe_ip6 env) ns a (rs_world s) = (None, w) \<and> serves api good ns nm (s\<lparr> rs_world := w \<rparr>) p"
    and "\<exists>r w. AllocateIP (pa_ipam api) (pe_ip6 env) (ln_Name net) (ln_ActiveCIDR net) ns nm (rs_world s) = Some (Ok r, w) \<and>
           serves api good ns nm (s\<lparr> rs_world := w \<rparr>) p"
proof -
  have g: "good (rs_world s)" "pa_GetPeer api (rs_world s) ns nm = Ok p" using assms(2) by auto
  note all = assms(1) [unfolded other_calls_ok_def]
  show "ln_ActiveCIDR net \<noteq> []" "pa_SetController api = None" "ge_valid (pe_gen env) x" using all by simp_all
  have w: "pa_GetNetwork api (rs_world s) ns (ln_Name net) = Ok net \<and>
      (case pa_GenerateKey api (rs_world s) of Inl e \<Rightarrow> False | Inr (priv, pub) \<Rightarrow> pe_key_String env priv \<noteq> []) \<and>
      (case pa_GetConfigMap api (rs_world s) ns (nm @ ''-config'') of Inl e \<Rightarrow> e = KNotFound | Inr _ \<Rightarrow> True) \<and>
      (\<forall>cm. case pa_ApplyConfigMap api (rs_world s) cm of (r, w') \<Rightarrow> r = None \<and> good w' \<and> pa_GetPeer api w' ns nm = Ok p) \<and>
      (\<forall>a. case ReleaseIP (pa_ipam api) (pe_ip6 env) ns a (rs_world s) of (r, w') \<Rightarrow> r = None \<and> good w' \<and> pa_GetPeer api w' ns nm = Ok p) \<and>
      (case AllocateIP (pa_ipam api) (pe_ip6 env) (ln_Name net) (ln_ActiveCIDR net) ns nm (rs_world s) of
         None \<Rightarrow> False | Some (r, w') \<Rightarrow> \<not> isl r \<and> good w' \<and> pa_GetPeer api w' ns nm = Ok p)"
    using mp [OF spec [OF conjunct2 [OF conjunct2 [OF conjunct2 [OF all]]], of "rs_world s"] g(1)] unfolding g(2) .
  from w show "pa_GetNetwork api (rs_world s) ns (ln_Name net) = Ok net"
    "case pa_GenerateKey api (rs_world s) of Inl e \<Rightarrow> False | Inr (priv, pub) \<Rightarrow> pe_key_String env priv \<noteq> []"
    "case pa_GetConfigMap api (rs_world s) ns (nm @ ''-config'') of Inl e \<Rightarrow> e = KNotFound | Inr _ \<Rightarrow> True"
    by blast+
  have "case pa_ApplyConfigMap api (rs_world s) cm of (r, w') \<Rightarrow> r = None \<and> good w' \<and> pa_GetPeer api w' ns nm = Ok p"
    and "case ReleaseIP (pa_ipam api) (pe_ip6 env) ns a (rs_world s) of (r, w') \<Rightarrow> r = None \<and> good w' \<and> pa_GetPeer api w' ns nm = Ok p"
    and "case AllocateIP (pa_ipam api) (pe_ip6 env) (ln_Name net) (ln_ActiveCIDR net) ns nm (rs_world s) of
         None \<Rightarrow> False | Some (r, w') \<Rightarrow> \<not> isl r \<and> good w' \<and> pa_GetPeer api w' ns nm = Ok p"
    using w by simp_all
  then show "\<exists>w. pa_ApplyConfigMap api (rs_world s) cm = (None, w) \<and> serves api good ns nm (s\<lparr> rs_world := w \<rparr>) p"
    "\<exists>w. ReleaseIP (pa_ipam api) (pe_ip6 env) ns a (rs_world s) = (None, w) \<and> serves api good ns nm (s\<lparr> rs_world := w \<rparr>) p"
    "\<exists>r w. AllocateIP (pa_ipam api) (pe_ip6 env) (ln_Name net) (ln_ActiveCIDR net) ns nm (rs_world s) = Some (Ok r, w) \<and>
      serves api good ns nm (s\<lparr> rs_world := w \<rparr>) p"
    by (auto split: option.splits prod.splits simp: isl_def) (metis sum.exhaust_sel isl_def)
qed

lemma publish_serves:
  assumes ok: "peer_calls_ok api good ns nm" "other_calls_ok api env good ns nm net" "serves api good ns nm s p"
  shows "\<exists>p' s'. publish_new api env h cm v p s = (Ok 0, p', s') \<and> serves api good ns nm s' p' \<and> only_config p' p"
    and "\<exists>p' s'. publish_changed api env h cm v p s = (Ok 0, p', s') \<and> serves api good ns nm s' p' \<and> only_config p' p"
proof -
  obtain w where w: "pa_ApplyConfigMap api (rs_world s) cm = (None, w)" "serves api good ns nm (s\<lparr> rs_world := w \<rparr>) p"
    using other_calls(7) [OF ok(2,3)] by blast
  obtain b s' where u: "updateStatus api p (config_set env h) (s\<lparr> rs_world := w \<rparr>) = (Ok b, with_status (config_set env h p) p, s')"
      "serves api good ns nm s' (with_status (config_set env h p) p)"
    using updateStatus_serves [OF ok(1) w(2), of "config_set env h"] by auto
  show "\<exists>p' s'. publish_new api env h cm v p s = (Ok 0, p', s') \<and> serves api good ns nm s' p' \<and> only_config p' p"
    using w(1) u only_config_set [of env h p] by (simp add: publish_new_def)
  show "\<exists>p' s'. publish_changed api env h cm v p s = (Ok 0, p', s') \<and> serves api good ns nm s' p' \<and> only_config p' p"
    using w(1) u only_config_set [of env h p] by (cases b) (simp_all add: publish_changed_def)
qed

lemma lastReconcile_serves:
  assumes ok: "peer_calls_ok api good ns nm" "other_calls_ok api env good ns nm net" "serves api good ns nm s p"
  shows "\<exists>p' s'. lastReconcile api env ns p s = (Ok 0, p', s') \<and> serves api good ns nm s' p' \<and> only_config p' p"
proof -
  define v where "v = ''v'' @ dec_int (rs_versionCounter s + 1)"
  have v: "generateConfigVersion (rs_versionCounter s) = (v, rs_versionCounter s + 1)"
    by (simp add: generateConfigVersion_def v_def)
  define s1 where "s1 = s\<lparr> rs_versionCounter := rs_versionCounter s + 1 \<rparr>"
  have s1: "serves api good ns nm s1 p" "rs_world s1 = rs_world s" using ok(3) by (simp_all add: s1_def)
  have valid: "ge_valid (gen_with api env (rs_world s)) x" for x using other_calls(3) [OF ok(2,3)] by (simp add: gen_with_def)
  obtain msg where msg: "generate (gen_with api env (rs_world s)) p (getPeerStateSnapshot api env p ns (rs_world s)) v = Some (Ok msg)"
    using generate_no_error [OF valid] by blast
  have cm: "case pa_GetConfigMap api (rs_world s1) ns (nm @ ''-config'') of Inl e \<Rightarrow> e = KNotFound | Inr _ \<Rightarrow> True"
    and own: "pa_SetController api = None"
    using other_calls(6,2) [OF ok(2) s1(1)] by blast+
  have p: "lp_Name p = nm" "lp_Namespace p = ns" using peer_calls(1,2) [OF ok(1,3)] .
  let ?desired = "newConfigmap ns (nm @ ''-config'') (pe_json env msg) (computeMessageHash env msg)"
  have "lastReconcile api env ns p s =
      (case pa_GetConfigMap api (rs_world s1) ns (nm @ ''-config'') of
         Inl KNotFound \<Rightarrow> publish_new api env (computeMessageHash env msg) ?desired v p s1
       | Inl e \<Rightarrow> (Err (RApi e), p, s1)
       | Inr found \<Rightarrow> if lp_CurrentHash p = computeMessageHash env msg then (Ok 0, p, s1)
           else publish_changed api env (computeMessageHash env msg) ?desired v p s1)"
    unfolding s1_def by (simp add: lastReconcile_def v msg own p Let_def)
  then show ?thesis
    using cm publish_serves [OF ok(1,2) s1(1)] s1(1) only_config_self [of p] by (auto split: sum.splits)
qed


section \<open>Progress of the life cycle\<close>

definition relabel :: "peer_env \<Rightarrow> string \<Rightarrow> labels \<Rightarrow> labels" where
  "relabel env n ls = AList.update (networkLabelKey (ge_sha (pe_gen env)) n) ''true'' (drop_network_labels ls)"

definition labelled :: "peer_env \<Rightarrow> string \<Rightarrow> LatticePeer \<Rightarrow> bool" where
  "labelled env n p \<longleftrightarrow> set (relabel env n (lp_Labels p)) = set (lp_Labels p)"

definition has_finalizer :: "LatticePeer \<Rightarrow> bool" where
  "has_finalizer p \<longleftrightarrow> finalizerName \<in> set (lp_Finalizers p)"

text \<open>How far a peer that is to join \<open>n\<close> is from having joined it.\<close>

definition stage :: "peer_env \<Rightarrow> string \<Rightarrow> LatticePeer \<Rightarrow> nat" where
  "stage env n p =
     (if \<not> has_finalizer p then 7
      else if lp_ActiveNetwork p = Some n then 0
      else if lp_ActiveNetwork p = None then
        (case lp_Phase p of PhasePending \<Rightarrow> if labelled env n p then 1 else 2
         | PhaseReady \<Rightarrow> 3 | PhaseFailed \<Rightarrow> 3 | _ \<Rightarrow> if lp_PrivateKey p = [] then 4 else 3)
      else
        (case lp_Phase p of PhasePending \<Rightarrow> 4 | PhaseReady \<Rightarrow> 5 | PhaseFailed \<Rightarrow> 5
         | _ \<Rightarrow> if lp_PrivateKey p = [] then 6 else 5))"

text \<open>A peer to be in \<open>n\<close>: once it is active there it is Ready, and an active peer has an address.\<close>

definition joining :: "string \<Rightarrow> LatticePeer \<Rightarrow> bool" where
  "joining n p \<longleftrightarrow>
     \<not> lp_Deleting p \<and> \<not> is_shadow p \<and> lp_Network p = Some n \<and>
     (lp_ActiveNetwork p = Some n \<longrightarrow> lp_Phase p = PhaseReady) \<and>
     (lp_ActiveNetwork p \<noteq> None \<longrightarrow> lp_AllocatedAddress p \<noteq> None)"

lemma networkLabelKey_prefix: "HasPrefix (networkLabelKey sha n) network_label_prefix"
  by (simp add: networkLabelKey_def safeKeyName_def network_label_prefix_def HasPrefix_iff Let_def)

lemma drop_network_labels_other: "\<not> HasPrefix k network_label_prefix \<Longrightarrow> map_of (drop_network_labels ls) k = map_of ls k"
  by (induction ls) (auto simp: drop_network_labels_def)

lemma drop_network_labels_idem [simp]: "drop_network_labels (drop_network_labels ls) = drop_network_labels ls"
  by (simp add: drop_network_labels_def)

lemma update_new: "k \<notin> fst ` set al \<Longrightarrow> AList.update k v al = al @ [(k, v)]"
  by (induction al) auto

lemma relabel_eq: "relabel env n ls = drop_network_labels ls @ [(networkLabelKey (ge_sha (pe_gen env)) n, ''true'')]"
proof -
  have "networkLabelKey (ge_sha (pe_gen env)) n \<notin> fst ` set (drop_network_labels ls)"
    using networkLabelKey_prefix by (auto simp: drop_network_labels_def)
  then show ?thesis by (simp add: relabel_def update_new)
qed

lemma relabel_idem [simp]: "relabel env n (relabel env n ls) = relabel env n ls"
proof -
  have "drop_network_labels (relabel env n ls) = drop_network_labels ls"
    using networkLabelKey_prefix [of "ge_sha (pe_gen env)" n] by (simp add: relabel_eq) (simp add: drop_network_labels_def)
  then show ?thesis unfolding relabel_eq by simp
qed

lemma shadow_labels:
  "label_get (drop_network_labels ls) LabelShadow = label_get ls LabelShadow"
  "label_get (relabel env n ls) LabelShadow = label_get ls LabelShadow"
proof -
  have "\<not> HasPrefix LabelShadow network_label_prefix"
    by (simp add: LabelShadow_def network_label_prefix_def HasPrefix_def)
  then have other: "map_of (drop_network_labels ls) LabelShadow = map_of ls LabelShadow"
    and ne: "LabelShadow \<noteq> networkLabelKey sha n" for sha
    using networkLabelKey_prefix [of sha n] by (auto simp: drop_network_labels_other)
  then show "label_get (drop_network_labels ls) LabelShadow = label_get ls LabelShadow"
    "label_get (relabel env n ls) LabelShadow = label_get ls LabelShadow"
    by (simp_all add: label_get_def relabel_def update_conv')
qed

lemma to_pending_serves:
  assumes "peer_calls_ok api good ns nm" "serves api good ns nm s p"
  shows "\<exists>s'. to_pending api d p s = (Ok d, p\<lparr> lp_Phase := PhasePending \<rparr>, s') \<and> serves api good ns nm s' (p\<lparr> lp_Phase := PhasePending \<rparr>)"
proof -
  have "with_status (p\<lparr> lp_Phase := PhasePending \<rparr>) p = p\<lparr> lp_Phase := PhasePending \<rparr>"
    by (cases p) (simp add: with_status_def)
  then show ?thesis
    using updateStatus_serves [OF assms, of "\<lambda>p. p\<lparr> lp_Phase := PhasePending \<rparr>"] by (auto simp: to_pending_def)
qed

lemma handleInitialization_serves:
  assumes ok: "peer_calls_ok api good ns nm" "other_calls_ok api env good ns nm net" "serves api good ns nm s p"
  shows "\<exists>r p' s'. handleInitialization api env p s = (Ok r, p', s') \<and> serves api good ns nm s' p' \<and>
    (if lp_PrivateKey p = []
     then lp_PrivateKey p' \<noteq> [] \<and> (\<exists>k pb pid. p' = p\<lparr> lp_PrivateKey := k, lp_PublicKey := pb, lp_PeerId := pid \<rparr>)
     else 0 < r \<and> (\<exists>cs. p' = p\<lparr> lp_Phase := PhasePending, lp_Conditions := cs \<rparr>))"
proof (cases "lp_PrivateKey p = []")
  case True
  obtain priv pub where key: "pa_GenerateKey api (rs_world s) = Ok (priv, pub)" "pe_key_String env priv \<noteq> []"
    using other_calls(5) [OF ok(2,3)] by (auto split: sum.splits)
  define q where "q = p\<lparr> lp_PrivateKey := pe_key_String env priv, lp_PublicKey := pe_key_String env pub,
      lp_PeerId := dec_nat (unat (ToUint64 (FromKey pub))) \<rparr>"
  have "\<not> spec_eq q p" using True key(2) by (simp add: q_def spec_eq_def)
  moreover have "same_object q p" "status_eq q p" by (simp_all add: q_def status_eq_def)
  ultimately obtain s' where u: "ensureKeys api env p s = (Ok True, q, s')" "serves api good ns nm s' q"
    using updateSpec_serves [OF ok(1,3), of "\<lambda>node. Ok (node\<lparr> lp_PrivateKey := pe_key_String env priv, lp_PublicKey := pe_key_String env pub,
        lp_PeerId := dec_nat (unat (ToUint64 (FromKey pub))) \<rparr>)" q]
    by (auto simp: ensureKeys_def True key(1) simp flip: q_def)
  then have "handleInitialization api env p s = (Ok 0, q, s')" by (simp add: handleInitialization_def)
  moreover have "\<exists>k pb pid. q = p\<lparr> lp_PrivateKey := k, lp_PublicKey := pb, lp_PeerId := pid \<rparr>" "lp_PrivateKey q \<noteq> []"
    unfolding q_def using key(2) by auto
  ultimately show ?thesis using True u(2) by auto
next
  case False
  let ?f = "\<lambda>p. add_cond (cond env ''Initialized'' True ''Ready'' []) (p\<lparr> lp_Phase := PhasePending \<rparr>)"
  obtain b s' where u: "updateStatus api p ?f s = (Ok b, with_status (?f p) p, s')" "serves api good ns nm s' (with_status (?f p) p)"
    using updateStatus_serves [OF ok(1,3), of ?f] by auto
  have "\<exists>cs. with_status (?f p) p = p\<lparr> lp_Phase := PhasePending, lp_Conditions := cs \<rparr>"
    by (cases p) (auto simp: with_status_def add_cond_def)
  then show ?thesis using False u by (auto simp: handleInitialization_def ensureKeys_def)
qed

lemma leaveNetwork_serves:
  assumes ok: "peer_calls_ok api good ns nm" "other_calls_ok api env good ns nm net" "serves api good ns nm s p"
    and "lp_Network p = Some n"
  shows "\<exists>cs s' p'. leaveNetwork api env ns p s = (Ok 100000000, p', s') \<and> serves api good ns nm s' p' \<and>
    p' = p\<lparr> lp_Labels := drop_network_labels (lp_Labels p), lp_Phase := PhaseReady, lp_Conditions := cs,
            lp_ActiveNetwork := None, lp_AllocatedAddress := None \<rparr>"
proof -
  have p: "lp_Namespace p = ns" using peer_calls(2) [OF ok(1,3)] .
  obtain w where rel: "release api env p (rs_world s) = (None, w)" "serves api good ns nm (s\<lparr> rs_world := w \<rparr>) p"
    using other_calls(8) [OF ok(2,3)] ok(3) by (cases "lp_AllocatedAddress p") (auto simp: release_def p)
  define q where "q = p\<lparr> lp_Labels := drop_network_labels (lp_Labels p) \<rparr>"
  have same: "q = p" if "spec_eq q p"
  proof -
    have "set (drop_network_labels (lp_Labels p)) = set (lp_Labels p)" using that by (simp add: spec_eq_def q_def)
    then have "drop_network_labels (lp_Labels p) = lp_Labels p"
      unfolding drop_network_labels_def by (auto simp: filter_id_conv)
    then show ?thesis by (simp add: q_def)
  qed
  have "\<exists>s'. updateSpec api p (\<lambda>p. Ok (p\<lparr> lp_Labels := drop_network_labels (lp_Labels p) \<rparr>)) (s\<lparr> rs_world := w \<rparr>) = (Ok (\<not> spec_eq q p), q, s') \<and>
      serves api good ns nm s' q"
    using updateSpec_serves [OF ok(1) rel(2), of "\<lambda>p. Ok (p\<lparr> lp_Labels := drop_network_labels (lp_Labels p) \<rparr>)" q] same
    by (auto simp: q_def status_eq_def)
  then obtain s1 where u: "updateSpec api p (\<lambda>p. Ok (p\<lparr> lp_Labels := drop_network_labels (lp_Labels p) \<rparr>)) (s\<lparr> rs_world := w \<rparr>) =
      (Ok (\<not> spec_eq q p), q, s1)" "serves api good ns nm s1 q" by blast
  have "same_object (left env q) q" by (simp add: left_def)
  then obtain b s2 where v: "updateStatus api q (left env) s1 = (Ok b, with_status (left env q) q, s2)"
      "serves api good ns nm s2 (with_status (left env q) q)"
    using updateStatus_serves [OF ok(1) u(2), of "left env"] by blast
  have "lp_Network (with_status (left env q) q) = Some n" using assms(4) by (simp add: with_status_def q_def)
  then have "leaveNetwork api env ns p s = (Ok 100000000, with_status (left env q) q, s2)"
    using rel(1) u(1) v(1) by (simp add: leaveNetwork_def)
  moreover have "\<exists>cs. with_status (left env q) q = p\<lparr> lp_Labels := drop_network_labels (lp_Labels p), lp_Phase := PhaseReady,
      lp_Conditions := cs, lp_ActiveNetwork := None, lp_AllocatedAddress := None \<rparr>"
    by (cases p) (auto simp: with_status_def left_def add_cond_def q_def)
  ultimately show ?thesis using v(2) by auto
qed


lemma joinNetwork_serves:
  assumes ok: "peer_calls_ok api good ns nm" "other_calls_ok api env good ns nm net" "serves api good ns nm s p"
    and net: "lp_Network p = Some (ln_Name net)" "lp_ActiveNetwork p = None"
  shows "\<exists>r p' s'. joinNetwork api env ns p s = Some (Ok r, p', s') \<and> serves api good ns nm s' p' \<and>
    (if labelled env (ln_Name net) p
     then \<exists>a h cs. p' = p\<lparr> lp_Phase := PhaseReady, lp_Conditions := cs, lp_ActiveNetwork := Some (ln_Name net), lp_AllocatedAddress := Some a, lp_CurrentHash := h \<rparr>
     else 0 < r \<and> p' = p\<lparr> lp_Labels := relabel env (ln_Name net) (lp_Labels p) \<rparr>)"
proof -
  define q where "q = p\<lparr> lp_Labels := relabel env (ln_Name net) (lp_Labels p) \<rparr>"
  have p: "lp_Namespace p = ns" "lp_Name p = nm" using peer_calls(1,2) [OF ok(1,3)] by auto
  have net': "pa_GetNetwork api (rs_world s) ns (ln_Name net) = Ok net" using other_calls(4) [OF ok(2,3)] .
  have lab: "spec_eq q p \<longleftrightarrow> labelled env (ln_Name net) p" by (simp add: spec_eq_def q_def labelled_def)
  define f where "f = (\<lambda>node :: LatticePeer. case pa_GetNetwork api (rs_world s) (lp_Namespace node) (the (lp_Network node)) of
      Inl e \<Rightarrow> Err e | Inr network \<Rightarrow> Ok (node\<lparr> lp_Labels := AList.update (networkLabelKey (ge_sha (pe_gen env)) (ln_Name network)) ''true''
                                      (drop_network_labels (lp_Labels node)) \<rparr>))"
  have "f p = Ok q" by (simp add: f_def p net net' q_def relabel_def)
  then obtain s1 where u: "ensurePeerSpec api env p s = (Ok (\<not> labelled env (ln_Name net) p), (if labelled env (ln_Name net) p then p else q), s1)"
      "serves api good ns nm s1 (if labelled env (ln_Name net) p then p else q)"
    using updateSpec_serves [OF ok(1,3), of f q] by (auto simp: ensurePeerSpec_def f_def [symmetric] lab) (auto simp: q_def status_eq_def)
  have join: "joinNetwork api env ns p s = (if labelled env (ln_Name net) p then allocate_and_join api env ns net p s1 else Some (Ok 100000000, q, s1))"
    using net net' u(1) other_calls(1) [OF ok(2,3)] by (simp add: joinNetwork_def p)
  show ?thesis
  proof (cases "labelled env (ln_Name net) p")
    case False
    then show ?thesis using join u(2) by (simp add: q_def)
  next
    case True
    then have s1: "serves api good ns nm s1 p" using u(2) by simp
    obtain a w where a: "AllocateIP (pa_ipam api) (pe_ip6 env) (ln_Name net) (ln_ActiveCIDR net) ns nm (rs_world s1) = Some (Ok a, w)"
        "serves api good ns nm (s1\<lparr> rs_world := w \<rparr>) p"
      using other_calls(9) [OF ok(2) s1] by blast
    have "same_object (joined env a p) p" by (simp add: joined_def)
    then obtain b s2 where v: "updateStatus api p (joined env a) (s1\<lparr> rs_world := w \<rparr>) = (Ok b, with_status (joined env a p) p, s2)"
        "serves api good ns nm s2 (with_status (joined env a p) p)"
      using updateStatus_serves [OF ok(1) a(2), of "joined env a"] by blast
    obtain p' s3 where l: "lastReconcile api env ns (with_status (joined env a p) p) s2 = (Ok 0, p', s3)" "serves api good ns nm s3 p'"
        "only_config p' (with_status (joined env a p) p)"
      using lastReconcile_serves [OF ok(1,2) v(2)] by blast
    have "\<exists>h cs. p' = p\<lparr> lp_Phase := PhaseReady, lp_Conditions := cs, lp_ActiveNetwork := Some (ln_Name net), lp_AllocatedAddress := Some a, lp_CurrentHash := h \<rparr>"
      using l(3) net by (cases p) (auto simp: only_config_def with_status_def joined_def add_cond_def)
    moreover have "joinNetwork api env ns p s = Some (Ok 0, p', s3)"
      using True join a(1) v(1) l(1) by (simp add: allocate_and_join_def p)
    ultimately show ?thesis using True l(2) by auto
  qed
qed

text \<open>One reconcile of a peer that is to be in \<open>net\<close>.\<close>

definition advances :: "peer_env \<Rightarrow> string \<Rightarrow> LatticePeer \<Rightarrow> LatticePeer \<Rightarrow> bool" where
  "advances env n p p' \<longleftrightarrow> joining n p' \<and> (has_finalizer p \<longrightarrow> has_finalizer p') \<and>
     (stage env n p' < stage env n p \<or> stage env n p = 0 \<and> stage env n p' = 0)"

lemma stage_zero: "stage env n p = 0 \<longleftrightarrow> has_finalizer p \<and> lp_ActiveNetwork p = Some n"
  by (auto simp: stage_def split: LatticePeerPhase.splits if_splits)

lemma advances_pending:
  assumes "joining n p" "has_finalizer p" "lp_ActiveNetwork p \<noteq> Some n" "lp_Phase p \<noteq> PhasePending"
    and "lp_Phase p = PhaseReady \<or> lp_Phase p = PhaseFailed \<or> lp_PrivateKey p \<noteq> []"
  shows "advances env n p (p\<lparr> lp_Phase := PhasePending, lp_Conditions := cs \<rparr>)"
  using assms by (auto simp: advances_def joining_def has_finalizer_def is_shadow_def stage_def split: LatticePeerPhase.splits)

lemma advances_keyed:
  assumes "joining n p" "has_finalizer p" "lp_ActiveNetwork p \<noteq> Some n" "lp_Phase p \<in> {PhaseNone, PhaseProvisioning}" "lp_PrivateKey p = []" "k \<noteq> []"
  shows "advances env n p (p\<lparr> lp_PrivateKey := k, lp_PublicKey := pb, lp_PeerId := pid \<rparr>)"
  using assms by (auto simp: advances_def joining_def has_finalizer_def is_shadow_def stage_def split: LatticePeerPhase.splits)

lemma advances_left:
  assumes "joining n p" "has_finalizer p" "lp_ActiveNetwork p \<noteq> Some n" "lp_ActiveNetwork p \<noteq> None" "lp_Phase p = PhasePending"
  shows "advances env n p (p\<lparr> lp_Labels := drop_network_labels (lp_Labels p), lp_Phase := PhaseReady, lp_Conditions := cs,
            lp_ActiveNetwork := None, lp_AllocatedAddress := None \<rparr>)"
  using assms by (auto simp: advances_def joining_def has_finalizer_def is_shadow_def stage_def shadow_labels)

lemma advances_labelled:
  assumes "joining n p" "has_finalizer p" "lp_ActiveNetwork p = None" "lp_Phase p = PhasePending" "\<not> labelled env n p"
  shows "advances env n p (p\<lparr> lp_Labels := relabel env n (lp_Labels p) \<rparr>)"
  using assms by (auto simp: advances_def joining_def has_finalizer_def is_shadow_def stage_def shadow_labels labelled_def)

lemma advances_joined:
  assumes "joining n p" "has_finalizer p" "lp_ActiveNetwork p = None" "lp_Phase p = PhasePending"
  shows "advances env n p (p\<lparr> lp_Phase := PhaseReady, lp_Conditions := cs, lp_ActiveNetwork := Some n, lp_AllocatedAddress := Some a, lp_CurrentHash := h \<rparr>)"
  using assms by (auto simp: advances_def joining_def has_finalizer_def is_shadow_def stage_def)

lemma advances_config:
  assumes "joining n p" "has_finalizer p" "lp_ActiveNetwork p = Some n" "only_config p' p"
  shows "advances env n p p'"
  using assms by (auto simp: advances_def joining_def has_finalizer_def is_shadow_def stage_def only_config_def)

lemma advances_finalizer:
  assumes "joining n p" "\<not> has_finalizer p"
  shows "advances env n p (p\<lparr> lp_Finalizers := lp_Finalizers p @ [finalizerName] \<rparr>)"
  using assms by (auto simp: advances_def joining_def has_finalizer_def is_shadow_def stage_def split: LatticePeerPhase.splits)



lemma dispatch_advances:
  assumes ok: "peer_calls_ok api good ns nm" "other_calls_ok api env good ns nm net" "serves api good ns nm s p"
    and p: "joining (ln_Name net) p" "has_finalizer p"
  shows "\<exists>r p' s'. dispatch api env ns p s = Some (Ok r, p', s') \<and> serves api good ns nm s' p' \<and> advances env (ln_Name net) p p' \<and>
    (stage env (ln_Name net) p' = 0 \<or> 0 < r \<or> lp_PrivateKey p = [] \<and> lp_PrivateKey p' \<noteq> [])"
proof -
  let ?n = "ln_Name net"
  have net: "lp_Network p = Some ?n" using p(1) by (simp add: joining_def)
  consider (config) "lp_ActiveNetwork p = Some ?n" "lp_Phase p = PhaseReady"
    | (restart) "lp_ActiveNetwork p \<noteq> Some ?n" "lp_Phase p = PhaseReady \<or> lp_Phase p = PhaseFailed"
    | (leave) m where "lp_ActiveNetwork p = Some m" "m \<noteq> ?n" "lp_Phase p = PhasePending"
    | (join) "lp_ActiveNetwork p = None" "lp_Phase p = PhasePending"
    | (init) "lp_ActiveNetwork p \<noteq> Some ?n" "lp_Phase p \<in> {PhaseNone, PhaseProvisioning}"
    using p(1) by (cases "lp_Phase p"; cases "lp_ActiveNetwork p") (auto simp: joining_def)
  then show ?thesis
  proof cases
    case config
    obtain p' s' where l: "lastReconcile api env ns p s = (Ok 0, p', s')" "serves api good ns nm s' p'" "only_config p' p"
      using lastReconcile_serves [OF ok] by blast
    have "stage env ?n p' = 0" using l(3) config p(2) by (auto simp: stage_zero only_config_def has_finalizer_def)
    then show ?thesis
      using l advances_config [OF p config(1) l(3)] config net by (simp add: dispatch_def handleReady_def)
  next
    case restart
    have "dispatch api env ns p s = Some (to_pending api (if lp_Phase p = PhaseReady then 100000000 else 30000000000) p s)"
      using restart net by (auto simp: dispatch_def handleReady_def handleFailed_def)
    moreover have "advances env ?n p (p\<lparr> lp_Phase := PhasePending \<rparr>)"
      using advances_pending [OF p restart(1), of env "lp_Conditions p"] restart(2) by (cases p) auto
    ultimately show ?thesis
      using to_pending_serves [OF ok(1,3), of "if lp_Phase p = PhaseReady then 100000000 else 30000000000"] by (auto split: if_splits)
  next
    case leave
    obtain cs s' p' where l: "leaveNetwork api env ns p s = (Ok 100000000, p', s')" "serves api good ns nm s' p'"
        "p' = p\<lparr> lp_Labels := drop_network_labels (lp_Labels p), lp_Phase := PhaseReady, lp_Conditions := cs,
            lp_ActiveNetwork := None, lp_AllocatedAddress := None \<rparr>"
      using leaveNetwork_serves [OF ok net] by blast
    then show ?thesis
      using advances_left [OF p, of env cs] leave net by (simp add: dispatch_def handlePending_def)
  next
    case join
    obtain r p' s' where j: "joinNetwork api env ns p s = Some (Ok r, p', s')" "serves api good ns nm s' p'"
        "if labelled env ?n p
         then \<exists>a h cs. p' = p\<lparr> lp_Phase := PhaseReady, lp_Conditions := cs, lp_ActiveNetwork := Some ?n, lp_AllocatedAddress := Some a, lp_CurrentHash := h \<rparr>
         else 0 < r \<and> p' = p\<lparr> lp_Labels := relabel env ?n (lp_Labels p) \<rparr>"
      using joinNetwork_serves [OF ok net join(1)] by blast
    have "advances env ?n p p' \<and> (stage env ?n p' = 0 \<or> 0 < r)"
    proof (cases "labelled env ?n p")
      case True
      then show ?thesis using j(3) advances_joined [OF p join] p(2) by (auto simp: stage_zero has_finalizer_def)
    next
      case False
      then show ?thesis using j(3) advances_labelled [OF p join] by auto
    qed
    then show ?thesis using j(1,2) join net by (auto simp: dispatch_def handlePending_def)
  next
    case init
    obtain r p' s' where i: "handleInitialization api env p s = (Ok r, p', s')" "serves api good ns nm s' p'"
        "if lp_PrivateKey p = []
         then lp_PrivateKey p' \<noteq> [] \<and> (\<exists>k pb pid. p' = p\<lparr> lp_PrivateKey := k, lp_PublicKey := pb, lp_PeerId := pid \<rparr>)
         else 0 < r \<and> (\<exists>cs. p' = p\<lparr> lp_Phase := PhasePending, lp_Conditions := cs \<rparr>)"
      using handleInitialization_serves [OF ok] by blast
    have "advances env ?n p p' \<and> (0 < r \<or> lp_PrivateKey p = [] \<and> lp_PrivateKey p' \<noteq> [])"
    proof (cases "lp_PrivateKey p = []")
      case True
      then show ?thesis using i(3) advances_keyed [OF p init True] by auto
    next
      case False
      then show ?thesis using i(3) advances_pending [OF p init(1)] init(2) by auto
    qed
    moreover have "dispatch api env ns p s = Some (handleInitialization api env p s)"
      using init(2) by (auto simp: dispatch_def)
    ultimately show ?thesis using i(1,2) by auto
  qed
qed

lemma Reconcile_advances:
  assumes ok: "peer_calls_ok api good ns nm" "other_calls_ok api env good ns nm net" "serves api good ns nm s p"
    and p: "joining (ln_Name net) p"
  shows "\<exists>r p' s'. Reconcile api env ns nm s = Some (Ok r, s') \<and> serves api good ns nm s' p' \<and> advances env (ln_Name net) p p' \<and>
    (stage env (ln_Name net) p' = 0 \<or> 0 < r \<or> lp_PrivateKey p = [] \<and> lp_PrivateKey p' \<noteq> [])"
proof -
  have np: "\<not> lp_Deleting p" "\<not> is_shadow p" using p by (auto simp: joining_def)
  show ?thesis
  proof (cases "has_finalizer p")
    case True
    then show ?thesis
      using dispatch_advances [OF ok p] ok(3) np by (auto simp: Reconcile_def reconcile_peer_def has_finalizer_def)
  next
    case False
    let ?q = "p\<lparr> lp_Finalizers := lp_Finalizers p @ [finalizerName] \<rparr>"
    have "case pa_UpdatePeer api (rs_world s) ?q of (r, w') \<Rightarrow> r = None \<and> good w' \<and> pa_GetPeer api w' ns nm = Ok ?q"
      using peer_calls(1,2) [OF ok(1,3)] peer_calls(3) [OF ok(1,3), of ?q] by simp
    then show ?thesis
      using False np ok(3) advances_finalizer [OF p False] by (auto simp: Reconcile_def reconcile_peer_def has_finalizer_def add_finalizer_def)
  qed
qed

fun Reconciles :: "'w peer_api \<Rightarrow> peer_env \<Rightarrow> string \<Rightarrow> string \<Rightarrow> nat \<Rightarrow> 'w rstate \<Rightarrow> 'w rstate option" where
  "Reconciles api env ns name 0 s = Some s"
| "Reconciles api env ns name (Suc k) s =
     (case Reconcile api env ns name s of None \<Rightarrow> None | Some (r, s') \<Rightarrow> Reconciles api env ns name k s')"

lemma Reconciles_advance:
  assumes ok: "peer_calls_ok api good ns nm" "other_calls_ok api env good ns nm net"
  shows "serves api good ns nm s p \<Longrightarrow> joining (ln_Name net) p \<Longrightarrow> stage env (ln_Name net) p \<le> k \<Longrightarrow>
    \<exists>p' s'. Reconciles api env ns nm k s = Some s' \<and> serves api good ns nm s' p' \<and> joining (ln_Name net) p' \<and> stage env (ln_Name net) p' = 0"
proof (induction k arbitrary: s p)
  case (Suc k)
  obtain r p' s' where r: "Reconcile api env ns nm s = Some (Ok r, s')" "serves api good ns nm s' p'" "advances env (ln_Name net) p p'"
    using Reconcile_advances [OF ok Suc.prems(1,2)] by blast
  then have "joining (ln_Name net) p'" "stage env (ln_Name net) p' \<le> k"
    using Suc.prems(3) by (auto simp: advances_def)
  then show ?case using Suc.IH [OF r(2)] r(1) by simp
qed auto

lemma stage_bound: "stage env n p \<le> 7"
  by (simp add: stage_def split: LatticePeerPhase.splits)



text \<open>A cluster with one network and one peer, which is the whole state; the peer already owns an endpoint.\<close>

definition demo_net :: LatticeNetwork where
  "demo_net = \<lparr> ln_Name = ''net'', ln_Namespace = ''prod'', ln_SpecName = ''net'', ln_Phase = NetPhaseReady,
     ln_ActiveCIDR = ''10.0.0.0/24'', ln_AllocatedCount = 1 \<rparr>"

definition demo_peer_api :: "LatticePeer peer_api" where
  "demo_peer_api = \<lparr>
     pa_GetPeer = (\<lambda>w ns nm. if ns = ''prod'' \<and> nm = ''db'' then Ok w else Err KNotFound),
     pa_UpdatePeer = (\<lambda>w q. (None, q)),
     pa_PatchPeer = (\<lambda>w p q. (Ok (with_status p q), with_status p q)),
     pa_PatchStatus = (\<lambda>w p q. (Ok (with_status q p), with_status q p)),
     pa_GetNetwork = (\<lambda>w ns n. Ok demo_net),
     pa_ListPeers = (\<lambda>w ns s l. Ok [w]),
     pa_ListPolicies = (\<lambda>w ns. Ok []),
     pa_GetConfigMap = (\<lambda>w ns n. Err KNotFound),
     pa_ApplyConfigMap = (\<lambda>w cm. (None, w)),
     pa_SetController = None,
     pa_GenerateKey = (\<lambda>w. Ok (replicate 32 1, replicate 32 2)),
     pa_ipam = \<lparr> api_ListSubnets = (\<lambda>w. Ok []), api_CreateSubnet = (\<lambda>w a. (None, w)),
       api_ListEndpoints = (\<lambda>w ns. Ok [\<lparr> le_Name = ''ip-0a000002'', le_Namespace = ''prod'', le_Address = ''10.0.0.2'', le_PeerRef = ''db'' \<rparr>]),
       api_CreateEndpoint = (\<lambda>w e. (None, w)), api_DeleteEndpoint = (\<lambda>w ns nm. (None, w)), api_SetOwner = None \<rparr> \<rparr>"

definition demo_peer_env :: peer_env where
  "demo_peer_env = \<lparr> pe_gen = demo_env, pe_ip6 = no_v6, pe_key_String = (\<lambda>_. ''key''), pe_json = (\<lambda>_. ''json''),
     pe_json_hashed = (\<lambda>_. ''json''), pe_Error = (\<lambda>_. ''error'') \<rparr>"

definition demo_good :: "LatticePeer \<Rightarrow> bool" where
  "demo_good w \<longleftrightarrow> lp_Name w = ''db'' \<and> lp_Namespace w = ''prod''"

text \<open>A peer just created, and one that is Ready in another network.\<close>

definition fresh_peer :: LatticePeer where
  "fresh_peer = (demo_peer ''db'' [])\<lparr> lp_Labels := [], lp_Finalizers := [], lp_PrivateKey := [], lp_Phase := PhaseNone,
     lp_ActiveNetwork := None, lp_AllocatedAddress := None \<rparr>"

lemma demo_peer_calls: "peer_calls_ok demo_peer_api demo_good ''prod'' ''db''"
  by (auto simp: peer_calls_ok_def demo_peer_api_def demo_good_def with_status_def)

lemma demo_other_calls: "other_calls_ok demo_peer_api demo_peer_env demo_good ''prod'' ''db'' demo_net"
  by (auto simp: other_calls_ok_def demo_peer_api_def demo_good_def demo_peer_env_def demo_env_def demo_net_def
      AllocateIP_def ReleaseIP_def demo_cidr split: prod.splits option.splits)


text \<open>A peer taken back is stuck. A Ready peer whose network is changed goes to Pending; if the change is
  undone before the next reconcile, the peer is Pending in the network it is active in, and from
  then on a reconcile does nothing: it neither becomes Ready nor has its configuration refreshed, and
  no further reconcile is asked for.\<close>

theorem reverted_peer_is_stuck:
  assumes "peer_calls_ok api good ns nm" "serves api good ns nm s p"
    and "\<not> lp_Deleting p" "\<not> is_shadow p" "finalizerName \<in> set (lp_Finalizers p)"
    and "lp_Phase p = PhaseReady" "lp_ActiveNetwork p = Some n" "lp_Network p = Some m" "m \<noteq> n"
  shows "\<exists>s'. Reconcile api env ns nm s = Some (Ok 100000000, s') \<and> serves api good ns nm s' (p\<lparr> lp_Phase := PhasePending \<rparr>) \<and>
    (\<forall>s2. serves api good ns nm s2 (p\<lparr> lp_Phase := PhasePending, lp_Network := Some n \<rparr>) \<longrightarrow>
      Reconcile api env ns nm s2 = Some (Ok 0, s2) \<and> (\<forall>k. Reconciles api env ns nm k s2 = Some s2))"
proof -
  obtain s' where s': "to_pending api 100000000 p s = (Ok 100000000, p\<lparr> lp_Phase := PhasePending \<rparr>, s')"
      "serves api good ns nm s' (p\<lparr> lp_Phase := PhasePending \<rparr>)"
    using to_pending_serves [OF assms(1,2)] by blast
  then have "Reconcile api env ns nm s = Some (Ok 100000000, s')"
    using assms by (simp add: Reconcile_def reconcile_peer_def dispatch_def handleReady_def)
  moreover have stuck: "Reconcile api env ns nm s2 = Some (Ok 0, s2)"
    if "serves api good ns nm s2 (p\<lparr> lp_Phase := PhasePending, lp_Network := Some n \<rparr>)" for s2
    using that assms by (simp add: Reconcile_def reconcile_peer_def dispatch_def handlePending_def joinNetwork_def is_shadow_def)
  moreover have "Reconciles api env ns nm k s2 = Some s2"
    if "serves api good ns nm s2 (p\<lparr> lp_Phase := PhasePending, lp_Network := Some n \<rparr>)" for s2 k
    using stuck [OF that] by (induction k) simp_all
  ultimately show ?thesis using s'(2) by blast
qed

definition settled_peer :: "string \<Rightarrow> LatticePeer" where
  "settled_peer network = (demo_peer ''db'' ''10.0.0.2'')\<lparr> lp_Finalizers := [finalizerName], lp_Network := Some network \<rparr>"

theorem reverted_peer_is_stuck_witness:
  "Reconciles demo_peer_api demo_peer_env ''prod'' ''db'' 100 \<lparr> rs_versionCounter = 0, rs_Events = [], rs_world = (settled_peer ''net'')\<lparr> lp_Phase := PhasePending \<rparr> \<rparr> =
     Some \<lparr> rs_versionCounter = 0, rs_Events = [], rs_world = (settled_peer ''net'')\<lparr> lp_Phase := PhasePending \<rparr> \<rparr>"
proof -
  let ?s = "\<lambda>w. \<lparr> rs_versionCounter = 0, rs_Events = [], rs_world = w \<rparr>"
  have serves: "serves demo_peer_api demo_good ''prod'' ''db'' (?s w) w" if "demo_good w" for w
    using that by (simp add: demo_peer_api_def)
  have g: "demo_good (settled_peer ''other'')" "demo_good ((settled_peer ''other'')\<lparr> lp_Phase := PhasePending, lp_Network := Some ''net'' \<rparr>)"
    by (simp_all add: demo_good_def settled_peer_def demo_peer_def)
  have p: "\<not> lp_Deleting (settled_peer ''other'')" "\<not> is_shadow (settled_peer ''other'')" "finalizerName \<in> set (lp_Finalizers (settled_peer ''other''))"
    "lp_Phase (settled_peer ''other'') = PhaseReady" "lp_ActiveNetwork (settled_peer ''other'') = Some ''net''"
    "lp_Network (settled_peer ''other'') = Some ''other''" "''other'' \<noteq> ''net''"
    by (simp_all add: settled_peer_def demo_peer_def is_shadow_def label_get_def LabelShadow_def)
  have "(settled_peer ''other'')\<lparr> lp_Phase := PhasePending, lp_Network := Some ''net'' \<rparr> = (settled_peer ''net'')\<lparr> lp_Phase := PhasePending \<rparr>"
    by (simp add: settled_peer_def demo_peer_def)
  then show ?thesis
    using reverted_peer_is_stuck [OF demo_peer_calls serves [OF g(1)] p, of demo_peer_env] serves [OF g(2)] by metis
qed


text \<open>An edited configuration is not healed. The controller watches the configuration maps to undo external
  edits: the edit of a peer's map enqueues the peer. But the reconcile compares the hash of the
  message with the hash in the peer's own status, which the edit did not change; it leaves the map as
  it is, whatever the map now contains.\<close>

theorem config_edit_not_healed:
  assumes "peer_calls_ok api good ns nm" "serves api good ns nm s p" "pa_SetController api = None"
    and "\<not> lp_Deleting p" "\<not> is_shadow p" "finalizerName \<in> set (lp_Finalizers p)" "lp_Phase p = PhaseReady" "lp_Network p = lp_ActiveNetwork p"
    and "generate (gen_with api env (rs_world s)) p (getPeerStateSnapshot api env p ns (rs_world s)) (fst (generateConfigVersion (rs_versionCounter s))) = Some (Ok msg)"
    and "lp_CurrentHash p = computeMessageHash env msg"
    and "pa_GetConfigMap api (rs_world s) ns (nm @ ''-config'') = Ok edited" "cm_Name edited = nm @ ''-config''" "cm_Namespace edited = ns"
  shows "mapConfigMapForNodes api edited (rs_world s) = [(ns, nm)] \<and>
    Reconcile api env ns nm s = Some (Ok 0, s\<lparr> rs_versionCounter := rs_versionCounter s + 1 \<rparr>)"
proof -
  have p: "lp_Name p = nm" "lp_Namespace p = ns" using peer_calls(1,2) [OF assms(1,2)] .
  have "TrimSuffix (nm @ ''-config'') ''-config'' = nm" by (simp add: TrimSuffix_def HasPrefix_def)
  then have "mapConfigMapForNodes api edited (rs_world s) = [(ns, nm)]"
    using assms(2,12,13) p by (simp add: mapConfigMapForNodes_def requests_of_def)
  moreover obtain v where v: "generateConfigVersion (rs_versionCounter s) = (v, rs_versionCounter s + 1)"
    by (simp add: generateConfigVersion_def)
  have "lastReconcile api env ns p s = (Ok 0, p, s\<lparr> rs_versionCounter := rs_versionCounter s + 1 \<rparr>)"
    using assms(3,9-11) v p by (simp add: lastReconcile_def)
  then have "Reconcile api env ns nm s = Some (Ok 0, s\<lparr> rs_versionCounter := rs_versionCounter s + 1 \<rparr>)"
    using assms(2,4-8) by (cases "lp_ActiveNetwork p") (simp_all add: Reconcile_def reconcile_peer_def dispatch_def handleReady_def)
  ultimately show ?thesis ..
qed

text \<open>The cluster of before with an edited map in it.\<close>

definition edited_map :: ConfigMap where
  "edited_map = (newConfigmap ''prod'' ''db-config'' ''json'' [])\<lparr> cm_Data := [(''config.json'', ''edited'')] \<rparr>"

definition edited_api :: "LatticePeer peer_api" where
  "edited_api = demo_peer_api\<lparr> pa_GetConfigMap := (\<lambda>w ns n. Ok edited_map) \<rparr>"

definition edited_peer :: LatticePeer where
  "edited_peer = (settled_peer ''net'')\<lparr> lp_CurrentHash := hex_EncodeToString (replicate 32 0) \<rparr>"

theorem config_edit_not_healed_witness:
  "Reconcile edited_api demo_peer_env ''prod'' ''db'' \<lparr> rs_versionCounter = 0, rs_Events = [], rs_world = edited_peer \<rparr> =
     Some (Ok 0, \<lparr> rs_versionCounter = 1, rs_Events = [], rs_world = edited_peer \<rparr>)"
proof -
  let ?s = "\<lparr> rs_versionCounter = 0, rs_Events = [], rs_world = edited_peer \<rparr>"
  have calls: "peer_calls_ok edited_api demo_good ''prod'' ''db''"
    using demo_peer_calls by (simp add: peer_calls_ok_def edited_api_def)
  have serves: "serves edited_api demo_good ''prod'' ''db'' ?s edited_peer"
    by (simp add: edited_api_def demo_peer_api_def demo_good_def edited_peer_def settled_peer_def demo_peer_def)
  have p: "\<not> lp_Deleting edited_peer" "\<not> is_shadow edited_peer" "finalizerName \<in> set (lp_Finalizers edited_peer)" "lp_Phase edited_peer = PhaseReady"
    "lp_Network edited_peer = lp_ActiveNetwork edited_peer"
    by (simp_all add: edited_peer_def settled_peer_def demo_peer_def is_shadow_def label_get_def LabelShadow_def)
  have "ge_valid (gen_with edited_api demo_peer_env edited_peer) x" for x
    by (simp add: gen_with_def demo_peer_env_def demo_env_def)
  from generate_no_error [OF this] obtain msg where msg:
    "generate (gen_with edited_api demo_peer_env (rs_world ?s)) edited_peer
       (getPeerStateSnapshot edited_api demo_peer_env edited_peer ''prod'' (rs_world ?s)) (fst (generateConfigVersion (rs_versionCounter ?s))) = Some (Ok msg)"
    by fastforce
  have "pa_SetController edited_api = None" by (simp add: edited_api_def demo_peer_api_def)
  moreover have "lp_CurrentHash edited_peer = computeMessageHash demo_peer_env msg"
    by (simp add: edited_peer_def computeMessageHash_def demo_peer_env_def demo_env_def)
  moreover have "pa_GetConfigMap edited_api (rs_world ?s) ''prod'' (''db'' @ ''-config'') = Ok edited_map"
    "cm_Name edited_map = ''db'' @ ''-config''" "cm_Namespace edited_map = ''prod''"
    by (simp_all add: edited_api_def edited_map_def newConfigmap_def)
  ultimately show ?thesis
    using config_edit_not_healed [OF calls serves _ p msg] by simp
qed

end
