(* ===== verification/Network_Controller.thy ===== *)
theory Network_Controller
  imports Peer_Controller
begin

text \<open>
  The network controller (\<open>internal/agent/controller/network_controller.go\<close>): it gives every
  \<open>LatticeNetwork\<close> its range out of the global pool and counts its peers. The client is the record
  \<open>net_api\<close>; \<open>None\<close> stands for a subnet scan that does not end (see \<open>FindFirstFree\<close>).
\<close>

section \<open>The controller\<close>

record 'w net_api =
  na_GetNetwork :: "'w \<Rightarrow> string \<Rightarrow> string \<Rightarrow> kube_error + LatticeNetwork"
  na_GetPool :: "'w \<Rightarrow> string \<Rightarrow> kube_error + LatticeGlobalIPPool"
  na_PatchStatus :: "'w \<Rightarrow> LatticeNetwork \<Rightarrow> LatticeNetwork \<Rightarrow> (kube_error + LatticeNetwork) \<times> 'w"
  na_ListPeers :: "'w \<Rightarrow> string \<Rightarrow> string \<Rightarrow> kube_error + LatticePeer list"
  na_ipam :: "'w ipam_api"

definition net_status_eq :: "LatticeNetwork \<Rightarrow> LatticeNetwork \<Rightarrow> bool" where
  "net_status_eq a b \<longleftrightarrow> ln_Phase a = ln_Phase b \<and> ln_ActiveCIDR a = ln_ActiveCIDR b \<and> ln_AllocatedCount a = ln_AllocatedCount b"

text \<open>The patch is always sent; the result tells whether the object that came back differs in its status.\<close>

definition net_updateStatus ::
  "'w net_api \<Rightarrow> LatticeNetwork \<Rightarrow> (LatticeNetwork \<Rightarrow> LatticeNetwork) \<Rightarrow> 'w \<Rightarrow> (kube_error + bool) \<times> 'w" where
  "net_updateStatus api network updateFunc w =
     (case na_PatchStatus api w network (updateFunc network) of
        (Inl KConflict, w') \<Rightarrow> (Ok False, w')
      | (Inl e, w') \<Rightarrow> (Err e, w')
      | (Inr obj, w') \<Rightarrow> (Ok (\<not> net_status_eq obj network), w'))"

definition findNodesByLabels :: "'w net_api \<Rightarrow> LatticeNetwork \<Rightarrow> 'w \<Rightarrow> kube_error + LatticePeer list" where
  "findNodesByLabels api network w = na_ListPeers api w (ln_Namespace network) (''alattice.io/network-'' @ ln_Name network)"

definition count_nodes :: "'w net_api \<Rightarrow> LatticeNetwork \<Rightarrow> 'w \<Rightarrow> (rec_error + int) \<times> 'w" where
  "count_nodes api network w =
     (case findNodesByLabels api network w of
        Inl e \<Rightarrow> (Err (RApi e), w)
      | Inr peers \<Rightarrow>
          let n = int (length peers)
          in if ln_AllocatedCount network \<noteq> n
             then (case net_updateStatus api network (\<lambda>x. x\<lparr> ln_AllocatedCount := n \<rparr>) w of
                     (Inl e, w') \<Rightarrow> (Err (RApi e), w')
                   | (Inr _, w') \<Rightarrow> (Ok 0, w'))
             else (Ok 0, w))"

definition assign_range :: "'w net_api \<Rightarrow> ip6_text \<Rightarrow> LatticeNetwork \<Rightarrow> 'w \<Rightarrow> ((rec_error + int) \<times> 'w) option" where
  "assign_range api t network w =
     (case na_GetPool api w ''lattice-ip-pool'' of
        Inl e \<Rightarrow> Some (Err (RApi e), w)
      | Inr pool \<Rightarrow>
          (case AllocateSubnet (na_ipam api) t (ln_Name network) pool w of
             None \<Rightarrow> None
           | Some (Inl e, w1) \<Rightarrow> Some (Err (RIpam e), w1)
           | Some (Inr cidr, w1) \<Rightarrow>
               Some (case net_updateStatus api network (\<lambda>x. x\<lparr> ln_ActiveCIDR := cidr, ln_Phase := NetPhaseReady \<rparr>) w1 of
                       (Inl e, w2) \<Rightarrow> (Err (RApi e), w2)
                     | (Inr True, w2) \<Rightarrow> (Ok 0, w2)
                     | (Inr False, w2) \<Rightarrow> count_nodes api network w2)))"

definition mark_creating :: "'w net_api \<Rightarrow> LatticeNetwork \<Rightarrow> 'w \<Rightarrow> kube_error option \<times> 'w" where
  "mark_creating api network w =
     (if ln_Phase network = NetPhaseNone
      then (case net_updateStatus api network (\<lambda>x. x\<lparr> ln_Phase := NetPhaseCreating \<rparr>) w of
              (Inl e, w') \<Rightarrow> (Some e, w')
            | (Inr _, w') \<Rightarrow> (None, w'))
      else (None, w))"

definition net_Reconcile :: "'w net_api \<Rightarrow> ip6_text \<Rightarrow> string \<Rightarrow> string \<Rightarrow> 'w \<Rightarrow> ((rec_error + int) \<times> 'w) option" where
  "net_Reconcile api t ns name w =
     (case na_GetNetwork api w ns name of
        Inl KNotFound \<Rightarrow> Some (Ok 0, w)
      | Inl e \<Rightarrow> Some (Err (RApi e), w)
      | Inr network \<Rightarrow>
          (case mark_creating api network w of
             (Some e, w1) \<Rightarrow> Some (Err (RApi e), w1)
           | (None, w1) \<Rightarrow>
               if ln_ActiveCIDR network = [] then assign_range api t network w1
               else Some (count_nodes api network w1)))"

text \<open>The networks to look at again when a peer changes, in the order the map of labels is visited.\<close>

definition mapNodeForNetworks :: "(labels \<Rightarrow> labels) \<Rightarrow> LatticePeer \<Rightarrow> (string \<times> string) list" where
  "mapNodeForNetworks visit node =
     map (\<lambda>n. (lp_Namespace node, n))
       ((case lp_Network node of None \<Rightarrow> [] | Some n \<Rightarrow> [n]) @
        map (\<lambda>(k, v). TrimPrefix k ''alattice.io/network-'')
          (filter (\<lambda>(k, v). HasPrefix k ''alattice.io/network-'' \<and> v = ''true'') (visit (lp_Labels node))))"

section \<open>Ranges stay apart\<close>

text \<open>
  What the code relies on, for the objects as the server has them: \<open>nets\<close> the networks by namespace and
  name, \<open>subs\<close> the subnet allocations by name. A read may be stale. A failed call changes nothing; a
  status patch changes the one network, and its range only if the two objects it is computed from
  differ there; creating an allocation succeeds only if its name is free. The pool does not change.
\<close>

definition net_api_ok ::
  "'w net_api \<Rightarrow> ('w \<Rightarrow> string \<times> string \<Rightarrow> LatticeNetwork option) \<Rightarrow> ('w \<Rightarrow> string \<Rightarrow> LatticeSubnetAllocation option) \<Rightarrow>
   LatticeGlobalIPPool \<Rightarrow> bool" where
  "net_api_ok api nets subs pool \<longleftrightarrow>
     (\<forall>w ns nm n. na_GetNetwork api w ns nm = Ok n \<longrightarrow> ln_Name n = nm \<and> ln_Namespace n = ns) \<and>
     (\<forall>w nm p. na_GetPool api w nm = Ok p \<longrightarrow> p = pool) \<and>
     (\<forall>w old new. case na_PatchStatus api w old new of (r, w') \<Rightarrow>
        subs w' = subs w \<and>
        (case r of
           Inl e \<Rightarrow> nets w' = nets w
         | Inr obj \<Rightarrow> nets w' = (nets w)((ln_Namespace new, ln_Name new) \<mapsto> obj) \<and>
             ln_ActiveCIDR obj =
               (if ln_ActiveCIDR new \<noteq> ln_ActiveCIDR old then ln_ActiveCIDR new
                else case nets w (ln_Namespace new, ln_Name new) of None \<Rightarrow> [] | Some n \<Rightarrow> ln_ActiveCIDR n))) \<and>
     (\<forall>w a. case api_CreateSubnet (na_ipam api) w a of (r, w') \<Rightarrow>
        nets w' = nets w \<and>
        (if r = None then subs w (sa_Name a) = None \<and> subs w' = (subs w)(sa_Name a \<mapsto> a) else subs w' = subs w))"

definition range_text :: "ip6_text \<Rightarrow> IP \<Rightarrow> nat \<Rightarrow> nat \<Rightarrow> nat \<Rightarrow> string" where
  "range_text t b n m k = IP_String t (subnet_at b n m k) @ ''/'' @ dec_int (int m)"

definition range_name :: "IP \<Rightarrow> nat \<Rightarrow> nat \<Rightarrow> nat \<Rightarrow> string" where
  "range_name b n m k = ''subnet-'' @ ipToHex (subnet_at b n m k)"

definition held :: "('w \<Rightarrow> string \<times> string \<Rightarrow> LatticeNetwork option) \<Rightarrow> 'w \<Rightarrow> string \<times> string \<Rightarrow> string" where
  "held nets w key = (case nets w key of None \<Rightarrow> [] | Some n \<Rightarrow> ln_ActiveCIDR n)"

text \<open>Each network with a range has one of the pool's subnets, which is allocated, and no other network has it.\<close>

definition ranges_ok :: "('k \<Rightarrow> string) \<Rightarrow> (string \<Rightarrow> bool) \<Rightarrow> (nat \<Rightarrow> string) \<Rightarrow> (nat \<Rightarrow> string) \<Rightarrow> nat \<Rightarrow> bool" where
  "ranges_ok c taken text name cap \<longleftrightarrow>
     (\<forall>key. c key \<noteq> [] \<longrightarrow> (\<exists>k < cap. c key = text k \<and> taken (name k) \<and> (\<forall>key'. c key' = text k \<longrightarrow> key' = key)))"

lemma net_api_facts:
  assumes "net_api_ok api nets subs pool"
  shows "na_GetNetwork api w ns nm = Ok x \<Longrightarrow> ln_Name x = nm \<and> ln_Namespace x = ns"
    and "na_GetPool api w nm = Ok p \<Longrightarrow> p = pool"
    and "case na_PatchStatus api w old new of (r, w') \<Rightarrow>
        subs w' = subs w \<and>
        (case r of
           Inl e \<Rightarrow> nets w' = nets w
         | Inr obj \<Rightarrow> nets w' = (nets w)((ln_Namespace new, ln_Name new) \<mapsto> obj) \<and>
             ln_ActiveCIDR obj =
               (if ln_ActiveCIDR new \<noteq> ln_ActiveCIDR old then ln_ActiveCIDR new
                else case nets w (ln_Namespace new, ln_Name new) of None \<Rightarrow> [] | Some n \<Rightarrow> ln_ActiveCIDR n))"
    and "case api_CreateSubnet (na_ipam api) w a of (r, w') \<Rightarrow>
        nets w' = nets w \<and>
        (if r = None then subs w (sa_Name a) = None \<and> subs w' = (subs w)(sa_Name a \<mapsto> a) else subs w' = subs w)"
proof -
  note all = assms [unfolded net_api_ok_def]
  show "na_GetNetwork api w ns nm = Ok x \<Longrightarrow> ln_Name x = nm \<and> ln_Namespace x = ns"
    using conjunct1 [OF all] by simp
  show "na_GetPool api w nm = Ok p \<Longrightarrow> p = pool"
    using conjunct1 [OF conjunct2 [OF all]] by simp
qed (rule spec [OF spec [OF spec [OF conjunct1 [OF conjunct2 [OF conjunct2 [OF assms [unfolded net_api_ok_def]]]]]]]
    spec [OF spec [OF conjunct2 [OF conjunct2 [OF conjunct2 [OF assms [unfolded net_api_ok_def]]]]]])+

text \<open>A pool of prefix length \<open>n\<close> cut into subnets of length \<open>m\<close>.\<close>

definition pool_cut :: "ip6_text \<Rightarrow> LatticeGlobalIPPool \<Rightarrow> IP \<Rightarrow> nat \<Rightarrow> nat \<Rightarrow> bool" where
  "pool_cut t pool b n m \<longleftrightarrow>
     ParseCIDR t (pool_CIDR pool) = Some (v4InV6Prefix @ b, v4_net b n) \<and> length b = 4 \<and>
     1 \<le> n \<and> n \<le> m \<and> m \<le> 32 \<and> pool_SubnetMask pool = int m"

lemma FindFirstFree_in_pool:
  assumes "pool_cut t pool b n m" "FindFirstFree api t pool w = Some (Ok ip)"
  shows "\<exists>k < 2 ^ (m - n). ip = subnet_at b n m k"
proof (cases "api_ListSubnets api w")
  case (Inl e)
  then show ?thesis
    using assms by (auto simp: FindFirstFree_def pool_cut_def)
next
  case (Inr allocs)
  then show ?thesis
    using FindFirstFree_eq [of t pool b n m api w allocs] assms
    by (auto simp: pool_cut_def find_Some_iff split: option.splits)
qed

lemma range_text_inject:
  assumes "n \<le> m" "m \<le> 32" "j < 2 ^ (m - n)" "k < 2 ^ (m - n)"
  shows "range_text t b n m j = range_text t b n m k \<longleftrightarrow> j = k"
proof
  assume "range_text t b n m j = range_text t b n m k"
  then have "IP_String t (subnet_at b n m j) = IP_String t (subnet_at b n m k)"
    by (simp add: range_text_def)
  then have "v4 (subnet_at b n m j) = v4 (subnet_at b n m k)"
    by (simp add: subnet_at_def dotted_inject)
  then show "j = k"
    using unat_subnet_at [OF assms(1,2), of _ b] assms(3,4) by (metis add_left_cancel mult_cancel2 power_not_zero zero_neq_numeral)
qed simp

lemma range_text_not_Nil [simp]: "range_text t b n m k \<noteq> []"
  by (simp add: range_text_def)

lemma subnet_attempts_ok:
  assumes "net_api_ok api nets subs pool" "pool_cut t pool b n m"
  shows "subnet_attempts (na_ipam api) t nm pool c w = Some (r, w') \<Longrightarrow>
    nets w' = nets w \<and>
    (case r of
       Inl e \<Rightarrow> subs w' = subs w
     | Inr cidr \<Rightarrow> \<exists>k < 2 ^ (m - n). cidr = range_text t b n m k \<and> subs w (range_name b n m k) = None \<and>
         (\<exists>a. subs w' = (subs w)(range_name b n m k \<mapsto> a)))"
proof (induction c arbitrary: w)
  case (Suc c)
  show ?case
  proof (cases "FindFirstFree (na_ipam api) t pool w")
    case None
    then show ?thesis using Suc.prems by simp
  next
    case (Some f)
    show ?thesis
    proof (cases f)
      case (Inl e)
      then show ?thesis using Suc.prems Some by auto
    next
      case (Inr ip)
      then obtain k where k: "k < 2 ^ (m - n)" "ip = subnet_at b n m k"
        using FindFirstFree_in_pool [OF assms(2), of "na_ipam api" w ip] Some by auto
      define a where "a = \<lparr> sa_Name = range_name b n m k, sa_NetworkName = nm, sa_CIDR = range_text t b n m k \<rparr>"
      obtain r1 w1 where c: "api_CreateSubnet (na_ipam api) w a = (r1, w1)" by (cases "api_CreateSubnet (na_ipam api) w a")
      have name: "sa_Name a = range_name b n m k" by (simp add: a_def)
      have mask: "pool_SubnetMask pool = int m" using assms(2) by (simp add: pool_cut_def)
      have step: "subnet_attempts (na_ipam api) t nm pool (Suc c) w =
          (case api_SetOwner (na_ipam api) of
             Some e \<Rightarrow> Some (Err (IpamApi e), w)
           | None \<Rightarrow> (case r1 of None \<Rightarrow> Some (Ok (range_text t b n m k), w1)
               | Some KAlreadyExists \<Rightarrow> subnet_attempts (na_ipam api) t nm pool c w1
               | Some e \<Rightarrow> Some (Err (IpamApi e), w1)))"
        using Some Inr k(2) mask c
        by (simp add: a_def range_name_def range_text_def Let_def split: option.splits kube_error.splits)
      have w1: "nets w1 = nets w" "if r1 = None then subs w (range_name b n m k) = None \<and> subs w1 = (subs w)(range_name b n m k \<mapsto> a) else subs w1 = subs w"
        using net_api_facts(4) [OF assms(1), of w a] unfolding c name prod.case by simp_all
      show ?thesis
      proof (cases "api_SetOwner (na_ipam api) = None \<and> r1 = Some KAlreadyExists")
        case True
        then have s1: "subs w1 = subs w" using w1(2) by simp
        show ?thesis using Suc.prems Suc.IH [of w1, unfolded s1 w1(1)] True unfolding step by simp
      next
        case False
        then show ?thesis
          using Suc.prems w1 k(1) unfolding step
          by (auto split: option.splits kube_error.splits intro!: exI [of _ k] exI [of _ a])
      qed
    qed
  qed
qed auto

text \<open>What a status patch may do to the ranges: nothing, or give one network the range \<open>cidr\<close>.\<close>

lemma net_updateStatus_step:
  assumes "net_api_ok api nets subs pool" "net_updateStatus api network f w = (r, w')"
    and "ln_Name (f network) = ln_Name network" "ln_Namespace (f network) = ln_Namespace network"
  shows "subs w' = subs w \<and>
    (held nets w' = held nets w \<or>
     ln_ActiveCIDR (f network) \<noteq> ln_ActiveCIDR network \<and>
     held nets w' = (held nets w)((ln_Namespace network, ln_Name network) := ln_ActiveCIDR (f network)))"
proof -
  obtain r1 w1 where p: "na_PatchStatus api w network (f network) = (r1, w1)" by (cases "na_PatchStatus api w network (f network)")
  then have w1: "w' = w1" using assms(2) by (auto simp: net_updateStatus_def split: sum.splits kube_error.splits)
  have fact: "subs w1 = subs w \<and>
        (case r1 of
           Inl e \<Rightarrow> nets w1 = nets w
         | Inr obj \<Rightarrow> nets w1 = (nets w)((ln_Namespace network, ln_Name network) \<mapsto> obj) \<and>
             ln_ActiveCIDR obj =
               (if ln_ActiveCIDR (f network) \<noteq> ln_ActiveCIDR network then ln_ActiveCIDR (f network)
                else held nets w (ln_Namespace network, ln_Name network)))"
    using net_api_facts(3) [OF assms(1), where w = w and old = network and new = "f network"] unfolding p assms(3,4) prod.case held_def .
  show ?thesis
  proof (cases r1)
    case (Inl e)
    then show ?thesis using fact w1 by (simp add: held_def fun_eq_iff)
  next
    case (Inr obj)
    then show ?thesis using fact w1 by (auto simp: held_def fun_eq_iff)
  qed
qed

lemma ranges_ok_assign:
  assumes "ranges_ok c taken text name cap" "\<not> taken (name k)" "k < cap" "\<And>j. j < cap \<Longrightarrow> text j = text k \<Longrightarrow> j = k" "text k \<noteq> []"
    and "\<And>x. taken' x \<longleftrightarrow> taken x \<or> x = name k"
  shows "ranges_ok (c(key := text k)) taken' text name cap"
  unfolding ranges_ok_def
proof (intro allI impI)
  fix key'
  have no: "c x \<noteq> text k" for x
  proof
    assume x: "c x = text k"
    then obtain j where "j < cap" "c x = text j" "taken (name j)" using assms(1,5) unfolding ranges_ok_def by metis
    then show False using assms(2,4) x by metis
  qed
  assume ne: "(c(key := text k)) key' \<noteq> []"
  show "\<exists>j < cap. (c(key := text k)) key' = text j \<and> taken' (name j) \<and> (\<forall>x. (c(key := text k)) x = text j \<longrightarrow> x = key')"
  proof (cases "key' = key")
    case True
    then show ?thesis using assms(3,6) no by auto
  next
    case False
    then obtain j where j: "j < cap" "c key' = text j" "taken (name j)" "\<And>x. c x = text j \<Longrightarrow> x = key'"
      using ne assms(1) unfolding ranges_ok_def by auto
    have "text k \<noteq> text j" using no [of key'] j(2) by simp
    then have "\<forall>x. (c(key := text k)) x = text j \<longrightarrow> x = key'" using j(4) by simp
    moreover have "taken' (name j)" "(c(key := text k)) key' = text j" using j(2,3) assms(6) False by simp_all
    ultimately show ?thesis using j(1) by blast
  qed
qed

lemma ranges_ok_taken: "ranges_ok c taken text name cap \<Longrightarrow> (\<And>x. taken x \<Longrightarrow> taken' x) \<Longrightarrow> ranges_ok c taken' text name cap"
  unfolding ranges_ok_def by meson


definition ranges_inv ::
  "('w \<Rightarrow> string \<times> string \<Rightarrow> LatticeNetwork option) \<Rightarrow> ('w \<Rightarrow> string \<Rightarrow> LatticeSubnetAllocation option) \<Rightarrow>
   ip6_text \<Rightarrow> IP \<Rightarrow> nat \<Rightarrow> nat \<Rightarrow> 'w \<Rightarrow> bool" where
  "ranges_inv nets subs t b n m w \<longleftrightarrow>
     ranges_ok (held nets w) (\<lambda>x. subs w x \<noteq> None) (range_text t b n m) (range_name b n m) (2 ^ (m - n))"

lemma ranges_inv_same:
  "ranges_inv nets subs t b n m w \<Longrightarrow> held nets w' = held nets w \<Longrightarrow> subs w' = subs w \<Longrightarrow> ranges_inv nets subs t b n m w'"
  by (simp add: ranges_inv_def)

lemma count_nodes_inv:
  assumes "net_api_ok api nets subs pool" "ranges_inv nets subs t b n m w" "count_nodes api network w = (r, w')"
  shows "ranges_inv nets subs t b n m w'"
proof (cases "findNodesByLabels api network w")
  case (Inl e)
  then show ?thesis using assms by (auto simp: count_nodes_def)
next
  case (Inr peers)
  let ?f = "\<lambda>x. x\<lparr> ln_AllocatedCount := int (length peers) \<rparr>"
  obtain r1 w1 where u: "net_updateStatus api network ?f w = (r1, w1)" by (cases "net_updateStatus api network ?f w")
  have "w' = w \<or> w' = w1"
    using assms(3) Inr u by (auto simp: count_nodes_def Let_def split: if_splits sum.splits)
  moreover have "subs w1 = subs w" "held nets w1 = held nets w"
    using net_updateStatus_step [OF assms(1) u] by simp_all
  ultimately show ?thesis using assms(2) ranges_inv_same by metis
qed

lemma assign_range_inv:
  assumes ok: "net_api_ok api nets subs pool" "pool_cut t pool b n m" "ranges_inv nets subs t b n m w"
    and "ln_ActiveCIDR network = []" "assign_range api t network w = Some (r, w')"
  shows "ranges_inv nets subs t b n m w'"
proof (cases "na_GetPool api w ''lattice-ip-pool''")
  case (Inl e)
  then show ?thesis using assms by (auto simp: assign_range_def)
next
  case (Inr p)
  then have p: "p = pool" using net_api_facts(2) [OF ok(1)] by blast
  obtain r1 w1 where a: "AllocateSubnet (na_ipam api) t (ln_Name network) pool w = Some (r1, w1)"
    using assms(5) Inr p by (auto simp: assign_range_def split: option.splits)
  have s: "held nets w1 = held nets w"
    and sub: "case r1 of Inl e \<Rightarrow> subs w1 = subs w
       | Inr cidr \<Rightarrow> \<exists>k < 2 ^ (m - n). cidr = range_text t b n m k \<and> subs w (range_name b n m k) = None \<and>
           (\<exists>a. subs w1 = (subs w)(range_name b n m k \<mapsto> a))"
    using subnet_attempts_ok [OF ok(1,2) a [unfolded AllocateSubnet_def]] by (simp_all add: held_def fun_eq_iff)
  show ?thesis
  proof (cases r1)
    case (Inl e)
    then show ?thesis using assms(5) Inr p a s sub ranges_inv_same [OF ok(3)] by (simp add: assign_range_def)
  next
    case (Inr cidr)
    then obtain k al where k: "k < 2 ^ (m - n)" "cidr = range_text t b n m k" "subs w (range_name b n m k) = None"
        "subs w1 = (subs w)(range_name b n m k \<mapsto> al)"
      using sub by auto
    let ?f = "\<lambda>x. x\<lparr> ln_ActiveCIDR := cidr, ln_Phase := NetPhaseReady \<rparr>"
    obtain r2 w2 where u: "net_updateStatus api network ?f w1 = (r2, w2)" by (cases "net_updateStatus api network ?f w1")
    have step: "subs w2 = subs w1" "held nets w2 = held nets w1 \<or> held nets w2 = (held nets w1)((ln_Namespace network, ln_Name network) := cidr)"
      using net_updateStatus_step [OF ok(1) u] by auto
    have inj: "j = k" if "j < 2 ^ (m - n)" "range_text t b n m j = range_text t b n m k" for j
      using range_text_inject [of n m j k t b] that k(1) ok(2) by (simp add: pool_cut_def)
    have "ranges_inv nets subs t b n m w2"
      using step(2)
    proof
      assume "held nets w2 = held nets w1"
      then show ?thesis
        using ok(3) ranges_ok_taken [of "held nets w"] by (simp add: ranges_inv_def s step(1) k(4))
    next
      assume h: "held nets w2 = (held nets w1)((ln_Namespace network, ln_Name network) := cidr)"
      show ?thesis
        unfolding ranges_inv_def h s step(1) k(2,4)
        by (rule ranges_ok_assign [OF ok(3) [unfolded ranges_inv_def]]) (use k inj in auto)
    qed
    moreover have "r2 = Ok False \<and> count_nodes api network w2 = (r, w') \<or> w' = w2"
      using assms(5) \<open>na_GetPool api w ''lattice-ip-pool'' = Inr p\<close> p a Inr u
      by (auto simp: assign_range_def split: sum.splits bool.splits)
    ultimately show ?thesis using count_nodes_inv [OF ok(1)] by blast
  qed
qed

lemma net_Reconcile_inv:
  assumes "net_api_ok api nets subs pool" "pool_cut t pool b n m" "ranges_inv nets subs t b n m w"
    and "net_Reconcile api t ns name w = Some (r, w')"
  shows "ranges_inv nets subs t b n m w'"
proof (cases "na_GetNetwork api w ns name")
  case (Inl e)
  then show ?thesis using assms by (auto simp: net_Reconcile_def split: kube_error.splits)
next
  case (Inr network)
  obtain r1 w1 where mc: "mark_creating api network w = (r1, w1)" by (cases "mark_creating api network w")
  let ?f = "\<lambda>x. x\<lparr> ln_Phase := NetPhaseCreating \<rparr>"
  obtain r2 w2 where u: "net_updateStatus api network ?f w = (r2, w2)" by (cases "net_updateStatus api network ?f w")
  have "w1 = w \<or> w1 = w2" using mc u by (auto simp: mark_creating_def split: if_splits sum.splits)
  moreover have "subs w2 = subs w" "held nets w2 = held nets w"
    using net_updateStatus_step [OF assms(1) u] by simp_all
  ultimately have w1: "ranges_inv nets subs t b n m w1" using assms(3) ranges_inv_same by metis
  show ?thesis
    using assms(4) Inr mc w1 assign_range_inv [OF assms(1,2) w1] count_nodes_inv [OF assms(1) w1]
    by (auto simp: net_Reconcile_def split: option.splits if_splits)
qed

fun net_Reconciles :: "'w net_api \<Rightarrow> ip6_text \<Rightarrow> (string \<times> string) list \<Rightarrow> 'w \<Rightarrow> 'w option" where
  "net_Reconciles api t [] w = Some w"
| "net_Reconciles api t ((ns, name) # reqs) w =
     (case net_Reconcile api t ns name w of None \<Rightarrow> None | Some (r, w') \<Rightarrow> net_Reconciles api t reqs w')"

lemma net_Reconciles_inv:
  assumes "net_api_ok api nets subs pool" "pool_cut t pool b n m"
  shows "ranges_inv nets subs t b n m w \<Longrightarrow> net_Reconciles api t reqs w = Some w' \<Longrightarrow> ranges_inv nets subs t b n m w'"
proof (induction reqs arbitrary: w)
  case (Cons req reqs)
  obtain ns name where req: "req = (ns, name)" by (cases req)
  obtain r w1 where s: "net_Reconcile api t ns name w = Some (r, w1)" "net_Reconciles api t reqs w1 = Some w'"
    using Cons.prems(2) req by (auto split: option.splits)
  show ?case by (rule Cons.IH [OF net_Reconcile_inv [OF assms Cons.prems(1) s(1)] s(2)])
qed simp

lemma ranges_apart:
  assumes "pool_cut t pool b n m" "ranges_inv nets subs t b n m w" "held nets w key \<noteq> []" "held nets w key' \<noteq> []" "key \<noteq> key'"
  shows "\<exists>j < 2 ^ (m - n). \<exists>k < 2 ^ (m - n). held nets w key = range_text t b n m j \<and> held nets w key' = range_text t b n m k \<and>
    (\<forall>x. length x = 4 \<longrightarrow> \<not> (Contains (v4_net (subnet_at b n m j) m) x \<and> Contains (v4_net (subnet_at b n m k) m) x))"
proof -
  obtain j where j: "j < 2 ^ (m - n)" "held nets w key = range_text t b n m j" "\<And>x. held nets w x = range_text t b n m j \<Longrightarrow> x = key"
    using assms(2,3) unfolding ranges_inv_def ranges_ok_def by meson
  obtain k where k: "k < 2 ^ (m - n)" "held nets w key' = range_text t b n m k"
    using assms(2,4) unfolding ranges_inv_def ranges_ok_def by meson
  have nm: "n \<le> m" "m \<le> 32" using assms(1) by (simp_all add: pool_cut_def)
  have "j \<noteq> k" using j(3) [of key'] k(2) assms(5) by auto
  then have "\<not> Contains (v4_net (subnet_at b n m j) m) (subnet_at b n m k)"
    using subnets_disjoint [OF nm j(1) k(1)] by blast
  then have "\<not> (Contains (v4_net (subnet_at b n m j) m) x \<and> Contains (v4_net (subnet_at b n m k) m) x)" if "length x = 4" for x
    using that nm by (simp add: Contains_v4_net)
  then show ?thesis using j k by blast
qed

text \<open>C25: the ranges of networks never overlap. Start from objects in which every network with a range has one
  of the pool's subnets to itself, and run any reconciles, with stale reads, conflicts and failing
  calls in between: it stays so, and for any two networks that then have a range, no address is in
  both ranges.\<close>

theorem network_ranges_disjoint:
  assumes "net_api_ok api nets subs pool" "pool_cut t pool b n m"
    and "ranges_inv nets subs t b n m w" "net_Reconciles api t reqs w = Some w'"
  shows "ranges_inv nets subs t b n m w' \<and>
    (\<forall>key key'. held nets w' key \<noteq> [] \<and> held nets w' key' \<noteq> [] \<and> key \<noteq> key' \<longrightarrow>
      (\<exists>j < 2 ^ (m - n). \<exists>k < 2 ^ (m - n). held nets w' key = range_text t b n m j \<and> held nets w' key' = range_text t b n m k \<and>
        (\<forall>x. length x = 4 \<longrightarrow> \<not> (Contains (v4_net (subnet_at b n m j) m) x \<and> Contains (v4_net (subnet_at b n m k) m) x))))"
proof (intro conjI allI impI)
  show inv: "ranges_inv nets subs t b n m w'" by (rule net_Reconciles_inv [OF assms])
  fix key key'
  assume "held nets w' key \<noteq> [] \<and> held nets w' key' \<noteq> [] \<and> key \<noteq> key'"
  then show "\<exists>j < 2 ^ (m - n). \<exists>k < 2 ^ (m - n). held nets w' key = range_text t b n m j \<and> held nets w' key' = range_text t b n m k \<and>
      (\<forall>x. length x = 4 \<longrightarrow> \<not> (Contains (v4_net (subnet_at b n m j) m) x \<and> Contains (v4_net (subnet_at b n m k) m) x))"
    by (elim conjE) (rule ranges_apart [OF assms(2) inv])
qed

text \<open>A cluster that is a pair of maps, whose list of allocations lags behind so far that it is empty.\<close>

type_synonym net_world = "(string \<times> string \<Rightarrow> LatticeNetwork option) \<times> (string \<Rightarrow> LatticeSubnetAllocation option)"

definition demo_pool :: LatticeGlobalIPPool where
  "demo_pool = \<lparr> pool_CIDR = ''10.0.0.0/16'', pool_SubnetMask = 24 \<rparr>"

definition demo_net_api :: "net_world net_api" where
  "demo_net_api = \<lparr>
     na_GetNetwork = (\<lambda>w ns nm. Ok (demo_net\<lparr> ln_Namespace := ns, ln_Name := nm, ln_Phase := NetPhaseNone, ln_ActiveCIDR := [] \<rparr>)),
     na_GetPool = (\<lambda>w nm. Ok demo_pool),
     na_PatchStatus = (\<lambda>w old new.
       let obj = new\<lparr> ln_ActiveCIDR := (if ln_ActiveCIDR new \<noteq> ln_ActiveCIDR old then ln_ActiveCIDR new else held fst w (ln_Namespace new, ln_Name new)) \<rparr>
       in (Ok obj, ((fst w)((ln_Namespace new, ln_Name new) \<mapsto> obj), snd w))),
     na_ListPeers = (\<lambda>w ns l. Ok []),
     na_ipam = \<lparr> api_ListSubnets = (\<lambda>w. Ok []),
       api_CreateSubnet = (\<lambda>w a. if snd w (sa_Name a) = None then (None, (fst w, (snd w)(sa_Name a \<mapsto> a))) else (Some KAlreadyExists, w)),
       api_ListEndpoints = (\<lambda>w ns. Ok []), api_CreateEndpoint = (\<lambda>w e. (None, w)), api_DeleteEndpoint = (\<lambda>w ns nm. (None, w)),
       api_SetOwner = None \<rparr> \<rparr>"

lemma demo_net_api_ok: "net_api_ok demo_net_api fst snd demo_pool"
  by (auto simp: net_api_ok_def demo_net_api_def demo_net_def held_def Let_def split: option.splits)

lemma demo_pool_cut: "pool_cut no_v6 demo_pool [10, 0, 0, 0] 16 24"
  by (simp add: pool_cut_def demo_pool_def demo_cidr)

lemma demo_first_free: "FindFirstFree (na_ipam demo_net_api) no_v6 demo_pool w = Some (Ok (subnet_at [10, 0, 0, 0] 16 24 0))"
proof -
  have "find (\<lambda>_. True) [0..<2 ^ (24 - 16)] = Some (0 :: nat)"
    by (subst upt_conv_Cons) simp_all
  then show ?thesis
    using FindFirstFree_eq [of no_v6 demo_pool "[10, 0, 0, 0]" 16 24 "na_ipam demo_net_api" w "[]"]
    by (simp add: demo_pool_def demo_cidr demo_net_api_def)
qed

lemma demo_AllocateSubnet:
  assumes "snd w (range_name [10, 0, 0, 0] 16 24 0) = None"
  shows "\<exists>al. AllocateSubnet (na_ipam demo_net_api) no_v6 nm demo_pool w =
    Some (Ok (range_text no_v6 [10, 0, 0, 0] 16 24 0), (fst w, (snd w)(range_name [10, 0, 0, 0] 16 24 0 \<mapsto> al)))"
proof -
  have r: "maxRetries = Suc 9" by (simp add: maxRetries_def)
  show ?thesis
    using assms unfolding AllocateSubnet_def r subnet_attempts.simps demo_first_free option.case sum.case
    by (auto simp: demo_net_api_def range_name_def range_text_def demo_pool_def Let_def)
qed

theorem network_ranges_disjoint_witness:
  "\<exists>w'. net_Reconciles demo_net_api no_v6 [(''prod'', ''a'')] (\<lambda>_. None, \<lambda>_. None) = Some w' \<and>
     held fst w' (''prod'', ''a'') \<noteq> [] \<and> ranges_inv fst snd no_v6 [10, 0, 0, 0] 16 24 w'"
proof -
  let ?w0 = "(\<lambda>_. None, \<lambda>_. None) :: net_world"
  have w0: "ranges_inv fst snd no_v6 [10, 0, 0, 0] 16 24 ?w0" by (simp add: ranges_inv_def ranges_ok_def held_def)
  define nw where "nw = demo_net\<lparr> ln_Namespace := ''prod'', ln_Name := ''a'', ln_Phase := NetPhaseNone, ln_ActiveCIDR := [] \<rparr>"
  have get: "na_GetNetwork demo_net_api ?w0 ''prod'' ''a'' = Ok nw" by (simp add: demo_net_api_def nw_def)
  obtain w1 where w1: "mark_creating demo_net_api nw ?w0 = (None, w1)" "snd w1 = (\<lambda>_. None)"
    by (simp add: mark_creating_def net_updateStatus_def demo_net_api_def nw_def Let_def)
  obtain w2 where al: "AllocateSubnet (na_ipam demo_net_api) no_v6 ''a'' demo_pool w1 = Some (Ok (range_text no_v6 [10, 0, 0, 0] 16 24 0), w2)"
    using demo_AllocateSubnet [of w1 "''a''"] w1(2) by auto
  have "\<exists>r w'. net_Reconcile demo_net_api no_v6 ''prod'' ''a'' ?w0 = Some (r, w') \<and> held fst w' (''prod'', ''a'') \<noteq> []"
  proof -
    have "na_GetPool demo_net_api w1 ''lattice-ip-pool'' = Ok demo_pool" "ln_ActiveCIDR nw = []" "ln_Name nw = ''a''"
      by (simp_all add: demo_net_api_def nw_def)
    moreover have "\<exists>w'. net_updateStatus demo_net_api nw (\<lambda>x. x\<lparr> ln_ActiveCIDR := range_text no_v6 [10, 0, 0, 0] 16 24 0, ln_Phase := NetPhaseReady \<rparr>) w2 = (Ok True, w') \<and>
        held fst w' (''prod'', ''a'') \<noteq> []"
      by (simp add: net_updateStatus_def demo_net_api_def nw_def Let_def net_status_eq_def held_def)
    ultimately show ?thesis using w1(1) al get by (auto simp: net_Reconcile_def assign_range_def)
  qed
  then obtain r w' where r: "net_Reconcile demo_net_api no_v6 ''prod'' ''a'' ?w0 = Some (r, w')" "held fst w' (''prod'', ''a'') \<noteq> []"
    by blast
  then have "net_Reconciles demo_net_api no_v6 [(''prod'', ''a'')] ?w0 = Some w'" by simp
  then show ?thesis
    using network_ranges_disjoint [OF demo_net_api_ok demo_pool_cut w0] r(2) by blast
qed


text \<open>A subnet that cannot be recorded is lost. If the range was taken from the pool but the status write
  fails, the subnet stays allocated and the network without a range, so that the next reconcile
  takes another one.\<close>

theorem unrecorded_subnet_is_lost:
  assumes "net_api_ok api nets subs pool" "na_GetPool api w ''lattice-ip-pool'' = Ok p"
    and "AllocateSubnet (na_ipam api) t (ln_Name network) p w = Some (Ok cidr, w1)"
    and "na_PatchStatus api w1 network (network\<lparr> ln_ActiveCIDR := cidr, ln_Phase := NetPhaseReady \<rparr>) = (Err e, w2)" "e \<noteq> KConflict"
  shows "assign_range api t network w = Some (Err (RApi e), w2) \<and> subs w2 = subs w1 \<and> nets w2 = nets w1"
proof -
  have "net_updateStatus api network (\<lambda>x. x\<lparr> ln_ActiveCIDR := cidr, ln_Phase := NetPhaseReady \<rparr>) w1 = (Err e, w2)"
    using assms(4,5) by (simp add: net_updateStatus_def split: kube_error.splits)
  then show ?thesis
    using net_api_facts(3) [OF assms(1), where w = w1 and old = network and new = "network\<lparr> ln_ActiveCIDR := cidr, ln_Phase := NetPhaseReady \<rparr>"]
      assms by (simp add: assign_range_def)
qed

text \<open>The peers of a network with a long name are not counted: the controller looks for a label whose
  key is the prefix and the whole name, the peers carry the shortened key.\<close>

theorem long_network_not_counted:
  assumes "sha_ok sha" "55 < length (ln_Name network)"
    and "na_ListPeers api w (ln_Namespace network) (''alattice.io/network-'' @ ln_Name network) =
      Ok (filter (has_label (''alattice.io/network-'' @ ln_Name network)) cluster)"
    and "\<And>q. q \<in> set cluster \<Longrightarrow> \<exists>n env. ge_sha (pe_gen env) = sha \<and> lp_Labels q = relabel env n (lp_Labels q)"
  shows "findNodesByLabels api network w = Ok []"
proof -
  let ?k = "''alattice.io/network-'' @ ln_Name network"
  have "\<not> has_label ?k q" if q: "q \<in> set cluster" for q
  proof
    assume l: "has_label ?k q"
    obtain n env where n: "ge_sha (pe_gen env) = sha" "lp_Labels q = relabel env n (lp_Labels q)" using assms(4) [OF q] by blast
    have "(?k, ''true'') \<in> set (lp_Labels q)" using l by (simp add: has_label_def map_of_SomeD)
    then have "(?k, ''true'') \<in> set (drop_network_labels (lp_Labels q) @ [(networkLabelKey sha n, ''true'')])"
      using n(2) unfolding relabel_eq n(1) by metis
    moreover have "(?k, ''true'') \<notin> set (drop_network_labels (lp_Labels q))"
      by (simp add: drop_network_labels_def HasPrefix_iff network_label_prefix_def)
    ultimately have "?k = networkLabelKey sha n" by simp
    then have "20 + length (ln_Name network) = length (networkLabelKey sha n)" by (auto dest: arg_cong [where f = length])
    moreover have "length (networkLabelKey sha n) \<le> 75"
      using length_safeKeyName(1) [OF assms(1), of "''network-''" n] by (simp add: networkLabelKey_def)
    ultimately show False using assms(2) by linarith
  qed
  then have "filter (has_label ?k) cluster = []" by (simp add: filter_empty_conv)
  then show ?thesis using assms(3) by (simp add: findNodesByLabels_def)
qed

end
