(* ===== verification/Kube_Client.thy ===== *)
theory Kube_Client
  imports Kube_Objects Ipam
begin

text \<open>
  The Kubernetes client for one kind of object, as the controllers and the management services use it.
  The client belongs to the libraries: \<open>crud\<close> is a record of its calls over an abstract cluster state.
  Every call that writes returns the object as the server has it afterwards.

  What the API server is documented to do is stated with a \<open>kind\<close>, which says how an object of the
  kind is named and labelled and what part of it is its status, and a view \<open>st\<close> of the objects that
  are stored. \<open>crud_ok\<close> says what a call that succeeds does: a creation needs a free name and does not
  set the status, an update of the object leaves the status and an update of the status leaves the
  rest, a patch made from the stored object leads to the new one, an object with finalizers is only
  marked by a deletion and goes away with its last finalizer. A call that fails changes nothing.
  \<open>crud_fresh\<close> says that reads are not stale, and \<open>crud_serves\<close> that calls do not fail without a reason.
\<close>

section \<open>Calls\<close>

record ('w, 'o) crud =
  k_Get :: "'w \<Rightarrow> string \<Rightarrow> string \<Rightarrow> kube_error + 'o"
  k_List :: "'w \<Rightarrow> string option \<Rightarrow> labels \<Rightarrow> kube_error + 'o list"
  k_Create :: "'w \<Rightarrow> 'o \<Rightarrow> (kube_error + 'o) \<times> 'w"
  k_Update :: "'w \<Rightarrow> 'o \<Rightarrow> (kube_error + 'o) \<times> 'w"
  k_UpdateStatus :: "'w \<Rightarrow> 'o \<Rightarrow> (kube_error + 'o) \<times> 'w"
  k_Patch :: "'w \<Rightarrow> 'o \<Rightarrow> 'o \<Rightarrow> (kube_error + 'o) \<times> 'w"
  k_PatchStatus :: "'w \<Rightarrow> 'o \<Rightarrow> 'o \<Rightarrow> (kube_error + 'o) \<times> 'w"
  k_Delete :: "'w \<Rightarrow> string \<Rightarrow> string \<Rightarrow> kube_error option \<times> 'w"

text \<open>What a reconcile asks of the work queue, and the shapes in which the code chains calls that return an
  error: it stops at the first one.\<close>

datatype rec_result = Done | Requeue | RequeueAfter int

definition seconds :: "int \<Rightarrow> int" where "seconds n = n * 1000000000"

definition err_of :: "(kube_error + 'o) \<times> 'w \<Rightarrow> kube_error option \<times> 'w" where
  "err_of r = (case r of (Inl e, w) \<Rightarrow> (Some e, w) | (Inr _, w) \<Rightarrow> (None, w))"

definition then_do :: "kube_error option \<times> 'w \<Rightarrow> ('w \<Rightarrow> kube_error option \<times> 'w) \<Rightarrow> kube_error option \<times> 'w" where
  "then_do r g = (case r of (Some e, w) \<Rightarrow> (Some e, w) | (None, w) \<Rightarrow> g w)"

definition delete_if_exists :: "('w, 'o) crud \<Rightarrow> string \<Rightarrow> string \<Rightarrow> 'w \<Rightarrow> kube_error option \<times> 'w" where
  "delete_if_exists c ns n w = (case k_Delete c w ns n of (Some KNotFound, w') \<Rightarrow> (None, w') | r \<Rightarrow> r)"

section \<open>What the server does\<close>

type_synonym objkey = "string \<times> string"

record 'o kind =
  kd_key :: "'o \<Rightarrow> objkey"
  kd_labels :: "'o \<Rightarrow> labels"
  kd_gone :: "'o \<Rightarrow> bool"
  kd_delete :: "'o \<Rightarrow> 'o option"
  kd_status :: "'o \<Rightarrow> 'o \<Rightarrow> 'o"
  kd_created :: "'o \<Rightarrow> 'o \<Rightarrow> bool"

text \<open>\<open>kd_status x y\<close> has the status of \<open>x\<close> and everything else of \<open>y\<close>; \<open>kd_delete\<close> is what a deletion leaves, the
  object with a deletion timestamp if it has finalizers; \<open>kd_gone\<close> holds for such an object without finalizers; \<open>kd_created x y\<close> if \<open>y\<close> can be what a creation of \<open>x\<close>
  stores.\<close>

definition stored :: "'o kind \<Rightarrow> (objkey \<Rightarrow> 'o option) \<Rightarrow> 'o \<Rightarrow> objkey \<Rightarrow> 'o option" where
  "stored kd m x = m(kd_key kd x := (if kd_gone kd x then None else Some x))"

definition kind_ok :: "'o kind \<Rightarrow> bool" where
  "kind_ok kd \<longleftrightarrow>
     (\<forall>x y. kd_key kd (kd_status kd x y) = kd_key kd y) \<and> (\<forall>x y. kd_delete kd x = Some y \<longrightarrow> kd_key kd y = kd_key kd x \<and> \<not> kd_gone kd y) \<and>
     (\<forall>x y. kd_created kd x y \<longrightarrow> kd_key kd y = kd_key kd x \<and> \<not> kd_gone kd y)"

definition writes ::
  "'o kind \<Rightarrow> ('w \<Rightarrow> objkey \<Rightarrow> 'o option) \<Rightarrow> ('w \<Rightarrow> 'r) \<Rightarrow> 'w \<Rightarrow> objkey \<Rightarrow> ('o \<Rightarrow> 'o \<Rightarrow> bool) \<Rightarrow> (kube_error + 'o) \<times> 'w \<Rightarrow> bool" where
  "writes kd st others w k becomes res \<longleftrightarrow>
     (case res of
        (Inl e, w') \<Rightarrow> st w' = st w \<and> others w' = others w
      | (Inr y, w') \<Rightarrow>
          others w' = others w \<and> kd_key kd y = k \<and> st w' = stored kd (st w) y \<and>
          (case st w k of None \<Rightarrow> False | Some s \<Rightarrow> becomes s y))"

definition create_ok :: "'o kind \<Rightarrow> ('w \<Rightarrow> objkey \<Rightarrow> 'o option) \<Rightarrow> ('w \<Rightarrow> 'r) \<Rightarrow> ('w, 'o) crud \<Rightarrow> bool" where
  "create_ok kd st others c \<longleftrightarrow>
     (\<forall>w x. case k_Create c w x of
        (Inl e, w') \<Rightarrow> st w' = st w \<and> others w' = others w
      | (Inr y, w') \<Rightarrow>
          others w' = others w \<and> st w (kd_key kd x) = None \<and> kd_created kd x y \<and> st w' = (st w)(kd_key kd x \<mapsto> y))"

definition delete_ok :: "'o kind \<Rightarrow> ('w \<Rightarrow> objkey \<Rightarrow> 'o option) \<Rightarrow> ('w \<Rightarrow> 'r) \<Rightarrow> ('w, 'o) crud \<Rightarrow> bool" where
  "delete_ok kd st others c \<longleftrightarrow>
     (\<forall>w ns n. case k_Delete c w ns n of
        (Some e, w') \<Rightarrow> st w' = st w \<and> others w' = others w \<and> (e = KNotFound \<longrightarrow> st w (ns, n) = None)
      | (None, w') \<Rightarrow>
          others w' = others w \<and>
          (case st w (ns, n) of None \<Rightarrow> False | Some s \<Rightarrow> st w' = (st w)((ns, n) := kd_delete kd s)))"

definition crud_ok :: "'o kind \<Rightarrow> ('w \<Rightarrow> objkey \<Rightarrow> 'o option) \<Rightarrow> ('w \<Rightarrow> 'r) \<Rightarrow> ('w, 'o) crud \<Rightarrow> bool" where
  "crud_ok kd st others c \<longleftrightarrow>
     kind_ok kd \<and> (\<forall>w k x. st w k = Some x \<longrightarrow> kd_key kd x = k \<and> \<not> kd_gone kd x) \<and> create_ok kd st others c \<and> delete_ok kd st others c \<and>
     (\<forall>w x. writes kd st others w (kd_key kd x) (\<lambda>s y. y = kd_status kd s x) (k_Update c w x)) \<and>
     (\<forall>w x. writes kd st others w (kd_key kd x) (\<lambda>s y. y = kd_status kd x s) (k_UpdateStatus c w x)) \<and>
     (\<forall>w x x'. writes kd st others w (kd_key kd x') (\<lambda>s y. s = x \<longrightarrow> y = kd_status kd s x') (k_Patch c w x x')) \<and>
     (\<forall>w x x'. writes kd st others w (kd_key kd x') (\<lambda>s y. s = x \<longrightarrow> y = kd_status kd x' s) (k_PatchStatus c w x x'))"

definition label_match :: "labels \<Rightarrow> labels \<Rightarrow> bool" where
  "label_match want ls \<longleftrightarrow> list_all (\<lambda>(k, v). map_of ls k = Some v) want"

definition crud_fresh :: "'o kind \<Rightarrow> ('w \<Rightarrow> objkey \<Rightarrow> 'o option) \<Rightarrow> ('w, 'o) crud \<Rightarrow> bool" where
  "crud_fresh kd st c \<longleftrightarrow>
     (\<forall>w ns n. case k_Get c w ns n of
        Inl e \<Rightarrow> e = KNotFound \<longrightarrow> st w (ns, n) = None
      | Inr x \<Rightarrow> st w (ns, n) = Some x) \<and>
     (\<forall>w nso want. case k_List c w nso want of
        Inl e \<Rightarrow> True
      | Inr xs \<Rightarrow> distinct xs \<and>
          set xs = {x. st w (kd_key kd x) = Some x \<and> (case nso of None \<Rightarrow> True | Some ns \<Rightarrow> fst (kd_key kd x) = ns) \<and>
                       label_match want (kd_labels kd x)})"

definition crud_serves :: "'o kind \<Rightarrow> ('w \<Rightarrow> objkey \<Rightarrow> 'o option) \<Rightarrow> ('w, 'o) crud \<Rightarrow> bool" where
  "crud_serves kd st c \<longleftrightarrow>
     (\<forall>w ns n. k_Get c w ns n = (case st w (ns, n) of None \<Rightarrow> Err KNotFound | Some x \<Rightarrow> Ok x)) \<and>
     (\<forall>w nso want. \<not> isl (k_List c w nso want)) \<and>
     (\<forall>w x. st w (kd_key kd x) = None \<longrightarrow> \<not> isl (fst (k_Create c w x))) \<and>
     (\<forall>w x s. st w (kd_key kd x) = Some s \<longrightarrow>
        \<not> isl (fst (k_Update c w x)) \<and> \<not> isl (fst (k_UpdateStatus c w x)) \<and>
        (\<forall>x0. \<not> isl (fst (k_Patch c w x0 x)) \<and> \<not> isl (fst (k_PatchStatus c w x0 x)))) \<and>
     (\<forall>w ns n. st w (ns, n) \<noteq> None \<longrightarrow> fst (k_Delete c w ns n) = None)"

text \<open>The consequences, call by call.\<close>

lemma stored_simps [simp]:
  "\<not> kd_gone kd x \<Longrightarrow> stored kd m x = m(kd_key kd x \<mapsto> x)"
  "kd_gone kd x \<Longrightarrow> stored kd m x = m(kd_key kd x := None)"
  by (simp_all add: stored_def)

lemma writes_Err: "writes kd st others w k P (Inl e, w') \<Longrightarrow> st w' = st w \<and> others w' = others w"
  by (simp add: writes_def)

lemma writes_Ok:
  "writes kd st others w k P (Inr y, w') \<Longrightarrow>
     others w' = others w \<and> kd_key kd y = k \<and> st w' = stored kd (st w) y \<and> (\<exists>s. st w k = Some s \<and> P s y)"
  by (simp add: writes_def split: option.splits)

lemma crud_okD:
  assumes "crud_ok kd st others c"
  shows "kind_ok kd" "st w k = Some x \<Longrightarrow> kd_key kd x = k \<and> \<not> kd_gone kd x" "create_ok kd st others c" "delete_ok kd st others c"
    "writes kd st others w (kd_key kd x) (\<lambda>s y. y = kd_status kd s x) (k_Update c w x)"
    "writes kd st others w (kd_key kd x) (\<lambda>s y. y = kd_status kd x s) (k_UpdateStatus c w x)"
    "writes kd st others w (kd_key kd x) (\<lambda>s y. s = x0 \<longrightarrow> y = kd_status kd s x) (k_Patch c w x0 x)"
    "writes kd st others w (kd_key kd x) (\<lambda>s y. s = x0 \<longrightarrow> y = kd_status kd x s) (k_PatchStatus c w x0 x)"
  using assms unfolding crud_ok_def by blast+

lemma create_Ok:
  assumes "crud_ok kd st others c" "k_Create c w x = (Inr y, w')"
  shows "others w' = others w" "st w (kd_key kd x) = None" "kd_created kd x y" "st w' = (st w)(kd_key kd x \<mapsto> y)"
  using spec [OF spec [OF crud_okD(3) [OF assms(1), unfolded create_ok_def], of w], of x] by (simp_all add: assms(2))

lemma create_Err:
  assumes "crud_ok kd st others c" "k_Create c w x = (Inl e, w')"
  shows "others w' = others w" "st w' = st w"
  using spec [OF spec [OF crud_okD(3) [OF assms(1), unfolded create_ok_def], of w], of x] by (simp_all add: assms(2))

lemma delete_None:
  assumes "crud_ok kd st others c" "k_Delete c w ns n = (None, w')"
  shows "others w' = others w" "\<exists>s. st w (ns, n) = Some s \<and> st w' = (st w)((ns, n) := kd_delete kd s)"
  using spec [OF spec [OF spec [OF crud_okD(4) [OF assms(1), unfolded delete_ok_def], of w], of ns], of n]
  by (simp_all add: assms(2) split: option.splits)

lemma delete_Some:
  assumes "crud_ok kd st others c" "k_Delete c w ns n = (Some e, w')"
  shows "others w' = others w" "st w' = st w" "e = KNotFound \<Longrightarrow> st w (ns, n) = None"
  using spec [OF spec [OF spec [OF crud_okD(4) [OF assms(1), unfolded delete_ok_def], of w], of ns], of n]
  by (simp_all add: assms(2))

lemma keeps_others:
  assumes "crud_ok kd st others c"
  shows "others (snd (k_Create c w x)) = others w" "others (snd (k_Update c w x)) = others w"
    "others (snd (k_UpdateStatus c w x)) = others w" "others (snd (k_Patch c w x0 x)) = others w"
    "others (snd (k_PatchStatus c w x0 x)) = others w" "others (snd (k_Delete c w ns n)) = others w"
proof -
  have W: "others (snd r) = others w" if "writes kd st others w k P r" for k P r
    using that by (auto simp: writes_def split: prod.splits sum.splits)
  show "others (snd (k_Create c w x)) = others w"
    using create_Ok(1) [OF assms] create_Err(1) [OF assms] by (cases "k_Create c w x", cases "fst (k_Create c w x)") auto
  show "others (snd (k_Delete c w ns n)) = others w"
    using delete_None(1) [OF assms] delete_Some(1) [OF assms] by (cases "k_Delete c w ns n", cases "fst (k_Delete c w ns n)") auto
  show "others (snd (k_Update c w x)) = others w" "others (snd (k_UpdateStatus c w x)) = others w"
    "others (snd (k_Patch c w x0 x)) = others w" "others (snd (k_PatchStatus c w x0 x)) = others w"
    by (rule W [OF crud_okD(5) [OF assms]] W [OF crud_okD(6) [OF assms]] W [OF crud_okD(7) [OF assms]] W [OF crud_okD(8) [OF assms]])+
qed

lemma fresh_Get: "crud_fresh kd st c \<Longrightarrow> k_Get c w ns n = Inr x \<Longrightarrow> st w (ns, n) = Some x"
  unfolding crud_fresh_def by (drule conjunct1, drule spec [where x = w], drule spec [where x = ns], drule spec [where x = n]) simp

lemma fresh_NotFound: "crud_fresh kd st c \<Longrightarrow> k_Get c w ns n = Inl KNotFound \<Longrightarrow> st w (ns, n) = None"
  unfolding crud_fresh_def by (drule conjunct1, drule spec [where x = w], drule spec [where x = ns], drule spec [where x = n]) simp

lemma fresh_List:
  "crud_fresh kd st c \<Longrightarrow> k_List c w nso want = Inr xs \<Longrightarrow> distinct xs \<and>
     set xs = {x. st w (kd_key kd x) = Some x \<and> (case nso of None \<Rightarrow> True | Some ns \<Rightarrow> fst (kd_key kd x) = ns) \<and> label_match want (kd_labels kd x)}"
  unfolding crud_fresh_def by (drule conjunct2, drule spec [where x = w], drule spec [where x = nso], drule spec [where x = want]) simp

lemma then_do_None: "then_do r g = (None, w') \<longleftrightarrow> (\<exists>w. r = (None, w) \<and> g w = (None, w'))"
  by (auto simp: then_do_def split: prod.splits option.splits)

lemma err_of_None: "err_of r = (None, w') \<longleftrightarrow> (\<exists>y. r = (Inr y, w'))"
  by (auto simp: err_of_def split: prod.splits sum.splits)

text \<open>Writing over an object that is read from the store.\<close>

lemma patch_stored:
  assumes "crud_ok kd st others c" "st w (kd_key kd x) = Some x" "kd_key kd x' = kd_key kd x" "kd_gone kd (kd_status kd x x') = kd_gone kd x"
    and "k_Patch c w x x' = (Inr y, w')"
  shows "others w' = others w" "y = kd_status kd x x'" "st w' = (st w)(kd_key kd x \<mapsto> kd_status kd x x')"
proof -
  note W = writes_Ok [OF crud_okD(7) [OF assms(1), of w x' x, unfolded assms(5)], unfolded assms(3)]
  then show "others w' = others w" "y = kd_status kd x x'" using assms(2) by auto
  moreover have "\<not> kd_gone kd x" using crud_okD(2) [OF assms(1,2)] by blast
  moreover have "kd_key kd (kd_status kd x x') = kd_key kd x"
    using crud_okD(1) [OF assms(1)] assms(3) unfolding kind_ok_def by metis
  ultimately show "st w' = (st w)(kd_key kd x \<mapsto> kd_status kd x x')" using W assms(4) by simp
qed

lemma patch_status_stored:
  assumes "crud_ok kd st others c" "st w (kd_key kd x) = Some x" "kd_key kd x' = kd_key kd x" "kd_gone kd (kd_status kd x' x) = kd_gone kd x"
    and "k_PatchStatus c w x x' = (Inr y, w')"
  shows "others w' = others w" "y = kd_status kd x' x" "st w' = (st w)(kd_key kd x \<mapsto> kd_status kd x' x)"
proof -
  note W = writes_Ok [OF crud_okD(8) [OF assms(1), of w x' x, unfolded assms(5)], unfolded assms(3)]
  then show "others w' = others w" "y = kd_status kd x' x" using assms(2) by auto
  moreover have "\<not> kd_gone kd x" using crud_okD(2) [OF assms(1,2)] by blast
  moreover have "kd_key kd (kd_status kd x' x) = kd_key kd x"
    using crud_okD(1) [OF assms(1)] unfolding kind_ok_def by metis
  ultimately show "st w' = (st w)(kd_key kd x \<mapsto> kd_status kd x' x)" using W assms(4) by simp
qed

lemma update_status_stored:
  assumes "crud_ok kd st others c" "st w (kd_key kd x) = Some s" "kd_gone kd (kd_status kd x s) = kd_gone kd s"
    and "k_UpdateStatus c w x = (Inr y, w')"
  shows "others w' = others w" "y = kd_status kd x s" "st w' = (st w)(kd_key kd x \<mapsto> kd_status kd x s)"
proof -
  note W = writes_Ok [OF crud_okD(6) [OF assms(1), of w x, unfolded assms(4)]]
  then show "others w' = others w" "y = kd_status kd x s" using assms(2) by auto
  moreover have "\<not> kd_gone kd s" using crud_okD(2) [OF assms(1,2)] by blast
  ultimately show "st w' = (st w)(kd_key kd x \<mapsto> kd_status kd x s)" using W assms(3) by auto
qed

section \<open>A store\<close>

text \<open>An API server that keeps the objects of a kind in a list inside the state and serves every request.\<close>

definition lookup :: "'o kind \<Rightarrow> 'o list \<Rightarrow> objkey \<Rightarrow> 'o option" where
  "lookup kd xs k = find (\<lambda>x. kd_key kd x = k \<and> \<not> kd_gone kd x) xs"

definition put_object :: "'o kind \<Rightarrow> 'o \<Rightarrow> 'o list \<Rightarrow> 'o list" where
  "put_object kd x xs = x # filter (\<lambda>y. kd_key kd y \<noteq> kd_key kd x) xs"

definition put_over ::
  "'o kind \<Rightarrow> ('w \<Rightarrow> 'o list) \<Rightarrow> ('o list \<Rightarrow> 'w \<Rightarrow> 'w) \<Rightarrow> ('o \<Rightarrow> 'o) \<Rightarrow> 'w \<Rightarrow> objkey \<Rightarrow> (kube_error + 'o) \<times> 'w" where
  "put_over kd get put f w k =
     (case lookup kd (get w) k of
        None \<Rightarrow> (Err KNotFound, w)
      | Some s \<Rightarrow> (Ok (f s), put (put_object kd (f s) (get w)) w))"

definition store_crud ::
  "'o kind \<Rightarrow> ('o \<Rightarrow> 'o) \<Rightarrow> ('w \<Rightarrow> 'o list) \<Rightarrow> ('o list \<Rightarrow> 'w \<Rightarrow> 'w) \<Rightarrow> ('w, 'o) crud" where
  "store_crud kd created get put =
     \<lparr> k_Get = (\<lambda>w ns n. case lookup kd (get w) (ns, n) of None \<Rightarrow> Err KNotFound | Some x \<Rightarrow> Ok x),
       k_List = (\<lambda>w nso want. Ok (filter (\<lambda>x. lookup kd (get w) (kd_key kd x) = Some x \<and>
          (case nso of None \<Rightarrow> True | Some ns \<Rightarrow> fst (kd_key kd x) = ns) \<and> label_match want (kd_labels kd x)) (remdups (get w)))),
       k_Create = (\<lambda>w x. case lookup kd (get w) (kd_key kd x) of
          Some _ \<Rightarrow> (Err KAlreadyExists, w)
        | None \<Rightarrow> (Ok (created x), put (put_object kd (created x) (get w)) w)),
       k_Update = (\<lambda>w x. put_over kd get put (\<lambda>s. kd_status kd s x) w (kd_key kd x)),
       k_UpdateStatus = (\<lambda>w x. put_over kd get put (\<lambda>s. kd_status kd x s) w (kd_key kd x)),
       k_Patch = (\<lambda>w x0 x. put_over kd get put (\<lambda>s. kd_status kd s x) w (kd_key kd x)),
       k_PatchStatus = (\<lambda>w x0 x. put_over kd get put (\<lambda>s. kd_status kd x s) w (kd_key kd x)),
       k_Delete = (\<lambda>w ns n. case lookup kd (get w) (ns, n) of
          None \<Rightarrow> (Some KNotFound, w)
        | Some s \<Rightarrow> (None, put ((case kd_delete kd s of None \<Rightarrow> [] | Some s' \<Rightarrow> [s']) @ filter (\<lambda>y. kd_key kd y \<noteq> (ns, n)) (get w)) w)) \<rparr>"

lemma lookup_key: "lookup kd xs k = Some x \<Longrightarrow> kd_key kd x = k \<and> \<not> kd_gone kd x"
  by (auto simp: lookup_def find_Some_iff)

lemma lookup_in: "lookup kd xs k = Some x \<Longrightarrow> x \<in> set xs"
  by (auto simp: lookup_def find_Some_iff)

lemma lookup_put_object: "lookup kd (put_object kd x xs) = stored kd (lookup kd xs) x"
proof
  fix k
  have "find (\<lambda>y. kd_key kd y = k \<and> \<not> kd_gone kd y) (filter (\<lambda>y. kd_key kd y \<noteq> kd_key kd x) xs) =
      (if k = kd_key kd x then None else find (\<lambda>y. kd_key kd y = k \<and> \<not> kd_gone kd y) xs)"
    by (induction xs) auto
  then show "lookup kd (put_object kd x xs) k = stored kd (lookup kd xs) x k"
    by (auto simp: lookup_def put_object_def stored_def)
qed

lemma lookup_delete:
  assumes "\<And>x. s = Some x \<Longrightarrow> kd_key kd x = k \<and> \<not> kd_gone kd x"
  shows "lookup kd ((case s of None \<Rightarrow> [] | Some x \<Rightarrow> [x]) @ filter (\<lambda>y. kd_key kd y \<noteq> k) xs) = (lookup kd xs)(k := s)"
proof
  fix j
  have "find (\<lambda>y. kd_key kd y = j \<and> \<not> kd_gone kd y) (filter (\<lambda>y. kd_key kd y \<noteq> k) xs) =
      (if j = k then None else find (\<lambda>y. kd_key kd y = j \<and> \<not> kd_gone kd y) xs)"
    by (induction xs) auto
  then show "lookup kd ((case s of None \<Rightarrow> [] | Some x \<Rightarrow> [x]) @ filter (\<lambda>y. kd_key kd y \<noteq> k) xs) j = ((lookup kd xs)(k := s)) j"
    using assms by (auto simp: lookup_def split: option.splits)
qed

lemma put_over_writes:
  assumes "\<And>xs w. get (put xs w) = xs" "\<And>xs w. others (put xs w) = others w" "\<And>s. kd_key kd s = k \<Longrightarrow> kd_key kd (f s) = k"
  shows "writes kd (\<lambda>w. lookup kd (get w)) others w k (\<lambda>s y. y = f s) (put_over kd get put f w k)"
  using assms by (auto simp: writes_def put_over_def lookup_put_object dest: lookup_key split: option.splits)

lemma writes_mono: "writes kd st others w k P r \<Longrightarrow> (\<And>s y. P s y \<Longrightarrow> Q s y) \<Longrightarrow> writes kd st others w k Q r"
  by (auto simp: writes_def split: option.splits prod.splits sum.splits)

lemma store_crud_ok:
  assumes "kind_ok kd" "\<And>xs w. get (put xs w) = xs" "\<And>xs w. others (put xs w) = others w" "\<And>x. kd_created kd x (created x)"
  shows "crud_ok kd (\<lambda>w. lookup kd (get w)) others (store_crud kd created get put)"
proof -
  have key: "kd_key kd (kd_status kd x y) = kd_key kd y" for x y using assms(1) unfolding kind_ok_def by blast
  have del: "kd_delete kd x = Some y \<Longrightarrow> kd_key kd y = kd_key kd x \<and> \<not> kd_gone kd y" for x y
    using assms(1) unfolding kind_ok_def by blast
  have new: "kd_key kd (created x) = kd_key kd x" "\<not> kd_gone kd (created x)" for x
    using assms(1) assms(4) [of x] unfolding kind_ok_def by blast+
  have pw: "writes kd (\<lambda>w. lookup kd (get w)) others w k (\<lambda>s y. y = f s) (put_over kd get put f w k)"
    if "\<And>s. kd_key kd s = k \<Longrightarrow> kd_key kd (f s) = k" for w k f
    using that by (intro put_over_writes assms(2,3)) simp
  have "create_ok kd (\<lambda>w. lookup kd (get w)) others (store_crud kd created get put)"
    using new assms(4) by (auto simp: create_ok_def store_crud_def assms lookup_put_object split: option.splits)
  moreover have "delete_ok kd (\<lambda>w. lookup kd (get w)) others (store_crud kd created get put)"
    unfolding delete_ok_def
  proof (intro allI)
    fix w ns n
    show "case k_Delete (store_crud kd created get put) w ns n of
        (None, w') \<Rightarrow> others w' = others w \<and> (case lookup kd (get w) (ns, n) of None \<Rightarrow> False
           | Some s \<Rightarrow> lookup kd (get w') = (lookup kd (get w))((ns, n) := kd_delete kd s))
      | (Some e, w') \<Rightarrow> lookup kd (get w') = lookup kd (get w) \<and> others w' = others w \<and> (e = KNotFound \<longrightarrow> lookup kd (get w) (ns, n) = None)"
    proof (cases "lookup kd (get w) (ns, n)")
      case None
      then show ?thesis by (simp add: store_crud_def)
    next
      case (Some s)
      then show ?thesis using del lookup_key [OF Some] by (simp add: store_crud_def assms(2,3) lookup_delete)
    qed
  qed
  ultimately show ?thesis
    unfolding crud_ok_def
    by (intro conjI allI impI)
      (auto simp: store_crud_def assms(1) key intro!: writes_mono [OF pw] dest: lookup_key)
qed

lemma store_crud_fresh: "crud_fresh kd (\<lambda>w. lookup kd (get w)) (store_crud kd created get put)"
  by (auto simp: crud_fresh_def store_crud_def dest: lookup_in split: option.splits)

lemma store_crud_serves: "crud_serves kd (\<lambda>w. lookup kd (get w)) (store_crud kd created get put)"
  by (auto simp: crud_serves_def store_crud_def put_over_def split: option.splits)

end
