(* ===== verification/Peering.thy ===== *)
theory Peering
  imports Peer_Controller Kube_Client
begin

text \<open>
  Peering of two networks (\<open>internal/agent/controller/peering_controller.go\<close>): the controller announces
  each network's range on the other side's gateway, puts a shadow of each gateway into the other
  namespace and adds the policies that let the peers find them. The theorem at the end follows the
  objects through the configuration generator.
\<close>

section \<open>Objects\<close>

record LatticeNetworkPeering =
  np_Name :: string
  np_Deleting :: bool
  np_Finalizers :: "string list"
  np_NamespaceA :: string
  np_NetworkA :: string
  np_NamespaceB :: string
  np_NetworkB :: string
  np_PeeringMode :: string
  np_Phase :: LatticeNetworkPhase
  np_CIDRA :: string
  np_CIDRB :: string
  np_Conditions :: "Condition list"

record 'w peering_api =
  pg_peerings :: "('w, LatticeNetworkPeering) crud"
  pg_networks :: "('w, LatticeNetwork) crud"
  pg_peers :: "('w, LatticePeer) crud"
  pg_policies :: "('w, LatticePolicy) crud"

record peering_env =
  pge_sha :: "string \<Rightarrow> byte list"
  pge_now :: int
  pge_Error :: "kube_error \<Rightarrow> string"

definition empty_LatticePeer :: LatticePeer where
  "empty_LatticePeer =
     \<lparr> lp_Name = [], lp_Namespace = [], lp_UID = [], lp_Labels = [], lp_Annotations = [], lp_Finalizers = [], lp_Deleting = False,
       lp_AppId = [], lp_InterfaceName = [], lp_Platform = [], lp_PrivateKey = [], lp_PublicKey = [], lp_PeerId = [], lp_Network = None,
       lp_Phase = PhaseNone, lp_Conditions = [], lp_ActiveNetwork = None, lp_AllocatedAddress = None, lp_CurrentHash = [] \<rparr>"

definition PeeringFinalizer :: string where "PeeringFinalizer = ''alattice.io/peering-finalizer''"

definition shadowPeerName :: "string \<Rightarrow> string" where
  "shadowPeerName peeringName = ''peering-shadow-'' @ peeringName"

definition gwAccessPolicyName :: "string \<Rightarrow> string" where
  "gwAccessPolicyName peeringName = ''lattice-peering-'' @ peeringName @ ''-gw-access''"

definition shadowPolicyName :: "string \<Rightarrow> string" where
  "shadowPolicyName peeringName = ''lattice-peering-'' @ peeringName @ ''-shadow''"

section \<open>The steps of a reconcile\<close>

definition net_phase_text :: "LatticeNetworkPhase \<Rightarrow> string" where
  "net_phase_text p = (case p of NetPhaseNone \<Rightarrow> [] | NetPhaseCreating \<Rightarrow> ''Pending'' | NetPhaseReady \<Rightarrow> ''Ready'' | NetPhaseFailed \<Rightarrow> ''Failed'')"

definition getReadyNetwork :: "'w peering_api \<Rightarrow> peering_env \<Rightarrow> string \<Rightarrow> string \<Rightarrow> 'w \<Rightarrow> string + LatticeNetwork" where
  "getReadyNetwork api env ns name w =
     (case k_Get (pg_networks api) w ns name of
        Inl e \<Rightarrow> Err (pge_Error env e)
      | Inr network \<Rightarrow>
          if ln_Phase network \<noteq> NetPhaseReady \<or> ln_ActiveCIDR network = []
          then Err (''network '' @ ns @ ''/'' @ name @ '' not ready (phase='' @ net_phase_text (ln_Phase network) @
                    '', cidr='' @ quoted (ln_ActiveCIDR network) @ '')'')
          else Ok network)"

definition findGateway :: "'w peering_api \<Rightarrow> peering_env \<Rightarrow> string \<Rightarrow> string \<Rightarrow> 'w \<Rightarrow> kube_error + LatticePeer option" where
  "findGateway api env ns networkName w =
     (case k_List (pg_peers api) w (Some ns)
             [(LabelGateway, ''true''), (networkLabelKey (pge_sha env) networkName, ''true'')] of
        Inl e \<Rightarrow> Err e
      | Inr [] \<Rightarrow> Ok None
      | Inr (g # _) \<Rightarrow> Ok (Some g))"

definition ensureAnnotation :: "'w peering_api \<Rightarrow> LatticePeer \<Rightarrow> string \<Rightarrow> string \<Rightarrow> 'w \<Rightarrow> kube_error option \<times> 'w" where
  "ensureAnnotation api peer k v w =
     (if label_get (lp_Annotations peer) k = v then (None, w)
      else err_of (k_Patch (pg_peers api) w peer (peer\<lparr> lp_Annotations := AList.update k v (lp_Annotations peer) \<rparr>)))"

definition removeAnnotation :: "'w peering_api \<Rightarrow> LatticePeer \<Rightarrow> string \<Rightarrow> 'w \<Rightarrow> kube_error option \<times> 'w" where
  "removeAnnotation api peer k w =
     (if map_of (lp_Annotations peer) k = None then (None, w)
      else err_of (k_Patch (pg_peers api) w peer (peer\<lparr> lp_Annotations := AList.delete k (lp_Annotations peer) \<rparr>)))"

definition shadow_peer :: "peering_env \<Rightarrow> LatticeNetworkPeering \<Rightarrow> LatticePeer \<Rightarrow> string \<Rightarrow> string \<Rightarrow> string \<Rightarrow> LatticePeer" where
  "shadow_peer env peering srcGateway targetNS targetNetwork srcCIDR =
     empty_LatticePeer\<lparr> lp_Name := shadowPeerName (np_Name peering), lp_Namespace := targetNS,
       lp_Labels := [(LabelShadow, ''true''), (networkLabelKey (pge_sha env) targetNetwork, ''true'')],
       lp_Annotations := [(AnnotationShadowAllowedIPs, srcCIDR)],
       lp_AppId := lp_AppId srcGateway, lp_PublicKey := lp_PublicKey srcGateway, lp_PeerId := lp_PeerId srcGateway \<rparr>"

text \<open>Create the shadow or bring it up to date: \<open>update\<close> is what is patched in an existing one, \<open>addr\<close> the address
  to record if there is one.\<close>

definition upsert_shadow ::
  "('w, LatticePeer) crud \<Rightarrow> LatticePeer \<Rightarrow> (LatticePeer \<Rightarrow> LatticePeer) \<Rightarrow> string option \<Rightarrow> 'w \<Rightarrow> kube_error option \<times> 'w" where
  "upsert_shadow c desired update addr w =
     (let with_address = (\<lambda>p. p\<lparr> lp_AllocatedAddress := addr, lp_Phase := PhaseReady \<rparr>)
      in case k_Get c w (lp_Namespace desired) (lp_Name desired) of
           Inl KNotFound \<Rightarrow>
             (case k_Create c w desired of
                (Inl e, w1) \<Rightarrow> (Some e, w1)
              | (Inr created, w1) \<Rightarrow>
                  if addr \<noteq> None then err_of (k_UpdateStatus c w1 (with_address created)) else (None, w1))
         | Inl e \<Rightarrow> (Some e, w)
         | Inr existing \<Rightarrow>
             (case k_Patch c w existing (update existing) of
                (Inl e, w1) \<Rightarrow> (Some e, w1)
              | (Inr peerCopy, w1) \<Rightarrow>
                  if addr \<noteq> None \<and> lp_AllocatedAddress existing \<noteq> addr
                  then err_of (k_UpdateStatus c w1 (with_address peerCopy)) else (None, w1)))"

definition ensureShadowPeer ::
  "'w peering_api \<Rightarrow> peering_env \<Rightarrow> LatticeNetworkPeering \<Rightarrow> LatticePeer \<Rightarrow> string \<Rightarrow> string \<Rightarrow> string \<Rightarrow> 'w \<Rightarrow> kube_error option \<times> 'w" where
  "ensureShadowPeer api env peering srcGateway targetNS targetNetwork srcCIDR w =
     (let desired = shadow_peer env peering srcGateway targetNS targetNetwork srcCIDR
      in upsert_shadow (pg_peers api) desired
           (\<lambda>existing. existing\<lparr> lp_Labels := lp_Labels desired, lp_Annotations := lp_Annotations desired,
              lp_PublicKey := lp_PublicKey desired, lp_AppId := lp_AppId desired, lp_PeerId := lp_PeerId desired \<rparr>)
           (lp_AllocatedAddress srcGateway) w)"

definition by_labels :: "labels \<Rightarrow> LabelSelector" where
  "by_labels ls = \<lparr> ls_MatchLabels = ls, ls_MatchExpressions = [] \<rparr>"

definition to_labelled :: "labels \<Rightarrow> PolicyRule" where
  "to_labelled ls = \<lparr> pr_Peers = [\<lparr> ps_PeerSelector = Some (by_labels ls), ps_IPBlock = None \<rparr>], pr_Ports = [] \<rparr>"

definition gateway_access :: "string \<Rightarrow> string \<Rightarrow> labels \<Rightarrow> string \<Rightarrow> LatticePolicy" where
  "gateway_access name ns ls networkName =
     \<lparr> lc_Name = name, lc_Namespace = ns, lc_Labels = ls, lc_Network = networkName, lc_PeerSelector = by_labels [],
       lc_Ingress = [to_labelled [(LabelGateway, ''true'')]], lc_Egress = [to_labelled [(LabelGateway, ''true'')]],
       lc_Action = [], lc_TargetNodes = 0, lc_RuleCount = 0 \<rparr>"

definition gateway_to_shadow :: "string \<Rightarrow> string \<Rightarrow> labels \<Rightarrow> string \<Rightarrow> LatticePolicy" where
  "gateway_to_shadow name ns ls networkName =
     \<lparr> lc_Name = name, lc_Namespace = ns, lc_Labels = ls, lc_Network = networkName, lc_PeerSelector = by_labels [(LabelGateway, ''true'')],
       lc_Ingress = [], lc_Egress = [to_labelled [(LabelShadow, ''true'')]],
       lc_Action = [], lc_TargetNodes = 0, lc_RuleCount = 0 \<rparr>"

definition gw_policy :: "peering_env \<Rightarrow> LatticeNetworkPeering \<Rightarrow> string \<Rightarrow> string \<Rightarrow> LatticePolicy" where
  "gw_policy env peering networkName ns =
     gateway_access (gwAccessPolicyName (np_Name peering)) ns
       [(''alattice.io/peering'', safeLabelValue (pge_sha env) (np_Name peering))] networkName"

definition shadow_policy :: "peering_env \<Rightarrow> LatticeNetworkPeering \<Rightarrow> string \<Rightarrow> string \<Rightarrow> LatticePolicy" where
  "shadow_policy env peering networkName ns =
     gateway_to_shadow (shadowPolicyName (np_Name peering)) ns
       [(''alattice.io/peering'', safeLabelValue (pge_sha env) (np_Name peering))] networkName"

definition policy_spec_of :: "LatticePolicy \<Rightarrow> LatticePolicy \<Rightarrow> LatticePolicy" where
  "policy_spec_of src p =
     p\<lparr> lc_Network := lc_Network src, lc_PeerSelector := lc_PeerSelector src, lc_Ingress := lc_Ingress src,
        lc_Egress := lc_Egress src, lc_Action := lc_Action src \<rparr>"

definition applyPolicy :: "('w, LatticePolicy) crud \<Rightarrow> LatticePolicy \<Rightarrow> 'w \<Rightarrow> kube_error option \<times> 'w" where
  "applyPolicy c desired w =
     (case k_Get c w (lc_Namespace desired) (lc_Name desired) of
        Inl KNotFound \<Rightarrow> err_of (k_Create c w desired)
      | Inl e \<Rightarrow> (Some e, w)
      | Inr existing \<Rightarrow> err_of (k_Patch c w existing (policy_spec_of desired existing)))"

definition ensurePolicies ::
  "'w peering_api \<Rightarrow> peering_env \<Rightarrow> LatticeNetworkPeering \<Rightarrow> string \<Rightarrow> string \<Rightarrow> 'w \<Rightarrow> kube_error option \<times> 'w" where
  "ensurePolicies api env peering networkName ns w =
     then_do (applyPolicy (pg_policies api) (gw_policy env peering networkName ns) w)
       (applyPolicy (pg_policies api) (shadow_policy env peering networkName ns))"

definition setReady ::
  "'w peering_api \<Rightarrow> peering_env \<Rightarrow> LatticeNetworkPeering \<Rightarrow> string \<Rightarrow> string \<Rightarrow> 'w \<Rightarrow> (kube_error + rec_result) \<times> 'w" where
  "setReady api env peering cidrA cidrB w =
     (let c = \<lparr> cd_Type = ''Ready'', cd_Status = True, cd_Reason = ''PeeringEstablished'',
               cd_Message = ''peering between '' @ cidrA @ '' and '' @ cidrB @ '' established'', cd_LastTransitionTime = pge_now env \<rparr>
      in case k_PatchStatus (pg_peerings api) w peering
                (peering\<lparr> np_Phase := NetPhaseReady, np_CIDRA := cidrA, np_CIDRB := cidrB,
                   np_Conditions := setCondition (np_Conditions peering) c \<rparr>) of
           (Inl e, w') \<Rightarrow> (Err e, w')
         | (Inr _, w') \<Rightarrow> (Ok Done, w'))"

definition setError ::
  "'w peering_api \<Rightarrow> peering_env \<Rightarrow> LatticeNetworkPeering \<Rightarrow> string \<Rightarrow> 'w \<Rightarrow> (kube_error + rec_result) \<times> 'w" where
  "setError api env peering msg w =
     (let c = \<lparr> cd_Type = ''Ready'', cd_Status = False, cd_Reason = ''PeeringError'', cd_Message = msg, cd_LastTransitionTime = pge_now env \<rparr>;
          w' = snd (k_PatchStatus (pg_peerings api) w peering
                 (peering\<lparr> np_Phase := NetPhaseFailed, np_Conditions := setCondition (np_Conditions peering) c \<rparr>))
      in (Ok (RequeueAfter (seconds 30)), w'))"

definition no_gateway :: "string \<Rightarrow> string \<Rightarrow> string" where
  "no_gateway ns networkName = ''no gateway peer in '' @ ns @ ''/'' @ networkName @ '': label '' @ LabelGateway @ ''=true required''"

definition link_gateways ::
  "'w peering_api \<Rightarrow> peering_env \<Rightarrow> LatticeNetworkPeering \<Rightarrow> LatticeNetwork \<Rightarrow> LatticeNetwork \<Rightarrow> LatticePeer \<Rightarrow> LatticePeer \<Rightarrow>
   'w \<Rightarrow> kube_error option \<times> 'w" where
  "link_gateways api env peering networkA networkB gatewayA gatewayB w =
     (let cidrA = ln_ActiveCIDR networkA; cidrB = ln_ActiveCIDR networkB;
          annotationKey = peeringRouteAnnotationKey (pge_sha env) (np_Name peering);
          nsA = np_NamespaceA peering; nsB = np_NamespaceB peering
      in then_do (ensureAnnotation api gatewayA annotationKey cidrB w) (\<lambda>w.
         then_do (ensureAnnotation api gatewayB annotationKey cidrA w) (\<lambda>w.
         then_do (ensureShadowPeer api env peering gatewayA nsB (ln_Name networkB) cidrA w) (\<lambda>w.
         then_do (ensureShadowPeer api env peering gatewayB nsA (ln_Name networkA) cidrB w) (\<lambda>w.
         then_do (ensurePolicies api env peering (ln_Name networkA) nsA w)
           (ensurePolicies api env peering (ln_Name networkB) nsB))))))"

definition reconcileNormal ::
  "'w peering_api \<Rightarrow> peering_env \<Rightarrow> LatticeNetworkPeering \<Rightarrow> 'w \<Rightarrow> (kube_error + rec_result) \<times> 'w" where
  "reconcileNormal api env peering w =
     (case getReadyNetwork api env (np_NamespaceA peering) (np_NetworkA peering) w of
        Inl e \<Rightarrow> setError api env peering (''network A not ready: '' @ e) w
      | Inr networkA \<Rightarrow>
     (case getReadyNetwork api env (np_NamespaceB peering) (np_NetworkB peering) w of
        Inl e \<Rightarrow> setError api env peering (''network B not ready: '' @ e) w
      | Inr networkB \<Rightarrow>
     (case findGateway api env (np_NamespaceA peering) (np_NetworkA peering) w of
        Inr (Some gatewayA) \<Rightarrow>
     (case findGateway api env (np_NamespaceB peering) (np_NetworkB peering) w of
        Inr (Some gatewayB) \<Rightarrow>
          (case link_gateways api env peering networkA networkB gatewayA gatewayB w of
             (Some e, w') \<Rightarrow> (Err e, w')
           | (None, w') \<Rightarrow> setReady api env peering (ln_ActiveCIDR networkA) (ln_ActiveCIDR networkB) w')
      | _ \<Rightarrow> setError api env peering (no_gateway (np_NamespaceB peering) (np_NetworkB peering)) w)
      | _ \<Rightarrow> setError api env peering (no_gateway (np_NamespaceA peering) (np_NetworkA peering)) w)))"

section \<open>Deletion\<close>

text \<open>The errors of single steps are logged or dropped; only the world matters.\<close>

definition unroute :: "'w peering_api \<Rightarrow> peering_env \<Rightarrow> LatticeNetworkPeering \<Rightarrow> string \<Rightarrow> 'w \<Rightarrow> 'w" where
  "unroute api env peering ns w =
     (let networkName = (if ns = np_NamespaceB peering then np_NetworkB peering else np_NetworkA peering)
      in case findGateway api env ns networkName w of
           Inr (Some gw) \<Rightarrow> snd (removeAnnotation api gw (peeringRouteAnnotationKey (pge_sha env) (np_Name peering)) w)
         | _ \<Rightarrow> w)"

definition drop_side :: "'w peering_api \<Rightarrow> LatticeNetworkPeering \<Rightarrow> string \<Rightarrow> 'w \<Rightarrow> 'w" where
  "drop_side api peering ns w =
     (let w1 = snd (delete_if_exists (pg_peers api) ns (shadowPeerName (np_Name peering)) w);
          w2 = snd (delete_if_exists (pg_policies api) ns (gwAccessPolicyName (np_Name peering)) w1)
      in snd (delete_if_exists (pg_policies api) ns (shadowPolicyName (np_Name peering)) w2))"

definition reconcileDelete ::
  "'w peering_api \<Rightarrow> peering_env \<Rightarrow> LatticeNetworkPeering \<Rightarrow> 'w \<Rightarrow> (kube_error + rec_result) \<times> 'w" where
  "reconcileDelete api env peering w =
     (let sides = [np_NamespaceA peering, np_NamespaceB peering];
          w1 = foldl (\<lambda>w ns. unroute api env peering ns w) w sides;
          w2 = foldl (\<lambda>w ns. drop_side api peering ns w) w1 sides
      in case k_Update (pg_peerings api) w2 (peering\<lparr> np_Finalizers := filter (\<lambda>f. f \<noteq> PeeringFinalizer) (np_Finalizers peering) \<rparr>) of
           (Inl e, w') \<Rightarrow> (Err e, w')
         | (Inr _, w') \<Rightarrow> (Ok Done, w'))"

definition peering_Reconcile :: "'w peering_api \<Rightarrow> peering_env \<Rightarrow> string \<Rightarrow> 'w \<Rightarrow> (kube_error + rec_result) \<times> 'w" where
  "peering_Reconcile api env name w =
     (case k_Get (pg_peerings api) w [] name of
        Inl KNotFound \<Rightarrow> (Ok Done, w)
      | Inl e \<Rightarrow> (Err e, w)
      | Inr peering \<Rightarrow>
          if np_Deleting peering then reconcileDelete api env peering w
          else if PeeringFinalizer \<notin> set (np_Finalizers peering) then
            (case k_Update (pg_peerings api) w (peering\<lparr> np_Finalizers := np_Finalizers peering @ [PeeringFinalizer] \<rparr>) of
               (Inl e, w') \<Rightarrow> (Err e, w')
             | (Inr _, w') \<Rightarrow> (Ok Requeue, w'))
          else reconcileNormal api env peering w)"

section \<open>Watched objects\<close>

definition mapPeerToPeerings :: "'w peering_api \<Rightarrow> LatticePeer \<Rightarrow> 'w \<Rightarrow> string list" where
  "mapPeerToPeerings api obj w =
     (case k_List (pg_peerings api) w None [] of
        Inl _ \<Rightarrow> []
      | Inr ps \<Rightarrow> map np_Name (filter (\<lambda>p. np_NamespaceA p = lp_Namespace obj \<or> np_NamespaceB p = lp_Namespace obj) ps))"

definition mapNetworkToPeerings :: "'w peering_api \<Rightarrow> LatticeNetwork \<Rightarrow> 'w \<Rightarrow> string list" where
  "mapNetworkToPeerings api obj w =
     (case k_List (pg_peerings api) w None [] of
        Inl _ \<Rightarrow> []
      | Inr ps \<Rightarrow> map np_Name (filter (\<lambda>p. np_NamespaceA p = ln_Namespace obj \<and> np_NetworkA p = ln_Name obj \<or>
                                          np_NamespaceB p = ln_Namespace obj \<and> np_NetworkB p = ln_Name obj) ps))"

definition peering_networkReadyPredicate :: "LatticeNetwork \<Rightarrow> LatticeNetwork \<Rightarrow> bool" where
  "peering_networkReadyPredicate oldNet newNet \<longleftrightarrow>
     ln_Phase oldNet \<noteq> ln_Phase newNet \<or> ln_ActiveCIDR oldNet \<noteq> ln_ActiveCIDR newNet"


section \<open>What the API server keeps of these kinds\<close>

definition peer_kind :: "LatticePeer kind" where
  "peer_kind =
     \<lparr> kd_key = (\<lambda>p. (lp_Namespace p, lp_Name p)), kd_labels = lp_Labels, kd_gone = (\<lambda>p. lp_Deleting p \<and> lp_Finalizers p = []),
       kd_delete = (\<lambda>p. if lp_Finalizers p = [] then None else Some (p\<lparr> lp_Deleting := True \<rparr>)), kd_status = with_status,
       kd_created = (\<lambda>x y. y = with_status empty_LatticePeer (x\<lparr> lp_UID := lp_UID y, lp_Deleting := False \<rparr>)) \<rparr>"

definition policy_kind :: "LatticePolicy kind" where
  "policy_kind =
     \<lparr> kd_key = (\<lambda>p. (lc_Namespace p, lc_Name p)), kd_labels = lc_Labels, kd_gone = (\<lambda>p. False), kd_delete = (\<lambda>p. None),
       kd_status = (\<lambda>x y. y\<lparr> lc_TargetNodes := lc_TargetNodes x, lc_RuleCount := lc_RuleCount x \<rparr>),
       kd_created = (\<lambda>x y. y = x\<lparr> lc_TargetNodes := 0, lc_RuleCount := 0 \<rparr>) \<rparr>"

definition network_kind :: "LatticeNetwork kind" where
  "network_kind =
     \<lparr> kd_key = (\<lambda>n. (ln_Namespace n, ln_Name n)), kd_labels = (\<lambda>n. []), kd_gone = (\<lambda>n. False), kd_delete = (\<lambda>n. None),
       kd_status = (\<lambda>x y. y\<lparr> ln_Phase := ln_Phase x, ln_ActiveCIDR := ln_ActiveCIDR x, ln_AllocatedCount := ln_AllocatedCount x \<rparr>),
       kd_created = (\<lambda>x y. y = x\<lparr> ln_Phase := NetPhaseNone, ln_ActiveCIDR := [], ln_AllocatedCount := 0 \<rparr>) \<rparr>"

definition peering_kind :: "LatticeNetworkPeering kind" where
  "peering_kind =
     \<lparr> kd_key = (\<lambda>p. ([], np_Name p)), kd_labels = (\<lambda>p. []), kd_gone = (\<lambda>p. np_Deleting p \<and> np_Finalizers p = []),
       kd_delete = (\<lambda>p. if np_Finalizers p = [] then None else Some (p\<lparr> np_Deleting := True \<rparr>)),
       kd_status = (\<lambda>x y. y\<lparr> np_Phase := np_Phase x, np_CIDRA := np_CIDRA x, np_CIDRB := np_CIDRB x, np_Conditions := np_Conditions x \<rparr>),
       kd_created = (\<lambda>x y. y = x\<lparr> np_Deleting := False, np_Phase := NetPhaseNone, np_CIDRA := [], np_CIDRB := [], np_Conditions := [] \<rparr>) \<rparr>"

lemmas kind_simps [simp] = peer_kind_def policy_kind_def network_kind_def peering_kind_def

lemma with_status_fields [simp]:
  "lp_Namespace (with_status x y) = lp_Namespace y" "lp_Name (with_status x y) = lp_Name y" "lp_UID (with_status x y) = lp_UID y"
  "lp_Labels (with_status x y) = lp_Labels y" "lp_Annotations (with_status x y) = lp_Annotations y"
  "lp_Finalizers (with_status x y) = lp_Finalizers y" "lp_Deleting (with_status x y) = lp_Deleting y"
  "lp_AppId (with_status x y) = lp_AppId y" "lp_PublicKey (with_status x y) = lp_PublicKey y" "lp_PeerId (with_status x y) = lp_PeerId y"
  "lp_AllocatedAddress (with_status x y) = lp_AllocatedAddress x" "lp_Phase (with_status x y) = lp_Phase x"
  by (simp_all add: with_status_def)

lemma kinds_ok: "kind_ok peer_kind" "kind_ok policy_kind" "kind_ok network_kind" "kind_ok peering_kind"
  by (auto simp: kind_ok_def dest: arg_cong [where f = lp_Namespace] arg_cong [where f = lp_Name] arg_cong [where f = lp_Deleting] split: if_splits)

text \<open>The stores the controller works on are separate: a call for one kind leaves the others alone.\<close>

definition peering_laws ::
  "'w peering_api \<Rightarrow> ('w \<Rightarrow> objkey \<Rightarrow> LatticePeer option) \<Rightarrow> ('w \<Rightarrow> objkey \<Rightarrow> LatticePolicy option) \<Rightarrow>
   ('w \<Rightarrow> objkey \<Rightarrow> LatticeNetwork option) \<Rightarrow> ('w \<Rightarrow> objkey \<Rightarrow> LatticeNetworkPeering option) \<Rightarrow> bool" where
  "peering_laws api stp stq stn stg \<longleftrightarrow>
     crud_ok peer_kind stp (\<lambda>w. (stq w, stn w, stg w)) (pg_peers api) \<and> crud_fresh peer_kind stp (pg_peers api) \<and>
     crud_ok policy_kind stq (\<lambda>w. (stp w, stn w, stg w)) (pg_policies api) \<and> crud_fresh policy_kind stq (pg_policies api) \<and>
     crud_ok peering_kind stg (\<lambda>w. (stp w, stq w, stn w)) (pg_peerings api) \<and> crud_fresh peering_kind stg (pg_peerings api) \<and>
     crud_fresh network_kind stn (pg_networks api) \<and> (\<forall>w k n. stn w k = Some n \<longrightarrow> (ln_Namespace n, ln_Name n) = k)"

lemma peering_lawsD:
  assumes "peering_laws api stp stq stn stg"
  shows "crud_ok peer_kind stp (\<lambda>w. (stq w, stn w, stg w)) (pg_peers api)" "crud_fresh peer_kind stp (pg_peers api)"
    "crud_ok policy_kind stq (\<lambda>w. (stp w, stn w, stg w)) (pg_policies api)" "crud_fresh policy_kind stq (pg_policies api)"
    "crud_ok peering_kind stg (\<lambda>w. (stp w, stq w, stn w)) (pg_peerings api)" "crud_fresh peering_kind stg (pg_peerings api)"
    "crud_fresh network_kind stn (pg_networks api)" "stn w k = Some n \<Longrightarrow> (ln_Namespace n, ln_Name n) = k"
  using assms unfolding peering_laws_def by blast+

section \<open>The effect of each step\<close>

definition routed :: "string \<Rightarrow> string \<Rightarrow> LatticePeer \<Rightarrow> LatticePeer" where
  "routed k v p = (if label_get (lp_Annotations p) k = v then p else p\<lparr> lp_Annotations := AList.update k v (lp_Annotations p) \<rparr>)"

lemma ensureAnnotation_effect:
  assumes "peering_laws api stp stq stn stg" "stp w (lp_Namespace g, lp_Name g) = Some g" "ensureAnnotation api g k v w = (None, w')"
  shows "stp w' = (stp w)((lp_Namespace g, lp_Name g) \<mapsto> routed k v g) \<and> stq w' = stq w \<and> stn w' = stn w"
proof (cases "label_get (lp_Annotations g) k = v")
  case True
  then show ?thesis using assms(2,3) by (auto simp: ensureAnnotation_def routed_def fun_upd_idem)
next
  case False
  let ?g = "g\<lparr> lp_Annotations := AList.update k v (lp_Annotations g) \<rparr>"
  obtain y where y: "k_Patch (pg_peers api) w g ?g = (Inr y, w')"
    using assms(3) False by (auto simp: ensureAnnotation_def err_of_None)
  have "with_status g ?g = ?g" by (simp add: with_status_def)
  then show ?thesis
    using patch_stored [OF peering_lawsD(1) [OF assms(1)] _ _ _ y] assms(2) False by (simp add: routed_def)
qed

definition shadows :: "string \<Rightarrow> string \<Rightarrow> LatticePeer \<Rightarrow> string \<Rightarrow> string \<Rightarrow> LatticePeer \<Rightarrow> bool" where
  "shadows name label src ns cidr s \<longleftrightarrow>
     lp_Name s = name \<and> lp_Namespace s = ns \<and>
     lp_Labels s = [(LabelShadow, ''true''), (label, ''true'')] \<and> lp_Annotations s = [(AnnotationShadowAllowedIPs, cidr)] \<and>
     lp_AppId s = lp_AppId src \<and> lp_PublicKey s = lp_PublicKey src \<and>
     (lp_AllocatedAddress src \<noteq> None \<longrightarrow> lp_AllocatedAddress s = lp_AllocatedAddress src)"

lemma upsert_shadow_effect:
  assumes "crud_ok peer_kind stp others c" "crud_fresh peer_kind stp c" "upsert_shadow c d update (lp_AllocatedAddress src) w = (None, w')"
    and d: "shadows name label src ns cidr (d\<lparr> lp_AllocatedAddress := lp_AllocatedAddress src \<rparr>)"
    and up: "\<And>x. lp_Namespace x = ns \<Longrightarrow> lp_Name x = name \<Longrightarrow> shadows name label src ns cidr ((update x)\<lparr> lp_AllocatedAddress := lp_AllocatedAddress src \<rparr>)"
      "\<And>x. lp_Deleting (update x) = lp_Deleting x \<and> lp_Finalizers (update x) = lp_Finalizers x"
  shows "\<exists>s. shadows name label src ns cidr s \<and> stp w' = (stp w)((ns, name) \<mapsto> s) \<and> others w' = others w"
proof -
  have dk: "lp_Name d = name" "lp_Namespace d = ns" using d by (simp_all add: shadows_def)
  have adr: "shadows name label src ns cidr (with_status z y)"
    if "shadows name label src ns cidr (y\<lparr> lp_AllocatedAddress := lp_AllocatedAddress src \<rparr>)"
      "lp_AllocatedAddress src \<noteq> None \<longrightarrow> lp_AllocatedAddress z = lp_AllocatedAddress src" for y z
    using that by (simp add: shadows_def)
  consider (new) "k_Get c w ns name = Inl KNotFound" | (old) x where "k_Get c w ns name = Inr x"
    using assms(3) by (cases "k_Get c w ns name") (auto simp: upsert_shadow_def Let_def dk split: kube_error.splits)
  then show ?thesis
  proof cases
    case new
    obtain y w1 where y: "k_Create c w d = (Inr y, w1)"
      and r: "(if lp_AllocatedAddress src \<noteq> None then err_of (k_UpdateStatus c w1
         (y\<lparr> lp_AllocatedAddress := lp_AllocatedAddress src, lp_Phase := PhaseReady \<rparr>)) else (None, w1)) = (None, w')"
      using assms(3) unfolding upsert_shadow_def Let_def dk new by (auto split: prod.splits sum.splits)
    note C = create_Ok [OF assms(1) y]
    have Y: "y = with_status empty_LatticePeer (d\<lparr> lp_UID := lp_UID y, lp_Deleting := False \<rparr>)" using C(3) by simp
    have sh: "shadows name label src ns cidr (y\<lparr> lp_AllocatedAddress := lp_AllocatedAddress src \<rparr>)"
      by (subst Y) (use d in \<open>simp add: shadows_def\<close>)
    have k: "lp_Name y = name" "lp_Namespace y = ns" using sh by (simp_all add: shadows_def)
    show ?thesis
    proof (cases "lp_AllocatedAddress src")
      case None
      then show ?thesis using r C sh dk by (intro exI [of _ y]) (simp add: shadows_def)
    next
      case (Some a)
      let ?y = "y\<lparr> lp_AllocatedAddress := Some a, lp_Phase := PhaseReady \<rparr>"
      obtain z where z: "k_UpdateStatus c w1 ?y = (Inr z, w')" using r Some by (auto simp: err_of_None)
      have "stp w1 (kd_key peer_kind ?y) = Some y" using C(4) dk k by simp
      note U = update_status_stored [OF assms(1) this _ z]
      show ?thesis using U C k dk Some adr [OF sh, of ?y] by (intro exI [of _ "with_status ?y y"]) (simp add: fun_eq_iff)
    qed
  next
    case old
    have x: "stp w (ns, name) = Some x" by (rule fresh_Get [OF assms(2) old])
    have xk: "lp_Namespace x = ns" "lp_Name x = name" using crud_okD(2) [OF assms(1) x] by simp_all
    note sh = up(1) [OF xk]
    have uk: "lp_Name (update x) = name" "lp_Namespace (update x) = ns" using sh by (simp_all add: shadows_def)
    obtain y w1 where y: "k_Patch c w x (update x) = (Inr y, w1)"
      and r: "(if lp_AllocatedAddress src \<noteq> None \<and> lp_AllocatedAddress x \<noteq> lp_AllocatedAddress src then err_of (k_UpdateStatus c w1
         (y\<lparr> lp_AllocatedAddress := lp_AllocatedAddress src, lp_Phase := PhaseReady \<rparr>)) else (None, w1)) = (None, w')"
      using assms(3) unfolding upsert_shadow_def Let_def dk old by (auto split: prod.splits sum.splits)
    have P: "others w1 = others w" "y = with_status x (update x)" "stp w1 = (stp w)((ns, name) \<mapsto> with_status x (update x))"
      using patch_stored [OF assms(1) _ _ _ y] x xk uk up(2) [of x] by simp_all
    show ?thesis
    proof (cases "lp_AllocatedAddress src \<noteq> None \<and> lp_AllocatedAddress x \<noteq> lp_AllocatedAddress src")
      case False
      then show ?thesis using r P adr [OF sh, of x] by (intro exI [of _ "with_status x (update x)"]) auto
    next
      case True
      let ?y = "y\<lparr> lp_AllocatedAddress := lp_AllocatedAddress src, lp_Phase := PhaseReady \<rparr>" and ?p = "with_status x (update x)"
      obtain z where z: "k_UpdateStatus c w1 ?y = (Inr z, w')" using r True by (auto simp: err_of_None)
      have "stp w1 (kd_key peer_kind ?y) = Some ?p" using P(2,3) uk by simp
      note U = update_status_stored [OF assms(1) this _ z]
      have "shadows name label src ns cidr (with_status ?y ?p)" using adr [OF sh, of ?y] by (simp add: shadows_def)
      then show ?thesis using U P uk by (intro exI [of _ "with_status ?y ?p"]) (simp add: fun_eq_iff)
    qed
  qed
qed

lemma ensureShadowPeer_effect:
  assumes "peering_laws api stp stq stn stg" "ensureShadowPeer api env peering src ns net cidr w = (None, w')"
  shows "\<exists>s. shadows (shadowPeerName (np_Name peering)) (networkLabelKey (pge_sha env) net) src ns cidr s \<and>
     stp w' = (stp w)((ns, shadowPeerName (np_Name peering)) \<mapsto> s) \<and> stq w' = stq w \<and> stn w' = stn w"
  using upsert_shadow_effect [OF peering_lawsD(1,2) [OF assms(1)] assms(2) [unfolded ensureShadowPeer_def Let_def],
      of "shadowPeerName (np_Name peering)" "networkLabelKey (pge_sha env) net" ns cidr]
  by (auto simp: shadows_def shadow_peer_def)

definition same_policy :: "LatticePolicy \<Rightarrow> LatticePolicy \<Rightarrow> bool" where
  "same_policy p d \<longleftrightarrow>
     lc_Name p = lc_Name d \<and> lc_Namespace p = lc_Namespace d \<and> lc_Network p = lc_Network d \<and> lc_PeerSelector p = lc_PeerSelector d \<and>
     lc_Ingress p = lc_Ingress d \<and> lc_Egress p = lc_Egress d \<and> lc_Action p = lc_Action d"

lemma applyPolicy_effect:
  assumes "crud_ok policy_kind stq others c" "crud_fresh policy_kind stq c" "applyPolicy c d w = (None, w')"
  shows "\<exists>p. same_policy p d \<and> stq w' = (stq w)((lc_Namespace d, lc_Name d) \<mapsto> p) \<and> others w' = others w"
proof -
  consider (new) "k_Get c w (lc_Namespace d) (lc_Name d) = Inl KNotFound" | (old) x where "k_Get c w (lc_Namespace d) (lc_Name d) = Inr x"
    using assms(3) by (cases "k_Get c w (lc_Namespace d) (lc_Name d)") (auto simp: applyPolicy_def split: kube_error.splits)
  then show ?thesis
  proof cases
    case new
    then obtain y where "k_Create c w d = (Inr y, w')" using assms(3) by (auto simp: applyPolicy_def err_of_None)
    from create_Ok [OF assms(1) this] show ?thesis by (intro exI [of _ y]) (simp add: same_policy_def)
  next
    case old
    have x: "stq w (lc_Namespace d, lc_Name d) = Some x" by (rule fresh_Get [OF assms(2) old])
    have xk: "lc_Namespace x = lc_Namespace d" "lc_Name x = lc_Name d" using crud_okD(2) [OF assms(1) x] by simp_all
    obtain y where y: "k_Patch c w x (policy_spec_of d x) = (Inr y, w')" using old assms(3) by (auto simp: applyPolicy_def err_of_None)
    note P = patch_stored [OF assms(1) _ _ _ y, simplified, unfolded xk, OF x]
    then show ?thesis
      using xk by (intro exI [of _ "(policy_spec_of d x)\<lparr> lc_TargetNodes := lc_TargetNodes x, lc_RuleCount := lc_RuleCount x \<rparr>"])
        (simp add: same_policy_def policy_spec_of_def)
  qed
qed


lemma policy_fields [simp]:
  "lc_Name (gw_policy env peering net ns) = gwAccessPolicyName (np_Name peering)" "lc_Namespace (gw_policy env peering net ns) = ns"
  "lc_Name (shadow_policy env peering net ns) = shadowPolicyName (np_Name peering)" "lc_Namespace (shadow_policy env peering net ns) = ns"
  by (simp_all add: gw_policy_def shadow_policy_def gateway_access_def gateway_to_shadow_def)

lemma ensurePolicies_effect:
  assumes "peering_laws api stp stq stn stg" "ensurePolicies api env peering net ns w = (None, w')"
  shows "\<exists>p p'. same_policy p (gw_policy env peering net ns) \<and> same_policy p' (shadow_policy env peering net ns) \<and>
     stq w' = (stq w)((ns, gwAccessPolicyName (np_Name peering)) \<mapsto> p, (ns, shadowPolicyName (np_Name peering)) \<mapsto> p') \<and> stp w' = stp w \<and> stn w' = stn w"
proof -
  note L = peering_lawsD [OF assms(1)]
  obtain w1 where 1: "applyPolicy (pg_policies api) (gw_policy env peering net ns) w = (None, w1)"
    and 2: "applyPolicy (pg_policies api) (shadow_policy env peering net ns) w1 = (None, w')"
    using assms(2) by (auto simp: ensurePolicies_def then_do_None)
  show ?thesis
    using applyPolicy_effect [OF L(3,4) 1] applyPolicy_effect [OF L(3,4) 2]
    by simp metis
qed

lemma policy_names: "gwAccessPolicyName n \<noteq> shadowPolicyName n"
  by (simp add: gwAccessPolicyName_def shadowPolicyName_def)

text \<open>One side of the peering: the gateway announces the other network's range, the shadow of the other
  gateway is there, and so are the two policies.\<close>

definition side_linked ::
  "string \<Rightarrow> string \<Rightarrow> string \<Rightarrow> LatticePolicy \<Rightarrow> LatticePolicy \<Rightarrow> LatticePeer \<Rightarrow> LatticePeer \<Rightarrow> string \<Rightarrow> string \<Rightarrow>
   (objkey \<Rightarrow> LatticePeer option) \<Rightarrow> (objkey \<Rightarrow> LatticePolicy option) \<Rightarrow> bool" where
  "side_linked name route label access to_shadow gw src ns cidr peers policies \<longleftrightarrow>
     peers (ns, lp_Name gw) = Some (routed route cidr gw) \<and>
     (\<exists>s. peers (ns, name) = Some s \<and> shadows name label src ns cidr s) \<and>
     (\<exists>p. policies (ns, lc_Name access) = Some p \<and> same_policy p access) \<and>
     (\<exists>p. policies (ns, lc_Name to_shadow) = Some p \<and> same_policy p to_shadow)"

abbreviation peering_side ::
  "peering_env \<Rightarrow> LatticeNetworkPeering \<Rightarrow> LatticePeer \<Rightarrow> LatticePeer \<Rightarrow> string \<Rightarrow> string \<Rightarrow> string \<Rightarrow>
   (objkey \<Rightarrow> LatticePeer option) \<Rightarrow> (objkey \<Rightarrow> LatticePolicy option) \<Rightarrow> bool" where
  "peering_side env peering gw src ns net cidr \<equiv>
     side_linked (shadowPeerName (np_Name peering)) (peeringRouteAnnotationKey (pge_sha env) (np_Name peering))
       (networkLabelKey (pge_sha env) net) (gw_policy env peering net ns) (shadow_policy env peering net ns) gw src ns cidr"

lemma link_gateways_effect:
  assumes laws: "peering_laws api stp stq stn stg" and ne: "np_NamespaceA peering \<noteq> np_NamespaceB peering"
    and gA: "stp w (np_NamespaceA peering, lp_Name gA) = Some gA" "lp_Namespace gA = np_NamespaceA peering" "lp_Name gA \<noteq> shadowPeerName (np_Name peering)"
    and gB: "stp w (np_NamespaceB peering, lp_Name gB) = Some gB" "lp_Namespace gB = np_NamespaceB peering" "lp_Name gB \<noteq> shadowPeerName (np_Name peering)"
    and run: "link_gateways api env peering netA netB gA gB w = (None, w')"
  shows "peering_side env peering gA gB (np_NamespaceA peering) (ln_Name netA) (ln_ActiveCIDR netB) (stp w') (stq w') \<and>
     peering_side env peering gB gA (np_NamespaceB peering) (ln_Name netB) (ln_ActiveCIDR netA) (stp w') (stq w') \<and> stn w' = stn w"
proof -
  let ?k = "peeringRouteAnnotationKey (pge_sha env) (np_Name peering)" and ?sh = "shadowPeerName (np_Name peering)"
  obtain w1 w2 w3 w4 w5 where
      1: "ensureAnnotation api gA ?k (ln_ActiveCIDR netB) w = (None, w1)" and 2: "ensureAnnotation api gB ?k (ln_ActiveCIDR netA) w1 = (None, w2)"
    and 3: "ensureShadowPeer api env peering gA (np_NamespaceB peering) (ln_Name netB) (ln_ActiveCIDR netA) w2 = (None, w3)"
    and 4: "ensureShadowPeer api env peering gB (np_NamespaceA peering) (ln_Name netA) (ln_ActiveCIDR netB) w3 = (None, w4)"
    and 5: "ensurePolicies api env peering (ln_Name netA) (np_NamespaceA peering) w4 = (None, w5)"
    and 6: "ensurePolicies api env peering (ln_Name netB) (np_NamespaceB peering) w5 = (None, w')"
    using run by (auto simp: link_gateways_def Let_def then_do_None)
  have e1: "stp w1 = (stp w)((np_NamespaceA peering, lp_Name gA) \<mapsto> routed ?k (ln_ActiveCIDR netB) gA)"
    using ensureAnnotation_effect [OF laws _ 1] gA by simp
  have e2: "stp w2 = (stp w1)((np_NamespaceB peering, lp_Name gB) \<mapsto> routed ?k (ln_ActiveCIDR netA) gB)"
    using ensureAnnotation_effect [OF laws _ 2] gB e1 ne by simp
  obtain sB where sB: "shadows (shadowPeerName (np_Name peering)) (networkLabelKey (pge_sha env) (ln_Name netB)) gA (np_NamespaceB peering) (ln_ActiveCIDR netA) sB"
      "stp w3 = (stp w2)((np_NamespaceB peering, ?sh) \<mapsto> sB)"
    using ensureShadowPeer_effect [OF laws 3] by blast
  obtain sA where sA: "shadows (shadowPeerName (np_Name peering)) (networkLabelKey (pge_sha env) (ln_Name netA)) gB (np_NamespaceA peering) (ln_ActiveCIDR netB) sA"
      "stp w4 = (stp w3)((np_NamespaceA peering, ?sh) \<mapsto> sA)"
    using ensureShadowPeer_effect [OF laws 4] by blast
  obtain p p' where p: "same_policy p (gw_policy env peering (ln_Name netA) (np_NamespaceA peering))"
      "same_policy p' (shadow_policy env peering (ln_Name netA) (np_NamespaceA peering))"
      "stq w5 = (stq w4)((np_NamespaceA peering, gwAccessPolicyName (np_Name peering)) \<mapsto> p, (np_NamespaceA peering, shadowPolicyName (np_Name peering)) \<mapsto> p')"
      "stp w5 = stp w4" "stn w5 = stn w4"
    using ensurePolicies_effect [OF laws 5] by blast
  obtain q q' where q: "same_policy q (gw_policy env peering (ln_Name netB) (np_NamespaceB peering))"
      "same_policy q' (shadow_policy env peering (ln_Name netB) (np_NamespaceB peering))"
      "stq w' = (stq w5)((np_NamespaceB peering, gwAccessPolicyName (np_Name peering)) \<mapsto> q, (np_NamespaceB peering, shadowPolicyName (np_Name peering)) \<mapsto> q')"
      "stp w' = stp w5" "stn w' = stn w5"
    using ensurePolicies_effect [OF laws 6] by blast
  have "stn w' = stn w" using q(5) p(5) ensureShadowPeer_effect [OF laws 4] ensureShadowPeer_effect [OF laws 3]
      ensureAnnotation_effect [OF laws _ 2] ensureAnnotation_effect [OF laws _ 1] gA gB e1 ne by fastforce
  have st: "stp w' = (stp w)((np_NamespaceA peering, lp_Name gA) \<mapsto> routed ?k (ln_ActiveCIDR netB) gA,
      (np_NamespaceB peering, lp_Name gB) \<mapsto> routed ?k (ln_ActiveCIDR netA) gB, (np_NamespaceB peering, ?sh) \<mapsto> sB, (np_NamespaceA peering, ?sh) \<mapsto> sA)"
    by (simp only: q(4) p(4) sA(2) sB(2) e2 e1)
  show ?thesis
    unfolding side_linked_def st q(3) p(3)
    using \<open>stn w' = stn w\<close> p(1,2) q(1,2) sA(1) sB(1) ne gA(3) gB(3) policy_names [of "np_Name peering"] by simp
qed

text \<open>A successful reconcile: both networks are ready, both gateways are found, and the two sides are linked.\<close>

lemma peering_established:
  assumes laws: "peering_laws api stp stq stn stg" and ne: "np_NamespaceA peering \<noteq> np_NamespaceB peering"
    and named: "\<And>k g. stp w k = Some g \<Longrightarrow> map_of (lp_Labels g) LabelGateway = Some ''true'' \<Longrightarrow> lp_Name g \<noteq> shadowPeerName (np_Name peering)"
    and run: "reconcileNormal api env peering w = (Ok Done, w')"
  obtains netA netB gA gB where
    "stn w (np_NamespaceA peering, np_NetworkA peering) = Some netA" "ln_Name netA = np_NetworkA peering" "ln_ActiveCIDR netA \<noteq> []"
    "stn w (np_NamespaceB peering, np_NetworkB peering) = Some netB" "ln_Name netB = np_NetworkB peering" "ln_ActiveCIDR netB \<noteq> []"
    "stp w (np_NamespaceA peering, lp_Name gA) = Some gA" "label_match [(LabelGateway, ''true''), (networkLabelKey (pge_sha env) (np_NetworkA peering), ''true'')] (lp_Labels gA)"
    "stp w (np_NamespaceB peering, lp_Name gB) = Some gB" "label_match [(LabelGateway, ''true''), (networkLabelKey (pge_sha env) (np_NetworkB peering), ''true'')] (lp_Labels gB)"
    "peering_side env peering gA gB (np_NamespaceA peering) (np_NetworkA peering) (ln_ActiveCIDR netB) (stp w') (stq w')"
    "peering_side env peering gB gA (np_NamespaceB peering) (np_NetworkB peering) (ln_ActiveCIDR netA) (stp w') (stq w')"
    "stn w' = stn w" "lp_Namespace gA = np_NamespaceA peering" "lp_Namespace gB = np_NamespaceB peering"
proof -
  note L = peering_lawsD [OF laws]
  have ready: "stn w (ns, n) = Some x \<and> ln_Name x = n \<and> ln_ActiveCIDR x \<noteq> []" if "getReadyNetwork api env ns n w = Inr x" for ns n x
  proof -
    have "k_Get (pg_networks api) w ns n = Inr x" "ln_ActiveCIDR x \<noteq> []"
      using that by (auto simp: getReadyNetwork_def split: sum.splits if_splits)
    then show ?thesis using fresh_Get [OF L(7)] L(8) by blast
  qed
  have gw: "stp w (ns, lp_Name g) = Some g \<and> lp_Namespace g = ns \<and> label_match [(LabelGateway, ''true''), (networkLabelKey (pge_sha env) n, ''true'')] (lp_Labels g)"
    if found: "findGateway api env ns n w = Inr (Some g)" for ns n g
  proof -
    obtain gs where "k_List (pg_peers api) w (Some ns) [(LabelGateway, ''true''), (networkLabelKey (pge_sha env) n, ''true'')] = Inr (g # gs)"
      using found by (cases "k_List (pg_peers api) w (Some ns) [(LabelGateway, ''true''), (networkLabelKey (pge_sha env) n, ''true'')]")
        (auto simp: findGateway_def neq_Nil_conv split: list.splits)
    from fresh_List [OF L(2) this] show ?thesis by auto
  qed
  obtain netA netB gA gB w1 where r: "getReadyNetwork api env (np_NamespaceA peering) (np_NetworkA peering) w = Inr netA"
      "getReadyNetwork api env (np_NamespaceB peering) (np_NetworkB peering) w = Inr netB"
      "findGateway api env (np_NamespaceA peering) (np_NetworkA peering) w = Inr (Some gA)"
      "findGateway api env (np_NamespaceB peering) (np_NetworkB peering) w = Inr (Some gB)"
    and link: "link_gateways api env peering netA netB gA gB w = (None, w1)"
    and rd: "setReady api env peering (ln_ActiveCIDR netA) (ln_ActiveCIDR netB) w1 = (Ok Done, w')"
    using run by (auto simp: reconcileNormal_def setError_def Let_def split: sum.splits option.splits prod.splits)
  have nm: "lp_Name gA \<noteq> shadowPeerName (np_Name peering)" "lp_Name gB \<noteq> shadowPeerName (np_Name peering)"
    using gw [OF r(3)] gw [OF r(4)] named by (auto simp: label_match_def)
  have w': "stp w' = stp w1" "stq w' = stq w1" "stn w' = stn w1"
    using rd keeps_others(5) [OF L(5)] by (auto simp: setReady_def Let_def split: prod.splits sum.splits) (metis prod.inject snd_conv)+
  show ?thesis
    using link_gateways_effect [OF laws ne _ _ nm(1) _ _ nm(2) link] gw [OF r(3)] gw [OF r(4)] ready [OF r(1)] ready [OF r(2)] w'
    by (intro that [of netA netB gA gB]) auto
qed


section \<open>From the objects to the configurations\<close>

text \<open>The peer controller reads the same stores, and selects labels as Kubernetes does.\<close>

definition reads_stores ::
  "'w peer_api \<Rightarrow> ('w \<Rightarrow> objkey \<Rightarrow> LatticePeer option) \<Rightarrow> ('w \<Rightarrow> objkey \<Rightarrow> LatticePolicy option) \<Rightarrow> ('w \<Rightarrow> objkey \<Rightarrow> LatticeNetwork option) \<Rightarrow> 'w \<Rightarrow> bool" where
  "reads_stores papi stp stq stn w \<longleftrightarrow>
     (\<forall>ns n x. stn w (ns, n) = Some x \<longrightarrow> pa_GetNetwork papi w ns n = Ok x) \<and>
     (\<forall>ns k. case pa_ListPeers papi w ns None (Some k) of
        Inl _ \<Rightarrow> False
      | Inr ps \<Rightarrow> distinct ps \<and> set ps = {p. stp w (lp_Namespace p, lp_Name p) = Some p \<and> lp_Namespace p = ns \<and> has_label k p}) \<and>
     (\<forall>ns. case pa_ListPolicies papi w ns of
        Inl _ \<Rightarrow> False
      | Inr qs \<Rightarrow> set qs = {q. stq w (lc_Namespace q, lc_Name q) = Some q \<and> lc_Namespace q = ns})"

definition matches_labels :: "gen_env \<Rightarrow> bool" where
  "matches_labels genv \<longleftrightarrow> (\<forall>want ls. ge_sel genv (by_labels want) ls = label_match want ls)"

definition config_of :: "'w peer_api \<Rightarrow> peer_env \<Rightarrow> 'w \<Rightarrow> LatticePeer \<Rightarrow> string \<Rightarrow> (eval_error + Message) option" where
  "config_of papi penv w current version =
     generate (pe_gen penv) current (getPeerStateSnapshot papi penv current (lp_Namespace current) w) version"

text \<open>An entry of a comma-separated list.\<close>

definition listed :: "string \<Rightarrow> string \<Rightarrow> bool" where
  "listed c s \<longleftrightarrow> (\<exists>pre post. s = pre @ c @ post \<and> (pre = [] \<or> last pre = CHR '','') \<and> (post = [] \<or> hd post = CHR '',''))"

lemma listed_self [simp]: "listed c c"
  unfolding listed_def by (rule exI [of _ "[]"], rule exI [of _ "[]"]) simp

lemma listed_before: "listed c s \<Longrightarrow> listed c (x @ '','' @ s)"
  unfolding listed_def
proof (elim exE conjE)
  fix pre post
  assume "s = pre @ c @ post" "pre = [] \<or> last pre = CHR '',''" "post = [] \<or> hd post = CHR '',''"
  then show "\<exists>pre post. x @ '','' @ s = pre @ c @ post \<and> (pre = [] \<or> last pre = CHR '','') \<and> (post = [] \<or> hd post = CHR '','')"
    by (intro exI [of _ "x @ '','' @ pre"] exI [of _ post]) auto
qed

lemma listed_after: "listed c s \<Longrightarrow> listed c (s @ CHR '','' # x)"
  unfolding listed_def
proof (elim exE conjE)
  fix pre post
  assume "s = pre @ c @ post" "pre = [] \<or> last pre = CHR '',''" "post = [] \<or> hd post = CHR '',''"
  then show "\<exists>pre post. s @ CHR '','' # x = pre @ c @ post \<and> (pre = [] \<or> last pre = CHR '','') \<and> (post = [] \<or> hd post = CHR '','')"
    by (intro exI [of _ pre] exI [of _ "post @ CHR '','' # x"]) (auto simp: hd_append)
qed

lemma listed_add_ips: "listed c s \<Longrightarrow> listed c (add_ips x s)"
  using listed_before by (simp add: add_ips_def)

lemma Join_Cons: "Join (x # xs) = (if xs = [] then x else x @ CHR '','' # Join xs)"
  by (cases xs) (simp_all add: Join_def)

lemma listed_Join: "c \<in> set xs \<Longrightarrow> listed c (Join xs)"
  by (induction xs) (auto simp: Join_Cons intro: listed_after listed_before [of _ _ "_", simplified])

lemma route_key_prefix: "HasPrefix (peeringRouteAnnotationKey sha n) AnnotationPeeringRoutePrefix"
  using safeKeyName_prefix [of sha "''peering-route-''" n]
  by (auto simp: peeringRouteAnnotationKey_def AnnotationPeeringRoutePrefix_def HasPrefix_iff)

text \<open>The announced range is among the allowed addresses of the gateway, the range of the other network among
  those of its shadow.\<close>

lemma routed_listed:
  assumes "visit_ok visit" "cidr \<noteq> []" "HasPrefix k AnnotationPeeringRoutePrefix"
  shows "listed cidr (p_AllowedIPs (transferToPeer visit (routed k cidr g)))"
proof -
  let ?g = "routed k cidr g"
  have "map_of (lp_Annotations ?g) k = Some cidr"
    using assms(2) by (auto simp: routed_def label_get_def update_conv' split: option.splits)
  then have "(k, cidr) \<in> set (visit (lp_Annotations ?g))"
    using visit_set [OF assms(1)] by (auto dest: map_of_SomeD)
  moreover define er where "er = map snd (filter (\<lambda>(k, v). HasPrefix k AnnotationPeeringRoutePrefix \<and> v \<noteq> []) (visit (lp_Annotations ?g)))"
  ultimately have c: "cidr \<in> set er" using assms(2,3) by force
  then have "er \<noteq> []" by auto
  then have "\<exists>x. p_AllowedIPs (transferToPeer visit ?g) = add_ips x (Join er)"
    by (simp add: transferToPeer_def Let_def empty_peer_def er_def [symmetric] del: map_is_Nil_conv) blast
  then show ?thesis using listed_add_ips [OF listed_Join [OF c]] by auto
qed

lemma shadow_listed:
  assumes "visit_ok visit" "lp_Annotations s = [(AnnotationShadowAllowedIPs, cidr)]" "cidr \<noteq> []"
  shows "listed cidr (p_AllowedIPs (transferToPeer visit s))"
proof -
  have "set (visit (lp_Annotations s)) = {(AnnotationShadowAllowedIPs, cidr)}" using visit_set [OF assms(1)] assms(2) by simp
  then have "filter (\<lambda>(k, v). HasPrefix k AnnotationPeeringRoutePrefix \<and> v \<noteq> []) (visit (lp_Annotations s)) = []"
    by (auto simp: filter_empty_conv AnnotationShadowAllowedIPs_def AnnotationPeeringRoutePrefix_def HasPrefix_def)
  then show ?thesis
    using listed_add_ips [OF listed_self, of cidr] assms(2,3) by (simp add: transferToPeer_def Let_def label_get_def empty_peer_def)
qed


lemma distinct_map_sort: "distinct (map f (sort_key g xs)) = distinct (map f xs)"
  by (metis mset_map mset_sort mset_eq_imp_distinct_iff)

lemma reads_storesD:
  assumes "reads_stores papi stp stq stn w"
  shows "stn w (ns, n) = Some x \<Longrightarrow> pa_GetNetwork papi w ns n = Ok x"
    "\<exists>ps. pa_ListPeers papi w ns None (Some k) = Ok ps \<and> distinct ps \<and>
       set ps = {p. stp w (lp_Namespace p, lp_Name p) = Some p \<and> lp_Namespace p = ns \<and> has_label k p}"
    "\<exists>qs. pa_ListPolicies papi w ns = Ok qs \<and> set qs = {q. stq w (lc_Namespace q, lc_Name q) = Some q \<and> lc_Namespace q = ns}"
  using assms [unfolded reads_stores_def, THEN conjunct1, THEN spec, THEN spec, THEN spec, of ns n x]
    assms [unfolded reads_stores_def, THEN conjunct2, THEN conjunct1, THEN spec, THEN spec, of ns k]
    assms [unfolded reads_stores_def, THEN conjunct2, THEN conjunct2, THEN spec, of ns]
  by (auto split: sum.splits)

text \<open>Where a stored policy of the network that selects the node names a peer with an address, the node's
  configuration connects to it.\<close>

lemma configured_peer:
  assumes reads: "reads_stores papi stp stq stn w" and n: "stn w (ns, net) = Some n" "ln_Namespace n = ns" "ln_Name n = net"
    and visit: "visit_ok (ge_visit_peers (pe_gen penv))"
    and valid: "\<And>q. stq w (ns, lc_Name q) = Some q \<Longrightarrow> ge_valid (pe_gen penv) (lc_PeerSelector q)"
    and cur: "lp_Namespace cur = ns" "lp_Network cur = Some net" and conf: "config_of papi penv w cur version = Some (Ok msg)"
    and pol: "stq w (ns, lc_Name pol) = Some pol" "lc_Namespace pol = ns" "lc_Network pol = net" "ge_sel (pe_gen penv) (lc_PeerSelector pol) (lp_Labels cur)"
      "list_ex (\<lambda>r. rule_selects (ge_sel (pe_gen penv)) r (lp_Labels q)) (lc_Egress pol @ lc_Ingress pol)"
    and q: "stp w (ns, lp_Name q) = Some q" "lp_Namespace q = ns" "has_label (networkLabelKey (ge_sha (pe_gen penv)) net) q"
      "lp_AllocatedAddress q \<noteq> None" "lp_Name q \<noteq> lp_Name cur"
  shows "transferToPeer (ge_visit_ann (pe_gen penv)) q \<in> set (msg_ComputedPeers msg)"
proof -
  let ?env = "pe_gen penv" and ?k = "networkLabelKey (ge_sha (pe_gen penv)) net" and ?t = "transferToPeer (ge_visit_ann (pe_gen penv))"
  obtain ps where ps: "pa_ListPeers papi w ns None (Some ?k) = Ok ps" "distinct ps"
      "set ps = {p. stp w (lp_Namespace p, lp_Name p) = Some p \<and> lp_Namespace p = ns \<and> has_label ?k p}"
    using reads_storesD(2) [OF reads] by blast
  obtain qs where qs: "pa_ListPolicies papi w ns = Ok qs" "set qs = {q. stq w (lc_Namespace q, lc_Name q) = Some q \<and> lc_Namespace q = ns}"
    using reads_storesD(3) [OF reads] by blast
  define ss where "ss = getPeerStateSnapshot papi penv cur ns w"
  have val: "\<not> list_ex (\<lambda>p. \<not> ge_valid ?env (lc_PeerSelector p)) (filter (\<lambda>p. lc_Network p = net) qs)"
    using valid qs(2) by (auto simp: list_ex_iff)
  have gn: "pa_GetNetwork papi w ns net = Ok n" by (rule reads_storesD(1) [OF reads n(1)])
  have ss: "ss_Network ss = Some n" "ss_Peers ss = ps" "ss_Labels ss = lp_Labels cur"
      "ss_Policies ss = filter (\<lambda>p. ge_sel ?env (lc_PeerSelector p) (lp_Labels cur)) (filter (\<lambda>p. lc_Network p = net) qs)"
    unfolding ss_def getPeerStateSnapshot_def Let_def findPeersByNetwork_def filterPoliciesForNode_def
    using val by (simp_all add: cur n gn ps(1) qs(1))
  note gen = generate_Ok [OF conf [unfolded config_of_def cur(1), folded ss_def]]
  have nw: "nw_Peers (msg_Network msg) = sort_key p_Name (map ?t (filter (\<lambda>q. lp_AllocatedAddress q \<noteq> None) ps))"
    by (simp add: gen(3) snapshot_network_def ss)
  have "distinct (map lp_Name ps)"
    unfolding distinct_map using ps(2,3) by (auto simp: inj_on_def)
  then have "distinct (map p_Name (nw_Peers (msg_Network msg)))"
    unfolding nw distinct_map_sort map_map comp_def transferToPeer_fields by (rule distinct_map_filter)
  note comp = computed_peers_lemma [OF visit this, of "ge_valid ?env" "ge_sel ?env" "msg_Current msg" "ss_Policies ss", unfolded gen(1)]
  have "?t q \<in> set (nw_Peers (msg_Network msg))" using q ps(3) by (auto simp: nw)
  moreover have "connects (ge_sel ?env) (msg_Current msg) (ss_Policies ss) (?t q)"
    using pol q(5) qs(2) by (auto simp: connects_def gen(4,5) ss list_ex_iff)
  ultimately show ?thesis using comp by (auto split: if_splits)
qed


lemma by_labels_rule: "matches_labels genv \<Longrightarrow> rule_selects (ge_sel genv) (to_labelled want) ls = label_match want ls"
  by (simp add: rule_selects_def to_labelled_def matches_labels_def)

text \<open>What the configuration of a peer of one side must say: through the gateway, the other network's
  range; and for the gateway itself, through the shadow, with the other gateway's key.\<close>

definition routes ::
  "string \<Rightarrow> LatticePeer \<Rightarrow> LatticePeer \<Rightarrow> string \<Rightarrow> LatticePeer \<Rightarrow> Message \<Rightarrow> bool" where
  "routes shadow gw src cidr cur msg \<longleftrightarrow>
     (lp_Name cur \<noteq> lp_Name gw \<and> lp_AllocatedAddress gw \<noteq> None \<longrightarrow>
        (\<exists>q\<in>set (msg_ComputedPeers msg). p_Name q = lp_Name gw \<and> p_PublicKey q = lp_PublicKey gw \<and> listed cidr (p_AllowedIPs q))) \<and>
     (lp_Name cur = lp_Name gw \<and> lp_AllocatedAddress src \<noteq> None \<longrightarrow>
        (\<exists>q\<in>set (msg_ComputedPeers msg). p_Name q = shadow \<and> p_PublicKey q = lp_PublicKey src \<and> listed cidr (p_AllowedIPs q)))"

lemma routed_fields [simp]:
  "lp_Name (routed k v g) = lp_Name g" "lp_Namespace (routed k v g) = lp_Namespace g" "lp_Labels (routed k v g) = lp_Labels g"
  "lp_AllocatedAddress (routed k v g) = lp_AllocatedAddress g" "lp_PublicKey (routed k v g) = lp_PublicKey g"
  by (simp_all add: routed_def)

lemma side_routes:
  assumes side: "side_linked sh k (networkLabelKey (ge_sha (pe_gen penv)) net) (gateway_access gn ns ls net) (gateway_to_shadow sn ns ls net) gw src ns cidr (stp w) (stq w)"
      "cidr \<noteq> []" "HasPrefix k AnnotationPeeringRoutePrefix"
    and gw: "label_match [(LabelGateway, ''true''), (networkLabelKey (ge_sha (pe_gen penv)) net, ''true'')] (lp_Labels gw)" "lp_Namespace gw = ns"
    and reads: "reads_stores papi stp stq stn w" and n: "stn w (ns, net) = Some n" "ln_Namespace n = ns" "ln_Name n = net"
    and env: "matches_labels (pe_gen penv)" "visit_ok (ge_visit_peers (pe_gen penv))" "visit_ok (ge_visit_ann (pe_gen penv))"
    and valid: "\<And>q. stq w (ns, lc_Name q) = Some q \<Longrightarrow> ge_valid (pe_gen penv) (lc_PeerSelector q)"
    and cur: "stp w (ns, lp_Name cur) = Some cur" "lp_Namespace cur = ns" "lp_Network cur = Some net"
    and ne: "lp_Name gw \<noteq> sh"
    and conf: "config_of papi penv w cur version = Some (Ok msg)"
  shows "routes sh gw src cidr cur msg"
proof -
  let ?t = "transferToPeer (ge_visit_ann (pe_gen penv))"
    and ?g = "routed k cidr gw"
  note C = configured_peer [OF reads n env(2) valid cur(2,3) conf]
  have g: "stp w (ns, lp_Name gw) = Some ?g" using side(1) by (simp add: side_linked_def)
  obtain s where s: "stp w (ns, sh) = Some s" "shadows sh (networkLabelKey (ge_sha (pe_gen penv)) net) src ns cidr s" using side(1) by (auto simp: side_linked_def gateway_access_def gateway_to_shadow_def)
  obtain p where p: "stq w (ns, gn) = Some p" "same_policy p (gateway_access gn ns ls net)"
    using side(1) by (auto simp: side_linked_def gateway_access_def gateway_to_shadow_def)
  obtain p' where p': "stq w (ns, sn) = Some p'" "same_policy p' (gateway_to_shadow sn ns ls net)"
    using side(1) by (auto simp: side_linked_def gateway_access_def gateway_to_shadow_def)
  have sel: "ge_sel (pe_gen penv) (by_labels want) ls = label_match want ls" for want ls using env(1) by (simp add: matches_labels_def)
  have "\<exists>q\<in>set (msg_ComputedPeers msg). p_Name q = lp_Name gw \<and> p_PublicKey q = lp_PublicKey gw \<and> listed cidr (p_AllowedIPs q)"
    if "lp_Name cur \<noteq> lp_Name gw" "lp_AllocatedAddress gw \<noteq> None"
  proof (rule bexI [of _ "?t ?g"])
    show "?t ?g \<in> set (msg_ComputedPeers msg)"
    proof (rule C)
      show "stq w (ns, lc_Name p) = Some p" using p by (simp add: same_policy_def gateway_access_def)
    qed (use p(2) that g gw in \<open>auto simp: same_policy_def gateway_access_def sel by_labels_rule [OF env(1)] has_label_def label_match_def\<close>)
    show "p_Name (?t ?g) = lp_Name gw \<and> p_PublicKey (?t ?g) = lp_PublicKey gw \<and> listed cidr (p_AllowedIPs (?t ?g))"
      using routed_listed [OF env(3) side(2,3)] by (simp add: transferToPeer_def Let_def)
  qed
  moreover have "\<exists>q\<in>set (msg_ComputedPeers msg). p_Name q = sh \<and> p_PublicKey q = lp_PublicKey src \<and> listed cidr (p_AllowedIPs q)"
    if "lp_Name cur = lp_Name gw" "lp_AllocatedAddress src \<noteq> None"
  proof (rule bexI [of _ "?t s"])
    have cg: "lp_Labels cur = lp_Labels gw" using cur(1) g that(1) routed_fields(3) by (metis option.inject)
    show "?t s \<in> set (msg_ComputedPeers msg)"
    proof (rule C)
      show "stq w (ns, lc_Name p') = Some p'" using p' by (simp add: same_policy_def gateway_to_shadow_def)
      show "stp w (ns, lp_Name s) = Some s" using s by (simp add: shadows_def)
    qed (use p'(2) that s(2) gw(1) ne cg in \<open>auto simp: shadows_def same_policy_def gateway_to_shadow_def sel by_labels_rule [OF env(1)] has_label_def label_match_def LabelShadow_def\<close>)
    show "p_Name (?t s) = sh \<and> p_PublicKey (?t s) = lp_PublicKey src \<and> listed cidr (p_AllowedIPs (?t s))"
      using shadow_listed [OF env(3) _ side(2)] s(2) by (simp add: shadows_def transferToPeer_def Let_def)
  qed
  ultimately show ?thesis unfolding routes_def by blast
qed




text \<open>Two namespaces with a network and a gateway each.\<close>

record peering_world =
  pw_peers :: "LatticePeer list"
  pw_policies :: "LatticePolicy list"
  pw_networks :: "LatticeNetwork list"
  pw_peerings :: "LatticeNetworkPeering list"

definition demo_created :: "LatticePeer \<Rightarrow> LatticePeer" where
  "demo_created x = with_status empty_LatticePeer (x\<lparr> lp_UID := lp_Namespace x @ lp_Name x, lp_Deleting := False \<rparr>)"

definition demo_peering_api :: "'a peering_world_scheme peering_api" where
  "demo_peering_api =
     \<lparr> pg_peerings = store_crud peering_kind
         (\<lambda>x. x\<lparr> np_Deleting := False, np_Phase := NetPhaseNone, np_CIDRA := [], np_CIDRB := [], np_Conditions := [] \<rparr>)
         pw_peerings (\<lambda>xs w. w\<lparr> pw_peerings := xs \<rparr>),
       pg_networks = store_crud network_kind (\<lambda>x. x\<lparr> ln_Phase := NetPhaseNone, ln_ActiveCIDR := [], ln_AllocatedCount := 0 \<rparr>)
         pw_networks (\<lambda>xs w. w\<lparr> pw_networks := xs \<rparr>),
       pg_peers = store_crud peer_kind demo_created pw_peers (\<lambda>xs w. w\<lparr> pw_peers := xs \<rparr>),
       pg_policies = store_crud policy_kind (\<lambda>x. x\<lparr> lc_TargetNodes := 0, lc_RuleCount := 0 \<rparr>) pw_policies (\<lambda>xs w. w\<lparr> pw_policies := xs \<rparr>) \<rparr>"

lemma demo_peering_laws:
  "peering_laws demo_peering_api (\<lambda>w. lookup peer_kind (pw_peers w)) (\<lambda>w. lookup policy_kind (pw_policies w))
     (\<lambda>w. lookup network_kind (pw_networks w)) (\<lambda>w. lookup peering_kind (pw_peerings w))"
  unfolding peering_laws_def demo_peering_api_def peering_api.simps
proof (intro conjI allI impI)
  fix w k n
  assume "lookup network_kind (pw_networks w) k = Some n"
  from lookup_key [OF this] show "(ln_Namespace n, ln_Name n) = k" by simp
qed (rule store_crud_fresh | (rule store_crud_ok [OF kinds_ok(1)] store_crud_ok [OF kinds_ok(2)] store_crud_ok [OF kinds_ok(4)]; simp add: demo_created_def))+


definition demo_store_api :: "'a peering_world_scheme peer_api" where
  "demo_store_api =
     \<lparr> pa_GetPeer = k_Get (pg_peers demo_peering_api),
       pa_UpdatePeer = (\<lambda>w p. err_of (k_Update (pg_peers demo_peering_api) w p)),
       pa_PatchPeer = k_Patch (pg_peers demo_peering_api),
       pa_PatchStatus = k_PatchStatus (pg_peers demo_peering_api),
       pa_GetNetwork = k_Get (pg_networks demo_peering_api),
       pa_ListPeers = (\<lambda>w ns s l. k_List (pg_peers demo_peering_api) w (Some ns)
          ((case s of None \<Rightarrow> [] | Some s \<Rightarrow> ls_MatchLabels s) @ (case l of None \<Rightarrow> [] | Some k \<Rightarrow> [(k, ''true'')]))),
       pa_ListPolicies = (\<lambda>w ns. k_List (pg_policies demo_peering_api) w (Some ns) []),
       pa_GetConfigMap = (\<lambda>w ns n. Err KNotFound), pa_ApplyConfigMap = (\<lambda>w c. (None, w)), pa_SetController = None,
       pa_GenerateKey = (\<lambda>w. Ok ([], [])),
       pa_ipam = \<lparr> api_ListSubnets = (\<lambda>w. Ok []), api_CreateSubnet = (\<lambda>w a. (None, w)), api_ListEndpoints = (\<lambda>w ns. Ok []),
         api_CreateEndpoint = (\<lambda>w e. (None, w)), api_DeleteEndpoint = (\<lambda>w ns n. (None, w)), api_SetOwner = None \<rparr> \<rparr>"

lemma demo_reads_stores:
  "reads_stores demo_store_api (\<lambda>w. lookup peer_kind (pw_peers w)) (\<lambda>w. lookup policy_kind (pw_policies w)) (\<lambda>w. lookup network_kind (pw_networks w)) w"
  unfolding reads_stores_def demo_store_api_def demo_peering_api_def store_crud_def
  by (auto simp: label_match_def has_label_def dest: lookup_in)

definition demo_selecting_env :: peer_env where
  "demo_selecting_env = demo_peer_env\<lparr> pe_gen := demo_env\<lparr> ge_sel := (\<lambda>s ls. label_match (ls_MatchLabels s) ls) \<rparr> \<rparr>"

definition demo_peering_env :: peering_env where
  "demo_peering_env = \<lparr> pge_sha = (\<lambda>_. replicate 32 0), pge_now = 0, pge_Error = (\<lambda>_. ''error'') \<rparr>"

definition demo_peering :: LatticeNetworkPeering where
  "demo_peering =
     \<lparr> np_Name = ''ab'', np_Deleting = False, np_Finalizers = [PeeringFinalizer], np_NamespaceA = ''a'', np_NetworkA = ''net'',
       np_NamespaceB = ''b'', np_NetworkB = ''net'', np_PeeringMode = ''gateway'', np_Phase = NetPhaseNone, np_CIDRA = [], np_CIDRB = [],
       np_Conditions = [] \<rparr>"

definition demo_gateway :: "string \<Rightarrow> string \<Rightarrow> LatticePeer" where
  "demo_gateway ns addr =
     (demo_peer ''gw'' addr)\<lparr> lp_Namespace := ns, lp_UID := ns, lp_Labels := [(LabelGateway, ''true''), (''alattice.io/network-net'', ''true'')] \<rparr>"

definition demo_peering_world :: peering_world where
  "demo_peering_world =
     \<lparr> pw_peers = [demo_gateway ''a'' ''10.0.0.2'', demo_gateway ''b'' ''10.1.0.2''], pw_policies = [],
       pw_networks = [demo_net\<lparr> ln_Namespace := ''a'' \<rparr>, demo_net\<lparr> ln_Namespace := ''b'', ln_ActiveCIDR := ''10.1.0.0/24'' \<rparr>],
       pw_peerings = [demo_peering] \<rparr>"

lemma demo_reconcile: "fst (reconcileNormal demo_peering_api demo_peering_env demo_peering demo_peering_world) = Ok Done"
  by code_simp




section \<open>Two networks of one namespace\<close>

text \<open>In one namespace the two shadows have the same name, and the second replaces the first: a successful
  reconcile leaves no shadow of the first gateway there.\<close>

theorem same_namespace_loses_shadow:
  assumes "peering_laws api stp stq stn stg" "np_NamespaceA peering = np_NamespaceB peering"
    and "link_gateways api env peering netA netB gA gB w = (None, w')" "lp_PublicKey gA \<noteq> lp_PublicKey gB"
  shows "\<exists>s. stp w' (np_NamespaceA peering, shadowPeerName (np_Name peering)) = Some s \<and> lp_PublicKey s = lp_PublicKey gB \<and>
    \<not> shadows (shadowPeerName (np_Name peering)) (networkLabelKey (pge_sha env) (ln_Name netB)) gA (np_NamespaceB peering) (ln_ActiveCIDR netA) s"
proof -
  obtain w3 w4 w5 where
      4: "ensureShadowPeer api env peering gB (np_NamespaceA peering) (ln_Name netA) (ln_ActiveCIDR netB) w3 = (None, w4)"
    and 5: "ensurePolicies api env peering (ln_Name netA) (np_NamespaceA peering) w4 = (None, w5)"
    and 6: "ensurePolicies api env peering (ln_Name netB) (np_NamespaceB peering) w5 = (None, w')"
    using assms(3) by (auto simp: link_gateways_def Let_def then_do_None)
  have "stp w' = stp w4" using ensurePolicies_effect [OF assms(1) 5] ensurePolicies_effect [OF assms(1) 6] by metis
  then show ?thesis
    using ensureShadowPeer_effect [OF assms(1) 4] assms(4) by (auto simp: shadows_def)
qed

text \<open>The policies of a peering do not let the gateway itself see the peers of its own network: they name
  gateways and shadows only.\<close>

theorem peering_policies_name_no_local_peer:
  assumes "matches_labels genv" "pol = gw_policy env peering net ns \<or> pol = shadow_policy env peering net ns"
    and "map_of ls LabelGateway \<noteq> Some ''true''" "map_of ls LabelShadow \<noteq> Some ''true''"
  shows "\<not> list_ex (\<lambda>r. rule_selects (ge_sel genv) r ls) (lc_Egress pol @ lc_Ingress pol)"
  using assms by (auto simp: gw_policy_def shadow_policy_def gateway_access_def gateway_to_shadow_def by_labels_rule label_match_def)

end
