(* ===== verification/Cluster_Peering.thy ===== *)
theory Cluster_Peering
  imports Peering
begin

text \<open>
  Peering with a network of another cluster (\<open>internal/agent/controller/cluster_peering_controller.go\<close>). The
  remote cluster is asked over HTTP for its gateway; what it answers and how the JSON text is decoded
  are parameters. Locally the controller does what the network peering does on one side, with its own
  names.
\<close>

section \<open>Objects\<close>

record LatticeCluster =
  lk_Name :: string
  lk_ManagementEndpoint :: string
  lk_CredentialRef :: string

datatype ClusterPeeringPhase = CPhaseNone | CPhasePending | CPhaseReady | CPhaseError

record LatticeClusterPeering =
  cp_Name :: string
  cp_Deleting :: bool
  cp_Finalizers :: "string list"
  cp_LocalNamespace :: string
  cp_LocalNetwork :: string
  cp_RemoteCluster :: string
  cp_RemoteNamespace :: string
  cp_RemoteNetwork :: string
  cp_Phase :: ClusterPeeringPhase
  cp_LocalCIDR :: string
  cp_RemoteCIDR :: string
  cp_Conditions :: "Condition list"

record GatewayInfo =
  gi_PublicKey :: string
  gi_GatewayIP :: string
  gi_CIDR :: string
  gi_AppID :: string
  gi_PeerID :: string

text \<open>The local stores are those of the network peering; \<open>ca_ListSecrets\<close> lists the data of the secrets with the
  credential's label, \<open>ca_http\<close> is the answer to a GET request with an authorization header.\<close>

record 'w cluster_api =
  ca_local :: "'w peering_api"
  ca_peerings :: "('w, LatticeClusterPeering) crud"
  ca_GetCluster :: "'w \<Rightarrow> string \<Rightarrow> kube_error + LatticeCluster"
  ca_ListSecrets :: "'w \<Rightarrow> string \<Rightarrow> kube_error + (string \<times> string) list list"
  ca_http :: "'w \<Rightarrow> string \<Rightarrow> string \<Rightarrow> string + int \<times> string"

record cluster_env =
  ce_now :: int
  ce_Error :: "kube_error \<Rightarrow> string"
  ce_decode :: "string \<Rightarrow> string + GatewayInfo"
  ce_show :: "GatewayInfo \<Rightarrow> string"

definition clusterPeeringFinalizer :: string where "clusterPeeringFinalizer = ''alattice.io/cluster-peering-finalizer''"

definition cluster_shadow_name :: "string \<Rightarrow> string" where "cluster_shadow_name n = ''cluster-shadow-'' @ n"
definition cluster_gw_name :: "string \<Rightarrow> string" where "cluster_gw_name n = ''lattice-cpeering-'' @ n @ ''-gw-access''"
definition cluster_policy_name :: "string \<Rightarrow> string" where "cluster_policy_name n = ''lattice-cpeering-'' @ n @ ''-shadow''"
definition raw_network_label :: "string \<Rightarrow> string" where "raw_network_label n = ''alattice.io/network-'' @ n"

section \<open>The remote side\<close>

definition loadCredential :: "'w cluster_api \<Rightarrow> cluster_env \<Rightarrow> string \<Rightarrow> 'w \<Rightarrow> string + string" where
  "loadCredential api env secretName w =
     (case ca_ListSecrets api w secretName of
        Inl e \<Rightarrow> Err (ce_Error env e)
      | Inr [] \<Rightarrow> Err (''secret '' @ quoted secretName @ '' not found (label alattice.io/cluster-credential='' @ secretName @ '')'')
      | Inr (s # _) \<Rightarrow>
          (case map_of s ''token'' of
             None \<Rightarrow> Err (''secret '' @ quoted secretName @ '' missing key '' @ [CHR 0x27] @ ''token'' @ [CHR 0x27])
           | Some token \<Rightarrow> Ok token))"

definition gateway_info_url :: "string \<Rightarrow> string \<Rightarrow> string \<Rightarrow> string" where
  "gateway_info_url endpoint ns network = endpoint @ ''/api/v1/peering/gateway-info?namespace='' @ ns @ ''&network='' @ network"

definition fetchGatewayInfo ::
  "'w cluster_api \<Rightarrow> cluster_env \<Rightarrow> string \<Rightarrow> string \<Rightarrow> string \<Rightarrow> string \<Rightarrow> 'w \<Rightarrow> string + GatewayInfo" where
  "fetchGatewayInfo api env endpoint token ns network w =
     (case ca_http api w (gateway_info_url endpoint ns network) (''Bearer '' @ token) of
        Inl e \<Rightarrow> Err e
      | Inr (code, body) \<Rightarrow>
          if code \<noteq> 200 then Err (''remote gateway-info returned '' @ dec_int code @ '': '' @ take 512 body)
          else (case ce_decode env body of
                  Inl e \<Rightarrow> Err (''decode gateway-info response: '' @ e)
                | Inr info \<Rightarrow>
                    if gi_PublicKey info = [] \<or> gi_GatewayIP info = [] \<or> gi_CIDR info = []
                    then Err (''incomplete gateway-info: '' @ ce_show env info) else Ok info))"

section \<open>The local side\<close>

definition getReadyNetworkForCluster :: "'w cluster_api \<Rightarrow> cluster_env \<Rightarrow> string \<Rightarrow> string \<Rightarrow> 'w \<Rightarrow> string + LatticeNetwork" where
  "getReadyNetworkForCluster api env ns name w =
     (case k_Get (pg_networks (ca_local api)) w ns name of
        Inl e \<Rightarrow> Err (ce_Error env e)
      | Inr network \<Rightarrow>
          if ln_Phase network \<noteq> NetPhaseReady \<or> ln_ActiveCIDR network = []
          then Err (''network '' @ ns @ ''/'' @ name @ '' not ready'') else Ok network)"

definition findGatewayForCluster :: "'w cluster_api \<Rightarrow> string \<Rightarrow> string \<Rightarrow> 'w \<Rightarrow> kube_error + LatticePeer option" where
  "findGatewayForCluster api ns networkName w =
     (case k_List (pg_peers (ca_local api)) w (Some ns) [(LabelGateway, ''true''), (raw_network_label networkName, ''true'')] of
        Inl e \<Rightarrow> Err e
      | Inr [] \<Rightarrow> Ok None
      | Inr (g # _) \<Rightarrow> Ok (Some g))"

definition cluster_shadow :: "LatticeClusterPeering \<Rightarrow> GatewayInfo \<Rightarrow> string \<Rightarrow> LatticePeer" where
  "cluster_shadow cp info networkName =
     empty_LatticePeer\<lparr> lp_Name := cluster_shadow_name (cp_Name cp), lp_Namespace := cp_LocalNamespace cp,
       lp_Labels := [(LabelShadow, ''true''), (raw_network_label networkName, ''true'')],
       lp_Annotations := [(AnnotationShadowAllowedIPs, gi_CIDR info)],
       lp_PublicKey := gi_PublicKey info, lp_AppId := gi_AppID info, lp_PeerId := gi_PeerID info \<rparr>"

definition ensureRemoteGatewayShadow ::
  "'w cluster_api \<Rightarrow> LatticeClusterPeering \<Rightarrow> GatewayInfo \<Rightarrow> string \<Rightarrow> 'w \<Rightarrow> kube_error option \<times> 'w" where
  "ensureRemoteGatewayShadow api cp info networkName w =
     (let desired = cluster_shadow cp info networkName
      in upsert_shadow (pg_peers (ca_local api)) desired
           (\<lambda>existing. existing\<lparr> lp_Labels := lp_Labels desired, lp_Annotations := lp_Annotations desired,
              lp_PublicKey := lp_PublicKey desired, lp_AppId := lp_AppId desired \<rparr>)
           (Some (gi_GatewayIP info)) w)"

definition ensurePoliciesForCluster :: "'w cluster_api \<Rightarrow> LatticeClusterPeering \<Rightarrow> string \<Rightarrow> 'w \<Rightarrow> kube_error option \<times> 'w" where
  "ensurePoliciesForCluster api cp networkName w =
     (let ls = [(''alattice.io/cluster-peering'', cp_Name cp)]; policies = pg_policies (ca_local api)
      in then_do (applyPolicy policies (gateway_access (cluster_gw_name (cp_Name cp)) (cp_LocalNamespace cp) ls networkName) w)
           (applyPolicy policies (gateway_to_shadow (cluster_policy_name (cp_Name cp)) (cp_LocalNamespace cp) ls networkName)))"

definition setClusterPeeringReady ::
  "'w cluster_api \<Rightarrow> cluster_env \<Rightarrow> LatticeClusterPeering \<Rightarrow> string \<Rightarrow> string \<Rightarrow> 'w \<Rightarrow> (kube_error + rec_result) \<times> 'w" where
  "setClusterPeeringReady api env cp localCIDR remoteCIDR w =
     (let c = \<lparr> cd_Type = ''Ready'', cd_Status = True, cd_Reason = ''ClusterPeeringEstablished'',
               cd_Message = ''cross-cluster peering '' @ localCIDR @ '' '' @ map char_of ([0xE2, 0x86, 0x94] :: nat list) @ '' '' @ remoteCIDR @ '' established'',
               cd_LastTransitionTime = ce_now env \<rparr>
      in case k_PatchStatus (ca_peerings api) w cp
                (cp\<lparr> cp_Phase := CPhaseReady, cp_LocalCIDR := localCIDR, cp_RemoteCIDR := remoteCIDR,
                   cp_Conditions := setCondition (cp_Conditions cp) c \<rparr>) of
           (Inl e, w') \<Rightarrow> (Err e, w')
         | (Inr _, w') \<Rightarrow> (Ok (RequeueAfter (seconds 300)), w'))"

definition setClusterPeeringError ::
  "'w cluster_api \<Rightarrow> cluster_env \<Rightarrow> LatticeClusterPeering \<Rightarrow> string \<Rightarrow> 'w \<Rightarrow> (kube_error + rec_result) \<times> 'w" where
  "setClusterPeeringError api env cp msg w =
     (let c = \<lparr> cd_Type = ''Ready'', cd_Status = False, cd_Reason = ''ClusterPeeringError'', cd_Message = msg, cd_LastTransitionTime = ce_now env \<rparr>
      in (Ok (RequeueAfter (seconds 30)),
          snd (k_PatchStatus (ca_peerings api) w cp (cp\<lparr> cp_Phase := CPhaseError, cp_Conditions := setCondition (cp_Conditions cp) c \<rparr>))))"

section \<open>Reconciling\<close>

definition link_remote ::
  "'w cluster_api \<Rightarrow> cluster_env \<Rightarrow> LatticeClusterPeering \<Rightarrow> GatewayInfo \<Rightarrow> LatticeNetwork \<Rightarrow> 'w \<Rightarrow> (kube_error + rec_result) \<times> 'w" where
  "link_remote api env cp info localNetwork w =
     (case ensureRemoteGatewayShadow api cp info (ln_Name localNetwork) w of
        (Some e, w1) \<Rightarrow> (Err e, w1)
      | (None, w1) \<Rightarrow>
     (case findGatewayForCluster api (cp_LocalNamespace cp) (cp_LocalNetwork cp) w1 of
        Inr (Some localGW) \<Rightarrow>
          (case then_do (ensureAnnotation (ca_local api) localGW (AnnotationPeeringRoutePrefix @ cp_Name cp) (gi_CIDR info) w1)
                  (ensurePoliciesForCluster api cp (ln_Name localNetwork)) of
             (Some e, w2) \<Rightarrow> (Err e, w2)
           | (None, w2) \<Rightarrow> setClusterPeeringReady api env cp (ln_ActiveCIDR localNetwork) (gi_CIDR info) w2)
      | Inr None \<Rightarrow> setClusterPeeringError api env cp ''no local gateway: <nil>'' w1
      | Inl e \<Rightarrow> setClusterPeeringError api env cp (''no local gateway: '' @ ce_Error env e) w1))"

definition cluster_reconcileNormal ::
  "'w cluster_api \<Rightarrow> cluster_env \<Rightarrow> LatticeClusterPeering \<Rightarrow> 'w \<Rightarrow> (kube_error + rec_result) \<times> 'w" where
  "cluster_reconcileNormal api env cp w =
     (case ca_GetCluster api w (cp_RemoteCluster cp) of
        Inl e \<Rightarrow> setClusterPeeringError api env cp (''LatticeCluster '' @ quoted (cp_RemoteCluster cp) @ '' not found: '' @ ce_Error env e) w
      | Inr cluster \<Rightarrow>
     (case loadCredential api env (lk_CredentialRef cluster) w of
        Inl e \<Rightarrow> setClusterPeeringError api env cp (''credential load failed: '' @ e) w
      | Inr token \<Rightarrow>
     (case fetchGatewayInfo api env (lk_ManagementEndpoint cluster) token (cp_RemoteNamespace cp) (cp_RemoteNetwork cp) w of
        Inl e \<Rightarrow> setClusterPeeringError api env cp (''remote gateway info: '' @ e) w
      | Inr info \<Rightarrow>
     (case getReadyNetworkForCluster api env (cp_LocalNamespace cp) (cp_LocalNetwork cp) w of
        Inl e \<Rightarrow> setClusterPeeringError api env cp (''local network not ready: '' @ e) w
      | Inr localNetwork \<Rightarrow> link_remote api env cp info localNetwork w))))"

definition cluster_reconcileDelete :: "'w cluster_api \<Rightarrow> LatticeClusterPeering \<Rightarrow> 'w \<Rightarrow> (kube_error + rec_result) \<times> 'w" where
  "cluster_reconcileDelete api cp w =
     (let w1 = (case findGatewayForCluster api (cp_LocalNamespace cp) (cp_LocalNetwork cp) w of
                  Inr (Some gw) \<Rightarrow> snd (removeAnnotation (ca_local api) gw (AnnotationPeeringRoutePrefix @ cp_Name cp) w)
                | _ \<Rightarrow> w);
          w2 = snd (delete_if_exists (pg_peers (ca_local api)) (cp_LocalNamespace cp) (cluster_shadow_name (cp_Name cp)) w1);
          w3 = snd (delete_if_exists (pg_policies (ca_local api)) (cp_LocalNamespace cp) (cluster_gw_name (cp_Name cp)) w2);
          w4 = snd (delete_if_exists (pg_policies (ca_local api)) (cp_LocalNamespace cp) (cluster_policy_name (cp_Name cp)) w3)
      in case k_Update (ca_peerings api) w4 (cp\<lparr> cp_Finalizers := filter (\<lambda>f. f \<noteq> clusterPeeringFinalizer) (cp_Finalizers cp) \<rparr>) of
           (Inl e, w') \<Rightarrow> (Err e, w')
         | (Inr _, w') \<Rightarrow> (Ok Done, w'))"

definition cluster_Reconcile :: "'w cluster_api \<Rightarrow> cluster_env \<Rightarrow> string \<Rightarrow> 'w \<Rightarrow> (kube_error + rec_result) \<times> 'w" where
  "cluster_Reconcile api env name w =
     (case k_Get (ca_peerings api) w [] name of
        Inl KNotFound \<Rightarrow> (Ok Done, w)
      | Inl e \<Rightarrow> (Err e, w)
      | Inr cp \<Rightarrow>
          if cp_Deleting cp then cluster_reconcileDelete api cp w
          else if clusterPeeringFinalizer \<notin> set (cp_Finalizers cp) then
            (case k_Update (ca_peerings api) w (cp\<lparr> cp_Finalizers := cp_Finalizers cp @ [clusterPeeringFinalizer] \<rparr>) of
               (Inl e, w') \<Rightarrow> (Err e, w')
             | (Inr _, w') \<Rightarrow> (Ok Requeue, w'))
          else cluster_reconcileNormal api env cp w)"


section \<open>A peering with another cluster carries traffic\<close>

definition cluster_peering_kind :: "LatticeClusterPeering kind" where
  "cluster_peering_kind =
     \<lparr> kd_key = (\<lambda>p. ([], cp_Name p)), kd_labels = (\<lambda>p. []), kd_gone = (\<lambda>p. cp_Deleting p \<and> cp_Finalizers p = []),
       kd_delete = (\<lambda>p. if cp_Finalizers p = [] then None else Some (p\<lparr> cp_Deleting := True \<rparr>)),
       kd_status = (\<lambda>x y. y\<lparr> cp_Phase := cp_Phase x, cp_LocalCIDR := cp_LocalCIDR x, cp_RemoteCIDR := cp_RemoteCIDR x, cp_Conditions := cp_Conditions x \<rparr>),
       kd_created = (\<lambda>x y. y = x\<lparr> cp_Deleting := False, cp_Phase := CPhaseNone, cp_LocalCIDR := [], cp_RemoteCIDR := [], cp_Conditions := [] \<rparr>) \<rparr>"

definition remote_gateway :: "GatewayInfo \<Rightarrow> LatticePeer" where
  "remote_gateway info = empty_LatticePeer\<lparr> lp_AppId := gi_AppID info, lp_PublicKey := gi_PublicKey info, lp_AllocatedAddress := Some (gi_GatewayIP info) \<rparr>"

lemma remote_shadow_effect:
  assumes "peering_laws (ca_local api) stp stq stn stg" "ensureRemoteGatewayShadow api cp info net w = (None, w')"
  shows "\<exists>s. shadows (cluster_shadow_name (cp_Name cp)) (raw_network_label net) (remote_gateway info) (cp_LocalNamespace cp) (gi_CIDR info) s \<and>
     stp w' = (stp w)((cp_LocalNamespace cp, cluster_shadow_name (cp_Name cp)) \<mapsto> s) \<and> stq w' = stq w \<and> stn w' = stn w"
proof -
  have "Some (gi_GatewayIP info) = lp_AllocatedAddress (remote_gateway info)" by (simp add: remote_gateway_def)
  note run = assms(2) [unfolded ensureRemoteGatewayShadow_def Let_def this]
  show ?thesis
    using upsert_shadow_effect [OF peering_lawsD(1,2) [OF assms(1)] run, of "cluster_shadow_name (cp_Name cp)" "raw_network_label net" "cp_LocalNamespace cp" "gi_CIDR info"]
    by (auto simp: shadows_def cluster_shadow_def remote_gateway_def)
qed

lemma cluster_policies_effect:
  assumes "peering_laws (ca_local api) stp stq stn stg" "ensurePoliciesForCluster api cp net w = (None, w')"
  shows "\<exists>p p'. same_policy p (gateway_access (cluster_gw_name (cp_Name cp)) (cp_LocalNamespace cp) [] net) \<and>
     same_policy p' (gateway_to_shadow (cluster_policy_name (cp_Name cp)) (cp_LocalNamespace cp) [] net) \<and>
     stq w' = (stq w)((cp_LocalNamespace cp, cluster_gw_name (cp_Name cp)) \<mapsto> p, (cp_LocalNamespace cp, cluster_policy_name (cp_Name cp)) \<mapsto> p') \<and>
     stp w' = stp w \<and> stn w' = stn w"
proof -
  note L = peering_lawsD [OF assms(1)]
  let ?ls = "[(''alattice.io/cluster-peering'', cp_Name cp)]"
  obtain w1 where 1: "applyPolicy (pg_policies (ca_local api)) (gateway_access (cluster_gw_name (cp_Name cp)) (cp_LocalNamespace cp) ?ls net) w = (None, w1)"
    and 2: "applyPolicy (pg_policies (ca_local api)) (gateway_to_shadow (cluster_policy_name (cp_Name cp)) (cp_LocalNamespace cp) ?ls net) w1 = (None, w')"
    using assms(2) by (auto simp: ensurePoliciesForCluster_def Let_def then_do_None)
  show ?thesis
    using applyPolicy_effect [OF L(3,4) 1] applyPolicy_effect [OF L(3,4) 2]
    by (simp add: gateway_access_def gateway_to_shadow_def same_policy_def) metis
qed

lemma link_remote_effect:
  assumes laws: "peering_laws (ca_local api) stp stq stn stg"
    and cpl: "crud_ok cluster_peering_kind stc (\<lambda>w. (stp w, stq w, stn w)) (ca_peerings api)"
    and run: "link_remote api env cp info network w = (Ok (RequeueAfter (seconds 300)), w')"
  obtains gw where "lp_Namespace gw = cp_LocalNamespace cp" "lp_Name gw \<noteq> cluster_shadow_name (cp_Name cp)"
    "stp w (cp_LocalNamespace cp, lp_Name gw) = Some gw"
    "label_match [(LabelGateway, ''true''), (raw_network_label (cp_LocalNetwork cp), ''true'')] (lp_Labels gw)"
    "side_linked (cluster_shadow_name (cp_Name cp)) (AnnotationPeeringRoutePrefix @ cp_Name cp) (raw_network_label (ln_Name network))
       (gateway_access (cluster_gw_name (cp_Name cp)) (cp_LocalNamespace cp) [] (ln_Name network))
       (gateway_to_shadow (cluster_policy_name (cp_Name cp)) (cp_LocalNamespace cp) [] (ln_Name network))
       gw (remote_gateway info) (cp_LocalNamespace cp) (gi_CIDR info) (stp w') (stq w')"
    "stn w' = stn w"
proof -
  note L = peering_lawsD [OF laws]
  let ?ns = "cp_LocalNamespace cp" and ?sh = "cluster_shadow_name (cp_Name cp)" and ?k = "AnnotationPeeringRoutePrefix @ cp_Name cp"
  obtain w1 g w2 w3 where 1: "ensureRemoteGatewayShadow api cp info (ln_Name network) w = (None, w1)"
    and 2: "findGatewayForCluster api ?ns (cp_LocalNetwork cp) w1 = Inr (Some g)"
    and 3: "ensureAnnotation (ca_local api) g ?k (gi_CIDR info) w1 = (None, w2)"
    and 4: "ensurePoliciesForCluster api cp (ln_Name network) w2 = (None, w3)"
    and 5: "setClusterPeeringReady api env cp (ln_ActiveCIDR network) (gi_CIDR info) w3 = (Ok (RequeueAfter (seconds 300)), w')"
    using run by (auto simp: link_remote_def setClusterPeeringError_def Let_def then_do_None seconds_def split: prod.splits option.splits sum.splits)
  obtain s where s: "shadows ?sh (raw_network_label (ln_Name network)) (remote_gateway info) ?ns (gi_CIDR info) s"
      "stp w1 = (stp w)((?ns, ?sh) \<mapsto> s)" "stq w1 = stq w" "stn w1 = stn w"
    using remote_shadow_effect [OF laws 1] by blast
  obtain gs where "k_List (pg_peers (ca_local api)) w1 (Some ?ns) [(LabelGateway, ''true''), (raw_network_label (cp_LocalNetwork cp), ''true'')] = Inr (g # gs)"
    using 2 by (cases "k_List (pg_peers (ca_local api)) w1 (Some ?ns) [(LabelGateway, ''true''), (raw_network_label (cp_LocalNetwork cp), ''true'')]")
        (auto simp: findGatewayForCluster_def neq_Nil_conv split: list.splits)
  then have g: "stp w1 (?ns, lp_Name g) = Some g" "lp_Namespace g = ?ns"
      "label_match [(LabelGateway, ''true''), (raw_network_label (cp_LocalNetwork cp), ''true'')] (lp_Labels g)"
    using fresh_List [OF L(2), THEN conjunct2, THEN equalityD1, THEN subsetD, of w1 "Some ?ns" "[(LabelGateway, ''true''), (raw_network_label (cp_LocalNetwork cp), ''true'')]" "g # gs" g] by auto
  have ne: "lp_Name g \<noteq> ?sh"
  proof
    assume "lp_Name g = ?sh"
    then have "g = s" using g(1) s(2) by simp
    then show False using g(3) s(1) by (auto simp: shadows_def label_match_def LabelGateway_def LabelShadow_def raw_network_label_def)
  qed
  have e3: "stp w2 = (stp w1)((?ns, lp_Name g) \<mapsto> routed ?k (gi_CIDR info) g)" "stq w2 = stq w1" "stn w2 = stn w1"
    using ensureAnnotation_effect [OF laws _ 3] g(1,2) by simp_all
  obtain p p' where p: "same_policy p (gateway_access (cluster_gw_name (cp_Name cp)) ?ns [] (ln_Name network))"
     "same_policy p' (gateway_to_shadow (cluster_policy_name (cp_Name cp)) ?ns [] (ln_Name network))"
     "stq w3 = (stq w2)((?ns, cluster_gw_name (cp_Name cp)) \<mapsto> p, (?ns, cluster_policy_name (cp_Name cp)) \<mapsto> p')" "stp w3 = stp w2" "stn w3 = stn w2"
    using cluster_policies_effect [OF laws 4] by blast
  have w': "stp w' = stp w3" "stq w' = stq w3" "stn w' = stn w3"
    using 5 keeps_others(5) [OF cpl] by (auto simp: setClusterPeeringReady_def Let_def split: prod.splits sum.splits) (metis prod.inject snd_conv)+
  have nm: "cluster_gw_name n \<noteq> cluster_policy_name n" for n by (simp add: cluster_gw_name_def cluster_policy_name_def)
  show ?thesis
  proof (rule that [of g])
    show "stp w (?ns, lp_Name g) = Some g" using g(1) s(2) ne by simp
    show "stn w' = stn w" by (simp add: w' p e3 s)
    show "side_linked ?sh ?k (raw_network_label (ln_Name network)) (gateway_access (cluster_gw_name (cp_Name cp)) ?ns [] (ln_Name network))
       (gateway_to_shadow (cluster_policy_name (cp_Name cp)) ?ns [] (ln_Name network)) g (remote_gateway info) ?ns (gi_CIDR info) (stp w') (stq w')"
      unfolding side_linked_def w' p(3,4) e3(1) s(2)
      using p(1,2) s(1) ne nm [of "cp_Name cp"] by (simp add: gateway_access_def gateway_to_shadow_def)
  qed (use g(2,3) ne in simp_all)
qed

lemma fetched_complete: "fetchGatewayInfo api env url token ns n w = Ok info \<Longrightarrow> gi_CIDR info \<noteq> []"
proof -
  assume run: "fetchGatewayInfo api env url token ns n w = Ok info"
  then obtain code body where h: "ca_http api w (gateway_info_url url ns n) (''Bearer '' @ token) = Inr (code, body)"
    unfolding fetchGatewayInfo_def by (cases "ca_http api w (gateway_info_url url ns n) (''Bearer '' @ token)") auto
  show ?thesis using run unfolding fetchGatewayInfo_def h by (cases "ce_decode env body") (simp_all split: if_splits)
qed

lemma raw_label_short: "length n \<le> 55 \<Longrightarrow> raw_network_label n = networkLabelKey sha n"
  by (simp add: raw_network_label_def networkLabelKey_def safeKeyName_short)



text \<open>A remote cluster that answers every request.\<close>

record cluster_world = peering_world +
  cw_cluster_peerings :: "LatticeClusterPeering list"

definition demo_info :: GatewayInfo where
  "demo_info = \<lparr> gi_PublicKey = ''remote-key'', gi_GatewayIP = ''10.9.0.1'', gi_CIDR = ''10.9.0.0/24'', gi_AppID = ''r'', gi_PeerID = ''9'' \<rparr>"

definition demo_cluster_api :: "cluster_world cluster_api" where
  "demo_cluster_api =
     \<lparr> ca_local = demo_peering_api,
       ca_peerings = store_crud cluster_peering_kind
         (\<lambda>x. x\<lparr> cp_Deleting := False, cp_Phase := CPhaseNone, cp_LocalCIDR := [], cp_RemoteCIDR := [], cp_Conditions := [] \<rparr>)
         cw_cluster_peerings (\<lambda>xs w. w\<lparr> cw_cluster_peerings := xs \<rparr>),
       ca_GetCluster = (\<lambda>w n. Ok \<lparr> lk_Name = n, lk_ManagementEndpoint = ''https://eu'', lk_CredentialRef = ''eu'' \<rparr>),
       ca_ListSecrets = (\<lambda>w n. Ok [[(''token'', ''t'')]]), ca_http = (\<lambda>w url auth. Ok (200, url)) \<rparr>"

definition demo_cluster_env :: cluster_env where
  "demo_cluster_env = \<lparr> ce_now = 0, ce_Error = (\<lambda>_. ''error''), ce_decode = (\<lambda>_. Ok demo_info), ce_show = (\<lambda>_. ''info'') \<rparr>"

definition demo_cp :: LatticeClusterPeering where
  "demo_cp =
     \<lparr> cp_Name = ''eu'', cp_Deleting = False, cp_Finalizers = [clusterPeeringFinalizer], cp_LocalNamespace = ''a'', cp_LocalNetwork = ''net'',
       cp_RemoteCluster = ''eu'', cp_RemoteNamespace = ''x'', cp_RemoteNetwork = ''y'', cp_Phase = CPhaseNone, cp_LocalCIDR = [], cp_RemoteCIDR = [],
       cp_Conditions = [] \<rparr>"

definition demo_cluster_world :: cluster_world where
  "demo_cluster_world =
     \<lparr> pw_peers = pw_peers demo_peering_world, pw_policies = [], pw_networks = pw_networks demo_peering_world, pw_peerings = [],
       cw_cluster_peerings = [demo_cp] \<rparr>"

lemma demo_cluster_reconcile:
  "fst (cluster_reconcileNormal demo_cluster_api demo_cluster_env demo_cp demo_cluster_world) = Ok (RequeueAfter (seconds 300))"
  by code_simp


section \<open>Names that clash\<close>

text \<open>A network peering and a cluster peering of the same name use the same annotation of the gateway, and so
  overwrite each other's route.\<close>

theorem shared_route_annotation:
  "length n \<le> 49 \<Longrightarrow> peeringRouteAnnotationKey sha n = AnnotationPeeringRoutePrefix @ n"
  by (simp add: peeringRouteAnnotationKey_def AnnotationPeeringRoutePrefix_def safeKeyName_short)

end
