(* ===== verification/Server_Store.thy ===== *)
theory Server_Store
  imports Prelude "HOL-Library.List_Lexorder" "HOL-Library.Char_ord" "HOL-Library.Multiset"
begin

text \<open>
  The database of the management server: the models (\<open>internal/server/models\<close>), the generic repository
  (\<open>internal/server/repository\<close>) and the repositories over it (\<open>internal/db/gormstore\<close>).

  A table is a list of rows in the state \<open>db\<close>. What gorm does with a call is written out: a query sees the
  rows that are not deleted, \<open>First\<close> takes the one with the least primary key, \<open>Delete\<close> marks the rows and
  refuses to run without a condition, \<open>Updates\<close> with a struct writes its non-zero fields, and unique
  indexes also see deleted rows. The database can fail at any statement: \<open>de_fault\<close> says whether a statement
  on a table fails in a state. Fresh identifiers come from \<open>de_uuid\<close>. A transaction that fails leaves the
  tables as they were.
\<close>

section \<open>Models\<close>

record User =
  u_ID :: string
  u_Deleted :: bool
  u_SystemRole :: string
  u_Username :: string
  u_Password :: string
  u_Mobile :: string
  u_Email :: string
  u_Avatar :: string
  u_Address :: string
  u_Gender :: int

record UserProfile =
  pf_UserID :: string
  pf_Title :: string
  pf_Company :: string
  pf_Bio :: string
  pf_Timezone :: string
  pf_Language :: string
  pf_EmailNotify :: bool

record Workspace =
  ws_ID :: string
  ws_Deleted :: bool
  ws_Slug :: string
  ws_Namespace :: string
  ws_DisplayName :: string
  ws_Status :: string
  ws_CreatedBy :: string
  ws_UpdatedBy :: string

record WorkspaceMember =
  wm_ID :: string
  wm_Deleted :: bool
  wm_WorkspaceID :: string
  wm_UserID :: string
  wm_Role :: string
  wm_Status :: string
  wm_InvitedBy :: string
  wm_JoinedAt :: "int option"

record WorkspaceInvitation =
  iv_ID :: string
  iv_Deleted :: bool
  iv_WorkspaceID :: string
  iv_InviterID :: string
  iv_Email :: string
  iv_Role :: string
  iv_Token :: string
  iv_Status :: string
  iv_ExpiresAt :: int

record UserIdentity =
  ui_ID :: string
  ui_Deleted :: bool
  ui_UserID :: string
  ui_Provider :: string
  ui_ExternalID :: string
  ui_Email :: string
  ui_Metadata :: string

datatype WorkflowStatus = WorkflowStatusPending | WorkflowStatusApproved | WorkflowStatusRejected | WorkflowStatusExecuted | WorkflowStatusFailed

record WorkflowRequest =
  wr_ID :: string
  wr_WorkspaceID :: string
  wr_RequestedBy :: string
  wr_RequestedByName :: string
  wr_RequestedByEmail :: string
  wr_ResourceType :: string
  wr_ResourceName :: string
  wr_Action :: string
  wr_Payload :: string
  wr_Status :: WorkflowStatus
  wr_ReviewedBy :: string
  wr_ReviewedByName :: string
  wr_ReviewNote :: string
  wr_ReviewedAt :: "int option"
  wr_ExecutedAt :: "int option"
  wr_ErrorMessage :: string

fun workflow_text :: "WorkflowStatus \<Rightarrow> string" where
  "workflow_text WorkflowStatusPending = ''pending''"
| "workflow_text WorkflowStatusApproved = ''approved''"
| "workflow_text WorkflowStatusRejected = ''rejected''"
| "workflow_text WorkflowStatusExecuted = ''executed''"
| "workflow_text WorkflowStatusFailed = ''failed''"

datatype PolicyStatus = PolicyStatusPending | PolicyStatusApproved | PolicyStatusActive | PolicyStatusFailed

record PolicyRec =
  pl_ID :: string
  pl_Deleted :: bool
  pl_WorkspaceID :: string
  pl_Name :: string
  pl_Description :: string
  pl_Action :: string
  pl_PolicyTypes :: string
  pl_Spec :: string
  pl_Status :: PolicyStatus
  pl_WorkflowRequestID :: string
  pl_ErrorMessage :: string
  pl_CreatedBy :: string
  pl_CreatedByName :: string
  pl_UpdatedBy :: string
  pl_UpdatedByName :: string

fun policy_text :: "PolicyStatus \<Rightarrow> string" where
  "policy_text PolicyStatusPending = ''pending''"
| "policy_text PolicyStatusApproved = ''approved''"
| "policy_text PolicyStatusActive = ''active''"
| "policy_text PolicyStatusFailed = ''failed''"

record db =
  db_users :: "User list"
  db_profiles :: "UserProfile list"
  db_workspaces :: "Workspace list"
  db_members :: "WorkspaceMember list"
  db_invitations :: "WorkspaceInvitation list"
  db_identities :: "UserIdentity list"
  db_workflows :: "WorkflowRequest list"
  db_policies :: "PolicyRec list"

section \<open>Statements\<close>

datatype db_error = ErrRecordNotFound | ErrMissingWhereClause | DBError string

text \<open>A service fails with a message of its own or passes a database error on.\<close>

datatype svc_error = Msg string | DbErr db_error

definition db_result :: "db_error option \<times> db \<Rightarrow> (svc_error + unit) \<times> db" where
  "db_result r = (case r of (None, d) \<Rightarrow> (Ok (), d) | (Some e, d) \<Rightarrow> (Err (DbErr e), d))"

record db_env =
  de_fault :: "db \<Rightarrow> string \<Rightarrow> string \<Rightarrow> string option"
  de_uuid :: "db \<Rightarrow> string"
  de_like :: "string \<Rightarrow> string \<Rightarrow> bool"
  de_now :: int

record 'r tbl =
  tb_name :: string
  tb_get :: "db \<Rightarrow> 'r list"
  tb_put :: "'r list \<Rightarrow> db \<Rightarrow> db"
  tb_id :: "'r \<Rightarrow> string"
  tb_before_create :: "string \<Rightarrow> 'r \<Rightarrow> 'r"
  tb_merge :: "'r \<Rightarrow> 'r \<Rightarrow> 'r"
  tb_deleted :: "'r \<Rightarrow> bool"
  tb_mark :: "'r \<Rightarrow> 'r"
  tb_clash :: "'r \<Rightarrow> 'r \<Rightarrow> bool"

definition visible :: "'r tbl \<Rightarrow> db \<Rightarrow> 'r list" where
  "visible t d = filter (\<lambda>r. \<not> tb_deleted t r) (tb_get t d)"

definition row_first :: "'r tbl \<Rightarrow> ('r \<Rightarrow> bool) \<Rightarrow> db \<Rightarrow> 'r option" where
  "row_first t P d = (case sort_key (tb_id t) (filter P (visible t d)) of [] \<Rightarrow> None | r # _ \<Rightarrow> Some r)"

definition First :: "db_env \<Rightarrow> 'r tbl \<Rightarrow> ('r \<Rightarrow> bool) \<Rightarrow> db \<Rightarrow> db_error + 'r" where
  "First env t P d =
     (case de_fault env d ''SELECT'' (tb_name t) of
        Some e \<Rightarrow> Err (DBError e)
      | None \<Rightarrow> (case row_first t P d of None \<Rightarrow> Err ErrRecordNotFound | Some r \<Rightarrow> Ok r))"

definition Find_rows :: "db_env \<Rightarrow> 'r tbl \<Rightarrow> ('r \<Rightarrow> bool) \<Rightarrow> db \<Rightarrow> db_error + 'r list" where
  "Find_rows env t P d =
     (case de_fault env d ''SELECT'' (tb_name t) of Some e \<Rightarrow> Err (DBError e) | None \<Rightarrow> Ok (filter P (visible t d)))"

text \<open>
  \<open>tb_before_create\<close> is what happens to a row on its way in: the \<open>BeforeCreate\<close> hook, which sets a missing
  identifier, and the column defaults for zero fields. The created row is returned.
\<close>

definition Create_row :: "db_env \<Rightarrow> 'r tbl \<Rightarrow> 'r \<Rightarrow> db \<Rightarrow> (db_error + 'r) \<times> db" where
  "Create_row env t r d =
     (let r' = tb_before_create t (de_uuid env d) r
      in case de_fault env d ''INSERT'' (tb_name t) of
           Some e \<Rightarrow> (Err (DBError e), d)
         | None \<Rightarrow>
             if list_ex (\<lambda>s. tb_id t s = tb_id t r' \<or> tb_clash t s r') (tb_get t d) then (Err (DBError ''duplicate key''), d)
             else (Ok r', tb_put t (tb_get t d @ [r']) d))"

definition Update_where :: "db_env \<Rightarrow> 'r tbl \<Rightarrow> ('r \<Rightarrow> bool) \<Rightarrow> ('r \<Rightarrow> 'r) \<Rightarrow> db \<Rightarrow> db_error option \<times> db" where
  "Update_where env t P f d =
     (case de_fault env d ''UPDATE'' (tb_name t) of
        Some e \<Rightarrow> (Some (DBError e), d)
      | None \<Rightarrow> (None, tb_put t (map (\<lambda>r. if \<not> tb_deleted t r \<and> P r then f r else r) (tb_get t d)) d))"

definition Updates :: "db_env \<Rightarrow> 'r tbl \<Rightarrow> 'r \<Rightarrow> db \<Rightarrow> db_error option \<times> db" where
  "Updates env t r d =
     (if tb_id t r = [] then (Some ErrMissingWhereClause, d)
      else Update_where env t (\<lambda>s. tb_id t s = tb_id t r) (tb_merge t r) d)"

definition Count_rows :: "db_env \<Rightarrow> 'r tbl \<Rightarrow> ('r \<Rightarrow> bool) \<Rightarrow> db \<Rightarrow> db_error + nat" where
  "Count_rows env t P d =
     (case de_fault env d ''COUNT'' (tb_name t) of Some e \<Rightarrow> Err (DBError e) | None \<Rightarrow> Ok (length (filter P (visible t d))))"

definition Delete_where :: "db_env \<Rightarrow> 'r tbl \<Rightarrow> bool \<Rightarrow> ('r \<Rightarrow> bool) \<Rightarrow> db \<Rightarrow> db_error option \<times> db" where
  "Delete_where env t conditioned P d =
     (if \<not> conditioned then (Some ErrMissingWhereClause, d)
      else case de_fault env d ''DELETE'' (tb_name t) of
             Some e \<Rightarrow> (Some (DBError e), d)
           | None \<Rightarrow> (None, tb_put t (map (\<lambda>r. if \<not> tb_deleted t r \<and> P r then tb_mark t r else r) (tb_get t d)) d))"

definition Tx :: "(db \<Rightarrow> ('e + 'a) \<times> db) \<Rightarrow> db \<Rightarrow> ('e + 'a) \<times> db" where
  "Tx fn d = (case fn d of (Inl e, _) \<Rightarrow> (Err e, d) | (Inr x, d') \<Rightarrow> (Ok x, d'))"

section \<open>Tables\<close>

definition or_old :: "'a list \<Rightarrow> 'a list \<Rightarrow> 'a list" where
  "or_old new old = (if new = [] then old else new)"

definition or_old_opt :: "'a option \<Rightarrow> 'a option \<Rightarrow> 'a option" where
  "or_old_opt new old = (case new of None \<Rightarrow> old | Some _ \<Rightarrow> new)"

definition users :: "User tbl" where
  "users = \<lparr> tb_name = ''t_user'', tb_get = db_users, tb_put = (\<lambda>xs d. d\<lparr> db_users := xs \<rparr>), tb_id = u_ID,
     tb_before_create = (\<lambda>i r. r\<lparr> u_ID := or_old (u_ID r) i \<rparr>),
     tb_merge = (\<lambda>n r. r\<lparr> u_SystemRole := or_old (u_SystemRole n) (u_SystemRole r),
       u_Username := or_old (u_Username n) (u_Username r),
       u_Password := or_old (u_Password n) (u_Password r),
       u_Mobile := or_old (u_Mobile n) (u_Mobile r),
       u_Email := or_old (u_Email n) (u_Email r),
       u_Avatar := or_old (u_Avatar n) (u_Avatar r),
       u_Address := or_old (u_Address n) (u_Address r),
       u_Gender := (if u_Gender n = 0 then u_Gender r else u_Gender n) \<rparr>),
     tb_deleted = u_Deleted, tb_mark = (\<lambda>r. r\<lparr> u_Deleted := True \<rparr>),
     tb_clash = (\<lambda>_ _. False) \<rparr>"

text \<open>A zero field with a default, \<open>false\<close> included, is inserted as the default.\<close>

definition profiles :: "UserProfile tbl" where
  "profiles = \<lparr> tb_name = ''t_user_profile'', tb_get = db_profiles, tb_put = (\<lambda>xs d. d\<lparr> db_profiles := xs \<rparr>), tb_id = pf_UserID,
     tb_before_create = (\<lambda>i r. r\<lparr> pf_Timezone := or_old (pf_Timezone r) ''Asia/Shanghai'', pf_Language := or_old (pf_Language r) ''zh-CN'', pf_EmailNotify := True \<rparr>),
     tb_merge = (\<lambda>n r. r\<lparr> pf_Title := or_old (pf_Title n) (pf_Title r),
       pf_Company := or_old (pf_Company n) (pf_Company r),
       pf_Bio := or_old (pf_Bio n) (pf_Bio r),
       pf_Timezone := or_old (pf_Timezone n) (pf_Timezone r),
       pf_Language := or_old (pf_Language n) (pf_Language r),
       pf_EmailNotify := (pf_EmailNotify n \<or> pf_EmailNotify r) \<rparr>),
     tb_deleted = (\<lambda>_. False), tb_mark = (\<lambda>r. r),
     tb_clash = (\<lambda>_ _. False) \<rparr>"

text \<open>A workspace without a namespace gets one from its identifier.\<close>

definition workspaces :: "Workspace tbl" where
  "workspaces = \<lparr> tb_name = ''t_workspace'', tb_get = db_workspaces, tb_put = (\<lambda>xs d. d\<lparr> db_workspaces := xs \<rparr>), tb_id = ws_ID,
     tb_before_create = (\<lambda>i r. (let j = or_old (ws_ID r) i in r\<lparr> ws_ID := j, ws_Namespace := or_old (ws_Namespace r) (''wf-'' @ j), ws_Status := or_old (ws_Status r) ''active'' \<rparr>)),
     tb_merge = (\<lambda>n r. r\<lparr> ws_Slug := or_old (ws_Slug n) (ws_Slug r),
       ws_Namespace := or_old (ws_Namespace n) (ws_Namespace r),
       ws_DisplayName := or_old (ws_DisplayName n) (ws_DisplayName r),
       ws_Status := or_old (ws_Status n) (ws_Status r),
       ws_CreatedBy := or_old (ws_CreatedBy n) (ws_CreatedBy r),
       ws_UpdatedBy := or_old (ws_UpdatedBy n) (ws_UpdatedBy r) \<rparr>),
     tb_deleted = ws_Deleted, tb_mark = (\<lambda>r. r\<lparr> ws_Deleted := True \<rparr>),
     tb_clash = (\<lambda>_ _. False) \<rparr>"

definition members :: "WorkspaceMember tbl" where
  "members = \<lparr> tb_name = ''t_workspaces_member'', tb_get = db_members, tb_put = (\<lambda>xs d. d\<lparr> db_members := xs \<rparr>), tb_id = wm_ID,
     tb_before_create = (\<lambda>i r. r\<lparr> wm_ID := or_old (wm_ID r) i, wm_Status := or_old (wm_Status r) ''active'' \<rparr>),
     tb_merge = (\<lambda>n r. r\<lparr> wm_WorkspaceID := or_old (wm_WorkspaceID n) (wm_WorkspaceID r),
       wm_UserID := or_old (wm_UserID n) (wm_UserID r),
       wm_Role := or_old (wm_Role n) (wm_Role r),
       wm_Status := or_old (wm_Status n) (wm_Status r),
       wm_InvitedBy := or_old (wm_InvitedBy n) (wm_InvitedBy r),
       wm_JoinedAt := or_old_opt (wm_JoinedAt n) (wm_JoinedAt r) \<rparr>),
     tb_deleted = wm_Deleted, tb_mark = (\<lambda>r. r\<lparr> wm_Deleted := True \<rparr>),
     tb_clash = (\<lambda>_ _. False) \<rparr>"

definition invitations :: "WorkspaceInvitation tbl" where
  "invitations = \<lparr> tb_name = ''t_workspace_invitation'', tb_get = db_invitations, tb_put = (\<lambda>xs d. d\<lparr> db_invitations := xs \<rparr>), tb_id = iv_ID,
     tb_before_create = (\<lambda>i r. r\<lparr> iv_ID := or_old (iv_ID r) i, iv_Status := or_old (iv_Status r) ''pending'' \<rparr>),
     tb_merge = (\<lambda>n r. r\<lparr> iv_WorkspaceID := or_old (iv_WorkspaceID n) (iv_WorkspaceID r),
       iv_InviterID := or_old (iv_InviterID n) (iv_InviterID r),
       iv_Email := or_old (iv_Email n) (iv_Email r),
       iv_Role := or_old (iv_Role n) (iv_Role r),
       iv_Token := or_old (iv_Token n) (iv_Token r),
       iv_Status := or_old (iv_Status n) (iv_Status r),
       iv_ExpiresAt := iv_ExpiresAt n \<rparr>),
     tb_deleted = iv_Deleted, tb_mark = (\<lambda>r. r\<lparr> iv_Deleted := True \<rparr>),
     tb_clash = (\<lambda>a b. iv_Token a = iv_Token b) \<rparr>"

definition identities :: "UserIdentity tbl" where
  "identities = \<lparr> tb_name = ''t_user_identity'', tb_get = db_identities, tb_put = (\<lambda>xs d. d\<lparr> db_identities := xs \<rparr>), tb_id = ui_ID,
     tb_before_create = (\<lambda>i r. r\<lparr> ui_ID := or_old (ui_ID r) i \<rparr>),
     tb_merge = (\<lambda>n r. r\<lparr> ui_UserID := or_old (ui_UserID n) (ui_UserID r),
       ui_Provider := or_old (ui_Provider n) (ui_Provider r),
       ui_ExternalID := or_old (ui_ExternalID n) (ui_ExternalID r),
       ui_Email := or_old (ui_Email n) (ui_Email r),
       ui_Metadata := or_old (ui_Metadata n) (ui_Metadata r) \<rparr>),
     tb_deleted = ui_Deleted, tb_mark = (\<lambda>r. r\<lparr> ui_Deleted := True \<rparr>),
     tb_clash = (\<lambda>_ _. False) \<rparr>"

definition policies :: "PolicyRec tbl" where
  "policies = \<lparr> tb_name = ''t_policy'', tb_get = db_policies, tb_put = (\<lambda>xs d. d\<lparr> db_policies := xs \<rparr>), tb_id = pl_ID,
     tb_before_create = (\<lambda>i r. r\<lparr> pl_ID := or_old (pl_ID r) i \<rparr>),
     tb_merge = (\<lambda>n r. r\<lparr> pl_WorkspaceID := or_old (pl_WorkspaceID n) (pl_WorkspaceID r),
       pl_Name := or_old (pl_Name n) (pl_Name r),
       pl_Description := or_old (pl_Description n) (pl_Description r),
       pl_Action := or_old (pl_Action n) (pl_Action r),
       pl_PolicyTypes := or_old (pl_PolicyTypes n) (pl_PolicyTypes r),
       pl_Spec := or_old (pl_Spec n) (pl_Spec r),
       pl_WorkflowRequestID := or_old (pl_WorkflowRequestID n) (pl_WorkflowRequestID r),
       pl_ErrorMessage := or_old (pl_ErrorMessage n) (pl_ErrorMessage r),
       pl_CreatedBy := or_old (pl_CreatedBy n) (pl_CreatedBy r),
       pl_CreatedByName := or_old (pl_CreatedByName n) (pl_CreatedByName r),
       pl_UpdatedBy := or_old (pl_UpdatedBy n) (pl_UpdatedBy r),
       pl_UpdatedByName := or_old (pl_UpdatedByName n) (pl_UpdatedByName r),
       pl_Status := pl_Status n \<rparr>),
     tb_deleted = pl_Deleted, tb_mark = (\<lambda>r. r\<lparr> pl_Deleted := True \<rparr>),
     tb_clash = (\<lambda>a b. pl_WorkspaceID a = pl_WorkspaceID b \<and> pl_Name a = pl_Name b) \<rparr>"

text \<open>Workflow requests have neither a hook nor a deletion mark; deleting them removes the rows.\<close>

definition workflows :: "WorkflowRequest tbl" where
  "workflows = \<lparr> tb_name = ''t_workflow_request'', tb_get = db_workflows, tb_put = (\<lambda>xs d. d\<lparr> db_workflows := xs \<rparr>), tb_id = wr_ID,
     tb_before_create = (\<lambda>i r. r),
     tb_merge = (\<lambda>n r. n),
     tb_deleted = (\<lambda>_. False), tb_mark = (\<lambda>r. r),
     tb_clash = (\<lambda>_ _. False) \<rparr>"

lemmas tables [simp] = users_def profiles_def workspaces_def members_def invitations_def identities_def policies_def workflows_def

section \<open>Repositories\<close>

text \<open>A scope with an empty argument adds no condition.\<close>

definition scope :: "('r \<Rightarrow> string) \<Rightarrow> string \<Rightarrow> 'r \<Rightarrow> bool" where
  "scope column v r \<longleftrightarrow> v = [] \<or> column r = v"

text \<open>A keyword is looked for as \<open>%keyword%\<close>; what the pattern matches is the database's (\<open>de_like\<close>).\<close>

definition like_any :: "db_env \<Rightarrow> string \<Rightarrow> string list \<Rightarrow> bool" where
  "like_any env keyword columns \<longleftrightarrow> keyword = [] \<or> list_ex (de_like env (''%'' @ keyword @ ''%'')) columns"

definition page_of :: "int \<Rightarrow> int \<Rightarrow> 'a list \<Rightarrow> 'a list" where
  "page_of page pageSize xs =
     (let p = (if page \<le> 0 then 1 else page);
          s = (if pageSize > 100 then 100 else if pageSize \<le> 0 then 10 else pageSize)
      in take (nat s) (drop (nat ((p - 1) * s)) xs))"

text \<open>\<open>Limit\<close> below zero is no limit, \<open>Offset\<close> below zero no offset.\<close>

definition sql_page :: "int \<Rightarrow> int \<Rightarrow> 'a list \<Rightarrow> 'a list" where
  "sql_page limit offset xs = (if limit < 0 then drop (nat offset) xs else take (nat limit) (drop (nat offset) xs))"

definition Users_GetByID :: "db_env \<Rightarrow> string \<Rightarrow> db \<Rightarrow> db_error + User" where
  "Users_GetByID env i = First env users (\<lambda>u. u_ID u = i)"

definition Users_GetByUsername :: "db_env \<Rightarrow> string \<Rightarrow> db \<Rightarrow> db_error + User" where
  "Users_GetByUsername env n = First env users (scope u_Username n)"

definition Users_GetByEmail :: "db_env \<Rightarrow> string \<Rightarrow> db \<Rightarrow> db_error + User" where
  "Users_GetByEmail env e = First env users (\<lambda>u. u_Email u = e)"

definition Users_Login :: "db_env \<Rightarrow> string \<Rightarrow> string \<Rightarrow> db \<Rightarrow> db_error + User" where
  "Users_Login env n password = First env users (scope u_Username n)"

definition Users_Delete :: "db_env \<Rightarrow> string \<Rightarrow> db \<Rightarrow> db_error option \<times> db" where
  "Users_Delete env i = Delete_where env users (i \<noteq> []) (scope u_ID i)"

definition Workspaces_GetByID :: "db_env \<Rightarrow> string \<Rightarrow> db \<Rightarrow> db_error + Workspace" where
  "Workspaces_GetByID env i = First env workspaces (\<lambda>w. ws_ID w = i)"

definition Workspaces_GetByNamespace :: "db_env \<Rightarrow> string \<Rightarrow> db \<Rightarrow> db_error + Workspace" where
  "Workspaces_GetByNamespace env ns = First env workspaces (scope ws_Namespace ns)"

definition Workspaces_Delete :: "db_env \<Rightarrow> string \<Rightarrow> db \<Rightarrow> db_error option \<times> db" where
  "Workspaces_Delete env i = Delete_where env workspaces (i \<noteq> []) (scope ws_ID i)"

definition Workspaces_ListByUser :: "db_env \<Rightarrow> string \<Rightarrow> db \<Rightarrow> db_error + Workspace list" where
  "Workspaces_ListByUser env userID d =
     (case de_fault env d ''SELECT'' ''t_workspace'' of
        Some e \<Rightarrow> Err (DBError e)
      | None \<Rightarrow> Ok (concat (map (\<lambda>w. map (\<lambda>_. w)
          (filter (\<lambda>m. wm_WorkspaceID m = ws_ID w \<and> wm_UserID m = userID) (visible members d))) (visible workspaces d))))"

definition Workspaces_List :: "db_env \<Rightarrow> string \<Rightarrow> int \<Rightarrow> int \<Rightarrow> db \<Rightarrow> db_error + (Workspace list \<times> nat)" where
  "Workspaces_List env keyword page pageSize d =
     (let P = (\<lambda>w. like_any env keyword [ws_DisplayName w, ws_Slug w])
      in case Count_rows env workspaces P d of
           Inl e \<Rightarrow> Err e
         | Inr n \<Rightarrow> (case Find_rows env workspaces P d of Inl e \<Rightarrow> Err e | Inr ws \<Rightarrow> Ok (page_of page pageSize ws, n)))"

definition ExistsByUserAndSlug :: "db_env \<Rightarrow> string \<Rightarrow> string \<Rightarrow> db \<Rightarrow> db_error + bool" where
  "ExistsByUserAndSlug env userID slug d =
     (case de_fault env d ''SELECT'' ''t_workspace'' of
        Some e \<Rightarrow> Err (DBError e)
      | None \<Rightarrow> Ok (list_ex (\<lambda>w. ws_Slug w = slug \<and>
          list_ex (\<lambda>m. wm_WorkspaceID m = ws_ID w \<and> wm_UserID m = userID) (visible members d)) (visible workspaces d)))"

definition GetMembership :: "db_env \<Rightarrow> string \<Rightarrow> string \<Rightarrow> db \<Rightarrow> db_error + WorkspaceMember" where
  "GetMembership env workspaceID userID = First env members (\<lambda>m. scope wm_WorkspaceID workspaceID m \<and> scope wm_UserID userID m)"

definition AddMember :: "db_env \<Rightarrow> WorkspaceMember \<Rightarrow> db \<Rightarrow> db_error option \<times> db" where
  "AddMember env m d = (case Create_row env members m d of (Inl e, d') \<Rightarrow> (Some e, d') | (Inr _, d') \<Rightarrow> (None, d'))"

definition RemoveMember :: "db_env \<Rightarrow> string \<Rightarrow> string \<Rightarrow> db \<Rightarrow> db_error option \<times> db" where
  "RemoveMember env workspaceID userID =
     Delete_where env members (workspaceID \<noteq> [] \<or> userID \<noteq> []) (\<lambda>m. scope wm_WorkspaceID workspaceID m \<and> scope wm_UserID userID m)"

definition SoftRemove :: "db_env \<Rightarrow> string \<Rightarrow> string \<Rightarrow> db \<Rightarrow> db_error option \<times> db" where
  "SoftRemove env workspaceID userID =
     Update_where env members (\<lambda>m. wm_WorkspaceID m = workspaceID \<and> wm_UserID m = userID) (\<lambda>m. m\<lparr> wm_Status := ''removed'' \<rparr>)"

definition DeleteByWorkspace :: "db_env \<Rightarrow> string \<Rightarrow> db \<Rightarrow> db_error option \<times> db" where
  "DeleteByWorkspace env workspaceID = Delete_where env members (workspaceID \<noteq> []) (scope wm_WorkspaceID workspaceID)"

definition ListMembers :: "db_env \<Rightarrow> string \<Rightarrow> db \<Rightarrow> db_error + WorkspaceMember list" where
  "ListMembers env workspaceID = Find_rows env members (\<lambda>m. wm_WorkspaceID m = workspaceID \<and> wm_Status m \<noteq> ''removed'')"

definition Members_ListByUser :: "db_env \<Rightarrow> string \<Rightarrow> int \<Rightarrow> int \<Rightarrow> db \<Rightarrow> db_error + (WorkspaceMember list \<times> nat)" where
  "Members_ListByUser env userID page pageSize d =
     (case Count_rows env members (scope wm_UserID userID) d of
        Inl e \<Rightarrow> Err e
      | Inr n \<Rightarrow> (case Find_rows env members (scope wm_UserID userID) d of
                   Inl e \<Rightarrow> Err e | Inr ms \<Rightarrow> Ok (page_of page pageSize ms, n)))"

definition UpdateRole :: "db_env \<Rightarrow> string \<Rightarrow> string \<Rightarrow> string \<Rightarrow> db \<Rightarrow> db_error option \<times> db" where
  "UpdateRole env workspaceID userID role =
     Update_where env members (\<lambda>m. wm_WorkspaceID m = workspaceID \<and> wm_UserID m = userID) (\<lambda>m. m\<lparr> wm_Role := role \<rparr>)"

definition Invitations_FindByID :: "db_env \<Rightarrow> string \<Rightarrow> db \<Rightarrow> db_error + WorkspaceInvitation" where
  "Invitations_FindByID env i = First env invitations (\<lambda>v. iv_ID v = i)"

definition Invitations_GetByToken :: "db_env \<Rightarrow> string \<Rightarrow> db \<Rightarrow> db_error + WorkspaceInvitation" where
  "Invitations_GetByToken env token = First env invitations (\<lambda>v. iv_Token v = token)"

definition Invitations_ListByWorkspace :: "db_env \<Rightarrow> string \<Rightarrow> db \<Rightarrow> db_error + WorkspaceInvitation list" where
  "Invitations_ListByWorkspace env workspaceID d =
     map_sum id rev (Find_rows env invitations (\<lambda>v. iv_WorkspaceID v = workspaceID) d)"

definition Invitations_UpdateStatus :: "db_env \<Rightarrow> string \<Rightarrow> string \<Rightarrow> db \<Rightarrow> db_error option \<times> db" where
  "Invitations_UpdateStatus env i status = Update_where env invitations (\<lambda>v. iv_ID v = i) (\<lambda>v. v\<lparr> iv_Status := status \<rparr>)"

definition FindAcceptedByEmails :: "db_env \<Rightarrow> string list \<Rightarrow> db \<Rightarrow> db_error + WorkspaceInvitation list" where
  "FindAcceptedByEmails env emails d =
     (if emails = [] then Ok [] else Find_rows env invitations (\<lambda>v. iv_Email v \<in> set emails \<and> iv_Status v = ''accepted'') d)"

definition GetPendingByEmailAndWorkspace :: "db_env \<Rightarrow> string \<Rightarrow> string \<Rightarrow> db \<Rightarrow> db_error + WorkspaceInvitation" where
  "GetPendingByEmailAndWorkspace env email workspaceID =
     First env invitations (\<lambda>v. iv_Email v = email \<and> iv_WorkspaceID v = workspaceID \<and> iv_Status v = ''pending'')"

definition GetByProviderAndExternalID :: "db_env \<Rightarrow> string \<Rightarrow> string \<Rightarrow> db \<Rightarrow> db_error + UserIdentity" where
  "GetByProviderAndExternalID env provider externalID =
     First env identities (\<lambda>i. ui_Provider i = provider \<and> ui_ExternalID i = externalID)"

definition Identities_ListByUser :: "db_env \<Rightarrow> string \<Rightarrow> db \<Rightarrow> db_error + UserIdentity list" where
  "Identities_ListByUser env userID = Find_rows env identities (\<lambda>i. ui_UserID i = userID)"

definition Profiles_Get :: "db_env \<Rightarrow> string \<Rightarrow> db \<Rightarrow> db_error + UserProfile" where
  "Profiles_Get env userID = First env profiles (scope pf_UserID userID)"

text \<open>\<open>FirstOrCreate\<close> with \<open>Assign\<close>: the non-zero fields are written to the first row, or a row is created.\<close>

definition Profiles_Upsert :: "db_env \<Rightarrow> UserProfile \<Rightarrow> db \<Rightarrow> db_error option \<times> db" where
  "Profiles_Upsert env p d =
     (case First env profiles (scope pf_UserID (pf_UserID p)) d of
        Inr q \<Rightarrow> Update_where env profiles (\<lambda>r. pf_UserID r = pf_UserID q) (tb_merge profiles p) d
      | Inl ErrRecordNotFound \<Rightarrow>
          (case Create_row env profiles p d of (Inl e, d') \<Rightarrow> (Some e, d') | (Inr _, d') \<Rightarrow> (None, d'))
      | Inl e \<Rightarrow> (Some e, d))"

definition Workflows_GetByID :: "db_env \<Rightarrow> string \<Rightarrow> db \<Rightarrow> db_error + WorkflowRequest" where
  "Workflows_GetByID env i = First env workflows (\<lambda>r. wr_ID r = i)"

definition Workflows_UpdateStatus ::
  "db_env \<Rightarrow> string \<Rightarrow> WorkflowStatus \<Rightarrow> (WorkflowRequest \<Rightarrow> WorkflowRequest) \<Rightarrow> db \<Rightarrow> db_error option \<times> db" where
  "Workflows_UpdateStatus env i status extra = Update_where env workflows (\<lambda>r. wr_ID r = i) (\<lambda>r. extra (r\<lparr> wr_Status := status \<rparr>))"

definition Workflows_Delete :: "db_env \<Rightarrow> string \<Rightarrow> db \<Rightarrow> db_error option \<times> db" where
  "Workflows_Delete env i d =
     (case de_fault env d ''DELETE'' ''t_workflow_request'' of
        Some e \<Rightarrow> (Some (DBError e), d)
      | None \<Rightarrow> (None, d\<lparr> db_workflows := filter (\<lambda>r. wr_ID r \<noteq> i) (db_workflows d) \<rparr>))"

record WorkflowFilter =
  wf_WorkspaceID :: string
  wf_RequestedBy :: string
  wf_ResourceType :: string
  wf_Action :: string
  wf_Status :: string
  wf_Page :: int
  wf_PageSize :: int

definition Workflows_List :: "db_env \<Rightarrow> WorkflowFilter \<Rightarrow> db \<Rightarrow> db_error + (WorkflowRequest list \<times> nat)" where
  "Workflows_List env f d =
     (let P = (\<lambda>r. scope wr_WorkspaceID (wf_WorkspaceID f) r \<and> scope wr_RequestedBy (wf_RequestedBy f) r \<and>
                   scope wr_ResourceType (wf_ResourceType f) r \<and> scope wr_Action (wf_Action f) r \<and>
                   scope (workflow_text \<circ> wr_Status) (wf_Status f) r);
          page = (if wf_Page f < 1 then 1 else wf_Page f);
          pageSize = (if wf_PageSize f < 1 then 10 else wf_PageSize f)
      in case Count_rows env workflows P d of
           Inl e \<Rightarrow> Err e
         | Inr n \<Rightarrow> (case Find_rows env workflows P d of
                      Inl e \<Rightarrow> Err e | Inr rs \<Rightarrow> Ok (sql_page pageSize ((page - 1) * pageSize) (rev rs), n)))"

definition Policies_GetByID :: "db_env \<Rightarrow> string \<Rightarrow> db \<Rightarrow> db_error + PolicyRec" where
  "Policies_GetByID env i = First env policies (\<lambda>p. pl_ID p = i)"

definition Policies_GetByName :: "db_env \<Rightarrow> string \<Rightarrow> string \<Rightarrow> db \<Rightarrow> db_error + PolicyRec" where
  "Policies_GetByName env workspaceID name = First env policies (\<lambda>p. pl_WorkspaceID p = workspaceID \<and> pl_Name p = name)"

text \<open>
  \<open>Save\<close> inserts a row without an identifier, writes all fields of the visible row with the identifier, and
  when there is none inserts it, or overwrites the deleted row with that identifier.
\<close>

definition Policies_Update :: "db_env \<Rightarrow> PolicyRec \<Rightarrow> db \<Rightarrow> db_error option \<times> db" where
  "Policies_Update env p d =
     (if pl_ID p \<noteq> [] \<and> list_ex (\<lambda>r. pl_ID r = pl_ID p) (db_policies d)
      then (case de_fault env d ''UPDATE'' ''t_policy'' of
              Some e \<Rightarrow> (Some (DBError e), d)
            | None \<Rightarrow> (None, d\<lparr> db_policies := map (\<lambda>r. if pl_ID r = pl_ID p then p else r) (db_policies d) \<rparr>))
      else (case Create_row env policies p d of (Inl e, d') \<Rightarrow> (Some e, d') | (Inr _, d') \<Rightarrow> (None, d')))"

definition Policies_Delete :: "db_env \<Rightarrow> string \<Rightarrow> string \<Rightarrow> db \<Rightarrow> db_error option \<times> db" where
  "Policies_Delete env workspaceID name = Delete_where env policies True (\<lambda>p. pl_WorkspaceID p = workspaceID \<and> pl_Name p = name)"

record PolicyFilter =
  pof_WorkspaceID :: string
  pof_Status :: string
  pof_Keyword :: string
  pof_Page :: int
  pof_PageSize :: int

definition Policies_List :: "db_env \<Rightarrow> PolicyFilter \<Rightarrow> db \<Rightarrow> db_error + (PolicyRec list \<times> nat)" where
  "Policies_List env f d =
     (let P = (\<lambda>r. scope pl_WorkspaceID (pof_WorkspaceID f) r \<and> scope (policy_text \<circ> pl_Status) (pof_Status f) r \<and>
                   like_any env (pof_Keyword f) [pl_Name r, pl_Description r]);
          page = (if pof_Page f < 1 then 1 else pof_Page f);
          pageSize = (if pof_PageSize f < 1 then 20 else pof_PageSize f)
      in case Count_rows env policies P d of
           Inl e \<Rightarrow> Err e
         | Inr n \<Rightarrow> (case Find_rows env policies P d of
                      Inl e \<Rightarrow> Err e | Inr rs \<Rightarrow> Ok (sql_page pageSize ((page - 1) * pageSize) (rev rs), n)))"

text \<open>The order of creation is the order of the rows; \<open>created_at DESC\<close> reverses it.\<close>

definition Users_ListRaw :: "db_env \<Rightarrow> string \<Rightarrow> int \<Rightarrow> int \<Rightarrow> db \<Rightarrow> db_error + (User list \<times> nat)" where
  "Users_ListRaw env keyword page pageSize d =
     (let P = (\<lambda>u. like_any env keyword [u_Username u, u_Email u])
      in case Count_rows env users P d of
           Inl e \<Rightarrow> Err e
         | Inr n \<Rightarrow> (case Find_rows env users P d of
                      Inl e \<Rightarrow> Err e | Inr us \<Rightarrow> Ok (sql_page pageSize ((page - 1) * pageSize) (rev us), n)))"


section \<open>Facts\<close>

lemma first_in: "row_first t P d = Some r \<Longrightarrow> r \<in> set (tb_get t d) \<and> \<not> tb_deleted t r \<and> P r"
proof -
  assume "row_first t P d = Some r"
  then obtain rs where "sort_key (tb_id t) (filter P (visible t d)) = r # rs" by (auto simp: row_first_def split: list.splits)
  then have "r \<in> set (sort_key (tb_id t) (filter P (visible t d)))" by (metis list.set_intros(1))
  then show ?thesis by (simp add: visible_def)
qed

lemma first_none: "row_first t P d = None \<longleftrightarrow> (\<forall>r\<in>set (tb_get t d). \<not> tb_deleted t r \<longrightarrow> \<not> P r)"
proof -
  have "row_first t P d = None \<longleftrightarrow> sort_key (tb_id t) (filter P (visible t d)) = []"
    by (auto simp: row_first_def split: list.splits)
  also have "\<dots> \<longleftrightarrow> set (filter P (visible t d)) = {}" by (metis set_empty set_sort)
  finally show ?thesis by (auto simp: visible_def)
qed

lemma First_Ok: "First env t P d = Ok r \<Longrightarrow> r \<in> set (tb_get t d) \<and> \<not> tb_deleted t r \<and> P r"
  by (auto simp: First_def dest: first_in split: option.splits)

lemma First_least: "First env t P d = Ok r \<Longrightarrow> s \<in> set (tb_get t d) \<Longrightarrow> \<not> tb_deleted t s \<Longrightarrow> P s \<Longrightarrow> tb_id t r \<le> tb_id t s"
proof -
  assume f: "First env t P d = Ok r" and s: "s \<in> set (tb_get t d)" "\<not> tb_deleted t s" "P s"
  then have "row_first t P d = Some r" by (auto simp: First_def split: option.splits)
  then obtain rs where rs: "sort_key (tb_id t) (filter P (visible t d)) = r # rs" by (auto simp: row_first_def split: list.splits)
  have "s \<in> set (sort_key (tb_id t) (filter P (visible t d)))" using s by (simp add: visible_def)
  then have "s = r \<or> s \<in> set rs" unfolding rs by auto
  moreover have "sorted (map (tb_id t) (r # rs))" using sorted_sort_key [of "tb_id t" "filter P (visible t d)"] unfolding rs .
  ultimately show ?thesis by auto
qed

lemma Tx_Ok: "Tx fn d = (Inr x, d') \<longleftrightarrow> fn d = (Inr x, d')"
  by (auto simp: Tx_def split: prod.splits sum.splits)

lemma Tx_Err: "Tx fn d = (Inl e, d') \<Longrightarrow> d' = d"
  by (auto simp: Tx_def split: prod.splits sum.splits)

lemma Create_row_cases:
  assumes "Create_row env t r d = (x, d')"
  obtains (failed) e where "x = Inl e" "d' = d"
  | (created) "x = Inr (tb_before_create t (de_uuid env d) r)" "d' = tb_put t (tb_get t d @ [tb_before_create t (de_uuid env d) r]) d"
      "\<not> list_ex (\<lambda>s. tb_id t s = tb_id t (tb_before_create t (de_uuid env d) r) \<or> tb_clash t s (tb_before_create t (de_uuid env d) r)) (tb_get t d)"
proof -
  let ?r = "tb_before_create t (de_uuid env d) r"
  let ?clash = "list_ex (\<lambda>s. tb_id t s = tb_id t ?r \<or> tb_clash t s ?r) (tb_get t d)"
  have e: "Create_row env t r d =
    (case de_fault env d ''INSERT'' (tb_name t) of Some e \<Rightarrow> (Err (DBError e), d)
     | None \<Rightarrow> if ?clash then (Err (DBError ''duplicate key''), d) else (Ok ?r, tb_put t (tb_get t d @ [?r]) d))"
    unfolding Create_row_def Let_def by (rule refl)
  show thesis
  proof (cases "de_fault env d ''INSERT'' (tb_name t) = None \<and> \<not> ?clash")
    case True
    show thesis by (rule created) (use True assms e in simp_all)
  next
    case False
    have "d' = d \<and> (\<exists>e. x = Inl e)"
      using False assms unfolding e by (cases "de_fault env d ''INSERT'' (tb_name t)") auto
    then show thesis using failed by blast
  qed
qed

text \<open>Consecutive pages cover the list without overlap.\<close>

lemma page_of_append:
  assumes "1 \<le> s" "s \<le> 100"
  shows "concat (map (\<lambda>i. page_of (int (Suc i)) s xs) [0..<n]) = take (n * nat s) xs"
proof (induction n)
  case (Suc n)
  have "page_of (int (Suc n)) s xs = take (nat s) (drop (n * nat s) xs)"
    using assms by (simp add: page_of_def Let_def nat_mult_distrib mult.commute)
  then show ?case using Suc take_add [of "n * nat s" "nat s" xs] by (simp add: add.commute)
qed simp

end
