(* ===== verification/Access.thy ===== *)
theory Access
  imports Server_Store
begin

text \<open>
  Who may do what on the management server: roles (\<open>internal/server/dto/workspace.go\<close>), the permission
  checker (\<open>internal/server/permission\<close>), the list of revoked tokens (\<open>internal/server/auth\<close>), the
  middleware that authenticates a request and checks its workspace (\<open>internal/server/server/middleware\<close>),
  and the routes, controller and service that manage the members of a workspace.

  A request carries the headers and path parameters the code reads; what the middleware leaves in the gin
  context is the record \<open>gctx\<close>. The JWT library is the parameter \<open>ae_ParseToken\<close>. A handler returns its
  response and the database; responses keep the kind and drop the message. A nil pointer that is
  dereferenced is the response \<open>Panics\<close>.
\<close>

section \<open>Roles\<close>

definition RoleAdmin :: string where "RoleAdmin = ''admin''"
definition RoleEditor :: string where "RoleEditor = ''editor''"
definition RoleMember :: string where "RoleMember = ''member''"
definition RoleViewer :: string where "RoleViewer = ''viewer''"

definition GetRoleWeight :: "string \<Rightarrow> int" where
  "GetRoleWeight role =
     (case map_of [(RoleAdmin, 100), (RoleEditor, 80), (RoleMember, 40), (RoleViewer, 10)] role of None \<Rightarrow> 0 | Some n \<Rightarrow> n)"

definition SystemRolePlatformAdmin :: string where "SystemRolePlatformAdmin = ''platform_admin''"
definition SystemRoleUser :: string where "SystemRoleUser = ''user''"

lemmas role_names = RoleAdmin_def RoleEditor_def RoleMember_def RoleViewer_def SystemRolePlatformAdmin_def SystemRoleUser_def

section \<open>The checker\<close>

definition RequireWorkspaceRole :: "db_env \<Rightarrow> string \<Rightarrow> string \<Rightarrow> string \<Rightarrow> db \<Rightarrow> string + WorkspaceMember option" where
  "RequireWorkspaceRole env wsID userID role d =
     (case Users_GetByID env userID d of
        Inl _ \<Rightarrow> Err ''user not found''
      | Inr user \<Rightarrow>
          if u_SystemRole user = SystemRolePlatformAdmin then Ok None
          else case GetMembership env wsID userID d of
                 Inl _ \<Rightarrow> Err ''not a member of this workspace''
               | Inr member \<Rightarrow>
                   if wm_Status member = ''suspended'' \<or> wm_Status member = ''removed''
                   then Err ''your access to this workspace has been suspended or revoked''
                   else if GetRoleWeight (wm_Role member) < GetRoleWeight role then Err ''insufficient role in workspace''
                   else Ok (Some member))"

record ImpersonationConfig =
  ic_UserName :: string
  ic_Groups :: "string list"

definition NamespaceAccessor :: "(ImpersonationConfig \<Rightarrow> string + 'c) \<Rightarrow> string \<Rightarrow> string \<Rightarrow> string \<Rightarrow> string + 'c" where
  "NamespaceAccessor new wsID userID role =
     (case new \<lparr> ic_UserName = ''wf-user-'' @ userID, ic_Groups = [''wf-group-'' @ wsID @ ''-'' @ role] \<rparr> of
        Inl e \<Rightarrow> Err (''failed to create scoped k8s client: '' @ e)
      | Inr c \<Rightarrow> Ok c)"

datatype 'a call = Returns "string + 'a" | NilDeref

definition K8sClient :: "db_env \<Rightarrow> (ImpersonationConfig \<Rightarrow> string + 'c) \<Rightarrow> string \<Rightarrow> string \<Rightarrow> db \<Rightarrow> 'c call" where
  "K8sClient env new wsID userID d =
     (case RequireWorkspaceRole env wsID userID RoleViewer d of
        Inl e \<Rightarrow> Returns (Err (''permission denied: '' @ e))
      | Inr None \<Rightarrow> NilDeref
      | Inr (Some member) \<Rightarrow> Returns (NamespaceAccessor new wsID userID (wm_Role member)))"

section \<open>Revoked tokens\<close>

type_synonym RevocationList = "string \<rightharpoonup> int"

definition NewRevocationList :: RevocationList where "NewRevocationList = (\<lambda>_. None)"

definition Revoke :: "string \<Rightarrow> int \<Rightarrow> RevocationList \<Rightarrow> RevocationList" where
  "Revoke jti expiresAt rl = rl(jti \<mapsto> expiresAt)"

definition IsRevoked :: "string \<Rightarrow> RevocationList \<Rightarrow> bool" where
  "IsRevoked jti rl \<longleftrightarrow> rl jti \<noteq> None"

definition Cleanup :: "int \<Rightarrow> RevocationList \<Rightarrow> RevocationList" where
  "Cleanup now rl = (\<lambda>jti. case rl jti of None \<Rightarrow> None | Some expiresAt \<Rightarrow> if now > expiresAt then None else Some expiresAt)"

section \<open>Requests\<close>

record claims =
  cl_ID :: string
  cl_Subject :: string
  cl_ExpiresAt :: "int option"
  cl_IssuedAt :: int
  cl_Issuer :: string
  cl_Email :: string
  cl_Username :: string
  cl_SystemRole :: string

definition GenerateBusinessJWT ::
  "(claims \<Rightarrow> string + string) \<Rightarrow> string \<Rightarrow> int \<Rightarrow> string \<Rightarrow> string \<Rightarrow> string \<Rightarrow> string \<Rightarrow> string + string" where
  "GenerateBusinessJWT sign jti now userID email username systemRole =
     sign \<lparr> cl_ID = jti, cl_Subject = userID, cl_ExpiresAt = Some (now + 12 * 3600 * 1000000000), cl_IssuedAt = now,
            cl_Issuer = ''lattice-bff'', cl_Email = email, cl_Username = username, cl_SystemRole = systemRole \<rparr>"

record request =
  rq_Authorization :: string
  rq_WorkspaceId :: string
  rq_id :: string
  rq_userID :: string

record gctx =
  gc_user_id :: string
  gc_username :: string
  gc_email :: string
  gc_system_role :: string
  gc_jti :: string
  gc_exp :: "int option"
  gc_workspace_id :: string
  gc_member :: "WorkspaceMember option option"

definition gctx0 :: gctx where
  "gctx0 = \<lparr> gc_user_id = [], gc_username = [], gc_email = [], gc_system_role = [], gc_jti = [], gc_exp = None,
     gc_workspace_id = [], gc_member = None \<rparr>"

datatype 'a response = RespOK 'a | RespAccepted 'a | BadRequest | Unauthorized | Forbidden | RespError | Panics

record auth_env =
  ae_db :: db_env
  ae_ParseToken :: "int \<Rightarrow> string \<Rightarrow> string + claims"

definition AuthMiddleware :: "auth_env \<Rightarrow> RevocationList option \<Rightarrow> request \<Rightarrow> gctx \<Rightarrow> 'a response + gctx" where
  "AuthMiddleware env rl rq c =
     (if rq_Authorization rq = [] \<or> take 7 (rq_Authorization rq) \<noteq> ''Bearer '' then Inl Unauthorized
      else case ae_ParseToken env (de_now (ae_db env)) (drop 7 (rq_Authorization rq)) of
             Inl _ \<Rightarrow> Inl Unauthorized
           | Inr cl \<Rightarrow>
               if (case rl of None \<Rightarrow> False | Some l \<Rightarrow> cl_ID cl \<noteq> [] \<and> IsRevoked (cl_ID cl) l) then Inl Unauthorized
               else case cl_ExpiresAt cl of
                      None \<Rightarrow> Inl Panics
                    | Some t \<Rightarrow> Inr (c\<lparr> gc_user_id := cl_Subject cl, gc_username := cl_Username cl, gc_email := cl_Email cl,
                                      gc_system_role := cl_SystemRole cl, gc_jti := cl_ID cl, gc_exp := Some t \<rparr>))"

definition request_workspace :: "request \<Rightarrow> string" where
  "request_workspace rq = (if rq_WorkspaceId rq = [] then rq_id rq else rq_WorkspaceId rq)"

definition WorkspaceAuthMiddleware ::
  "auth_env \<Rightarrow> RevocationList option \<Rightarrow> string \<Rightarrow> request \<Rightarrow> gctx \<Rightarrow> db \<Rightarrow> 'a response + gctx" where
  "WorkspaceAuthMiddleware env rl requiredRole rq c d =
     (case AuthMiddleware env rl rq c of
        Inl r \<Rightarrow> Inl r
      | Inr c \<Rightarrow>
          (let wsID = request_workspace rq
           in if wsID = [] then Inl Forbidden
              else if gc_system_role c = SystemRolePlatformAdmin then Inr (c\<lparr> gc_workspace_id := wsID \<rparr>)
              else case RequireWorkspaceRole (ae_db env) wsID (gc_user_id c) requiredRole d of
                     Inl _ \<Rightarrow> Inl Forbidden
                   | Inr member \<Rightarrow> Inr (c\<lparr> gc_workspace_id := wsID, gc_member := Some member \<rparr>)))"

definition AdminOnly :: "auth_env \<Rightarrow> RevocationList option \<Rightarrow> request \<Rightarrow> gctx \<Rightarrow> db \<Rightarrow> 'a response + gctx" where
  "AdminOnly env rl = WorkspaceAuthMiddleware env rl RoleAdmin"

definition PlatformAdminOnly :: "gctx \<Rightarrow> 'a response + gctx" where
  "PlatformAdminOnly c = (if gc_system_role c \<noteq> SystemRolePlatformAdmin then Inl Forbidden else Inr c)"

definition logout :: "int \<Rightarrow> gctx \<Rightarrow> RevocationList \<Rightarrow> unit response \<times> RevocationList" where
  "logout now c rl =
     (if gc_jti c = [] then (RespError, rl)
      else (RespOK (), Revoke (gc_jti c) (case gc_exp c of Some t \<Rightarrow> t | None \<Rightarrow> now + 12 * 3600 * 1000000000) rl))"

section \<open>Members\<close>

definition new_member :: "string \<Rightarrow> string \<Rightarrow> string \<Rightarrow> WorkspaceMember" where
  "new_member workspaceID userID role =
     \<lparr> wm_ID = [], wm_Deleted = False, wm_WorkspaceID = workspaceID, wm_UserID = userID, wm_Role = role, wm_Status = [],
       wm_InvitedBy = [], wm_JoinedAt = None \<rparr>"

definition member_Add :: "db_env \<Rightarrow> string \<Rightarrow> string \<Rightarrow> string \<Rightarrow> db \<Rightarrow> db_error option \<times> db" where
  "member_Add env workspaceID userID role =
     AddMember env ((new_member workspaceID userID role)\<lparr> wm_Status := ''active'', wm_JoinedAt := Some (de_now env) \<rparr>)"

record MemberVo =
  mv_UserID :: string
  mv_Name :: string
  mv_Email :: string
  mv_Avatar :: string
  mv_Role :: string
  mv_Provider :: string
  mv_Status :: string
  mv_JoinedAt :: "int option"

text \<open>The users of the listed members and their identities are loaded with the rows.\<close>

definition preload_user :: "db \<Rightarrow> string \<Rightarrow> User option" where
  "preload_user d i = row_first users (\<lambda>u. u_ID u = i) d"

definition member_vo :: "db \<Rightarrow> WorkspaceMember \<Rightarrow> MemberVo" where
  "member_vo d m =
     (let u = preload_user d (wm_UserID m);
          ids = (case u of None \<Rightarrow> [] | Some u \<Rightarrow> filter (\<lambda>i. ui_UserID i = u_ID u) (visible identities d))
      in \<lparr> mv_UserID = wm_UserID m, mv_Name = (case u of None \<Rightarrow> [] | Some u \<Rightarrow> u_Username u),
           mv_Email = (case u of None \<Rightarrow> [] | Some u \<Rightarrow> u_Email u), mv_Avatar = (case u of None \<Rightarrow> [] | Some u \<Rightarrow> u_Avatar u),
           mv_Role = wm_Role m, mv_Provider = (case ids of [] \<Rightarrow> ''local'' | i # _ \<Rightarrow> ui_Provider i), mv_Status = wm_Status m,
           mv_JoinedAt = wm_JoinedAt m \<rparr>)"

definition member_List :: "db_env \<Rightarrow> string \<Rightarrow> db \<Rightarrow> db_error + MemberVo list" where
  "member_List env workspaceID d = map_sum id (map (member_vo d)) (ListMembers env workspaceID d)"

definition GetMemberRole :: "db_env \<Rightarrow> string \<Rightarrow> string \<Rightarrow> db \<Rightarrow> db_error + string" where
  "GetMemberRole env ns userID d =
     (case Workspaces_GetByNamespace env ns d of
        Inl e \<Rightarrow> Err e
      | Inr ws \<Rightarrow> (case GetMembership env (ws_ID ws) userID d of Inl e \<Rightarrow> Err e | Inr m \<Rightarrow> Ok (wm_Role m)))"

definition answer :: "'e option \<times> db \<Rightarrow> unit response \<times> db" where
  "answer r = (case r of (None, d) \<Rightarrow> (RespOK (), d) | (Some _, d) \<Rightarrow> (RespError, d))"

definition handleListMembers :: "db_env \<Rightarrow> request \<Rightarrow> db \<Rightarrow> MemberVo list response" where
  "handleListMembers env rq d = (case member_List env (rq_id rq) d of Inl _ \<Rightarrow> RespError | Inr ms \<Rightarrow> RespOK ms)"

text \<open>A body is the role it decodes to; \<open>binding:required\<close> refuses an empty one.\<close>

definition bound :: "string option \<Rightarrow> string option" where
  "bound body = (case body of None \<Rightarrow> None | Some r \<Rightarrow> if r = [] then None else Some r)"

definition handleAddMember :: "db_env \<Rightarrow> request \<Rightarrow> string option \<Rightarrow> db \<Rightarrow> unit response \<times> db" where
  "handleAddMember env rq body d =
     (case bound body of
        None \<Rightarrow> (BadRequest, d)
      | Some role \<Rightarrow>
          (case GetMembership env (rq_id rq) (rq_userID rq) d of
             Inr _ \<Rightarrow> (BadRequest, d)
           | Inl _ \<Rightarrow> answer (member_Add env (rq_id rq) (rq_userID rq) role d)))"

definition requireWorkspaceAdmin :: "gctx \<Rightarrow> string \<Rightarrow> unit response option" where
  "requireWorkspaceAdmin c wsID =
     (if gc_system_role c = SystemRolePlatformAdmin then None
      else case gc_member c of
             None \<Rightarrow> Some Forbidden
           | Some None \<Rightarrow> Some Panics
           | Some (Some member) \<Rightarrow> if GetRoleWeight (wm_Role member) < GetRoleWeight RoleAdmin then Some Forbidden else None)"

definition handleUpdateMemberRole :: "db_env \<Rightarrow> gctx \<Rightarrow> request \<Rightarrow> string option \<Rightarrow> db \<Rightarrow> unit response \<times> db" where
  "handleUpdateMemberRole env c rq body d =
     (case bound body of
        None \<Rightarrow> (BadRequest, d)
      | Some role \<Rightarrow>
          (case Users_GetByID env (gc_user_id c) d of
             Inl _ \<Rightarrow> (RespError, d)
           | Inr caller \<Rightarrow>
               if u_SystemRole caller \<noteq> SystemRolePlatformAdmin \<and>
                  (case GetMembership env (rq_id rq) (gc_user_id c) d of
                     Inl _ \<Rightarrow> False | Inr callerMember \<Rightarrow> GetRoleWeight role > GetRoleWeight (wm_Role callerMember))
               then (Forbidden, d)
               else answer (UpdateRole env (rq_id rq) (rq_userID rq) role d)))"

definition handleRemoveMember :: "db_env \<Rightarrow> gctx \<Rightarrow> request \<Rightarrow> db \<Rightarrow> unit response \<times> db" where
  "handleRemoveMember env c rq d =
     (case (if gc_user_id c \<noteq> rq_userID rq then requireWorkspaceAdmin c (rq_id rq) else None) of
        Some r \<Rightarrow> (r, d)
      | None \<Rightarrow> answer (SoftRemove env (rq_id rq) (rq_userID rq) d))"

datatype member_call = AddCall "string option" | UpdateCall "string option" | RemoveCall

text \<open>\<open>memberRouter\<close>: the middleware of each route, then its handler.\<close>

definition memberRouter ::
  "auth_env \<Rightarrow> RevocationList option \<Rightarrow> member_call \<Rightarrow> request \<Rightarrow> db \<Rightarrow> unit response \<times> db" where
  "memberRouter env rl m rq d =
     (case (case m of RemoveCall \<Rightarrow> WorkspaceAuthMiddleware env rl RoleViewer rq gctx0 d | _ \<Rightarrow> AdminOnly env rl rq gctx0 d) of
        Inl r \<Rightarrow> (r, d)
      | Inr c \<Rightarrow>
          (case m of
             AddCall body \<Rightarrow> handleAddMember (ae_db env) rq body d
           | UpdateCall body \<Rightarrow> handleUpdateMemberRole (ae_db env) c rq body d
           | RemoveCall \<Rightarrow> handleRemoveMember (ae_db env) c rq d))"

section \<open>What the checks decide\<close>

definition holds_role :: "db \<Rightarrow> string \<Rightarrow> string \<Rightarrow> string \<Rightarrow> bool" where
  "holds_role d wsID userID role \<longleftrightarrow>
     (\<exists>u\<in>set (db_users d). \<not> u_Deleted u \<and> u_ID u = userID \<and>
        (u_SystemRole u = SystemRolePlatformAdmin \<or>
         (\<exists>m\<in>set (db_members d). \<not> wm_Deleted m \<and> wm_WorkspaceID m = wsID \<and> wm_UserID m = userID \<and>
            wm_Status m \<noteq> ''suspended'' \<and> wm_Status m \<noteq> ''removed'' \<and> GetRoleWeight role \<le> GetRoleWeight (wm_Role m))))"

definition user_keys_ok :: "db \<Rightarrow> bool" where
  "user_keys_ok d \<longleftrightarrow> distinct (map u_ID (db_users d)) \<and> [] \<notin> set (map u_ID (db_users d))"

definition one_membership :: "db \<Rightarrow> bool" where
  "one_membership d \<longleftrightarrow>
     (\<forall>m\<in>set (db_members d). \<forall>n\<in>set (db_members d). \<not> wm_Deleted m \<and> \<not> wm_Deleted n \<and>
        wm_WorkspaceID m = wm_WorkspaceID n \<and> wm_UserID m = wm_UserID n \<longrightarrow> m = n)"

definition answers_queries :: "db_env \<Rightarrow> db \<Rightarrow> bool" where
  "answers_queries env d \<longleftrightarrow> (\<forall>t. de_fault env d ''SELECT'' t = None)"

definition presented :: "auth_env \<Rightarrow> RevocationList option \<Rightarrow> request \<Rightarrow> claims option" where
  "presented env rl rq =
     (if take 7 (rq_Authorization rq) \<noteq> ''Bearer '' then None
      else case ae_ParseToken env (de_now (ae_db env)) (drop 7 (rq_Authorization rq)) of
             Inl _ \<Rightarrow> None
           | Inr cl \<Rightarrow> if cl_ExpiresAt cl = None \<or> (\<exists>l. rl = Some l \<and> cl_ID cl \<noteq> [] \<and> IsRevoked (cl_ID cl) l) then None else Some cl)"

lemma unique_user:
  assumes "distinct (map u_ID (db_users d))" "u \<in> set (db_users d)" "v \<in> set (db_users d)" "u_ID u = u_ID v"
  shows "u = v"
  using assms by (metis distinct_map inj_onD)

lemma get_user:
  assumes "answers_queries env d" "user_keys_ok d" "u \<in> set (db_users d)" "\<not> u_Deleted u"
  shows "Users_GetByID env (u_ID u) d = Ok u"
proof -
  have "row_first users (\<lambda>v. u_ID v = u_ID u) d \<noteq> None" using assms(3,4) by (auto simp: first_none)
  then obtain v where v: "row_first users (\<lambda>v. u_ID v = u_ID u) d = Some v" by blast
  then have "v = u" using first_in [OF v] unique_user [of d v u] assms(2,3) by (simp add: user_keys_ok_def)
  then show ?thesis using v assms(1) by (simp add: Users_GetByID_def First_def answers_queries_def)
qed

lemma get_membership:
  assumes "answers_queries env d" "one_membership d" "m \<in> set (db_members d)" "\<not> wm_Deleted m" "wm_WorkspaceID m \<noteq> []" "wm_UserID m \<noteq> []"
  shows "GetMembership env (wm_WorkspaceID m) (wm_UserID m) d = Ok m"
proof -
  let ?P = "\<lambda>n. scope wm_WorkspaceID (wm_WorkspaceID m) n \<and> scope wm_UserID (wm_UserID m) n"
  have "row_first members ?P d \<noteq> None" using assms(3,4) by (auto simp: first_none scope_def)
  then obtain n where n: "row_first members ?P d = Some n" by blast
  have "n \<in> set (db_members d)" "\<not> wm_Deleted n" "wm_WorkspaceID n = wm_WorkspaceID m" "wm_UserID n = wm_UserID m"
    using first_in [OF n] assms(5,6) by (auto simp: scope_def)
  then have "n = m" using assms(2-4) unfolding one_membership_def by blast
  then show ?thesis using n assms(1) by (simp add: GetMembership_def First_def answers_queries_def)
qed

lemma GetMembership_Ok:
  assumes "GetMembership env wsID userID d = Ok m" "wsID \<noteq> []" "userID \<noteq> []"
  shows "m \<in> set (db_members d) \<and> \<not> wm_Deleted m \<and> wm_WorkspaceID m = wsID \<and> wm_UserID m = userID"
  using First_Ok [OF assms(1) [unfolded GetMembership_def]] assms(2,3) by (simp add: scope_def)

lemma Users_GetByID_Ok:
  "Users_GetByID env userID d = Ok u \<Longrightarrow> u \<in> set (db_users d) \<and> \<not> u_Deleted u \<and> u_ID u = userID"
  unfolding Users_GetByID_def using First_Ok by fastforce

lemma require_role_sound:
  assumes "RequireWorkspaceRole env wsID userID role d = Ok m" "wsID \<noteq> []" "[] \<notin> set (map u_ID (db_users d))"
  shows "holds_role d wsID userID role"
proof -
  obtain u where u: "Users_GetByID env userID d = Ok u" using assms(1) by (auto simp: RequireWorkspaceRole_def split: sum.splits)
  then have u': "u \<in> set (db_users d)" "\<not> u_Deleted u" "u_ID u = userID" using Users_GetByID_Ok by blast+
  then have ne: "userID \<noteq> []" using assms(3) by force
  show ?thesis
  proof (cases "u_SystemRole u = SystemRolePlatformAdmin")
    case True
    then show ?thesis unfolding holds_role_def using u' by blast
  next
    case False
    then obtain n where n: "GetMembership env wsID userID d = Ok n" "wm_Status n \<noteq> ''suspended''" "wm_Status n \<noteq> ''removed''"
        "GetRoleWeight role \<le> GetRoleWeight (wm_Role n)"
      using assms(1) u by (auto simp: RequireWorkspaceRole_def split: sum.splits if_splits)
    then show ?thesis unfolding holds_role_def using u' GetMembership_Ok [OF n(1) assms(2) ne] by blast
  qed
qed

lemma require_role_complete:
  assumes "holds_role d wsID userID role" "answers_queries env d" "user_keys_ok d" "one_membership d" "wsID \<noteq> []"
  shows "\<exists>m. RequireWorkspaceRole env wsID userID role d = Ok m"
proof -
  obtain u where u: "u \<in> set (db_users d)" "\<not> u_Deleted u" "u_ID u = userID"
    and c: "u_SystemRole u = SystemRolePlatformAdmin \<or> (\<exists>m\<in>set (db_members d). \<not> wm_Deleted m \<and> wm_WorkspaceID m = wsID \<and>
      wm_UserID m = userID \<and> wm_Status m \<noteq> ''suspended'' \<and> wm_Status m \<noteq> ''removed'' \<and> GetRoleWeight role \<le> GetRoleWeight (wm_Role m))"
    using assms(1) unfolding holds_role_def by blast
  have g: "Users_GetByID env userID d = Ok u" using get_user [OF assms(2,3) u(1,2)] u(3) by simp
  have ne: "userID \<noteq> []" using u assms(3) unfolding user_keys_ok_def by force
  from c show ?thesis
  proof
    assume "u_SystemRole u = SystemRolePlatformAdmin"
    then show ?thesis using g by (simp add: RequireWorkspaceRole_def)
  next
    assume "\<exists>m\<in>set (db_members d). \<not> wm_Deleted m \<and> wm_WorkspaceID m = wsID \<and>
      wm_UserID m = userID \<and> wm_Status m \<noteq> ''suspended'' \<and> wm_Status m \<noteq> ''removed'' \<and> GetRoleWeight role \<le> GetRoleWeight (wm_Role m)"
    then obtain m where m: "m \<in> set (db_members d)" "\<not> wm_Deleted m" "wm_WorkspaceID m = wsID" "wm_UserID m = userID"
      "wm_Status m \<noteq> ''suspended''" "wm_Status m \<noteq> ''removed''" "GetRoleWeight role \<le> GetRoleWeight (wm_Role m)" by blast
    then have "GetMembership env wsID userID d = Ok m" using get_membership [OF assms(2,4) m(1,2)] assms(5) ne by simp
    then show ?thesis using g m by (simp add: RequireWorkspaceRole_def)
  qed
qed

definition signed_in :: "claims \<Rightarrow> gctx \<Rightarrow> gctx" where
  "signed_in cl c =
     c\<lparr> gc_user_id := cl_Subject cl, gc_username := cl_Username cl, gc_email := cl_Email cl,
        gc_system_role := cl_SystemRole cl, gc_jti := cl_ID cl, gc_exp := cl_ExpiresAt cl \<rparr>"

lemma AuthMiddleware_Ok: "AuthMiddleware env rl rq c = Inr c' \<longleftrightarrow> (\<exists>cl. presented env rl rq = Some cl \<and> c' = signed_in cl c)"
proof (cases "ae_ParseToken env (de_now (ae_db env)) (drop 7 (rq_Authorization rq))")
  case (Inl e)
  then show ?thesis by (simp add: AuthMiddleware_def presented_def)
next
  case (Inr cl)
  then show ?thesis
    by (cases "cl_ExpiresAt cl"; cases rl; cases "rq_Authorization rq = []")
      (auto simp: AuthMiddleware_def presented_def signed_in_def)
qed

lemma WorkspaceAuthMiddleware_Ok:
  "(WorkspaceAuthMiddleware env rl role rq c d :: 'a response + gctx) = Inr c' \<longleftrightarrow>
     (\<exists>cl. presented env rl rq = Some cl \<and> request_workspace rq \<noteq> [] \<and>
        (cl_SystemRole cl = SystemRolePlatformAdmin \<and> c' = (signed_in cl c)\<lparr> gc_workspace_id := request_workspace rq \<rparr> \<or>
         cl_SystemRole cl \<noteq> SystemRolePlatformAdmin \<and>
         (\<exists>m. RequireWorkspaceRole (ae_db env) (request_workspace rq) (cl_Subject cl) role d = Ok m \<and>
              c' = (signed_in cl c)\<lparr> gc_workspace_id := request_workspace rq, gc_member := Some m \<rparr>)))"
proof (cases "AuthMiddleware env rl rq c :: 'a response + gctx")
  case (Inl r)
  then have "presented env rl rq = None" using AuthMiddleware_Ok [where ?'a = 'a, of env rl rq c] by (cases "presented env rl rq") auto
  then show ?thesis using Inl by (simp add: WorkspaceAuthMiddleware_def)
next
  case (Inr c1)
  then obtain cl where "presented env rl rq = Some cl" "c1 = signed_in cl c" using AuthMiddleware_Ok by blast
  then show ?thesis using Inr
    by (auto simp: WorkspaceAuthMiddleware_def Let_def signed_in_def split: sum.splits)
qed


definition demo_user :: "string \<Rightarrow> string \<Rightarrow> User" where
  "demo_user i role = \<lparr> u_ID = i, u_Deleted = False, u_SystemRole = role, u_Username = i, u_Password = [], u_Mobile = [],
     u_Email = i @ ''@x'', u_Avatar = [], u_Address = [], u_Gender = 0 \<rparr>"

definition demo_member :: "string \<Rightarrow> string \<Rightarrow> string \<Rightarrow> WorkspaceMember" where
  "demo_member ws i role = (new_member ws i role)\<lparr> wm_ID := ws @ i, wm_Status := ''active'' \<rparr>"

definition demo_db :: db where
  "demo_db = \<lparr> db_users = [demo_user ''alice'' ''user'', demo_user ''bob'' ''user'', demo_user ''root'' ''platform_admin''], db_profiles = [],
     db_workspaces = [], db_members = [demo_member ''w1'' ''alice'' ''admin'', demo_member ''w2'' ''bob'' ''viewer''], db_invitations = [],
     db_identities = [], db_workflows = [], db_policies = [] \<rparr>"

definition demo_db_env :: db_env where
  "demo_db_env = \<lparr> de_fault = (\<lambda>_ _ _. None), de_uuid = (\<lambda>d. ''id'' @ replicate (length (db_members d)) CHR ''x''),
     de_like = (\<lambda>p s. p = ''%'' @ s @ ''%''), de_now = 0 \<rparr>"

text \<open>The demonstration's tokens are the names of their subjects, valid for ten units of time.\<close>

definition demo_auth :: auth_env where
  "demo_auth = \<lparr> ae_db = demo_db_env, ae_ParseToken = (\<lambda>now tok. if now < 10 then
     Inr \<lparr> cl_ID = ''jti-'' @ tok, cl_Subject = tok, cl_ExpiresAt = Some 10, cl_IssuedAt = 0, cl_Issuer = ''lattice-bff'', cl_Email = tok @ ''@x'', cl_Username = tok, cl_SystemRole = ''user'' \<rparr>
     else Inl ''token is expired'') \<rparr>"

definition demo_rq :: "string \<Rightarrow> string \<Rightarrow> string \<Rightarrow> string \<Rightarrow> request" where
  "demo_rq tok header ws user = \<lparr> rq_Authorization = ''Bearer '' @ tok, rq_WorkspaceId = header, rq_id = ws, rq_userID = user \<rparr>"

lemmas demo_access_defs = demo_user_def demo_member_def demo_db_def demo_db_env_def demo_auth_def demo_rq_def new_member_def

lemma demo_db_ok: "answers_queries demo_db_env demo_db" "user_keys_ok demo_db" "one_membership demo_db"
  by (auto simp: answers_queries_def user_keys_ok_def one_membership_def demo_access_defs)


section \<open>Changes of members\<close>

definition other_members :: "string \<Rightarrow> string \<Rightarrow> db \<Rightarrow> WorkspaceMember list" where
  "other_members wsID userID d = filter (\<lambda>m. \<not> (wm_WorkspaceID m = wsID \<and> wm_UserID m = userID)) (db_members d)"

definition confined :: "string \<Rightarrow> string \<Rightarrow> db \<Rightarrow> db \<Rightarrow> bool" where
  "confined wsID userID d d' \<longleftrightarrow> other_members wsID userID d' = other_members wsID userID d \<and> d' = d\<lparr> db_members := db_members d' \<rparr>"

lemma confined_refl [simp]: "confined wsID userID d d"
  by (simp add: confined_def)

lemma filter_map_other:
  assumes "\<And>m. m \<in> set ms \<Longrightarrow> f m \<noteq> m \<Longrightarrow> \<not> P m \<and> \<not> P (f m)"
  shows "filter P (map f ms) = filter P ms"
  using assms by (induction ms) (simp, metis filter.simps(2) list.set_intros list.simps(9))

lemma update_confined:
  assumes "Update_where env members (\<lambda>m. wm_WorkspaceID m = wsID \<and> wm_UserID m = userID) f d = (e, d')"
    and "\<And>m. wm_WorkspaceID (f m) = wm_WorkspaceID m \<and> wm_UserID (f m) = wm_UserID m"
  shows "confined wsID userID d d'"
proof (cases "de_fault env d ''UPDATE'' ''t_workspaces_member''")
  case None
  let ?g = "\<lambda>m. if \<not> wm_Deleted m \<and> wm_WorkspaceID m = wsID \<and> wm_UserID m = userID then f m else m"
  have "d' = d\<lparr> db_members := map ?g (db_members d) \<rparr>" using None assms(1) by (simp add: Update_where_def)
  moreover have "filter (\<lambda>m. \<not> (wm_WorkspaceID m = wsID \<and> wm_UserID m = userID)) (map ?g (db_members d)) =
      filter (\<lambda>m. \<not> (wm_WorkspaceID m = wsID \<and> wm_UserID m = userID)) (db_members d)"
    by (rule filter_map_other) (auto simp: assms(2) split: if_splits)
  ultimately show ?thesis by (simp add: confined_def other_members_def)
qed (use assms(1) in \<open>simp add: Update_where_def\<close>)

lemma add_confined: "member_Add env wsID userID role d = (e, d') \<Longrightarrow> confined wsID userID d d'"
  by (auto simp: member_Add_def AddMember_def Create_row_def Let_def new_member_def confined_def other_members_def
      split: option.splits if_splits prod.splits sum.splits)

lemma answer_snd: "snd (answer r) = snd r"
  by (simp add: answer_def split: prod.splits option.splits)

lemma handlers_confined:
  "confined (rq_id rq) (rq_userID rq) d (snd (handleAddMember env rq body d))"
  "confined (rq_id rq) (rq_userID rq) d (snd (handleUpdateMemberRole env c rq body d))"
  "confined (rq_id rq) (rq_userID rq) d (snd (handleRemoveMember env c rq d))"
proof -
  show "confined (rq_id rq) (rq_userID rq) d (snd (handleAddMember env rq body d))"
    using add_confined [OF prod.collapse [symmetric]] by (simp add: handleAddMember_def answer_snd split: option.splits sum.splits)
  have "confined (rq_id rq) (rq_userID rq) d (snd (UpdateRole env (rq_id rq) (rq_userID rq) role d))" for role
    unfolding UpdateRole_def by (rule update_confined [OF prod.collapse [symmetric]]) simp
  then show "confined (rq_id rq) (rq_userID rq) d (snd (handleUpdateMemberRole env c rq body d))"
    by (simp add: handleUpdateMemberRole_def answer_snd split: option.splits sum.splits)
  have "confined (rq_id rq) (rq_userID rq) d (snd (SoftRemove env (rq_id rq) (rq_userID rq) d))"
    unfolding SoftRemove_def by (rule update_confined [OF prod.collapse [symmetric]]) simp
  then show "confined (rq_id rq) (rq_userID rq) d (snd (handleRemoveMember env c rq d))"
    by (simp add: handleRemoveMember_def answer_snd split: option.splits)
qed

lemma require_role_member:
  assumes "RequireWorkspaceRole env wsID userID role d = Ok (Some m)" "GetRoleWeight role' \<le> GetRoleWeight (wm_Role m)"
  shows "RequireWorkspaceRole env wsID userID role' d = Ok (Some m)"
proof -
  obtain u where u: "Users_GetByID env userID d = Ok u" "u_SystemRole u \<noteq> SystemRolePlatformAdmin"
    using assms(1) by (auto simp: RequireWorkspaceRole_def split: sum.splits if_splits)
  then have "GetMembership env wsID userID d = Ok m" "wm_Status m \<noteq> ''suspended''" "wm_Status m \<noteq> ''removed''"
    using assms(1) by (auto simp: RequireWorkspaceRole_def split: sum.splits if_splits)
  then show ?thesis using u assms(2) by (simp add: RequireWorkspaceRole_def)
qed

lemma remove_passes:
  assumes "requireWorkspaceAdmin c wsID = None"
  shows "gc_system_role c = SystemRolePlatformAdmin \<or> (\<exists>m. gc_member c = Some (Some m) \<and> GetRoleWeight RoleAdmin \<le> GetRoleWeight (wm_Role m))"
  using assms by (auto simp: requireWorkspaceAdmin_def split: option.splits if_splits)

text \<open>C13: A request that changes members changes only the rows of the user and workspace in its path. If
  it names no other workspace in its header, its sender is a platform administrator, or an administrator
  of that workspace, or a member of it who leaves.\<close>

theorem member_change_authorised:
  assumes "memberRouter env rl m rq d = (r, d')" "d' \<noteq> d" "[] \<notin> set (map u_ID (db_users d))"
  shows "confined (rq_id rq) (rq_userID rq) d d' \<and>
    (rq_WorkspaceId rq = [] \<or> rq_WorkspaceId rq = rq_id rq \<longrightarrow>
      (\<exists>cl. presented env rl rq = Some cl \<and>
        (cl_SystemRole cl = SystemRolePlatformAdmin \<or> holds_role d (rq_id rq) (cl_Subject cl) RoleAdmin \<or>
         m = RemoveCall \<and> cl_Subject cl = rq_userID rq \<and> holds_role d (rq_id rq) (cl_Subject cl) RoleViewer)))"
proof -
  let ?mw = "(case m of RemoveCall \<Rightarrow> WorkspaceAuthMiddleware env rl RoleViewer rq gctx0 d | _ \<Rightarrow> AdminOnly env rl rq gctx0 d) :: unit response + gctx"
  obtain c where c: "?mw = Inr c" using assms(1,2) by (auto simp: memberRouter_def split: sum.splits)
  have conf: "confined (rq_id rq) (rq_userID rq) d d'"
    using arg_cong [OF assms(1), of snd] c handlers_confined [of rq d] by (cases m) (auto simp: memberRouter_def)
  let ?role = "case m of RemoveCall \<Rightarrow> RoleViewer | _ \<Rightarrow> RoleAdmin"
  have mw: "WorkspaceAuthMiddleware env rl ?role rq gctx0 d = (Inr c :: unit response + gctx)"
    using c by (cases m) (simp_all add: AdminOnly_def)
  then obtain cl where cl: "presented env rl rq = Some cl" "request_workspace rq \<noteq> []" "gc_user_id c = cl_Subject cl" "gc_system_role c = cl_SystemRole cl"
    and role: "cl_SystemRole cl = SystemRolePlatformAdmin \<or>
      (\<exists>m. RequireWorkspaceRole (ae_db env) (request_workspace rq) (cl_Subject cl) ?role d = Ok m \<and> gc_member c = Some m)"
    unfolding WorkspaceAuthMiddleware_Ok by (auto simp: signed_in_def)
  have "cl_SystemRole cl = SystemRolePlatformAdmin \<or> holds_role d (rq_id rq) (cl_Subject cl) RoleAdmin \<or>
         m = RemoveCall \<and> cl_Subject cl = rq_userID rq \<and> holds_role d (rq_id rq) (cl_Subject cl) RoleViewer"
    if h: "rq_WorkspaceId rq = [] \<or> rq_WorkspaceId rq = rq_id rq"
  proof (rule disjCI, rule ccontr)
    assume no: "\<not> (holds_role d (rq_id rq) (cl_Subject cl) RoleAdmin \<or>
         m = RemoveCall \<and> cl_Subject cl = rq_userID rq \<and> holds_role d (rq_id rq) (cl_Subject cl) RoleViewer)"
      and np: "\<not> cl_SystemRole cl = SystemRolePlatformAdmin"
    have ws: "request_workspace rq = rq_id rq" "rq_id rq \<noteq> []" using h cl(2) by (auto simp: request_workspace_def)
    obtain k where k: "RequireWorkspaceRole (ae_db env) (rq_id rq) (cl_Subject cl) ?role d = Ok k" "gc_member c = Some k"
      using role np ws by auto
    have rem: "m = RemoveCall" "holds_role d (rq_id rq) (cl_Subject cl) RoleViewer"
      using require_role_sound [OF k(1) ws(2) assms(3)] no by (cases m; simp)+
    then have "gc_user_id c \<noteq> rq_userID rq" using no cl(3) by auto
    then have adm: "requireWorkspaceAdmin c (rq_id rq) = None"
      using assms(1,2) c rem(1) by (auto simp: memberRouter_def handleRemoveMember_def split: option.splits)
    obtain n where "gc_member c = Some (Some n)" "GetRoleWeight RoleAdmin \<le> GetRoleWeight (wm_Role n)"
      using remove_passes [OF adm] np cl(4) by auto
    then have k': "RequireWorkspaceRole (ae_db env) (rq_id rq) (cl_Subject cl) ?role d = Ok (Some n)"
      and w: "GetRoleWeight RoleAdmin \<le> GetRoleWeight (wm_Role n)" using k by simp_all
    show False using require_role_sound [OF require_role_member [OF k' w] ws(2) assms(3)] no by blast
  qed
  then show ?thesis using conf cl(1) by blast
qed

theorem member_change_authorised_witness:
  "\<exists>r d'. memberRouter demo_auth None (UpdateCall (Some ''member'')) (demo_rq ''alice'' [] ''w1'' ''alice'') demo_db = (r, d') \<and> d' \<noteq> demo_db \<and>
     confined ''w1'' ''alice'' demo_db d'"
proof -
  obtain r d' where rd: "memberRouter demo_auth None (UpdateCall (Some ''member'')) (demo_rq ''alice'' [] ''w1'' ''alice'') demo_db = (r, d')"
    by (metis prod.collapse)
  have "map wm_Role (db_members (snd (memberRouter demo_auth None (UpdateCall (Some ''member'')) (demo_rq ''alice'' [] ''w1'' ''alice'') demo_db))) = [''member'', ''viewer'']"
    by code_simp
  moreover have "map wm_Role (db_members demo_db) = [''admin'', ''viewer'']" by (simp add: demo_access_defs)
  ultimately have "d' \<noteq> demo_db" using rd by auto
  moreover have "[] \<notin> set (map u_ID (db_users demo_db))" by (simp add: demo_access_defs)
  ultimately show ?thesis using member_change_authorised [OF rd] rd by (auto simp: demo_rq_def)
qed


definition accepts_members :: "db_env \<Rightarrow> db \<Rightarrow> bool" where
  "accepts_members env d \<longleftrightarrow> answers_queries env d \<and> de_fault env d ''INSERT'' ''t_workspaces_member'' = None \<and>
     de_uuid env d \<noteq> [] \<and> de_uuid env d \<notin> set (map wm_ID (db_members d))"

lemma member_Add_Ok:
  assumes "accepts_members env d"
  shows "member_Add env wsID userID role d =
    (None, d\<lparr> db_members := db_members d @ [(new_member wsID userID role)\<lparr> wm_ID := de_uuid env d, wm_Status := ''active'', wm_JoinedAt := Some (de_now env) \<rparr>] \<rparr>)"
proof -
  have "\<not> list_ex (\<lambda>s. wm_ID s = de_uuid env d) (db_members d)"
    using assms unfolding accepts_members_def list_ex_iff by force
  then show ?thesis using assms
    by (simp add: member_Add_def AddMember_def Create_row_def Let_def new_member_def or_old_def accepts_members_def)
qed

lemma middleware_admits:
  assumes "presented env rl rq = Some cl" "request_workspace rq \<noteq> []"
    and "RequireWorkspaceRole (ae_db env) (request_workspace rq) (cl_Subject cl) role d = Ok k"
  shows "\<exists>c'. (WorkspaceAuthMiddleware env rl role rq c d :: 'a response + gctx) = Inr c'"
  unfolding WorkspaceAuthMiddleware_Ok using assms by (cases "cl_SystemRole cl = SystemRolePlatformAdmin") auto

text \<open>The member routes check the workspace of the header and act on the one in the path. Whoever
  administers some workspace becomes administrator of any other: with the header naming their own, a
  request to add themselves to the other one succeeds.\<close>

theorem admin_joins_foreign_workspace:
  assumes "presented env rl rq = Some cl" "holds_role d (rq_WorkspaceId rq) (cl_Subject cl) RoleAdmin" "rq_WorkspaceId rq \<noteq> []"
    and "accepts_members (ae_db env) d" "user_keys_ok d" "one_membership d"
    and "rq_userID rq = cl_Subject cl" "rq_id rq \<noteq> []"
    and "\<forall>m\<in>set (db_members d). \<not> (wm_WorkspaceID m = rq_id rq \<and> wm_UserID m = cl_Subject cl)"
  shows "\<exists>d'. memberRouter env rl (AddCall (Some RoleAdmin)) rq d = (RespOK (), d') \<and> holds_role d' (rq_id rq) (cl_Subject cl) RoleAdmin"
proof -
  have q: "answers_queries (ae_db env) d" using assms(4) by (simp add: accepts_members_def)
  obtain u where u: "u \<in> set (db_users d)" "\<not> u_Deleted u" "u_ID u = cl_Subject cl" using assms(2) unfolding holds_role_def by blast
  have ne: "cl_Subject cl \<noteq> []" using u assms(5) unfolding user_keys_ok_def by force
  have ws: "request_workspace rq = rq_WorkspaceId rq" using assms(3) by (simp add: request_workspace_def)
  obtain k where "RequireWorkspaceRole (ae_db env) (request_workspace rq) (cl_Subject cl) RoleAdmin d = Ok k"
    using require_role_complete [OF assms(2) q assms(5,6,3)] unfolding ws by blast
  then obtain c where c: "AdminOnly env rl rq gctx0 d = (Inr c :: unit response + gctx)"
    unfolding AdminOnly_def using middleware_admits [OF assms(1)] assms(3) ws by metis
  have "\<exists>e. GetMembership (ae_db env) (rq_id rq) (cl_Subject cl) d = Inl e"
    using GetMembership_Ok [OF _ assms(8) ne] assms(9) by (cases "GetMembership (ae_db env) (rq_id rq) (cl_Subject cl) d") blast+
  then obtain e where e: "GetMembership (ae_db env) (rq_id rq) (cl_Subject cl) d = Inl e" by blast
  let ?m = "(new_member (rq_id rq) (cl_Subject cl) RoleAdmin)\<lparr> wm_ID := de_uuid (ae_db env) d, wm_Status := ''active'', wm_JoinedAt := Some (de_now (ae_db env)) \<rparr>"
  have "memberRouter env rl (AddCall (Some RoleAdmin)) rq d = (RespOK (), d\<lparr> db_members := db_members d @ [?m] \<rparr>)"
    using c e assms(7) member_Add_Ok [OF assms(4)] by (simp add: memberRouter_def handleAddMember_def bound_def answer_def RoleAdmin_def)
  moreover have "holds_role (d\<lparr> db_members := db_members d @ [?m] \<rparr>) (rq_id rq) (cl_Subject cl) RoleAdmin"
    unfolding holds_role_def using u by (force simp: new_member_def)
  ultimately show ?thesis by blast
qed

theorem admin_joins_foreign_workspace_witness:
  "\<not> holds_role demo_db ''w2'' ''alice'' RoleViewer \<and>
   (\<exists>d'. memberRouter demo_auth None (AddCall (Some RoleAdmin)) (demo_rq ''alice'' ''w1'' ''w2'' ''alice'') demo_db = (RespOK (), d') \<and>
     holds_role d' ''w2'' ''alice'' RoleAdmin)"
proof -
  let ?rq = "demo_rq ''alice'' ''w1'' ''w2'' ''alice''"
  obtain cl where cl: "presented demo_auth None ?rq = Some cl" "cl_Subject cl = ''alice''" by (simp add: presented_def demo_access_defs)
  have a: "ae_db demo_auth = demo_db_env" by (simp add: demo_auth_def)
  have role: "holds_role demo_db (rq_WorkspaceId ?rq) (cl_Subject cl) RoleAdmin"
    unfolding cl(2) by (simp add: holds_role_def demo_access_defs role_names)
  have acc: "accepts_members (ae_db demo_auth) demo_db" unfolding a using demo_db_ok(1) by (simp add: accepts_members_def demo_access_defs)
  have "\<exists>d'. memberRouter demo_auth None (AddCall (Some RoleAdmin)) ?rq demo_db = (RespOK (), d') \<and> holds_role d' (rq_id ?rq) (cl_Subject cl) RoleAdmin"
    by (rule admin_joins_foreign_workspace [OF cl(1) role _ acc demo_db_ok(2,3)]) (simp_all add: cl(2) demo_access_defs)
  then show ?thesis unfolding cl(2) by (simp add: holds_role_def demo_access_defs role_names)
qed

section \<open>Logging out\<close>

definition logout_route :: "auth_env \<Rightarrow> request \<Rightarrow> RevocationList \<Rightarrow> unit response \<times> RevocationList" where
  "logout_route env rq rl =
     (case AuthMiddleware env (Some rl) rq gctx0 of Inl r \<Rightarrow> (r, rl) | Inr c \<Rightarrow> logout (de_now (ae_db env)) c rl)"

datatype rev_event = LogoutEv auth_env request | CleanupEv int

fun rev_step :: "rev_event \<Rightarrow> RevocationList \<Rightarrow> RevocationList" where
  "rev_step (LogoutEv env rq) rl = snd (logout_route env rq rl)"
| "rev_step (CleanupEv now) rl = Cleanup now rl"

text \<open>What the server relies on of the JWT library: a token is parsed to the same claims at any time, not
  after its expiry, and identifiers are not shared by tokens that expire at different times.\<close>

definition jwt_ok :: "(int \<Rightarrow> string \<Rightarrow> string + claims) \<Rightarrow> bool" where
  "jwt_ok parse \<longleftrightarrow>
     (\<forall>now tok cl. parse now tok = Inr cl \<longrightarrow> (\<forall>t. cl_ExpiresAt cl = Some t \<longrightarrow> now \<le> t)) \<and>
     (\<forall>now tok now' tok' cl cl'. parse now tok = Inr cl \<and> parse now' tok' = Inr cl' \<and> (tok = tok' \<or> cl_ID cl = cl_ID cl') \<longrightarrow>
        cl_ExpiresAt cl = cl_ExpiresAt cl' \<and> (tok = tok' \<longrightarrow> cl = cl'))"

fun rev_event_ok :: "(int \<Rightarrow> string \<Rightarrow> string + claims) \<Rightarrow> int \<Rightarrow> rev_event \<Rightarrow> bool" where
  "rev_event_ok parse now (LogoutEv env rq) \<longleftrightarrow> ae_ParseToken env = parse"
| "rev_event_ok parse now (CleanupEv t) \<longleftrightarrow> t \<le> now"

lemma presented_parse:
  "presented env rl rq = Some cl \<Longrightarrow>
   ae_ParseToken env (de_now (ae_db env)) (drop 7 (rq_Authorization rq)) = Inr cl \<and> cl_ExpiresAt cl \<noteq> None \<and>
   (\<forall>l. rl = Some l \<longrightarrow> cl_ID cl \<noteq> [] \<longrightarrow> \<not> IsRevoked (cl_ID cl) l)"
  by (auto simp: presented_def split: if_splits sum.splits)

lemma logout_route_revokes:
  assumes "presented env (Some rl) rq = Some cl"
  shows "logout_route env rq rl = (if cl_ID cl = [] then (RespError, rl) else (RespOK (), rl(cl_ID cl \<mapsto> the (cl_ExpiresAt cl))))"
proof -
  have "AuthMiddleware env (Some rl) rq gctx0 = (Inr (signed_in cl gctx0) :: unit response + gctx)" using assms AuthMiddleware_Ok by blast
  then show ?thesis using presented_parse [OF assms]
    by (auto simp: logout_route_def logout_def signed_in_def Revoke_def split: option.splits)
qed

lemma logout_route_cases:
  obtains "snd (logout_route env rq rl) = rl"
  | cl where "ae_ParseToken env (de_now (ae_db env)) (drop 7 (rq_Authorization rq)) = Inr cl" "cl_ExpiresAt cl \<noteq> None"
      "snd (logout_route env rq rl) = rl(cl_ID cl \<mapsto> the (cl_ExpiresAt cl))"
proof (cases "presented env (Some rl) rq")
  case None
  then have "\<exists>r. AuthMiddleware env (Some rl) rq gctx0 = (Inl r :: unit response + gctx)"
    using AuthMiddleware_Ok [where ?'a = unit, of env "Some rl" rq gctx0] by (cases "AuthMiddleware env (Some rl) rq gctx0 :: unit response + gctx") auto
  then show ?thesis using that(1) by (auto simp: logout_route_def)
next
  case (Some cl)
  show ?thesis
    using that logout_route_revokes [OF Some] presented_parse [OF Some] by (cases "cl_ID cl = []") auto
qed

lemma stays_revoked:
  assumes "jwt_ok parse" "parse now tok = Inr cl" "\<forall>e\<in>set es. rev_event_ok parse now e" "rl (cl_ID cl) = cl_ExpiresAt cl" "cl_ExpiresAt cl \<noteq> None"
  shows "fold rev_step es rl (cl_ID cl) = cl_ExpiresAt cl"
  using assms(3,4)
proof (induction es arbitrary: rl)
  case (Cons e es)
  have "rev_step e rl (cl_ID cl) = cl_ExpiresAt cl"
  proof (cases e)
    case (LogoutEv env rq)
    then have p: "ae_ParseToken env = parse" using Cons.prems(1) by simp
    show ?thesis
    proof (rule logout_route_cases [of env rq rl])
      assume "snd (logout_route env rq rl) = rl"
      then show ?thesis using LogoutEv Cons.prems(2) by simp
    next
      fix cl' assume c: "ae_ParseToken env (de_now (ae_db env)) (drop 7 (rq_Authorization rq)) = Inr cl'" "cl_ExpiresAt cl' \<noteq> None"
        "snd (logout_route env rq rl) = rl(cl_ID cl' \<mapsto> the (cl_ExpiresAt cl'))"
      have "cl_ID cl' = cl_ID cl \<Longrightarrow> cl_ExpiresAt cl' = cl_ExpiresAt cl" using assms(1,2) c(1) p unfolding jwt_ok_def by metis
      then show ?thesis using LogoutEv Cons.prems(2) c(2,3) by auto
    qed
  next
    case (CleanupEv t)
    obtain x where x: "cl_ExpiresAt cl = Some x" using assms(5) by blast
    then have "now \<le> x" using assms(1,2) unfolding jwt_ok_def by blast
    then show ?thesis using CleanupEv Cons.prems x by (simp add: Cleanup_def)
  qed
  then show ?case using Cons.IH Cons.prems(1) by simp
qed simp




end
