(* ===== verification/Users.thy ===== *)
theory Users
  imports Access
begin

text \<open>
  Accounts: the user service (\<open>internal/server/service/user.go\<close>), the profile service (\<open>user_profile.go\<close>) and their
  routes (\<open>internal/server/server/user.go\<close>, \<open>profile.go\<close>). The password hash, the comparison with a hash and the
  signing of tokens are parameters. A request body is what binding the JSON gives, if it succeeds.
\<close>

section \<open>The user service\<close>

record UserDto =
  ud_Username :: string
  ud_Email :: string
  ud_Password :: string
  ud_Role :: string
  ud_Namespace :: string

record user_env =
  us_db :: db_env
  us_bcrypt :: "string \<Rightarrow> string + string"
  us_compare :: "string \<Rightarrow> string \<Rightarrow> string option"
  us_sign :: "claims \<Rightarrow> string + string"
  us_jti :: string
  us_now :: int

definition EncryptPassword :: "user_env \<Rightarrow> string \<Rightarrow> string + string" where
  "EncryptPassword env password = us_bcrypt env password"

definition ComparePassword :: "user_env \<Rightarrow> string \<Rightarrow> string \<Rightarrow> string option" where
  "ComparePassword env hashedPassword password = us_compare env hashedPassword password"

definition empty_user :: User where
  "empty_user = \<lparr> u_ID = [], u_Deleted = False, u_SystemRole = [], u_Username = [], u_Password = [], u_Mobile = [], u_Email = [],
     u_Avatar = [], u_Address = [], u_Gender = 0 \<rparr>"

definition DeleteUser :: "user_env \<Rightarrow> string \<Rightarrow> db \<Rightarrow> (svc_error + unit) \<times> db" where
  "DeleteUser env i d = db_result (Users_Delete (us_db env) i d)"

definition UpdateSystemRole :: "user_env \<Rightarrow> string \<Rightarrow> string \<Rightarrow> db \<Rightarrow> (svc_error + unit) \<times> db" where
  "UpdateSystemRole env userID role d =
     (if role \<noteq> SystemRolePlatformAdmin \<and> role \<noteq> SystemRoleUser then (Err (Msg ''invalid system role''), d)
      else case Users_GetByID (us_db env) userID d of
             Inl _ \<Rightarrow> (Err (Msg ''user not found''), d)
           | Inr user \<Rightarrow> db_result (Updates (us_db env) users (user\<lparr> u_SystemRole := role \<rparr>) d))"

definition AddUser :: "user_env \<Rightarrow> UserDto \<Rightarrow> db \<Rightarrow> (svc_error + unit) \<times> db" where
  "AddUser env dto = Tx (\<lambda>d.
     case EncryptPassword env (ud_Password dto) of
       Inl e \<Rightarrow> (Err (Msg (''failed to hash password: '' @ e)), d)
     | Inr hashedPassword \<Rightarrow>
         (case Create_row (us_db env) users (empty_user\<lparr> u_Username := ud_Username dto, u_Password := hashedPassword \<rparr>) d of
            (Inl e, d1) \<Rightarrow> (Err (DbErr e), d1)
          | (Inr newUser, d1) \<Rightarrow>
              (case Workspaces_GetByNamespace (us_db env) (ud_Namespace dto) d1 of
                 Inl e \<Rightarrow> (Err (DbErr e), d1)
               | Inr ws \<Rightarrow> db_result (AddMember (us_db env) ((new_member (ws_ID ws) (u_ID newUser) (ud_Role dto))\<lparr> wm_Status := ''active'' \<rparr>) d1))))"

text \<open>A failed promotion is only logged; the user returned carries the new role all the same.\<close>

definition promote :: "user_env \<Rightarrow> string \<Rightarrow> User \<Rightarrow> db \<Rightarrow> User \<times> db" where
  "promote env targetRole user d =
     (if targetRole = SystemRolePlatformAdmin \<and> u_SystemRole user \<noteq> SystemRolePlatformAdmin
      then (let user' = user\<lparr> u_SystemRole := SystemRolePlatformAdmin \<rparr> in (user', snd (Updates (us_db env) users user' d)))
      else (user, d))"

definition link_identity :: "user_env \<Rightarrow> string \<Rightarrow> string \<Rightarrow> string \<Rightarrow> User \<Rightarrow> db \<Rightarrow> (svc_error + User) \<times> db" where
  "link_identity env provider subject email user d =
     (case Create_row (us_db env) identities
             \<lparr> ui_ID = [], ui_Deleted = False, ui_UserID = u_ID user, ui_Provider = provider, ui_ExternalID = subject, ui_Email = email, ui_Metadata = [] \<rparr> d of
        (Inl e, d') \<Rightarrow> (Err (DbErr e), d') | (Inr _, d') \<Rightarrow> (Ok user, d'))"

definition target_role :: "string list \<Rightarrow> string \<Rightarrow> string" where
  "target_role adminEmails email = (if list_ex (\<lambda>a. EqualFold a email) adminEmails then SystemRolePlatformAdmin else SystemRoleUser)"

definition OnboardExternalUser ::
  "user_env \<Rightarrow> string \<Rightarrow> string \<Rightarrow> string \<Rightarrow> string list \<Rightarrow> db \<Rightarrow> (svc_error + User) \<times> db" where
  "OnboardExternalUser env provider subject email adminEmails d =
     (let targetRole = target_role adminEmails email
      in case GetByProviderAndExternalID (us_db env) provider subject d of
           Inr identity \<Rightarrow>
             (case Users_GetByID (us_db env) (ui_UserID identity) d of
                Inl e \<Rightarrow> (Err (DbErr e), d)
              | Inr user \<Rightarrow> (case promote env targetRole user d of (user', d') \<Rightarrow> (Ok user', d')))
         | Inl e \<Rightarrow>
             if e \<noteq> ErrRecordNotFound then (Err (DbErr e), d)
             else (case Users_GetByEmail (us_db env) email d of
                     Inr user \<Rightarrow> (case promote env targetRole user d of (user', d') \<Rightarrow> link_identity env provider subject email user' d')
                   | Inl e' \<Rightarrow>
                       if e' \<noteq> ErrRecordNotFound then (Err (DbErr e'), d)
                       else (case Create_row (us_db env) users (empty_user\<lparr> u_Email := email, u_SystemRole := targetRole \<rparr>) d of
                               (Inl e'', d') \<Rightarrow> (Err (DbErr e''), d')
                             | (Inr user, d') \<Rightarrow> link_identity env provider subject email user d')))"

record UserVo =
  uv_ID :: string
  uv_Username :: string
  uv_Email :: string
  uv_Avatar :: string
  uv_Role :: string
  uv_Source :: string
  uv_InviterName :: string

definition inviter_name :: "user_env \<Rightarrow> string \<Rightarrow> db \<Rightarrow> string" where
  "inviter_name env i d = (if i = [] then [] else case Users_GetByID (us_db env) i d of Inl _ \<Rightarrow> [] | Inr inviter \<Rightarrow> u_Username inviter)"

definition user_vo :: "user_env \<Rightarrow> WorkspaceInvitation list \<Rightarrow> db \<Rightarrow> User \<Rightarrow> UserVo" where
  "user_vo env invs d usr =
     (let source = (case filter (\<lambda>i. ui_UserID i = u_ID usr) (visible identities d) of [] \<Rightarrow> ''local'' | i # _ \<Rightarrow> ui_Provider i);
          (source', inviterName) = (case find (\<lambda>v. iv_Email v = u_Email usr) invs of
                                      None \<Rightarrow> (source, []) | Some iv \<Rightarrow> (''invitation'', inviter_name env (iv_InviterID iv) d))
      in \<lparr> uv_ID = u_ID usr, uv_Username = u_Username usr, uv_Email = u_Email usr, uv_Avatar = u_Avatar usr, uv_Role = u_SystemRole usr,
           uv_Source = source', uv_InviterName = inviterName \<rparr>)"

definition user_List :: "user_env \<Rightarrow> string \<Rightarrow> int \<Rightarrow> int \<Rightarrow> db \<Rightarrow> db_error + (UserVo list \<times> nat)" where
  "user_List env keyword page pageSize d =
     (case Users_ListRaw (us_db env) keyword page pageSize d of
        Inl e \<Rightarrow> Err e
      | Inr (us, n) \<Rightarrow>
          (let emails = filter (\<lambda>e. e \<noteq> []) (map u_Email us);
               invs = case_sum (\<lambda>_. []) id (FindAcceptedByEmails (us_db env) emails d)
           in Ok (map (user_vo env invs d) us, n)))"

fun InitAdmin :: "user_env \<Rightarrow> (string \<times> string) list \<Rightarrow> db \<Rightarrow> db_error option \<times> db" where
  "InitAdmin env [] d = (None, d)"
| "InitAdmin env ((username, password) # admins) d =
     (case Users_GetByUsername (us_db env) username d of
        Inr existing \<Rightarrow>
          InitAdmin env admins
            (if u_SystemRole existing \<noteq> SystemRolePlatformAdmin
             then snd (Updates (us_db env) users (existing\<lparr> u_SystemRole := SystemRolePlatformAdmin \<rparr>) d) else d)
      | Inl e \<Rightarrow>
          if e \<noteq> ErrRecordNotFound then (Some e, d)
          else InitAdmin env admins
                 (case EncryptPassword env password of
                    Inl _ \<Rightarrow> d
                  | Inr hashed \<Rightarrow>
                      snd (Create_row (us_db env) users
                             (empty_user\<lparr> u_Username := username, u_Password := hashed, u_SystemRole := SystemRolePlatformAdmin \<rparr>) d)))"

definition GetMe :: "user_env \<Rightarrow> string \<Rightarrow> db \<Rightarrow> db_error + User" where
  "GetMe env i = Users_GetByID (us_db env) i"

definition Register :: "user_env \<Rightarrow> UserDto \<Rightarrow> db \<Rightarrow> (svc_error + unit) \<times> db" where
  "Register env dto d =
     (case EncryptPassword env (ud_Password dto) of
        Inl e \<Rightarrow> (Err (Msg e), d)
      | Inr password \<Rightarrow>
          (case Create_row (us_db env) users (empty_user\<lparr> u_Username := ud_Username dto, u_Password := password \<rparr>) d of
             (Inl e, d') \<Rightarrow> (Err (DbErr e), d') | (Inr _, d') \<Rightarrow> (Ok (), d')))"

definition Login :: "user_env \<Rightarrow> string \<Rightarrow> string \<Rightarrow> db \<Rightarrow> svc_error + User" where
  "Login env username password d =
     (case Users_Login (us_db env) username password d of
        Inl _ \<Rightarrow> Err (Msg ''invalid credentials'')
      | Inr user \<Rightarrow> (case ComparePassword env (u_Password user) password of Some _ \<Rightarrow> Err (Msg ''invalid credentials'') | None \<Rightarrow> Ok user))"

section \<open>The profile service\<close>

record UserSettingsResponse =
  ur_Name :: string
  ur_Email :: string
  ur_AvatarURL :: string
  ur_profile :: UserProfile

record UpdateSettingsRequest =
  uq_Name :: string
  uq_Email :: string
  uq_AvatarURL :: string
  uq_Address :: string
  uq_Gender :: int
  uq_Title :: string
  uq_Company :: string
  uq_Bio :: string
  uq_Timezone :: string
  uq_Language :: string
  uq_EmailNotify :: bool

definition GetProfile :: "user_env \<Rightarrow> string \<Rightarrow> db \<Rightarrow> db_error + UserSettingsResponse" where
  "GetProfile env userID d =
     (case Users_GetByID (us_db env) userID d of
        Inl e \<Rightarrow> Err e
      | Inr user \<Rightarrow>
          Ok \<lparr> ur_Name = u_Username user, ur_Email = u_Email user, ur_AvatarURL = u_Avatar user,
               ur_profile = (case Profiles_Get (us_db env) userID d of
                               Inr p \<Rightarrow> p
                             | Inl _ \<Rightarrow> \<lparr> pf_UserID = [], pf_Title = [], pf_Company = [], pf_Bio = [], pf_Timezone = [], pf_Language = [], pf_EmailNotify = False \<rparr>) \<rparr>)"

definition UpdateProfile :: "user_env \<Rightarrow> string \<Rightarrow> UpdateSettingsRequest \<Rightarrow> db \<Rightarrow> (svc_error + unit) \<times> db" where
  "UpdateProfile env userID req = Tx (\<lambda>d.
     case Updates (us_db env) users (empty_user\<lparr> u_ID := userID, u_Email := uq_Email req, u_Avatar := uq_AvatarURL req,
            u_Address := uq_Address req, u_Gender := uq_Gender req \<rparr>) d of
       (Some e, d') \<Rightarrow> (Err (DbErr e), d')
     | (None, d') \<Rightarrow>
         db_result (Profiles_Upsert (us_db env)
           \<lparr> pf_UserID = userID, pf_Title = uq_Title req, pf_Company = uq_Company req, pf_Bio = uq_Bio req, pf_Timezone = uq_Timezone req,
             pf_Language = uq_Language req, pf_EmailNotify = uq_EmailNotify req \<rparr> d'))"

section \<open>Routes\<close>

definition RegisterUser :: "user_env \<Rightarrow> UserDto option \<Rightarrow> db \<Rightarrow> unit response \<times> db" where
  "RegisterUser env body d =
     (case body of
        None \<Rightarrow> (BadRequest, d)
      | Some req \<Rightarrow> (case Register env req d of (Inl _, d') \<Rightarrow> (RespError, d') | (Inr _, d') \<Rightarrow> (RespOK (), d')))"

definition login :: "user_env \<Rightarrow> UserDto option \<Rightarrow> db \<Rightarrow> (string \<times> string) response" where
  "login env body d =
     (case body of
        None \<Rightarrow> BadRequest
      | Some req \<Rightarrow>
          (case Login env (ud_Username req) (ud_Password req) d of
             Inl _ \<Rightarrow> RespError
           | Inr user \<Rightarrow>
               (case GenerateBusinessJWT (us_sign env) (us_jti env) (us_now env) (u_ID user) (u_Email user) (u_Username user) (u_SystemRole user) of
                  Inl _ \<Rightarrow> RespError | Inr token \<Rightarrow> RespOK (u_Username user, token))))"

definition getMe :: "user_env \<Rightarrow> gctx \<Rightarrow> db \<Rightarrow> User response" where
  "getMe env c d =
     (if gc_user_id c = [] then BadRequest else case GetMe env (gc_user_id c) d of Inl _ \<Rightarrow> RespError | Inr user \<Rightarrow> RespOK user)"

definition handleAddUser :: "user_env \<Rightarrow> UserDto option \<Rightarrow> db \<Rightarrow> unit response \<times> db" where
  "handleAddUser env body d =
     (case body of
        None \<Rightarrow> (BadRequest, d)
      | Some req \<Rightarrow> (case AddUser env req d of (Inl _, d') \<Rightarrow> (RespError, d') | (Inr _, d') \<Rightarrow> (RespOK (), d')))"

definition handleDeleteUser :: "user_env \<Rightarrow> string \<Rightarrow> db \<Rightarrow> unit response \<times> db" where
  "handleDeleteUser env name d =
     (if name = [] then (BadRequest, d)
      else case DeleteUser env name d of (Inl _, d') \<Rightarrow> (RespError, d') | (Inr _, d') \<Rightarrow> (RespOK (), d'))"

definition handleUpdateSystemRole :: "user_env \<Rightarrow> gctx \<Rightarrow> string \<Rightarrow> string option \<Rightarrow> db \<Rightarrow> unit response \<times> db" where
  "handleUpdateSystemRole env c userID body d =
     (if gc_system_role c \<noteq> ''platform_admin'' then (RespError, d)
      else if userID = [] then (BadRequest, d)
      else case body of
             None \<Rightarrow> (BadRequest, d)
           | Some role \<Rightarrow>
               if role = [] then (BadRequest, d)
               else (case UpdateSystemRole env userID role d of (Inl _, d') \<Rightarrow> (RespError, d') | (Inr _, d') \<Rightarrow> (RespOK (), d')))"

definition handleGetUserWorkspaces :: "user_env \<Rightarrow> string \<Rightarrow> db \<Rightarrow> (string \<times> string \<times> string) list response" where
  "handleGetUserWorkspaces env userID d =
     (if userID = [] then BadRequest
      else case Members_ListByUser (us_db env) userID 1 999 d of
             Inl _ \<Rightarrow> RespError
           | Inr (ms, _) \<Rightarrow>
               RespOK (concat (map (\<lambda>m. case Workspaces_GetByID (us_db env) (wm_WorkspaceID m) d of
                                          Inl _ \<Rightarrow> [] | Inr ws \<Rightarrow> [(wm_WorkspaceID m, ws_DisplayName ws, wm_Role m)]) ms)))"

definition updateProfile :: "user_env \<Rightarrow> gctx \<Rightarrow> UpdateSettingsRequest option \<Rightarrow> db \<Rightarrow> unit response \<times> db" where
  "updateProfile env c body d =
     (case body of
        None \<Rightarrow> (BadRequest, d)
      | Some req \<Rightarrow> (case UpdateProfile env (gc_user_id c) req d of (Inl _, d') \<Rightarrow> (RespError, d') | (Inr _, d') \<Rightarrow> (RespOK (), d')))"

definition getProfile :: "user_env \<Rightarrow> gctx \<Rightarrow> db \<Rightarrow> UserSettingsResponse response" where
  "getProfile env c d = (case GetProfile env (gc_user_id c) d of Inl _ \<Rightarrow> RespError | Inr r \<Rightarrow> RespOK r)"

datatype user_call =
  RegisterCall "UserDto option"
| AddUserCall "UserDto option"
| DeleteUserCall string
| SystemRoleCall string "string option"
| UpdateProfileCall "UpdateSettingsRequest option"

text \<open>The routes that write. The profile routes do not look at the revocation list.\<close>

definition userRouter ::
  "user_env \<Rightarrow> auth_env \<Rightarrow> RevocationList option \<Rightarrow> user_call \<Rightarrow> request \<Rightarrow> db \<Rightarrow> unit response \<times> db" where
  "userRouter env auth rl m rq d =
     (case m of
        RegisterCall body \<Rightarrow> RegisterUser env body d
      | UpdateProfileCall body \<Rightarrow> (case AuthMiddleware auth None rq gctx0 of Inl r \<Rightarrow> (r, d) | Inr c \<Rightarrow> updateProfile env c body d)
      | _ \<Rightarrow>
          (case AuthMiddleware auth rl rq gctx0 of
             Inl r \<Rightarrow> (r, d)
           | Inr c \<Rightarrow>
               (case m of
                  AddUserCall body \<Rightarrow> handleAddUser env body d
                | DeleteUserCall name \<Rightarrow> handleDeleteUser env name d
                | SystemRoleCall userID body \<Rightarrow> handleUpdateSystemRole env c userID body d
                | _ \<Rightarrow> (RespError, d))))"

section \<open>Facts\<close>

lemma db_result_snd [simp]: "snd (db_result r) = snd r"
  by (simp add: db_result_def split: prod.splits option.splits)

lemma Tx_keeps: "P d \<Longrightarrow> P (snd (f d)) \<Longrightarrow> P (snd (Tx f d))"
  by (auto simp: Tx_def split: prod.splits sum.splits)

lemma answer_of: "snd (case r of (Inl (_::'e), d') \<Rightarrow> (RespError, d') | (Inr (_::'a), d') \<Rightarrow> (RespOK (), d')) = snd r"
  by (simp split: prod.splits sum.splits)

section \<open>Registration and login\<close>

definition bcrypt_ok :: "user_env \<Rightarrow> bool" where
  "bcrypt_ok env \<longleftrightarrow> (\<forall>p h. us_bcrypt env p = Inr h \<longrightarrow> us_compare env h p = None)"

lemma Register_inserts:
  assumes "Register env dto d = (Ok (), d')"
  obtains h where "us_bcrypt env (ud_Password dto) = Inr h"
    "d' = d\<lparr> db_users := db_users d @ [empty_user\<lparr> u_ID := de_uuid (us_db env) d, u_Username := ud_Username dto, u_Password := h \<rparr>] \<rparr>"
    "\<forall>s\<in>set (db_users d). u_ID s \<noteq> de_uuid (us_db env) d"
proof (cases "us_bcrypt env (ud_Password dto)")
  case (Inl e)
  then show ?thesis using assms by (simp add: Register_def EncryptPassword_def)
next
  case (Inr h)
  let ?u = "empty_user\<lparr> u_Username := ud_Username dto, u_Password := h \<rparr>"
  obtain x d1 where c: "Create_row (us_db env) users ?u d = (x, d1)" by (cases "Create_row (us_db env) users ?u d")
  have "isl x = False \<and> d1 = d'" using assms Inr c by (cases x) (simp_all del: tables add: Register_def EncryptPassword_def)
  with c show ?thesis
    by (cases rule: Create_row_cases) (use that [OF Inr] in \<open>auto simp: empty_user_def or_old_def list_ex_iff\<close>)
qed

text \<open>C16: A user who registers under a name that is not taken can log in with the same password: the account found is the one just
  created, under an identifier that was not in use and without any system role. The hash is assumed
  to match the password it was made from.
\<close>

theorem register_then_login:
  assumes "Register env dto d = (Ok (), d')" "bcrypt_ok env" "answers_queries (us_db env) d'" "ud_Username dto \<noteq> []"
    and "\<forall>u\<in>set (db_users d). u_Deleted u \<or> u_Username u \<noteq> ud_Username dto"
  shows "\<exists>u. Login env (ud_Username dto) (ud_Password dto) d' = Ok u \<and> u_Username u = ud_Username dto \<and> u_SystemRole u = [] \<and>
    u_ID u \<notin> u_ID ` set (db_users d)"
proof -
  obtain h where h: "us_bcrypt env (ud_Password dto) = Inr h"
    and d': "d' = d\<lparr> db_users := db_users d @ [empty_user\<lparr> u_ID := de_uuid (us_db env) d, u_Username := ud_Username dto, u_Password := h \<rparr>] \<rparr>"
    and fresh: "\<forall>s\<in>set (db_users d). u_ID s \<noteq> de_uuid (us_db env) d"
    using Register_inserts [OF assms(1)] by blast
  let ?u = "empty_user\<lparr> u_ID := de_uuid (us_db env) d, u_Username := ud_Username dto, u_Password := h \<rparr>"
  have "Users_Login (us_db env) (ud_Username dto) (ud_Password dto) d' = Ok ?u"
  proof (cases "First (us_db env) users (scope u_Username (ud_Username dto)) d'")
    case (Inl e)
    have "row_first users (scope u_Username (ud_Username dto)) d' \<noteq> None"
      unfolding first_none by (auto simp: d' scope_def empty_user_def)
    then show ?thesis using Inl assms(3) by (auto simp: First_def answers_queries_def split: option.splits)
  next
    case (Inr v)
    have "v = ?u" using First_Ok [OF Inr] assms(4,5) by (auto simp: d' scope_def)
    then show ?thesis using Inr by (simp add: Users_Login_def)
  qed
  moreover have "us_compare env h (ud_Password dto) = None" using assms(2) h by (simp add: bcrypt_ok_def)
  ultimately show ?thesis using fresh by (auto simp: Login_def ComparePassword_def empty_user_def)
qed


section \<open>Who may add users\<close>

text \<open>A database that serves every statement and draws identifiers that are not in use.\<close>

definition db_serves :: "db_env \<Rightarrow> bool" where
  "db_serves env \<longleftrightarrow> (\<forall>d op t. de_fault env d op t = None) \<and>
     (\<forall>d. de_uuid env d \<noteq> [] \<and> de_uuid env d \<notin> set (map u_ID (db_users d)) \<and> de_uuid env d \<notin> set (map wm_ID (db_members d)))"

lemma Create_user_serves:
  assumes "db_serves env" "u_ID u = []"
  shows "Create_row env users u d = (Ok (u\<lparr> u_ID := de_uuid env d \<rparr>), d\<lparr> db_users := db_users d @ [u\<lparr> u_ID := de_uuid env d \<rparr>] \<rparr>)"
proof -
  have "\<not> list_ex (\<lambda>s. u_ID s = de_uuid env d) (db_users d)" using assms(1) unfolding db_serves_def list_ex_iff by force
  then show ?thesis using assms by (simp add: Create_row_def Let_def or_old_def db_serves_def)
qed

lemma AddMember_serves:
  assumes "db_serves env" "wm_ID m = []" "wm_Status m \<noteq> []"
  shows "AddMember env m d = (None, d\<lparr> db_members := db_members d @ [m\<lparr> wm_ID := de_uuid env d \<rparr>] \<rparr>)"
proof -
  have "\<not> list_ex (\<lambda>s. wm_ID s = de_uuid env d) (db_members d)" using assms(1) unfolding db_serves_def list_ex_iff by force
  then show ?thesis using assms by (simp add: AddMember_def Create_row_def Let_def or_old_def db_serves_def)
qed

lemma Namespace_users: "(\<forall>d op t. de_fault env d op t = None) \<Longrightarrow> Workspaces_GetByNamespace env ns (d\<lparr> db_users := us \<rparr>) = Workspaces_GetByNamespace env ns d"
  by (simp add: Workspaces_GetByNamespace_def First_def row_first_def visible_def)

text \<open>C35: The route that adds a user asks for any valid token and nothing more. Whoever is signed in creates an account of their choice with
  the role of an administrator in any workspace whose namespace they name, and that account then holds
  the role.
\<close>

theorem any_user_seizes_workspace:
  assumes "presented auth rl rq = Some cl" "db_serves (us_db env)" "us_bcrypt env (ud_Password dto) = Inr h"
    and "Workspaces_GetByNamespace (us_db env) (ud_Namespace dto) d = Ok ws" "ud_Role dto = RoleAdmin"
  shows "\<exists>d' u. userRouter env auth rl (AddUserCall (Some dto)) rq d = (RespOK (), d') \<and> u_Username u = ud_Username dto \<and>
    u_ID u \<notin> set (map u_ID (db_users d)) \<and> u \<in> set (db_users d') \<and> holds_role d' (ws_ID ws) (u_ID u) RoleAdmin"
proof -
  obtain c where c: "(AuthMiddleware auth rl rq gctx0 :: unit response + gctx) = Inr c" using AuthMiddleware_Ok assms(1) by blast
  let ?u = "(empty_user\<lparr> u_Username := ud_Username dto, u_Password := h \<rparr>)\<lparr> u_ID := de_uuid (us_db env) d \<rparr>"
  let ?d1 = "d\<lparr> db_users := db_users d @ [?u] \<rparr>"
  let ?m = "(new_member (ws_ID ws) (u_ID ?u) (ud_Role dto))\<lparr> wm_Status := ''active'' \<rparr>"
  let ?d2 = "?d1\<lparr> db_members := db_members ?d1 @ [?m\<lparr> wm_ID := de_uuid (us_db env) ?d1 \<rparr>] \<rparr>"
  have cr: "Create_row (us_db env) users (empty_user\<lparr> u_Username := ud_Username dto, u_Password := h \<rparr>) d = (Ok ?u, ?d1)"
    by (rule Create_user_serves [OF assms(2)]) (simp add: empty_user_def)
  have ws: "Workspaces_GetByNamespace (us_db env) (ud_Namespace dto) ?d1 = Ok ws"
    using Namespace_users assms(2,4) by (simp add: db_serves_def)
  have am: "AddMember (us_db env) ?m ?d1 = (None, ?d2)" by (rule AddMember_serves [OF assms(2)]) (simp_all add: new_member_def)
  have "AddUser env dto d = (Ok (), ?d2)"
    unfolding AddUser_def Tx_Ok using assms(3) cr ws am by (simp del: tables add: EncryptPassword_def db_result_def)
  then have "userRouter env auth rl (AddUserCall (Some dto)) rq d = (RespOK (), ?d2)" using c by (simp add: userRouter_def handleAddUser_def)
  moreover have "holds_role ?d2 (ws_ID ws) (u_ID ?u) RoleAdmin"
    unfolding holds_role_def by (rule bexI [of _ ?u]) (auto simp: new_member_def empty_user_def assms(5) intro!: bexI [of _ "?m\<lparr> wm_ID := de_uuid (us_db env) ?d1 \<rparr>"])
  moreover have "u_ID ?u \<notin> set (map u_ID (db_users d))" using assms(2) by (simp add: db_serves_def)
  ultimately show ?thesis by (intro exI [of _ ?d2] exI [of _ ?u]) (simp add: empty_user_def)
qed

text \<open>A token that was revoked at logout is still accepted by the profile routes.\<close>

theorem revoked_token_edits_profile:
  assumes "presented auth None rq = Some cl" "UpdateProfile env (cl_Subject cl) req d = (Ok (), d')"
  shows "userRouter env auth rl (UpdateProfileCall (Some req)) rq d = (RespOK (), d')"
proof -
  have "(AuthMiddleware auth None rq gctx0 :: unit response + gctx) = Inr (signed_in cl gctx0)" using AuthMiddleware_Ok assms(1) by blast
  then show ?thesis using assms(2) by (simp add: userRouter_def updateProfile_def signed_in_def)
qed


section \<open>Examples\<close>

text \<open>Identifiers longer than all in use.\<close>

definition long_id :: "db \<Rightarrow> string" where
  "long_id d = replicate (Suc (sum_list (map (length \<circ> u_ID) (db_users d)) + sum_list (map (length \<circ> wm_ID) (db_members d)))) CHR ''x''"

definition fresh_db_env :: db_env where
  "fresh_db_env = \<lparr> de_fault = (\<lambda>_ _ _. None), de_uuid = long_id, de_like = (\<lambda>p s. True), de_now = 0 \<rparr>"

lemma fresh_db_serves: "db_serves fresh_db_env"
proof -
  have "length (u_ID u) < length (long_id d)" if "u \<in> set (db_users d)" for u d
    using member_le_sum_list [of "length (u_ID u)" "map (length \<circ> u_ID) (db_users d)"] that by (simp add: long_id_def comp_def)
  moreover have "length (wm_ID m) < length (long_id d)" if "m \<in> set (db_members d)" for m d
    using member_le_sum_list [of "length (wm_ID m)" "map (length \<circ> wm_ID) (db_members d)"] that by (simp add: long_id_def comp_def)
  ultimately have "long_id d \<notin> u_ID ` set (db_users d)" "long_id d \<notin> wm_ID ` set (db_members d)" for d by (metis imageE less_irrefl)+
  moreover have "long_id d \<noteq> []" for d by (simp add: long_id_def)
  ultimately show ?thesis by (simp add: db_serves_def fresh_db_env_def)
qed

definition demo_user_env :: user_env where
  "demo_user_env = \<lparr> us_db = fresh_db_env, us_bcrypt = (\<lambda>p. Inr (''h:'' @ p)), us_compare = (\<lambda>h p. if h = ''h:'' @ p then None else Some ''mismatch''),
     us_sign = (\<lambda>c. Inr (cl_Subject c)), us_jti = ''j'', us_now = 0 \<rparr>"

definition demo_account :: UserDto where
  "demo_account = \<lparr> ud_Username = ''mallory'', ud_Email = [], ud_Password = ''pw'', ud_Role = RoleAdmin, ud_Namespace = ''wf-w1'' \<rparr>"

definition demo_workspace :: Workspace where
  "demo_workspace = \<lparr> ws_ID = ''w1'', ws_Deleted = False, ws_Slug = ''one'', ws_Namespace = ''wf-w1'', ws_DisplayName = ''One'', ws_Status = ''active'', ws_CreatedBy = ''root'', ws_UpdatedBy = [] \<rparr>"

lemmas demo_users_defs = fresh_db_env_def demo_user_env_def demo_account_def demo_workspace_def demo_access_defs

theorem any_user_seizes_workspace_witness:
  "\<exists>d' (u :: User). userRouter demo_user_env demo_auth None (AddUserCall (Some demo_account)) (demo_rq ''bob'' [] [] []) (demo_db\<lparr> db_workspaces := [demo_workspace] \<rparr>) = (RespOK (), d') \<and>
     u_Username u = ''mallory'' \<and> holds_role d' ''w1'' (u_ID u) RoleAdmin"
proof -
  obtain cl where cl: "presented demo_auth None (demo_rq ''bob'' [] [] []) = Some cl" by (simp add: presented_def demo_access_defs)
  have s: "db_serves (us_db demo_user_env)" using fresh_db_serves by (simp add: demo_user_env_def)
  have b: "us_bcrypt demo_user_env (ud_Password demo_account) = Inr ''h:pw''" by (simp add: demo_user_env_def demo_account_def)
  have ws: "Workspaces_GetByNamespace (us_db demo_user_env) (ud_Namespace demo_account) (demo_db\<lparr> db_workspaces := [demo_workspace] \<rparr>) = Ok demo_workspace"
    by (simp add: Workspaces_GetByNamespace_def First_def row_first_def visible_def scope_def demo_users_defs)
  have v: "ws_ID demo_workspace = ''w1''" "ud_Username demo_account = ''mallory''" "ud_Role demo_account = RoleAdmin" by (simp_all add: demo_workspace_def demo_account_def)
  show ?thesis using any_user_seizes_workspace [OF cl s b ws v(3)] unfolding v by blast
qed

theorem register_then_login_witness:
  "\<exists>d' u. Register demo_user_env demo_account demo_db = (Ok (), d') \<and> Login demo_user_env ''mallory'' ''pw'' d' = Ok u \<and> u_SystemRole u = []"
proof -
  obtain d' where r: "Register demo_user_env demo_account demo_db = (Ok (), d')"
    using Create_user_serves [OF fresh_db_serves] by (simp add: Register_def EncryptPassword_def demo_user_env_def empty_user_def del: tables)
  have b: "bcrypt_ok demo_user_env" by (simp add: bcrypt_ok_def demo_user_env_def)
  have q: "answers_queries (us_db demo_user_env) d'" by (simp add: answers_queries_def demo_user_env_def fresh_db_env_def)
  have "\<exists>u. Login demo_user_env (ud_Username demo_account) (ud_Password demo_account) d' = Ok u \<and> u_Username u = ud_Username demo_account \<and> u_SystemRole u = [] \<and>
      u_ID u \<notin> u_ID ` set (db_users demo_db)"
    by (rule register_then_login [OF r b q]) (simp_all add: demo_account_def demo_access_defs)
  then show ?thesis using r by (auto simp: demo_account_def)
qed

theorem revoked_token_edits_profile_witness:
  "\<exists>d'. userRouter demo_user_env demo_auth (Some (Revoke ''jti-bob'' 100 NewRevocationList))
     (UpdateProfileCall (Some \<lparr> uq_Name = ''bob'', uq_Email = ''b@x'', uq_AvatarURL = [], uq_Address = [], uq_Gender = 0, uq_Title = [], uq_Company = [], uq_Bio = [],
        uq_Timezone = [], uq_Language = [], uq_EmailNotify = False \<rparr>)) (demo_rq ''bob'' [] [] []) demo_db = (RespOK (), d')"
proof -
  let ?req = "\<lparr> uq_Name = ''bob'', uq_Email = ''b@x'', uq_AvatarURL = [], uq_Address = [], uq_Gender = 0, uq_Title = [], uq_Company = [], uq_Bio = [],
        uq_Timezone = [], uq_Language = [], uq_EmailNotify = False \<rparr>"
  obtain cl where cl: "presented demo_auth None (demo_rq ''bob'' [] [] []) = Some cl" "cl_Subject cl = ''bob''" by (simp add: presented_def demo_access_defs)
  have "fst (UpdateProfile demo_user_env ''bob'' ?req demo_db) = Ok ()" by code_simp
  then obtain d' where "UpdateProfile demo_user_env (cl_Subject cl) ?req demo_db = (Ok (), d')" unfolding cl(2) by (metis prod.collapse)
  then show ?thesis using revoked_token_edits_profile [OF cl(1)] by blast
qed


end
