(* ===== verification/Workspaces.thy ===== *)
theory Workspaces
  imports Users Kube_Client
begin

text \<open>
  Workspaces: the workspace service (\<open>internal/server/service/workspace.go\<close>) and its routes
  (\<open>internal/server/server/workspace.go\<close>). A workspace is a row of the database and a tenant in the cluster: a
  namespace with a quota, role bindings, a default network and a default policy. The Kubernetes client is a
  record of the calls the service makes, over an abstract cluster state. The transaction rolls back the
  database and not the cluster. Slugs come from a transliteration library and are a parameter.
\<close>

section \<open>The tenant of a workspace\<close>

record Namespace =
  nsp_Name :: string
  nsp_Labels :: labels

record ResourceQuota =
  rqu_Name :: string
  rqu_Namespace :: string
  rqu_Hard :: "(string \<times> string) list"

record RoleBinding =
  rbi_Name :: string
  rbi_Namespace :: string
  rbi_Group :: string
  rbi_ClusterRole :: string

record NetworkCRD = LatticeNetwork +
  nc_Labels :: labels
  nc_CIDR :: string

record QuotaStatus =
  qs_Hard :: "int option"
  qs_Used :: "int option"

record 'w tenant_api =
  ta_CreateNamespace :: "'w \<Rightarrow> Namespace \<Rightarrow> kube_error option \<times> 'w"
  ta_DeleteNamespace :: "'w \<Rightarrow> string \<Rightarrow> kube_error option \<times> 'w"
  ta_CreateQuota :: "'w \<Rightarrow> ResourceQuota \<Rightarrow> kube_error option \<times> 'w"
  ta_CreateRoleBinding :: "'w \<Rightarrow> RoleBinding \<Rightarrow> kube_error option \<times> 'w"
  ta_GetNetwork :: "'w \<Rightarrow> string \<Rightarrow> string \<Rightarrow> kube_error + NetworkCRD"
  ta_CreateNetwork :: "'w \<Rightarrow> NetworkCRD \<Rightarrow> kube_error option \<times> 'w"
  ta_GetPolicy :: "'w \<Rightarrow> string \<Rightarrow> string \<Rightarrow> kube_error + LatticePolicy"
  ta_CreatePolicy :: "'w \<Rightarrow> LatticePolicy \<Rightarrow> kube_error option \<times> 'w"
  ta_GetNamespace :: "'w \<Rightarrow> string \<Rightarrow> kube_error + Namespace"
  ta_GetQuota :: "'w \<Rightarrow> string \<Rightarrow> string \<Rightarrow> kube_error + QuotaStatus"
  ta_CountTokens :: "'w \<Rightarrow> string \<Rightarrow> kube_error + int"
  ta_Error :: "kube_error \<Rightarrow> string"

definition tenant_namespace :: "string \<Rightarrow> Namespace" where
  "tenant_namespace wsID = \<lparr> nsp_Name = ''wf-'' @ wsID, nsp_Labels = [(''alattice.io/workspace-id'', wsID)] \<rparr>"

definition tenant_quota :: "string \<Rightarrow> ResourceQuota" where
  "tenant_quota nsName =
     \<lparr> rqu_Name = ''workspace-quota'', rqu_Namespace = nsName, rqu_Hard = [(''count/nodes.alattice.io'', ''50''), (''secrets'', ''20'')] \<rparr>"

definition role_binding :: "string \<Rightarrow> string \<Rightarrow> string \<Rightarrow> RoleBinding" where
  "role_binding ns wsID roleName =
     \<lparr> rbi_Name = ''wf-rb-'' @ wsID @ ''-'' @ roleName, rbi_Namespace = ns, rbi_Group = ''wf-group-'' @ wsID @ ''-'' @ roleName,
       rbi_ClusterRole = ''lattice-'' @ roleName \<rparr>"

text \<open>Errors are texts: \<open>wrapped\<close> is \<open>fmt.Errorf\<close> with a prefix, \<open>then_try\<close> goes on when there was no error.\<close>

definition wrapped :: "string \<Rightarrow> string option \<times> 'w \<Rightarrow> string option \<times> 'w" where
  "wrapped text r = (map_option (\<lambda>e. text @ e) (fst r), snd r)"

definition then_try :: "string option \<times> 'w \<Rightarrow> ('w \<Rightarrow> string option \<times> 'w) \<Rightarrow> string option \<times> 'w" where
  "then_try r g = (case r of (Some e, w) \<Rightarrow> (Some e, w) | (None, w) \<Rightarrow> g w)"

definition called :: "'w tenant_api \<Rightarrow> kube_error option \<times> 'w \<Rightarrow> string option \<times> 'w" where
  "called api r = (map_option (ta_Error api) (fst r), snd r)"

definition createRoleBinding :: "'w tenant_api \<Rightarrow> string \<Rightarrow> string \<Rightarrow> string \<Rightarrow> 'w \<Rightarrow> string option \<times> 'w" where
  "createRoleBinding api ns wsID roleName w = called api (ta_CreateRoleBinding api w (role_binding ns wsID roleName))"

fun createRoleBindings :: "'w tenant_api \<Rightarrow> string \<Rightarrow> string \<Rightarrow> string list \<Rightarrow> 'w \<Rightarrow> string option \<times> 'w" where
  "createRoleBindings api ns wsID [] w = (None, w)"
| "createRoleBindings api ns wsID (r # rs) w =
     then_try (wrapped ''failed to create role binding: '' (createRoleBinding api ns wsID r w)) (createRoleBindings api ns wsID rs)"

definition default_network :: "string \<Rightarrow> NetworkCRD" where
  "default_network nsName =
     \<lparr> ln_Name = ''lattice-default-net'', ln_Namespace = nsName, ln_SpecName = ''lattice-default-net'', ln_Phase = NetPhaseNone, ln_ActiveCIDR = [],
       ln_AllocatedCount = 0, nc_Labels = [(''app.kubernetes.io/managed-by'', ''lattice-controller'')], nc_CIDR = ''100.64.0.0/16'' \<rparr>"

definition createDefaultNetwork :: "'w tenant_api \<Rightarrow> string \<Rightarrow> 'w \<Rightarrow> string option \<times> 'w" where
  "createDefaultNetwork api nsName w =
     (case ta_GetNetwork api w nsName ''lattice-default-net'' of
        Inl KNotFound \<Rightarrow> wrapped ''failed to create default network: '' (called api (ta_CreateNetwork api w (default_network nsName)))
      | Inl e \<Rightarrow> (Some (ta_Error api e), w)
      | Inr _ \<Rightarrow> (None, w))"

definition default_policy :: "string \<Rightarrow> LatticePolicy" where
  "default_policy nsName =
     \<lparr> lc_Name = ''lattice-deny-all'', lc_Namespace = nsName, lc_Labels = [(''app.kubernetes.io/managed-by'', ''lattice-controller'')],
       lc_Network = nsName @ ''-net'', lc_PeerSelector = \<lparr> ls_MatchLabels = [], ls_MatchExpressions = [] \<rparr>, lc_Ingress = [], lc_Egress = [],
       lc_Action = ''DENY'', lc_TargetNodes = 0, lc_RuleCount = 0 \<rparr>"

definition createDefaultPolicy :: "'w tenant_api \<Rightarrow> string \<Rightarrow> 'w \<Rightarrow> string option \<times> 'w" where
  "createDefaultPolicy api nsName w =
     (case ta_GetPolicy api w nsName ''lattice-deny-all'' of
        Inl KNotFound \<Rightarrow> wrapped ''failed to create default policy: '' (called api (ta_CreatePolicy api w (default_policy nsName)))
      | Inl e \<Rightarrow> (Some (ta_Error api e), w)
      | Inr _ \<Rightarrow> (None, w))"

definition InitializeTenant :: "'w tenant_api \<Rightarrow> string \<Rightarrow> 'w \<Rightarrow> string option \<times> 'w" where
  "InitializeTenant api wsID w =
     (let nsName = ''wf-'' @ wsID
      in then_try (called api (ta_CreateNamespace api w (tenant_namespace wsID))) (\<lambda>w.
         then_try (wrapped ''failed to create quota: '' (called api (ta_CreateQuota api w (tenant_quota nsName)))) (\<lambda>w.
         then_try (createRoleBindings api nsName wsID [''admin'', ''editor'', ''member'', ''viewer''] w) (\<lambda>w.
         then_try (wrapped ''failed to create default network: '' (createDefaultNetwork api nsName w)) (\<lambda>w.
         wrapped ''failed to create default policy: '' (createDefaultPolicy api nsName w))))))"

section \<open>The service\<close>

record WorkspaceDto =
  wd_Slug :: string
  wd_Namespace :: string
  wd_DisplayName :: string
  wd_MaxNodeCount :: int

record ws_env =
  we_db :: db_env
  we_GenerateSlug :: "string \<Rightarrow> string"

record WorkspaceVo =
  wv_ID :: string
  wv_Slug :: string
  wv_Namespace :: string
  wv_DisplayName :: string
  wv_TokenCount :: int
  wv_QuotaUsage :: int
  wv_NodeCount :: int
  wv_Status :: string
  wv_CreatedBy :: string
  wv_UpdatedBy :: string
  wv_NetworkName :: string
  wv_NetworkCIDR :: string
  wv_NetworkStatus :: LatticeNetworkPhase

definition workspace_vo :: "Workspace \<Rightarrow> string \<Rightarrow> WorkspaceVo" where
  "workspace_vo ws status =
     \<lparr> wv_ID = ws_ID ws, wv_Slug = ws_Slug ws, wv_Namespace = ws_Namespace ws, wv_DisplayName = ws_DisplayName ws, wv_TokenCount = 0,
       wv_QuotaUsage = 0, wv_NodeCount = 0, wv_Status = status, wv_CreatedBy = ws_CreatedBy ws, wv_UpdatedBy = ws_UpdatedBy ws,
       wv_NetworkName = [], wv_NetworkCIDR = [], wv_NetworkStatus = NetPhaseNone \<rparr>"

definition new_workspace :: "string \<Rightarrow> string \<Rightarrow> string \<Rightarrow> Workspace" where
  "new_workspace slug displayName username =
     \<lparr> ws_ID = [], ws_Deleted = False, ws_Slug = slug, ws_Namespace = [], ws_DisplayName = displayName, ws_Status = [], ws_CreatedBy = username,
       ws_UpdatedBy = [] \<rparr>"

text \<open>The body of the transaction: what it did to the cluster stays when it fails.\<close>

definition add_body ::
  "'w tenant_api \<Rightarrow> ws_env \<Rightarrow> string \<Rightarrow> string \<Rightarrow> string \<Rightarrow> WorkspaceDto \<Rightarrow> db \<times> 'w \<Rightarrow> (svc_error + Workspace) \<times> db \<times> 'w" where
  "add_body api env userID username slug dto = (\<lambda>(d, w).
     case Create_row (we_db env) workspaces (new_workspace slug (wd_DisplayName dto) username) d of
       (Inl e, d1) \<Rightarrow> (Err (DbErr e), d1, w)
     | (Inr ws, d1) \<Rightarrow>
         (let newWs = ws\<lparr> ws_Namespace := ''wf-'' @ ws_ID ws \<rparr>
          in case Updates (we_db env) workspaces newWs d1 of
               (Some e, d2) \<Rightarrow> (Err (DbErr e), d2, w)
             | (None, d2) \<Rightarrow>
                 (case InitializeTenant api (ws_ID newWs) w of
                    (Some e, w') \<Rightarrow> (Err (Msg e), d2, w')
                  | (None, w') \<Rightarrow>
                      if userID = [] then (Ok newWs, d2, w')
                      else (case AddMember (we_db env) ((new_member (ws_ID newWs) userID RoleAdmin)
                                   \<lparr> wm_Status := ''active'', wm_JoinedAt := Some (de_now (we_db env)) \<rparr>) d2 of
                              (Some e, d3) \<Rightarrow> (Err (DbErr e), d3, w') | (None, d3) \<Rightarrow> (Ok newWs, d3, w')))))"

definition AddWorkspace ::
  "'w tenant_api \<Rightarrow> ws_env \<Rightarrow> string \<Rightarrow> string \<Rightarrow> WorkspaceDto \<Rightarrow> db \<times> 'w \<Rightarrow> (svc_error + WorkspaceVo) \<times> db \<times> 'w" where
  "AddWorkspace api env userID username dto = (\<lambda>(d, w).
     let slug = we_GenerateSlug env (wd_Slug dto);
         go = (case add_body api env userID username slug dto (d, w) of
                 (Inl e, _, w') \<Rightarrow> (Err e, d, w')
               | (Inr ws, d', w') \<Rightarrow> (Ok ((workspace_vo ws ''active'')\<lparr> wv_CreatedBy := [] \<rparr>), d', w'))
     in if userID = [] then go
        else (case ExistsByUserAndSlug (we_db env) userID slug d of
                Inl e \<Rightarrow> (Err (DbErr e), d, w)
              | Inr True \<Rightarrow> (Err (Msg (''workspace with name '' @ CHR 0x22 # wd_Slug dto @ CHR 0x22 # '' already exists'')), d, w)
              | Inr False \<Rightarrow> go))"

definition UpdateWorkspace :: "ws_env \<Rightarrow> string \<Rightarrow> string \<Rightarrow> WorkspaceDto \<Rightarrow> db \<Rightarrow> (svc_error + WorkspaceVo) \<times> db" where
  "UpdateWorkspace env username i dto d =
     (case Workspaces_GetByID (we_db env) i d of
        Inl e \<Rightarrow> (Err (DbErr e), d)
      | Inr ws \<Rightarrow>
          (let ws' = ws\<lparr> ws_DisplayName := or_old (wd_DisplayName dto) (ws_DisplayName ws), ws_UpdatedBy := username \<rparr>
           in case Updates (we_db env) workspaces ws' d of
                (Some e, d') \<Rightarrow> (Err (DbErr e), d') | (None, d') \<Rightarrow> (Ok (workspace_vo ws' (ws_Status ws')), d')))"

definition delete_rows :: "db_env \<Rightarrow> string \<Rightarrow> db \<Rightarrow> (svc_error + unit) \<times> db" where
  "delete_rows env i = Tx (\<lambda>d.
     case DeleteByWorkspace env i d of (Some e, d') \<Rightarrow> (Err (DbErr e), d') | (None, d') \<Rightarrow> db_result (Workspaces_Delete env i d'))"

definition DeleteWorkspace :: "'w tenant_api \<Rightarrow> ws_env \<Rightarrow> string \<Rightarrow> db \<times> 'w \<Rightarrow> (svc_error + unit) \<times> db \<times> 'w" where
  "DeleteWorkspace api env i = (\<lambda>(d, w).
     case Workspaces_GetByID (we_db env) i d of
       Inl e \<Rightarrow> (Err (DbErr e), d, w)
     | Inr ws \<Rightarrow>
         (case (if ws_Namespace ws = [] then (None, w) else ta_DeleteNamespace api w (ws_Namespace ws)) of
            (e, w') \<Rightarrow>
              if e \<noteq> None \<and> e \<noteq> Some KNotFound
              then (Err (Msg (''failed to delete namespace '' @ ws_Namespace ws @ '': '' @ ta_Error api (the e))), d, w')
              else (case delete_rows (we_db env) i d of (r, d') \<Rightarrow> (r, d', w'))))"

text \<open>What the list shows of one workspace is read from the cluster.\<close>

definition aggregated :: "'w tenant_api \<Rightarrow> 'w \<Rightarrow> Workspace \<Rightarrow> WorkspaceVo" where
  "aggregated api w ws =
     (let v = workspace_vo ws ''active''
      in case ta_GetNamespace api w (ws_Namespace ws) of
           Inl _ \<Rightarrow> v\<lparr> wv_Status := ''inactive'' \<rparr>
         | Inr _ \<Rightarrow>
             (let v1 = (case ta_GetQuota api w (ws_Namespace ws) ''workspace-quota'' of
                          Inl _ \<Rightarrow> v
                        | Inr q \<Rightarrow> v\<lparr> wv_NodeCount := (case qs_Hard q of Some n \<Rightarrow> n | None \<Rightarrow> 0),
                                     wv_QuotaUsage := (case qs_Used q of Some n \<Rightarrow> n | None \<Rightarrow> 0) \<rparr>);
                  v2 = (case ta_GetNetwork api w (ws_Namespace ws) ''lattice-default-net'' of
                          Inl _ \<Rightarrow> v1
                        | Inr n \<Rightarrow> v1\<lparr> wv_NetworkName := ln_SpecName n, wv_NetworkCIDR := or_old (ln_ActiveCIDR n) (nc_CIDR n), wv_NetworkStatus := ln_Phase n \<rparr>)
              in case ta_CountTokens api w (ws_Namespace ws) of Inl _ \<Rightarrow> v2 | Inr k \<Rightarrow> v2\<lparr> wv_TokenCount := k \<rparr>))"

text \<open>The members are found without their workspaces, so each contributes an empty one.\<close>

definition empty_workspace :: Workspace where
  "empty_workspace = \<lparr> ws_ID = [], ws_Deleted = False, ws_Slug = [], ws_Namespace = [], ws_DisplayName = [], ws_Status = [], ws_CreatedBy = [], ws_UpdatedBy = [] \<rparr>"

definition ListWorkspaces ::
  "'w tenant_api \<Rightarrow> ws_env \<Rightarrow> string \<Rightarrow> string \<Rightarrow> string \<Rightarrow> string \<Rightarrow> int \<Rightarrow> int \<Rightarrow> db \<times> 'w \<Rightarrow> db_error + (WorkspaceVo list \<times> nat)" where
  "ListWorkspaces api env systemRole userId keyword status page pageSize = (\<lambda>(d, w).
     case (if systemRole = ''platform_admin'' then Workspaces_List (we_db env) keyword page pageSize d
           else map_sum id (map_prod (map (\<lambda>_. empty_workspace)) id) (Members_ListByUser (we_db env) userId page pageSize d)) of
       Inl e \<Rightarrow> Err e
     | Inr (wss, n) \<Rightarrow>
         (let vs = map (aggregated api w) wss
          in if status = [] then Ok (vs, n)
             else (let fs = filter (\<lambda>v. wv_Status v = status) vs in Ok (fs, length fs))))"

section \<open>Routes\<close>

datatype ws_call = AddWs "WorkspaceDto option" | UpdateWs "WorkspaceDto option" | DeleteWs

definition workspaceRouter ::
  "'w tenant_api \<Rightarrow> ws_env \<Rightarrow> auth_env \<Rightarrow> RevocationList option \<Rightarrow> ws_call \<Rightarrow> request \<Rightarrow> db \<times> 'w \<Rightarrow> WorkspaceVo option response \<times> db \<times> 'w" where
  "workspaceRouter api env auth rl m rq st =
     (case AuthMiddleware auth rl rq gctx0 of
        Inl r \<Rightarrow> (r, st)
      | Inr c \<Rightarrow>
          (case m of
             AddWs None \<Rightarrow> (BadRequest, st)
           | AddWs (Some dto) \<Rightarrow>
               (case AddWorkspace api env (gc_user_id c) (gc_username c) dto st of
                  (Inl _, st') \<Rightarrow> (RespError, st') | (Inr v, st') \<Rightarrow> (RespOK (Some v), st'))
           | UpdateWs body \<Rightarrow>
               (case AdminOnly auth rl rq c (fst st) of
                  Inl r \<Rightarrow> (r, st)
                | Inr c' \<Rightarrow>
                    if rq_id rq = [] then (BadRequest, st)
                    else (case body of
                            None \<Rightarrow> (BadRequest, st)
                          | Some dto \<Rightarrow>
                              (case UpdateWorkspace env (gc_username c') (rq_id rq) dto (fst st) of
                                 (Inl _, d') \<Rightarrow> (RespError, d', snd st) | (Inr v, d') \<Rightarrow> (RespOK (Some v), d', snd st))))
           | DeleteWs \<Rightarrow>
               (case AdminOnly auth rl rq c (fst st) of
                  Inl r \<Rightarrow> (r, st)
                | Inr c' \<Rightarrow>
                    if rq_id rq = [] then (BadRequest, st)
                    else (case DeleteWorkspace api env (rq_id rq) st of (Inl _, st') \<Rightarrow> (RespError, st') | (Inr _, st') \<Rightarrow> (RespOK None, st')))))"

section \<open>What creating a workspace does\<close>

datatype tenant_object = NamespaceObj Namespace | QuotaObj ResourceQuota | BindingObj RoleBinding | NetworkObj NetworkCRD | PolicyObj LatticePolicy

text \<open>
  What the code relies on of the API server: a creation that succeeds adds the object, one that fails adds
  nothing, and a network or a policy that is found is there. \<open>view\<close> is the set of objects of a cluster state.
\<close>

definition creates :: "('w \<Rightarrow> tenant_object set) \<Rightarrow> ('w \<Rightarrow> 'o \<Rightarrow> kube_error option \<times> 'w) \<Rightarrow> ('o \<Rightarrow> tenant_object) \<Rightarrow> bool" where
  "creates view f obj \<longleftrightarrow> (\<forall>w x. view (snd (f w x)) = (if fst (f w x) = None then insert (obj x) (view w) else view w))"

definition tenant_api_ok :: "('w \<Rightarrow> tenant_object set) \<Rightarrow> 'w tenant_api \<Rightarrow> bool" where
  "tenant_api_ok view api \<longleftrightarrow>
     creates view (ta_CreateNamespace api) NamespaceObj \<and> creates view (ta_CreateQuota api) QuotaObj \<and>
     creates view (ta_CreateRoleBinding api) BindingObj \<and> creates view (ta_CreateNetwork api) NetworkObj \<and>
     creates view (ta_CreatePolicy api) PolicyObj \<and>
     (\<forall>w ns n x. ta_GetNetwork api w ns n = Inr x \<longrightarrow> NetworkObj x \<in> view w \<and> ln_Namespace x = ns \<and> ln_Name x = n) \<and>
     (\<forall>w ns n x. ta_GetPolicy api w ns n = Inr x \<longrightarrow> PolicyObj x \<in> view w \<and> lc_Namespace x = ns \<and> lc_Name x = n)"

definition grows :: "('w \<Rightarrow> tenant_object set) \<Rightarrow> (string option \<times> 'w) \<Rightarrow> 'w \<Rightarrow> tenant_object set \<Rightarrow> bool" where
  "grows view r w new \<longleftrightarrow> view w \<subseteq> view (snd r) \<and> (fst r = None \<longrightarrow> new \<subseteq> view (snd r))"

lemma grows_called: "creates view f obj \<Longrightarrow> grows view (called api (f w x)) w {obj x}"
  by (auto simp: creates_def grows_def called_def)

lemma grows_wrapped [simp]: "grows view (wrapped text r) w new = grows view r w new"
  by (simp add: grows_def wrapped_def)

lemma grows_then:
  assumes "grows view r w a" "\<And>w'. grows view (g w') w' b"
  shows "grows view (then_try r g) w (a \<union> b)"
  using assms(1) assms(2) [of "snd r"] by (auto simp: grows_def then_try_def split: prod.splits option.splits)

lemma grows_bindings:
  "tenant_api_ok view api \<Longrightarrow> grows view (createRoleBindings api ns wsID rs w) w ((\<lambda>r. BindingObj (role_binding ns wsID r)) ` set rs)"
proof (induction rs arbitrary: w)
  case Nil
  then show ?case by (simp add: grows_def)
next
  case (Cons r rs)
  have "grows view (wrapped ''failed to create role binding: '' (createRoleBinding api ns wsID r w)) w {BindingObj (role_binding ns wsID r)}"
    unfolding grows_wrapped createRoleBinding_def by (rule grows_called) (use Cons.prems in \<open>simp add: tenant_api_ok_def\<close>)
  from grows_then [OF this Cons.IH [OF Cons.prems]] show ?case by simp
qed

definition has_network :: "tenant_object set \<Rightarrow> string \<Rightarrow> string \<Rightarrow> bool" where
  "has_network X ns n \<longleftrightarrow> (\<exists>x. NetworkObj x \<in> X \<and> ln_Namespace x = ns \<and> ln_Name x = n)"

definition has_policy :: "tenant_object set \<Rightarrow> string \<Rightarrow> string \<Rightarrow> bool" where
  "has_policy X ns n \<longleftrightarrow> (\<exists>x. PolicyObj x \<in> X \<and> lc_Namespace x = ns \<and> lc_Name x = n)"

lemma default_network_there:
  assumes "tenant_api_ok view api"
  shows "grows view (createDefaultNetwork api ns w) w {}" "fst (createDefaultNetwork api ns w) = None \<Longrightarrow> has_network (view (snd (createDefaultNetwork api ns w))) ns ''lattice-default-net''"
proof -
  have c: "grows view (called api (ta_CreateNetwork api w (default_network ns))) w {NetworkObj (default_network ns)}"
    by (rule grows_called) (use assms in \<open>simp add: tenant_api_ok_def\<close>)
  show "grows view (createDefaultNetwork api ns w) w {}"
    using c by (auto simp: createDefaultNetwork_def grows_def wrapped_def split: sum.splits kube_error.splits)
  show "has_network (view (snd (createDefaultNetwork api ns w))) ns ''lattice-default-net''" if "fst (createDefaultNetwork api ns w) = None"
  proof (cases "ta_GetNetwork api w ns ''lattice-default-net''")
    case (Inl e)
    then have "e = KNotFound" using that by (cases e) (simp_all add: createDefaultNetwork_def)
    then have "NetworkObj (default_network ns) \<in> view (snd (createDefaultNetwork api ns w))"
      using Inl that c by (simp add: createDefaultNetwork_def wrapped_def grows_def)
    then show ?thesis unfolding has_network_def by (intro exI [of _ "default_network ns"]) (simp add: default_network_def)
  next
    case (Inr x)
    then have "NetworkObj x \<in> view w \<and> ln_Namespace x = ns \<and> ln_Name x = ''lattice-default-net''" using assms unfolding tenant_api_ok_def by blast
    moreover have "snd (createDefaultNetwork api ns w) = w" using Inr by (simp add: createDefaultNetwork_def)
    ultimately show ?thesis unfolding has_network_def by auto
  qed
qed

lemma default_policy_there:
  assumes "tenant_api_ok view api"
  shows "grows view (createDefaultPolicy api ns w) w {}" "fst (createDefaultPolicy api ns w) = None \<Longrightarrow> has_policy (view (snd (createDefaultPolicy api ns w))) ns ''lattice-deny-all''"
proof -
  have c: "grows view (called api (ta_CreatePolicy api w (default_policy ns))) w {PolicyObj (default_policy ns)}"
    by (rule grows_called) (use assms in \<open>simp add: tenant_api_ok_def\<close>)
  show "grows view (createDefaultPolicy api ns w) w {}"
    using c by (auto simp: createDefaultPolicy_def grows_def wrapped_def split: sum.splits kube_error.splits)
  show "has_policy (view (snd (createDefaultPolicy api ns w))) ns ''lattice-deny-all''" if "fst (createDefaultPolicy api ns w) = None"
  proof (cases "ta_GetPolicy api w ns ''lattice-deny-all''")
    case (Inl e)
    then have "e = KNotFound" using that by (cases e) (simp_all add: createDefaultPolicy_def)
    then have "PolicyObj (default_policy ns) \<in> view (snd (createDefaultPolicy api ns w))"
      using Inl that c by (simp add: createDefaultPolicy_def wrapped_def grows_def)
    then show ?thesis unfolding has_policy_def by (intro exI [of _ "default_policy ns"]) (simp add: default_policy_def)
  next
    case (Inr x)
    then have "PolicyObj x \<in> view w \<and> lc_Namespace x = ns \<and> lc_Name x = ''lattice-deny-all''" using assms unfolding tenant_api_ok_def by blast
    moreover have "snd (createDefaultPolicy api ns w) = w" using Inr by (simp add: createDefaultPolicy_def)
    ultimately show ?thesis unfolding has_policy_def by auto
  qed
qed

definition tenant_ready :: "tenant_object set \<Rightarrow> string \<Rightarrow> bool" where
  "tenant_ready X wsID \<longleftrightarrow>
     (let ns = ''wf-'' @ wsID
      in NamespaceObj (tenant_namespace wsID) \<in> X \<and> QuotaObj (tenant_quota ns) \<in> X \<and>
         (\<forall>r\<in>{''admin'', ''editor'', ''member'', ''viewer''}. BindingObj (role_binding ns wsID r) \<in> X) \<and>
         has_network X ns ''lattice-default-net'' \<and> has_policy X ns ''lattice-deny-all'')"


lemma then_try_None: "then_try r g = (None, w') \<Longrightarrow> fst r = None \<and> g (snd r) = (None, w')"
  by (auto simp: then_try_def split: prod.splits option.splits)

lemma has_mono: "X \<subseteq> Y \<Longrightarrow> has_network X ns n \<Longrightarrow> has_network Y ns n"
  by (auto simp: has_network_def)

lemma InitializeTenant_ready:
  assumes ok: "tenant_api_ok view api" and ini: "InitializeTenant api wsID w = (None, w')"
  shows "tenant_ready (view w') wsID"
proof -
  let ?ns = "''wf-'' @ wsID" and ?rs = "[''admin'', ''editor'', ''member'', ''viewer'']"
  let ?r1 = "called api (ta_CreateNamespace api w (tenant_namespace wsID))"
  note s1 = then_try_None [OF ini [unfolded InitializeTenant_def Let_def]]
  let ?r2 = "wrapped ''failed to create quota: '' (called api (ta_CreateQuota api (snd ?r1) (tenant_quota ?ns)))"
  note s2 = then_try_None [OF conjunct2 [OF s1]]
  let ?r3 = "createRoleBindings api ?ns wsID ?rs (snd ?r2)"
  note s3 = then_try_None [OF conjunct2 [OF s2]]
  let ?r4 = "createDefaultNetwork api ?ns (snd ?r3)"
  note s4 = then_try_None [OF conjunct2 [OF s3]]
  let ?r5 = "createDefaultPolicy api ?ns (snd ?r4)"
  have w4: "snd (wrapped ''failed to create default network: '' ?r4) = snd ?r4" "fst ?r4 = None" using s4 by (simp_all add: wrapped_def)
  have w5: "snd ?r5 = w'" "fst ?r5 = None" using conjunct2 [OF s4] unfolding w4 by (simp_all add: wrapped_def)
  have g1: "grows view ?r1 w {NamespaceObj (tenant_namespace wsID)}" by (rule grows_called) (use ok in \<open>simp add: tenant_api_ok_def\<close>)
  have g2: "grows view ?r2 (snd ?r1) {QuotaObj (tenant_quota ?ns)}" unfolding grows_wrapped by (rule grows_called) (use ok in \<open>simp add: tenant_api_ok_def\<close>)
  have g3: "grows view ?r3 (snd ?r2) ((\<lambda>r. BindingObj (role_binding ?ns wsID r)) ` set ?rs)" by (rule grows_bindings [OF ok])
  have v4: "view (snd ?r3) \<subseteq> view (snd ?r4)" using default_network_there(1) [OF ok] by (simp add: grows_def)
  have v5: "view (snd ?r4) \<subseteq> view w'" using default_policy_there(1) [OF ok, of ?ns "snd ?r4"] w5 by (simp add: grows_def)
  have v3: "view (snd ?r2) \<subseteq> view (snd ?r3)" "(\<lambda>r. BindingObj (role_binding ?ns wsID r)) ` set ?rs \<subseteq> view (snd ?r3)" using g3 s3 by (simp_all add: grows_def)
  have v2: "view (snd ?r1) \<subseteq> view (snd ?r2)" "QuotaObj (tenant_quota ?ns) \<in> view (snd ?r2)" using g2 s2 by (simp_all add: grows_def)
  have v1: "NamespaceObj (tenant_namespace wsID) \<in> view (snd ?r1)" using g1 s1 by (simp add: grows_def)
  have up: "view (snd ?r3) \<subseteq> view w'" "view (snd ?r2) \<subseteq> view w'" "view (snd ?r1) \<subseteq> view w'" using v2(1) v3(1) v4 v5 by blast+
  have net: "has_network (view w') ?ns ''lattice-default-net''" using has_mono [OF v5 default_network_there(2) [OF ok w4(2)]] .
  have pol: "has_policy (view w') ?ns ''lattice-deny-all''" using default_policy_there(2) [OF ok w5(2)] unfolding w5(1) .
  have bi: "BindingObj (role_binding ?ns wsID r) \<in> view w'" if "r \<in> set ?rs" for r using v3(2) up(1) that by blast
  have nq: "NamespaceObj (tenant_namespace wsID) \<in> view w'" "QuotaObj (tenant_quota ?ns) \<in> view w'" using v1 v2(2) up by blast+
  show ?thesis unfolding tenant_ready_def Let_def using net pol nq bi by simp
qed


lemma Updates_None:
  "Updates env t r d = (None, d') \<Longrightarrow> d' = tb_put t (map (\<lambda>s. if \<not> tb_deleted t s \<and> tb_id t s = tb_id t r then tb_merge t r s else s) (tb_get t d)) d"
  by (auto simp: Updates_def Update_where_def split: if_splits option.splits)

lemma update_created:
  assumes "Create_row env workspaces (new_workspace slug name user) d = (Ok ws, d1)"
  shows "ws = (new_workspace slug name user)\<lparr> ws_ID := de_uuid env d, ws_Namespace := ''wf-'' @ de_uuid env d, ws_Status := ''active'' \<rparr>"
    "d1 = d\<lparr> db_workspaces := db_workspaces d @ [ws] \<rparr>"
    "Updates env workspaces (ws\<lparr> ws_Namespace := ''wf-'' @ ws_ID ws \<rparr>) d1 = (None, d2) \<Longrightarrow> d2 = d1"
proof -
  have c: "ws = (new_workspace slug name user)\<lparr> ws_ID := de_uuid env d, ws_Namespace := ''wf-'' @ de_uuid env d, ws_Status := ''active'' \<rparr> \<and>
      d1 = d\<lparr> db_workspaces := db_workspaces d @ [ws] \<rparr> \<and> (\<forall>s\<in>set (db_workspaces d). ws_ID s \<noteq> ws_ID ws)"
    using assms by (cases rule: Create_row_cases) (auto simp: new_workspace_def or_old_def Let_def list_ex_iff)
  then show "ws = (new_workspace slug name user)\<lparr> ws_ID := de_uuid env d, ws_Namespace := ''wf-'' @ de_uuid env d, ws_Status := ''active'' \<rparr>"
    "d1 = d\<lparr> db_workspaces := db_workspaces d @ [ws] \<rparr>" by simp_all
  assume u: "Updates env workspaces (ws\<lparr> ws_Namespace := ''wf-'' @ ws_ID ws \<rparr>) d1 = (None, d2)"
  have same: "ws\<lparr> ws_Namespace := ''wf-'' @ ws_ID ws \<rparr> = ws" using c by simp
  have "tb_merge workspaces ws ws = ws" by (simp add: or_old_def)
  then have "map (\<lambda>r. if \<not> ws_Deleted r \<and> ws_ID r = ws_ID ws then tb_merge workspaces ws r else r) (db_workspaces d1) = db_workspaces d1"
    using c by (auto simp del: tables intro!: map_idI)
  then have m: "d1\<lparr> db_workspaces := map (\<lambda>r. if \<not> ws_Deleted r \<and> ws_ID r = ws_ID ws then tb_merge workspaces ws r else r) (db_workspaces d1) \<rparr> = d1"
    by (simp del: tables)
  have "d2 = d1\<lparr> db_workspaces := map (\<lambda>r. if \<not> ws_Deleted r \<and> ws_ID r = ws_ID ws then tb_merge workspaces ws r else r) (db_workspaces d1) \<rparr>"
    using Updates_None [OF u [unfolded same]] by simp
  then show "d2 = d1" unfolding m .
qed

lemma AddMember_None:
  assumes "AddMember env m d = (None, d')" "wm_Status m \<noteq> []" "wm_ID m = []"
  shows "d' = d\<lparr> db_members := db_members d @ [m\<lparr> wm_ID := de_uuid env d \<rparr>] \<rparr>"
proof -
  obtain x d1 where c: "Create_row env members m d = (x, d1)" by (cases "Create_row env members m d")
  have "\<not> isl x" "d1 = d'" using assms(1) c by (cases x; simp del: tables add: AddMember_def)+
  with c show ?thesis by (cases rule: Create_row_cases) (use assms(2,3) in \<open>auto simp: or_old_def\<close>)
qed

lemma add_body_Ok:
  assumes "add_body api env userID username slug dto (d, w) = (Ok ws, d', w')" "userID \<noteq> []"
  shows "ws_Namespace ws = ''wf-'' @ ws_ID ws" "ws_Slug ws = slug" "\<not> ws_Deleted ws"
    "\<exists>m. d' = d\<lparr> db_workspaces := db_workspaces d @ [ws], db_members := db_members d @ [m] \<rparr> \<and> wm_WorkspaceID m = ws_ID ws \<and> wm_UserID m = userID \<and>
       wm_Role m = RoleAdmin \<and> wm_Status m = ''active'' \<and> \<not> wm_Deleted m"
    "InitializeTenant api (ws_ID ws) w = (None, w')"
proof -
  let ?n = "new_workspace slug (wd_DisplayName dto) username"
  obtain x d1 where c: "Create_row (we_db env) workspaces ?n d = (x, d1)" by (cases "Create_row (we_db env) workspaces ?n d")
  obtain ws0 where x: "x = Inr ws0" using assms(1) c by (cases x) (simp_all del: tables add: add_body_def)
  note C = update_created [OF c [unfolded x]]
  have same: "ws0\<lparr> ws_Namespace := ''wf-'' @ ws_ID ws0 \<rparr> = ws0" using C(1) by simp
  obtain e2 d2 where u: "Updates (we_db env) workspaces ws0 d1 = (e2, d2)" by (cases "Updates (we_db env) workspaces ws0 d1")
  have e2: "e2 = None" using assms(1) c x u same by (cases e2) (simp_all del: tables add: add_body_def Let_def)
  have d2: "d2 = d1" using C(3) [unfolded same] u e2 by blast
  obtain e3 w3 where i: "InitializeTenant api (ws_ID ws0) w = (e3, w3)" by (cases "InitializeTenant api (ws_ID ws0) w")
  have e3: "e3 = None" using assms(1) c x u same e2 i by (cases e3) (simp_all del: tables add: add_body_def Let_def)
  let ?m = "(new_member (ws_ID ws0) userID RoleAdmin)\<lparr> wm_Status := ''active'', wm_JoinedAt := Some (de_now (we_db env)) \<rparr>"
  obtain e4 d3 where a: "AddMember (we_db env) ?m d1 = (e4, d3)" by (cases "AddMember (we_db env) ?m d1")
  have e4: "e4 = None \<and> ws = ws0 \<and> d' = d3 \<and> w' = w3"
    using assms c x u same e2 i e3 a d2 by (cases e4) (simp_all del: tables add: add_body_def Let_def)
  have d3: "d3 = d1\<lparr> db_members := db_members d1 @ [?m\<lparr> wm_ID := de_uuid (we_db env) d1 \<rparr>] \<rparr>"
    by (rule AddMember_None) (use a e4 in \<open>simp_all add: new_member_def\<close>)
  show "ws_Namespace ws = ''wf-'' @ ws_ID ws" "ws_Slug ws = slug" "\<not> ws_Deleted ws" using e4 C(1) by (simp_all add: new_workspace_def)
  show "InitializeTenant api (ws_ID ws) w = (None, w')" using i e3 e4 by simp
  show "\<exists>m. d' = d\<lparr> db_workspaces := db_workspaces d @ [ws], db_members := db_members d @ [m] \<rparr> \<and> wm_WorkspaceID m = ws_ID ws \<and> wm_UserID m = userID \<and>
       wm_Role m = RoleAdmin \<and> wm_Status m = ''active'' \<and> \<not> wm_Deleted m"
    by (rule exI [of _ "?m\<lparr> wm_ID := de_uuid (we_db env) d1 \<rparr>"]) (use d3 e4 C(2) in \<open>simp add: new_member_def\<close>)
qed

text \<open>C14: A request of a signed-in user to add a workspace either fails and leaves the database as it was, or adds exactly one workspace and one
  membership: the workspace has its namespace named after its identifier, the caller is its active
  administrator, no workspace of theirs had the slug before, and the cluster holds the namespace with its
  quota, the bindings of the four roles, the default network and the policy that denies all.
\<close>

theorem workspace_created:
  assumes "AddWorkspace api env userID username dto (d, w) = (res, d', w')" "userID \<noteq> []" "tenant_api_ok view api"
  shows "case res of
      Inl e \<Rightarrow> d' = d
    | Inr v \<Rightarrow> \<exists>ws m. d' = d\<lparr> db_workspaces := db_workspaces d @ [ws], db_members := db_members d @ [m] \<rparr> \<and>
        ws_ID ws = wv_ID v \<and> ws_Namespace ws = ''wf-'' @ ws_ID ws \<and> ws_Slug ws = we_GenerateSlug env (wd_Slug dto) \<and>
        wm_WorkspaceID m = ws_ID ws \<and> wm_UserID m = userID \<and> wm_Role m = RoleAdmin \<and> wm_Status m = ''active'' \<and>
        ExistsByUserAndSlug (we_db env) userID (ws_Slug ws) d = Ok False \<and> tenant_ready (view w') (ws_ID ws)"
proof (cases "ExistsByUserAndSlug (we_db env) userID (we_GenerateSlug env (wd_Slug dto)) d")
  case (Inl e)
  then show ?thesis using assms(1,2) by (auto simp: AddWorkspace_def Let_def)
next
  case (Inr b)
  obtain r d1 w1 where a: "add_body api env userID username (we_GenerateSlug env (wd_Slug dto)) dto (d, w) = (r, d1, w1)" by (metis prod_cases3)
  show ?thesis
  proof (cases b)
    case True
    then show ?thesis using assms(1,2) Inr by (auto simp: AddWorkspace_def Let_def)
  next
    case False
    show ?thesis
    proof (cases r)
      case (Inl e)
      then show ?thesis using assms(1,2) Inr False a by (auto simp: AddWorkspace_def Let_def)
    next
      case r: (Inr ws)
      note B = add_body_Ok [OF a [unfolded r] assms(2)]
      have eq: "res = Ok ((workspace_vo ws ''active'')\<lparr> wv_CreatedBy := [] \<rparr>)" "d' = d1" "w' = w1"
        using assms(1,2) Inr False a r by (auto simp: AddWorkspace_def Let_def)
      obtain m where m: "d1 = d\<lparr> db_workspaces := db_workspaces d @ [ws], db_members := db_members d @ [m] \<rparr>" "wm_WorkspaceID m = ws_ID ws" "wm_UserID m = userID"
        "wm_Role m = RoleAdmin" "wm_Status m = ''active''" using B(4) by blast
      have "ExistsByUserAndSlug (we_db env) userID (ws_Slug ws) d = Ok False" using Inr False B(2) by simp
      then show ?thesis using B(1,2) m InitializeTenant_ready [OF assms(3) B(5)] unfolding eq sum.case
        by (intro exI [of _ ws] exI [of _ m]) (simp add: workspace_vo_def)
    qed
  qed
qed


section \<open>What deleting a workspace does\<close>

definition marked :: "string \<Rightarrow> db \<Rightarrow> db" where
  "marked i d = d\<lparr> db_members := map (\<lambda>m. if \<not> wm_Deleted m \<and> wm_WorkspaceID m = i then m\<lparr> wm_Deleted := True \<rparr> else m) (db_members d),
     db_workspaces := map (\<lambda>s. if \<not> ws_Deleted s \<and> ws_ID s = i then s\<lparr> ws_Deleted := True \<rparr> else s) (db_workspaces d) \<rparr>"

lemma delete_rows_Ok: "delete_rows env i d = (Ok (), d') \<Longrightarrow> i \<noteq> [] \<and> d' = marked i d"
  unfolding delete_rows_def Tx_Ok DeleteByWorkspace_def Workspaces_Delete_def Delete_where_def db_result_def
  by (auto simp: scope_def marked_def split: option.splits prod.splits if_splits)

lemma DeleteWorkspace_Ok:
  assumes "DeleteWorkspace api env i (d, w) = (Ok (), d', w')"
  shows "i \<noteq> [] \<and> d' = marked i d"
  using assms delete_rows_Ok [of "we_db env" i d d']
  by (auto simp: DeleteWorkspace_def split: sum.splits prod.splits if_splits)

lemma holds_role_seen:
  "holds_role d wsID userID role \<longleftrightarrow>
     (\<exists>u\<in>set (db_users d). (\<not> u_Deleted u \<and> u_ID u = userID) \<and>
        (u_SystemRole u = SystemRolePlatformAdmin \<or>
         (\<exists>m. (m \<in> set (db_members d) \<and> \<not> wm_Deleted m) \<and> wm_WorkspaceID m = wsID \<and> wm_UserID m = userID \<and>
            wm_Status m \<noteq> ''suspended'' \<and> wm_Status m \<noteq> ''removed'' \<and> GetRoleWeight role \<le> GetRoleWeight (wm_Role m))))"
  unfolding holds_role_def by (simp add: Bex_def conj_assoc)

lemma marked_members:
  "m \<in> set (db_members (marked i d)) \<and> \<not> wm_Deleted m \<longleftrightarrow> m \<in> set (db_members d) \<and> \<not> wm_Deleted m \<and> wm_WorkspaceID m \<noteq> i"
proof
  assume m: "m \<in> set (db_members (marked i d)) \<and> \<not> wm_Deleted m"
  then obtain n where "n \<in> set (db_members d)" "m = (if \<not> wm_Deleted n \<and> wm_WorkspaceID n = i then n\<lparr> wm_Deleted := True \<rparr> else n)"
    by (auto simp: marked_def)
  then show "m \<in> set (db_members d) \<and> \<not> wm_Deleted m \<and> wm_WorkspaceID m \<noteq> i" using m by (auto split: if_splits)
qed (force simp: marked_def)

lemma marked_workspaces: "s \<in> set (db_workspaces (marked i d)) \<Longrightarrow> \<not> ws_Deleted s \<Longrightarrow> ws_ID s \<noteq> i"
proof -
  assume s: "s \<in> set (db_workspaces (marked i d))" "\<not> ws_Deleted s"
  let ?f = "\<lambda>n. if \<not> ws_Deleted n \<and> ws_ID n = i then n\<lparr> ws_Deleted := True \<rparr> else n"
  have "db_workspaces (marked i d) = map ?f (db_workspaces d)" by (simp add: marked_def)
  then have "s \<in> ?f ` set (db_workspaces d)" using s(1) by (simp only: set_map)
  then obtain n where n: "s = ?f n" by blast
  show ?thesis
  proof (cases "\<not> ws_Deleted n \<and> ws_ID n = i")
    case True
    then have "s = n\<lparr> ws_Deleted := True \<rparr>" using n by presburger
    then show ?thesis using s(2) by simp
  next
    case False
    then have "s = n" using n by presburger
    then show ?thesis using False s(2) by blast
  qed
qed

text \<open>C15: When deleting a workspace succeeds, nobody but platform administrators holds a role in it any more, no row of it is left
  visible, and the roles everybody holds in other workspaces are what they were.
\<close>

theorem deleted_workspace_closed:
  assumes "DeleteWorkspace api env i (d, w) = (Ok (), d', w')"
  shows "(holds_role d' i u role \<longrightarrow> (\<exists>v\<in>set (db_users d). \<not> u_Deleted v \<and> u_ID v = u \<and> u_SystemRole v = SystemRolePlatformAdmin)) \<and>
    (\<forall>e env'. Workspaces_GetByID env' i d' \<noteq> Ok e) \<and> (j \<noteq> i \<longrightarrow> holds_role d' j u role = holds_role d j u role)"
proof -
  have d': "d' = marked i d" using DeleteWorkspace_Ok [OF assms] by simp
  have us: "db_users d' = db_users d" by (simp add: d' marked_def)
  have mem: "(m \<in> set (db_members d') \<and> \<not> wm_Deleted m) = (m \<in> set (db_members d) \<and> \<not> wm_Deleted m \<and> wm_WorkspaceID m \<noteq> i)" for m
    unfolding d' by (rule marked_members)
  let ?rest = "\<lambda>m. wm_Status m \<noteq> ''suspended'' \<and> wm_Status m \<noteq> ''removed'' \<and> GetRoleWeight role \<le> GetRoleWeight (wm_Role m)"
  have seen: "(\<exists>m. (m \<in> set (db_members d') \<and> \<not> wm_Deleted m) \<and> wm_WorkspaceID m = k \<and> wm_UserID m = u \<and> ?rest m) \<longleftrightarrow>
      k \<noteq> i \<and> (\<exists>m. (m \<in> set (db_members d) \<and> \<not> wm_Deleted m) \<and> wm_WorkspaceID m = k \<and> wm_UserID m = u \<and> ?rest m)" for k
    unfolding mem by blast
  have "\<exists>v\<in>set (db_users d). \<not> u_Deleted v \<and> u_ID v = u \<and> u_SystemRole v = SystemRolePlatformAdmin" if "holds_role d' i u role"
    using that unfolding holds_role_seen us seen by blast
  moreover have "Workspaces_GetByID env' i d' \<noteq> Ok e" for e env'
  proof
    assume "Workspaces_GetByID env' i d' = Ok e"
    from First_Ok [OF this [unfolded Workspaces_GetByID_def]] have "e \<in> set (db_workspaces (marked i d)) \<and> \<not> ws_Deleted e \<and> ws_ID e = i" by (simp add: d')
    then show False using marked_workspaces by blast
  qed
  moreover have "holds_role d' j u role = holds_role d j u role" if "j \<noteq> i"
    unfolding holds_role_seen us seen using that by simp
  ultimately show ?thesis by blast
qed

text \<open>The routes that change and delete a workspace check the role in the workspace of the header and act on the one of the path. An administrator
  of one workspace who names it in the header deletes any other workspace.
\<close>

theorem admin_deletes_foreign_workspace:
  assumes "presented auth rl rq = Some cl" "holds_role d (rq_WorkspaceId rq) (cl_Subject cl) RoleAdmin" "rq_WorkspaceId rq \<noteq> []"
    and "answers_queries (ae_db auth) d" "user_keys_ok d" "one_membership d"
    and "DeleteWorkspace api env (rq_id rq) (d, w) = (Ok (), d', w')"
  shows "workspaceRouter api env auth rl DeleteWs rq (d, w) = (RespOK None, d', w')"
proof -
  have ws: "request_workspace rq = rq_WorkspaceId rq" using assms(3) by (simp add: request_workspace_def)
  have a: "(AuthMiddleware auth rl rq gctx0 :: WorkspaceVo option response + gctx) = Inr (signed_in cl gctx0)"
    using AuthMiddleware_Ok assms(1) by blast
  obtain k where "RequireWorkspaceRole (ae_db auth) (request_workspace rq) (cl_Subject cl) RoleAdmin d = Ok k"
    using require_role_complete [OF assms(2,4-6,3)] unfolding ws by blast
  then obtain c where c: "(AdminOnly auth rl rq (signed_in cl gctx0) d :: WorkspaceVo option response + gctx) = Inr c"
    unfolding AdminOnly_def using middleware_admits [OF assms(1)] assms(3) ws by metis
  show ?thesis using a c DeleteWorkspace_Ok [OF assms(7)] assms(7) by (simp add: workspaceRouter_def)
qed

text \<open>The policy that is to deny all traffic names a network that the tenant does not have.\<close>

lemma default_policy_misses_network: "lc_Network (default_policy (''wf-'' @ wsID)) \<noteq> ln_Name (default_network (''wf-'' @ wsID))"
  by (simp add: default_policy_def default_network_def)

section \<open>Examples\<close>

definition demo_tenant :: "tenant_object list tenant_api" where
  "demo_tenant = \<lparr> ta_CreateNamespace = (\<lambda>w x. (None, NamespaceObj x # w)), ta_DeleteNamespace = (\<lambda>w n. (None, [])),
     ta_CreateQuota = (\<lambda>w x. (None, QuotaObj x # w)), ta_CreateRoleBinding = (\<lambda>w x. (None, BindingObj x # w)),
     ta_GetNetwork = (\<lambda>w ns n. Inl KNotFound), ta_CreateNetwork = (\<lambda>w x. (None, NetworkObj x # w)), ta_GetPolicy = (\<lambda>w ns n. Inl KNotFound),
     ta_CreatePolicy = (\<lambda>w x. (None, PolicyObj x # w)), ta_GetNamespace = (\<lambda>w n. Inl KNotFound), ta_GetQuota = (\<lambda>w ns n. Inl KNotFound),
     ta_CountTokens = (\<lambda>w ns. Inr 0), ta_Error = (\<lambda>_. []) \<rparr>"

lemma demo_tenant_ok: "tenant_api_ok set demo_tenant"
  by (simp add: tenant_api_ok_def creates_def demo_tenant_def)

definition demo_ws_env :: ws_env where
  "demo_ws_env = \<lparr> we_db = demo_db_env, we_GenerateSlug = (\<lambda>s. s) \<rparr>"

definition demo_ws_dto :: WorkspaceDto where
  "demo_ws_dto = \<lparr> wd_Slug = ''lab'', wd_Namespace = [], wd_DisplayName = ''Lab'', wd_MaxNodeCount = 0 \<rparr>"

theorem workspace_created_witness:
  "\<exists>v d' w'. AddWorkspace demo_tenant demo_ws_env ''alice'' ''alice'' demo_ws_dto (demo_db, []) = (Ok v, d', w') \<and> tenant_ready (set w') (wv_ID v) \<and>
     map wm_UserID (db_members d') = [''alice'', ''bob'', ''alice'']"
proof -
  obtain res d' w' where r: "AddWorkspace demo_tenant demo_ws_env ''alice'' ''alice'' demo_ws_dto (demo_db, []) = (res, d', w')" by (metis prod_cases3)
  have "\<not> isl (fst (AddWorkspace demo_tenant demo_ws_env ''alice'' ''alice'' demo_ws_dto (demo_db, [])))" by code_simp
  then obtain v where v: "res = Inr v" using r by (cases res) simp_all
  have "map wm_UserID (db_members demo_db) = [''alice'', ''bob'']" by (simp add: demo_access_defs)
  then show ?thesis using workspace_created [OF r _ demo_tenant_ok] r v by auto
qed

definition demo_two :: db where
  "demo_two = demo_db\<lparr> db_workspaces := [demo_workspace, demo_workspace\<lparr> ws_ID := ''w2'', ws_Namespace := ''wf-w2'' \<rparr>] \<rparr>"

lemma demo_delete: "\<exists>d' w'. DeleteWorkspace demo_tenant demo_ws_env ''w2'' (demo_two, []) = (Ok (), d', w')"
proof -
  have "fst (DeleteWorkspace demo_tenant demo_ws_env ''w2'' (demo_two, [])) = Ok ()" by code_simp
  then show ?thesis by (metis prod.collapse)
qed

lemma demo_two_roles: "holds_role demo_two ''w2'' ''bob'' RoleViewer" "holds_role demo_two ''w1'' ''alice'' RoleAdmin"
  by (simp_all add: holds_role_def demo_two_def demo_access_defs role_names GetRoleWeight_def)

theorem deleted_workspace_closed_witness:
  "holds_role demo_two ''w2'' ''bob'' RoleViewer \<and>
   (\<exists>d' w'. DeleteWorkspace demo_tenant demo_ws_env ''w2'' (demo_two, []) = (Ok (), d', w') \<and> \<not> holds_role d' ''w2'' ''bob'' RoleViewer \<and>
      holds_role d' ''w1'' ''alice'' RoleAdmin)"
proof -
  obtain d' w' where x: "DeleteWorkspace demo_tenant demo_ws_env ''w2'' (demo_two, []) = (Ok (), d', w')" using demo_delete by blast
  have "\<not> (\<exists>v\<in>set (db_users demo_two). \<not> u_Deleted v \<and> u_ID v = ''bob'' \<and> u_SystemRole v = SystemRolePlatformAdmin)"
    by (simp add: demo_two_def demo_access_defs SystemRolePlatformAdmin_def)
  then have "\<not> holds_role d' ''w2'' ''bob'' RoleViewer" using deleted_workspace_closed [OF x, of "''bob''" RoleViewer] by blast
  moreover have "holds_role d' ''w1'' ''alice'' RoleAdmin" using deleted_workspace_closed [OF x, of "''alice''" RoleAdmin "''w1''"] demo_two_roles(2) by simp
  ultimately show ?thesis using x demo_two_roles(1) by blast
qed

theorem admin_deletes_foreign_workspace_witness:
  "\<not> holds_role demo_two ''w2'' ''alice'' RoleViewer \<and>
   (\<exists>d' w'. workspaceRouter demo_tenant demo_ws_env demo_auth None DeleteWs (demo_rq ''alice'' ''w1'' ''w2'' []) (demo_two, []) = (RespOK None, d', w'))"
proof -
  let ?rq = "demo_rq ''alice'' ''w1'' ''w2'' []"
  obtain cl where cl: "presented demo_auth None ?rq = Some cl" "cl_Subject cl = ''alice''" by (simp add: presented_def demo_access_defs)
  have f: "rq_WorkspaceId ?rq = ''w1''" "rq_id ?rq = ''w2''" by (simp_all add: demo_rq_def)
  obtain d' w' where x: "DeleteWorkspace demo_tenant demo_ws_env (rq_id ?rq) (demo_two, []) = (Ok (), d', w')" using demo_delete f by auto
  have role: "holds_role demo_two (rq_WorkspaceId ?rq) (cl_Subject cl) RoleAdmin" unfolding f cl(2) by (rule demo_two_roles)
  have ok: "answers_queries (ae_db demo_auth) demo_two" "user_keys_ok demo_two" "one_membership demo_two"
    by (auto simp: answers_queries_def user_keys_ok_def one_membership_def demo_two_def demo_access_defs)
  have "workspaceRouter demo_tenant demo_ws_env demo_auth None DeleteWs ?rq (demo_two, []) = (RespOK None, d', w')"
    by (rule admin_deletes_foreign_workspace [OF cl(1) role _ ok x]) (simp add: f)
  moreover have "\<not> holds_role demo_two ''w2'' ''alice'' RoleViewer" by (simp add: holds_role_def demo_two_def demo_access_defs role_names GetRoleWeight_def)
  ultimately show ?thesis by blast
qed


end
