(* ===== verification/Invitations.thy ===== *)
theory Invitations
  imports Access
begin

text \<open>
  Invitations to a workspace (\<open>internal/server/service/invitation.go\<close>): the signed token, and creating,
  previewing, accepting and revoking an invitation. HMAC-SHA256, the random source, the password hash and
  the signing of the session token are parameters of the service. Times are in nanoseconds, and the preview
  keeps them as such.
\<close>

section \<open>Tokens\<close>

definition hex_val :: "char \<Rightarrow> nat option" where
  "hex_val c =
     (let n = of_char c
      in if 48 \<le> n \<and> n \<le> 57 then Some (n - 48) else if 97 \<le> n \<and> n \<le> 102 then Some (n - 87)
         else if 65 \<le> n \<and> n \<le> 70 then Some (n - 55) else None)"

fun hex_DecodeString :: "string \<Rightarrow> byte list option" where
  "hex_DecodeString [] = Some []"
| "hex_DecodeString [c] = None"
| "hex_DecodeString (a # b # cs) =
     (case (hex_val a, hex_val b, hex_DecodeString cs) of
        (Some x, Some y, Some bs) \<Rightarrow> Some (of_nat (16 * x + y) # bs)
      | _ \<Rightarrow> None)"

record inv_env =
  ie_db :: db_env
  ie_rand :: "db \<Rightarrow> string + byte list"
  ie_hmac :: "string \<Rightarrow> byte list \<Rightarrow> byte list"
  ie_secret :: string
  ie_bcrypt :: "string \<Rightarrow> string + string"
  ie_sign :: "claims \<Rightarrow> string + string"

definition GenerateInviteToken :: "inv_env \<Rightarrow> string \<Rightarrow> db \<Rightarrow> string + string" where
  "GenerateInviteToken env secret d =
     (case ie_rand env d of
        Inl e \<Rightarrow> Err e
      | Inr random \<Rightarrow> Ok (hex_EncodeToString random @ ''.'' @ hex_EncodeToString (ie_hmac env secret random)))"

definition VerifyInviteToken :: "inv_env \<Rightarrow> string \<Rightarrow> string \<Rightarrow> bool" where
  "VerifyInviteToken env token secret =
     (case Split CHR ''.'' token of
        [a, b] \<Rightarrow> (case hex_DecodeString a of None \<Rightarrow> False | Some random \<Rightarrow> b = hex_EncodeToString (ie_hmac env secret random))
      | _ \<Rightarrow> False)"

section \<open>The service\<close>

definition invite_check :: "inv_env \<Rightarrow> string \<Rightarrow> string \<Rightarrow> User \<Rightarrow> string \<Rightarrow> db \<Rightarrow> string option" where
  "invite_check env workspaceID inviterID inviter role d =
     (if u_SystemRole inviter = SystemRolePlatformAdmin then None
      else case GetMembership (ie_db env) workspaceID inviterID d of
             Inl _ \<Rightarrow> Some ''inviter is not a member of this workspace''
           | Inr inviterMember \<Rightarrow>
               if GetRoleWeight (wm_Role inviterMember) < GetRoleWeight RoleAdmin then Some ''only admins can invite members''
               else if GetRoleWeight role > GetRoleWeight (wm_Role inviterMember) then Some ''cannot invite with a role higher than your own''
               else None)"

definition new_invitation :: "inv_env \<Rightarrow> string \<Rightarrow> string \<Rightarrow> string \<Rightarrow> string \<Rightarrow> string \<Rightarrow> WorkspaceInvitation" where
  "new_invitation env workspaceID inviterID email role token =
     \<lparr> iv_ID = [], iv_Deleted = False, iv_WorkspaceID = workspaceID, iv_InviterID = inviterID, iv_Email = email,
       iv_Role = role, iv_Token = token, iv_Status = ''pending'',
       iv_ExpiresAt = de_now (ie_db env) + 7 * 24 * 3600 * 1000000000 \<rparr>"

definition Invitations_Create ::
  "inv_env \<Rightarrow> string \<Rightarrow> string \<Rightarrow> string \<Rightarrow> string \<Rightarrow> db \<Rightarrow> (svc_error + WorkspaceInvitation) \<times> db" where
  "Invitations_Create env workspaceID inviterID email role d =
     (case Users_GetByID (ie_db env) inviterID d of
        Inl _ \<Rightarrow> (Err (Msg ''inviter not found''), d)
      | Inr inviter \<Rightarrow>
          (case invite_check env workspaceID inviterID inviter role d of
             Some msg \<Rightarrow> (Err (Msg msg), d)
           | None \<Rightarrow>
               (case GetPendingByEmailAndWorkspace (ie_db env) email workspaceID d of
                  Inr _ \<Rightarrow> (Err (Msg ''a pending invitation already exists for this email''), d)
                | Inl e \<Rightarrow>
                    if e \<noteq> ErrRecordNotFound then (Err (DbErr e), d)
                    else case GenerateInviteToken env (ie_secret env) d of
                           Inl msg \<Rightarrow> (Err (Msg msg), d)
                         | Inr token \<Rightarrow>
                             (case Create_row (ie_db env) invitations (new_invitation env workspaceID inviterID email role token) d of
                                (Inl e, d') \<Rightarrow> (Err (DbErr e), d')
                              | (Inr v, d') \<Rightarrow> (Ok v, d')))))"

record InvitePreviewVo =
  ip_Email :: string
  ip_WorkspaceID :: string
  ip_WorkspaceName :: string
  ip_InviterName :: string
  ip_InviterEmail :: string
  ip_Role :: string
  ip_ExpiresAt :: int
  ip_Status :: string

definition Preview :: "inv_env \<Rightarrow> string \<Rightarrow> db \<Rightarrow> svc_error + InvitePreviewVo" where
  "Preview env token d =
     (case Invitations_GetByToken (ie_db env) token d of
        Inl _ \<Rightarrow> Err (Msg ''invitation not found'')
      | Inr iv \<Rightarrow>
          (case Workspaces_GetByID (ie_db env) (iv_WorkspaceID iv) d of
             Inl _ \<Rightarrow> Err (Msg ''workspace not found'')
           | Inr ws \<Rightarrow>
               (let inviter = Users_GetByID (ie_db env) (iv_InviterID iv) d
                in Ok \<lparr> ip_Email = iv_Email iv, ip_WorkspaceID = iv_WorkspaceID iv, ip_WorkspaceName = ws_DisplayName ws,
                        ip_InviterName = (case inviter of Inl _ \<Rightarrow> [] | Inr u \<Rightarrow> u_Username u),
                        ip_InviterEmail = (case inviter of Inl _ \<Rightarrow> [] | Inr u \<Rightarrow> u_Email u),
                        ip_Role = iv_Role iv, ip_ExpiresAt = iv_ExpiresAt iv, ip_Status = iv_Status iv \<rparr>)))"

text \<open>The checks both ways of accepting start with, inside their transaction.\<close>

definition usable_invitation :: "inv_env \<Rightarrow> string \<Rightarrow> db \<Rightarrow> (svc_error + WorkspaceInvitation) \<times> db" where
  "usable_invitation env token d =
     (case Invitations_GetByToken (ie_db env) token d of
        Inl _ \<Rightarrow> (Err (Msg ''invitation not found''), d)
      | Inr iv \<Rightarrow>
          if \<not> VerifyInviteToken env token (ie_secret env) then (Err (Msg ''invalid invitation token''), d)
          else if iv_Status iv \<noteq> ''pending'' then (Err (Msg ''invitation is no longer pending''), d)
          else if de_now (ie_db env) > iv_ExpiresAt iv
               then (Err (Msg ''invitation has expired''), snd (Invitations_UpdateStatus (ie_db env) (iv_ID iv) ''expired'' d))
          else (Ok iv, d))"

definition invited_member :: "inv_env \<Rightarrow> WorkspaceInvitation \<Rightarrow> string \<Rightarrow> WorkspaceMember" where
  "invited_member env iv userID =
     (new_member (iv_WorkspaceID iv) userID (iv_Role iv))\<lparr> wm_Status := ''active'', wm_InvitedBy := iv_InviterID iv, wm_JoinedAt := Some (de_now (ie_db env)) \<rparr>"

definition accept_row :: "inv_env \<Rightarrow> WorkspaceInvitation \<Rightarrow> string \<Rightarrow> db \<Rightarrow> (svc_error + unit) \<times> db" where
  "accept_row env iv userID d =
     (case AddMember (ie_db env) (invited_member env iv userID) d of
        (Some e, d) \<Rightarrow> (Err (DbErr e), d)
      | (None, d) \<Rightarrow> db_result (Invitations_UpdateStatus (ie_db env) (iv_ID iv) ''accepted'' d))"

definition accept_body :: "inv_env \<Rightarrow> string \<Rightarrow> string \<Rightarrow> db \<Rightarrow> (svc_error + unit) \<times> db" where
  "accept_body env token acceptorUserID d =
     (case usable_invitation env token d of
        (Inl e, d) \<Rightarrow> (Err e, d)
      | (Inr iv, d) \<Rightarrow>
          (case Users_GetByID (ie_db env) acceptorUserID d of
             Inl _ \<Rightarrow> (Err (Msg ''user not found''), d)
           | Inr acceptor \<Rightarrow>
               if \<not> EqualFold (u_Email acceptor) (iv_Email iv)
               then (Err (Msg (''this invitation was sent to '' @ iv_Email iv @ '', but you are logged in as '' @ u_Email acceptor)), d)
               else accept_row env iv acceptorUserID d))"

definition Accept :: "inv_env \<Rightarrow> string \<Rightarrow> string \<Rightarrow> db \<Rightarrow> (svc_error + unit) \<times> db" where
  "Accept env token acceptorUserID = Tx (accept_body env token acceptorUserID)"

definition register_body :: "inv_env \<Rightarrow> string \<Rightarrow> string \<Rightarrow> string \<Rightarrow> db \<Rightarrow> (svc_error + string) \<times> db" where
  "register_body env token username password d =
     (case usable_invitation env token d of
        (Inl e, d) \<Rightarrow> (Err e, d)
      | (Inr iv, d) \<Rightarrow>
          (case Users_GetByEmail (ie_db env) (iv_Email iv) d of
             Inr _ \<Rightarrow> (Err (Msg ''an account with this email already exists, please log in instead''), d)
           | Inl e \<Rightarrow>
               if e \<noteq> ErrRecordNotFound then (Err (DbErr e), d)
               else case Users_GetByUsername (ie_db env) username d of
                      Inr _ \<Rightarrow> (Err (Msg ''username already taken''), d)
                    | Inl _ \<Rightarrow>
                        (case ie_bcrypt env password of
                           Inl e \<Rightarrow> (Err (Msg e), d)
                         | Inr hashed \<Rightarrow>
                             (case Create_row (ie_db env) users
                                     \<lparr> u_ID = de_uuid (ie_db env) d, u_Deleted = False, u_SystemRole = [], u_Username = username, u_Password = hashed,
                                       u_Mobile = [], u_Email = iv_Email iv, u_Avatar = [], u_Address = [], u_Gender = 0 \<rparr> d of
                                (Inl e, d) \<Rightarrow> (Err (DbErr e), d)
                              | (Inr user, d) \<Rightarrow>
                                  (case accept_row env iv (u_ID user) d of
                                     (Inl e, d) \<Rightarrow> (Err e, d)
                                   | (Inr _, d) \<Rightarrow>
                                       (case GenerateBusinessJWT (ie_sign env) (de_uuid (ie_db env) d) (de_now (ie_db env))
                                               (u_ID user) (u_Email user) (u_Username user) (u_SystemRole user) of
                                          Inl e \<Rightarrow> (Err (Msg e), d)
                                        | Inr jwt \<Rightarrow> (Ok jwt, d)))))))"

definition RegisterAndAccept :: "inv_env \<Rightarrow> string \<Rightarrow> string \<Rightarrow> string \<Rightarrow> db \<Rightarrow> (svc_error + string) \<times> db" where
  "RegisterAndAccept env token username password = Tx (register_body env token username password)"

definition Invitations_Revoke :: "inv_env \<Rightarrow> string \<Rightarrow> string \<Rightarrow> db \<Rightarrow> (svc_error + unit) \<times> db" where
  "Invitations_Revoke env callerID invitationID d =
     (case Invitations_FindByID (ie_db env) invitationID d of
        Inl _ \<Rightarrow> (Err (Msg ''invitation not found''), d)
      | Inr iv \<Rightarrow>
          (case Users_GetByID (ie_db env) callerID d of
             Inl _ \<Rightarrow> (Err (Msg ''caller not found''), d)
           | Inr caller \<Rightarrow>
               if u_SystemRole caller \<noteq> SystemRolePlatformAdmin \<and> iv_InviterID iv \<noteq> callerID \<and>
                  (case GetMembership (ie_db env) (iv_WorkspaceID iv) callerID d of
                     Inl _ \<Rightarrow> True | Inr member \<Rightarrow> GetRoleWeight (wm_Role member) < GetRoleWeight RoleAdmin)
               then (Err (Msg ''permission denied: only the inviter or a workspace admin can revoke this invitation''), d)
               else db_result (Invitations_UpdateStatus (ie_db env) invitationID ''revoked'' d)))"

section \<open>Histories\<close>

datatype inv_op =
  CreateOp string string string string
| AcceptOp string string
| RegisterOp string string string
| RevokeOp string string

fun inv_step :: "inv_env \<Rightarrow> inv_op \<Rightarrow> db \<Rightarrow> bool \<times> db" where
  "inv_step env (CreateOp ws inviter email role) d = map_prod (case_sum (\<lambda>_. False) (\<lambda>_. True)) id (Invitations_Create env ws inviter email role d)"
| "inv_step env (AcceptOp token user) d = map_prod (case_sum (\<lambda>_. False) (\<lambda>_. True)) id (Accept env token user d)"
| "inv_step env (RegisterOp token name pw) d = map_prod (case_sum (\<lambda>_. False) (\<lambda>_. True)) id (RegisterAndAccept env token name pw d)"
| "inv_step env (RevokeOp caller i) d = map_prod (case_sum (\<lambda>_. False) (\<lambda>_. True)) id (Invitations_Revoke env caller i d)"

fun inv_token :: "inv_op \<Rightarrow> string option" where
  "inv_token (AcceptOp token _) = Some token"
| "inv_token (RegisterOp token _ _) = Some token"
| "inv_token _ = None"

text \<open>Each call comes with the service's environment at its time.\<close>

fun inv_trace :: "(inv_env \<times> inv_op) list \<Rightarrow> db \<Rightarrow> (inv_op \<times> bool) list" where
  "inv_trace [] d = []"
| "inv_trace ((env, op) # ops) d = (op, fst (inv_step env op d)) # inv_trace ops (snd (inv_step env op d))"

section \<open>Tokens: facts\<close>

lemma hex_val_hexdigit: "n < 16 \<Longrightarrow> hex_val (hexdigit n) = Some n"
  by (auto simp: hex_val_def hexdigit_def Let_def)

lemma hex_roundtrip: "hex_DecodeString (hex_EncodeToString bs) = Some bs"
proof (induction bs)
  case (Cons b bs)
  have "unat b div 16 < 16" using unat_byte_less [of b] by simp
  then show ?case using Cons
    by (simp add: hex_EncodeToString_Cons hex_byte_def hex_val_hexdigit)
qed (simp add: hex_EncodeToString_def)

lemma hexdigit_no_dot: "n < 16 \<Longrightarrow> hexdigit n \<noteq> CHR ''.''"
proof
  assume "n < 16" "hexdigit n = CHR ''.''"
  then have "hex_val CHR ''.'' = Some n" using hex_val_hexdigit [of n] by simp
  moreover have "hex_val CHR ''.'' = None" by (simp add: hex_val_def Let_def)
  ultimately show False by simp
qed

lemma hex_no_dot: "CHR ''.'' \<notin> set (hex_EncodeToString bs)"
proof (induction bs)
  case (Cons b bs)
  have "unat b div 16 < 16" using unat_byte_less [of b] by simp
  then have "CHR ''.'' \<notin> set (hex_byte b)"
    using hexdigit_no_dot [of "unat b div 16"] hexdigit_no_dot [of "unat b mod 16"] by (auto simp: hex_byte_def)
  then show ?case using Cons by (simp add: hex_EncodeToString_Cons)
qed (simp add: hex_EncodeToString_def)

lemma split_one: "Split c s = [b] \<Longrightarrow> s = b \<and> c \<notin> set b"
  by (induction s arbitrary: b) (auto split: if_splits list.splits)

lemma split_two: "Split c s = [a, b] \<Longrightarrow> s = a @ c # b \<and> c \<notin> set a \<and> c \<notin> set b"
proof (induction s arbitrary: a)
  case (Cons x s)
  show ?case
  proof (cases "x = c")
    case True
    then have "a = []" "Split c s = [b]" using Cons.prems by auto
    then show ?thesis using True split_one [of c s b] by simp
  next
    case False
    then obtain y where "Split c s = [y, b]" "a = x # y" using Cons.prems by (auto split: list.splits)
    then show ?thesis using Cons.IH [of y] False by simp
  qed
qed simp

lemma verify_iff:
  "VerifyInviteToken env token secret \<longleftrightarrow>
     (\<exists>a random. token = a @ ''.'' @ hex_EncodeToString (ie_hmac env secret random) \<and> CHR ''.'' \<notin> set a \<and> hex_DecodeString a = Some random)"
proof
  assume "VerifyInviteToken env token secret"
  then obtain a b random where s: "Split CHR ''.'' token = [a, b]" "hex_DecodeString a = Some random" "b = hex_EncodeToString (ie_hmac env secret random)"
    by (auto simp: VerifyInviteToken_def split: list.splits option.splits)
  show "\<exists>a random. token = a @ ''.'' @ hex_EncodeToString (ie_hmac env secret random) \<and> CHR ''.'' \<notin> set a \<and> hex_DecodeString a = Some random"
    using split_two [OF s(1)] s(2,3) by auto
next
  assume "\<exists>a random. token = a @ ''.'' @ hex_EncodeToString (ie_hmac env secret random) \<and> CHR ''.'' \<notin> set a \<and> hex_DecodeString a = Some random"
  then show "VerifyInviteToken env token secret"
    by (auto simp: VerifyInviteToken_def Split_append_sep Split_no_sep hex_no_dot)
qed

text \<open>The service accepts the invitation tokens it makes, and every token it accepts consists of hex
  digits for some random bytes and the signature of these bytes under the service's secret.\<close>

theorem invite_token_signed:
  "(GenerateInviteToken env secret d = Ok token \<longrightarrow> VerifyInviteToken env token secret) \<and>
   (VerifyInviteToken env token secret \<longrightarrow>
      (\<exists>a random. token = a @ ''.'' @ hex_EncodeToString (ie_hmac env secret random) \<and> hex_DecodeString a = Some random))"
proof (intro conjI impI)
  assume "GenerateInviteToken env secret d = Ok token"
  then obtain random where "token = hex_EncodeToString random @ ''.'' @ hex_EncodeToString (ie_hmac env secret random)"
    by (auto simp: GenerateInviteToken_def split: sum.splits)
  then show "VerifyInviteToken env token secret" using verify_iff hex_roundtrip hex_no_dot by blast
next
  assume "VerifyInviteToken env token secret"
  then show "\<exists>a random. token = a @ ''.'' @ hex_EncodeToString (ie_hmac env secret random) \<and> hex_DecodeString a = Some random"
    using verify_iff by blast
qed

definition demo_inv_env :: inv_env where
  "demo_inv_env = \<lparr> ie_db = demo_db_env\<lparr> de_uuid := (\<lambda>d. ''id'' @ replicate (length (db_members d) + length (db_invitations d)) CHR ''x'') \<rparr>,
     ie_rand = (\<lambda>d. Inr [of_nat (length (db_invitations d)), 255]), ie_hmac = (\<lambda>s bs. map (\<lambda>b. b + of_nat (length s)) bs), ie_secret = ''key'',
     ie_bcrypt = (\<lambda>p. Inr (''hash:'' @ p)), ie_sign = (\<lambda>cl. Inr (cl_Subject cl)) \<rparr>"

theorem invite_token_signed_witness:
  "\<exists>token. GenerateInviteToken demo_inv_env ''key'' demo_db = Ok token \<and> token = ''00ff.0302'' \<and> VerifyInviteToken demo_inv_env token ''key''"
proof -
  have "GenerateInviteToken demo_inv_env ''key'' demo_db = Ok ''00ff.0302''" by code_simp
  then show ?thesis using invite_token_signed [of demo_inv_env "''key''" demo_db "''00ff.0302''"] by simp
qed

section \<open>What the operations do to the tables\<close>

definition marked :: "string \<Rightarrow> string \<Rightarrow> WorkspaceInvitation list \<Rightarrow> WorkspaceInvitation list" where
  "marked i st = map (\<lambda>r. if \<not> iv_Deleted r \<and> iv_ID r = i then r\<lparr> iv_Status := st \<rparr> else r)"

definition may_invite :: "db \<Rightarrow> string \<Rightarrow> string \<Rightarrow> string \<Rightarrow> bool" where
  "may_invite d inviter wsID role \<longleftrightarrow>
     (\<exists>u\<in>set (db_users d). \<not> u_Deleted u \<and> u_ID u = inviter \<and>
        (u_SystemRole u = SystemRolePlatformAdmin \<or>
         (\<exists>m\<in>set (db_members d). \<not> wm_Deleted m \<and> (wsID = [] \<or> wm_WorkspaceID m = wsID) \<and> wm_UserID m = inviter \<and>
            GetRoleWeight RoleAdmin \<le> GetRoleWeight (wm_Role m) \<and> GetRoleWeight role \<le> GetRoleWeight (wm_Role m))))"

definition usable :: "inv_env \<Rightarrow> string \<Rightarrow> db \<Rightarrow> WorkspaceInvitation \<Rightarrow> bool" where
  "usable env token d v \<longleftrightarrow> v \<in> set (db_invitations d) \<and> \<not> iv_Deleted v \<and> iv_Token v = token \<and> iv_Status v = ''pending'' \<and>
     de_now (ie_db env) \<le> iv_ExpiresAt v \<and> VerifyInviteToken env token (ie_secret env)"

definition joined_by :: "inv_env \<Rightarrow> WorkspaceInvitation \<Rightarrow> string \<Rightarrow> string \<Rightarrow> db \<Rightarrow> db" where
  "joined_by env v i userID d =
     d\<lparr> db_members := db_members d @ [(invited_member env v userID)\<lparr> wm_ID := i \<rparr>],
        db_invitations := marked (iv_ID v) ''accepted'' (db_invitations d) \<rparr>"

lemma usable_Ok:
  assumes "usable_invitation env token d = (Inr v, d1)"
  shows "d1 = d \<and> usable env token d v"
proof -
  obtain w where w: "Invitations_GetByToken (ie_db env) token d = Inr w"
    using assms by (auto simp: usable_invitation_def split: sum.splits)
  have "w \<in> set (db_invitations d)" "\<not> iv_Deleted w" "iv_Token w = token"
    using First_Ok [OF w [unfolded Invitations_GetByToken_def]] by simp_all
  then show ?thesis using assms w by (auto simp: usable_invitation_def usable_def split: if_splits)
qed

lemma accept_row_Ok:
  assumes "accept_row env v userID d = (Inr x, d')"
  shows "d' = joined_by env v (de_uuid (ie_db env) d) userID d"
  using assms
  by (auto simp: accept_row_def AddMember_def Create_row_def Let_def db_result_def Invitations_UpdateStatus_def Update_where_def
      joined_by_def marked_def invited_member_def new_member_def or_old_def split: option.splits if_splits prod.splits sum.splits)

lemma Accept_Ok:
  assumes "Accept env token userID d = (Inr x, d')"
  obtains v u where "usable env token d v" "Users_GetByID (ie_db env) userID d = Ok u" "EqualFold (u_Email u) (iv_Email v)"
    "d' = joined_by env v (de_uuid (ie_db env) d) userID d"
proof -
  have b: "accept_body env token userID d = (Inr x, d')" using assms by (simp add: Accept_def Tx_Ok)
  then obtain v d1 where v: "usable_invitation env token d = (Inr v, d1)" by (auto simp: accept_body_def split: prod.splits sum.splits)
  note u = usable_Ok [OF v]
  then obtain acc where acc: "Users_GetByID (ie_db env) userID d = Inr acc" "EqualFold (u_Email acc) (iv_Email v)" "accept_row env v userID d = (Inr x, d')"
    using b v by (auto simp: accept_body_def split: sum.splits if_splits)
  show thesis using that [OF conjunct2 [OF u] acc(1,2) accept_row_Ok [OF acc(3)]] .
qed

lemma Register_Ok:
  assumes "RegisterAndAccept env token name pw d = (Inr x, d')"
  obtains v i u where "usable env token d v" "d' = (joined_by env v i (u_ID u) d)\<lparr> db_users := db_users d @ [u] \<rparr>" "u_ID u = de_uuid (ie_db env) d"
proof -
  have b: "register_body env token name pw d = (Inr x, d')" using assms by (simp add: RegisterAndAccept_def Tx_Ok)
  then obtain v d1 where v: "usable_invitation env token d = (Inr v, d1)" by (auto simp: register_body_def split: prod.splits sum.splits)
  note u = usable_Ok [OF v]
  obtain row user d2 y d3 where c: "Create_row (ie_db env) users row d = (Inr user, d2)" "u_ID row = de_uuid (ie_db env) d"
    and a: "accept_row env v (u_ID user) d2 = (Inr y, d3)" and e: "d3 = d'"
    using b v u by (auto simp: register_body_def split: prod.splits sum.splits if_splits)
  have us: "d2 = d\<lparr> db_users := db_users d @ [user] \<rparr>" "u_ID user = de_uuid (ie_db env) d"
    using c by (auto simp: Create_row_def Let_def or_old_def split: option.splits if_splits)
  show thesis
    using that [OF conjunct2 [OF u], of user "de_uuid (ie_db env) d2"] accept_row_Ok [OF a] us e
    by (simp add: joined_by_def)
qed

lemma invite_check_None:
  assumes "Users_GetByID (ie_db env) inviter d = Inr u" "invite_check env ws inviter u role d = None" "[] \<notin> set (map u_ID (db_users d))"
  shows "may_invite d inviter ws role"
proof -
  have u: "u \<in> set (db_users d)" "\<not> u_Deleted u" "u_ID u = inviter" using Users_GetByID_Ok [OF assms(1)] by simp_all
  then have ne: "inviter \<noteq> []" using assms(3) by force
  show ?thesis
  proof (cases "u_SystemRole u = SystemRolePlatformAdmin")
    case True
    then show ?thesis unfolding may_invite_def using u by blast
  next
    case False
    then obtain m where m: "GetMembership (ie_db env) ws inviter d = Inr m" "GetRoleWeight RoleAdmin \<le> GetRoleWeight (wm_Role m)" "GetRoleWeight role \<le> GetRoleWeight (wm_Role m)"
      using assms(2) by (auto simp: invite_check_def split: sum.splits if_splits)
    have "m \<in> set (db_members d)" "\<not> wm_Deleted m" "ws = [] \<or> wm_WorkspaceID m = ws" "wm_UserID m = inviter"
      using First_Ok [OF m(1) [unfolded GetMembership_def]] ne by (auto simp: scope_def)
    then show ?thesis unfolding may_invite_def using u m(2,3) by blast
  qed
qed

lemma Invitations_Create_cases:
  assumes "Invitations_Create env ws inviter email role d = (r, d')" "[] \<notin> set (map u_ID (db_users d))"
  obtains "d' = d" | v where "d' = d\<lparr> db_invitations := db_invitations d @ [v] \<rparr>" "may_invite d inviter ws role"
    "iv_WorkspaceID v = ws" "iv_InviterID v = inviter" "iv_Role v = role" "iv_ID v \<notin> set (map iv_ID (db_invitations d))" "iv_Token v \<notin> set (map iv_Token (db_invitations d))"
proof (cases "d' = d")
  case False
  obtain u where u: "Users_GetByID (ie_db env) inviter d = Inr u" using assms False by (auto simp: Invitations_Create_def split: sum.splits)
  have chk: "invite_check env ws inviter u role d = None" using assms False u by (auto simp: Invitations_Create_def split: option.splits)
  obtain token x where c: "Create_row (ie_db env) invitations (new_invitation env ws inviter email role token) d = (x, d')"
    using assms False u chk by (auto simp: Invitations_Create_def split: sum.splits if_splits prod.splits)
  let ?v = "tb_before_create invitations (de_uuid (ie_db env) d) (new_invitation env ws inviter email role token)"
  from c show ?thesis
  proof (cases rule: Create_row_cases)
    case created
    show ?thesis
      by (rule that(2) [of ?v]) (use created invite_check_None [OF u chk assms(2)] in \<open>auto simp: new_invitation_def list_ex_iff\<close>)
  qed (use False in simp)
qed

lemma Invitations_Revoke_cases:
  assumes "Invitations_Revoke env caller i d = (r, d')"
  obtains "d' = d" | "d' = d\<lparr> db_invitations := marked i ''revoked'' (db_invitations d) \<rparr>"
  using assms
  by (auto simp: Invitations_Revoke_def db_result_def Invitations_UpdateStatus_def Update_where_def marked_def
      split: sum.splits if_splits option.splits prod.splits)


lemma inv_step_cases:
  assumes "inv_step env op d = (ok, d')" "[] \<notin> set (map u_ID (db_users d))"
  obtains (same) "d' = d" "ok \<longrightarrow> inv_token op = None"
  | (offered) v where "inv_token op = None" "d' = d\<lparr> db_invitations := db_invitations d @ [v] \<rparr>"
      "may_invite d (iv_InviterID v) (iv_WorkspaceID v) (iv_Role v)"
      "iv_ID v \<notin> set (map iv_ID (db_invitations d))" "iv_Token v \<notin> set (map iv_Token (db_invitations d))"
  | (accepted) token v i uid us where "inv_token op = Some token" "usable env token d v" "d' = (joined_by env v i uid d)\<lparr> db_users := db_users d @ us \<rparr>"
      "set (map u_ID us) \<subseteq> {de_uuid (ie_db env) d}"
  | (revoked) i where "inv_token op = None" "d' = d\<lparr> db_invitations := marked i ''revoked'' (db_invitations d) \<rparr>"
proof (cases op)
  case (CreateOp ws inviter email role)
  obtain r where "Invitations_Create env ws inviter email role d = (r, d')" using assms(1) CreateOp by (cases "Invitations_Create env ws inviter email role d") simp
  then show thesis using assms(2)
  proof (cases rule: Invitations_Create_cases)
    case 1
    then show ?thesis using same CreateOp by simp
  next
    case (2 v)
    then show ?thesis using offered [of v] CreateOp by simp
  qed
next
  case (AcceptOp token user)
  obtain r where r: "Accept env token user d = (r, d')" "ok = case_sum (\<lambda>_. False) (\<lambda>_. True) r"
    using assms(1) AcceptOp by (cases "Accept env token user d") simp
  show thesis
  proof (cases r)
    case (Inl e)
    then have "d' = d" using Tx_Err r(1) by (simp add: Accept_def)
    then show thesis using same Inl r(2) by simp
  next
    case (Inr x)
    then obtain v where v: "usable env token d v" "d' = joined_by env v (de_uuid (ie_db env) d) user d" using Accept_Ok r(1) by metis
    show thesis by (rule accepted [of token v "[]" "de_uuid (ie_db env) d" user]) (use AcceptOp v in \<open>simp_all add: joined_by_def\<close>)
  qed
next
  case (RegisterOp token name pw)
  obtain r where r: "RegisterAndAccept env token name pw d = (r, d')" "ok = case_sum (\<lambda>_. False) (\<lambda>_. True) r"
    using assms(1) RegisterOp by (cases "RegisterAndAccept env token name pw d") simp
  show thesis
  proof (cases r)
    case (Inl e)
    then have "d' = d" using Tx_Err r(1) by (simp add: RegisterAndAccept_def)
    then show thesis using same Inl r(2) by simp
  next
    case (Inr x)
    then obtain v i u where v: "usable env token d v" "d' = (joined_by env v i (u_ID u) d)\<lparr> db_users := db_users d @ [u] \<rparr>" "u_ID u = de_uuid (ie_db env) d"
      using Register_Ok r(1) by metis
    show thesis by (rule accepted [of token v "[u]" i "u_ID u"]) (use RegisterOp v in simp_all)
  qed
next
  case (RevokeOp caller i)
  obtain r where "Invitations_Revoke env caller i d = (r, d')" using assms(1) RevokeOp by (cases "Invitations_Revoke env caller i d") simp
  then show thesis using same revoked RevokeOp by (cases rule: Invitations_Revoke_cases) simp_all
qed

definition inv_keys :: "db \<Rightarrow> bool" where
  "inv_keys d \<longleftrightarrow> distinct (map iv_ID (db_invitations d)) \<and> distinct (map iv_Token (db_invitations d)) \<and> [] \<notin> set (map u_ID (db_users d))"

definition uuids :: "(inv_env \<times> inv_op) list \<Rightarrow> bool" where
  "uuids ops \<longleftrightarrow> (\<forall>(env, op)\<in>set ops. \<forall>d. de_uuid (ie_db env) d \<noteq> [])"

definition spent :: "string \<Rightarrow> db \<Rightarrow> bool" where
  "spent token d \<longleftrightarrow> (\<exists>v\<in>set (db_invitations d). iv_Token v = token \<and> iv_Status v \<noteq> ''pending'')"

lemma map_marked [simp]: "map iv_ID (marked i st vs) = map iv_ID vs" "map iv_Token (marked i st vs) = map iv_Token vs"
  by (auto simp: marked_def)

lemma joined_by_simps [simp]:
  "db_invitations (joined_by env v i u d) = marked (iv_ID v) ''accepted'' (db_invitations d)" "db_users (joined_by env v i u d) = db_users d"
  "db_members (joined_by env v i u d) = db_members d @ [(invited_member env v u)\<lparr> wm_ID := i \<rparr>]"
  by (simp_all add: joined_by_def)

lemma inv_step_keys:
  assumes "inv_keys d" "\<And>d. de_uuid (ie_db env) d \<noteq> []"
  shows "inv_keys (snd (inv_step env op d))"
proof -
  obtain ok d' where s: "inv_step env op d = (ok, d')" by (cases "inv_step env op d")
  have ids: "[] \<notin> set (map u_ID (db_users d))" using assms(1) by (simp add: inv_keys_def)
  from s ids show ?thesis
  proof (cases rule: inv_step_cases)
    case (accepted token v i uid us)
    then have "[] \<notin> set (map u_ID us)" using assms(2) [of d] by auto
    then show ?thesis using s accepted(3) assms(1) by (simp add: inv_keys_def)
  qed (use s assms(1) in \<open>simp_all add: inv_keys_def\<close>)
qed

lemma spent_marked:
  assumes "spent token d" "st \<noteq> ''pending''"
  shows "spent token (d\<lparr> db_invitations := marked i st (db_invitations d) \<rparr>)"
proof -
  obtain v where v: "v \<in> set (db_invitations d)" "iv_Token v = token" "iv_Status v \<noteq> ''pending''" using assms(1) unfolding spent_def by blast
  let ?w = "if \<not> iv_Deleted v \<and> iv_ID v = i then v\<lparr> iv_Status := st \<rparr> else v"
  have "?w \<in> set (marked i st (db_invitations d))" using v(1) unfolding marked_def set_map by (rule imageI)
  moreover have "iv_Token ?w = token" "iv_Status ?w \<noteq> ''pending''" using v(2,3) assms(2) by simp_all
  ultimately show ?thesis unfolding spent_def by fastforce
qed

lemma inv_step_spent:
  assumes "spent token d" "[] \<notin> set (map u_ID (db_users d))"
  shows "spent token (snd (inv_step env op d))"
proof -
  obtain ok d' where s: "inv_step env op d = (ok, d')" by (cases "inv_step env op d")
  from s assms(2) show ?thesis
  proof (cases rule: inv_step_cases)
    case (accepted tk v i uid us)
    then show ?thesis using s spent_marked [OF assms(1), of "''accepted''" "iv_ID v"] by (simp add: spent_def)
  next
    case (revoked i)
    then show ?thesis using s spent_marked [OF assms(1)] by simp
  qed (use s assms(1) in \<open>auto simp: spent_def\<close>)
qed

lemma usable_not_spent: "inv_keys d \<Longrightarrow> usable env token d v \<Longrightarrow> \<not> spent token d"
  unfolding inv_keys_def usable_def spent_def by (metis distinct_map inj_onD)

lemma accept_spends:
  assumes "inv_step env op d = (True, d')" "inv_token op = Some token" "[] \<notin> set (map u_ID (db_users d))"
  shows "spent token d'"
  using assms(1,3)
proof (cases rule: inv_step_cases)
  case (accepted tk v i uid us)
  have "v\<lparr> iv_Status := ''accepted'' \<rparr> \<in> set (marked (iv_ID v) ''accepted'' (db_invitations d))"
    using accepted(2) unfolding marked_def usable_def by force
  then have "v\<lparr> iv_Status := ''accepted'' \<rparr> \<in> set (db_invitations d')" using accepted(3) by simp
  moreover have "iv_Token v = token" using accepted(1,2) assms(2) by (simp add: usable_def)
  ultimately show ?thesis unfolding spent_def by (intro bexI [of _ "v\<lparr> iv_Status := ''accepted'' \<rparr>"]) simp_all
qed (use assms(2) in simp_all)

lemma spent_not_accepted:
  assumes "inv_step env op d = (ok, d')" "inv_token op = Some token" "spent token d" "inv_keys d"
  shows "\<not> ok"
proof -
  have "[] \<notin> set (map u_ID (db_users d))" using assms(4) by (simp add: inv_keys_def)
  with assms(1) show ?thesis
    by (cases rule: inv_step_cases) (use assms(2,3) usable_not_spent [OF assms(4)] in auto)
qed

definition acceptances :: "string \<Rightarrow> (inv_op \<times> bool) list \<Rightarrow> (inv_op \<times> bool) list" where
  "acceptances token = filter (\<lambda>(op, ok). ok \<and> inv_token op = Some token)"

lemma spent_no_acceptances: "inv_keys d \<Longrightarrow> uuids ops \<Longrightarrow> spent token d \<Longrightarrow> acceptances token (inv_trace ops d) = []"
proof (induction ops d rule: inv_trace.induct)
  case (2 env op ops d)
  have u: "\<And>d. de_uuid (ie_db env) d \<noteq> []" "uuids ops" using 2(3) by (auto simp: uuids_def)
  have ids: "[] \<notin> set (map u_ID (db_users d))" using 2(2) by (simp add: inv_keys_def)
  have "\<not> (fst (inv_step env op d) \<and> inv_token op = Some token)"
    using spent_not_accepted [OF prod.collapse [symmetric] _ 2(4,2)] by blast
  then show ?case using 2(1) [OF inv_step_keys [OF 2(2) u(1)] u(2) inv_step_spent [OF 2(4) ids]] by (simp add: acceptances_def)
qed (simp add: acceptances_def)

text \<open>C11: An invitation is used at most once. In any history of creating, accepting (with or without
  registering) and revoking invitations, at most one acceptance with a given token succeeds.\<close>

theorem invitation_single_use:
  assumes "inv_keys d" "uuids ops"
  shows "length (acceptances token (inv_trace ops d)) \<le> 1"
  using assms
proof (induction ops d rule: inv_trace.induct)
  case (2 env op ops d)
  have u: "\<And>d. de_uuid (ie_db env) d \<noteq> []" "uuids ops" using 2(3) by (auto simp: uuids_def)
  have ids: "[] \<notin> set (map u_ID (db_users d))" using 2(2) by (simp add: inv_keys_def)
  note keys = inv_step_keys [OF 2(2) u(1), of op]
  show ?case
  proof (cases "fst (inv_step env op d) \<and> inv_token op = Some token")
    case True
    then have "spent token (snd (inv_step env op d))" using accept_spends [of env op d "snd (inv_step env op d)" token] ids by (metis prod.collapse)
    then show ?thesis using True spent_no_acceptances [OF keys u(2)] by (simp add: acceptances_def)
  next
    case False
    then show ?thesis using 2(1) [OF keys u(2)] by (auto simp: acceptances_def)
  qed
qed (simp add: acceptances_def)


definition demo_inv_ops :: "(inv_env \<times> inv_op) list" where
  "demo_inv_ops = map (\<lambda>op. (demo_inv_env, op))
     [CreateOp ''w1'' ''alice'' ''bob@x'' ''editor'', AcceptOp ''00ff.0302'' ''bob'', AcceptOp ''00ff.0302'' ''bob'', RegisterOp ''00ff.0302'' ''carol'' ''pw'']"

lemma demo_inv_ok: "inv_keys demo_db" "uuids demo_inv_ops"
  by (simp_all add: inv_keys_def uuids_def demo_inv_ops_def demo_inv_env_def demo_access_defs)

theorem invitation_single_use_witness:
  "map snd (inv_trace demo_inv_ops demo_db) = [True, True, False, False] \<and>
   length (acceptances ''00ff.0302'' (inv_trace demo_inv_ops demo_db)) \<le> 1"
proof
  show "map snd (inv_trace demo_inv_ops demo_db) = [True, True, False, False]" by code_simp
  show "length (acceptances ''00ff.0302'' (inv_trace demo_inv_ops demo_db)) \<le> 1"
    by (rule invitation_single_use [OF demo_inv_ok])
qed

definition inv_run :: "(inv_env \<times> inv_op) list \<Rightarrow> db \<Rightarrow> db" where
  "inv_run ops d = foldl (\<lambda>d (env, op). snd (inv_step env op d)) d ops"

lemma inv_run_snoc: "inv_run (ops @ [(env, op)]) d = snd (inv_step env op (inv_run ops d))"
  by (simp add: inv_run_def)

lemma inv_run_keys: "inv_keys d \<Longrightarrow> uuids ops \<Longrightarrow> inv_keys (inv_run ops d)"
proof (induction ops rule: rev_induct)
  case (snoc x ops)
  obtain env op where x: "x = (env, op)" by (cases x)
  then have "inv_keys (inv_run ops d)" "\<And>d. de_uuid (ie_db env) d \<noteq> []" using snoc by (auto simp: uuids_def)
  then show ?case unfolding x inv_run_snoc by (rule inv_step_keys)
qed (simp add: inv_run_def)

definition was_allowed :: "(inv_env \<times> inv_op) list \<Rightarrow> db \<Rightarrow> string \<Rightarrow> string \<Rightarrow> string \<Rightarrow> bool" where
  "was_allowed ops d inviter wsID role \<longleftrightarrow> (\<exists>pre post. ops = pre @ post \<and> may_invite (inv_run pre d) inviter wsID role)"

lemma was_allowed_later: "was_allowed ops d inviter wsID role \<Longrightarrow> was_allowed (ops @ more_ops) d inviter wsID role"
  unfolding was_allowed_def by (metis append_assoc)

lemma was_allowed_now: "may_invite (inv_run ops d) inviter wsID role \<Longrightarrow> was_allowed (ops @ more_ops) d inviter wsID role"
  unfolding was_allowed_def by blast

lemma marked_in:
  assumes "r \<in> set (marked i st vs)"
  obtains v where "v \<in> set vs" "iv_InviterID r = iv_InviterID v" "iv_WorkspaceID r = iv_WorkspaceID v" "iv_Role r = iv_Role v"
  using assms by (auto simp: marked_def split: if_splits)

lemma offers_were_allowed:
  assumes "inv_keys d" "uuids ops" "db_invitations d = []"
  shows "(\<forall>v\<in>set (db_invitations (inv_run ops d)). was_allowed ops d (iv_InviterID v) (iv_WorkspaceID v) (iv_Role v)) \<and>
    (\<forall>m\<in>set (db_members (inv_run ops d)) - set (db_members d). was_allowed ops d (wm_InvitedBy m) (wm_WorkspaceID m) (wm_Role m))"
  using assms(2)
proof (induction ops rule: rev_induct)
  case Nil
  then show ?case using assms(3) by (simp add: inv_run_def)
next
  case (snoc x ops)
  obtain env op where x: "x = (env, op)" by (cases x)
  let ?s = "inv_run ops d" and ?ops = "ops @ [x]"
  have u: "uuids ops" using snoc.prems by (simp add: uuids_def)
  have old: "was_allowed ?ops d (iv_InviterID v) (iv_WorkspaceID v) (iv_Role v)" if "v \<in> set (db_invitations ?s)" for v
    using snoc.IH [OF u] that was_allowed_later by blast
  have oldm: "was_allowed ?ops d (wm_InvitedBy m) (wm_WorkspaceID m) (wm_Role m)" if "m \<in> set (db_members ?s) - set (db_members d)" for m
    using snoc.IH [OF u] that was_allowed_later by blast
  have oldk: "was_allowed ?ops d (iv_InviterID r) (iv_WorkspaceID r) (iv_Role r)" if "r \<in> set (marked i st (db_invitations ?s))" for r i st
    using that old by (metis marked_in)
  obtain ok s' where st: "inv_step env op ?s = (ok, s')" by (cases "inv_step env op ?s")
  have run: "inv_run ?ops d = s'" using st by (simp add: x inv_run_snoc)
  have ids: "[] \<notin> set (map u_ID (db_users ?s))" using inv_run_keys [OF assms(1) u] by (simp add: inv_keys_def)
  from st ids show ?case
  proof (cases rule: inv_step_cases)
    case same
    then show ?thesis using old oldm unfolding run by blast
  next
    case (offered v)
    have "was_allowed ?ops d (iv_InviterID v) (iv_WorkspaceID v) (iv_Role v)" by (rule was_allowed_now [OF offered(3)])
    then show ?thesis using old oldm offered(2) unfolding run by auto
  next
    case (accepted token v i uid us)
    have "was_allowed ?ops d (iv_InviterID v) (iv_WorkspaceID v) (iv_Role v)" using old accepted(2) by (simp add: usable_def)
    then have new: "was_allowed ?ops d (wm_InvitedBy m) (wm_WorkspaceID m) (wm_Role m)" if "m = (invited_member env v uid)\<lparr> wm_ID := i \<rparr>" for m
      using that by (simp add: invited_member_def new_member_def)
    show ?thesis using oldk oldm new accepted(3) unfolding run by auto
  next
    case (revoked i)
    then show ?thesis using oldk oldm unfolding run by auto
  qed
qed




end
