(* ===== verification/Typed_Store.thy ===== *)
theory Typed_Store
  imports Users Workspaces Invitations
begin

text \<open>
  The types of the rows. The columns of roles and statuses are texts in the database; the code means them to hold
  one of a few words. \<open>typed_table\<close> is the contract of a table whose rows have a type: writing rows
  reads them back, and marking a row as deleted keeps its key and its type. Its lemmas say that every
  statement the repositories issue keeps the keys of the table distinct and its rows typed. The tables of users,
  workspaces, members and invitations provide it.
\<close>

section \<open>Typed tables\<close>

definition table_ok :: "'r tbl \<Rightarrow> ('r \<Rightarrow> bool) \<Rightarrow> db \<Rightarrow> bool" where
  "table_ok t ok d \<longleftrightarrow> distinct (map (tb_id t) (tb_get t d)) \<and> list_all ok (tb_get t d)"

locale typed_table =
  fixes t :: "'r tbl" and ok :: "'r \<Rightarrow> bool"
  assumes get_put: "tb_get t (tb_put t xs d) = xs"
    and mark_id: "tb_id t (tb_mark t r) = tb_id t r"
    and mark_ok: "ok r \<Longrightarrow> ok (tb_mark t r)"
begin

lemma create_keeps:
  assumes "Create_row env t r d = (x, d')" "table_ok t ok d" "ok (tb_before_create t (de_uuid env d) r)"
  shows "table_ok t ok d'"
  using assms(1)
proof (cases rule: Create_row_cases)
  case created
  then have "tb_id t (tb_before_create t (de_uuid env d) r) \<notin> tb_id t ` set (tb_get t d)" by (auto simp: list_ex_iff)
  then show ?thesis using created(2) assms(2,3) by (simp add: table_ok_def get_put)
qed (use assms(2) in simp)

lemma mapped_keeps:
  assumes "table_ok t ok d" "\<And>r. r \<in> set (tb_get t d) \<Longrightarrow> tb_id t (f r) = tb_id t r" "\<And>r. ok r \<Longrightarrow> ok (f r)"
  shows "table_ok t ok (tb_put t (map f (tb_get t d)) d)"
proof -
  have "map (tb_id t) (map f (tb_get t d)) = map (tb_id t) (tb_get t d)" using assms(2) by simp
  then show ?thesis using assms(1,3) by (simp add: table_ok_def get_put list_all_iff del: map_map)
qed

lemma update_keeps:
  assumes "table_ok t ok d" "\<And>r. tb_id t (f r) = tb_id t r" "\<And>r. ok r \<Longrightarrow> ok (f r)"
  shows "table_ok t ok (snd (Update_where env t P f d))"
  using mapped_keeps [OF assms(1), of "\<lambda>r. if \<not> tb_deleted t r \<and> P r then f r else r"] assms
  by (simp add: Update_where_def split: option.splits)

lemma merge_keeps:
  assumes "table_ok t ok d" "\<And>s. tb_id t (tb_merge t r s) = tb_id t s" "\<And>s. ok s \<Longrightarrow> ok (tb_merge t r s)"
  shows "table_ok t ok (snd (Updates env t r d))"
  using update_keeps [OF assms] assms(1) by (simp add: Updates_def)

lemma delete_keeps: "table_ok t ok d \<Longrightarrow> table_ok t ok (snd (Delete_where env t c P d))"
  using mapped_keeps [of d "\<lambda>r. if \<not> tb_deleted t r \<and> P r then tb_mark t r else r"]
  by (simp add: Delete_where_def mark_id mark_ok split: option.splits)

end

section \<open>The rows\<close>

definition user_typed :: "User \<Rightarrow> bool" where
  "user_typed u \<longleftrightarrow> u_SystemRole u \<in> {[], SystemRoleUser, SystemRolePlatformAdmin}"

definition workspace_typed :: "Workspace \<Rightarrow> bool" where
  "workspace_typed s \<longleftrightarrow> ws_Namespace s \<noteq> [] \<and> ws_Status s \<noteq> []"

definition member_typed :: "WorkspaceMember \<Rightarrow> bool" where
  "member_typed m \<longleftrightarrow> wm_Status m \<in> {''pending'', ''active'', ''suspended'', ''removed''}"

definition invitation_typed :: "WorkspaceInvitation \<Rightarrow> bool" where
  "invitation_typed v \<longleftrightarrow> iv_Status v \<in> {''pending'', ''accepted'', ''expired'', ''revoked''}"

definition typed :: "db \<Rightarrow> bool" where
  "typed d \<longleftrightarrow> table_ok users user_typed d \<and> table_ok workspaces workspace_typed d \<and> table_ok members member_typed d \<and>
     table_ok invitations invitation_typed d"

interpretation user_rows: typed_table users user_typed
  by unfold_locales (simp_all add: user_typed_def)

interpretation workspace_rows: typed_table workspaces workspace_typed
  by unfold_locales (simp_all add: workspace_typed_def)

interpretation member_rows: typed_table members member_typed
  by unfold_locales (simp_all add: member_typed_def)

interpretation invitation_rows: typed_table invitations invitation_typed
  by unfold_locales (simp_all add: invitation_typed_def)

text \<open>A statement on one table leaves what is read of the others.\<close>

lemma Create_row_other: "Create_row env t r d = (x, d') \<Longrightarrow> (\<And>xs d. g (tb_put t xs d) = g d) \<Longrightarrow> g d' = g d"
  by (erule Create_row_cases) simp_all

lemma Update_where_other: "(\<And>xs d. g (tb_put t xs d) = g d) \<Longrightarrow> g (snd (Update_where env t P f d)) = g d"
  by (simp add: Update_where_def split: option.splits)

lemma Updates_other: "(\<And>xs d. g (tb_put t xs d) = g d) \<Longrightarrow> g (snd (Updates env t r d)) = g d"
  by (simp add: Updates_def Update_where_other)

lemma Delete_where_other: "(\<And>xs d. g (tb_put t xs d) = g d) \<Longrightarrow> g (snd (Delete_where env t c P d)) = g d"
  by (simp add: Delete_where_def split: option.splits)

lemmas others = Update_where_other Updates_other Delete_where_other

lemma table_ok_get: "tb_get t d' = tb_get t d \<Longrightarrow> table_ok t ok d' = table_ok t ok d"
  by (simp add: table_ok_def)

lemma create_user_typed:
  assumes "Create_row env users u d = (x, d')" "typed d" "user_typed u"
  shows "typed d'"
proof -
  have "table_ok users user_typed d'" by (rule user_rows.create_keeps [OF assms(1)]) (use assms(2,3) in \<open>simp_all add: typed_def user_typed_def\<close>)
  moreover have o: "tb_get workspaces d' = tb_get workspaces d" "tb_get members d' = tb_get members d" "tb_get invitations d' = tb_get invitations d"
    by (rule Create_row_other [OF assms(1)], simp)+
  ultimately show ?thesis using assms(2) unfolding typed_def table_ok_get [OF o(1)] table_ok_get [OF o(2)] table_ok_get [OF o(3)] by blast
qed

lemma create_workspace_typed:
  assumes "Create_row env workspaces s d = (x, d')" "typed d"
  shows "typed d'"
proof -
  have "table_ok workspaces workspace_typed d'"
    by (rule workspace_rows.create_keeps [OF assms(1)]) (use assms(2) in \<open>simp_all add: typed_def workspace_typed_def Let_def or_old_def\<close>)
  moreover have o: "tb_get users d' = tb_get users d" "tb_get members d' = tb_get members d" "tb_get invitations d' = tb_get invitations d"
    by (rule Create_row_other [OF assms(1)], simp)+
  ultimately show ?thesis using assms(2) unfolding typed_def table_ok_get [OF o(1)] table_ok_get [OF o(2)] table_ok_get [OF o(3)] by blast
qed

lemma create_member_typed:
  assumes "Create_row env members m d = (x, d')" "typed d" "member_typed m"
  shows "typed d'"
proof -
  have "table_ok members member_typed d'"
    by (rule member_rows.create_keeps [OF assms(1)]) (use assms(2,3) in \<open>auto simp: typed_def member_typed_def or_old_def\<close>)
  moreover have o: "tb_get users d' = tb_get users d" "tb_get workspaces d' = tb_get workspaces d" "tb_get invitations d' = tb_get invitations d"
    by (rule Create_row_other [OF assms(1)], simp)+
  ultimately show ?thesis using assms(2) unfolding typed_def table_ok_get [OF o(1)] table_ok_get [OF o(2)] table_ok_get [OF o(3)] by blast
qed

lemma create_invitation_typed:
  assumes "Create_row env invitations v d = (x, d')" "typed d" "invitation_typed v"
  shows "typed d'"
proof -
  have "table_ok invitations invitation_typed d'"
    by (rule invitation_rows.create_keeps [OF assms(1)]) (use assms(2,3) in \<open>auto simp: typed_def invitation_typed_def or_old_def\<close>)
  moreover have o: "tb_get users d' = tb_get users d" "tb_get workspaces d' = tb_get workspaces d" "tb_get members d' = tb_get members d"
    by (rule Create_row_other [OF assms(1)], simp)+
  ultimately show ?thesis using assms(2) unfolding typed_def table_ok_get [OF o(1)] table_ok_get [OF o(2)] table_ok_get [OF o(3)] by blast
qed

definition four :: "db \<Rightarrow> User list \<times> Workspace list \<times> WorkspaceMember list \<times> WorkspaceInvitation list" where
  "four d = (db_users d, db_workspaces d, db_members d, db_invitations d)"

lemma typed_four: "four d' = four d \<Longrightarrow> typed d' = typed d"
  by (simp add: four_def typed_def table_ok_def)

lemma update_member_typed:
  assumes "typed d" "\<And>r. wm_ID (f r) = wm_ID r" "\<And>r. member_typed r \<Longrightarrow> member_typed (f r)"
  shows "typed (snd (Update_where env members P f d))"
  using assms member_rows.update_keeps [of d f env P] unfolding typed_def by (simp add: table_ok_def Update_where_other)

lemma update_invitation_typed:
  assumes "typed d" "status \<in> {''pending'', ''accepted'', ''expired'', ''revoked''}"
  shows "typed (snd (Invitations_UpdateStatus env i status d))"
  using assms invitation_rows.update_keeps [of d "\<lambda>v. v\<lparr> iv_Status := status \<rparr>" env "\<lambda>v. iv_ID v = i"]
  unfolding typed_def Invitations_UpdateStatus_def by (simp add: table_ok_def Update_where_other invitation_typed_def)

lemma merge_user_typed:
  assumes "typed d" "user_typed u"
  shows "typed (snd (Updates env users u d))"
proof -
  have a: "table_ok users user_typed d" using assms(1) unfolding typed_def by blast
  have "table_ok users user_typed (snd (Updates env users u d))"
    by (rule user_rows.merge_keeps [OF a]) (use assms(2) in \<open>auto simp: user_typed_def or_old_def\<close>)
  moreover have o: "tb_get workspaces (snd (Updates env users u d)) = tb_get workspaces d" "tb_get members (snd (Updates env users u d)) = tb_get members d"
    "tb_get invitations (snd (Updates env users u d)) = tb_get invitations d" by (rule Updates_other, simp)+
  ultimately show ?thesis using assms(1) unfolding typed_def table_ok_get [OF o(1)] table_ok_get [OF o(2)] table_ok_get [OF o(3)] by blast
qed

lemma merge_workspace_typed:
  assumes "typed d"
  shows "typed (snd (Updates env workspaces s d))"
proof -
  have a: "table_ok workspaces workspace_typed d" using assms(1) unfolding typed_def by blast
  have "table_ok workspaces workspace_typed (snd (Updates env workspaces s d))"
    by (rule workspace_rows.merge_keeps [OF a]) (simp_all add: workspace_typed_def or_old_def)
  moreover have o: "tb_get users (snd (Updates env workspaces s d)) = tb_get users d" "tb_get members (snd (Updates env workspaces s d)) = tb_get members d"
    "tb_get invitations (snd (Updates env workspaces s d)) = tb_get invitations d" by (rule Updates_other, simp)+
  ultimately show ?thesis using assms(1) unfolding typed_def table_ok_get [OF o(1)] table_ok_get [OF o(2)] table_ok_get [OF o(3)] by blast
qed

lemma delete_typed:
  assumes "typed d"
  shows "typed (snd (Delete_where env users c P d))" "typed (snd (Delete_where env workspaces c Q d))" "typed (snd (Delete_where env members c R d))"
  using assms user_rows.delete_keeps [of d env c P] workspace_rows.delete_keeps [of d env c Q] member_rows.delete_keeps [of d env c R]
  unfolding typed_def by (simp_all add: table_ok_def Delete_where_other)

section \<open>Invariants of the operations\<close>

text \<open>
  What an invariant of the database needs in order to be kept by the services: every statement they issue keeps it,
  where a user is only written with a system role of \<open>roles\<close>. The lemmas go through the services and routes
  once, for every such invariant.
\<close>

locale store_invariant =
  fixes I :: "db \<Rightarrow> bool" and roles :: "string set"
  assumes empty_role: "[] \<in> roles"
    and inv_create_user: "Create_row env users u d = (x, d') \<Longrightarrow> I d \<Longrightarrow> u_SystemRole u \<in> roles \<Longrightarrow> I d'"
    and inv_merge_user: "I d \<Longrightarrow> u_SystemRole u \<in> roles \<Longrightarrow> I (snd (Updates env users u d))"
    and inv_create_workspace: "Create_row env workspaces s d = (y, d') \<Longrightarrow> I d \<Longrightarrow> I d'"
    and inv_merge_workspace: "I d \<Longrightarrow> I (snd (Updates env workspaces s d))"
    and inv_create_member: "Create_row env members m d = (z, d') \<Longrightarrow> I d \<Longrightarrow> member_typed m \<Longrightarrow> I d'"
    and inv_update_member: "I d \<Longrightarrow> (\<And>r. wm_ID (f r) = wm_ID r) \<Longrightarrow> (\<And>r. member_typed r \<Longrightarrow> member_typed (f r)) \<Longrightarrow> I (snd (Update_where env members R f d))"
    and inv_create_invitation: "Create_row env invitations v d = (u', d') \<Longrightarrow> I d \<Longrightarrow> invitation_typed v \<Longrightarrow> I d'"
    and inv_update_invitation: "I d \<Longrightarrow> status \<in> {''pending'', ''accepted'', ''expired'', ''revoked''} \<Longrightarrow> I (snd (Invitations_UpdateStatus env i status d))"
    and inv_delete: "I d \<Longrightarrow> I (snd (Delete_where env users c P d))" "I d \<Longrightarrow> I (snd (Delete_where env workspaces c Q d))"
      "I d \<Longrightarrow> I (snd (Delete_where env members c R d))"
    and inv_four: "four d' = four d \<Longrightarrow> I d' = I d"
begin


lemma AddMember_keeps: "I d \<Longrightarrow> member_typed m \<Longrightarrow> I (snd (AddMember env m d))"
proof -
  assume a: "I d" "member_typed m"
  obtain x d' where c: "Create_row env members m d = (x, d')" by (cases "Create_row env members m d")
  have "I d'" by (rule inv_create_member [OF c a])
  then show ?thesis unfolding AddMember_def c by (cases x) simp_all
qed

lemma answer_keeps: "I (snd r) \<Longrightarrow> I (snd (answer r))"
  by (simp add: answer_snd)

lemma memberRouter_keeps: "I d \<Longrightarrow> I (snd (memberRouter env rl m rq d))"
proof -
  assume d: "I d"
  have "I (snd (handleAddMember (ae_db env) rq body d))" for body
    using AddMember_keeps [OF d] by (auto simp: handleAddMember_def member_Add_def answer_snd member_typed_def d split: option.splits sum.splits)
  moreover have "I (snd (handleUpdateMemberRole (ae_db env) c rq body d))" for c body
    using inv_update_member [OF d] d
    by (auto simp del: tables simp: handleUpdateMemberRole_def UpdateRole_def answer_snd member_typed_def split: option.splits sum.splits if_splits)
  moreover have "I (snd (handleRemoveMember (ae_db env) c rq d))" for c
    using inv_update_member [OF d] d
    by (auto simp del: tables simp: handleRemoveMember_def SoftRemove_def answer_snd member_typed_def split: option.splits)
  ultimately show ?thesis using d by (auto simp: memberRouter_def split: sum.splits member_call.splits)
qed

lemma Register_keeps: "I d \<Longrightarrow> I (snd (Register env dto d))"
proof (cases "EncryptPassword env (ud_Password dto)")
  case (Inr h)
  assume d: "I d"
  let ?u = "empty_user\<lparr> u_Username := ud_Username dto, u_Password := h \<rparr>"
  obtain x d' where c: "Create_row (us_db env) users ?u d = (x, d')" by (cases "Create_row (us_db env) users ?u d")
  have "I d'" by (rule inv_create_user [OF c d]) (simp add: empty_user_def empty_role)
  then show ?thesis using Inr c by (cases x) (simp_all del: tables add: Register_def)
qed (simp add: Register_def)

lemma AddUser_keeps: "I d \<Longrightarrow> I (snd (AddUser env dto d))"
  unfolding AddUser_def
proof (rule Tx_keeps)
  assume d: "I d"
  show "I (snd (case EncryptPassword env (ud_Password dto) of
       Inl e \<Rightarrow> (Err (Msg (''failed to hash password: '' @ e)), d)
     | Inr hashedPassword \<Rightarrow>
         (case Create_row (us_db env) users (empty_user\<lparr> u_Username := ud_Username dto, u_Password := hashedPassword \<rparr>) d of
            (Inl e, d1) \<Rightarrow> (Err (DbErr e), d1)
          | (Inr newUser, d1) \<Rightarrow>
              (case Workspaces_GetByNamespace (us_db env) (ud_Namespace dto) d1 of
                 Inl e \<Rightarrow> (Err (DbErr e), d1)
               | Inr ws \<Rightarrow> db_result (AddMember (us_db env) ((new_member (ws_ID ws) (u_ID newUser) (ud_Role dto))\<lparr> wm_Status := ''active'' \<rparr>) d1)))))"
  proof (cases "EncryptPassword env (ud_Password dto)")
    case (Inr h)
    let ?u = "empty_user\<lparr> u_Username := ud_Username dto, u_Password := h \<rparr>"
    obtain x d' where c: "Create_row (us_db env) users ?u d = (x, d')" by (cases "Create_row (us_db env) users ?u d")
    have t: "I d'" by (rule inv_create_user [OF c d]) (simp add: empty_user_def empty_role)
    have m: "member_typed ((new_member a b (ud_Role dto))\<lparr> wm_Status := ''active'' \<rparr>)" for a b by (simp add: member_typed_def)
    show ?thesis
    proof (cases x)
      case (Inl e)
      then show ?thesis using Inr c t by (simp del: tables)
    next
      case n: (Inr nu)
      show ?thesis using Inr c t n AddMember_keeps [OF t m]
        by (cases "Workspaces_GetByNamespace (us_db env) (ud_Namespace dto) d'") (simp_all del: tables)
    qed
  qed (use d in simp)
qed

lemma UpdateProfile_keeps: "I d \<Longrightarrow> I (snd (UpdateProfile env userID req d))"
  unfolding UpdateProfile_def
proof (rule Tx_keeps)
  assume d: "I d"
  let ?u = "empty_user\<lparr> u_ID := userID, u_Email := uq_Email req, u_Avatar := uq_AvatarURL req, u_Address := uq_Address req, u_Gender := uq_Gender req \<rparr>"
  let ?p = "\<lparr> pf_UserID = userID, pf_Title = uq_Title req, pf_Company = uq_Company req, pf_Bio = uq_Bio req, pf_Timezone = uq_Timezone req,
             pf_Language = uq_Language req, pf_EmailNotify = uq_EmailNotify req \<rparr>"
  obtain e d' where u: "Updates (us_db env) users ?u d = (e, d')" by (cases "Updates (us_db env) users ?u d")
  have t: "I d'" using inv_merge_user [OF d, of ?u "us_db env"] u by (simp add: empty_user_def empty_role)
  have "four (snd (Profiles_Upsert (us_db env) ?p d')) = four d'"
  proof -
    obtain x d'' where c: "Create_row (us_db env) profiles ?p d' = (x, d'')" by (cases "Create_row (us_db env) profiles ?p d'")
    then have n: "four d'' = four d'" by (rule Create_row_other) (simp add: four_def)
    have k: "four (snd (Update_where (us_db env) profiles P f d')) = four d'" for P f by (rule Update_where_other) (simp add: four_def)
    show ?thesis unfolding Profiles_Upsert_def c using n k
      by (cases x; cases "First (us_db env) profiles (scope pf_UserID (pf_UserID ?p)) d'"; auto simp del: tables split: db_error.splits)
  qed
  from inv_four [OF this] have p: "I (snd (Profiles_Upsert (us_db env) ?p d'))" using t by blast
  show "I (snd (case Updates (us_db env) users ?u d of (Some e, d') \<Rightarrow> (Err (DbErr e), d') | (None, d') \<Rightarrow> db_result (Profiles_Upsert (us_db env) ?p d')))"
    unfolding u using t p by (cases e) (simp_all del: tables)
qed

lemma UpdateSystemRole_keeps: "I d \<Longrightarrow> (role = SystemRolePlatformAdmin \<or> role = SystemRoleUser \<Longrightarrow> role \<in> roles) \<Longrightarrow> I (snd (UpdateSystemRole env i role d))"
proof (cases "Users_GetByID (us_db env) i d")
  case (Inr u)
  assume d: "I d" and role: "role = SystemRolePlatformAdmin \<or> role = SystemRoleUser \<Longrightarrow> role \<in> roles"
  show ?thesis
  proof (cases "role = SystemRolePlatformAdmin \<or> role = SystemRoleUser")
    case True
    then have "I (snd (Updates (us_db env) users (u\<lparr> u_SystemRole := role \<rparr>) d))" using role by (intro inv_merge_user [OF d]) simp
    moreover have "UpdateSystemRole env i role d = db_result (Updates (us_db env) users (u\<lparr> u_SystemRole := role \<rparr>) d)"
      using True Inr by (auto simp del: tables simp: UpdateSystemRole_def)
    ultimately show ?thesis by (simp del: tables)
  qed (use d in \<open>simp add: UpdateSystemRole_def\<close>)
qed (simp add: UpdateSystemRole_def)

lemma userRouter_keeps:
  assumes d: "I d"
    and role: "\<And>i role cl. m = SystemRoleCall i (Some role) \<Longrightarrow> presented auth rl rq = Some cl \<Longrightarrow> cl_SystemRole cl = SystemRolePlatformAdmin \<Longrightarrow>
      role = SystemRolePlatformAdmin \<or> role = SystemRoleUser \<Longrightarrow> role \<in> roles"
  shows "I (snd (userRouter env auth rl m rq d))"
proof (cases "\<exists>i body. m = SystemRoleCall i body")
  case True
  then obtain i body where m: "m = SystemRoleCall i body" by blast
  show ?thesis
  proof (cases "AuthMiddleware auth rl rq gctx0 :: unit response + gctx")
    case (Inl r)
    then show ?thesis using d m by (simp add: userRouter_def)
  next
    case (Inr g)
    then obtain cl where cl: "presented auth rl rq = Some cl" "g = signed_in cl gctx0" using AuthMiddleware_Ok by blast
    have g: "gc_system_role g = cl_SystemRole cl" by (simp add: cl(2) signed_in_def)
    have "I (snd (handleUpdateSystemRole env g i body d))"
    proof (cases "gc_system_role g = ''platform_admin'' \<and> body \<noteq> None")
      case ok: True
      then obtain r where b: "body = Some r" by blast
      have "I (snd (UpdateSystemRole env i r d))"
        using role [OF m [unfolded b] cl(1)] ok g by (intro UpdateSystemRole_keeps [OF d]) (simp add: SystemRolePlatformAdmin_def)
      then show ?thesis using d ok by (simp add: handleUpdateSystemRole_def answer_of b)
    qed (use d in \<open>auto simp: handleUpdateSystemRole_def\<close>)
    then show ?thesis using Inr m by (simp add: userRouter_def)
  qed
next
  case False
  have del: "I (snd (DeleteUser env i d))" for i using inv_delete(1) [OF d] by (simp del: tables add: DeleteUser_def Users_Delete_def)
  show ?thesis using False d del Register_keeps [OF d] AddUser_keeps [OF d] UpdateProfile_keeps [OF d]
    by (auto simp: userRouter_def RegisterUser_def handleAddUser_def handleDeleteUser_def updateProfile_def answer_of
        split: user_call.splits option.splits sum.splits)
qed

lemma add_body_keeps: "I d \<Longrightarrow> I (fst (snd (add_body api env userID username slug dto (d, w))))"
proof -
  assume d: "I d"
  let ?n = "new_workspace slug (wd_DisplayName dto) username"
  obtain x d1 where c: "Create_row (we_db env) workspaces ?n d = (x, d1)" by (cases "Create_row (we_db env) workspaces ?n d")
  have t1: "I d1" by (rule inv_create_workspace [OF c d])
  show ?thesis
  proof (cases x)
    case (Inl e)
    then show ?thesis using c t1 by (simp del: tables add: add_body_def)
  next
    case (Inr ws)
    let ?ws = "ws\<lparr> ws_Namespace := ''wf-'' @ ws_ID ws \<rparr>"
    obtain e2 d2 where u: "Updates (we_db env) workspaces ?ws d1 = (e2, d2)" by (cases "Updates (we_db env) workspaces ?ws d1")
    have t2: "I d2" using inv_merge_workspace [OF t1, of "we_db env" ?ws] unfolding u by simp
    let ?m = "(new_member (ws_ID ?ws) userID RoleAdmin)\<lparr> wm_Status := ''active'', wm_JoinedAt := Some (de_now (we_db env)) \<rparr>"
    obtain e3 d3 where a: "AddMember (we_db env) ?m d2 = (e3, d3)" by (cases "AddMember (we_db env) ?m d2")
    have t3: "I d3" using AddMember_keeps [OF t2, of ?m "we_db env"] a by (simp add: member_typed_def)
    show ?thesis using c Inr u t1 t2 t3 a
      by (simp del: tables add: add_body_def Let_def split: option.splits prod.splits)
  qed
qed

lemma AddWorkspace_keeps: "I d \<Longrightarrow> I (fst (snd (AddWorkspace api env userID username dto (d, w))))"
  using add_body_keeps [of d api env userID username "we_GenerateSlug env (wd_Slug dto)" dto w]
  by (auto simp: AddWorkspace_def Let_def split: sum.splits prod.splits bool.splits)

lemma UpdateWorkspace_keeps: "I d \<Longrightarrow> I (snd (UpdateWorkspace env username i dto d))"
proof (cases "Workspaces_GetByID (we_db env) i d")
  case (Inr s)
  assume d: "I d"
  let ?s = "s\<lparr> ws_DisplayName := or_old (wd_DisplayName dto) (ws_DisplayName s), ws_UpdatedBy := username \<rparr>"
  obtain e d' where u: "Updates (we_db env) workspaces ?s d = (e, d')" by (cases "Updates (we_db env) workspaces ?s d")
  have "I d'" using inv_merge_workspace [OF d, of "we_db env" ?s] unfolding u by simp
  then show ?thesis using Inr u by (cases e) (simp_all del: tables add: UpdateWorkspace_def Let_def)
qed (simp add: UpdateWorkspace_def)

lemma delete_rows_keeps: "I d \<Longrightarrow> I (snd (delete_rows env i d))"
  unfolding delete_rows_def
proof (rule Tx_keeps)
  assume d: "I d"
  obtain e d' where u: "DeleteByWorkspace env i d = (e, d')" by (cases "DeleteByWorkspace env i d")
  have t: "I d'" using inv_delete(3) [OF d, of env "i \<noteq> []" "scope wm_WorkspaceID i"] u unfolding DeleteByWorkspace_def by simp
  have "I (snd (Workspaces_Delete env i d'))" using inv_delete(2) [OF t] by (simp del: tables add: Workspaces_Delete_def)
  then show "I (snd (case DeleteByWorkspace env i d of (Some e, d') \<Rightarrow> (Err (DbErr e), d') | (None, d') \<Rightarrow> db_result (Workspaces_Delete env i d')))"
    unfolding u using t by (cases e) simp_all
qed

lemma DeleteWorkspace_keeps: "I d \<Longrightarrow> I (fst (snd (DeleteWorkspace api env i (d, w))))"
  using delete_rows_keeps [of d "we_db env" i] by (auto simp: DeleteWorkspace_def split: sum.splits prod.splits)

lemma workspaceRouter_keeps: "I (fst st) \<Longrightarrow> I (fst (snd (workspaceRouter api env auth rl m rq st)))"
proof -
  assume t: "I (fst st)"
  obtain d w where st: "st = (d, w)" by (cases st)
  have d: "I d" using t st by simp
  have c: "I (fst (snd (case r of (Inl (_::svc_error), st') \<Rightarrow> (RespError, st') | (Inr v, st') \<Rightarrow> (k v, st')))) \<longleftrightarrow> I (fst (snd r))"
    for r :: "(svc_error + 'v) \<times> db \<times> 'w" and k :: "'v \<Rightarrow> WorkspaceVo option response"
    by (simp split: prod.splits sum.splits)
  have c2: "I (fst (snd (case r of (Inl (_::svc_error), d') \<Rightarrow> (RespError, d', w2) | (Inr v, d') \<Rightarrow> (k v, d', w2)))) \<longleftrightarrow> I (snd r)"
    for r :: "(svc_error + 'v) \<times> db" and w2 :: 'w and k :: "'v \<Rightarrow> WorkspaceVo option response"
    by (simp split: prod.splits sum.splits)
  show ?thesis unfolding st using d AddWorkspace_keeps [OF d] UpdateWorkspace_keeps [OF d] DeleteWorkspace_keeps [OF d]
    by (auto simp: workspaceRouter_def c c2 split: ws_call.splits option.splits sum.splits)
qed

lemma Invitations_Create_keeps: "I d \<Longrightarrow> I (snd (Invitations_Create env workspaceID inviterID email role d))"
proof -
  assume d: "I d"
  have "I (snd (case Create_row (ie_db env) invitations (new_invitation env workspaceID inviterID email role token) d of
      (Inl e, d') \<Rightarrow> (Err (DbErr e), d') | (Inr v, d') \<Rightarrow> (Ok v, d')))" for token
  proof -
    let ?v = "new_invitation env workspaceID inviterID email role token"
    obtain x d' where c: "Create_row (ie_db env) invitations ?v d = (x, d')" by (cases "Create_row (ie_db env) invitations ?v d")
    have "I d'" by (rule inv_create_invitation [OF c d]) (simp add: new_invitation_def invitation_typed_def)
    then show ?thesis unfolding c by (cases x) simp_all
  qed
  then show ?thesis using d by (auto simp del: tables simp: Invitations_Create_def split: sum.splits option.splits)
qed

lemma usable_keeps: "I d \<Longrightarrow> I (snd (usable_invitation env token d))"
  by (auto simp: usable_invitation_def inv_update_invitation split: sum.splits)

lemma accept_row_keeps: "I d \<Longrightarrow> I (snd (accept_row env iv userID d))"
proof -
  assume d: "I d"
  obtain e d' where a: "AddMember (ie_db env) (invited_member env iv userID) d = (e, d')" by (cases "AddMember (ie_db env) (invited_member env iv userID) d")
  have t: "I d'" using AddMember_keeps [OF d, of "invited_member env iv userID" "ie_db env"] a by (simp add: invited_member_def member_typed_def)
  show ?thesis unfolding accept_row_def a using t by (cases e) (simp_all add: inv_update_invitation)
qed

lemma Accept_keeps: "I d \<Longrightarrow> I (snd (Accept env token user d))"
  unfolding Accept_def
proof (rule Tx_keeps)
  assume d: "I d"
  obtain x d' where u: "usable_invitation env token d = (x, d')" by (cases "usable_invitation env token d")
  have t: "I d'" using usable_keeps [OF d, of env token] u by simp
  show "I (snd (accept_body env token user d))"
    unfolding accept_body_def u using t accept_row_keeps [OF t] by (auto split: sum.splits)
qed

lemma RegisterAndAccept_keeps: "I d \<Longrightarrow> I (snd (RegisterAndAccept env token username password d))"
  unfolding RegisterAndAccept_def
proof (rule Tx_keeps)
  assume d: "I d"
  obtain x d' where u: "usable_invitation env token d = (x, d')" by (cases "usable_invitation env token d")
  have t: "I d'" using usable_keeps [OF d, of env token] u by simp
  show "I (snd (register_body env token username password d))"
  proof (cases x)
    case (Inr iv)
    have "I (snd (case Create_row (ie_db env) users v d' of
        (Inl e, d) \<Rightarrow> (Err (DbErr e), d)
      | (Inr user, d) \<Rightarrow>
          (case accept_row env iv (u_ID user) d of
             (Inl e, d) \<Rightarrow> (Err e, d)
           | (Inr _, d) \<Rightarrow> (case GenerateBusinessJWT (ie_sign env) (de_uuid (ie_db env) d) (de_now (ie_db env)) (u_ID user) (u_Email user) (u_Username user) (u_SystemRole user) of
                Inl e \<Rightarrow> (Err (Msg e), d) | Inr jwt \<Rightarrow> (Ok jwt, d)))))" if v: "u_SystemRole v \<in> roles" for v
    proof -
      obtain y d1 where c: "Create_row (ie_db env) users v d' = (y, d1)" by (cases "Create_row (ie_db env) users v d'")
      have t1: "I d1" by (rule inv_create_user [OF c t v])
      show ?thesis unfolding c
      proof (cases y)
        case n: (Inr nu)
        obtain z d2 where a: "accept_row env iv (u_ID nu) d1 = (z, d2)" by (cases "accept_row env iv (u_ID nu) d1")
        have "I d2" using accept_row_keeps [OF t1, of env iv "u_ID nu"] a by simp
        then show "I (snd (case (y, d1) of
        (Inl e, d) \<Rightarrow> (Err (DbErr e), d)
      | (Inr user, d) \<Rightarrow>
          (case accept_row env iv (u_ID user) d of
             (Inl e, d) \<Rightarrow> (Err e, d)
           | (Inr _, d) \<Rightarrow> (case GenerateBusinessJWT (ie_sign env) (de_uuid (ie_db env) d) (de_now (ie_db env)) (u_ID user) (u_Email user) (u_Username user) (u_SystemRole user) of
                Inl e \<Rightarrow> (Err (Msg e), d) | Inr jwt \<Rightarrow> (Ok jwt, d)))))" using n a by (simp split: sum.splits)
      qed (use t1 in simp)
    qed
    then show ?thesis unfolding register_body_def u Inr using t empty_role by (auto simp del: tables split: sum.splits)
  qed (simp add: register_body_def u t)
qed

lemma Revoke_keeps: "I d \<Longrightarrow> I (snd (Invitations_Revoke env callerID i d))"
  by (auto simp: Invitations_Revoke_def inv_update_invitation split: sum.splits)

lemma inv_step_keeps: "I d \<Longrightarrow> I (snd (inv_step env op d))"
  by (cases op) (simp_all add: Invitations_Create_keeps Accept_keeps RegisterAndAccept_keeps Revoke_keeps)


lemma promote_keeps: "I d \<Longrightarrow> role \<in> roles \<Longrightarrow> I (snd (promote env role u d))"
proof -
  assume d: "I d" "role \<in> roles"
  have "I (snd (Updates (us_db env) users (u\<lparr> u_SystemRole := SystemRolePlatformAdmin \<rparr>) d))" if "role = SystemRolePlatformAdmin"
    using d that by (intro inv_merge_user) simp_all
  then show ?thesis using d by (simp del: tables add: promote_def Let_def)
qed

lemma link_keeps: "I d \<Longrightarrow> I (snd (link_identity env provider subject email u d))"
proof -
  assume d: "I d"
  let ?i = "\<lparr> ui_ID = [], ui_Deleted = False, ui_UserID = u_ID u, ui_Provider = provider, ui_ExternalID = subject, ui_Email = email, ui_Metadata = [] \<rparr>"
  obtain x d' where c: "Create_row (us_db env) identities ?i d = (x, d')" by (cases "Create_row (us_db env) identities ?i d")
  then have "four d' = four d" by (rule Create_row_other) (simp add: four_def)
  from inv_four [OF this] have "I d'" using d by simp
  then show ?thesis unfolding link_identity_def c by (cases x) simp_all
qed

lemma Onboard_keeps: "I d \<Longrightarrow> target_role adminEmails email \<in> roles \<Longrightarrow> I (snd (OnboardExternalUser env provider subject email adminEmails d))"
proof -
  assume d: "I d" and r: "target_role adminEmails email \<in> roles"
  let ?r = "target_role adminEmails email"
  let ?u = "empty_user\<lparr> u_Email := email, u_SystemRole := ?r \<rparr>"
  obtain x d' where c: "Create_row (us_db env) users ?u d = (x, d')" by (cases "Create_row (us_db env) users ?u d")
  have t: "I d'" by (rule inv_create_user [OF c d]) (simp add: r)
  have p: "I (snd (promote env ?r v d))" "I (snd (case promote env ?r v d of (user', d') \<Rightarrow> (Ok user', d')))"
    "I (snd (case promote env ?r v d of (user', d') \<Rightarrow> link_identity env provider subject email user' d'))" for v
    using promote_keeps [OF d r, of env v] link_keeps by (cases "promote env ?r v d"; simp)+
  have n: "I (snd (case Create_row (us_db env) users ?u d of (Inl e'', d') \<Rightarrow> (Err (DbErr e''), d') | (Inr user, d') \<Rightarrow> link_identity env provider subject email user d'))"
    unfolding c using t link_keeps [OF t] by (cases x) simp_all
  show ?thesis unfolding OnboardExternalUser_def Let_def using d p(2,3) n by (auto simp del: tables split: sum.splits)
qed

lemma InitAdmin_keeps: "I d \<Longrightarrow> SystemRolePlatformAdmin \<in> roles \<Longrightarrow> I (snd (InitAdmin env as d))"
proof (induction env as d rule: InitAdmin.induct)
  case (2 env username password rest d)
  have up: "I (snd (Updates (us_db env) users (v\<lparr> u_SystemRole := SystemRolePlatformAdmin \<rparr>) d))" for v
    by (rule inv_merge_user [OF 2(3)]) (simp add: 2(4))
  have cr: "I (snd (Create_row (us_db env) users (empty_user\<lparr> u_Username := username, u_Password := h, u_SystemRole := SystemRolePlatformAdmin \<rparr>) d))" for h
    by (rule inv_create_user [OF prod.collapse [symmetric] 2(3)]) (simp add: 2(4))
  show ?case
  proof (cases "Users_GetByUsername (us_db env) username d")
    case (Inl e)
    have "I (case EncryptPassword env password of Inl _ \<Rightarrow> d | Inr hashed \<Rightarrow>
        snd (Create_row (us_db env) users (empty_user\<lparr> u_Username := username, u_Password := hashed, u_SystemRole := SystemRolePlatformAdmin \<rparr>) d))"
      using 2(3) cr by (simp del: tables split: sum.splits)
    from 2(1) [OF Inl _ this 2(4)] show ?thesis using Inl 2(3) by (cases "e = ErrRecordNotFound") (simp_all del: tables)
  next
    case (Inr v)
    have "I (if u_SystemRole v \<noteq> SystemRolePlatformAdmin then snd (Updates (us_db env) users (v\<lparr> u_SystemRole := SystemRolePlatformAdmin \<rparr>) d) else d)"
      using 2(3) up by (simp del: tables)
    from 2(2) [OF Inr this 2(4)] show ?thesis using Inr by (simp del: tables)
  qed
qed simp


end

interpretation typed_rows: store_invariant typed "{[], SystemRoleUser, SystemRolePlatformAdmin}"
proof (unfold_locales, goal_cases)
  case 1
  show ?case by simp
next
  case (2 env u d x d')
  then show ?case by (intro create_user_typed [OF 2(1,2)]) (simp only: user_typed_def)
next
  case (3 d u env)
  then show ?case by (intro merge_user_typed [OF 3(1)]) (simp only: user_typed_def)
qed (fact create_workspace_typed merge_workspace_typed create_member_typed update_member_typed create_invitation_typed update_invitation_typed
    delete_typed typed_four)+

end
