(* ===== verification/Approvals.thy ===== *)
theory Approvals
  imports Access Kube_Client
begin

text \<open>
  Policies and their approval: the policy service (\<open>internal/server/service/policy.go\<close>), the workflow service
  (\<open>service/workflow.go\<close>) and their handlers (\<open>internal/server/server/policy.go\<close>, \<open>workflow.go\<close>). The state is
  the database and the cluster. JSON is a parameter. An approval starts a goroutine that executes the request;
  \<open>Approve\<close> returns the request it hands to it. The read and the write of an approval are separate
  definitions, because two approvals may run at the same time.
\<close>

section \<open>Policies\<close>

record LatticePolicySpec =
  sp_Network :: string
  sp_PeerSelector :: LabelSelector
  sp_Ingress :: "PolicyRule list"
  sp_Egress :: "PolicyRule list"
  sp_Action :: string

record PolicyDto =
  dp_Name :: string
  dp_Namespace :: string
  dp_Action :: string
  dp_Description :: string
  dp_PolicyTypes :: "string list"
  dp_Spec :: LatticePolicySpec

text \<open>The object that is applied: the policy with the annotations the service sets.\<close>

record PolicyCRD = LatticePolicy +
  lc_Annotations :: labels

record 'w policy_api =
  pa_Apply :: "'w \<Rightarrow> PolicyCRD \<Rightarrow> kube_error option \<times> 'w"
  pa_Delete :: "'w \<Rightarrow> string \<Rightarrow> string \<Rightarrow> kube_error option \<times> 'w"

record pol_env =
  po_db :: db_env
  po_spec_json :: "LatticePolicySpec \<Rightarrow> string + string"
  po_spec_of :: "string \<Rightarrow> string + LatticePolicySpec"
  po_types_json :: "string list \<Rightarrow> string + string"
  po_types_of :: "string \<Rightarrow> string list"
  po_payload :: "string \<Rightarrow> string"
  po_policyId :: "string \<Rightarrow> string + string"
  po_error :: "kube_error \<Rightarrow> string"
  po_db_error :: "db_error \<Rightarrow> string"

fun strings_Join :: "string \<Rightarrow> string list \<Rightarrow> string" where
  "strings_Join sep [] = []"
| "strings_Join sep [x] = x"
| "strings_Join sep (x # xs) = x @ sep @ strings_Join sep xs"

definition policy_crd :: "string \<Rightarrow> string \<Rightarrow> string \<Rightarrow> string \<Rightarrow> string list \<Rightarrow> LatticePolicySpec \<Rightarrow> PolicyCRD" where
  "policy_crd name ns action description types spec =
     \<lparr> lc_Name = name, lc_Namespace = ns, lc_Labels = [(''action'', action)], lc_Network = sp_Network spec,
       lc_PeerSelector = sp_PeerSelector spec, lc_Ingress = sp_Ingress spec, lc_Egress = sp_Egress spec, lc_Action = action,
       lc_TargetNodes = 0, lc_RuleCount = 0,
       lc_Annotations = [(''description'', description), (''policyTypes'', strings_Join '','' types)] \<rparr>"

definition empty_policy :: "string \<Rightarrow> string \<Rightarrow> PolicyRec" where
  "empty_policy wsID name =
     \<lparr> pl_ID = [], pl_Deleted = False, pl_WorkspaceID = wsID, pl_Name = name, pl_Description = [], pl_Action = [], pl_PolicyTypes = [],
       pl_Spec = [], pl_Status = PolicyStatusPending, pl_WorkflowRequestID = [], pl_ErrorMessage = [], pl_CreatedBy = [],
       pl_CreatedByName = [], pl_UpdatedBy = [], pl_UpdatedByName = [] \<rparr>"

definition policy_Submit :: "pol_env \<Rightarrow> string \<Rightarrow> string \<Rightarrow> string \<Rightarrow> PolicyDto \<Rightarrow> db \<Rightarrow> (svc_error + PolicyRec) \<times> db" where
  "policy_Submit env wsID createdBy createdByName dto d =
     (case po_spec_json env (dp_Spec dto) of
        Inl e \<Rightarrow> (Err (Msg (''marshal spec: '' @ e)), d)
      | Inr spec \<Rightarrow>
          (case po_types_json env (dp_PolicyTypes dto) of
             Inl e \<Rightarrow> (Err (Msg (''marshal policy types: '' @ e)), d)
           | Inr types \<Rightarrow>
               (case Create_row (po_db env) policies
                       ((empty_policy wsID (dp_Name dto))\<lparr> pl_Description := dp_Description dto, pl_Action := dp_Action dto, pl_PolicyTypes := types,
                          pl_Spec := spec, pl_Status := PolicyStatusPending, pl_CreatedBy := createdBy, pl_CreatedByName := createdByName \<rparr>) d of
                  (Inl e, d') \<Rightarrow> (Err (DbErr e), d')
                | (Inr r, d') \<Rightarrow> (Ok r, d'))))"

definition policy_Apply :: "'w policy_api \<Rightarrow> pol_env \<Rightarrow> string \<Rightarrow> db \<times> 'w \<Rightarrow> string option \<times> db \<times> 'w" where
  "policy_Apply api env policyID = (\<lambda>(d, w).
     case Policies_GetByID (po_db env) policyID d of
       Inl e \<Rightarrow> (Some (''policy record not found: '' @ po_db_error env e), d, w)
     | Inr r \<Rightarrow>
         (case Workspaces_GetByID (po_db env) (pl_WorkspaceID r) d of
            Inl e \<Rightarrow> (Some (''workspace not found: '' @ po_db_error env e), d, w)
          | Inr ws \<Rightarrow>
              (case po_spec_of env (pl_Spec r) of
                 Inl e \<Rightarrow> (Some (''unmarshal spec: '' @ e), d, w)
               | Inr spec \<Rightarrow>
                   (case pa_Apply api w (policy_crd (pl_Name r) (ws_Namespace ws) (pl_Action r) (pl_Description r)
                                           (po_types_of env (pl_PolicyTypes r)) (spec\<lparr> sp_Action := pl_Action r \<rparr>)) of
                      (Some e, w') \<Rightarrow>
                        (Some (po_error env e),
                         snd (Policies_Update (po_db env) (r\<lparr> pl_Status := PolicyStatusFailed, pl_ErrorMessage := po_error env e \<rparr>) d), w')
                    | (None, w') \<Rightarrow>
                        (case Policies_Update (po_db env) (r\<lparr> pl_Status := PolicyStatusActive, pl_ErrorMessage := [] \<rparr>) d of
                           (e, d') \<Rightarrow> (map_option (po_db_error env) e, d', w'))))))"

record PolicyVo =
  pv_Name :: string
  pv_Action :: string
  pv_Description :: string
  pv_Namespace :: string
  pv_PolicyTypes :: "string list"
  pv_Status :: string
  pv_CreatedBy :: string
  pv_CreatedByName :: string
  pv_UpdatedBy :: string
  pv_UpdatedByName :: string
  pv_Spec :: LatticePolicySpec

definition policy_record :: "pol_env \<Rightarrow> string \<Rightarrow> string \<Rightarrow> string \<Rightarrow> PolicyDto \<Rightarrow> db \<Rightarrow> PolicyRec" where
  "policy_record env wsID operatorID operatorName dto d =
     (case Policies_GetByName (po_db env) wsID (dp_Name dto) d of
        Inr r \<Rightarrow> r
      | Inl _ \<Rightarrow> (empty_policy wsID (dp_Name dto))\<lparr> pl_CreatedBy := operatorID, pl_CreatedByName := operatorName \<rparr>)
     \<lparr> pl_Description := dp_Description dto, pl_Action := dp_Action dto,
       pl_PolicyTypes := case_sum (\<lambda>_. []) id (po_types_json env (dp_PolicyTypes dto)),
       pl_Spec := case_sum (\<lambda>_. []) id (po_spec_json env (dp_Spec dto)), pl_Status := PolicyStatusActive, pl_ErrorMessage := [],
       pl_UpdatedBy := operatorID, pl_UpdatedByName := operatorName \<rparr>"

definition policy_ApplyDirect ::
  "'w policy_api \<Rightarrow> pol_env \<Rightarrow> string \<Rightarrow> string \<Rightarrow> string \<Rightarrow> PolicyDto \<Rightarrow> db \<times> 'w \<Rightarrow> (svc_error + PolicyVo) \<times> db \<times> 'w" where
  "policy_ApplyDirect api env wsID operatorID operatorName dto = (\<lambda>(d, w).
     case Workspaces_GetByID (po_db env) wsID d of
       Inl e \<Rightarrow> (Err (DbErr e), d, w)
     | Inr ws \<Rightarrow>
         (let spec = (dp_Spec dto)\<lparr> sp_Action := dp_Action dto \<rparr>
          in case pa_Apply api w (policy_crd (dp_Name dto) (ws_Namespace ws) (dp_Action dto) (dp_Description dto) (dp_PolicyTypes dto) spec) of
               (Some e, w') \<Rightarrow> (Err (Msg (po_error env e)), d, w')
             | (None, w') \<Rightarrow>
                 (let r = policy_record env wsID operatorID operatorName dto d;
                      d' = (if pl_ID r = [] then snd (Create_row (po_db env) policies r d) else snd (Policies_Update (po_db env) r d))
                  in (Ok \<lparr> pv_Name = dp_Name dto, pv_Action = dp_Action dto, pv_Description = dp_Description dto, pv_Namespace = dp_Namespace dto,
                          pv_PolicyTypes = dp_PolicyTypes dto, pv_Status = [], pv_CreatedBy = [], pv_CreatedByName = [], pv_UpdatedBy = [],
                          pv_UpdatedByName = [], pv_Spec = spec \<rparr>, d', w'))))"

definition empty_spec :: LatticePolicySpec where
  "empty_spec = \<lparr> sp_Network = [], sp_PeerSelector = \<lparr> ls_MatchLabels = [], ls_MatchExpressions = [] \<rparr>, sp_Ingress = [], sp_Egress = [], sp_Action = [] \<rparr>"

definition policy_vo :: "pol_env \<Rightarrow> PolicyRec \<Rightarrow> PolicyVo" where
  "policy_vo env r =
     \<lparr> pv_Name = pl_Name r, pv_Action = pl_Action r, pv_Description = pl_Description r, pv_Namespace = [],
       pv_PolicyTypes = po_types_of env (pl_PolicyTypes r), pv_Status = policy_text (pl_Status r), pv_CreatedBy = pl_CreatedBy r,
       pv_CreatedByName = pl_CreatedByName r, pv_UpdatedBy = pl_UpdatedBy r, pv_UpdatedByName = pl_UpdatedByName r,
       pv_Spec = case_sum (\<lambda>_. empty_spec) id (po_spec_of env (pl_Spec r)) \<rparr>"

definition ListPolicy :: "pol_env \<Rightarrow> string \<Rightarrow> string \<Rightarrow> int \<Rightarrow> int \<Rightarrow> db \<Rightarrow> db_error + (PolicyVo list \<times> nat)" where
  "ListPolicy env wsID keyword page pageSize d =
     map_sum id (map_prod (map (policy_vo env)) id)
       (Policies_List (po_db env) \<lparr> pof_WorkspaceID = wsID, pof_Status = [], pof_Keyword = keyword, pof_Page = page, pof_PageSize = pageSize \<rparr> d)"

definition DeletePolicy :: "'w policy_api \<Rightarrow> pol_env \<Rightarrow> string \<Rightarrow> string \<Rightarrow> db \<times> 'w \<Rightarrow> db_error option \<times> db \<times> 'w" where
  "DeletePolicy api env wsID name = (\<lambda>(d, w).
     case Workspaces_GetByID (po_db env) wsID d of
       Inl e \<Rightarrow> (Some e, d, w)
     | Inr ws \<Rightarrow>
         (let found = Policies_GetByName (po_db env) wsID name d;
              w' = snd (pa_Delete api w (ws_Namespace ws) name)
          in case Policies_Delete (po_db env) wsID name d of
               (Some e, d') \<Rightarrow> (Some e, d', w')
             | (None, d') \<Rightarrow>
                 (case found of
                    Inr r \<Rightarrow> (None, if pl_WorkflowRequestID r = [] then d' else snd (Workflows_Delete (po_db env) (pl_WorkflowRequestID r) d'), w')
                  | Inl _ \<Rightarrow> (None, d', w'))))"

section \<open>Workflow requests\<close>

record SubmitWorkflowReq =
  sw_WorkspaceID :: string
  sw_RequestedBy :: string
  sw_RequestedByName :: string
  sw_RequestedByEmail :: string
  sw_ResourceType :: string
  sw_ResourceName :: string
  sw_Action :: string
  sw_Payload :: string

definition workflow_Submit :: "db_env \<Rightarrow> SubmitWorkflowReq \<Rightarrow> db \<Rightarrow> (db_error + WorkflowRequest) \<times> db" where
  "workflow_Submit env req d =
     Create_row env workflows
       \<lparr> wr_ID = de_uuid env d, wr_WorkspaceID = sw_WorkspaceID req, wr_RequestedBy = sw_RequestedBy req, wr_RequestedByName = sw_RequestedByName req,
         wr_RequestedByEmail = sw_RequestedByEmail req, wr_ResourceType = sw_ResourceType req, wr_ResourceName = sw_ResourceName req,
         wr_Action = sw_Action req, wr_Payload = sw_Payload req, wr_Status = WorkflowStatusPending, wr_ReviewedBy = [], wr_ReviewedByName = [],
         wr_ReviewNote = [], wr_ReviewedAt = None, wr_ExecutedAt = None, wr_ErrorMessage = [] \<rparr> d"

definition reviewable :: "db_env \<Rightarrow> string \<Rightarrow> string \<Rightarrow> db \<Rightarrow> svc_error + WorkflowRequest" where
  "reviewable env verb i d =
     (case Workflows_GetByID env i d of
        Inl _ \<Rightarrow> Err (Msg ''workflow request not found'')
      | Inr wr \<Rightarrow>
          if wr_Status wr \<noteq> WorkflowStatusPending
          then Err (Msg (''cannot '' @ verb @ '' a request with status '' @ CHR 0x22 # workflow_text (wr_Status wr) @ [CHR 0x22]))
          else Ok wr)"

definition reviewed :: "string \<Rightarrow> string \<Rightarrow> string \<Rightarrow> int \<Rightarrow> WorkflowRequest \<Rightarrow> WorkflowRequest" where
  "reviewed reviewerID reviewerName note now wr =
     wr\<lparr> wr_ReviewedBy := reviewerID, wr_ReviewedByName := reviewerName, wr_ReviewedAt := Some now, wr_ReviewNote := note \<rparr>"

definition approve_write :: "db_env \<Rightarrow> WorkflowRequest \<Rightarrow> string \<Rightarrow> string \<Rightarrow> string \<Rightarrow> db \<Rightarrow> (svc_error + WorkflowRequest) \<times> db" where
  "approve_write env wr reviewerID reviewerName note d =
     (case Workflows_UpdateStatus env (wr_ID wr) WorkflowStatusApproved (reviewed reviewerID reviewerName note (de_now env)) d of
        (Some e, d') \<Rightarrow> (Err (DbErr e), d')
      | (None, d') \<Rightarrow> (Ok (reviewed reviewerID reviewerName note (de_now env) (wr\<lparr> wr_Status := WorkflowStatusApproved \<rparr>)), d'))"

definition Approve :: "db_env \<Rightarrow> string \<Rightarrow> string \<Rightarrow> string \<Rightarrow> string \<Rightarrow> db \<Rightarrow> (svc_error + WorkflowRequest) \<times> db" where
  "Approve env i reviewerID reviewerName note d =
     (case reviewable env ''approve'' i d of Inl e \<Rightarrow> (Err e, d) | Inr wr \<Rightarrow> approve_write env wr reviewerID reviewerName note d)"

definition reject_write :: "db_env \<Rightarrow> WorkflowRequest \<Rightarrow> string \<Rightarrow> string \<Rightarrow> string \<Rightarrow> db \<Rightarrow> (svc_error + unit) \<times> db" where
  "reject_write env wr reviewerID reviewerName note d =
     db_result (Workflows_UpdateStatus env (wr_ID wr) WorkflowStatusRejected (reviewed reviewerID reviewerName note (de_now env)) d)"

definition Reject :: "db_env \<Rightarrow> string \<Rightarrow> string \<Rightarrow> string \<Rightarrow> string \<Rightarrow> db \<Rightarrow> (svc_error + unit) \<times> db" where
  "Reject env i reviewerID reviewerName note d =
     (case reviewable env ''reject'' i d of Inl e \<Rightarrow> (Err e, d) | Inr wr \<Rightarrow> reject_write env wr reviewerID reviewerName note d)"

definition executorKey :: "string \<Rightarrow> string \<Rightarrow> string" where
  "executorKey resourceType action = resourceType @ '':'' @ action"

type_synonym 'w executor = "string \<Rightarrow> db \<times> 'w \<Rightarrow> string option \<times> db \<times> 'w"

definition RegisterExecutor :: "string \<Rightarrow> string \<Rightarrow> 'w executor \<Rightarrow> (string \<rightharpoonup> 'w executor) \<Rightarrow> string \<rightharpoonup> 'w executor" where
  "RegisterExecutor resourceType action fn exs = exs(executorKey resourceType action \<mapsto> fn)"

definition execute_request :: "db_env \<Rightarrow> (string \<rightharpoonup> 'w executor) \<Rightarrow> WorkflowRequest \<Rightarrow> db \<times> 'w \<Rightarrow> db \<times> 'w" where
  "execute_request env exs wr = (\<lambda>(d, w).
     let key = executorKey (wr_ResourceType wr) (wr_Action wr)
     in case exs key of
          None \<Rightarrow>
            (snd (Workflows_UpdateStatus env (wr_ID wr) WorkflowStatusFailed
               (\<lambda>r. r\<lparr> wr_ExecutedAt := Some (de_now env), wr_ErrorMessage := ''no executor registered for '' @ CHR 0x22 # key @ [CHR 0x22] \<rparr>) d), w)
        | Some fn \<Rightarrow>
            (case fn (wr_Payload wr) (d, w) of
               (Some e, d', w') \<Rightarrow>
                 (snd (Workflows_UpdateStatus env (wr_ID wr) WorkflowStatusFailed (\<lambda>r. r\<lparr> wr_ExecutedAt := Some (de_now env), wr_ErrorMessage := e \<rparr>) d'), w')
             | (None, d', w') \<Rightarrow>
                 (snd (Workflows_UpdateStatus env (wr_ID wr) WorkflowStatusExecuted (\<lambda>r. r\<lparr> wr_ExecutedAt := Some (de_now env) \<rparr>) d'), w')))"

definition policy_executor :: "'w policy_api \<Rightarrow> pol_env \<Rightarrow> 'w executor" where
  "policy_executor api env payload st =
     (case po_policyId env payload of Inl e \<Rightarrow> (Some e, st) | Inr i \<Rightarrow> policy_Apply api env i st)"

definition registerPolicyExecutor :: "'w policy_api \<Rightarrow> pol_env \<Rightarrow> (string \<rightharpoonup> 'w executor) \<Rightarrow> string \<rightharpoonup> 'w executor" where
  "registerPolicyExecutor api env = RegisterExecutor ''policy'' ''create'' (policy_executor api env)"

section \<open>Handlers\<close>

text \<open>The policy routes require the role of a viewer; \<open>put\<close> tells the update route from the create route.\<close>

definition createOrUpdatePolicy ::
  "'w policy_api \<Rightarrow> pol_env \<Rightarrow> bool \<Rightarrow> gctx \<Rightarrow> PolicyDto option \<Rightarrow> db \<times> 'w \<Rightarrow> unit response \<times> db \<times> 'w" where
  "createOrUpdatePolicy api env put c body st =
     (case body of
        None \<Rightarrow> (BadRequest, st)
      | Some dto \<Rightarrow>
          if put \<or> gc_system_role c = SystemRolePlatformAdmin
          then (case policy_ApplyDirect api env (gc_workspace_id c) (gc_user_id c) (gc_username c) dto st of
                  (Inl _, st') \<Rightarrow> (RespError, st') | (Inr _, st') \<Rightarrow> (RespOK (), st'))
          else (case policy_Submit env (gc_workspace_id c) (gc_user_id c) (gc_username c) dto (fst st) of
                  (Inl _, d) \<Rightarrow> (RespError, d, snd st)
                | (Inr r, d) \<Rightarrow>
                    (case workflow_Submit (po_db env)
                            \<lparr> sw_WorkspaceID = gc_workspace_id c, sw_RequestedBy = gc_user_id c, sw_RequestedByName = gc_username c,
                              sw_RequestedByEmail = gc_email c, sw_ResourceType = ''policy'', sw_ResourceName = dp_Name dto,
                              sw_Action = ''create'', sw_Payload = po_payload env (pl_ID r) \<rparr> d of
                       (Inl _, d') \<Rightarrow> (RespError, d', snd st)
                     | (Inr _, d') \<Rightarrow> (RespAccepted (), d', snd st))))"

definition policy_route ::
  "'w policy_api \<Rightarrow> pol_env \<Rightarrow> auth_env \<Rightarrow> RevocationList option \<Rightarrow> bool \<Rightarrow> request \<Rightarrow> PolicyDto option \<Rightarrow> db \<times> 'w \<Rightarrow> unit response \<times> db \<times> 'w" where
  "policy_route api env auth rl put rq body st =
     (case WorkspaceAuthMiddleware auth rl RoleViewer rq gctx0 (fst st) of
        Inl r \<Rightarrow> (r, st) | Inr c \<Rightarrow> createOrUpdatePolicy api env put c body st)"

definition deletePolicy_route ::
  "'w policy_api \<Rightarrow> pol_env \<Rightarrow> auth_env \<Rightarrow> RevocationList option \<Rightarrow> request \<Rightarrow> string \<Rightarrow> db \<times> 'w \<Rightarrow> unit response \<times> db \<times> 'w" where
  "deletePolicy_route api env auth rl rq name st =
     (case WorkspaceAuthMiddleware auth rl RoleViewer rq gctx0 (fst st) of
        Inl r \<Rightarrow> (r, st)
      | Inr c \<Rightarrow>
          if name = [] then (BadRequest, st)
          else (case DeletePolicy api env (gc_workspace_id c) name st of (Some _, st') \<Rightarrow> (RespError, st') | (None, st') \<Rightarrow> (RespOK (), st')))"

text \<open>The workspace route of an approval; the request handed to the goroutine is the second result.\<close>

definition handleApproveWorkflowRequest ::
  "db_env \<Rightarrow> gctx \<Rightarrow> string \<Rightarrow> string \<Rightarrow> db \<Rightarrow> unit response \<times> WorkflowRequest option \<times> db" where
  "handleApproveWorkflowRequest env c i note d =
     (case Approve env i (gc_user_id c) (gc_username c) note d of
        (Inl _, d') \<Rightarrow> (RespError, None, d') | (Inr wr, d') \<Rightarrow> (RespOK (), Some wr, d'))"

definition handleRejectWorkflowRequest :: "db_env \<Rightarrow> gctx \<Rightarrow> string \<Rightarrow> string \<Rightarrow> db \<Rightarrow> unit response \<times> db" where
  "handleRejectWorkflowRequest env c i note d =
     (case Reject env i (gc_user_id c) (gc_username c) note d of (Inl _, d') \<Rightarrow> (RespError, d') | (Inr _, d') \<Rightarrow> (RespOK (), d'))"

definition approve_route ::
  "auth_env \<Rightarrow> RevocationList option \<Rightarrow> request \<Rightarrow> string \<Rightarrow> string \<Rightarrow> db \<Rightarrow> unit response \<times> WorkflowRequest option \<times> db" where
  "approve_route auth rl rq i note d =
     (case WorkspaceAuthMiddleware auth rl RoleViewer rq gctx0 d of
        Inl r \<Rightarrow> (r, None, d) | Inr c \<Rightarrow> handleApproveWorkflowRequest (ae_db auth) c i note d)"

record workflow_body =
  wb_ResourceType :: string
  wb_ResourceName :: string
  wb_Action :: string
  wb_Payload :: "string option"

text \<open>The body binds only when the resource type and the action are present.\<close>

definition handleSubmitWorkflowRequest ::
  "db_env \<Rightarrow> gctx \<Rightarrow> request \<Rightarrow> workflow_body option \<Rightarrow> db \<Rightarrow> WorkflowRequest response \<times> db" where
  "handleSubmitWorkflowRequest env c rq body d =
     (case body of
        None \<Rightarrow> (BadRequest, d)
      | Some b \<Rightarrow>
          if wb_ResourceType b = [] \<or> wb_Action b = [] then (BadRequest, d)
          else (case workflow_Submit env
                       \<lparr> sw_WorkspaceID = rq_id rq, sw_RequestedBy = gc_user_id c, sw_RequestedByName = gc_username c,
                         sw_RequestedByEmail = gc_email c, sw_ResourceType = wb_ResourceType b, sw_ResourceName = wb_ResourceName b,
                         sw_Action = wb_Action b, sw_Payload = (case wb_Payload b of None \<Rightarrow> ''{}'' | Some p \<Rightarrow> p) \<rparr> d of
                  (Inl _, d') \<Rightarrow> (RespError, d') | (Inr wr, d') \<Rightarrow> (RespAccepted wr, d')))"

definition handleGetWorkflowRequest :: "db_env \<Rightarrow> string \<Rightarrow> db \<Rightarrow> WorkflowRequest response" where
  "handleGetWorkflowRequest env i d =
     (if i = [] then BadRequest else (case Workflows_GetByID env i d of Inl _ \<Rightarrow> RespError | Inr wr \<Rightarrow> RespOK wr))"

text \<open>The platform routes of the same handlers have the check for platform administrators as their only middleware.\<close>

definition platform_approve_route :: "db_env \<Rightarrow> string \<Rightarrow> string \<Rightarrow> db \<Rightarrow> unit response \<times> WorkflowRequest option \<times> db" where
  "platform_approve_route env i note d =
     (case PlatformAdminOnly gctx0 of Inl r \<Rightarrow> (r, None, d) | Inr c \<Rightarrow> handleApproveWorkflowRequest env c i note d)"

section \<open>Histories of requests\<close>

text \<open>
  Decisions are taken one after the other; the goroutines they start run at any later time and in any order.
  \<open>wf_pending\<close> holds the requests handed to goroutines that have not run, \<open>wf_log\<close> the requests executed so far.
\<close>

record 'w wf_state =
  wf_db :: db
  wf_kube :: 'w
  wf_pending :: "WorkflowRequest list"
  wf_log :: "string list"

datatype wf_op =
  SubmitOp SubmitWorkflowReq
| ApproveOp string string string string
| RejectOp string string string string
| RunOp nat

fun wf_step :: "(string \<rightharpoonup> 'w executor) \<Rightarrow> db_env \<times> wf_op \<Rightarrow> 'w wf_state \<Rightarrow> 'w wf_state" where
  "wf_step exs (env, SubmitOp req) s = s\<lparr> wf_db := snd (workflow_Submit env req (wf_db s)) \<rparr>"
| "wf_step exs (env, ApproveOp i r n note) s =
     (case Approve env i r n note (wf_db s) of
        (Inl _, d) \<Rightarrow> s\<lparr> wf_db := d \<rparr> | (Inr wr, d) \<Rightarrow> s\<lparr> wf_db := d, wf_pending := wf_pending s @ [wr] \<rparr>)"
| "wf_step exs (env, RejectOp i r n note) s = s\<lparr> wf_db := snd (Reject env i r n note (wf_db s)) \<rparr>"
| "wf_step exs (env, RunOp k) s =
     (if k < length (wf_pending s)
      then (let wr = wf_pending s ! k; (d, w) = execute_request env exs wr (wf_db s, wf_kube s)
            in s\<lparr> wf_db := d, wf_kube := w, wf_pending := take k (wf_pending s) @ drop (Suc k) (wf_pending s), wf_log := wf_log s @ [wr_ID wr] \<rparr>)
      else s)"

definition wf_run :: "(string \<rightharpoonup> 'w executor) \<Rightarrow> (db_env \<times> wf_op) list \<Rightarrow> 'w wf_state \<Rightarrow> 'w wf_state" where
  "wf_run exs ops s = fold (wf_step exs) ops s"

definition started :: "'w wf_state \<Rightarrow> string list" where
  "started s = map wr_ID (wf_pending s) @ wf_log s"

definition decided :: "WorkflowRequest \<Rightarrow> bool" where
  "decided r \<longleftrightarrow> wr_Status r \<in> {WorkflowStatusApproved, WorkflowStatusExecuted, WorkflowStatusFailed} \<and> wr_ReviewedAt r \<noteq> None"

definition wf_ok :: "'w wf_state \<Rightarrow> bool" where
  "wf_ok s \<longleftrightarrow> distinct (map wr_ID (db_workflows (wf_db s))) \<and> distinct (started s) \<and>
     (\<forall>i\<in>set (started s). \<exists>r\<in>set (db_workflows (wf_db s)). wr_ID r = i \<and> decided r)"

definition keeps_workflows :: "(string \<rightharpoonup> 'w executor) \<Rightarrow> bool" where
  "keeps_workflows exs \<longleftrightarrow> (\<forall>k fn p d w. exs k = Some fn \<longrightarrow> db_workflows (fst (snd (fn p (d, w)))) = db_workflows d)"

definition touch :: "string \<Rightarrow> (WorkflowRequest \<Rightarrow> WorkflowRequest) \<Rightarrow> db \<Rightarrow> db" where
  "touch i f d = d\<lparr> db_workflows := map (\<lambda>r. if wr_ID r = i then f r else r) (db_workflows d) \<rparr>"

lemma UpdateStatus_cases:
  obtains e where "Workflows_UpdateStatus env i st f d = (Some e, d)"
  | "Workflows_UpdateStatus env i st f d = (None, touch i (\<lambda>r. f (r\<lparr> wr_Status := st \<rparr>)) d)"
  by (cases "de_fault env d ''UPDATE'' ''t_workflow_request''")
    (auto simp: Workflows_UpdateStatus_def Update_where_def touch_def)

lemma touch_ids: "(\<And>r. wr_ID (f r) = wr_ID r) \<Longrightarrow> map wr_ID (db_workflows (touch i f d)) = map wr_ID (db_workflows d)"
  by (simp add: touch_def)

lemma touch_keeps:
  assumes "r \<in> set (db_workflows d)" "decided r" "\<And>r. wr_ID (f r) = wr_ID r" "wr_ID r = i \<Longrightarrow> decided (f r)"
  shows "\<exists>q\<in>set (db_workflows (touch i f d)). wr_ID q = wr_ID r \<and> decided q"
proof
  let ?q = "if wr_ID r = i then f r else r"
  show "?q \<in> set (db_workflows (touch i f d))" using assms(1) unfolding touch_def by simp
  show "wr_ID ?q = wr_ID r \<and> decided ?q" using assms(2-4) by simp
qed

lemma reviewable_Ok:
  assumes "reviewable env verb i d = Ok wr"
  shows "wr \<in> set (db_workflows d) \<and> wr_ID wr = i \<and> wr_Status wr = WorkflowStatusPending"
proof (cases "Workflows_GetByID env i d")
  case (Inl e)
  then show ?thesis using assms by (simp add: reviewable_def)
next
  case (Inr r)
  then have "r = wr" "wr_Status wr = WorkflowStatusPending" using assms by (auto simp: reviewable_def split: if_splits)
  moreover have "r \<in> set (db_workflows d) \<and> wr_ID r = i" using First_Ok [OF Inr [unfolded Workflows_GetByID_def]] by simp
  ultimately show ?thesis by simp
qed

lemma pending_not_started:
  assumes "wf_ok s" "wr \<in> set (db_workflows (wf_db s))" "wr_Status wr = WorkflowStatusPending"
  shows "wr_ID wr \<notin> set (started s)"
proof
  assume "wr_ID wr \<in> set (started s)"
  then obtain r where r: "r \<in> set (db_workflows (wf_db s))" "wr_ID r = wr_ID wr" "decided r" using assms(1) unfolding wf_ok_def by blast
  moreover have "distinct (map wr_ID (db_workflows (wf_db s)))" using assms(1) by (simp add: wf_ok_def)
  ultimately have "r = wr" using assms(2) by (metis distinct_map inj_onD)
  then show False using r(3) assms(3) by (simp add: decided_def)
qed

lemma wf_ok_touch:
  assumes "wf_ok s" "\<And>r. wr_ID (f r) = wr_ID r" "\<And>r. i \<in> set (started s) \<Longrightarrow> decided r \<Longrightarrow> decided (f r)"
  shows "wf_ok (s\<lparr> wf_db := touch i f (wf_db s) \<rparr>)"
proof -
  have "\<exists>q\<in>set (db_workflows (touch i f (wf_db s))). wr_ID q = j \<and> decided q" if j: "j \<in> set (started s)" for j
  proof -
    obtain r where r: "r \<in> set (db_workflows (wf_db s))" "wr_ID r = j" "decided r" using assms(1) j unfolding wf_ok_def by blast
    show ?thesis using touch_keeps [OF r(1,3) assms(2), where i = i] assms(3) [OF _ r(3)] r(2) j by auto
  qed
  then show ?thesis using assms(1) touch_ids [of f i "wf_db s", OF assms(2)] by (simp add: wf_ok_def started_def)
qed

lemma wf_ok_db: "wf_ok s \<Longrightarrow> db_workflows d = db_workflows (wf_db s) \<Longrightarrow> wf_ok (s\<lparr> wf_db := d, wf_kube := w \<rparr>)"
  by (simp add: wf_ok_def started_def)

lemma reviewed_simps [simp]:
  "wr_ID (reviewed a b c t r) = wr_ID r" "wr_Status (reviewed a b c t r) = wr_Status r" "wr_ReviewedAt (reviewed a b c t r) = Some t"
  by (simp_all add: reviewed_def)

lemma wf_ok_Submit:
  assumes "wf_ok s"
  shows "wf_ok (wf_step exs (env, SubmitOp req) s)"
proof -
  obtain x d where c: "workflow_Submit env req (wf_db s) = (x, d)" by (cases "workflow_Submit env req (wf_db s)")
  from c [unfolded workflow_Submit_def] show ?thesis
  proof (cases rule: Create_row_cases)
    case (failed e)
    then show ?thesis using c assms by simp
  next
    case created
    then show ?thesis using c assms by (auto simp: wf_ok_def started_def list_ex_iff)
  qed
qed

lemma wf_ok_Approve:
  assumes "wf_ok s"
  shows "wf_ok (wf_step exs (env, ApproveOp i r n note) s)"
proof (cases "reviewable env ''approve'' i (wf_db s)")
  case (Inl e)
  then show ?thesis using assms by (simp add: Approve_def)
next
  case (Inr wr)
  note w = reviewable_Ok [OF Inr]
  have fresh: "i \<notin> set (started s)" using pending_not_started [OF assms] w by blast
  let ?f = "\<lambda>q. reviewed r n note (de_now env) (q\<lparr> wr_Status := WorkflowStatusApproved \<rparr>)"
  show ?thesis
  proof (rule UpdateStatus_cases [of env "wr_ID wr" WorkflowStatusApproved "reviewed r n note (de_now env)" "wf_db s"])
    fix e assume "Workflows_UpdateStatus env (wr_ID wr) WorkflowStatusApproved (reviewed r n note (de_now env)) (wf_db s) = (Some e, wf_db s)"
    then show ?thesis using assms Inr by (simp add: Approve_def approve_write_def)
  next
    assume u: "Workflows_UpdateStatus env (wr_ID wr) WorkflowStatusApproved (reviewed r n note (de_now env)) (wf_db s) = (None, touch (wr_ID wr) ?f (wf_db s))"
    have ok: "wf_ok (s\<lparr> wf_db := touch i ?f (wf_db s) \<rparr>)" by (rule wf_ok_touch [OF assms]) (use fresh in simp_all)
    have "?f wr \<in> set (db_workflows (touch i ?f (wf_db s)))" using w by (force simp: touch_def)
    moreover have "decided (?f wr)" "wr_ID (?f wr) = i" using w by (simp_all add: decided_def)
    ultimately have "\<exists>q\<in>set (db_workflows (touch i ?f (wf_db s))). wr_ID q = i \<and> decided q" by blast
    then have "wf_ok (s\<lparr> wf_db := touch i ?f (wf_db s), wf_pending := wf_pending s @ [?f wr] \<rparr>)"
      using ok fresh w by (auto simp: wf_ok_def started_def)
    then show ?thesis using u Inr w by (simp add: Approve_def approve_write_def)
  qed
qed

lemma wf_ok_Reject:
  assumes "wf_ok s"
  shows "wf_ok (wf_step exs (env, RejectOp i r n note) s)"
proof (cases "reviewable env ''reject'' i (wf_db s)")
  case (Inl e)
  then show ?thesis using assms by (simp add: Reject_def)
next
  case (Inr wr)
  note w = reviewable_Ok [OF Inr]
  have fresh: "wr_ID wr \<notin> set (started s)" using pending_not_started [OF assms] w by blast
  show ?thesis
    by (rule UpdateStatus_cases [of env "wr_ID wr" WorkflowStatusRejected "reviewed r n note (de_now env)" "wf_db s"])
      (use assms Inr wf_ok_touch [OF assms, where i = "wr_ID wr"] fresh in \<open>simp_all add: Reject_def reject_write_def db_result_def\<close>)
qed

lemma execute_request_cases:
  assumes "execute_request env exs wr (d, w) = (d', w')" "keeps_workflows exs"
  obtains d1 where "db_workflows d1 = db_workflows d" "d' = d1"
  | d1 st f where "db_workflows d1 = db_workflows d" "d' = touch (wr_ID wr) (\<lambda>r. f (r\<lparr> wr_Status := st \<rparr>)) d1"
      "st = WorkflowStatusFailed \<or> st = WorkflowStatusExecuted" "\<And>r. wr_ID (f r) = wr_ID r" "\<And>r. wr_Status (f r) = wr_Status r" "\<And>r. wr_ReviewedAt (f r) = wr_ReviewedAt r"
proof -
  obtain d1 st f where d1: "db_workflows d1 = db_workflows d" "d' = snd (Workflows_UpdateStatus env (wr_ID wr) st f d1)" "st = WorkflowStatusFailed \<or> st = WorkflowStatusExecuted"
    and f: "\<And>r. wr_ID (f r) = wr_ID r" "\<And>r. wr_Status (f r) = wr_Status r" "\<And>r. wr_ReviewedAt (f r) = wr_ReviewedAt r"
  proof (cases "exs (executorKey (wr_ResourceType wr) (wr_Action wr))")
    case None
    show ?thesis
      by (rule that [of d WorkflowStatusFailed "\<lambda>r. r\<lparr> wr_ExecutedAt := Some (de_now env),
            wr_ErrorMessage := ''no executor registered for '' @ CHR 0x22 # executorKey (wr_ResourceType wr) (wr_Action wr) @ [CHR 0x22] \<rparr>"])
        (use None assms(1) in \<open>simp_all add: execute_request_def Let_def\<close>)
  next
    case (Some fn)
    obtain e d1 w1 where x: "fn (wr_Payload wr) (d, w) = (e, d1, w1)" by (metis prod_cases3)
    have d1: "db_workflows d1 = db_workflows d" using assms(2) Some x unfolding keeps_workflows_def by (metis fst_conv snd_conv)
    show ?thesis
    proof (cases e)
      case None
      show ?thesis by (rule that [of d1 WorkflowStatusExecuted "\<lambda>r. r\<lparr> wr_ExecutedAt := Some (de_now env) \<rparr>"])
          (use Some None x d1 assms(1) in \<open>simp_all add: execute_request_def Let_def\<close>)
    next
      case e: (Some m)
      show ?thesis by (rule that [of d1 WorkflowStatusFailed "\<lambda>r. r\<lparr> wr_ExecutedAt := Some (de_now env), wr_ErrorMessage := m \<rparr>"])
          (use Some e x d1 assms(1) in \<open>simp_all add: execute_request_def Let_def\<close>)
    qed
  qed
  show thesis
  proof (cases rule: UpdateStatus_cases [of env "wr_ID wr" st f d1])
    case (1 e)
    then show ?thesis using that(1) [of d1] d1 by simp
  next
    case 2
    then show ?thesis using that(2) [OF d1(1) _ d1(3) f] d1(2) by simp
  qed
qed


lemma execute_request_ok:
  assumes "wf_ok s" "keeps_workflows exs" "execute_request env exs wr (wf_db s, wf_kube s) = (d, w)"
  shows "wf_ok (s\<lparr> wf_db := d, wf_kube := w \<rparr>)"
  using assms(3,2)
proof (cases rule: execute_request_cases)
  case (1 d1)
  then show ?thesis using wf_ok_db [OF assms(1)] by simp
next
  case (2 d1 st f)
  have "wf_ok (s\<lparr> wf_db := d1, wf_kube := w \<rparr>)" by (rule wf_ok_db [OF assms(1) 2(1)])
  then have "wf_ok (s\<lparr> wf_db := d1, wf_kube := w, wf_db := touch (wr_ID wr) (\<lambda>r. f (r\<lparr> wr_Status := st \<rparr>)) d1 \<rparr>)"
    using wf_ok_touch [of "s\<lparr> wf_db := d1, wf_kube := w \<rparr>" "\<lambda>r. f (r\<lparr> wr_Status := st \<rparr>)" "wr_ID wr"] 2(3-6) by (auto simp: decided_def)
  then show ?thesis using 2(2) by (simp add: wf_ok_def started_def)
qed

lemma wf_ok_moved:
  assumes "wf_ok s" "k < length (wf_pending s)"
  shows "wf_ok (s\<lparr> wf_pending := take k (wf_pending s) @ drop (Suc k) (wf_pending s), wf_log := wf_log s @ [wr_ID (wf_pending s ! k)] \<rparr>)"
proof -
  let ?p = "wf_pending s"
  have p: "?p = take k ?p @ ?p ! k # drop (Suc k) ?p" using id_take_nth_drop [OF assms(2)] .
  then have "map wr_ID ?p = map wr_ID (take k ?p) @ wr_ID (?p ! k) # map wr_ID (drop (Suc k) ?p)" by (metis list.simps(9) map_append)
  then have st: "started s = map wr_ID (take k ?p) @ wr_ID (?p ! k) # map wr_ID (drop (Suc k) ?p) @ wf_log s" by (simp add: started_def)
  let ?q = "map wr_ID (take k ?p @ drop (Suc k) ?p) @ wf_log s @ [wr_ID (?p ! k)]"
  have "distinct ?q \<longleftrightarrow> distinct (started s)" unfolding st map_append by auto
  moreover have "set ?q = set (started s)" unfolding st map_append by auto
  ultimately show ?thesis using assms(1) by (simp add: wf_ok_def started_def)
qed

lemma wf_ok_Run:
  assumes "wf_ok s" "keeps_workflows exs"
  shows "wf_ok (wf_step exs (env, RunOp k) s)"
proof (cases "k < length (wf_pending s)")
  case True
  obtain d w where x: "execute_request env exs (wf_pending s ! k) (wf_db s, wf_kube s) = (d, w)" by (metis surj_pair)
  show ?thesis using wf_ok_moved [OF execute_request_ok [OF assms x]] True x by simp
qed (use assms in simp)

lemma wf_ok_run:
  assumes "keeps_workflows exs"
  shows "wf_ok s \<Longrightarrow> wf_ok (wf_run exs ops s)"
  unfolding wf_run_def
proof (induction ops arbitrary: s)
  case (Cons x ops)
  obtain env c where x: "x = (env, c)" by (cases x)
  have "wf_ok (wf_step exs x s)"
    unfolding x by (cases c) (simp_all only: wf_ok_Submit wf_ok_Approve wf_ok_Reject wf_ok_Run Cons.prems assms)
  then show ?case using Cons.IH by simp
qed simp

lemma Policies_Update_workflows: "db_workflows (snd (Policies_Update env r d)) = db_workflows d"
proof -
  obtain x d' where c: "Create_row env policies r d = (x, d')" by (cases "Create_row env policies r d")
  then have "db_workflows d' = db_workflows d" by (cases rule: Create_row_cases) simp_all
  moreover have "snd (Policies_Update env r d) \<in> {d, d', d\<lparr> db_policies := map (\<lambda>q. if pl_ID q = pl_ID r then r else q) (db_policies d) \<rparr>}"
    unfolding Policies_Update_def c by (cases x) (simp_all del: tables split: option.splits)
  ultimately show ?thesis by auto
qed

lemma policy_Apply_workflows: "db_workflows (fst (snd (policy_Apply api env i (d, w)))) = db_workflows d"
proof -
  have [simp]: "Policies_Update e r d = (x, d') \<Longrightarrow> db_workflows d' = db_workflows d" for e r x d'
    using Policies_Update_workflows [of e r d] by simp
  show ?thesis by (simp add: policy_Apply_def Policies_Update_workflows split: sum.splits prod.splits option.splits)
qed

lemma policy_executors_keep: "keeps_workflows (registerPolicyExecutor api env Map.empty)"
  by (auto simp: keeps_workflows_def registerPolicyExecutor_def RegisterExecutor_def policy_executor_def policy_Apply_workflows split: sum.splits if_splits)


definition wf_start :: "db \<Rightarrow> 'w \<Rightarrow> 'w wf_state" where
  "wf_start d w = \<lparr> wf_db = d\<lparr> db_workflows := [] \<rparr>, wf_kube = w, wf_pending = [], wf_log = [] \<rparr>"


section \<open>Approval against direct application\<close>

text \<open>What the code relies on of \<open>encoding/json\<close>: decoding what was encoded gives the value back.\<close>

definition json_ok :: "pol_env \<Rightarrow> bool" where
  "json_ok env \<longleftrightarrow>
     (\<forall>sp s. po_spec_json env sp = Inr s \<longrightarrow> po_spec_of env s = Inr sp) \<and>
     (\<forall>ts s. po_types_json env ts = Inr s \<longrightarrow> po_types_of env s = ts) \<and>
     (\<forall>i. po_policyId env (po_payload env i) = Inr i)"

lemma First_unique:
  assumes "de_fault env d ''SELECT'' (tb_name t) = None" "r \<in> set (tb_get t d)" "\<not> tb_deleted t r" "P r"
    "\<And>s. s \<in> set (tb_get t d) \<Longrightarrow> P s \<Longrightarrow> s = r"
  shows "First env t P d = Ok r"
proof (cases "row_first t P d")
  case None
  then show ?thesis using assms(2-4) by (simp add: first_none)
next
  case (Some s)
  then have "s = r" using first_in [OF Some] assms(5) by blast
  then show ?thesis using Some assms(1) by (simp add: First_def)
qed

lemma policy_Submit_Ok:
  assumes "policy_Submit env wsID u n dto d = (Ok r, d')" "json_ok env"
  shows "pl_WorkspaceID r = wsID" "pl_Name r = dp_Name dto" "pl_Action r = dp_Action dto" "pl_Description r = dp_Description dto"
    "po_spec_of env (pl_Spec r) = Inr (dp_Spec dto)" "po_types_of env (pl_PolicyTypes r) = dp_PolicyTypes dto" "\<not> pl_Deleted r"
    "d' = d\<lparr> db_policies := db_policies d @ [r] \<rparr>" "\<And>s. s \<in> set (db_policies d) \<Longrightarrow> pl_ID s \<noteq> pl_ID r"
proof -
  obtain spec where spec: "po_spec_json env (dp_Spec dto) = Inr spec" using assms(1) by (cases "po_spec_json env (dp_Spec dto)") (simp_all add: policy_Submit_def)
  obtain types where types: "po_types_json env (dp_PolicyTypes dto) = Inr types"
    using assms(1) spec by (cases "po_types_json env (dp_PolicyTypes dto)") (simp_all add: policy_Submit_def)
  let ?r = "(empty_policy wsID (dp_Name dto))\<lparr> pl_Description := dp_Description dto, pl_Action := dp_Action dto, pl_PolicyTypes := types,
      pl_Spec := spec, pl_Status := PolicyStatusPending, pl_CreatedBy := u, pl_CreatedByName := n \<rparr>"
  obtain x d1 where c: "Create_row (po_db env) policies ?r d = (x, d1)" by (cases "Create_row (po_db env) policies ?r d")
  have x: "x = Inr r" "d1 = d'" using assms(1) c by (simp_all del: tables add: policy_Submit_def spec types split: sum.splits)
  from c have "r = ?r\<lparr> pl_ID := de_uuid (po_db env) d \<rparr> \<and> d' = d\<lparr> db_policies := db_policies d @ [r] \<rparr> \<and> (\<forall>s\<in>set (db_policies d). pl_ID s \<noteq> pl_ID r)"
    by (cases rule: Create_row_cases) (use x in \<open>auto simp: empty_policy_def or_old_def list_ex_iff\<close>)
  then show "pl_WorkspaceID r = wsID" "pl_Name r = dp_Name dto" "pl_Action r = dp_Action dto" "pl_Description r = dp_Description dto"
    "po_spec_of env (pl_Spec r) = Inr (dp_Spec dto)" "po_types_of env (pl_PolicyTypes r) = dp_PolicyTypes dto" "\<not> pl_Deleted r"
    "d' = d\<lparr> db_policies := db_policies d @ [r] \<rparr>" "\<And>s. s \<in> set (db_policies d) \<Longrightarrow> pl_ID s \<noteq> pl_ID r"
    using assms(2) spec types by (auto simp: json_ok_def empty_policy_def)
qed

lemma workflow_Submit_Ok:
  assumes "workflow_Submit env req d = (Ok q, d')"
  shows "d' = d\<lparr> db_workflows := db_workflows d @ [q] \<rparr>" "wr_Payload q = sw_Payload req" "wr_ResourceType q = sw_ResourceType req"
    "wr_Action q = sw_Action req" "\<And>s. s \<in> set (db_workflows d) \<Longrightarrow> wr_ID s \<noteq> wr_ID q"
  using assms [unfolded workflow_Submit_def] by (cases rule: Create_row_cases; force simp: list_ex_iff)+

lemma Approve_Ok:
  assumes "Approve env i r n note d = (Ok wr, d')"
  obtains q where "q \<in> set (db_workflows d)" "wr_ID q = i" "wr_Payload wr = wr_Payload q" "wr_ResourceType wr = wr_ResourceType q" "wr_Action wr = wr_Action q"
    "db_policies d' = db_policies d" "db_workspaces d' = db_workspaces d"
proof (cases "reviewable env ''approve'' i d")
  case (Inl e)
  then show ?thesis using assms by (simp add: Approve_def)
next
  case (Inr q)
  show ?thesis
  proof (cases rule: UpdateStatus_cases [of env "wr_ID q" WorkflowStatusApproved "reviewed r n note (de_now env)" d])
    case (1 e)
    then show ?thesis using assms Inr by (simp add: Approve_def approve_write_def)
  next
    case 2
    then show ?thesis using assms Inr reviewable_Ok [OF Inr] that [of q] by (auto simp: Approve_def approve_write_def reviewed_def touch_def)
  qed
qed

lemma First_cong_table: "tb_get t d = tb_get t d' \<Longrightarrow> answers_queries env d \<Longrightarrow> answers_queries env d' \<Longrightarrow> First env t P d = First env t P d'"
  by (simp add: First_def row_first_def visible_def answers_queries_def)

lemma execute_policy_world:
  assumes "wr_ResourceType wr = ''policy''" "wr_Action wr = ''create''" "po_policyId env (wr_Payload wr) = Inr i"
  shows "snd (execute_request dbenv (registerPolicyExecutor api env Map.empty) wr (d, w)) = snd (snd (policy_Apply api env i (d, w)))"
  by (simp add: execute_request_def assms registerPolicyExecutor_def RegisterExecutor_def executorKey_def policy_executor_def split: prod.splits option.splits)


text \<open>C18: A policy submitted by a user who is not a platform administrator and approved later leaves the cluster as
  the direct application of the same request would have: the object applied, its labels and annotations
  are the same, whether or not the cluster accepts it and whether or not the workspace exists. The code
  relies on JSON decoding what it encoded and on the database answering queries.
\<close>

theorem approved_as_direct:
  assumes "json_ok env" "\<And>d. answers_queries (po_db env) d" "gc_system_role c \<noteq> SystemRolePlatformAdmin"
    and submitted: "createOrUpdatePolicy api env False c (Some dto) (d, w) = (RespAccepted (), d1, w1)"
    and approved: "Approve (po_db env) (wr_ID (last (db_workflows d1))) reviewer name note d1 = (Ok wr, d2)"
  shows "snd (execute_request (po_db env) (registerPolicyExecutor api env Map.empty) wr (d2, w1)) =
    snd (snd (policy_ApplyDirect api env (gc_workspace_id c) operatorID operatorName dto (d, w)))"
proof -
  obtain r da where r: "policy_Submit env (gc_workspace_id c) (gc_user_id c) (gc_username c) dto d = (Ok r, da)"
    using submitted assms(3) by (cases "policy_Submit env (gc_workspace_id c) (gc_user_id c) (gc_username c) dto d")
      (auto simp: createOrUpdatePolicy_def split: sum.splits)
  note R = policy_Submit_Ok [OF r assms(1)]
  let ?req = "\<lparr> sw_WorkspaceID = gc_workspace_id c, sw_RequestedBy = gc_user_id c, sw_RequestedByName = gc_username c, sw_RequestedByEmail = gc_email c,
      sw_ResourceType = ''policy'', sw_ResourceName = dp_Name dto, sw_Action = ''create'', sw_Payload = po_payload env (pl_ID r) \<rparr>"
  obtain q where q: "workflow_Submit (po_db env) ?req da = (Ok q, d1)" "w1 = w"
    using submitted assms(3) r by (cases "workflow_Submit (po_db env) ?req da") (auto simp: createOrUpdatePolicy_def split: sum.splits)
  note Q = workflow_Submit_Ok [OF q(1)]
  have lst: "last (db_workflows d1) = q" by (simp add: Q(1))
  obtain p where p: "p \<in> set (db_workflows d1)" "wr_ID p = wr_ID q" and wr: "wr_Payload wr = wr_Payload p" "wr_ResourceType wr = wr_ResourceType p" "wr_Action wr = wr_Action p"
    and same: "db_policies d2 = db_policies d1" "db_workspaces d2 = db_workspaces d1"
    using approved unfolding lst by (rule Approve_Ok)
  have "p = q" using p Q(5) by (auto simp: Q(1))
  then have wr: "wr_Payload wr = po_payload env (pl_ID r)" "wr_ResourceType wr = ''policy''" "wr_Action wr = ''create''" using wr Q(2-4) by simp_all
  have pols: "db_policies d2 = db_policies d @ [r]" "db_workspaces d2 = db_workspaces d" unfolding same by (simp_all add: Q(1) R(8))
  have found: "Policies_GetByID (po_db env) (pl_ID r) d2 = Ok r"
    unfolding Policies_GetByID_def by (rule First_unique) (use assms(2) pols R(7,9) in \<open>auto simp: answers_queries_def\<close>)
  have ws: "Workspaces_GetByID (po_db env) (gc_workspace_id c) d2 = Workspaces_GetByID (po_db env) (gc_workspace_id c) d"
    unfolding Workspaces_GetByID_def by (rule First_cong_table) (use assms(2) pols in simp_all)
  have i: "po_policyId env (wr_Payload wr) = Inr (pl_ID r)" using assms(1) wr(1) by (simp add: json_ok_def)
  show ?thesis unfolding execute_policy_world [OF wr(2,3) i] q(2)
    by (auto simp: policy_Apply_def policy_ApplyDirect_def found ws R(1-6) policy_crd_def Let_def split: sum.splits prod.splits option.splits)
qed

text \<open>C39: Two approvals of one request that both read it before either writes both succeed, and each hands the request to
  a goroutine: nothing in the write checks that the request is still pending.
\<close>

theorem double_approval:
  assumes "reviewable env ''approve'' i d = Ok wr" "\<And>d. de_fault env d ''UPDATE'' ''t_workflow_request'' = None"
  shows "\<exists>a b d1 d2. approve_write env wr r n note d = (Ok a, d1) \<and> approve_write env wr r' n' note' d1 = (Ok b, d2) \<and>
    wr_ID a = i \<and> wr_ID b = i \<and> wr_Payload a = wr_Payload wr \<and> wr_Payload b = wr_Payload wr"
  using reviewable_Ok [OF assms(1)] assms(2)
  by (simp add: approve_write_def Workflows_UpdateStatus_def Update_where_def reviewed_def)


lemma workspace_access_admits:
  assumes "answers_queries (ae_db env) d" "user_keys_ok d" "one_membership d"
    and "presented env rl rq = Some cl" "request_workspace rq \<noteq> []" "holds_role d (request_workspace rq) (cl_Subject cl) role"
  shows "\<exists>c. (WorkspaceAuthMiddleware env rl role rq gctx0 d :: 'a response + gctx) = Inr c"
  using require_role_complete [OF assms(6,1-3,5)] middleware_admits [OF assms(4,5)] assms(2) by (auto simp: user_keys_ok_def)

text \<open>The update route of policies applies the body to the cluster at once, without a request for approval, and it asks for
  no more than the role of a viewer: any member of the workspace, neither suspended nor removed,
  changes its policies, while the same member's creation of one waits for an administrator.
\<close>

theorem viewer_applies_policy:
  assumes "presented auth rl rq = Some cl" "request_workspace rq \<noteq> []" "holds_role d (request_workspace rq) (cl_Subject cl) RoleViewer"
    and "answers_queries (ae_db auth) d" "user_keys_ok d" "one_membership d"
    and "Workspaces_GetByID (po_db env) (request_workspace rq) d = Ok ws"
    and "pa_Apply api w (policy_crd (dp_Name dto) (ws_Namespace ws) (dp_Action dto) (dp_Description dto) (dp_PolicyTypes dto)
           ((dp_Spec dto)\<lparr> sp_Action := dp_Action dto \<rparr>)) = (None, w')"
  shows "\<exists>d'. policy_route api env auth rl True rq (Some dto) (d, w) = (RespOK (), d', w')"
proof -
  obtain c where c: "(WorkspaceAuthMiddleware auth rl RoleViewer rq gctx0 d :: unit response + gctx) = Inr c"
    using workspace_access_admits [OF assms(4-6,1-3)] by blast
  then have "gc_workspace_id c = request_workspace rq" unfolding WorkspaceAuthMiddleware_Ok by auto
  then show ?thesis using assms(7,8) c by (simp add: policy_route_def createOrUpdatePolicy_def policy_ApplyDirect_def Let_def)
qed

text \<open>C38: Approving a request asks only for the role of a viewer in the workspace that the HTTP request names, and the request approved
  is looked up by its identifier alone: any member of any workspace approves any pending request,
  also one of their own and one of another workspace. The routes meant for platform administrators
  always answer Forbidden, since no middleware of theirs reads the token.
\<close>

theorem member_approves_any_request:
  assumes "presented auth rl rq = Some cl" "request_workspace rq \<noteq> []" "holds_role d (request_workspace rq) (cl_Subject cl) RoleViewer"
    and "answers_queries (ae_db auth) d" "user_keys_ok d" "one_membership d"
    and "q \<in> set (db_workflows d)" "wr_Status q = WorkflowStatusPending" "distinct (map wr_ID (db_workflows d))"
    and "de_fault (ae_db auth) d ''UPDATE'' ''t_workflow_request'' = None"
  shows "(\<exists>wr d'. approve_route auth rl rq (wr_ID q) note d = (RespOK (), Some wr, d') \<and> wr_ID wr = wr_ID q \<and> wr_Payload wr = wr_Payload q) \<and>
    platform_approve_route env i note' d = (Forbidden, None, d)"
proof -
  obtain c where c: "(WorkspaceAuthMiddleware auth rl RoleViewer rq gctx0 d :: unit response + gctx) = Inr c"
    using workspace_access_admits [OF assms(4-6,1-3)] by blast
  have "r = q" if "r \<in> set (db_workflows d)" "wr_ID r = wr_ID q" for r using that assms(7,9) by (metis distinct_map inj_onD)
  then have "Workflows_GetByID (ae_db auth) (wr_ID q) d = Ok q"
    unfolding Workflows_GetByID_def using assms(4,7) by (intro First_unique) (simp_all add: answers_queries_def)
  then have "reviewable (ae_db auth) ''approve'' (wr_ID q) d = Ok q" using assms(8) by (simp add: reviewable_def)
  then have "\<exists>wr d'. approve_route auth rl rq (wr_ID q) note d = (RespOK (), Some wr, d') \<and> wr_ID wr = wr_ID q \<and> wr_Payload wr = wr_Payload q"
    using c assms(10)
    by (simp add: approve_route_def handleApproveWorkflowRequest_def Approve_def approve_write_def Workflows_UpdateStatus_def Update_where_def reviewed_def)
  moreover have "platform_approve_route env i note' d = (Forbidden, None, d)"
    by (simp add: platform_approve_route_def PlatformAdminOnly_def gctx0_def SystemRolePlatformAdmin_def)
  ultimately show ?thesis by blast
qed

section \<open>Examples\<close>

definition demo_pol_db :: db where
  "demo_pol_db = demo_db\<lparr> db_workspaces := [\<lparr> ws_ID = ''w2'', ws_Deleted = False, ws_Slug = ''two'', ws_Namespace = ''wf-two'', ws_DisplayName = ''Two'', ws_Status = ''active'',
     ws_CreatedBy = ''root'', ws_UpdatedBy = [] \<rparr>] \<rparr>"

definition demo_pol_env :: pol_env where
  "demo_pol_env = \<lparr> po_db = demo_db_env, po_spec_json = (\<lambda>s. if s = empty_spec then Inr ''{}'' else Inl ''unsupported''), po_spec_of = (\<lambda>_. Inr empty_spec),
     po_types_json = (\<lambda>ts. if ts = [] then Inr ''null'' else Inl ''unsupported''), po_types_of = (\<lambda>_. []), po_payload = (\<lambda>i. i), po_policyId = Inr,
     po_error = (\<lambda>_. ''refused''), po_db_error = (\<lambda>_. ''db'') \<rparr>"

definition demo_pol_api :: "PolicyCRD list policy_api" where
  "demo_pol_api = \<lparr> pa_Apply = (\<lambda>w p. (None, p # w)), pa_Delete = (\<lambda>w ns n. (None, filter (\<lambda>p. lc_Name p \<noteq> n) w)) \<rparr>"

definition demo_dto :: PolicyDto where
  "demo_dto = \<lparr> dp_Name = ''web'', dp_Namespace = [], dp_Action = ''ALLOW'', dp_Description = ''d'', dp_PolicyTypes = [], dp_Spec = empty_spec \<rparr>"

lemmas demo_pol_defs = demo_pol_db_def demo_pol_env_def demo_pol_api_def demo_dto_def demo_access_defs

theorem viewer_applies_policy_witness:
  "\<exists>d'. policy_route demo_pol_api demo_pol_env demo_auth None True (demo_rq ''bob'' ''w2'' [] []) (Some demo_dto) (demo_pol_db, []) =
     (RespOK (), d', [policy_crd ''web'' ''wf-two'' ''ALLOW'' ''d'' [] (empty_spec\<lparr> sp_Action := ''ALLOW'' \<rparr>)])"
proof -
  let ?rq = "demo_rq ''bob'' ''w2'' [] []"
  obtain cl where cl: "presented demo_auth None ?rq = Some cl" "cl_Subject cl = ''bob''" by (simp add: presented_def demo_access_defs)
  have ws: "request_workspace ?rq = ''w2''" by (simp add: request_workspace_def demo_rq_def)
  have ok: "answers_queries (ae_db demo_auth) demo_pol_db" "user_keys_ok demo_pol_db" "one_membership demo_pol_db"
    by (auto simp: answers_queries_def user_keys_ok_def one_membership_def demo_pol_defs)
  have role: "holds_role demo_pol_db (request_workspace ?rq) (cl_Subject cl) RoleViewer"
    unfolding cl(2) ws by (simp add: holds_role_def demo_pol_defs role_names GetRoleWeight_def)
  obtain k where k: "Workspaces_GetByID (po_db demo_pol_env) (request_workspace ?rq) demo_pol_db = Ok k" "ws_Namespace k = ''wf-two''"
    unfolding ws by (simp add: Workspaces_GetByID_def First_def row_first_def visible_def demo_pol_defs)
  show ?thesis
    by (rule viewer_applies_policy [OF cl(1) _ role ok k(1)]) (simp_all add: ws k(2) demo_pol_api_def demo_dto_def)
qed

definition demo_submitted :: "db \<times> PolicyCRD list" where
  "demo_submitted = snd (createOrUpdatePolicy demo_pol_api demo_pol_env False (gctx0\<lparr> gc_workspace_id := ''w2'', gc_user_id := ''bob'' \<rparr>) (Some demo_dto) (demo_pol_db, []))"

lemmas demo_submit_eval = demo_submitted_def createOrUpdatePolicy_def policy_Submit_def workflow_Submit_def Create_row_def demo_pol_defs empty_policy_def or_old_def gctx0_def
  Let_def SystemRolePlatformAdmin_def

lemma demo_submitted_accepted:
  "createOrUpdatePolicy demo_pol_api demo_pol_env False (gctx0\<lparr> gc_workspace_id := ''w2'', gc_user_id := ''bob'' \<rparr>) (Some demo_dto) (demo_pol_db, []) =
     (RespAccepted (), fst demo_submitted, snd demo_submitted)"
  by (simp add: demo_submit_eval)

lemma demo_reviewable: "\<exists>wr. reviewable demo_db_env ''approve'' (wr_ID (last (db_workflows (fst demo_submitted)))) (fst demo_submitted) = Ok wr"
  by (simp add: reviewable_def Workflows_GetByID_def First_def row_first_def visible_def demo_submit_eval)

lemma demo_approved:
  obtains wr d2 where "Approve demo_db_env (wr_ID (last (db_workflows (fst demo_submitted)))) ''root'' ''root'' [] (fst demo_submitted) = (Ok wr, d2)"
  using demo_reviewable by (auto simp: Approve_def approve_write_def Workflows_UpdateStatus_def Update_where_def demo_db_env_def)

theorem approved_as_direct_witness:
  "\<exists>wr d2. Approve demo_db_env (wr_ID (last (db_workflows (fst demo_submitted)))) ''root'' ''root'' [] (fst demo_submitted) = (Ok wr, d2) \<and>
     snd (execute_request demo_db_env (registerPolicyExecutor demo_pol_api demo_pol_env Map.empty) wr (d2, snd demo_submitted)) =
       [policy_crd ''web'' ''wf-two'' ''ALLOW'' ''d'' [] (empty_spec\<lparr> sp_Action := ''ALLOW'' \<rparr>)]"
proof -
  obtain wr d2 where a: "Approve demo_db_env (wr_ID (last (db_workflows (fst demo_submitted)))) ''root'' ''root'' [] (fst demo_submitted) = (Ok wr, d2)"
    by (rule demo_approved)
  have db: "po_db demo_pol_env = demo_db_env" by (simp add: demo_pol_env_def)
  have js: "json_ok demo_pol_env" by (auto simp: json_ok_def demo_pol_env_def split: if_splits)
  have qu: "answers_queries (po_db demo_pol_env) d" for d unfolding db by (simp add: answers_queries_def demo_db_env_def)
  have "snd (execute_request demo_db_env (registerPolicyExecutor demo_pol_api demo_pol_env Map.empty) wr (d2, snd demo_submitted)) =
      snd (snd (policy_ApplyDirect demo_pol_api demo_pol_env ''w2'' ''root'' ''root'' demo_dto (demo_pol_db, [])))"
    using approved_as_direct [OF js qu _ demo_submitted_accepted, unfolded db, OF _ a, of "''root''" "''root''"]
    by (simp add: gctx0_def SystemRolePlatformAdmin_def)
  also have "\<dots> = [policy_crd ''web'' ''wf-two'' ''ALLOW'' ''d'' [] (empty_spec\<lparr> sp_Action := ''ALLOW'' \<rparr>)]"
    by (simp add: policy_ApplyDirect_def Workspaces_GetByID_def First_def row_first_def visible_def demo_pol_defs Let_def)
  finally show ?thesis using a by blast
qed

theorem double_approval_witness:
  "\<exists>wr a b d1 d2. reviewable demo_db_env ''approve'' (wr_ID (last (db_workflows (fst demo_submitted)))) (fst demo_submitted) = Ok wr \<and>
     approve_write demo_db_env wr ''root'' ''root'' [] (fst demo_submitted) = (Ok a, d1) \<and> approve_write demo_db_env wr ''eve'' ''eve'' [] d1 = (Ok b, d2)"
proof -
  obtain wr where wr: "reviewable demo_db_env ''approve'' (wr_ID (last (db_workflows (fst demo_submitted)))) (fst demo_submitted) = Ok wr" using demo_reviewable by blast
  show ?thesis using double_approval [OF wr, of "''root''" "''root''" "[]" "''eve''" "''eve''" "[]"] wr by (auto simp: demo_db_env_def)
qed


definition demo_request :: WorkflowRequest where
  "demo_request = \<lparr> wr_ID = ''r1'', wr_WorkspaceID = ''w1'', wr_RequestedBy = ''alice'', wr_RequestedByName = ''alice'', wr_RequestedByEmail = [],
     wr_ResourceType = ''policy'', wr_ResourceName = ''web'', wr_Action = ''create'', wr_Payload = ''p1'', wr_Status = WorkflowStatusPending,
     wr_ReviewedBy = [], wr_ReviewedByName = [], wr_ReviewNote = [], wr_ReviewedAt = None, wr_ExecutedAt = None, wr_ErrorMessage = [] \<rparr>"

theorem member_approves_any_request_witness:
  "\<exists>wr d'. approve_route demo_auth None (demo_rq ''bob'' ''w2'' [] []) ''r1'' [] (demo_pol_db\<lparr> db_workflows := [demo_request] \<rparr>) = (RespOK (), Some wr, d') \<and>
     wr_Payload wr = ''p1''"
proof -
  let ?rq = "demo_rq ''bob'' ''w2'' [] []" and ?d = "demo_pol_db\<lparr> db_workflows := [demo_request] \<rparr>"
  obtain cl where cl: "presented demo_auth None ?rq = Some cl" "cl_Subject cl = ''bob''" by (simp add: presented_def demo_access_defs)
  have ws: "request_workspace ?rq = ''w2''" by (simp add: request_workspace_def demo_rq_def)
  have ok: "answers_queries (ae_db demo_auth) ?d" "user_keys_ok ?d" "one_membership ?d"
    by (auto simp: answers_queries_def user_keys_ok_def one_membership_def demo_pol_defs)
  have role: "holds_role ?d (request_workspace ?rq) (cl_Subject cl) RoleViewer"
    unfolding cl(2) ws by (simp add: holds_role_def demo_pol_defs role_names GetRoleWeight_def)
  have "\<exists>wr d'. approve_route demo_auth None ?rq (wr_ID demo_request) [] ?d = (RespOK (), Some wr, d') \<and>
      wr_ID wr = wr_ID demo_request \<and> wr_Payload wr = wr_Payload demo_request"
    by (rule conjunct1 [OF member_approves_any_request [OF cl(1) _ role ok]]) (simp_all add: ws demo_request_def demo_auth_def demo_db_env_def)
  then show ?thesis by (auto simp: demo_request_def)
qed


definition demo_ops :: "(db_env \<times> wf_op) list" where
  "demo_ops = map (Pair demo_db_env)
     [SubmitOp \<lparr> sw_WorkspaceID = ''w2'', sw_RequestedBy = ''bob'', sw_RequestedByName = ''bob'', sw_RequestedByEmail = [], sw_ResourceType = ''policy'',
        sw_ResourceName = ''web'', sw_Action = ''create'', sw_Payload = ''p1'' \<rparr>,
      ApproveOp ''idxx'' ''root'' ''root'' [], ApproveOp ''idxx'' ''root'' ''root'' [], RunOp 0, RunOp 0]"



end
