(* ===== verification/Management.thy ===== *)
theory Management
  imports Typed_Store Approvals
begin

text \<open>
  The management server as a whole: every request that writes users, workspaces, members or invitations, external
  logins and the start-up, as one step on the database and the cluster. A history is a list of steps, each with
  the environment (clock, tokens, faults of the database) of its time.
\<close>

section \<open>Steps\<close>

type_synonym user_request = "user_env \<times> auth_env \<times> RevocationList option \<times> user_call \<times> request"

datatype mgmt_op =
  MemberReq auth_env "RevocationList option" member_call request
| UserReq user_request
| WorkspaceReq ws_env auth_env "RevocationList option" ws_call request
| InvitationReq inv_env inv_op
| ExternalLogin user_env string string string "string list"
| Bootstrap user_env "(string \<times> string) list"

fun mgmt_step :: "'w tenant_api \<Rightarrow> mgmt_op \<Rightarrow> db \<times> 'w \<Rightarrow> db \<times> 'w" where
  "mgmt_step api (MemberReq auth rl m rq) (d, w) = (snd (memberRouter auth rl m rq d), w)"
| "mgmt_step api (UserReq (env, auth, rl, m, rq)) (d, w) = (snd (userRouter env auth rl m rq d), w)"
| "mgmt_step api (WorkspaceReq env auth rl m rq) (d, w) = snd (workspaceRouter api env auth rl m rq (d, w))"
| "mgmt_step api (InvitationReq env op) (d, w) = (snd (inv_step env op d), w)"
| "mgmt_step api (ExternalLogin env provider subject email adminEmails) (d, w) = (snd (OnboardExternalUser env provider subject email adminEmails d), w)"
| "mgmt_step api (Bootstrap env as) (d, w) = (snd (InitAdmin env as d), w)"

definition mgmt_run :: "'w tenant_api \<Rightarrow> mgmt_op list \<Rightarrow> db \<times> 'w \<Rightarrow> db \<times> 'w" where
  "mgmt_run api ops st = fold (mgmt_step api) ops st"

lemma mgmt_run_Cons: "mgmt_run api (op # ops) st = mgmt_run api ops (mgmt_step api op st)"
  by (simp add: mgmt_run_def)

section \<open>Types\<close>

lemma mgmt_step_typed: "typed (fst st) \<Longrightarrow> typed (fst (mgmt_step api op st))"
proof -
  assume t: "typed (fst st)"
  obtain d w where st: "st = (d, w)" by (cases st)
  have d: "typed d" using t st by simp
  show ?thesis unfolding st
  proof (cases op)
    case (UserReq r)
    obtain env auth rl m rq where r: "r = (env, auth, rl, m, rq)" by (metis prod_cases5)
    show "typed (fst (mgmt_step api op (d, w)))" unfolding UserReq r by (auto intro!: typed_rows.userRouter_keeps [OF d])
  next
    case (ExternalLogin env provider subject email wl)
    show "typed (fst (mgmt_step api op (d, w)))" unfolding ExternalLogin by (auto intro!: typed_rows.Onboard_keeps [OF d] simp: target_role_def)
  next
    case (WorkspaceReq env auth rl m rq)
    show "typed (fst (mgmt_step api op (d, w)))" unfolding WorkspaceReq using typed_rows.workspaceRouter_keeps [of "(d, w)"] d by simp
  qed (use typed_rows.memberRouter_keeps [OF d] typed_rows.inv_step_keeps [OF d] typed_rows.InitAdmin_keeps [OF d] in simp_all)
qed

lemma mgmt_run_typed: "typed (fst st) \<Longrightarrow> typed (fst (mgmt_run api ops st))"
  unfolding mgmt_run_def by (induction ops arbitrary: st) (simp_all add: mgmt_step_typed)

section \<open>Platform administrators\<close>

definition admins :: "db \<Rightarrow> string set" where
  "admins d = {u_ID u | u. u \<in> set (db_users d) \<and> u_SystemRole u = SystemRolePlatformAdmin}"

lemma admins_list: "admins d = set (map u_ID (filter (\<lambda>u. u_SystemRole u = SystemRolePlatformAdmin) (db_users d)))"
  by (auto simp: admins_def)

lemma Create_user_admins:
  assumes "Create_row env users u d = (x, d')" "u_SystemRole u \<noteq> SystemRolePlatformAdmin"
  shows "admins d' = admins d"
  using assms(1) by (cases rule: Create_row_cases) (use assms(2) in \<open>auto simp: admins_def\<close>)

definition merged :: "User \<Rightarrow> User list \<Rightarrow> User list" where
  "merged u us = map (\<lambda>r. if \<not> u_Deleted r \<and> u_ID r = u_ID u then tb_merge users u r else r) us"

lemma Updates_users:
  obtains "snd (Updates env users u d) = d" | "snd (Updates env users u d) = d\<lparr> db_users := merged u (db_users d) \<rparr>"
  by (cases "u_ID u = [] \<or> de_fault env d ''UPDATE'' ''t_user'' \<noteq> None") (auto simp: Updates_def Update_where_def merged_def)

lemma merged_fields:
  "u_ID (tb_merge users u r) = u_ID r" "u_SystemRole (tb_merge users u r) = or_old (u_SystemRole u) (u_SystemRole r)"
  by simp_all

lemma merged_admin:
  assumes "v \<in> set (merged u us)" "u_SystemRole v = SystemRolePlatformAdmin"
  shows "(\<exists>r\<in>set us. u_ID r = u_ID v \<and> u_SystemRole r = SystemRolePlatformAdmin) \<or> (u_SystemRole u = SystemRolePlatformAdmin \<and> u_ID v = u_ID u)"
proof -
  obtain r where r: "r \<in> set us" "v = (if \<not> u_Deleted r \<and> u_ID r = u_ID u then tb_merge users u r else r)"
    using assms(1) unfolding merged_def by (auto simp del: tables)
  show ?thesis
  proof (cases "\<not> u_Deleted r \<and> u_ID r = u_ID u")
    case True
    then have v: "v = tb_merge users u r" using r(2) by presburger
    show ?thesis using r(1) assms(2) True unfolding v merged_fields by (auto simp del: tables simp: or_old_def split: if_splits)
  next
    case False
    then have "v = r" using r(2) by presburger
    then show ?thesis using r(1) assms(2) by blast
  qed
qed

lemma Updates_admins:
  "admins (snd (Updates env users u d)) \<subseteq> admins d \<union> (if u_SystemRole u = SystemRolePlatformAdmin then {u_ID u} else {})"
proof (rule Updates_users [of env u d])
  assume e: "snd (Updates env users u d) = d\<lparr> db_users := merged u (db_users d) \<rparr>"
  show ?thesis unfolding e
  proof
    fix i assume "i \<in> admins (d\<lparr> db_users := merged u (db_users d) \<rparr>)"
    then obtain v where v: "v \<in> set (merged u (db_users d))" "u_SystemRole v = SystemRolePlatformAdmin" "i = u_ID v"
      by (auto simp del: tables simp: admins_def)
    show "i \<in> admins d \<union> (if u_SystemRole u = SystemRolePlatformAdmin then {u_ID u} else {})"
      using merged_admin [OF v(1,2)] unfolding v(3) admins_def by (auto simp del: tables; metis)
  qed
qed (simp del: tables)

lemma UpdateSystemRole_admins:
  "admins (snd (UpdateSystemRole env i role d)) \<subseteq> admins d \<union> (if role = SystemRolePlatformAdmin then {i} else {})"
proof (cases "Users_GetByID (us_db env) i d")
  case (Inr u)
  then have "u_ID u = i" by (auto dest: Users_GetByID_Ok)
  moreover have "snd (UpdateSystemRole env i role d) \<in> {d, snd (Updates (us_db env) users (u\<lparr> u_SystemRole := role \<rparr>) d)}"
    unfolding UpdateSystemRole_def Inr by (simp del: tables)
  ultimately show ?thesis using Updates_admins [of "us_db env" "u\<lparr> u_SystemRole := role \<rparr>" d] by (auto simp del: tables split: if_splits)
qed (auto simp: UpdateSystemRole_def)


fun appoints :: "user_request \<Rightarrow> string \<Rightarrow> bool" where
  "appoints (env, auth, rl, m, rq) i \<longleftrightarrow>
     m = SystemRoleCall i (Some SystemRolePlatformAdmin) \<and> (\<exists>cl. presented auth rl rq = Some cl \<and> cl_SystemRole cl = SystemRolePlatformAdmin)"

lemma handleUpdateSystemRole_admins:
  "i \<in> admins (snd (handleUpdateSystemRole env c userID body d)) \<Longrightarrow>
     i \<in> admins d \<or> gc_system_role c = SystemRolePlatformAdmin \<and> userID = i \<and> body = Some SystemRolePlatformAdmin"
  using UpdateSystemRole_admins [of env userID "the body" d]
  by (auto simp: handleUpdateSystemRole_def answer_of SystemRolePlatformAdmin_def split: if_splits option.splits)

lemma admins_same: "db_users d' = db_users d \<Longrightarrow> admins d' = admins d"
  by (simp add: admins_def)

lemma other_table_admins:
  assumes "\<And>xs d. db_users (tb_put t xs d) = db_users d"
  shows "Create_row env t r d = (x, d') \<Longrightarrow> admins d' = admins d" "admins (snd (Update_where env t P f d)) = admins d"
    "admins (snd (Updates env t r d)) = admins d" "admins (snd (Delete_where env t c P d)) = admins d"
  using assms by (auto intro!: admins_same elim: Create_row_other simp: others)

lemma delete_user_admins: "admins (snd (Delete_where env users c P d)) \<subseteq> admins d"
  by (auto simp: Delete_where_def admins_def split: option.splits if_splits)

text \<open>Statements that write no user with the role of a platform administrator add none to any set that holds them all.\<close>

interpretation no_new_admins: store_invariant "\<lambda>d. admins d \<subseteq> A" "- {SystemRolePlatformAdmin}" for A
proof (unfold_locales, goal_cases)
  case 1
  show ?case by (simp add: SystemRolePlatformAdmin_def)
next
  case (2 env u d x d')
  then show ?case using Create_user_admins [OF 2(1)] by simp
next
  case (3 d u env)
  then show ?case using Updates_admins [of env u d] by auto
next
  case (4 env s d y d')
  then show ?case using other_table_admins(1) [of workspaces, OF _ 4(1)] by simp
next
  case (5 d env s)
  then show ?case using other_table_admins(3) [of workspaces env s d] by simp
next
  case (6 env m d z d')
  then show ?case using other_table_admins(1) [of members, OF _ 6(1)] by simp
next
  case (7 d f env R)
  then show ?case using other_table_admins(2) [of members env R f d] by simp
next
  case (8 env v d u' d')
  then show ?case using other_table_admins(1) [of invitations, OF _ 8(1)] by simp
next
  case (9 d status env i)
  then show ?case using other_table_admins(2) [of invitations env _ _ d] by (simp add: Invitations_UpdateStatus_def)
next
  case (10 d env c P)
  then show ?case by (rule order_trans [OF delete_user_admins])
next
  case (11 d env c Q)
  then show ?case using other_table_admins(4) [of workspaces env c Q d] by simp
next
  case (12 d env c R)
  then show ?case using other_table_admins(4) [of members env c R d] by simp
next
  case (13 d' d)
  then have "db_users d' = db_users d" by (simp add: four_def)
  from admins_same [OF this] show ?case by simp
qed

fun appointed :: "mgmt_op \<Rightarrow> string \<Rightarrow> bool" where
  "appointed (UserReq r) i \<longleftrightarrow> appoints r i"
| "appointed (ExternalLogin env provider subject email adminEmails) i \<longleftrightarrow> list_ex (\<lambda>a. EqualFold a email) adminEmails"
| "appointed (Bootstrap env as) i \<longleftrightarrow> as \<noteq> []"
| "appointed _ i \<longleftrightarrow> False"

lemma user_step_admins:
  assumes "i \<in> admins (snd (userRouter env auth rl m rq d))" "i \<notin> admins d"
  shows "appoints (env, auth, rl, m, rq) i"
proof (cases "\<exists>userID. m = SystemRoleCall userID (Some SystemRolePlatformAdmin)")
  case False
  have "admins (snd (userRouter env auth rl m rq d)) \<subseteq> admins d"
    by (rule no_new_admins.userRouter_keeps) (use False in auto)
  then show ?thesis using assms by blast
next
  case True
  then obtain userID where m: "m = SystemRoleCall userID (Some SystemRolePlatformAdmin)" by blast
  show ?thesis
  proof (cases "AuthMiddleware auth rl rq gctx0 :: unit response + gctx")
    case (Inl r)
    then show ?thesis using assms m by (simp add: userRouter_def)
  next
    case (Inr g)
    then obtain cl where cl: "presented auth rl rq = Some cl" "g = signed_in cl gctx0" using AuthMiddleware_Ok by blast
    have "gc_system_role g = cl_SystemRole cl" by (simp add: cl(2) signed_in_def)
    then show ?thesis using assms Inr cl(1) handleUpdateSystemRole_admins [of i env g userID "Some SystemRolePlatformAdmin" d] m by (auto simp: userRouter_def)
  qed
qed

lemma mgmt_step_admins:
  assumes "i \<in> admins (fst (mgmt_step api op st))" "i \<notin> admins (fst st)"
  shows "appointed op i"
proof -
  obtain d w where st: "st = (d, w)" by (cases st)
  have k: "admins d \<subseteq> admins d" by simp
  have i: "i \<in> admins (fst (mgmt_step api op (d, w)))" "i \<notin> admins d" using assms st by simp_all
  show ?thesis
  proof (cases op)
    case (UserReq r)
    obtain env auth rl m rq where r: "r = (env, auth, rl, m, rq)" by (metis prod_cases5)
    show ?thesis using user_step_admins [of i env auth rl m rq d] i unfolding UserReq r by simp
  next
    case (ExternalLogin env provider subject email wl)
    have "target_role wl email = SystemRolePlatformAdmin"
      using i no_new_admins.Onboard_keeps [OF k, of wl email env provider subject] unfolding ExternalLogin by auto
    then show ?thesis unfolding ExternalLogin by (simp add: target_role_def SystemRoleUser_def SystemRolePlatformAdmin_def split: if_splits)
  next
    case (Bootstrap env as)
    then show ?thesis using i by auto
  next
    case (MemberReq auth rl m rq)
    then show ?thesis using i no_new_admins.memberRouter_keeps [OF k, of auth rl m rq] by auto
  next
    case (WorkspaceReq env auth rl m rq)
    then show ?thesis using i no_new_admins.workspaceRouter_keeps [of "(d, w)" "admins d" api env auth rl m rq] by auto
  next
    case (InvitationReq env op')
    then show ?thesis using i no_new_admins.inv_step_keeps [OF k, of env op'] by auto
  qed
qed

lemma mgmt_run_admins:
  "i \<in> admins (fst (mgmt_run api ops st)) \<Longrightarrow> i \<in> admins (fst st) \<or> (\<exists>op\<in>set ops. appointed op i)"
proof (induction ops arbitrary: st)
  case Nil
  then show ?case by (simp add: mgmt_run_def)
next
  case (Cons op ops)
  have "i \<in> admins (fst (mgmt_step api op st)) \<or> (\<exists>op\<in>set ops. appointed op i)" using Cons.IH Cons.prems unfolding mgmt_run_Cons by blast
  then show ?case using mgmt_step_admins [of i api op st] by auto
qed


section \<open>Examples\<close>

definition empty_db :: db where
  "empty_db = \<lparr> db_users = [], db_profiles = [], db_workspaces = [], db_members = [], db_invitations = [], db_identities = [], db_workflows = [], db_policies = [] \<rparr>"

definition demo_admin_auth :: auth_env where
  "demo_admin_auth = demo_auth\<lparr> ae_ParseToken := (\<lambda>now tok. map_sum id (\<lambda>c. c\<lparr> cl_SystemRole := if tok = ''root'' then SystemRolePlatformAdmin else SystemRoleUser \<rparr>) (ae_ParseToken demo_auth now tok)) \<rparr>"

definition demo_appointment :: mgmt_op where
  "demo_appointment = UserReq (demo_user_env, demo_admin_auth, None, SystemRoleCall ''alice'' (Some SystemRolePlatformAdmin), demo_rq ''root'' [] [] [])"

lemma demo_appointment_works: "''alice'' \<in> admins (fst (mgmt_run demo_tenant [demo_appointment] (demo_db, []))) \<and> ''alice'' \<notin> admins demo_db"
proof
  let ?us = "db_users (fst (mgmt_step demo_tenant demo_appointment (demo_db, [])))"
  have "?us \<noteq> [] \<and> u_ID (hd ?us) = ''alice'' \<and> u_SystemRole (hd ?us) = SystemRolePlatformAdmin" by code_simp
  then have "hd ?us \<in> set ?us \<and> ''alice'' = u_ID (hd ?us) \<and> u_SystemRole (hd ?us) = SystemRolePlatformAdmin" by simp
  then show "''alice'' \<in> admins (fst (mgmt_run demo_tenant [demo_appointment] (demo_db, [])))"
    unfolding admins_def mgmt_run_def fold.simps id_apply comp_apply by blast
  show "''alice'' \<notin> admins demo_db" unfolding admins_list by (simp add: demo_access_defs SystemRolePlatformAdmin_def)
qed


end
