(* ===== verification/Enrollment.thy ===== *)
theory Enrollment
  imports Approvals Peering Peer_Identity
begin

text \<open>
  Enrolment of devices: enrolment tokens and their controller (\<open>internal/agent/controller/token_controller.go\<close>), the
  token service (\<open>internal/server/service/token.go\<close>), the peer service (\<open>internal/server/service/peer.go\<close>), the
  registration of a peer (\<open>internal/server/resource/peer.go\<close>) and the table of heartbeats
  (\<open>internal/server/nats/presence.go\<close>). The Kubernetes client, WireGuard keys, randomness and the parsing of
  durations are parameters. Times are in nanoseconds.
\<close>

section \<open>Tokens\<close>

record LatticeEnrollmentToken =
  tk_Name :: string
  tk_Namespace :: string
  tk_Labels :: labels
  tk_Token :: string
  tk_SpecNamespace :: string
  tk_UsageLimit :: int
  tk_Expiry :: int
  tk_BoundPeers :: "string list"
  ts_Token :: string
  ts_BoundPeers :: "string list"
  ts_Phase :: string
  ts_UsedCount :: int
  ts_IsExpired :: bool

definition token_status :: "LatticeEnrollmentToken \<Rightarrow> string \<times> string list \<times> string \<times> int \<times> bool" where
  "token_status t = (ts_Token t, ts_BoundPeers t, ts_Phase t, ts_UsedCount t, ts_IsExpired t)"

definition token_updateStatus ::
  "('w, LatticeEnrollmentToken) crud \<Rightarrow> LatticeEnrollmentToken \<Rightarrow> (LatticeEnrollmentToken \<Rightarrow> LatticeEnrollmentToken) \<Rightarrow> 'w \<Rightarrow> (kube_error + bool) \<times> 'w" where
  "token_updateStatus api token updateFunc w =
     (let tokenCopy = updateFunc token
      in if token_status token = token_status tokenCopy then (Ok False, w)
         else case k_PatchStatus api w token tokenCopy of
                (Inl KConflict, w') \<Rightarrow> (Ok False, w')
              | (Inl e, w') \<Rightarrow> (Err e, w')
              | (Inr _, w') \<Rightarrow> (Ok True, w'))"

text \<open>One part of a reconcile: the change if it applies; on success of the patch the reconcile ends.\<close>

definition status_part ::
  "('w, LatticeEnrollmentToken) crud \<Rightarrow> LatticeEnrollmentToken \<Rightarrow> bool \<Rightarrow> (LatticeEnrollmentToken \<Rightarrow> LatticeEnrollmentToken) \<Rightarrow>
     ('w \<Rightarrow> (kube_error + rec_result) \<times> 'w) \<Rightarrow> 'w \<Rightarrow> (kube_error + rec_result) \<times> 'w" where
  "status_part api token applies f rest w =
     (if applies
      then (case token_updateStatus api token f w of
              (Inl e, w') \<Rightarrow> (Err e, w') | (Inr True, w') \<Rightarrow> (Ok Done, w') | (Inr False, w') \<Rightarrow> rest w')
      else rest w)"

definition bind_peers :: "LatticeEnrollmentToken \<Rightarrow> LatticeEnrollmentToken" where
  "bind_peers token =
     (let new = filter (\<lambda>p. p \<notin> set (ts_BoundPeers token)) (tk_BoundPeers token)
      in token\<lparr> ts_BoundPeers := ts_BoundPeers token @ new, ts_UsedCount := ts_UsedCount token + int (length new) \<rparr>)"

definition token_Reconcile ::
  "('w, LatticeEnrollmentToken) crud \<Rightarrow> int \<Rightarrow> string \<Rightarrow> string \<Rightarrow> 'w \<Rightarrow> (kube_error + rec_result) \<times> 'w" where
  "token_Reconcile api now ns n w =
     (case k_Get api w ns n of
        Inl KNotFound \<Rightarrow> (Ok Done, w)
      | Inl e \<Rightarrow> (Err e, w)
      | Inr token \<Rightarrow>
          if ts_Phase token = ''Expired'' then (Ok Done, w)
          else (let remaining = tk_Expiry token - now
                in status_part api token (remaining \<le> 0) (\<lambda>t. t\<lparr> ts_Phase := ''Expired'', ts_IsExpired := True \<rparr>)
                  (status_part api token (ts_Token token = []) (\<lambda>t. t\<lparr> ts_Token := tk_Token t \<rparr>)
                    (status_part api token (tk_BoundPeers token \<noteq> ts_BoundPeers token) bind_peers
                      (\<lambda>w. (Ok (RequeueAfter remaining), w)))) w))"

section \<open>The calls of the services\<close>

record 'w enrol_api =
  ea_tokens :: "('w, LatticeEnrollmentToken) crud"
  ea_peers :: "('w, LatticePeer) crud"
  ea_ByStatusToken :: "'w \<Rightarrow> string \<Rightarrow> kube_error + LatticeEnrollmentToken list"
  ea_BySpecToken :: "'w \<Rightarrow> string \<Rightarrow> kube_error + LatticeEnrollmentToken list"
  ea_ApplyPeer :: "'w \<Rightarrow> LatticePeer \<Rightarrow> (kube_error + LatticePeer) \<times> 'w"
  ea_GetConfig :: "'w \<Rightarrow> string \<Rightarrow> string \<Rightarrow> kube_error + string"
  ea_DeleteConfig :: "'w \<Rightarrow> string \<Rightarrow> string \<Rightarrow> kube_error option \<times> 'w"

record enrol_env =
  ee_now :: int
  ee_ParseDuration :: "string \<Rightarrow> string + int"
  ee_GeneratePrivateKey :: "string + byte list"
  ee_ParseKey :: "string \<Rightarrow> string + byte list"
  ee_KeyString :: "byte list \<Rightarrow> string"
  ee_PublicKey :: "byte list \<Rightarrow> byte list"
  ee_rand :: "nat \<Rightarrow> string + nat"
  ee_Error :: "kube_error \<Rightarrow> string"

definition token_charset :: string where
  "token_charset = ''abcdefghijklmnopqrstuvwxyzABCDEFGHIJKLMNOPQRSTUVWXYZ123456789''"

fun secure_chars :: "(nat \<Rightarrow> string + nat) \<Rightarrow> nat list \<Rightarrow> string + string" where
  "secure_chars rnd [] = Ok []"
| "secure_chars rnd (i # is) =
     (case rnd i of
        Inl e \<Rightarrow> Err e
      | Inr k \<Rightarrow> (case secure_chars rnd is of Inl e \<Rightarrow> Err e | Inr cs \<Rightarrow> Ok (token_charset ! (k mod 61) # cs)))"

text \<open>The random index is below the length of the character set.\<close>

definition GenerateSecureToken :: "enrol_env \<Rightarrow> string + string" where
  "GenerateSecureToken env = secure_chars (ee_rand env) [0..<16]"

record TokenDto =
  td_Namespace :: string
  td_Name :: string
  td_Expiry :: string
  td_Limit :: int

definition actual_token :: "LatticeEnrollmentToken \<Rightarrow> string" where
  "actual_token t = (if ts_Token t = [] then tk_Token t else ts_Token t)"

definition new_token :: "enrol_env \<Rightarrow> TokenDto \<Rightarrow> int \<Rightarrow> LatticeEnrollmentToken" where
  "new_token env dto duration =
     \<lparr> tk_Name = ToLower (td_Name dto), tk_Namespace = td_Namespace dto, tk_Labels = [(''app.kubernetes.io/managed-by'', ''lattice-controller'')],
       tk_Token = td_Name dto, tk_SpecNamespace = td_Namespace dto, tk_UsageLimit = td_Limit dto,
       tk_Expiry = (ee_now env + duration) div 1000000000 * 1000000000, tk_BoundPeers = [], ts_Token = [], ts_BoundPeers = [], ts_Phase = [],
       ts_UsedCount = 0, ts_IsExpired = False \<rparr>"

text \<open>Any failure to read other than not found leaves an empty token, whose text is returned.\<close>

definition CreateToken :: "'w enrol_api \<Rightarrow> enrol_env \<Rightarrow> TokenDto \<Rightarrow> 'w \<Rightarrow> (string + string) \<times> 'w" where
  "CreateToken api env dto w =
     (case k_Get (ea_tokens api) w (td_Namespace dto) (td_Name dto) of
        Inr token \<Rightarrow> (Ok (actual_token token), w)
      | Inl KNotFound \<Rightarrow>
          (case ee_ParseDuration env (td_Expiry dto) of
             Inl e \<Rightarrow> (Err e, w)
           | Inr duration \<Rightarrow>
               (case k_Create (ea_tokens api) w (new_token env dto duration) of
                  (Inl e, w') \<Rightarrow> (Err (ee_Error env e), w') | (Inr token, w') \<Rightarrow> (Ok (actual_token token), w')))
      | Inl _ \<Rightarrow> (Ok [], w))"

definition token_workspace :: "db_env \<Rightarrow> pol_env \<Rightarrow> string \<Rightarrow> db \<Rightarrow> string + Workspace" where
  "token_workspace env penv wsId d =
     (if wsId = [] then Err ''workspaceId missing in context''
      else case Workspaces_GetByID env wsId d of Inl e \<Rightarrow> Err (po_db_error penv e) | Inr ws \<Rightarrow> Ok ws)"

definition svc_text :: "pol_env \<Rightarrow> svc_error \<Rightarrow> string" where
  "svc_text env e = (case e of Msg s \<Rightarrow> s | DbErr x \<Rightarrow> po_db_error env x)"

definition token_Create ::
  "'w enrol_api \<Rightarrow> enrol_env \<Rightarrow> 'w policy_api \<Rightarrow> pol_env \<Rightarrow> string \<Rightarrow> db \<times> 'w \<Rightarrow> (string + string) \<times> db \<times> 'w" where
  "token_Create api env papi penv wsId = (\<lambda>(d, w).
     case token_workspace (po_db penv) penv wsId d of
       Inl e \<Rightarrow> (Err e, d, w)
     | Inr ws \<Rightarrow>
         (case GenerateSecureToken env of
            Inl e \<Rightarrow> (Err e, d, w)
          | Inr tokenStr \<Rightarrow>
              (case CreateToken api env \<lparr> td_Namespace = ws_Namespace ws, td_Name = tokenStr, td_Expiry = ''168h'', td_Limit = 5 \<rparr> w of
                 (Inl e, w') \<Rightarrow> (Err e, d, w')
               | (Inr _, w') \<Rightarrow>
                   (case policy_ApplyDirect papi penv wsId [] []
                           \<lparr> dp_Name = ''default-deny'', dp_Namespace = ws_Namespace ws, dp_Action = ''Deny'', dp_Description = [], dp_PolicyTypes = [], dp_Spec = empty_spec \<rparr> (d, w') of
                      (Inl e, d', w'') \<Rightarrow> (Err (svc_text penv e), d', w'') | (Inr _, d', w'') \<Rightarrow> (Ok tokenStr, d', w'')))))"

definition token_Delete :: "'w enrol_api \<Rightarrow> enrol_env \<Rightarrow> pol_env \<Rightarrow> string \<Rightarrow> string \<Rightarrow> db \<times> 'w \<Rightarrow> string option \<times> 'w" where
  "token_Delete api env penv wsId token = (\<lambda>(d, w).
     case token_workspace (po_db penv) penv wsId d of
       Inl e \<Rightarrow> (Some e, w)
     | Inr ws \<Rightarrow> (case delete_if_exists (ea_tokens api) (ws_Namespace ws) token w of (e, w') \<Rightarrow> (map_option (ee_Error env) e, w')))"

section \<open>Registration\<close>

text \<open>\<open>retry.RetryOnConflict\<close> with the default of five attempts.\<close>

fun bump :: "('w, LatticeEnrollmentToken) crud \<Rightarrow> nat \<Rightarrow> string \<Rightarrow> string \<Rightarrow> 'w \<Rightarrow> kube_error option \<times> 'w" where
  "bump api 0 ns n w = (Some KConflict, w)"
| "bump api (Suc k) ns n w =
     (case k_Get api w ns n of
        Inl e \<Rightarrow> if e = KConflict then bump api k ns n w else (Some e, w)
      | Inr latestToken \<Rightarrow>
          (case k_UpdateStatus api w (latestToken\<lparr> ts_UsedCount := ts_UsedCount latestToken + 1 \<rparr>) of
             (Inl KConflict, w') \<Rightarrow> bump api k ns n w'
           | (Inl e, w') \<Rightarrow> (Some e, w')
           | (Inr _, w') \<Rightarrow> (None, w')))"

definition token_items :: "'w enrol_api \<Rightarrow> string \<Rightarrow> 'w \<Rightarrow> kube_error + LatticeEnrollmentToken list" where
  "token_items api tokenStr w = (case ea_ByStatusToken api w tokenStr of Inr [] \<Rightarrow> ea_BySpecToken api w tokenStr | r \<Rightarrow> r)"

definition lookup_token :: "'w enrol_api \<Rightarrow> enrol_env \<Rightarrow> string \<Rightarrow> 'w \<Rightarrow> string + LatticeEnrollmentToken" where
  "lookup_token api env tokenStr w =
     (if tokenStr = [] then Err ''token is empty''
      else case token_items api tokenStr w of
             Inl e \<Rightarrow> Err (''get token failed: '' @ ee_Error env e)
           | Inr items \<Rightarrow>
               (case rev (filter (\<lambda>t. ts_Token t = tokenStr \<or> tk_Token t = tokenStr) items) of
                  [] \<Rightarrow> Err ''token not exists'' | t # _ \<Rightarrow> Ok t))"

definition checkToken :: "'w enrol_api \<Rightarrow> enrol_env \<Rightarrow> string \<Rightarrow> 'w \<Rightarrow> (string + LatticeEnrollmentToken) \<times> 'w" where
  "checkToken api env tokenStr w =
     (case lookup_token api env tokenStr w of
        Inl e \<Rightarrow> (Err e, w)
      | Inr token \<Rightarrow>
          (case bump (ea_tokens api) 5 (tk_Namespace token) (tk_Name token) w of
             (Some e, w') \<Rightarrow> (Err (ee_Error env e), w') | (None, w') \<Rightarrow> (Ok token, w')))"

text \<open>Of the request and of the views the fields that are read or set; the others stay empty.\<close>

record PeerDto =
  pd_Platform :: string
  pd_InterfaceName :: string
  pd_AppID :: string
  pd_Token :: string
  pd_Name :: string
  pd_Namespace :: string
  pd_Labels :: labels
  pd_DisplayName :: string

record EnrolledPeer =
  ep_AppID :: string
  ep_Address :: "string option"
  ep_PrivateKey :: string
  ep_PublicKey :: string
  ep_PeerID :: u64
  ep_NetworkId :: string
  ep_Token :: string

text \<open>The object that is applied. Its status is not: the server takes the status of a resource only through its own endpoint.\<close>

definition peer_object :: "enrol_env \<Rightarrow> string \<Rightarrow> PeerDto \<Rightarrow> byte list \<Rightarrow> LatticePeer" where
  "peer_object env ns dto key =
     \<lparr> lp_Name = pd_AppID dto, lp_Namespace = ns, lp_UID = [], lp_Labels = [(''app.kubernetes.io/managed-by'', ''lattice-controller'')],
       lp_Annotations = [], lp_Finalizers = [], lp_Deleting = False, lp_AppId = pd_AppID dto, lp_InterfaceName = pd_InterfaceName dto,
       lp_Platform = pd_Platform dto, lp_PrivateKey = ee_KeyString env key, lp_PublicKey = ee_KeyString env (ee_PublicKey env key),
       lp_PeerId = PeerID_String (FromKey (ee_PublicKey env key)), lp_Network = Some ''lattice-default-net'', lp_Phase = PhaseNone, lp_Conditions = [],
       lp_ActiveNetwork = None, lp_AllocatedAddress = None, lp_CurrentHash = [] \<rparr>"

lemma peer_object_key [simp]: "lp_Name (peer_object env ns dto key) = pd_AppID dto" "lp_Namespace (peer_object env ns dto key) = ns"
  by (simp_all add: peer_object_def)

text \<open>A peer that cannot be read for another reason than its absence counts as one with an empty key.\<close>

definition peer_key :: "'w enrol_api \<Rightarrow> enrol_env \<Rightarrow> string \<Rightarrow> string \<Rightarrow> 'w \<Rightarrow> string + byte list" where
  "peer_key api env ns appID w =
     (case k_Get (ea_peers api) w ns appID of
        Inl KNotFound \<Rightarrow> ee_GeneratePrivateKey env
      | Inl _ \<Rightarrow> ee_ParseKey env []
      | Inr node \<Rightarrow> ee_ParseKey env (lp_PrivateKey node))"

definition client_Register :: "'w enrol_api \<Rightarrow> enrol_env \<Rightarrow> string \<Rightarrow> PeerDto \<Rightarrow> 'w \<Rightarrow> (string + EnrolledPeer) \<times> 'w" where
  "client_Register api env ns dto w =
     (case peer_key api env ns (pd_AppID dto) w of
        Inl e \<Rightarrow> (Err e, w)
      | Inr key \<Rightarrow>
          (case ea_ApplyPeer api w (peer_object env ns dto key) of
             (Inl e, w') \<Rightarrow> (Err (ee_Error env e), w')
           | (Inr node, w') \<Rightarrow>
               (Ok \<lparr> ep_AppID = lp_AppId node, ep_Address = lp_AllocatedAddress node, ep_PrivateKey = lp_PrivateKey node, ep_PublicKey = lp_PublicKey node,
                     ep_PeerID = ToUint64 (FromKey (ee_PublicKey env key)), ep_NetworkId = ns, ep_Token = [] \<rparr>, w')))"

definition peer_Register :: "'w enrol_api \<Rightarrow> enrol_env \<Rightarrow> PeerDto \<Rightarrow> 'w \<Rightarrow> (string + EnrolledPeer) \<times> 'w" where
  "peer_Register api env dto w =
     (case checkToken api env (pd_Token dto) w of
        (Inl e, w') \<Rightarrow> (Err e, w')
      | (Inr token, w') \<Rightarrow>
          (case client_Register api env (tk_Namespace token) dto w' of
             (Inl e, w'') \<Rightarrow> (Err e, w'') | (Inr node, w'') \<Rightarrow> (Ok (node\<lparr> ep_Token := actual_token token \<rparr>), w'')))"

text \<open>The network map of a peer; \<open>None\<close> is the empty message of a peer without a configuration. \<open>parse\<close> decodes the JSON of one.\<close>

definition GetNetworkMap :: "'w enrol_api \<Rightarrow> enrol_env \<Rightarrow> (string \<Rightarrow> string + 'm) \<Rightarrow> string \<Rightarrow> string \<Rightarrow> 'w \<Rightarrow> string + 'm option" where
  "GetNetworkMap api env parse tokenStr name w =
     (if tokenStr = [] then Err ''token is empty''
      else case ea_BySpecToken api w tokenStr of
             Inl e \<Rightarrow> Err (''get token failed: '' @ ee_Error env e)
           | Inr items \<Rightarrow>
               (case rev (filter (\<lambda>t. ts_Token t = tokenStr) items) of
                  [] \<Rightarrow> Err ''token not exists''
                | token # _ \<Rightarrow>
                    (case k_Get (ea_peers api) w (tk_Namespace token) name of
                       Inl e \<Rightarrow> Err (ee_Error env e)
                     | Inr node \<Rightarrow>
                         (case ea_GetConfig api w (lp_Namespace node) (lp_Name node @ ''-config'') of
                            Inl KNotFound \<Rightarrow> Ok None
                          | Inl e \<Rightarrow> Err (ee_Error env e)
                          | Inr data \<Rightarrow> map_sum id Some (parse data)))))"

section \<open>Heartbeats\<close>

type_synonym presence = "string \<rightharpoonup> int"

definition offlineThreshold :: int where "offlineThreshold = 90 * 1000000000"

definition presence_Update :: "string \<Rightarrow> int \<Rightarrow> presence \<Rightarrow> presence" where
  "presence_Update appId now m = m(appId \<mapsto> now)"

definition GetStatus :: "string \<Rightarrow> int \<Rightarrow> presence \<Rightarrow> string \<times> int option" where
  "GetStatus appId now m =
     (case m appId of
        None \<Rightarrow> (''pending'', None)
      | Some t \<Rightarrow> if now - t < offlineThreshold then (''online'', Some t) else (''offline'', Some t))"

section \<open>Lists\<close>

definition strings_Contains :: "string \<Rightarrow> string \<Rightarrow> bool" where
  "strings_Contains s sub \<longleftrightarrow> list_ex (\<lambda>n. take (length sub) (drop n s) = sub) [0..<Suc (length s)]"

text \<open>Both lists cut their page out of the filtered rows with a slice of 64-bit bounds, which panics if it starts below zero or ends before it starts.\<close>

definition page_slice :: "64 word \<Rightarrow> 64 word \<Rightarrow> 'a list \<Rightarrow> 'a list option" where
  "page_slice page pageSize xs =
     (let start0 = (page - 1) * pageSize;
          start = min (sint start0) (int (length xs));
          end1 = min (sint (start0 + pageSize)) (int (length xs))
      in if start < 0 \<or> end1 < start then None else Some (take (nat (end1 - start)) (drop (nat start) xs)))"

record PeerVo =
  pe_Namespace :: string
  pe_Name :: string
  pe_DisplayName :: string
  pe_AppID :: string
  pe_Platform :: string
  pe_PublicKey :: string
  pe_Address :: "string option"
  pe_Labels :: labels
  pe_WorkspaceDisplayName :: string
  pe_Disabled :: bool
  pe_Status :: string
  pe_LastSeen :: "int option"

definition displayNameAnnotation :: string where "displayNameAnnotation = ''lattice.io/display-name''"

definition disabledAnnotation :: string where "disabledAnnotation = ''lattice.io/disabled''"

definition peer_item :: "presence option \<Rightarrow> int \<Rightarrow> string \<Rightarrow> LatticePeer \<Rightarrow> PeerVo" where
  "peer_item pres now wsName n =
     (let (status, seen) = (case pres of None \<Rightarrow> ([], None) | Some m \<Rightarrow> GetStatus (lp_AppId n) now m)
      in \<lparr> pe_Namespace = lp_Namespace n, pe_Name = lp_Name n, pe_DisplayName = label_get (lp_Annotations n) displayNameAnnotation, pe_AppID = lp_AppId n,
           pe_Platform = [], pe_PublicKey = lp_PublicKey n, pe_Address = lp_AllocatedAddress n, pe_Labels = lp_Labels n, pe_WorkspaceDisplayName = wsName,
           pe_Disabled = (label_get (lp_Annotations n) disabledAnnotation = ''true''), pe_Status = status, pe_LastSeen = seen \<rparr>)"

definition peer_matches :: "string \<Rightarrow> LatticePeer \<Rightarrow> bool" where
  "peer_matches kw n \<longleftrightarrow> kw = [] \<or> strings_Contains (lp_Name n) kw \<or> strings_Contains (label_get (lp_Annotations n) displayNameAnnotation) kw \<or>
     (case lp_AllocatedAddress n of None \<Rightarrow> False | Some a \<Rightarrow> strings_Contains a kw)"

definition ListPeers ::
  "'w enrol_api \<Rightarrow> db_env \<Rightarrow> presence option \<Rightarrow> int \<Rightarrow> string \<Rightarrow> string \<Rightarrow> 64 word \<Rightarrow> 64 word \<Rightarrow> db \<times> 'w \<Rightarrow> (PeerVo list \<times> nat) response" where
  "ListPeers api env pres now workspaceId kw page pageSize = (\<lambda>(d, w).
     case Workspaces_GetByID env workspaceId d of
       Inl _ \<Rightarrow> RespError
     | Inr ws \<Rightarrow>
         (case k_List (ea_peers api) w (Some (ws_Namespace ws)) [] of
            Inl _ \<Rightarrow> RespError
          | Inr allPeers \<Rightarrow>
              (case page_slice (if sint page < 1 then 1 else page) pageSize (filter (peer_matches kw) allPeers) of
                 None \<Rightarrow> Panics
               | Some ns \<Rightarrow> RespOK (map (peer_item pres now (ws_DisplayName ws)) ns, length allPeers))))"

record TokenVo =
  tv_Token :: string
  tv_Namespace :: string
  tv_WorkspaceDisplayName :: string
  tv_UsageLimit :: int
  tv_Expiry :: int
  tv_BoundPeers :: "string list"
  tv_UsedCount :: int
  tv_IsExpired :: bool
  tv_Phase :: string

definition token_vo :: "db_env \<Rightarrow> db \<Rightarrow> LatticeEnrollmentToken \<Rightarrow> TokenVo" where
  "token_vo env d t =
     \<lparr> tv_Token = ts_Token t, tv_Namespace = tk_Namespace t,
       tv_WorkspaceDisplayName = (case Workspaces_GetByNamespace env (tk_Namespace t) d of Inl _ \<Rightarrow> [] | Inr ws \<Rightarrow> ws_DisplayName ws),
       tv_UsageLimit = tk_UsageLimit t, tv_Expiry = tk_Expiry t, tv_BoundPeers = ts_BoundPeers t, tv_UsedCount = ts_UsedCount t,
       tv_IsExpired = ts_IsExpired t, tv_Phase = ts_Phase t \<rparr>"

definition ListTokens ::
  "'w enrol_api \<Rightarrow> db_env \<Rightarrow> string \<Rightarrow> string \<Rightarrow> 64 word \<Rightarrow> 64 word \<Rightarrow> db \<times> 'w \<Rightarrow> (TokenVo list \<times> nat) response" where
  "ListTokens api env workspaceId kw page pageSize = (\<lambda>(d, w).
     case Workspaces_GetByID env workspaceId d of
       Inl _ \<Rightarrow> RespError
     | Inr ws \<Rightarrow>
         (case k_List (ea_tokens api) w (Some (ws_Namespace ws)) [] of
            Inl _ \<Rightarrow> RespError
          | Inr items \<Rightarrow>
              (let allTokens = map (token_vo env d) items
               in case page_slice page pageSize (if kw = [] then allTokens else filter (\<lambda>n. strings_Contains (tv_Token n) kw) allTokens) of
                    None \<Rightarrow> Panics | Some ts \<Rightarrow> RespOK (ts, length allTokens))))"

section \<open>Peers of a workspace\<close>

definition set_labels :: "labels \<Rightarrow> labels \<Rightarrow> labels" where
  "set_labels wanted ls = foldl (\<lambda>ls (k, v). if v = [] then AList.delete k ls else AList.update k v ls) ls wanted"

definition UpdatePeer :: "'w enrol_api \<Rightarrow> PeerDto \<Rightarrow> 'w \<Rightarrow> (kube_error + PeerVo) \<times> 'w" where
  "UpdatePeer api dto w =
     (case k_Get (ea_peers api) w (pd_Namespace dto) (pd_Name dto) of
        Inl e \<Rightarrow> (Err e, w)
      | Inr peer \<Rightarrow>
          (let peerLabels = set_labels (pd_Labels dto) (lp_Labels peer);
               annotations = (if pd_DisplayName dto \<noteq> [] then AList.update displayNameAnnotation (pd_DisplayName dto) (lp_Annotations peer)
                              else AList.delete displayNameAnnotation (lp_Annotations peer))
           in case k_Update (ea_peers api) w (peer\<lparr> lp_Labels := peerLabels, lp_Annotations := annotations \<rparr>) of
                (Inl e, w') \<Rightarrow> (Err e, w')
              | (Inr p, w') \<Rightarrow>
                  (Ok \<lparr> pe_Namespace = [], pe_Name = lp_Name p, pe_DisplayName = label_get annotations displayNameAnnotation, pe_AppID = lp_AppId p,
                        pe_Platform = lp_Platform p, pe_PublicKey = lp_PublicKey p, pe_Address = lp_AllocatedAddress p, pe_Labels = peerLabels,
                        pe_WorkspaceDisplayName = [], pe_Disabled = False, pe_Status = [], pe_LastSeen = None \<rparr>, w')))"

definition DisablePeer :: "'w enrol_api \<Rightarrow> string \<Rightarrow> string \<Rightarrow> 'w \<Rightarrow> kube_error option \<times> 'w" where
  "DisablePeer api ns name w =
     (case k_Get (ea_peers api) w ns name of
        Inl e \<Rightarrow> (Some e, w)
      | Inr peer \<Rightarrow> err_of (k_Update (ea_peers api) w (peer\<lparr> lp_Annotations := AList.update disabledAnnotation ''true'' (lp_Annotations peer) \<rparr>)))"

definition EnablePeer :: "'w enrol_api \<Rightarrow> string \<Rightarrow> string \<Rightarrow> 'w \<Rightarrow> kube_error option \<times> 'w" where
  "EnablePeer api ns name w =
     (case k_Get (ea_peers api) w ns name of
        Inl e \<Rightarrow> (Some e, w)
      | Inr peer \<Rightarrow> err_of (k_Update (ea_peers api) w (peer\<lparr> lp_Annotations := AList.delete disabledAnnotation (lp_Annotations peer) \<rparr>)))"

definition DeletePeer :: "'w enrol_api \<Rightarrow> string \<Rightarrow> string \<Rightarrow> 'w \<Rightarrow> kube_error option \<times> 'w" where
  "DeletePeer api ns name w =
     (case k_Get (ea_peers api) w ns name of
        Inl e \<Rightarrow> (Some e, w)
      | Inr peer \<Rightarrow>
          (case k_Delete (ea_peers api) w ns name of
             (Some e, w') \<Rightarrow> (Some e, w')
           | (None, w') \<Rightarrow>
               (case ea_GetConfig api w' ns (name @ ''-config'') of
                  Inl _ \<Rightarrow> (None, w') | Inr _ \<Rightarrow> (None, snd (ea_DeleteConfig api w' ns (name @ ''-config''))))))"

section \<open>What the API server keeps\<close>

definition with_token_status :: "LatticeEnrollmentToken \<Rightarrow> LatticeEnrollmentToken \<Rightarrow> LatticeEnrollmentToken" where
  "with_token_status x y =
     y\<lparr> ts_Token := ts_Token x, ts_BoundPeers := ts_BoundPeers x, ts_Phase := ts_Phase x, ts_UsedCount := ts_UsedCount x, ts_IsExpired := ts_IsExpired x \<rparr>"

definition token_kind :: "LatticeEnrollmentToken kind" where
  "token_kind =
     \<lparr> kd_key = (\<lambda>t. (tk_Namespace t, tk_Name t)), kd_labels = tk_Labels, kd_gone = (\<lambda>t. False), kd_delete = (\<lambda>t. None), kd_status = with_token_status,
       kd_created = (\<lambda>x y. y = x\<lparr> ts_Token := [], ts_BoundPeers := [], ts_Phase := [], ts_UsedCount := 0, ts_IsExpired := False \<rparr>) \<rparr>"

lemma token_kind_simps [simp]:
  "kd_key token_kind t = (tk_Namespace t, tk_Name t)" "kd_labels token_kind = tk_Labels" "\<not> kd_gone token_kind t" "kd_delete token_kind t = None"
  "kd_status token_kind = with_token_status"
  by (simp_all add: token_kind_def)

lemma with_token_status_key [simp]: "tk_Namespace (with_token_status x y) = tk_Namespace y" "tk_Name (with_token_status x y) = tk_Name y"
  by (simp_all add: with_token_status_def)

lemma token_kind_ok: "kind_ok token_kind"
  by (simp add: kind_ok_def) (simp add: token_kind_def)

text \<open>A server-side apply of a peer creates it or sets the fields it is given; the address that is allocated stays.\<close>

definition applied :: "LatticePeer \<Rightarrow> LatticePeer option \<Rightarrow> LatticePeer \<Rightarrow> bool" where
  "applied p old q \<longleftrightarrow>
     lp_Name q = lp_Name p \<and> lp_Namespace q = lp_Namespace p \<and> lp_AppId q = lp_AppId p \<and> lp_InterfaceName q = lp_InterfaceName p \<and> lp_Platform q = lp_Platform p \<and>
     lp_PrivateKey q = lp_PrivateKey p \<and> lp_PublicKey q = lp_PublicKey p \<and> lp_PeerId q = lp_PeerId p \<and> lp_Network q = lp_Network p \<and>
     lp_AllocatedAddress q = Option.bind old lp_AllocatedAddress"

definition apply_ok :: "('w \<Rightarrow> objkey \<Rightarrow> LatticeEnrollmentToken option) \<Rightarrow> ('w \<Rightarrow> objkey \<Rightarrow> LatticePeer option) \<Rightarrow> 'w enrol_api \<Rightarrow> bool" where
  "apply_ok stt stp api \<longleftrightarrow>
     (\<forall>w p. case ea_ApplyPeer api w p of
        (Inl e, w') \<Rightarrow> stt w' = stt w \<and> stp w' = stp w
      | (Inr q, w') \<Rightarrow> stt w' = stt w \<and> stp w' = (stp w)((lp_Namespace p, lp_Name p) \<mapsto> q) \<and> applied p (stp w (lp_Namespace p, lp_Name p)) q)"

definition index_ok :: "('w \<Rightarrow> objkey \<Rightarrow> LatticeEnrollmentToken option) \<Rightarrow> 'w enrol_api \<Rightarrow> bool" where
  "index_ok stt api \<longleftrightarrow>
     (\<forall>w s ts. ea_ByStatusToken api w s = Inr ts \<longrightarrow> set ts = {t. stt w (tk_Namespace t, tk_Name t) = Some t \<and> ts_Token t = s}) \<and>
     (\<forall>w s ts. ea_BySpecToken api w s = Inr ts \<longrightarrow> set ts = {t. stt w (tk_Namespace t, tk_Name t) = Some t \<and> tk_Token t = s})"

definition enrol_laws :: "('w \<Rightarrow> objkey \<Rightarrow> LatticeEnrollmentToken option) \<Rightarrow> ('w \<Rightarrow> objkey \<Rightarrow> LatticePeer option) \<Rightarrow> 'w enrol_api \<Rightarrow> bool" where
  "enrol_laws stt stp api \<longleftrightarrow>
     crud_ok token_kind stt stp (ea_tokens api) \<and> crud_fresh token_kind stt (ea_tokens api) \<and> crud_fresh peer_kind stp (ea_peers api) \<and>
     apply_ok stt stp api \<and> index_ok stt api"

section \<open>Registration uses its token once\<close>

lemma bump_counts:
  assumes "crud_ok token_kind stt others c" "crud_fresh token_kind stt c" "bump c k ns n w = (None, w')"
  shows "\<exists>t. stt w (ns, n) = Some t \<and> stt w' = (stt w)((ns, n) \<mapsto> t\<lparr> ts_UsedCount := ts_UsedCount t + 1 \<rparr>) \<and> others w' = others w"
  using assms(3)
proof (induction k arbitrary: w)
  case (Suc k)
  show ?case
  proof (cases "k_Get c w ns n")
    case (Inl e)
    then show ?thesis using Suc by (simp split: if_splits)
  next
    case (Inr t)
    let ?x = "t\<lparr> ts_UsedCount := ts_UsedCount t + 1 \<rparr>"
    have t: "stt w (ns, n) = Some t" using fresh_Get [OF assms(2) Inr] .
    then have key: "tk_Namespace t = ns" "tk_Name t = n" using crud_okD(2) [OF assms(1)] by fastforce+
    obtain r w1 where u: "k_UpdateStatus c w ?x = (r, w1)" by fastforce
    show ?thesis
    proof (cases r)
      case (Inl e)
      have "stt w1 = stt w" "others w1 = others w"
        using writes_Err [OF crud_okD(6) [OF assms(1), of w ?x, unfolded u Inl]] by auto
      moreover have "bump c k ns n w1 = (None, w')" using Suc.prems Inr u Inl by (cases e) (simp_all add: \<open>k_Get c w ns n = Inr t\<close>)
      ultimately show ?thesis using Suc.IH by metis
    next
      case Inr2: (Inr y)
      have "w' = w1" using Suc.prems u Inr2 Inr by simp
      moreover have "stt w (kd_key token_kind ?x) = Some t" using t key by simp
      note U = update_status_stored [OF assms(1) this _ u [unfolded Inr2]]
      ultimately show ?thesis using t U key by (auto simp: with_token_status_def)
    qed
  qed
qed simp

lemma lookup_token_Ok:
  assumes "index_ok stt api" "lookup_token api env s w = Ok t"
  shows "s \<noteq> []" "stt w (tk_Namespace t, tk_Name t) = Some t" "ts_Token t = s \<or> tk_Token t = s"
proof -
  let ?F = "filter (\<lambda>t. ts_Token t = s \<or> tk_Token t = s)"
  obtain xs where s: "s \<noteq> []" and xs: "token_items api s w = Inr xs" and t: "(case rev (?F xs) of [] \<Rightarrow> Err ''token not exists'' | t # _ \<Rightarrow> Ok t) = Ok t"
    using assms(2) unfolding lookup_token_def by (cases "token_items api s w") (auto split: if_splits)
  have "t \<in> set (rev (?F xs))" using t by (cases "rev (?F xs)") auto
  moreover have "ea_ByStatusToken api w s = Inr xs \<or> ea_BySpecToken api w s = Inr xs"
    using xs unfolding token_items_def
    by (cases "ea_ByStatusToken api w s") (simp, rename_tac ts, case_tac ts, simp_all)
  ultimately show "s \<noteq> []" "stt w (tk_Namespace t, tk_Name t) = Some t" "ts_Token t = s \<or> tk_Token t = s"
    using s assms(1) unfolding index_ok_def by auto
qed

lemma checkToken_Ok:
  assumes "enrol_laws stt stp api" "checkToken api env s w = (Ok t, w')"
  shows "stt w (tk_Namespace t, tk_Name t) = Some t" "ts_Token t = s \<or> tk_Token t = s"
    "stt w' = (stt w)((tk_Namespace t, tk_Name t) \<mapsto> t\<lparr> ts_UsedCount := ts_UsedCount t + 1 \<rparr>)" "stp w' = stp w"
proof -
  have l: "lookup_token api env s w = Ok t" and b: "bump (ea_tokens api) 5 (tk_Namespace t) (tk_Name t) w = (None, w')"
    using assms(2) unfolding checkToken_def by (auto split: sum.splits prod.splits option.splits)
  have laws: "crud_ok token_kind stt stp (ea_tokens api)" "crud_fresh token_kind stt (ea_tokens api)" "index_ok stt api"
    using assms(1) unfolding enrol_laws_def by auto
  show "stt w (tk_Namespace t, tk_Name t) = Some t" "ts_Token t = s \<or> tk_Token t = s" using lookup_token_Ok [OF laws(3) l] by auto
  then show "stt w' = (stt w)((tk_Namespace t, tk_Name t) \<mapsto> t\<lparr> ts_UsedCount := ts_UsedCount t + 1 \<rparr>)" "stp w' = stp w"
    using bump_counts [OF laws(1,2) b] by auto
qed

lemma client_Register_Ok:
  assumes "apply_ok stt stp api" "client_Register api env ns dto w = (Ok p, w')"
  obtains key q where "peer_key api env ns (pd_AppID dto) w = Ok key" "stt w' = stt w" "stp w' = (stp w)((ns, pd_AppID dto) \<mapsto> q)"
    "applied (peer_object env ns dto key) (stp w (ns, pd_AppID dto)) q" "ep_AppID p = lp_AppId q" "ep_Address p = lp_AllocatedAddress q"
    "ep_PrivateKey p = lp_PrivateKey q" "ep_PublicKey p = lp_PublicKey q" "ep_PeerID p = ToUint64 (FromKey (ee_PublicKey env key))" "ep_NetworkId p = ns"
proof -
  obtain key where key: "peer_key api env ns (pd_AppID dto) w = Ok key"
    using assms(2) unfolding client_Register_def by (auto split: sum.splits)
  obtain q where q: "ea_ApplyPeer api w (peer_object env ns dto key) = (Inr q, w')"
    and p: "p = \<lparr> ep_AppID = lp_AppId q, ep_Address = lp_AllocatedAddress q, ep_PrivateKey = lp_PrivateKey q, ep_PublicKey = lp_PublicKey q,
                     ep_PeerID = ToUint64 (FromKey (ee_PublicKey env key)), ep_NetworkId = ns, ep_Token = [] \<rparr>"
    using assms(2) key unfolding client_Register_def by (auto split: sum.splits prod.splits)
  have "stt w' = stt w \<and> stp w' = (stp w)((ns, pd_AppID dto) \<mapsto> q) \<and> applied (peer_object env ns dto key) (stp w (ns, pd_AppID dto)) q"
    using spec [OF spec [OF assms(1) [unfolded apply_ok_def], of w], of "peer_object env ns dto key"] by (simp add: q)
  then show thesis using that key p by simp
qed

text \<open>C19: A registration that succeeds used a stored token, counted it exactly once and changed no other token; it wrote one peer, in the namespace of the token
  and under the identifier of the device, and the keys, the address and the identifier returned are those of the peer that is stored.
\<close>

theorem enrolment_counts_once:
  assumes "enrol_laws stt stp api" "peer_Register api env dto w = (Ok p, w')"
  shows "\<exists>t q. stt w (tk_Namespace t, tk_Name t) = Some t \<and> (ts_Token t = pd_Token dto \<or> tk_Token t = pd_Token dto) \<and>
    stt w' = (stt w)((tk_Namespace t, tk_Name t) \<mapsto> t\<lparr> ts_UsedCount := ts_UsedCount t + 1 \<rparr>) \<and> stp w' = (stp w)((tk_Namespace t, pd_AppID dto) \<mapsto> q) \<and>
    lp_AppId q = pd_AppID dto \<and> ep_PrivateKey p = lp_PrivateKey q \<and> ep_PublicKey p = lp_PublicKey q \<and> ep_Address p = lp_AllocatedAddress q \<and>
    lp_PeerId q = dec_nat (unat (ep_PeerID p)) \<and> ep_NetworkId p = tk_Namespace t \<and> ep_Token p = actual_token t"
proof -
  obtain t w1 p1 where c: "checkToken api env (pd_Token dto) w = (Ok t, w1)" and r: "client_Register api env (tk_Namespace t) dto w1 = (Ok p1, w')"
    and p: "p = p1\<lparr> ep_Token := actual_token t \<rparr>"
    using assms(2) unfolding peer_Register_def by (auto split: sum.splits prod.splits)
  have a: "apply_ok stt stp api" using assms(1) unfolding enrol_laws_def by blast
  note T = checkToken_Ok [OF assms(1) c]
  show ?thesis
    by (rule client_Register_Ok [OF a r], rule exI [of _ t], rule exI)
      (use T p in \<open>auto simp: applied_def peer_object_def PeerID_String_def\<close>)
qed

section \<open>Registering again\<close>

lemma peer_key_stored:
  assumes "crud_fresh peer_kind stp (ea_peers api)" "\<And>s. ee_ParseKey env [] \<noteq> Ok s" "stp w (ns, a) = Some q" "peer_key api env ns a w = Ok key"
  shows "ee_ParseKey env (lp_PrivateKey q) = Ok key"
proof (cases "k_Get (ea_peers api) w ns a")
  case (Inl e)
  then show ?thesis
    using assms fresh_NotFound [OF assms(1), of w ns a] unfolding peer_key_def by (cases e) auto
next
  case (Inr x)
  then show ?thesis using assms(3,4) fresh_Get [OF assms(1) Inr] unfolding peer_key_def by simp
qed


section \<open>Limits of a token\<close>

text \<open>C37: The check of a token looks at neither its phase, its expiry nor its limit of uses: a stored token that the controller has marked as expired and that was used as often as
  it may be is accepted, and so it enrols devices as long as it is stored.
\<close>

theorem spent_token_accepted:
  assumes "enrol_laws stt stp api" "crud_serves token_kind stt (ea_tokens api)" "ea_ByStatusToken api w s = Ok ts"
    and "stt w (tk_Namespace t, tk_Name t) = Some t" "ts_Token t = s" "s \<noteq> []" "\<And>k u. stt w k = Some u \<Longrightarrow> ts_Token u = s \<Longrightarrow> u = t"
    and "ts_Phase t = ''Expired''" "ts_IsExpired t" "tk_UsageLimit t \<le> ts_UsedCount t"
  shows "fst (checkToken api env s w) = Ok t"
proof -
  have "index_ok stt api" using assms(1) unfolding enrol_laws_def by blast
  then have "set ts = {t. stt w (tk_Namespace t, tk_Name t) = Some t \<and> ts_Token t = s}" using assms(3) unfolding index_ok_def by blast
  then have set: "set ts = {t}" using assms(4,5,7) by blast
  then obtain x xs where items: "ts = x # xs" by (cases ts) simp_all
  have all: "filter (\<lambda>t. ts_Token t = s \<or> tk_Token t = s) ts = ts" using set assms(5) by (simp add: filter_id_conv)
  have "token_items api s w = Ok ts" using assms(3) items by (simp add: token_items_def)
  moreover obtain y ys where "rev ts = y # ys" using items by (cases "rev ts") simp_all
  moreover have "y = t" using set \<open>rev ts = y # ys\<close> set_rev [of ts] by simp
  ultimately have l: "lookup_token api env s w = Ok t" using assms(6) all by (simp add: lookup_token_def)
  have g: "k_Get (ea_tokens api) w (tk_Namespace t) (tk_Name t) = Ok t" using assms(2,4) unfolding crud_serves_def by simp
  obtain y w' where "k_UpdateStatus (ea_tokens api) w (t\<lparr> ts_UsedCount := ts_UsedCount t + 1 \<rparr>) = (Inr y, w')"
  proof -
    have "\<not> isl (fst (k_UpdateStatus (ea_tokens api) w (t\<lparr> ts_UsedCount := ts_UsedCount t + 1 \<rparr>)))"
      using assms(2,4) unfolding crud_serves_def by simp
    then show thesis
      using that by (cases "k_UpdateStatus (ea_tokens api) w (t\<lparr> ts_UsedCount := ts_UsedCount t + 1 \<rparr>)", rename_tac r v, case_tac r) simp_all
  qed
  then have "bump (ea_tokens api) 5 (tk_Namespace t) (tk_Name t) w = (None, w')"
    using g by (simp add: numeral_eq_Suc)
  then show ?thesis using l by (simp add: checkToken_def)
qed

section \<open>The controller of tokens settles\<close>

lemma with_same_status: "token_status t = token_status x \<Longrightarrow> with_token_status x t = t"
  by (cases t) (simp add: token_status_def with_token_status_def)

lemma token_updateStatus_stored:
  assumes "crud_ok token_kind stt others c" "crud_serves token_kind stt c" "stt w (tk_Namespace t, tk_Name t) = Some t" "f t = with_token_status (f t) t"
  shows "f t = t \<Longrightarrow> token_updateStatus c t f w = (Ok False, w)"
    "f t \<noteq> t \<Longrightarrow> \<exists>w'. token_updateStatus c t f w = (Ok True, w') \<and> stt w' = (stt w)((tk_Namespace t, tk_Name t) \<mapsto> f t)"
proof -
  show "token_updateStatus c t f w = (Ok False, w)" if "f t = t" using that by (simp add: token_updateStatus_def)
  assume ne: "f t \<noteq> t"
  then have st: "token_status t \<noteq> token_status (f t)" using assms(4) with_same_status by metis
  have key: "tk_Namespace (f t) = tk_Namespace t" "tk_Name (f t) = tk_Name t" by (subst assms(4), simp)+
  have "\<not> isl (fst (k_PatchStatus c w t (f t)))" using assms(2,3) key unfolding crud_serves_def by simp
  then obtain y w' where p: "k_PatchStatus c w t (f t) = (Inr y, w')"
    by (cases "k_PatchStatus c w t (f t)", rename_tac r v, case_tac r) simp_all
  then have "token_updateStatus c t f w = (Ok True, w')" using st by (simp add: token_updateStatus_def)
  moreover have "stt w' = (stt w)((tk_Namespace t, tk_Name t) \<mapsto> f t)"
    using patch_status_stored(3) [OF assms(1) _ _ _ p] assms(3,4) key by simp
  ultimately show "\<exists>w'. token_updateStatus c t f w = (Ok True, w') \<and> stt w' = (stt w)((tk_Namespace t, tk_Name t) \<mapsto> f t)" by blast
qed

lemma bind_peers_same: "tk_BoundPeers t = ts_BoundPeers t \<Longrightarrow> bind_peers t = t"
  by (simp add: bind_peers_def)

lemma bind_peers_idem: "bind_peers (bind_peers t) = bind_peers t"
  by (simp add: bind_peers_def Let_def filter_empty_conv)

definition settled_token :: "int \<Rightarrow> LatticeEnrollmentToken \<Rightarrow> LatticeEnrollmentToken" where
  "settled_token now t =
     (if ts_Phase t = ''Expired'' then t
      else if tk_Expiry t \<le> now then t\<lparr> ts_Phase := ''Expired'', ts_IsExpired := True \<rparr>
      else bind_peers (t\<lparr> ts_Token := actual_token t \<rparr>))"

text \<open>The change one reconcile makes, if any.\<close>

definition token_step :: "int \<Rightarrow> LatticeEnrollmentToken \<Rightarrow> LatticeEnrollmentToken" where
  "token_step now t =
     (if ts_Phase t = ''Expired'' then t
      else if tk_Expiry t \<le> now then t\<lparr> ts_Phase := ''Expired'', ts_IsExpired := True \<rparr>
      else if ts_Token t = [] \<and> tk_Token t \<noteq> [] then t\<lparr> ts_Token := tk_Token t \<rparr>
      else bind_peers t)"

lemma with_bind_peers: "bind_peers t = with_token_status (bind_peers t) t"
  by (simp add: bind_peers_def with_token_status_def Let_def)

lemma status_part_stored:
  assumes "crud_ok token_kind stt others c" "crud_serves token_kind stt c" "stt w (tk_Namespace t, tk_Name t) = Some t" "f t = with_token_status (f t) t"
  shows "a \<and> f t \<noteq> t \<Longrightarrow> \<exists>w'. status_part c t a f rest w = (Ok Done, w') \<and> stt w' = (stt w)((tk_Namespace t, tk_Name t) \<mapsto> f t)"
    "\<not> (a \<and> f t \<noteq> t) \<Longrightarrow> status_part c t a f rest w = rest w"
  using token_updateStatus_stored [where f = f, OF assms] unfolding status_part_def by (auto split: sum.splits bool.splits)

lemma token_Reconcile_step:
  assumes "crud_ok token_kind stt others c" "crud_serves token_kind stt c" "stt w (ns, n) = Some t"
  shows "token_step now t \<noteq> t \<Longrightarrow> \<exists>w'. token_Reconcile c now ns n w = (Ok Done, w') \<and> stt w' = (stt w)((ns, n) \<mapsto> token_step now t)"
    "token_step now t = t \<Longrightarrow> snd (token_Reconcile c now ns n w) = w"
proof -
  have key: "(tk_Namespace t, tk_Name t) = (ns, n)" using crud_okD(2) [OF assms(1,3)] by simp
  have g: "k_Get c w ns n = Ok t" using assms(2,3) unfolding crud_serves_def by simp
  note P = status_part_stored [OF assms(1,2), of w t, unfolded key, OF assms(3)]
  have e: "t\<lparr> ts_Phase := ''Expired'', ts_IsExpired := True \<rparr> = with_token_status (t\<lparr> ts_Phase := ''Expired'', ts_IsExpired := True \<rparr>) t"
    "t\<lparr> ts_Token := tk_Token t \<rparr> = with_token_status (t\<lparr> ts_Token := tk_Token t \<rparr>) t" by (simp_all add: with_token_status_def)
  note E = P [where f = "\<lambda>t. t\<lparr> ts_Phase := ''Expired'', ts_IsExpired := True \<rparr>", OF e(1)]
  note T = P [where f = "\<lambda>t. t\<lparr> ts_Token := tk_Token t \<rparr>", OF e(2)]
  note B = P [where f = bind_peers, OF with_bind_peers]
  have R: "ts_Phase t \<noteq> ''Expired'' \<Longrightarrow> token_Reconcile c now ns n w =
      status_part c t (tk_Expiry t - now \<le> 0) (\<lambda>t. t\<lparr> ts_Phase := ''Expired'', ts_IsExpired := True \<rparr>)
        (status_part c t (ts_Token t = []) (\<lambda>t. t\<lparr> ts_Token := tk_Token t \<rparr>)
          (status_part c t (tk_BoundPeers t \<noteq> ts_BoundPeers t) bind_peers (\<lambda>w. (Ok (RequeueAfter (tk_Expiry t - now)), w)))) w"
    by (simp add: token_Reconcile_def g Let_def)
  have named: "t\<lparr> ts_Token := tk_Token t \<rparr> \<noteq> t \<longleftrightarrow> tk_Token t \<noteq> ts_Token t" by (cases t) simp
  consider (over) "ts_Phase t = ''Expired''" | (expires) "ts_Phase t \<noteq> ''Expired''" "tk_Expiry t - now \<le> 0"
    | (names) "ts_Phase t \<noteq> ''Expired''" "\<not> tk_Expiry t - now \<le> 0" "ts_Token t = []" "tk_Token t \<noteq> []"
    | (binds) "ts_Phase t \<noteq> ''Expired''" "\<not> tk_Expiry t - now \<le> 0" "\<not> (ts_Token t = [] \<and> tk_Token t \<noteq> [])" by blast
  then have "(token_step now t \<noteq> t \<longrightarrow> (\<exists>w'. token_Reconcile c now ns n w = (Ok Done, w') \<and> stt w' = (stt w)((ns, n) \<mapsto> token_step now t))) \<and>
      (token_step now t = t \<longrightarrow> snd (token_Reconcile c now ns n w) = w)"
  proof cases
    case over
    then show ?thesis by (simp add: token_Reconcile_def g token_step_def)
  next
    case expires
    have "t\<lparr> ts_Phase := ''Expired'', ts_IsExpired := True \<rparr> \<noteq> t" using expires(1) by (cases t) simp
    moreover have "token_step now t = t\<lparr> ts_Phase := ''Expired'', ts_IsExpired := True \<rparr>" using expires by (simp add: token_step_def)
    ultimately show ?thesis using E(1) [of True] expires(2) R [OF expires(1)] by simp
  next
    case names
    then have "token_step now t = t\<lparr> ts_Token := tk_Token t \<rparr>" by (simp add: token_step_def)
    then show ?thesis using T(1) [of True] E(2) [of False] names named R [OF names(1)] by simp
  next
    case binds
    have step: "token_step now t = bind_peers t" using binds by (auto simp: token_step_def)
    have rest: "token_Reconcile c now ns n w =
        status_part c t (tk_BoundPeers t \<noteq> ts_BoundPeers t) bind_peers (\<lambda>w. (Ok (RequeueAfter (tk_Expiry t - now)), w)) w"
      using E(2) [of False] T(2) [of "ts_Token t = []"] binds named R [OF binds(1)] by simp
    show ?thesis
    proof (cases "bind_peers t = t")
      case True
      then show ?thesis using B(2) unfolding rest step by simp
    next
      case False
      then have "tk_BoundPeers t \<noteq> ts_BoundPeers t \<and> bind_peers t \<noteq> t" using bind_peers_same by blast
      from B(1) [OF this] show ?thesis unfolding rest step using False by blast
    qed
  qed
  then show "token_step now t \<noteq> t \<Longrightarrow> \<exists>w'. token_Reconcile c now ns n w = (Ok Done, w') \<and> stt w' = (stt w)((ns, n) \<mapsto> token_step now t)"
    "token_step now t = t \<Longrightarrow> snd (token_Reconcile c now ns n w) = w" by blast+
qed

lemma bind_peers_fields [simp]:
  "ts_Phase (bind_peers t) = ts_Phase t" "tk_Expiry (bind_peers t) = tk_Expiry t" "ts_Token (bind_peers t) = ts_Token t" "tk_Token (bind_peers t) = tk_Token t"
  by (simp_all add: bind_peers_def Let_def)

lemma same_token [simp]: "ts_Token t = s \<Longrightarrow> t\<lparr> ts_Token := s \<rparr> = t"
  by (cases t) simp

lemma token_step_twice: "token_step now (token_step now t) = settled_token now t"
  by (cases "ts_Token t = []"; cases "tk_Token t = []") (simp_all add: token_step_def settled_token_def actual_token_def bind_peers_idem)

lemma token_step_settled: "token_step now (settled_token now t) = settled_token now t"
  by (cases "ts_Token t = []"; cases "tk_Token t = []") (simp_all add: token_step_def settled_token_def actual_token_def bind_peers_idem)

text \<open>C21: Two reconciles of a stored token bring it to its settled state, and a third writes nothing: an expired token is marked as expired and left as it is from then
  on; one that is valid has its text in the status, every peer it is bound to recorded and counted once more for each that is new. No other token changes. The
  API server serves the calls and its reads are not stale.
\<close>

theorem token_settles:
  assumes "crud_ok token_kind stt others c" "crud_serves token_kind stt c" "stt w (ns, n) = Some t"
    and "w2 = snd (token_Reconcile c now ns n (snd (token_Reconcile c now ns n w)))"
  shows "stt w2 = (stt w)((ns, n) \<mapsto> settled_token now t) \<and> snd (token_Reconcile c now ns n w2) = w2"
proof -
  have one: "stt (snd (token_Reconcile c now ns n v)) = (stt v)((ns, n) \<mapsto> token_step now x)" if "stt v (ns, n) = Some x" for v x
    using token_Reconcile_step [OF assms(1,2) that, of now] that by (cases "token_step now x = x") (auto simp: fun_upd_idem)
  have "stt w2 = (stt w)((ns, n) \<mapsto> settled_token now t)"
    unfolding assms(4) using one [OF assms(3)] one token_step_twice [of now t] by simp
  then show ?thesis using token_Reconcile_step(2) [OF assms(1,2), of w2 ns n "settled_token now t" now] token_step_settled by simp
qed

section \<open>Examples\<close>

record enrol_cluster =
  dc_tokens :: "LatticeEnrollmentToken list"
  dc_peers :: "LatticePeer list"

definition demo_stt :: "enrol_cluster \<Rightarrow> objkey \<Rightarrow> LatticeEnrollmentToken option" where
  "demo_stt w = lookup token_kind (dc_tokens w)"

definition demo_stp :: "enrol_cluster \<Rightarrow> objkey \<Rightarrow> LatticePeer option" where
  "demo_stp w = lookup peer_kind (dc_peers w)"

definition demo_tokens :: "(enrol_cluster, LatticeEnrollmentToken) crud" where
  "demo_tokens = store_crud token_kind (\<lambda>x. x\<lparr> ts_Token := [], ts_BoundPeers := [], ts_Phase := [], ts_UsedCount := 0, ts_IsExpired := False \<rparr>) dc_tokens
     (\<lambda>xs w. w\<lparr> dc_tokens := xs \<rparr>)"

definition demo_peers :: "(enrol_cluster, LatticePeer) crud" where
  "demo_peers = store_crud peer_kind (\<lambda>x. with_status empty_LatticePeer (x\<lparr> lp_Deleting := False \<rparr>)) dc_peers (\<lambda>xs w. w\<lparr> dc_peers := xs \<rparr>)"

definition demo_apply :: "enrol_cluster \<Rightarrow> LatticePeer \<Rightarrow> (kube_error + LatticePeer) \<times> enrol_cluster" where
  "demo_apply w p =
     (let q = p\<lparr> lp_Deleting := False, lp_AllocatedAddress := Option.bind (demo_stp w (lp_Namespace p, lp_Name p)) lp_AllocatedAddress \<rparr>
      in (Ok q, w\<lparr> dc_peers := put_object peer_kind q (dc_peers w) \<rparr>))"

definition demo_enrol :: "enrol_cluster enrol_api" where
  "demo_enrol =
     \<lparr> ea_tokens = demo_tokens, ea_peers = demo_peers,
       ea_ByStatusToken = (\<lambda>w s. Ok (filter (\<lambda>t. demo_stt w (tk_Namespace t, tk_Name t) = Some t \<and> ts_Token t = s) (dc_tokens w))),
       ea_BySpecToken = (\<lambda>w s. Ok (filter (\<lambda>t. demo_stt w (tk_Namespace t, tk_Name t) = Some t \<and> tk_Token t = s) (dc_tokens w))),
       ea_ApplyPeer = demo_apply, ea_GetConfig = (\<lambda>w ns n. Err KNotFound), ea_DeleteConfig = (\<lambda>w ns n. (Some KNotFound, w)) \<rparr>"

definition demo_token :: LatticeEnrollmentToken where
  "demo_token =
     \<lparr> tk_Name = ''abc'', tk_Namespace = ''wf-one'', tk_Labels = [], tk_Token = ''Abc'', tk_SpecNamespace = ''wf-one'', tk_UsageLimit = 5, tk_Expiry = 100,
       tk_BoundPeers = [''laptop''], ts_Token = ''Abc'', ts_BoundPeers = [], ts_Phase = ''Expired'', ts_UsedCount = 5, ts_IsExpired = True \<rparr>"

definition demo_enrol_env :: enrol_env where
  "demo_enrol_env =
     \<lparr> ee_now = 0, ee_ParseDuration = (\<lambda>s. Inr 1), ee_GeneratePrivateKey = Inr (replicate 32 7),
       ee_ParseKey = (\<lambda>s. if s = [] then Inl ''empty'' else Inr (map (\<lambda>c. word_of_nat (of_char c)) (tl s))),
       ee_KeyString = (\<lambda>k. CHR ''k'' # map (\<lambda>b. char_of (unat b)) k), ee_PublicKey = rev, ee_rand = (\<lambda>i. Inr i), ee_Error = (\<lambda>e. ''failed'') \<rparr>"

definition demo_device :: PeerDto where
  "demo_device =
     \<lparr> pd_Platform = ''linux'', pd_InterfaceName = ''wg0'', pd_AppID = ''laptop'', pd_Token = ''Abc'', pd_Name = [], pd_Namespace = [], pd_Labels = [],
       pd_DisplayName = [] \<rparr>"

definition demo_enrolling :: enrol_cluster where
  "demo_enrolling = \<lparr> dc_tokens = [demo_token], dc_peers = [] \<rparr>"

lemma demo_tokens_ok: "crud_ok token_kind demo_stt demo_stp demo_tokens" "crud_serves token_kind demo_stt demo_tokens" "crud_fresh token_kind demo_stt demo_tokens"
  unfolding demo_stt_def demo_tokens_def
  by (intro store_crud_ok token_kind_ok store_crud_serves store_crud_fresh; simp add: demo_stp_def token_kind_def)+

lemma demo_apply_ok: "apply_ok demo_stt demo_stp demo_enrol"
  by (simp add: apply_ok_def demo_enrol_def demo_apply_def Let_def applied_def demo_stt_def demo_stp_def lookup_put_object)

lemma demo_enrol_laws: "enrol_laws demo_stt demo_stp demo_enrol"
proof -
  have "crud_fresh peer_kind demo_stp (ea_peers demo_enrol)"
    unfolding demo_enrol_def demo_peers_def demo_stp_def by (simp del: kind_simps add: store_crud_fresh)
  moreover have "index_ok demo_stt demo_enrol"
    by (auto simp: index_ok_def demo_enrol_def demo_stt_def dest: lookup_in)
  ultimately show ?thesis using demo_tokens_ok demo_apply_ok unfolding enrol_laws_def by (simp add: demo_enrol_def)
qed

lemma demo_key_text: "ee_ParseKey demo_enrol_env (ee_KeyString demo_enrol_env k) = Ok k" "ee_ParseKey demo_enrol_env [] \<noteq> Ok k"
proof -
  have "word_of_nat (unat b mod 256) = b" for b :: byte
  proof -
    have "unat b < 256" using unsigned_less [of b, where 'a = nat] by simp
    then show ?thesis by simp
  qed
  then show "ee_ParseKey demo_enrol_env (ee_KeyString demo_enrol_env k) = Ok k" by (simp add: demo_enrol_env_def comp_def)
  show "ee_ParseKey demo_enrol_env [] \<noteq> Ok k" by (simp add: demo_enrol_env_def)
qed

definition demo_used :: "int \<Rightarrow> LatticePeer list \<Rightarrow> enrol_cluster" where
  "demo_used n qs = \<lparr> dc_tokens = [demo_token\<lparr> ts_UsedCount := n \<rparr>], dc_peers = qs \<rparr>"

lemma demo_check:
  "checkToken demo_enrol demo_enrol_env ''Abc'' (demo_used n qs) = (Ok (demo_token\<lparr> ts_UsedCount := n \<rparr>), demo_used (n + 1) qs)"
proof -
  have "lookup_token demo_enrol demo_enrol_env ''Abc'' (demo_used n qs) = Ok (demo_token\<lparr> ts_UsedCount := n \<rparr>)"
    by (simp add: lookup_token_def token_items_def demo_enrol_def demo_used_def demo_stt_def lookup_def demo_token_def)
  moreover have "bump demo_tokens (Suc k) ''wf-one'' ''abc'' (demo_used n qs) = (None, demo_used (n + 1) qs)" for k
    by (simp add: demo_tokens_def store_crud_def put_over_def put_object_def demo_used_def lookup_def with_token_status_def demo_token_def)
  ultimately show ?thesis by (simp add: checkToken_def numeral_eq_Suc demo_enrol_def demo_token_def)
qed

lemma demo_registers:
  assumes "peer_key demo_enrol demo_enrol_env ''wf-one'' ''laptop'' (demo_used (n + 1) qs) = Ok key"
  obtains p q where "peer_Register demo_enrol demo_enrol_env demo_device (demo_used n qs) = (Ok p, demo_used (n + 1) (put_object peer_kind q qs))"
    "ep_NetworkId p = ''wf-one''" "lp_PrivateKey q = ee_KeyString demo_enrol_env key" "lp_Name q = ''laptop''" "lp_Namespace q = ''wf-one''" "\<not> lp_Deleting q"
proof -
  have "pd_Token demo_device = ''Abc''" "pd_AppID demo_device = ''laptop''" "tk_Namespace demo_token = ''wf-one''" by (simp_all add: demo_device_def demo_token_def)
  then show thesis
    using assms that
    by (simp add: peer_Register_def demo_check client_Register_def) (simp add: demo_enrol_def demo_apply_def Let_def demo_used_def peer_object_def)
qed

lemma demo_first_key: "peer_key demo_enrol demo_enrol_env ''wf-one'' ''laptop'' (demo_used n []) = Ok (replicate 32 7)"
  by (simp add: peer_key_def demo_enrol_def demo_peers_def store_crud_def lookup_def demo_used_def demo_enrol_env_def)

lemma demo_next_key:
  assumes "lp_Name q = ''laptop''" "lp_Namespace q = ''wf-one''" "\<not> lp_Deleting q" "lp_PrivateKey q = ee_KeyString demo_enrol_env key"
  shows "peer_key demo_enrol demo_enrol_env ''wf-one'' ''laptop'' (demo_used n (put_object peer_kind q [])) = Ok key"
  using assms by (simp add: peer_key_def demo_enrol_def demo_peers_def store_crud_def lookup_def put_object_def demo_used_def demo_key_text)

lemma demo_enrolling_used: "demo_enrolling = demo_used 5 []"
  by (simp add: demo_enrolling_def demo_used_def demo_token_def)

theorem enrolment_counts_once_witness:
  "\<exists>p w' t q. peer_Register demo_enrol demo_enrol_env demo_device demo_enrolling = (Ok p, w') \<and> demo_stt demo_enrolling (tk_Namespace t, tk_Name t) = Some t \<and>
     demo_stt w' = (demo_stt demo_enrolling)((tk_Namespace t, tk_Name t) \<mapsto> t\<lparr> ts_UsedCount := ts_UsedCount t + 1 \<rparr>) \<and>
     demo_stp w' = (demo_stp demo_enrolling)((tk_Namespace t, ''laptop'') \<mapsto> q) \<and> ep_PrivateKey p = lp_PrivateKey q"
proof -
  obtain p w' where r: "peer_Register demo_enrol demo_enrol_env demo_device demo_enrolling = (Ok p, w')"
    unfolding demo_enrolling_used using demo_registers [OF demo_first_key] by metis
  have "pd_AppID demo_device = ''laptop''" by (simp add: demo_device_def)
  then show ?thesis using r enrolment_counts_once [OF demo_enrol_laws r] by metis
qed


theorem spent_token_accepted_witness: "fst (checkToken demo_enrol demo_enrol_env ''Abc'' demo_enrolling) = Ok demo_token"
proof -
  have only: "demo_stt demo_enrolling k = (if k = (''wf-one'', ''abc'') then Some demo_token else None)" for k
    by (auto simp: demo_stt_def demo_enrolling_def lookup_def demo_token_def)
  have list: "ea_ByStatusToken demo_enrol demo_enrolling ''Abc'' = Ok [demo_token]" by code_simp
  show ?thesis
    by (rule spent_token_accepted [OF demo_enrol_laws _ list])
      (auto simp: demo_enrol_def demo_tokens_ok only demo_token_def split: if_splits)
qed

definition demo_unsettled :: enrol_cluster where
  "demo_unsettled = \<lparr> dc_tokens = [demo_token\<lparr> ts_Token := [], ts_Phase := [], ts_UsedCount := 0, ts_IsExpired := False \<rparr>], dc_peers = [] \<rparr>"

theorem token_settles_witness:
  "\<exists>w2. w2 = snd (token_Reconcile demo_tokens 1 ''wf-one'' ''abc'' (snd (token_Reconcile demo_tokens 1 ''wf-one'' ''abc'' demo_unsettled))) \<and>
     demo_stt w2 (''wf-one'', ''abc'') =
       Some (demo_token\<lparr> ts_BoundPeers := [''laptop''], ts_Phase := [], ts_UsedCount := 1, ts_IsExpired := False \<rparr>) \<and>
     snd (token_Reconcile demo_tokens 1 ''wf-one'' ''abc'' w2) = w2"
proof -
  have t: "demo_stt demo_unsettled (''wf-one'', ''abc'') = Some (demo_token\<lparr> ts_Token := [], ts_Phase := [], ts_UsedCount := 0, ts_IsExpired := False \<rparr>)"
    by (simp add: demo_stt_def demo_unsettled_def lookup_def demo_token_def)
  have s: "settled_token 1 (demo_token\<lparr> ts_Token := [], ts_Phase := [], ts_UsedCount := 0, ts_IsExpired := False \<rparr>) =
      demo_token\<lparr> ts_BoundPeers := [''laptop''], ts_Phase := [], ts_UsedCount := 1, ts_IsExpired := False \<rparr>"
    by (simp add: settled_token_def actual_token_def bind_peers_def Let_def demo_token_def)
  obtain w2 where w2: "w2 = snd (token_Reconcile demo_tokens 1 ''wf-one'' ''abc'' (snd (token_Reconcile demo_tokens 1 ''wf-one'' ''abc'' demo_unsettled)))" by blast
  note S = token_settles [OF demo_tokens_ok(1,2) t w2]
  have "demo_stt w2 (''wf-one'', ''abc'') = Some (demo_token\<lparr> ts_BoundPeers := [''laptop''], ts_Phase := [], ts_UsedCount := 1, ts_IsExpired := False \<rparr>)"
    unfolding conjunct1 [OF S] s by (rule fun_upd_same)
  then show ?thesis using w2 conjunct2 [OF S] by blast
qed

end
