(* ===== verification/Peer_Routes.thy ===== *)
theory Peer_Routes
  imports Enrollment
begin

text \<open>
  The HTTP routes of peers and enrolment tokens (\<open>internal/server/server/api.go\<close>): the middleware of each group, then the handler. Binding of a query or a body
  is an option, \<open>None\<close> if it fails.
\<close>

section \<open>Peers\<close>

definition listPeers ::
  "'w enrol_api \<Rightarrow> db_env \<Rightarrow> presence option \<Rightarrow> gctx \<Rightarrow> (string \<times> 64 word \<times> 64 word) option \<Rightarrow> db \<times> 'w \<Rightarrow> (PeerVo list \<times> nat) response" where
  "listPeers api env pres c query s =
     (case query of
        None \<Rightarrow> BadRequest
      | Some (kw, page, pageSize) \<Rightarrow> ListPeers api env pres (de_now env) (gc_workspace_id c) kw page pageSize s)"

definition updatePeer :: "'w enrol_api \<Rightarrow> PeerDto option \<Rightarrow> 'w \<Rightarrow> PeerVo response \<times> 'w" where
  "updatePeer api body w =
     (case body of
        None \<Rightarrow> (BadRequest, w)
      | Some req \<Rightarrow> (case UpdatePeer api req w of (Inl _, w') \<Rightarrow> (RespError, w') | (Inr vo, w') \<Rightarrow> (RespOK vo, w')))"

definition peerNamespace :: "db_env \<Rightarrow> gctx \<Rightarrow> db \<Rightarrow> db_error + string" where
  "peerNamespace env c d = map_sum id ws_Namespace (Workspaces_GetByID env (gc_workspace_id c) d)"

definition in_namespace :: "db_env \<Rightarrow> gctx \<Rightarrow> (string \<Rightarrow> 'w \<Rightarrow> kube_error option \<times> 'w) \<Rightarrow> db \<times> 'w \<Rightarrow> unit response \<times> 'w" where
  "in_namespace env c act = (\<lambda>(d, w).
     case peerNamespace env c d of
       Inl _ \<Rightarrow> (RespError, w)
     | Inr ns \<Rightarrow> (case act ns w of (Some _, w') \<Rightarrow> (RespError, w') | (None, w') \<Rightarrow> (RespOK (), w')))"

definition disablePeer :: "'w enrol_api \<Rightarrow> db_env \<Rightarrow> gctx \<Rightarrow> string \<Rightarrow> db \<times> 'w \<Rightarrow> unit response \<times> 'w" where
  "disablePeer api env c name = in_namespace env c (\<lambda>ns. DisablePeer api ns name)"

definition enablePeer :: "'w enrol_api \<Rightarrow> db_env \<Rightarrow> gctx \<Rightarrow> string \<Rightarrow> db \<times> 'w \<Rightarrow> unit response \<times> 'w" where
  "enablePeer api env c name = in_namespace env c (\<lambda>ns. EnablePeer api ns name)"

definition deletePeerHandler :: "'w enrol_api \<Rightarrow> db_env \<Rightarrow> gctx \<Rightarrow> string \<Rightarrow> db \<times> 'w \<Rightarrow> unit response \<times> 'w" where
  "deletePeerHandler api env c name = in_namespace env c (\<lambda>ns. DeletePeer api ns name)"

datatype peer_call =
    ListPeersCall "(string \<times> 64 word \<times> 64 word) option" | UpdatePeerCall "PeerDto option" | DisableCall string | EnableCall string | DeleteCall string

datatype peer_reply = PeerPage "PeerVo list" nat | OnePeer PeerVo | NoData

definition peerApi ::
  "'w enrol_api \<Rightarrow> auth_env \<Rightarrow> RevocationList option \<Rightarrow> presence option \<Rightarrow> request \<Rightarrow> peer_call \<Rightarrow> db \<times> 'w \<Rightarrow> peer_reply response \<times> 'w" where
  "peerApi api auth rl pres rq call = (\<lambda>(d, w).
     case WorkspaceAuthMiddleware auth rl RoleViewer rq gctx0 d of
       Inl r \<Rightarrow> (r, w)
     | Inr c \<Rightarrow>
         (case call of
            ListPeersCall query \<Rightarrow> (map_response (\<lambda>(ps, n). PeerPage ps n) (listPeers api (ae_db auth) pres c query (d, w)), w)
          | UpdatePeerCall body \<Rightarrow> map_prod (map_response OnePeer) id (updatePeer api body w)
          | DisableCall name \<Rightarrow> map_prod (map_response (\<lambda>_. NoData)) id (disablePeer api (ae_db auth) c name (d, w))
          | EnableCall name \<Rightarrow> map_prod (map_response (\<lambda>_. NoData)) id (enablePeer api (ae_db auth) c name (d, w))
          | DeleteCall name \<Rightarrow> map_prod (map_response (\<lambda>_. NoData)) id (deletePeerHandler api (ae_db auth) c name (d, w))))"

section \<open>Tokens\<close>

definition generateToken :: "'w enrol_api \<Rightarrow> enrol_env \<Rightarrow> 'w policy_api \<Rightarrow> pol_env \<Rightarrow> gctx \<Rightarrow> db \<times> 'w \<Rightarrow> string response \<times> db \<times> 'w" where
  "generateToken api env papi penv c s =
     (case token_Create api env papi penv (gc_workspace_id c) s of (Inl _, s') \<Rightarrow> (RespError, s') | (Inr t, s') \<Rightarrow> (RespOK t, s'))"

definition rmToken :: "'w enrol_api \<Rightarrow> enrol_env \<Rightarrow> pol_env \<Rightarrow> gctx \<Rightarrow> string \<Rightarrow> db \<times> 'w \<Rightarrow> unit response \<times> db \<times> 'w" where
  "rmToken api env penv c token = (\<lambda>(d, w).
     if token = [] then (RespError, d, w)
     else case token_Delete api env penv (gc_workspace_id c) (ToLower token) (d, w) of
            (Some _, w') \<Rightarrow> (RespError, d, w') | (None, w') \<Rightarrow> (RespOK (), d, w'))"

definition listTokens :: "'w enrol_api \<Rightarrow> db_env \<Rightarrow> gctx \<Rightarrow> (string \<times> 64 word \<times> 64 word) option \<Rightarrow> db \<times> 'w \<Rightarrow> (TokenVo list \<times> nat) response" where
  "listTokens api env c query s =
     (case query of None \<Rightarrow> BadRequest | Some (kw, page, pageSize) \<Rightarrow> ListTokens api env (gc_workspace_id c) kw page pageSize s)"

datatype token_call = GenerateCall | RemoveTokenCall string | ListTokensCall "(string \<times> 64 word \<times> 64 word) option"

datatype token_reply = NewToken string | TokenPage "TokenVo list" nat | TokenGone

definition tokenApi ::
  "'w enrol_api \<Rightarrow> enrol_env \<Rightarrow> 'w policy_api \<Rightarrow> pol_env \<Rightarrow> auth_env \<Rightarrow> RevocationList option \<Rightarrow> request \<Rightarrow> token_call \<Rightarrow> db \<times> 'w \<Rightarrow>
     token_reply response \<times> db \<times> 'w" where
  "tokenApi api env papi penv auth rl rq call s =
     (case WorkspaceAuthMiddleware auth rl RoleViewer rq gctx0 (fst s) of
        Inl r \<Rightarrow> (r, s)
      | Inr c \<Rightarrow>
          (case call of
             GenerateCall \<Rightarrow> map_prod (map_response NewToken) id (generateToken api env papi penv c s)
           | RemoveTokenCall token \<Rightarrow> map_prod (map_response (\<lambda>_. TokenGone)) id (rmToken api env penv c token s)
           | ListTokensCall query \<Rightarrow> (map_response (\<lambda>(ts, n). TokenPage ts n) (listTokens api (po_db penv) c query s), s)))"

section \<open>Which peers a member reaches\<close>

lemma k_Get_served: "crud_serves kd st c \<Longrightarrow> st w (ns, n) = Some x \<Longrightarrow> k_Get c w ns n = Ok x"
  unfolding crud_serves_def by simp

lemma UpdatePeer_relabels:
  assumes "crud_ok peer_kind st others (ea_peers api)" "crud_serves peer_kind st (ea_peers api)" "st w (pd_Namespace dto, pd_Name dto) = Some q"
  obtains vo w' q' where "UpdatePeer api dto w = (Ok vo, w')" "st w' = (st w)((pd_Namespace dto, pd_Name dto) \<mapsto> q')"
    "lp_Labels q' = set_labels (pd_Labels dto) (lp_Labels q)"
proof -
  let ?a = "if pd_DisplayName dto \<noteq> [] then AList.update displayNameAnnotation (pd_DisplayName dto) (lp_Annotations q)
    else AList.delete displayNameAnnotation (lp_Annotations q)"
  let ?x = "q\<lparr> lp_Labels := set_labels (pd_Labels dto) (lp_Labels q), lp_Annotations := ?a \<rparr>"
  have k: "lp_Namespace q = pd_Namespace dto" "lp_Name q = pd_Name dto" "\<not> (lp_Deleting q \<and> lp_Finalizers q = [])"
    using crud_okD(2) [OF assms(1,3)] by simp_all
  have "\<not> isl (fst (k_Update (ea_peers api) w ?x))" using assms(2,3) k(1,2) unfolding crud_serves_def by simp
  then obtain y w' where u: "k_Update (ea_peers api) w ?x = (Inr y, w')"
    by (cases "k_Update (ea_peers api) w ?x", rename_tac r v, case_tac r) simp_all
  have y: "y = with_status q ?x" "st w' = stored peer_kind (st w) y"
    using writes_Ok [OF crud_okD(5) [OF assms(1), of w ?x, unfolded u]] assms(3) k(1,2) by auto
  then have "st w' = (st w)((pd_Namespace dto, pd_Name dto) \<mapsto> y)" using k by (simp add: stored_def)
  moreover have "lp_Labels y = set_labels (pd_Labels dto) (lp_Labels q)" by (simp add: y(1))
  moreover have "\<exists>vo. UpdatePeer api dto w = (Ok vo, w')"
    using u k_Get_served [OF assms(2,3)] by (simp add: UpdatePeer_def Let_def)
  ultimately show thesis using that by blast
qed

text \<open>C36: The route that updates a peer takes the namespace from the body and compares it with nothing: whoever holds any role in one workspace sets the labels of any peer
  of any other, and so decides which policies there apply to it. Disabling, enabling and deleting use the namespace of the workspace that was checked.
\<close>

theorem viewer_relabels_foreign_peer:
  assumes "presented auth rl rq = Some cl" "request_workspace rq \<noteq> []" "holds_role d (request_workspace rq) (cl_Subject cl) RoleViewer"
    and "answers_queries (ae_db auth) d" "user_keys_ok d" "one_membership d"
    and "crud_ok peer_kind st others (ea_peers api)" "crud_serves peer_kind st (ea_peers api)" "st w (pd_Namespace dto, pd_Name dto) = Some q"
  shows "\<exists>vo w' q'. peerApi api auth rl pres rq (UpdatePeerCall (Some dto)) (d, w) = (RespOK (OnePeer vo), w') \<and>
    st w' = (st w)((pd_Namespace dto, pd_Name dto) \<mapsto> q') \<and> lp_Labels q' = set_labels (pd_Labels dto) (lp_Labels q)"
proof -
  obtain c where c: "(WorkspaceAuthMiddleware auth rl RoleViewer rq gctx0 d :: peer_reply response + gctx) = Inr c"
    using workspace_access_admits [OF assms(4-6,1-3)] by blast
  obtain vo w' q' where u: "UpdatePeer api dto w = (Ok vo, w')" "st w' = (st w)((pd_Namespace dto, pd_Name dto) \<mapsto> q')"
    "lp_Labels q' = set_labels (pd_Labels dto) (lp_Labels q)" using UpdatePeer_relabels [OF assms(7-9)] by blast
  have "peerApi api auth rl pres rq (UpdatePeerCall (Some dto)) (d, w) = (RespOK (OnePeer vo), w')" using c u(1) by (simp add: peerApi_def updatePeer_def)
  then show ?thesis using u(2,3) by blast
qed

text \<open>Listing tokens without a page number asks for page zero, and the slice of a negative bound panics; listing peers starts at page one.\<close>

lemma page_zero_panics: "0 < sint n \<Longrightarrow> page_slice 0 n xs = None"
proof -
  assume n: "0 < sint n"
  have "sint (- n) = signed_take_bit 63 (- sint n)" by (simp add: sint_word_ariths)
  also have "\<dots> = - sint n" using n sint_less [of n] by (intro signed_take_bit_int_eq_self) simp_all
  finally have "sint (- n) = - sint n" .
  then show ?thesis using n by (simp add: page_slice_def Let_def)
qed

section \<open>Examples\<close>

definition demo_foreign_peer :: LatticePeer where
  "demo_foreign_peer = empty_LatticePeer\<lparr> lp_Name := ''db'', lp_Namespace := ''wf-one'', lp_Deleting := False, lp_Labels := [(''role'', ''database'')] \<rparr>"

definition demo_relabelling :: PeerDto where
  "demo_relabelling = demo_device\<lparr> pd_Namespace := ''wf-one'', pd_Name := ''db'', pd_Labels := [(''role'', ''public'')] \<rparr>"

lemma demo_peers_ok: "crud_ok peer_kind demo_stp demo_stt demo_peers" "crud_serves peer_kind demo_stp demo_peers"
  unfolding demo_stp_def demo_peers_def
  by (rule store_crud_ok [OF kinds_ok(1)], (simp add: demo_stt_def with_status_def)+) (rule store_crud_serves)

theorem viewer_relabels_foreign_peer_witness:
  "\<exists>vo w' q'. peerApi demo_enrol demo_auth None None (demo_rq ''bob'' ''w2'' [] []) (UpdatePeerCall (Some demo_relabelling))
       (demo_pol_db, \<lparr> dc_tokens = [], dc_peers = [demo_foreign_peer] \<rparr>) = (RespOK (OnePeer vo), w') \<and>
     demo_stp w' (''wf-one'', ''db'') = Some q' \<and> lp_Labels q' = [(''role'', ''public'')]"
proof -
  let ?rq = "demo_rq ''bob'' ''w2'' [] []" and ?w = "\<lparr> dc_tokens = [], dc_peers = [demo_foreign_peer] \<rparr>"
  obtain cl where cl: "presented demo_auth None ?rq = Some cl" "cl_Subject cl = ''bob''" by (simp add: presented_def demo_access_defs)
  have ws: "request_workspace ?rq = ''w2''" by (simp add: request_workspace_def demo_rq_def)
  have ok: "answers_queries (ae_db demo_auth) demo_pol_db" "user_keys_ok demo_pol_db" "one_membership demo_pol_db"
    by (auto simp: answers_queries_def user_keys_ok_def one_membership_def demo_pol_defs)
  have role: "holds_role demo_pol_db (request_workspace ?rq) (cl_Subject cl) RoleViewer"
    unfolding cl(2) ws by (simp add: holds_role_def demo_pol_defs role_names GetRoleWeight_def)
  have q: "demo_stp ?w (pd_Namespace demo_relabelling, pd_Name demo_relabelling) = Some demo_foreign_peer"
    by (simp add: demo_stp_def lookup_def demo_foreign_peer_def demo_relabelling_def)
  have "\<exists>vo w' q'. peerApi demo_enrol demo_auth None None ?rq (UpdatePeerCall (Some demo_relabelling)) (demo_pol_db, ?w) = (RespOK (OnePeer vo), w') \<and>
      demo_stp w' = (demo_stp ?w)((pd_Namespace demo_relabelling, pd_Name demo_relabelling) \<mapsto> q') \<and>
      lp_Labels q' = set_labels (pd_Labels demo_relabelling) (lp_Labels demo_foreign_peer)"
    by (rule viewer_relabels_foreign_peer [where st = demo_stp and others = demo_stt, OF cl(1) _ role ok _ _ q])
      (simp_all add: ws demo_enrol_def demo_peers_ok del: kind_simps)
  moreover have "set_labels (pd_Labels demo_relabelling) (lp_Labels demo_foreign_peer) = [(''role'', ''public'')]"
    "pd_Namespace demo_relabelling = ''wf-one''" "pd_Name demo_relabelling = ''db''"
    by (simp_all add: set_labels_def demo_relabelling_def demo_foreign_peer_def)
  ultimately show ?thesis by (metis fun_upd_same)
qed

end
