(* ===== verification/Spec2Isabelle.thy ===== *)
theory Spec2Isabelle
  imports Lrp_Client Probe_Factory Network_Controller Cluster_Peering Management Peer_Routes
begin

text \<open>
  Lattice builds WireGuard networks on Kubernetes. This library models the parts of it that decide something
  and proves what they decide. File names are under \<open>src/\<close>.

  \<^bold>\<open>The program.\<close> A management server keeps users, workspaces and policies in a database and peers,
  networks and policies as custom resources of a cluster. Controllers reconcile the resources: they give every
  network a range and every peer an address, work out who may talk to whom, and publish a configuration for
  each peer. On a device the agent applies its configuration to WireGuard and the firewall and, for each remote
  peer, a probe looks for a direct path (ICE) and for one through the relay (WRRP, also called LRP) at the same
  time. The relay forwards frames between registered sessions over TCP and QUIC.

  \<^bold>\<open>How the theories correspond to the code.\<close>
  \<^item> \<open>Prelude\<close>, \<open>Wire\<close>, \<open>Net_IP\<close>, \<open>Go_Loop\<close>: what the code uses of Go and its standard library: strings, hex and
    decimal text, byte orders (with the locale \<open>codec\<close>), addresses and ranges, and a loop that may return
    from inside. Machine integers are words of their width.
  \<^item> Interfaces as locales: \<open>Registry\<close> (a keyed table), \<open>Guarded_Machine\<close> (a status with a table of allowed changes),
    each interpreted on the definitions of the components that provide it.
  \<^item> Relay, \<open>internal/relay\<close>: \<open>Lrp_Protocol\<close> (frame header), \<open>Relay_Sessions\<close> (session manager), \<open>Relay_Server\<close>
    (upgrade, TCP and QUIC sessions, their interleaving), \<open>Lrp_Client\<close> (framing, send queue, receive).
  \<^item> Agent, \<open>internal/agent/infra\<close> and \<open>internal/agent/provision\<close>: \<open>Peer_Identity\<close> (identifiers and the peer table),
    \<open>Wrrp_Endpoint\<close> (relay endpoints and the WireGuard bind), \<open>Firewall\<close> (iptables on Linux).
  \<^item> Connections, \<open>internal/server/transport\<close>: \<open>Peer_State\<close> (state machine, roles, WireGuard configurator), \<open>Probe\<close>,
    \<open>Discover\<close> (the race of the two dialers as a step relation), \<open>Signal\<close> (packets), \<open>Ice_Dialer\<close>,
    \<open>Wrrp_Dialer\<close>, \<open>Probe_Factory\<close> (table of probes and dispatch).
  \<^item> Control, \<open>internal/agent/controller\<close> and \<open>internal/agent/ipam\<close>: \<open>Ipam\<close> (ranges and addresses), \<open>Kube_Objects\<close>
    (resources, labels), \<open>Policy\<close> (policy evaluator), \<open>Generator\<close> (configuration of a peer), \<open>Peer_Controller\<close>,
    \<open>Network_Controller\<close>, \<open>Kube_Client\<close> (the client for one kind of object and its laws), \<open>Peering\<close>,
    \<open>Cluster_Peering\<close>.
  \<^item> Management server, \<open>internal/server\<close> and \<open>internal/db\<close>: \<open>Server_Store\<close> (models and repositories), \<open>Access\<close> (roles,
    tokens, middleware, members), \<open>Invitations\<close>,
    \<open>Approvals\<close> (policies, requests and their review), \<open>Users\<close> (accounts, login, profiles), \<open>Workspaces\<close>
    (workspaces and their tenants), \<open>Enrollment\<close> (tokens, their controller, registration of
    devices, heartbeats, with \<open>internal/agent/controller/token_controller.go\<close>), \<open>Peer_Routes\<close> (HTTP routes of
    peers and tokens); \<open>Typed_Store\<close> (invariants of the database as a locale that goes through all
    services once) and \<open>Management\<close> (all of it as one machine).

  A Go struct is a record, an enumeration a datatype, a handler one definition with all its branches; an error
  is the left summand of a result, a panic a value of its own. State is passed explicitly. What belongs to a
  library or a service is a parameter: the Kubernetes client, the ICE agent, cryptography, JSON, clocks and
  random identifiers. Where a theorem relies on their documented behaviour it is a named hypothesis, and the
  theorem's witness gives an instance. The iteration order of Go maps is a parameter as well.

  \<^bold>\<open>What the lemmas show.\<close>
  \<^item> Policies: the iptables chains decide like the policies (\<open>policy_enforced\<close>), and a configuration connects
    exactly the peers its rules name (\<open>connected_iff_ruled\<close>, \<open>computed_peers_reference\<close>).
  \<^item> Addresses: ranges of networks and addresses of peers never overlap in any interleaving of reconciles, and
    allocation is first fit and undone by release.
  \<^item> Controllers: a peer ends up in its network (\<open>peer_joins_network\<close>); a peering, within the cluster or to
    another one, routes each side through the gateways.
  \<^item> Relay: frames reach exactly their addressee, unchanged and in order, under every interleaving of sessions.
  \<^item> Connections: the two ends of a relayed handshake agree and can always recover; the state follows its
    table; the race of dialers returns a transport that was dialled.
  \<^item> Management: a request passes exactly with the required role; invitations are given by administrators and
    used once; a logout is final; a request for approval is
    executed at most once and only when approved, and then acts like the direct way; workspaces are created
    completely and deleted for good; a
    registration counts its token once, registering again keeps the identity of a device and tokens settle;
    this theory adds that platform administrators are only made by
    administrators or the configuration, and that the database stays well typed.
  \<^item> Defects: a number of theorems state what the code does where it does not do what it means to; the
    findings of the manifest refer to them.

  \<^bold>\<open>Bounds and fuel.\<close> No definition uses fuel. Loops that end are functions with a termination proof or
  recursion over their data; the loops of address management, which may not end for a bad mask, are partial
  functions whose value is \<open>None\<close> then, and their theorems prove that they return. Histories and interleavings
  are lists or step relations of any length.

  \<^bold>\<open>Not modelled.\<close> Generated code; command line programs and start-up; sockets, TUN devices and the WireGuard
  library; NATS, TURN, DNS and the eBPF enforcer, which are calls into libraries; provisioning on macOS and
  Windows; monitoring, alerts and telemetry, whose substance is in queries to a metrics store; the services of relays,
  peerings and the audit log; the language model assistant; external login; the web front end. The manifest names the files and the reasons.
\<close>

section \<open>The management server\<close>


text \<open>C8: Over every history of the management server, whoever is a platform administrator at the end was one at the start,
  was made one by a request that presented a valid, unrevoked token of a platform administrator, or
  came in through the configuration: an external login whose address is on the list of
  administrators, or the accounts of the start-up. Members, invitations, workspaces, registration and
  profiles never make one.\<close>

theorem platform_admins_appointed:
  assumes "i \<in> admins (fst (mgmt_run api ops (d, w)))" "i \<notin> admins d"
  shows "\<exists>op\<in>set ops.
    (\<exists>env auth rl rq cl. op = UserReq (env, auth, rl, SystemRoleCall i (Some SystemRolePlatformAdmin), rq) \<and>
       presented auth rl rq = Some cl \<and> cl_SystemRole cl = SystemRolePlatformAdmin) \<or>
    (\<exists>env provider subject email wl. op = ExternalLogin env provider subject email wl \<and> list_ex (\<lambda>a. EqualFold a email) wl) \<or>
    (\<exists>env as. op = Bootstrap env as \<and> as \<noteq> [])"
proof -
  obtain op where op: "op \<in> set ops" "appointed op i" using mgmt_run_admins [OF assms(1)] assms(2) by auto
  show ?thesis
  proof (rule bexI [OF _ op(1)], cases op)
    case (UserReq r)
    obtain env auth rl m rq where r: "r = (env, auth, rl, m, rq)" by (metis prod_cases5)
    show "(\<exists>env auth rl rq cl. op = UserReq (env, auth, rl, SystemRoleCall i (Some SystemRolePlatformAdmin), rq) \<and>
       presented auth rl rq = Some cl \<and> cl_SystemRole cl = SystemRolePlatformAdmin) \<or>
    (\<exists>env provider subject email wl. op = ExternalLogin env provider subject email wl \<and> list_ex (\<lambda>a. EqualFold a email) wl) \<or>
    (\<exists>env as. op = Bootstrap env as \<and> as \<noteq> [])"
      using op(2) unfolding UserReq r by auto
  qed (use op(2) in auto)
qed

theorem platform_admins_appointed_witness:
  "''alice'' \<in> admins (fst (mgmt_run demo_tenant [demo_appointment] (demo_db, []))) \<and>
   (\<exists>env auth rl rq cl. demo_appointment = UserReq (env, auth, rl, SystemRoleCall ''alice'' (Some SystemRolePlatformAdmin), rq) \<and>
      presented auth rl rq = Some cl \<and> cl_SystemRole cl = SystemRolePlatformAdmin)"
proof -
  have a: "''alice'' \<in> admins (fst (mgmt_run demo_tenant [demo_appointment] (demo_db, [])))" "''alice'' \<notin> admins demo_db"
    using demo_appointment_works by blast+
  have n: "demo_appointment \<noteq> ExternalLogin env provider subject email wl" "demo_appointment \<noteq> Bootstrap env as" for env provider subject email wl as
    by (simp_all add: demo_appointment_def)
  show ?thesis using platform_admins_appointed [OF a] a(1) n by simp
qed

end
